(* ===== verification/Prelude.thy ===== *)
theory Prelude
  imports Complex_Main "HOL-Library.List_Lexorder" "HOL-Library.Char_ord"
    "HOL-Library.Product_Lexorder" "HOL-Library.Multiset"
begin

text \<open>
  Shared vocabulary of the development.  Exceptions are values: every Python \<open>raise\<close> of the
  modelled code is an \<open>Inl\<close> of type \<open>error\<close>, and \<open>'a result\<close> is what a call gives back.
  A database transaction maps a database to a result and the new database; when it raises, no new
  database is returned, which is the rollback of \<open>engine.begin()\<close>.  Tables are lists of rows in
  insertion order; a SELECT is a filter, an UPDATE a conditional map, and
  \<open>INSERT .. ON CONFLICT DO NOTHING\<close> the function \<open>insert_once\<close>.  Decimals are rational numbers
  (the code computes at 80 digits, which is exact on the 38 digit values its columns admit) and
  Python integers are \<open>int\<close>.
\<close>

named_theorems result_simps "inversion of successful calls"
named_theorems table_simps "reading and writing tables"

section \<open>Errors and results\<close>

datatype error =
    ValueError string
  | KeyError string
  | ConflictError string
  | PermissionError string
  | RiskBudgetExceededError string
  | StaleMarketObservationError string
  | IntegrityError string
  | StatementError string
  | InvalidOperation
  | TypeError string
  | NoResultFound
  | OverflowError
  | CancelledError
  | BookInvalidError string
  | OtherError string

type_synonym 'a result = "error + 'a"

text \<open>\<open>except ValueError\<close> also catches the three subclasses the code declares.\<close>

fun is_value_error :: "error \<Rightarrow> bool" where
  "is_value_error (ValueError _) = True"
| "is_value_error (ConflictError _) = True"
| "is_value_error (RiskBudgetExceededError _) = True"
| "is_value_error (StaleMarketObservationError _) = True"
| "is_value_error _ = False"

text \<open>The text \<open>str(exc)\<close> of an exception; a \<open>KeyError\<close> prints its argument quoted.\<close>

fun error_text :: "error \<Rightarrow> string" where
  "error_text (KeyError m) = CHR 0x27 # m @ [CHR 0x27]"
| "error_text (ValueError m) = m"
| "error_text (ConflictError m) = m"
| "error_text (PermissionError m) = m"
| "error_text (RiskBudgetExceededError m) = m"
| "error_text (StaleMarketObservationError m) = m"
| "error_text (IntegrityError m) = m"
| "error_text (StatementError m) = m"
| "error_text (TypeError m) = m"
| "error_text InvalidOperation = ''invalid decimal syntax''"
| "error_text NoResultFound = ''No row was found when one was required''"
| "error_text OverflowError = ''int too large to convert to float''"
| "error_text CancelledError = []"
| "error_text (BookInvalidError m) = m"
| "error_text (OtherError _) = []"

text \<open>\<open>type(exc).__name__\<close>\<close>

fun error_name :: "error \<Rightarrow> string" where
  "error_name (KeyError _) = ''KeyError''"
| "error_name (ValueError _) = ''ValueError''"
| "error_name (ConflictError _) = ''ConflictError''"
| "error_name (PermissionError _) = ''PermissionError''"
| "error_name (RiskBudgetExceededError _) = ''RiskBudgetExceededError''"
| "error_name (StaleMarketObservationError _) = ''StaleMarketObservationError''"
| "error_name (IntegrityError _) = ''IntegrityError''"
| "error_name (StatementError _) = ''StatementError''"
| "error_name (TypeError _) = ''TypeError''"
| "error_name InvalidOperation = ''InvalidOperation''"
| "error_name NoResultFound = ''NoResultFound''"
| "error_name OverflowError = ''OverflowError''"
| "error_name CancelledError = ''CancelledError''"
| "error_name (BookInvalidError _) = ''BookInvalidError''"
| "error_name (OtherError name) = name"

text \<open>Sequencing of calls that may raise.\<close>

definition bind :: "'a result \<Rightarrow> ('a \<Rightarrow> 'b result) \<Rightarrow> 'b result" where
  "bind m f = (case m of Inl e \<Rightarrow> Inl e | Inr x \<Rightarrow> f x)"

lemma bind_Inl [simp]: "bind (Inl e) f = Inl e"
  by (simp add: bind_def)

lemma bind_Inr [simp]: "bind (Inr x) f = f x"
  by (simp add: bind_def)

lemma bind_eq_Inr [result_simps]: "bind m f = Inr y \<longleftrightarrow> (\<exists>x. m = Inr x \<and> f x = Inr y)"
  by (cases m) auto

lemma bind_eq_Inl: "bind m f = Inl e \<longleftrightarrow> m = Inl e \<or> (\<exists>x. m = Inr x \<and> f x = Inl e)"
  by (cases m) auto

lemma bind_cong [fundef_cong]:
  "m = m' \<Longrightarrow> (\<And>x. m' = Inr x \<Longrightarrow> f x = g x) \<Longrightarrow> bind m f = bind m' g"
  by (cases m') auto

lemma if_Inl_eq_Inr [result_simps]: "(if c then Inl e else m) = Inr y \<longleftrightarrow> \<not> c \<and> m = Inr y"
  by simp

text \<open>\<open>raise\<close> when a condition holds, as a statement of its own.\<close>

definition raise_if :: "bool \<Rightarrow> error \<Rightarrow> unit result" where
  "raise_if c e = (if c then Inl e else Inr ())"

lemma raise_if_eq_Inr [result_simps]: "raise_if c e = Inr u \<longleftrightarrow> \<not> c"
  by (simp add: raise_if_def)

lemma raise_if_False [simp]: "raise_if False e = Inr ()"
  by (simp add: raise_if_def)

lemma raise_if_True [simp]: "raise_if True e = Inl e"
  by (simp add: raise_if_def)

text \<open>\<open>row is None\<close> checks: the value, or the given error.\<close>

definition or_raise :: "'a option \<Rightarrow> error \<Rightarrow> 'a result" where
  "or_raise v e = (case v of None \<Rightarrow> Inl e | Some x \<Rightarrow> Inr x)"

lemma or_raise_eq_Inr [result_simps]: "or_raise v e = Inr x \<longleftrightarrow> v = Some x"
  by (cases v) (simp_all add: or_raise_def)

lemma or_raise_Some [simp]: "or_raise (Some x) e = Inr x"
  by (simp add: or_raise_def)

lemma or_raise_None [simp]: "or_raise None e = Inl e"
  by (simp add: or_raise_def)

section \<open>Tables\<close>

definition select_where :: "('r \<Rightarrow> bool) \<Rightarrow> 'r list \<Rightarrow> 'r list" where
  "select_where P rows = filter P rows"

definition first_where :: "('r \<Rightarrow> bool) \<Rightarrow> 'r list \<Rightarrow> 'r option" where
  "first_where P rows = find P rows"

definition exists_where :: "('r \<Rightarrow> bool) \<Rightarrow> 'r list \<Rightarrow> bool" where
  "exists_where P rows = list_ex P rows"

definition update_where :: "('r \<Rightarrow> bool) \<Rightarrow> ('r \<Rightarrow> 'r) \<Rightarrow> 'r list \<Rightarrow> 'r list" where
  "update_where P f rows = map (\<lambda>r. if P r then f r else r) rows"

text \<open>\<open>clash r s\<close>: inserting \<open>r\<close> violates a uniqueness constraint because of the stored row \<open>s\<close>.\<close>

definition insert_once :: "('r \<Rightarrow> 'r \<Rightarrow> bool) \<Rightarrow> 'r \<Rightarrow> 'r list \<Rightarrow> 'r list" where
  "insert_once clash r rows = (if list_ex (clash r) rows then rows else rows @ [r])"

definition insert_row :: "('r \<Rightarrow> 'r \<Rightarrow> bool) \<Rightarrow> string \<Rightarrow> 'r \<Rightarrow> 'r list \<Rightarrow> 'r list result" where
  "insert_row clash name r rows =
     (if list_ex (clash r) rows then Inl (IntegrityError name) else Inr (rows @ [r]))"

lemma first_where_Some [table_simps]: "first_where P rows = Some r \<Longrightarrow> r \<in> set rows \<and> P r"
  by (auto simp: first_where_def find_Some_iff)

lemma first_where_None [table_simps]: "first_where P rows = None \<longleftrightarrow> (\<forall>r \<in> set rows. \<not> P r)"
  by (auto simp: first_where_def find_None_iff)

lemma exists_where_iff [table_simps]: "exists_where P rows \<longleftrightarrow> (\<exists>r \<in> set rows. P r)"
  by (simp add: exists_where_def list_ex_iff)

lemma set_update_where [table_simps]:
  "set (update_where P f rows) = (\<lambda>r. if P r then f r else r) ` set rows"
  by (simp add: update_where_def)

lemma length_update_where [simp]: "length (update_where P f rows) = length rows"
  by (simp add: update_where_def)

lemma update_where_key:
  "(\<And>r. key (f r) = key r) \<Longrightarrow> map key (update_where P f rows) = map key rows"
  by (simp add: update_where_def)

lemma update_where_none: "(\<forall>r \<in> set rows. \<not> P r) \<Longrightarrow> update_where P f rows = rows"
  unfolding update_where_def by (rule map_idI) simp

lemma insert_once_set: "set (insert_once clash r rows) \<subseteq> insert r (set rows)"
  by (simp add: insert_once_def subset_insertI)

lemma insert_row_eq_Inr [result_simps]:
  "insert_row clash name r rows = Inr rows' \<longleftrightarrow> (\<forall>s \<in> set rows. \<not> clash r s) \<and> rows' = rows @ [r]"
  by (auto simp: insert_row_def list_ex_iff)

lemma unique_row:
  "distinct (map key rows) \<Longrightarrow> r \<in> set rows \<Longrightarrow> s \<in> set rows \<Longrightarrow> key r = key s \<Longrightarrow> r = s"
  by (auto simp: distinct_map inj_on_def)

lemma first_where_unique:
  assumes "distinct (map key rows)" and "r \<in> set rows"
  shows "first_where (\<lambda>x. key x = key r) rows = Some r"
proof (cases "first_where (\<lambda>x. key x = key r) rows")
  case None
  with assms(2) show ?thesis by (auto simp: first_where_None)
next
  case (Some s)
  with first_where_Some[OF Some] assms show ?thesis by (auto dest: unique_row)
qed

text \<open>What an update of one keyed row does to a sum over the table.\<close>

lemma sum_update_where:
  fixes v :: "'r \<Rightarrow> 'a::ab_group_add"
  assumes "distinct (map key rows)" and "r \<in> set rows"
  shows "(\<Sum>x\<leftarrow>update_where (\<lambda>x. key x = key r) f rows. v x) = (\<Sum>x\<leftarrow>rows. v x) - v r + v (f r)"
  using assms
proof (induction rows)
  case Nil
  then show ?case by simp
next
  case (Cons x xs)
  show ?case
  proof (cases "x = r")
    case True
    with Cons.prems have "\<forall>s \<in> set xs. key s \<noteq> key r" by (auto simp: image_iff)
    then have "update_where (\<lambda>x. key x = key r) f xs = xs" by (simp add: update_where_none)
    with True show ?thesis by (simp add: update_where_def)
  next
    case False
    with Cons.prems have "key x \<noteq> key r" by (auto dest: unique_row[where key = key])
    with False Cons show ?thesis by (simp add: update_where_def)
  qed
qed

lemma sum_update_where_filter:
  fixes v :: "'r \<Rightarrow> 'a::ab_group_add"
  assumes "distinct (map key rows)" and "r \<in> set rows" and "\<And>x. P (f x) = P x"
  shows "(\<Sum>x\<leftarrow>filter P (update_where (\<lambda>x. key x = key r) f rows). v x) =
    (\<Sum>x\<leftarrow>filter P rows. v x) + (if P r then v (f r) - v r else 0)"
proof -
  have "(\<Sum>x\<leftarrow>filter P xs. v x) = (\<Sum>x\<leftarrow>xs. if P x then v x else 0)" for xs
    by (induction xs) auto
  then show ?thesis
    using sum_update_where[OF assms(1,2), where v = "\<lambda>x. if P x then v x else 0" and f = f]
    by (simp add: assms(3))
qed

text \<open>
  The contract of a table whose uniqueness constraints include its primary key.  Every table of the
  schema interprets it with its own key and constraint.
\<close>

locale keyed_table =
  fixes key :: "'r \<Rightarrow> 'k" and clash :: "'r \<Rightarrow> 'r \<Rightarrow> bool"
  assumes key_clash: "key r = key s \<Longrightarrow> clash r s"
begin

lemma insert_once_distinct:
  "distinct (map key rows) \<Longrightarrow> distinct (map key (insert_once clash r rows))"
  by (auto simp: insert_once_def list_ex_iff dest: key_clash)

lemma insert_row_distinct:
  "distinct (map key rows) \<Longrightarrow> insert_row clash name r rows = Inr rows' \<Longrightarrow> distinct (map key rows')"
  by (auto simp: insert_row_eq_Inr dest: key_clash)

lemma insert_once_idem: "insert_once clash r (insert_once clash r rows) = insert_once clash r rows"
  by (simp add: insert_once_def list_ex_iff key_clash)

lemma insert_once_keeps: "s \<in> set rows \<Longrightarrow> s \<in> set (insert_once clash r rows)"
  by (simp add: insert_once_def)

lemma insert_once_present: "s \<in> set rows \<Longrightarrow> key s = key r \<Longrightarrow> insert_once clash r rows = rows"
  using key_clash[of r s] by (auto simp: insert_once_def list_ex_iff)

lemma insert_once_prefix: "\<exists>more. insert_once clash r rows = rows @ more"
  by (simp add: insert_once_def)

lemma update_distinct:
  "distinct (map key rows) \<Longrightarrow> (\<And>x. key (f x) = key x) \<Longrightarrow> distinct (map key (update_where P f rows))"
  by (simp add: update_where_key)

end

section \<open>Transition systems\<close>

text \<open>
  The contract of a state machine with an invariant: it holds initially and every step keeps it.
  Every step relation of the development interprets it.
\<close>

locale transition_system =
  fixes step :: "'s \<Rightarrow> 's \<Rightarrow> bool" and inv :: "'s \<Rightarrow> bool" and init :: 's
  assumes inv_init: "inv init" and inv_step: "step s s' \<Longrightarrow> inv s \<Longrightarrow> inv s'"
begin

lemma inv_steps: "step\<^sup>*\<^sup>* s s' \<Longrightarrow> inv s \<Longrightarrow> inv s'"
  by (induction rule: rtranclp_induct) (auto intro: inv_step)

lemma inv_reachable: "step\<^sup>*\<^sup>* init s \<Longrightarrow> inv s"
  using inv_steps inv_init by blast

lemma related_steps:
  assumes "step\<^sup>*\<^sup>* s s'" and "inv s" and "\<And>a. R a a" and "\<And>a b c. R a b \<Longrightarrow> R b c \<Longrightarrow> R a c"
    and "\<And>a b. inv a \<Longrightarrow> step a b \<Longrightarrow> R a b"
  shows "R s s'"
  using assms(1)
proof (induction rule: rtranclp_induct)
  case base
  show ?case by (rule assms(3))
next
  case (step b c)
  have "inv b" using step.hyps(1) assms(2) by (rule inv_steps)
  then show ?case using step assms(4,5) by blast
qed

end

section \<open>Dictionaries of amounts\<close>

text \<open>
  \<open>totals[k] = totals.get(k, 0) + amount\<close>: Python dictionaries with rational values, as association
  lists in insertion order.
\<close>

fun dict_add :: "'k \<Rightarrow> rat \<Rightarrow> ('k \<times> rat) list \<Rightarrow> ('k \<times> rat) list" where
  "dict_add k x [] = [(k, x)]"
| "dict_add k x ((k', y) # m) = (if k' = k then (k', y + x) # m else (k', y) # dict_add k x m)"

definition dict_get :: "('k \<times> rat) list \<Rightarrow> 'k \<Rightarrow> rat" where
  "dict_get m k = (case map_of m k of None \<Rightarrow> 0 | Some x \<Rightarrow> x)"

definition dict_sum :: "('k \<times> rat) list \<Rightarrow> ('k \<times> rat) list" where
  "dict_sum entries = fold (\<lambda>(k, x). dict_add k x) entries []"

lemma dict_get_Nil [simp]: "dict_get [] k = 0"
  by (simp add: dict_get_def)

lemma dict_get_add: "dict_get (dict_add k x m) j = dict_get m j + (if j = k then x else 0)"
  by (induction k x m rule: dict_add.induct) (auto simp: dict_get_def)

lemma set_dict_add_keys: "fst ` set (dict_add k x m) = insert k (fst ` set m)"
  by (induction k x m rule: dict_add.induct) auto

lemma distinct_dict_add: "distinct (map fst m) \<Longrightarrow> distinct (map fst (dict_add k x m))"
proof (induction k x m rule: dict_add.induct)
  case (2 k x k' y m)
  then show ?case using set_dict_add_keys[of k x m] by auto
qed simp

lemma dict_get_fold:
  "dict_get (fold (\<lambda>(k, x). dict_add k x) es m) j = dict_get m j + (\<Sum>(k, x)\<leftarrow>filter (\<lambda>(k, x). k = j) es. x)"
  by (induction es arbitrary: m) (auto simp: dict_get_add)

lemma dict_get_sum: "dict_get (dict_sum es) j = (\<Sum>(k, x)\<leftarrow>filter (\<lambda>(k, x). k = j) es. x)"
  by (simp add: dict_sum_def dict_get_fold)

lemma distinct_dict_sum: "distinct (map fst (dict_sum es))"
proof -
  have "distinct (map fst m) \<Longrightarrow> distinct (map fst (fold (\<lambda>(k, x). dict_add k x) es m))" for m
    by (induction es arbitrary: m) (auto simp: distinct_dict_add)
  then show ?thesis by (simp add: dict_sum_def)
qed

lemma dict_values: "distinct (map fst m) \<Longrightarrow> (k, x) \<in> set m \<Longrightarrow> dict_get m k = x"
  by (simp add: dict_get_def)

lemma dict_value_iff:
  assumes "distinct (map fst m)"
  shows "(\<forall>(k, x) \<in> set m. P k x) \<longleftrightarrow> (\<forall>k \<in> fst ` set m. P k (dict_get m k))"
  using assms by (force simp: dict_values)

section \<open>Sequence numbers\<close>

text \<open>The numbers 1, 2, 3, .. of an append-only log.\<close>

definition consecutive :: "int list \<Rightarrow> bool" where
  "consecutive xs \<longleftrightarrow> xs = map int [1..<Suc (length xs)]"

lemma consecutive_snoc: "consecutive xs \<Longrightarrow> x = int (length xs) + 1 \<Longrightarrow> consecutive (xs @ [x])"
proof -
  assume "consecutive xs" and x: "x = int (length xs) + 1"
  then have "xs @ [x] = map int [1..<Suc (length xs)] @ [int (Suc (length xs))]"
    by (simp add: consecutive_def del: upt_Suc)
  also have "\<dots> = map int [1..<Suc (Suc (length xs))]" by simp
  finally show ?thesis by (simp add: consecutive_def del: upt_Suc)
qed

lemma consecutive_max:
  assumes "consecutive xs"
  shows "fold max xs 0 = int (length xs)"
proof -
  have "fold max (map int [1..<Suc n]) 0 = int n" for n
    by (induction n) auto
  with assms show ?thesis unfolding consecutive_def by metis
qed

lemma consecutive_bound: "consecutive xs \<Longrightarrow> x \<in> set xs \<Longrightarrow> x \<le> int (length xs)"
  unfolding consecutive_def by (drule arg_cong[where f = set]) (auto simp del: upt_Suc)

text \<open>Sorting rows by a unique column, and reading back the last of each key.\<close>

lemma map_of_rev_last:
  assumes "map_of (rev (map (\<lambda>r. (k r, r)) xs)) x = Some r" and "sorted (map v xs)"
  shows "r \<in> set xs \<and> k r = x \<and> (\<forall>q \<in> set xs. k q = x \<longrightarrow> v q \<le> v r)"
  using assms by (induction xs rule: rev_induct) (auto simp: sorted_append split: if_splits)

lemma sum_list_sort: "(\<Sum>x\<leftarrow>sort_key k xs. f x) = (\<Sum>x\<leftarrow>xs. f x)" for f :: "'a \<Rightarrow> 'b::comm_monoid_add"
proof -
  have "mset (map f (sort_key k xs)) = mset (map f xs)" by simp
  then show ?thesis by (metis sum_mset_sum_list)
qed

end
