(* ===== verification/Canonical.thy ===== *)
theory Canonical
  imports Prelude
begin

text \<open>
  Content-addressed serialization: \<open>src/qt/contracts/base.py\<close>.  JSON values, the canonical text
  \<open>json.dumps(.., sort_keys=True, separators=(",", ":"), ensure_ascii=False)\<close> gives them, and the
  content hash of that text.  The hash function itself (\<open>hashlib.sha256(..).hexdigest()\<close>) is a
  parameter \<open>sha\<close> of every definition that hashes.  A finite float is the text
  \<open>float.__repr__\<close> gives it.  Characters are the bytes of the UTF-8 encoding, whose order is the
  code point order Python sorts keys by.
\<close>

datatype json =
    JNull
  | JBool bool
  | JInt int
  | JFloat string
  | JStr string
  | JArr "json list"
  | JObj "(string \<times> json) list"

type_synonym hasher = "string \<Rightarrow> string"

section \<open>Numbers as text\<close>

definition digit_char :: "nat \<Rightarrow> char" where
  "digit_char n = char_of (48 + n)"

fun nat_text :: "nat \<Rightarrow> string" where
  "nat_text n = (if n < 10 then [digit_char n] else nat_text (n div 10) @ [digit_char (n mod 10)])"

declare nat_text.simps [simp del]

definition whole_text :: "int \<Rightarrow> string" where
  "whole_text i = nat_text (nat i)"

definition int_text :: "int \<Rightarrow> string" where
  "int_text i = (if i < 0 then ''-'' @ whole_text (- i) else whole_text i)"

text \<open>The same digits computed on integers, for evaluation.\<close>

function int_digits :: "int \<Rightarrow> string" where
  "int_digits i = (if i < 10 then [digit_char (nat i)] else int_digits (i div 10) @ [digit_char (nat (i mod 10))])"
  by auto
termination
  by (relation "measure nat") (auto simp: nat_div_distrib)

declare int_digits.simps [simp del]

lemma whole_text_code [code]: "whole_text i = int_digits i"
proof (induction i rule: int_digits.induct)
  case (1 i)
  show ?case
  proof (cases "i < 10")
    case True
    then have "nat i < 10" by simp
    with True show ?thesis by (simp add: whole_text_def int_digits.simps[of i] nat_text.simps[of "nat i"])
  next
    case False
    then have "whole_text (i div 10) = int_digits (i div 10)" by (rule 1)
    moreover have "\<not> nat i < 10" using False by simp
    ultimately show ?thesis
      using False by (simp add: whole_text_def int_digits.simps[of i] nat_text.simps[of "nat i"] nat_div_distrib nat_mod_distrib)
  qed
qed

text \<open>The digits after the decimal point, without trailing zeros, at most \<open>k\<close> of them.\<close>

fun frac_text :: "nat \<Rightarrow> rat \<Rightarrow> string" where
  "frac_text k f =
     (if k = 0 \<or> f = 0 then []
      else digit_char (nat \<lfloor>10 * f\<rfloor>) # frac_text (k - 1) (10 * f - of_int \<lfloor>10 * f\<rfloor>))"

declare frac_text.simps [simp del]

text \<open>
  \<open>decimal_string\<close>: no exponent, no trailing zeros, no negative zero.  It is applied to finite
  values with at most 1000 fractional digits, on which it never raises; the canonical text depends
  on the value only.
\<close>

definition decimal_string :: "rat \<Rightarrow> string" where
  "decimal_string d =
     (if d = 0 then ''0''
      else let a = \<bar>d\<bar>; frac = frac_text 1000 (a - of_int \<lfloor>a\<rfloor>)
           in (if d < 0 then ''-'' else []) @ whole_text \<lfloor>a\<rfloor> @
              (if frac = [] then [] else ''.'' @ frac))"

section \<open>Canonical JSON\<close>

definition hex_digit :: "nat \<Rightarrow> char" where
  "hex_digit n = char_of (if n < 10 then 48 + n else 87 + n)"

definition escape_char :: "char \<Rightarrow> string" where
  "escape_char c =
     (let n = of_char c :: nat in
      if n = 34 then [CHR 0x5C, CHR 0x22]
      else if n = 92 then [CHR 0x5C, CHR 0x5C]
      else if n = 10 then CHR 0x5C # ''n''
      else if n = 13 then CHR 0x5C # ''r''
      else if n = 9 then CHR 0x5C # ''t''
      else if n = 8 then CHR 0x5C # ''b''
      else if n = 12 then CHR 0x5C # ''f''
      else if n < 32 then CHR 0x5C # ''u00'' @ [hex_digit (n div 16), hex_digit (n mod 16)]
      else [c])"

definition json_text :: "string \<Rightarrow> string" where
  "json_text s = [CHR 0x22] @ concat (map escape_char s) @ [CHR 0x22]"

fun join :: "string \<Rightarrow> string list \<Rightarrow> string" where
  "join sep [] = []"
| "join sep [x] = x"
| "join sep (x # y # xs) = x @ sep @ join sep (y # xs)"

fun canonical_json :: "json \<Rightarrow> string" where
  "canonical_json JNull = ''null''"
| "canonical_json (JBool b) = (if b then ''true'' else ''false'')"
| "canonical_json (JInt i) = int_text i"
| "canonical_json (JFloat r) = r"
| "canonical_json (JStr s) = json_text s"
| "canonical_json (JArr xs) = ''['' @ join '','' (map canonical_json xs) @ '']''"
| "canonical_json (JObj kvs) =
     ''{'' @ join '','' (map snd (sort_key fst
        (map (\<lambda>(k, v). (k, json_text k @ '':'' @ canonical_json v)) kvs))) @ ''}''"

definition content_hash :: "hasher \<Rightarrow> json \<Rightarrow> string" where
  "content_hash sha v = sha (canonical_json v)"

text \<open>Reading a JSON object: \<open>value.get(key)\<close>.\<close>

definition jget :: "json \<Rightarrow> string \<Rightarrow> json option" where
  "jget v k = (case v of JObj kvs \<Rightarrow> map_of kvs k | _ \<Rightarrow> None)"

definition jopt :: "('a \<Rightarrow> json) \<Rightarrow> 'a option \<Rightarrow> json" where
  "jopt f v = (case v of None \<Rightarrow> JNull | Some x \<Rightarrow> f x)"

abbreviation jdec :: "rat \<Rightarrow> json" where
  "jdec d \<equiv> JStr (decimal_string d)"

section \<open>Calendar dates\<close>

text \<open>
  \<open>datetime.fromtimestamp(now // 10**9, tz=utc).date()\<close> as a day number since the epoch, and
  \<open>.isoformat()\<close> of a day number: the proleptic Gregorian calendar in eras of 400 years.
\<close>

definition utc_day :: "int \<Rightarrow> int" where
  "utc_day now = (now div 1000000000) div 86400"

definition civil_date :: "int \<Rightarrow> int \<times> int \<times> int" where
  "civil_date day =
     (let z = day + 719468; era = z div 146097; doe = z mod 146097;
          yoe = (doe - doe div 1460 + doe div 36524 - doe div 146096) div 365;
          doy = doe - (365 * yoe + yoe div 4 - yoe div 100);
          mp = (5 * doy + 2) div 153;
          m = (if mp < 10 then mp + 3 else mp - 9);
          y = yoe + era * 400 + (if m \<le> 2 then 1 else 0)
      in (y, m, doy - (153 * mp + 2) div 5 + 1))"

definition padded :: "nat \<Rightarrow> int \<Rightarrow> string" where
  "padded k n = (let s = int_text n in replicate (k - length s) (CHR ''0'') @ s)"

definition iso_month :: "int \<Rightarrow> string" where
  "iso_month day = (case civil_date day of (y, m, _) \<Rightarrow> padded 4 y @ ''-'' @ padded 2 m)"

definition iso_date :: "int \<Rightarrow> string" where
  "iso_date day = (case civil_date day of (y, m, dd) \<Rightarrow> iso_month day @ ''-'' @ padded 2 dd)"

section \<open>Order of members\<close>

text \<open>
  The order in which a caller writes the members of an object does not matter: the canonical text,
  and so the content hash, is a function of the mapping.
\<close>

lemma canonical_json_object_order:
  assumes "mset kvs = mset kvs'" and "distinct (map fst kvs)"
  shows "canonical_json (JObj kvs) = canonical_json (JObj kvs')"
proof -
  let ?f = "\<lambda>(k, v). (k, json_text k @ '':'' @ canonical_json v)"
  have "distinct (map fst (map ?f kvs))"
    using assms(2) by (simp add: case_prod_unfold comp_def)
  then have "inj_on fst (set (map ?f kvs))" by (simp only: distinct_map)
  moreover have "mset (map ?f kvs) = mset (map ?f kvs')" using assms(1) by simp
  ultimately have "sort_key fst (map ?f kvs) = sort_key fst (map ?f kvs')"
    by (intro sort_key_eq_sort_key)
  then show ?thesis by simp
qed

end
