(* ===== verification/Contracts.thy ===== *)
theory Contracts
  imports Canonical
begin

text \<open>
  The public V2 contracts, \<open>src/qt/contracts/models.py\<close>: one record per pydantic class with the
  fields in the source's order, and for each a predicate \<open>valid_..\<close> that holds exactly when the
  constructor accepts the field values (the \<open>Field\<close> constraints of the annotated types of
  \<open>contracts/base.py\<close> and the class's own validator; a violation is the \<open>ValueError\<close> pydantic raises).
  \<open>.._json\<close> is \<open>model_dump(mode="json")\<close>, of which \<open>content_hash()\<close> is taken.
\<close>

section \<open>Field types\<close>

definition fits_numeric :: "rat \<Rightarrow> bool" where
  "fits_numeric d \<longleftrightarrow> \<bar>d\<bar> < 10 ^ 20 \<and> of_int \<lfloor>d * 10 ^ 18\<rfloor> = d * 10 ^ 18"

definition valid_positive :: "rat \<Rightarrow> bool" where
  "valid_positive d \<longleftrightarrow> fits_numeric d \<and> d > 0"

definition valid_nonnegative :: "rat \<Rightarrow> bool" where
  "valid_nonnegative d \<longleftrightarrow> fits_numeric d \<and> d \<ge> 0"

definition valid_probability :: "rat \<Rightarrow> bool" where
  "valid_probability d \<longleftrightarrow> fits_numeric d \<and> 0 \<le> d \<and> d \<le> 1"

definition valid_timestamp :: "int \<Rightarrow> bool" where
  "valid_timestamp t \<longleftrightarrow> 0 \<le> t \<and> t \<le> 2 ^ 63 - 1"

text \<open>Texts are their UTF-8 bytes, so the bound counts bytes; it is the source's bound on ASCII text.\<close>

definition valid_nonempty :: "string \<Rightarrow> bool" where
  "valid_nonempty s \<longleftrightarrow> 1 \<le> length s \<and> length s \<le> 4096"

definition hex_lower :: "char \<Rightarrow> bool" where
  "hex_lower c \<longleftrightarrow> (CHR ''a'' \<le> c \<and> c \<le> CHR ''f'') \<or> (CHR ''0'' \<le> c \<and> c \<le> CHR ''9'')"

definition valid_sha256 :: "string \<Rightarrow> bool" where
  "valid_sha256 s \<longleftrightarrow> length s = 64 \<and> list_all hex_lower s"

definition opt_all :: "('a \<Rightarrow> bool) \<Rightarrow> 'a option \<Rightarrow> bool" where
  "opt_all P v = (case v of None \<Rightarrow> True | Some x \<Rightarrow> P x)"

lemma opt_all_simps [simp]: "opt_all P None" "opt_all P (Some x) = P x"
  by (simp_all add: opt_all_def)

section \<open>Market data and instruments\<close>

datatype market_event_type =
  E_snapshot | E_delta | E_trade | E_quote | E_bar | E_funding | E_liquidation
| E_news | E_onchain | E_instrument | E_heartbeat

record market_event =
  me_venue :: string
  me_instrument :: string
  me_event_type :: market_event_type
  me_exchange_ts_ns :: int
  me_received_ts_ns :: int
  me_sequence :: "int option"
  me_payload :: "(string \<times> json) list"
  me_quality_flags :: "string list"
  me_published_at_ns :: "int option"
  me_available_at_ns :: "int option"
  me_revision_id :: string
  me_source_hash :: "string option"

definition valid_market_event :: "market_event \<Rightarrow> bool" where
  "valid_market_event e \<longleftrightarrow>
     valid_nonempty (me_venue e) \<and> valid_nonempty (me_instrument e) \<and>
     valid_timestamp (me_exchange_ts_ns e) \<and> valid_timestamp (me_received_ts_ns e) \<and>
     opt_all valid_timestamp (me_sequence e) \<and>
     opt_all valid_timestamp (me_published_at_ns e) \<and>
     opt_all valid_timestamp (me_available_at_ns e) \<and>
     valid_nonempty (me_revision_id e) \<and> opt_all valid_sha256 (me_source_hash e) \<and>
     opt_all (\<lambda>t. t \<le> me_received_ts_ns e) (me_available_at_ns e)"

datatype instrument_type = spot | perpetual | future | prediction

record instrument_spec =
  is_venue :: string
  is_instrument :: string
  is_base_asset :: string
  is_quote_asset :: string
  is_settlement_asset :: string
  is_price_increment :: rat
  is_quantity_increment :: rat
  is_minimum_quantity :: rat
  is_minimum_notional :: rat
  is_contract_multiplier :: rat
  is_instrument_type :: instrument_type
  is_trading_sessions :: "string list"
  is_effective_from_ns :: int
  is_effective_to_ns :: "int option"
  is_native_identifiers :: "(string \<times> json) list"
  is_source :: string

definition valid_instrument_spec :: "instrument_spec \<Rightarrow> bool" where
  "valid_instrument_spec i \<longleftrightarrow>
     valid_nonempty (is_venue i) \<and> valid_nonempty (is_instrument i) \<and>
     valid_nonempty (is_base_asset i) \<and> valid_nonempty (is_quote_asset i) \<and>
     valid_nonempty (is_settlement_asset i) \<and> valid_positive (is_price_increment i) \<and>
     valid_positive (is_quantity_increment i) \<and> valid_positive (is_minimum_quantity i) \<and>
     valid_nonnegative (is_minimum_notional i) \<and> valid_positive (is_contract_multiplier i) \<and>
     valid_timestamp (is_effective_from_ns i) \<and> opt_all valid_timestamp (is_effective_to_ns i) \<and>
     valid_nonempty (is_source i) \<and>
     opt_all (\<lambda>t. is_effective_from_ns i < t) (is_effective_to_ns i)"

fun instrument_type_text :: "instrument_type \<Rightarrow> string" where
  "instrument_type_text spot = ''spot''"
| "instrument_type_text perpetual = ''perpetual''"
| "instrument_type_text future = ''future''"
| "instrument_type_text prediction = ''prediction''"

definition instrument_json :: "instrument_spec \<Rightarrow> json" where
  "instrument_json i = JObj
     [(''schema_version'', JStr ''2.0''), (''venue'', JStr (is_venue i)),
      (''instrument'', JStr (is_instrument i)), (''base_asset'', JStr (is_base_asset i)),
      (''quote_asset'', JStr (is_quote_asset i)), (''settlement_asset'', JStr (is_settlement_asset i)),
      (''price_increment'', jdec (is_price_increment i)),
      (''quantity_increment'', jdec (is_quantity_increment i)),
      (''minimum_quantity'', jdec (is_minimum_quantity i)),
      (''minimum_notional'', jdec (is_minimum_notional i)),
      (''contract_multiplier'', jdec (is_contract_multiplier i)),
      (''instrument_type'', JStr (instrument_type_text (is_instrument_type i))),
      (''trading_sessions'', JArr (map JStr (is_trading_sessions i))),
      (''effective_from_ns'', JInt (is_effective_from_ns i)),
      (''effective_to_ns'', jopt JInt (is_effective_to_ns i)),
      (''native_identifiers'', JObj (is_native_identifiers i)), (''source'', JStr (is_source i))]"

datatype fee_basis = notional | shares | price_curve

record fee_schedule =
  fs_venue :: string
  fs_account_tier :: string
  fs_maker_rate :: rat
  fs_taker_rate :: rat
  fs_fee_basis :: fee_basis
  fs_fee_asset :: string
  fs_funding_rules :: "(string \<times> json) list"
  fs_fee_rules :: "(string \<times> json) list"
  fs_effective_from_ns :: int
  fs_effective_to_ns :: "int option"
  fs_source :: string
  fs_source_hash :: string

definition valid_fee_schedule :: "fee_schedule \<Rightarrow> bool" where
  "valid_fee_schedule f \<longleftrightarrow>
     valid_nonempty (fs_venue f) \<and> valid_nonempty (fs_account_tier f) \<and>
     fits_numeric (fs_maker_rate f) \<and> fits_numeric (fs_taker_rate f) \<and>
     valid_nonempty (fs_fee_asset f) \<and>
     valid_timestamp (fs_effective_from_ns f) \<and> opt_all valid_timestamp (fs_effective_to_ns f) \<and>
     valid_nonempty (fs_source f) \<and> valid_sha256 (fs_source_hash f) \<and>
     opt_all (\<lambda>t. fs_effective_from_ns f < t) (fs_effective_to_ns f)"

fun fee_basis_text :: "fee_basis \<Rightarrow> string" where
  "fee_basis_text notional = ''notional''"
| "fee_basis_text shares = ''shares''"
| "fee_basis_text price_curve = ''price_curve''"

definition fees_json :: "fee_schedule \<Rightarrow> json" where
  "fees_json f = JObj
     [(''schema_version'', JStr ''2.0''), (''venue'', JStr (fs_venue f)),
      (''account_tier'', JStr (fs_account_tier f)), (''maker_rate'', jdec (fs_maker_rate f)),
      (''taker_rate'', jdec (fs_taker_rate f)), (''fee_basis'', JStr (fee_basis_text (fs_fee_basis f))),
      (''fee_asset'', JStr (fs_fee_asset f)), (''funding_rules'', JObj (fs_funding_rules f)),
      (''fee_rules'', JObj (fs_fee_rules f)), (''effective_from_ns'', JInt (fs_effective_from_ns f)),
      (''effective_to_ns'', jopt JInt (fs_effective_to_ns f)), (''source'', JStr (fs_source f)),
      (''source_hash'', JStr (fs_source_hash f))]"

section \<open>Datasets\<close>

record data_gap =
  dg_start_ns :: int
  dg_end_ns :: int
  dg_missing_count :: int
  dg_reason :: string

definition valid_data_gap :: "data_gap \<Rightarrow> bool" where
  "valid_data_gap g \<longleftrightarrow>
     valid_timestamp (dg_start_ns g) \<and> valid_timestamp (dg_end_ns g) \<and>
     1 \<le> dg_missing_count g \<and> valid_nonempty (dg_reason g) \<and> dg_start_ns g \<le> dg_end_ns g"

record dataset_file =
  df_relative_path :: string
  df_sha256 :: string
  df_bytes :: int
  df_rows :: int
  df_start_ns :: int
  df_end_ns :: int

definition valid_dataset_file :: "dataset_file \<Rightarrow> bool" where
  "valid_dataset_file f \<longleftrightarrow>
     valid_nonempty (df_relative_path f) \<and> valid_sha256 (df_sha256 f) \<and>
     1 \<le> df_bytes f \<and> 1 \<le> df_rows f \<and>
     valid_timestamp (df_start_ns f) \<and> valid_timestamp (df_end_ns f) \<and> df_start_ns f \<le> df_end_ns f"

datatype availability = received | reconstructed_available

record dataset_manifest =
  dsm_dataset_id :: string
  dsm_files :: "dataset_file list"
  dsm_venue :: string
  dsm_instrument :: string
  dsm_data_type :: string
  dsm_timestamp_column :: string
  dsm_rows :: int
  dsm_start_ns :: int
  dsm_end_ns :: int
  dsm_expected_interval_ns :: "int option"
  dsm_gaps :: "data_gap list"
  dsm_revision_id :: string
  dsm_availability :: availability
  dsm_rights :: string
  dsm_provenance :: "(string \<times> json) list"
  dsm_columns :: "string list"
  dsm_arrow_schema :: string

definition valid_dataset_manifest :: "dataset_manifest \<Rightarrow> bool" where
  "valid_dataset_manifest m \<longleftrightarrow>
     valid_sha256 (dsm_dataset_id m) \<and>
     1 \<le> length (dsm_files m) \<and> list_all valid_dataset_file (dsm_files m) \<and>
     valid_nonempty (dsm_venue m) \<and> valid_nonempty (dsm_instrument m) \<and>
     valid_nonempty (dsm_data_type m) \<and> valid_nonempty (dsm_timestamp_column m) \<and>
     1 \<le> dsm_rows m \<and> valid_timestamp (dsm_start_ns m) \<and> valid_timestamp (dsm_end_ns m) \<and>
     opt_all (\<lambda>t. 0 < t) (dsm_expected_interval_ns m) \<and> list_all valid_data_gap (dsm_gaps m) \<and>
     valid_nonempty (dsm_revision_id m) \<and> valid_nonempty (dsm_rights m) \<and>
     1 \<le> length (dsm_columns m) \<and> valid_nonempty (dsm_arrow_schema m) \<and>
     distinct (map df_relative_path (dsm_files m)) \<and>
     (\<Sum>p\<leftarrow>dsm_files m. df_rows p) = dsm_rows m \<and>
     Min (set (map df_start_ns (dsm_files m))) = dsm_start_ns m \<and>
     Max (set (map df_end_ns (dsm_files m))) = dsm_end_ns m"

section \<open>Strategies and experiments\<close>

record risk_budget =
  rb_capital :: rat
  rb_currency :: string
  rb_maximum_position_fraction :: rat
  rb_maximum_order_fraction :: rat
  rb_planned_loss_fraction :: rat
  rb_maximum_drawdown_fraction :: rat
  rb_maximum_daily_loss_fraction :: rat
  rb_maximum_leverage :: rat

definition valid_risk_budget :: "risk_budget \<Rightarrow> bool" where
  "valid_risk_budget b \<longleftrightarrow>
     valid_positive (rb_capital b) \<and> valid_nonempty (rb_currency b) \<and>
     valid_probability (rb_maximum_position_fraction b) \<and>
     valid_probability (rb_maximum_order_fraction b) \<and>
     valid_probability (rb_planned_loss_fraction b) \<and>
     valid_probability (rb_maximum_drawdown_fraction b) \<and>
     valid_probability (rb_maximum_daily_loss_fraction b) \<and>
     valid_positive (rb_maximum_leverage b)"

definition risk_budget_json :: "risk_budget \<Rightarrow> json" where
  "risk_budget_json b = JObj
     [(''schema_version'', JStr ''2.0''), (''capital'', jdec (rb_capital b)),
      (''currency'', JStr (rb_currency b)),
      (''maximum_position_fraction'', jdec (rb_maximum_position_fraction b)),
      (''maximum_order_fraction'', jdec (rb_maximum_order_fraction b)),
      (''planned_loss_fraction'', jdec (rb_planned_loss_fraction b)),
      (''maximum_drawdown_fraction'', jdec (rb_maximum_drawdown_fraction b)),
      (''maximum_daily_loss_fraction'', jdec (rb_maximum_daily_loss_fraction b)),
      (''maximum_leverage'', jdec (rb_maximum_leverage b))]"

record strategy_artifact =
  sa_strategy_id :: string
  sa_version :: string
  sa_code_hash :: string
  sa_parameters :: "(string \<times> json) list"
  sa_feature_dependencies :: "string list"
  sa_instruments :: "string list"
  sa_signal_interval_ns :: int
  sa_signal_ttl_ns :: int
  sa_exit_rules :: "(string \<times> json) list"
  sa_risk_budget :: risk_budget
  sa_engine_compatibility :: "string list"

definition valid_strategy_artifact :: "strategy_artifact \<Rightarrow> bool" where
  "valid_strategy_artifact a \<longleftrightarrow>
     valid_nonempty (sa_strategy_id a) \<and> valid_nonempty (sa_version a) \<and>
     valid_sha256 (sa_code_hash a) \<and> 1 \<le> length (sa_instruments a) \<and>
     0 < sa_signal_interval_ns a \<and> 0 < sa_signal_ttl_ns a \<and>
     valid_risk_budget (sa_risk_budget a) \<and> 1 \<le> length (sa_engine_compatibility a)"

datatype split_method = walk_forward | holdout | cpcv

record split_spec =
  ss_method :: split_method
  ss_training_start_ns :: int
  ss_training_end_ns :: int
  ss_validation_end_ns :: int
  ss_test_end_ns :: int
  ss_folds :: int
  ss_purge_ns :: int
  ss_embargo_ns :: int
  ss_label_information_interval :: string
  ss_final_holdout :: bool

definition valid_split_spec :: "split_spec \<Rightarrow> bool" where
  "valid_split_spec s \<longleftrightarrow>
     valid_timestamp (ss_training_start_ns s) \<and> valid_timestamp (ss_training_end_ns s) \<and>
     valid_timestamp (ss_validation_end_ns s) \<and> valid_timestamp (ss_test_end_ns s) \<and>
     1 \<le> ss_folds s \<and> 0 \<le> ss_purge_ns s \<and> 0 \<le> ss_embargo_ns s \<and>
     valid_nonempty (ss_label_information_interval s) \<and>
     ss_training_start_ns s < ss_training_end_ns s \<and>
     ss_training_end_ns s \<le> ss_validation_end_ns s \<and> ss_validation_end_ns s < ss_test_end_ns s"

record cost_model =
  cm_version :: string
  cm_fee_schedule_hashes :: "string list"
  cm_slippage_bps :: rat
  cm_funding_enabled :: bool
  cm_borrow_enabled :: bool
  cm_capital_cost_bps_per_day :: rat

definition valid_cost_model :: "cost_model \<Rightarrow> bool" where
  "valid_cost_model c \<longleftrightarrow>
     valid_nonempty (cm_version c) \<and> 1 \<le> length (cm_fee_schedule_hashes c) \<and>
     list_all valid_sha256 (cm_fee_schedule_hashes c) \<and> valid_nonnegative (cm_slippage_bps c) \<and>
     valid_nonnegative (cm_capital_cost_bps_per_day c)"

record model_spec =
  msp_name :: string
  msp_version :: string
  msp_parameters :: "(string \<times> json) list"

definition valid_model_spec :: "model_spec \<Rightarrow> bool" where
  "valid_model_spec m \<longleftrightarrow> valid_nonempty (msp_name m) \<and> valid_nonempty (msp_version m)"

record latency_model =
  lm_version :: string
  lm_feed_ns :: int
  lm_decision_ns :: int
  lm_submission_ns :: int
  lm_exchange_ns :: int
  lm_parameters :: "(string \<times> json) list"

definition valid_latency_model :: "latency_model \<Rightarrow> bool" where
  "valid_latency_model l \<longleftrightarrow>
     valid_nonempty (lm_version l) \<and> 0 \<le> lm_feed_ns l \<and> 0 \<le> lm_decision_ns l \<and>
     0 \<le> lm_submission_ns l \<and> 0 \<le> lm_exchange_ns l"

datatype engine_name = nautilus | hftbacktest | fixture_engine

record engine_spec =
  es_name :: engine_name
  es_version :: string
  es_image_digest :: string

definition valid_engine_spec :: "engine_spec \<Rightarrow> bool" where
  "valid_engine_spec e \<longleftrightarrow> valid_nonempty (es_version e) \<and> valid_nonempty (es_image_digest e)"

record experiment_spec =
  xs_campaign_id :: string
  xs_strategy_version :: string
  xs_dataset_ids :: "string list"
  xs_instruments :: "string list"
  xs_timeframes_ns :: "int list"
  xs_instrument_spec_hashes :: "string list"
  xs_split :: split_spec
  xs_cost_model :: cost_model
  xs_fill_model :: model_spec
  xs_latency_model :: latency_model
  xs_benchmarks :: "string list"
  xs_seed :: int
  xs_engine :: engine_spec
  xs_policy_version :: string

definition valid_experiment_spec :: "experiment_spec \<Rightarrow> bool" where
  "valid_experiment_spec x \<longleftrightarrow>
     valid_nonempty (xs_campaign_id x) \<and> valid_nonempty (xs_strategy_version x) \<and>
     1 \<le> length (xs_dataset_ids x) \<and> list_all valid_sha256 (xs_dataset_ids x) \<and>
     1 \<le> length (xs_instruments x) \<and> 1 \<le> length (xs_timeframes_ns x) \<and>
     list_all valid_sha256 (xs_instrument_spec_hashes x) \<and> valid_split_spec (xs_split x) \<and>
     valid_cost_model (xs_cost_model x) \<and> valid_model_spec (xs_fill_model x) \<and>
     valid_latency_model (xs_latency_model x) \<and> 1 \<le> length (xs_benchmarks x) \<and>
     0 \<le> xs_seed x \<and> valid_engine_spec (xs_engine x) \<and> valid_nonempty (xs_policy_version x) \<and>
     list_all (\<lambda>t. 0 < t) (xs_timeframes_ns x)"

section \<open>Results and forecasts\<close>

text \<open>Metric values are finite floats, which are rational numbers.\<close>

record metric_result =
  mr_value :: "rat option"
  mr_reason :: "string option"
  mr_sample_count :: int
  mr_effective_sample_count :: "rat option"
  mr_confidence_lower :: "rat option"
  mr_confidence_upper :: "rat option"
  mr_calculation_version :: string
  mr_start_ns :: int
  mr_end_ns :: int

definition valid_metric_result :: "metric_result \<Rightarrow> bool" where
  "valid_metric_result m \<longleftrightarrow>
     0 \<le> mr_sample_count m \<and> opt_all (\<lambda>n. 0 \<le> n) (mr_effective_sample_count m) \<and>
     valid_nonempty (mr_calculation_version m) \<and>
     valid_timestamp (mr_start_ns m) \<and> valid_timestamp (mr_end_ns m) \<and>
     \<not> (mr_value m = None \<and> (mr_reason m = None \<or> mr_reason m = Some [])) \<and>
     mr_start_ns m \<le> mr_end_ns m \<and>
     (mr_confidence_lower m = None) = (mr_confidence_upper m = None) \<and>
     opt_all (\<lambda>l. opt_all (\<lambda>u. l \<le> u) (mr_confidence_upper m)) (mr_confidence_lower m)"

datatype gate_status = gate_pass | gate_fail | gate_insufficient | gate_not_applicable

record gate_result =
  gr_name :: string
  gr_status :: gate_status
  gr_reason :: string
  gr_evidence_hashes :: "string list"

definition valid_gate_result :: "gate_result \<Rightarrow> bool" where
  "valid_gate_result g \<longleftrightarrow>
     valid_nonempty (gr_name g) \<and> valid_nonempty (gr_reason g) \<and>
     list_all valid_sha256 (gr_evidence_hashes g)"

record validation_report =
  vr_experiment_hash :: string
  vr_policy_version :: string
  vr_integrity :: "gate_result list"
  vr_metrics :: "(string \<times> metric_result) list"
  vr_statistical_tests :: "gate_result list"
  vr_search_campaign_id :: string
  vr_trial_count :: int
  vr_search_complete :: bool
  vr_stress_results :: "gate_result list"
  vr_gates :: "gate_result list"
  vr_evidence_artifacts :: "string list"
  vr_created_at_ns :: int

definition valid_validation_report :: "validation_report \<Rightarrow> bool" where
  "valid_validation_report r \<longleftrightarrow>
     valid_sha256 (vr_experiment_hash r) \<and> valid_nonempty (vr_policy_version r) \<and>
     list_all valid_gate_result (vr_integrity r) \<and>
     list_all (\<lambda>(n, m). valid_metric_result m) (vr_metrics r) \<and>
     list_all valid_gate_result (vr_statistical_tests r) \<and>
     valid_nonempty (vr_search_campaign_id r) \<and> 1 \<le> vr_trial_count r \<and>
     list_all valid_gate_result (vr_stress_results r) \<and> list_all valid_gate_result (vr_gates r) \<and>
     list_all valid_sha256 (vr_evidence_artifacts r) \<and> valid_timestamp (vr_created_at_ns r)"

datatype prediction_mode = blind | market_conditioned

record forecast_record =
  fr_forecast_id :: string
  fr_event_id :: string
  fr_event_cluster_id :: string
  fr_market_id :: string
  fr_outcome_id :: string
  fr_probability :: rat
  fr_market_bid :: "rat option"
  fr_market_ask :: "rat option"
  fr_market_mid :: "rat option"
  fr_market_probability_missing_reason :: "string option"
  fr_decision_at_ns :: int
  fr_horizon_end_ns :: int
  fr_model_provider :: string
  fr_model_id :: string
  fr_prompt_hash :: string
  fr_rules_hash :: string
  fr_prediction_mode :: prediction_mode
  fr_evidence_hashes :: "string list"

definition valid_forecast_record :: "forecast_record \<Rightarrow> bool" where
  "valid_forecast_record f \<longleftrightarrow>
     valid_nonempty (fr_forecast_id f) \<and> valid_nonempty (fr_event_id f) \<and>
     valid_nonempty (fr_event_cluster_id f) \<and> valid_nonempty (fr_market_id f) \<and>
     valid_nonempty (fr_outcome_id f) \<and> valid_probability (fr_probability f) \<and>
     opt_all valid_probability (fr_market_bid f) \<and> opt_all valid_probability (fr_market_ask f) \<and>
     opt_all valid_probability (fr_market_mid f) \<and>
     valid_timestamp (fr_decision_at_ns f) \<and> valid_timestamp (fr_horizon_end_ns f) \<and>
     valid_nonempty (fr_model_provider f) \<and> valid_nonempty (fr_model_id f) \<and>
     valid_sha256 (fr_prompt_hash f) \<and> valid_sha256 (fr_rules_hash f) \<and>
     list_all valid_sha256 (fr_evidence_hashes f) \<and>
     fr_decision_at_ns f < fr_horizon_end_ns f \<and>
     \<not> (fr_market_mid f = None \<and> (fr_market_probability_missing_reason f = None \<or>
                                fr_market_probability_missing_reason f = Some [])) \<and>
     opt_all (\<lambda>b. opt_all (\<lambda>a. b \<le> a \<and> opt_all (\<lambda>m. b \<le> m \<and> m \<le> a) (fr_market_mid f))
        (fr_market_ask f)) (fr_market_bid f)"

section \<open>Deployments, intents and orders\<close>

datatype risk_mode = ACTIVE | REDUCE_ONLY | HALTED | EMERGENCY_EXIT
datatype deployment_mode = paper | shadow | live_canary

fun mode_text :: "risk_mode \<Rightarrow> string" where
  "mode_text ACTIVE = ''ACTIVE''"
| "mode_text REDUCE_ONLY = ''REDUCE_ONLY''"
| "mode_text HALTED = ''HALTED''"
| "mode_text EMERGENCY_EXIT = ''EMERGENCY_EXIT''"

record deployment_manifest =
  dm_deployment_id :: string
  dm_strategy_hash :: string
  dm_provider :: string
  dm_model_id :: string
  dm_prompt_hash :: string
  dm_tools_hash :: string
  dm_risk_policy_hash :: string
  dm_fee_schedule_hashes :: "string list"
  dm_validation_report_hash :: string
  dm_venue :: string
  dm_account_id :: string
  dm_mode :: deployment_mode
  dm_risk_budget :: risk_budget
  dm_valid_from_ns :: int
  dm_valid_until_ns :: int
  dm_signature :: string

definition valid_deployment_manifest :: "deployment_manifest \<Rightarrow> bool" where
  "valid_deployment_manifest m \<longleftrightarrow>
     valid_nonempty (dm_deployment_id m) \<and> valid_sha256 (dm_strategy_hash m) \<and>
     valid_nonempty (dm_provider m) \<and> valid_nonempty (dm_model_id m) \<and>
     valid_sha256 (dm_prompt_hash m) \<and> valid_sha256 (dm_tools_hash m) \<and>
     valid_sha256 (dm_risk_policy_hash m) \<and>
     1 \<le> length (dm_fee_schedule_hashes m) \<and> list_all valid_sha256 (dm_fee_schedule_hashes m) \<and>
     valid_sha256 (dm_validation_report_hash m) \<and> valid_nonempty (dm_venue m) \<and>
     valid_nonempty (dm_account_id m) \<and> valid_risk_budget (dm_risk_budget m) \<and>
     valid_timestamp (dm_valid_from_ns m) \<and> valid_timestamp (dm_valid_until_ns m) \<and>
     valid_nonempty (dm_signature m) \<and> dm_valid_from_ns m < dm_valid_until_ns m"

fun deployment_mode_text :: "deployment_mode \<Rightarrow> string" where
  "deployment_mode_text paper = ''paper''"
| "deployment_mode_text shadow = ''shadow''"
| "deployment_mode_text live_canary = ''live_canary''"

text \<open>\<open>model_dump(mode="json", exclude={"signature"})\<close>, the signed text, and the whole dump.\<close>

definition unsigned_fields :: "deployment_manifest \<Rightarrow> (string \<times> json) list" where
  "unsigned_fields m =
     [(''schema_version'', JStr ''2.0''), (''deployment_id'', JStr (dm_deployment_id m)),
      (''strategy_hash'', JStr (dm_strategy_hash m)), (''provider'', JStr (dm_provider m)),
      (''model_id'', JStr (dm_model_id m)), (''prompt_hash'', JStr (dm_prompt_hash m)),
      (''tools_hash'', JStr (dm_tools_hash m)), (''risk_policy_hash'', JStr (dm_risk_policy_hash m)),
      (''fee_schedule_hashes'', JArr (map JStr (dm_fee_schedule_hashes m))),
      (''validation_report_hash'', JStr (dm_validation_report_hash m)),
      (''venue'', JStr (dm_venue m)), (''account_id'', JStr (dm_account_id m)),
      (''mode'', JStr (deployment_mode_text (dm_mode m))),
      (''risk_budget'', risk_budget_json (dm_risk_budget m)),
      (''valid_from_ns'', JInt (dm_valid_from_ns m)), (''valid_until_ns'', JInt (dm_valid_until_ns m))]"

definition manifest_json :: "deployment_manifest \<Rightarrow> json" where
  "manifest_json m = JObj (unsigned_fields m @ [(''signature'', JStr (dm_signature m))])"

record signal_intent =
  si_signal_id :: string
  si_deployment_id :: string
  si_event_id :: string
  si_instrument :: string
  si_target_position :: rat
  si_produced_at_ns :: int
  si_valid_until_ns :: int
  si_reason_codes :: "string list"

definition valid_signal_intent :: "signal_intent \<Rightarrow> bool" where
  "valid_signal_intent s \<longleftrightarrow>
     valid_nonempty (si_signal_id s) \<and> valid_nonempty (si_deployment_id s) \<and>
     valid_nonempty (si_event_id s) \<and> valid_nonempty (si_instrument s) \<and>
     fits_numeric (si_target_position s) \<and> valid_timestamp (si_produced_at_ns s) \<and>
     valid_timestamp (si_valid_until_ns s) \<and> 1 \<le> length (si_reason_codes s) \<and>
     si_produced_at_ns s < si_valid_until_ns s"

datatype side = buy | sell
datatype time_in_force = GTC | IOC | FOK | GTD

record order_intent =
  oi_intent_id :: string
  oi_account_id :: string
  oi_deployment_id :: string
  oi_signal_id :: string
  oi_leg_no :: int
  oi_venue :: string
  oi_instrument :: string
  oi_side :: side
  oi_quantity :: rat
  oi_limit_price :: rat
  oi_time_in_force :: time_in_force
  oi_strategy_hash :: string
  oi_policy_hash :: string
  oi_fee_schedule_hash :: string
  oi_instrument_spec_hash :: string
  oi_risk_reservation_id :: string
  oi_created_at_ns :: int
  oi_valid_until_ns :: int
  oi_reduce_only :: bool

definition valid_order_intent :: "order_intent \<Rightarrow> bool" where
  "valid_order_intent i \<longleftrightarrow>
     valid_nonempty (oi_intent_id i) \<and> valid_nonempty (oi_account_id i) \<and>
     valid_nonempty (oi_deployment_id i) \<and> valid_nonempty (oi_signal_id i) \<and> 0 \<le> oi_leg_no i \<and>
     valid_nonempty (oi_venue i) \<and> valid_nonempty (oi_instrument i) \<and>
     valid_positive (oi_quantity i) \<and> valid_positive (oi_limit_price i) \<and>
     valid_sha256 (oi_strategy_hash i) \<and> valid_sha256 (oi_policy_hash i) \<and>
     valid_sha256 (oi_fee_schedule_hash i) \<and> valid_sha256 (oi_instrument_spec_hash i) \<and>
     valid_nonempty (oi_risk_reservation_id i) \<and> valid_timestamp (oi_created_at_ns i) \<and>
     valid_timestamp (oi_valid_until_ns i) \<and> oi_created_at_ns i < oi_valid_until_ns i"

fun side_text :: "side \<Rightarrow> string" where
  "side_text buy = ''buy''"
| "side_text sell = ''sell''"

fun tif_text :: "time_in_force \<Rightarrow> string" where
  "tif_text GTC = ''GTC''"
| "tif_text IOC = ''IOC''"
| "tif_text FOK = ''FOK''"
| "tif_text GTD = ''GTD''"

definition intent_json :: "order_intent \<Rightarrow> json" where
  "intent_json i = JObj
     [(''schema_version'', JStr ''2.0''), (''intent_id'', JStr (oi_intent_id i)),
      (''account_id'', JStr (oi_account_id i)), (''deployment_id'', JStr (oi_deployment_id i)),
      (''signal_id'', JStr (oi_signal_id i)), (''leg_no'', JInt (oi_leg_no i)),
      (''venue'', JStr (oi_venue i)), (''instrument'', JStr (oi_instrument i)),
      (''side'', JStr (side_text (oi_side i))), (''quantity'', jdec (oi_quantity i)),
      (''limit_price'', jdec (oi_limit_price i)),
      (''time_in_force'', JStr (tif_text (oi_time_in_force i))),
      (''strategy_hash'', JStr (oi_strategy_hash i)), (''policy_hash'', JStr (oi_policy_hash i)),
      (''fee_schedule_hash'', JStr (oi_fee_schedule_hash i)),
      (''instrument_spec_hash'', JStr (oi_instrument_spec_hash i)),
      (''risk_reservation_id'', JStr (oi_risk_reservation_id i)),
      (''created_at_ns'', JInt (oi_created_at_ns i)), (''valid_until_ns'', JInt (oi_valid_until_ns i)),
      (''reduce_only'', JBool (oi_reduce_only i))]"

record order_identity =
  id_venue :: string
  id_account_id :: string
  id_intent_id :: string
  id_venue_order_id :: "string option"

definition valid_order_identity :: "order_identity \<Rightarrow> bool" where
  "valid_order_identity i \<longleftrightarrow>
     valid_nonempty (id_venue i) \<and> valid_nonempty (id_account_id i) \<and> valid_nonempty (id_intent_id i)"

definition identity_json :: "order_identity \<Rightarrow> json" where
  "identity_json i = JObj
     [(''schema_version'', JStr ''2.0''), (''venue'', JStr (id_venue i)),
      (''account_id'', JStr (id_account_id i)), (''intent_id'', JStr (id_intent_id i)),
      (''venue_order_id'', jopt JStr (id_venue_order_id i))]"

datatype submit_status = accepted | submit_rejected | submit_unknown

record submit_result =
  sr_status :: submit_status
  sr_identity :: order_identity
  sr_received_at_ns :: int
  sr_reason :: "string option"

definition valid_submit_result :: "submit_result \<Rightarrow> bool" where
  "valid_submit_result r \<longleftrightarrow>
     valid_order_identity (sr_identity r) \<and> valid_timestamp (sr_received_at_ns r)"

fun submit_status_text :: "submit_status \<Rightarrow> string" where
  "submit_status_text accepted = ''accepted''"
| "submit_status_text submit_rejected = ''rejected''"
| "submit_status_text submit_unknown = ''unknown''"

definition submit_result_fields :: "submit_result \<Rightarrow> (string \<times> json) list" where
  "submit_result_fields r =
     [(''schema_version'', JStr ''2.0''), (''status'', JStr (submit_status_text (sr_status r))),
      (''identity'', identity_json (sr_identity r)), (''received_at_ns'', JInt (sr_received_at_ns r)),
      (''reason'', jopt JStr (sr_reason r))]"

datatype cancel_status = confirmed | cancel_rejected | cancel_unknown

record cancel_result =
  cr_status :: cancel_status
  cr_identity :: order_identity
  cr_received_at_ns :: int
  cr_reason :: "string option"

definition valid_cancel_result :: "cancel_result \<Rightarrow> bool" where
  "valid_cancel_result r \<longleftrightarrow>
     valid_order_identity (cr_identity r) \<and> valid_timestamp (cr_received_at_ns r)"

fun cancel_status_text :: "cancel_status \<Rightarrow> string" where
  "cancel_status_text confirmed = ''confirmed''"
| "cancel_status_text cancel_rejected = ''rejected''"
| "cancel_status_text cancel_unknown = ''unknown''"

definition cancel_result_fields :: "cancel_result \<Rightarrow> (string \<times> json) list" where
  "cancel_result_fields r =
     [(''schema_version'', JStr ''2.0''), (''status'', JStr (cancel_status_text (cr_status r))),
      (''identity'', identity_json (cr_identity r)), (''received_at_ns'', JInt (cr_received_at_ns r)),
      (''reason'', jopt JStr (cr_reason r))]"

datatype order_status =
  CREATED | RESERVED | SUBMITTING | ACKNOWLEDGED | PARTIALLY_FILLED | FILLED
| REJECTED | CANCEL_PENDING | CANCELED | EXPIRED | UNKNOWN

datatype settlement_status = NOT_REQUIRED | PENDING | CONFIRMED | FAILED | REORGED

fun status_text :: "order_status \<Rightarrow> string" where
  "status_text CREATED = ''CREATED''"
| "status_text RESERVED = ''RESERVED''"
| "status_text SUBMITTING = ''SUBMITTING''"
| "status_text ACKNOWLEDGED = ''ACKNOWLEDGED''"
| "status_text PARTIALLY_FILLED = ''PARTIALLY_FILLED''"
| "status_text FILLED = ''FILLED''"
| "status_text REJECTED = ''REJECTED''"
| "status_text CANCEL_PENDING = ''CANCEL_PENDING''"
| "status_text CANCELED = ''CANCELED''"
| "status_text EXPIRED = ''EXPIRED''"
| "status_text UNKNOWN = ''UNKNOWN''"

fun settlement_text :: "settlement_status \<Rightarrow> string" where
  "settlement_text NOT_REQUIRED = ''NOT_REQUIRED''"
| "settlement_text PENDING = ''PENDING''"
| "settlement_text CONFIRMED = ''CONFIRMED''"
| "settlement_text FAILED = ''FAILED''"
| "settlement_text REORGED = ''REORGED''"

record order_snapshot =
  os_identity :: order_identity
  os_status :: order_status
  os_settlement_status :: settlement_status
  os_quantity :: rat
  os_filled_quantity :: rat
  os_asof_ns :: int

definition valid_order_snapshot :: "order_snapshot \<Rightarrow> bool" where
  "valid_order_snapshot s \<longleftrightarrow>
     valid_order_identity (os_identity s) \<and> valid_positive (os_quantity s) \<and>
     valid_nonnegative (os_filled_quantity s) \<and> valid_timestamp (os_asof_ns s) \<and>
     os_filled_quantity s \<le> os_quantity s \<and>
     \<not> (os_status s = FILLED \<and> os_filled_quantity s \<noteq> os_quantity s) \<and>
     \<not> (os_status s = PARTIALLY_FILLED \<and>
        \<not> (0 < os_filled_quantity s \<and> os_filled_quantity s < os_quantity s))"

definition order_snapshot_fields :: "order_snapshot \<Rightarrow> (string \<times> json) list" where
  "order_snapshot_fields s =
     [(''schema_version'', JStr ''2.0''), (''identity'', identity_json (os_identity s)),
      (''status'', JStr (status_text (os_status s))),
      (''settlement_status'', JStr (settlement_text (os_settlement_status s))),
      (''quantity'', jdec (os_quantity s)), (''filled_quantity'', jdec (os_filled_quantity s)),
      (''asof_ns'', JInt (os_asof_ns s))]"

record reconcile_cursor =
  rc_venue :: string
  rc_account_id :: string
  rc_cursor :: "string option"

definition valid_reconcile_cursor :: "reconcile_cursor \<Rightarrow> bool" where
  "valid_reconcile_cursor c \<longleftrightarrow> valid_nonempty (rc_venue c) \<and> valid_nonempty (rc_account_id c)"

record reconcile_batch =
  bt_next_cursor :: reconcile_cursor
  bt_orders :: "order_snapshot list"
  bt_fills :: "json list"
  bt_complete :: bool

definition valid_reconcile_batch :: "reconcile_batch \<Rightarrow> bool" where
  "valid_reconcile_batch b \<longleftrightarrow>
     valid_reconcile_cursor (bt_next_cursor b) \<and> list_all valid_order_snapshot (bt_orders b) \<and>
     list_all (\<lambda>f. case f of JObj _ \<Rightarrow> True | _ \<Rightarrow> False) (bt_fills b)"

section \<open>Portfolio, market snapshots and risk decisions\<close>

record position =
  ps_instrument :: string
  ps_quantity :: rat
  ps_mark_price :: rat

definition valid_position :: "position \<Rightarrow> bool" where
  "valid_position p \<longleftrightarrow>
     valid_nonempty (ps_instrument p) \<and> fits_numeric (ps_quantity p) \<and> valid_positive (ps_mark_price p)"

record portfolio_snapshot =
  pf_account_id :: string
  pf_asof_ns :: int
  pf_currency :: string
  pf_net_asset_value :: rat
  pf_positions :: "position list"
  pf_balances :: "(string \<times> json) list"
  pf_trusted :: bool

definition valid_portfolio_snapshot :: "portfolio_snapshot \<Rightarrow> bool" where
  "valid_portfolio_snapshot p \<longleftrightarrow>
     valid_nonempty (pf_account_id p) \<and> valid_timestamp (pf_asof_ns p) \<and>
     valid_nonempty (pf_currency p) \<and> valid_nonnegative (pf_net_asset_value p) \<and>
     list_all valid_position (pf_positions p)"

record market_snapshot =
  mk_venue :: string
  mk_instrument :: string
  mk_bid :: rat
  mk_ask :: rat
  mk_asof_ns :: int
  mk_book_valid :: bool
  mk_instrument_spec_hash :: string
  mk_fee_schedule_hash :: string

definition valid_market_snapshot :: "market_snapshot \<Rightarrow> bool" where
  "valid_market_snapshot m \<longleftrightarrow>
     valid_nonempty (mk_venue m) \<and> valid_nonempty (mk_instrument m) \<and>
     valid_positive (mk_bid m) \<and> valid_positive (mk_ask m) \<and> valid_timestamp (mk_asof_ns m) \<and>
     valid_sha256 (mk_instrument_spec_hash m) \<and> valid_sha256 (mk_fee_schedule_hash m) \<and>
     mk_bid m < mk_ask m"

definition market_json :: "market_snapshot \<Rightarrow> json" where
  "market_json m = JObj
     [(''schema_version'', JStr ''2.0''), (''venue'', JStr (mk_venue m)),
      (''instrument'', JStr (mk_instrument m)), (''bid'', jdec (mk_bid m)), (''ask'', jdec (mk_ask m)),
      (''asof_ns'', JInt (mk_asof_ns m)), (''book_valid'', JBool (mk_book_valid m)),
      (''instrument_spec_hash'', JStr (mk_instrument_spec_hash m)),
      (''fee_schedule_hash'', JStr (mk_fee_schedule_hash m))]"

record risk_decision =
  rd_approved :: bool
  rd_reason_codes :: "string list"
  rd_reservation_id :: "string option"
  rd_order_intent :: "order_intent option"

definition valid_risk_decision :: "risk_decision \<Rightarrow> bool" where
  "valid_risk_decision d \<longleftrightarrow>
     1 \<le> length (rd_reason_codes d) \<and> opt_all valid_order_intent (rd_order_intent d) \<and>
     \<not> (rd_approved d \<and> (rd_reservation_id d = None \<or> rd_reservation_id d = Some [] \<or>
                          rd_order_intent d = None)) \<and>
     opt_all (\<lambda>i. rd_reservation_id d = Some (oi_risk_reservation_id i)) (rd_order_intent d) \<and>
     \<not> (\<not> rd_approved d \<and> rd_order_intent d \<noteq> None)"

section \<open>Model calls and experiment results\<close>

record model_request =
  mq_run_id :: string
  mq_model_id :: string
  mq_prompt_hash :: string
  mq_prompt :: string
  mq_tools_hash :: string
  mq_evidence_hashes :: "string list"

definition valid_model_request :: "model_request \<Rightarrow> bool" where
  "valid_model_request r \<longleftrightarrow>
     valid_nonempty (mq_run_id r) \<and> valid_nonempty (mq_model_id r) \<and> valid_sha256 (mq_prompt_hash r) \<and>
     1 \<le> length (mq_prompt r) \<and> length (mq_prompt r) \<le> 1000000 \<and> valid_sha256 (mq_tools_hash r) \<and>
     list_all valid_sha256 (mq_evidence_hashes r)"

record call_budget =
  cb_maximum_cost_usd :: rat
  cb_maximum_input_tokens :: int
  cb_maximum_output_tokens :: int
  cb_deadline_ns :: int

definition valid_call_budget :: "call_budget \<Rightarrow> bool" where
  "valid_call_budget b \<longleftrightarrow>
     valid_nonnegative (cb_maximum_cost_usd b) \<and> 1 \<le> cb_maximum_input_tokens b \<and>
     1 \<le> cb_maximum_output_tokens b \<and> valid_timestamp (cb_deadline_ns b)"

record model_result =
  ml_provider :: string
  ml_model_id :: string
  ml_output :: "(string \<times> json) list"
  ml_input_tokens :: int
  ml_output_tokens :: int
  ml_cost_usd :: rat
  ml_raw_artifact_hash :: string
  ml_raw_response :: "(string \<times> json) list option"

definition valid_model_result :: "model_result \<Rightarrow> bool" where
  "valid_model_result r \<longleftrightarrow>
     valid_nonempty (ml_provider r) \<and> valid_nonempty (ml_model_id r) \<and> 0 \<le> ml_input_tokens r \<and>
     0 \<le> ml_output_tokens r \<and> valid_nonnegative (ml_cost_usd r) \<and> valid_sha256 (ml_raw_artifact_hash r)"

datatype experiment_status = completed | failed | canceled

record experiment_result =
  xr_experiment_hash :: string
  xr_status :: experiment_status
  xr_metrics :: "(string \<times> metric_result) list"
  xr_artifact_hashes :: "string list"
  xr_reason :: "string option"

definition valid_experiment_result :: "experiment_result \<Rightarrow> bool" where
  "valid_experiment_result r \<longleftrightarrow>
     valid_sha256 (xr_experiment_hash r) \<and>
     list_all (\<lambda>(n, m). valid_metric_result m) (xr_metrics r) \<and>
     list_all valid_sha256 (xr_artifact_hashes r)"

end
