(* ===== verification/Wire.thy ===== *)
theory Wire
  imports Contracts
begin

text \<open>
  Reading contracts back from the wire: the decimal parser \<open>_decimal\<close> of
  \<open>src/qt/contracts/base.py\<close> and \<open>ExecutableMarketSnapshot.model_validate\<close> on stored JSON.  A failed
  validation, a \<open>ValueError\<close>, is \<open>None\<close>.  Printing followed by parsing is the identity on every value
  a contract admits.
\<close>

section \<open>Decimal text\<close>

definition is_digit :: "char \<Rightarrow> bool" where
  "is_digit c \<longleftrightarrow> CHR ''0'' \<le> c \<and> c \<le> CHR ''9''"

definition digit_value :: "char \<Rightarrow> nat" where
  "digit_value c = of_char c - 48"

definition digits_value :: "string \<Rightarrow> nat" where
  "digits_value s = foldl (\<lambda>a c. 10 * a + digit_value c) 0 s"

definition pow10 :: "int \<Rightarrow> rat" where
  "pow10 e = (if 0 \<le> e then 10 ^ nat e else 1 / 10 ^ nat (- e))"

fun split_sign :: "string \<Rightarrow> bool \<times> string" where
  "split_sign (c # s) =
     (if c = CHR ''-'' then (True, s) else if c = CHR ''+'' then (False, s) else (False, c # s))"
| "split_sign [] = (False, [])"

fun parse_exponent :: "string \<Rightarrow> int option" where
  "parse_exponent [] = Some 0"
| "parse_exponent (c # s) =
     (if c = CHR ''e'' \<or> c = CHR ''E'' then
        (let (neg, ds) = split_sign s in
         if ds \<noteq> [] \<and> list_all is_digit ds
         then Some (if neg then - int (digits_value ds) else int (digits_value ds)) else None)
      else None)"

text \<open>
  The number syntax: value, exponent (as of \<open>as_tuple\<close>) and adjusted exponent of a decimal text.
\<close>

definition decimal_parts :: "string \<Rightarrow> (rat \<times> int \<times> int) option" where
  "decimal_parts s =
     (let (neg, s1) = split_sign s;
          whole = takeWhile is_digit s1;
          r = dropWhile is_digit s1;
          (frac, r2) = (case r of [] \<Rightarrow> ([], [])
                        | c # r' \<Rightarrow> if c = CHR ''.'' then (takeWhile is_digit r', dropWhile is_digit r')
                                  else ([], r))
      in if whole = [] \<and> frac = [] then None
         else case parse_exponent r2 of
             None \<Rightarrow> None
           | Some e \<Rightarrow>
               let coeff = digits_value (whole @ frac);
                   expo = e - int (length frac);
                   adjusted = (if coeff = 0 then expo else int (length (nat_text coeff)) - 1 + expo);
                   value = (if neg then - 1 else 1) * of_nat coeff * pow10 expo
               in Some (value, expo, adjusted))"

text \<open>The same computed on integers, for evaluation.\<close>

definition digits_int :: "string \<Rightarrow> int" where
  "digits_int s = foldl (\<lambda>a c. 10 * a + int (digit_value c)) 0 s"

lemma digits_int: "int (digits_value s) = digits_int s"
proof -
  have "int (foldl (\<lambda>a c. 10 * a + digit_value c) n s) = foldl (\<lambda>a c. 10 * a + int (digit_value c)) (int n) s" for n
    by (induction s arbitrary: n) auto
  from this[of 0] show ?thesis by (simp add: digits_value_def digits_int_def)
qed

lemma digits_value_code [code]: "digits_value s = nat (digits_int s)"
  by (simp flip: digits_int)

lemma decimal_parts_code [code]:
  "decimal_parts s =
     (let (neg, s1) = split_sign s;
          whole = takeWhile is_digit s1;
          r = dropWhile is_digit s1;
          (frac, r2) = (case r of [] \<Rightarrow> ([], [])
                        | c # r' \<Rightarrow> if c = CHR ''.'' then (takeWhile is_digit r', dropWhile is_digit r')
                                  else ([], r))
      in if whole = [] \<and> frac = [] then None
         else case parse_exponent r2 of
             None \<Rightarrow> None
           | Some e \<Rightarrow>
               let coeff = digits_int (whole @ frac);
                   expo = e - int (length frac);
                   adjusted = (if coeff = 0 then expo else int (length (whole_text coeff)) - 1 + expo);
                   value = (if neg then - 1 else 1) * of_int coeff * pow10 expo
               in Some (value, expo, adjusted))"
  unfolding decimal_parts_def digits_int[symmetric] whole_text_def Let_def nat_int of_nat_eq_0_iff
    of_int_of_nat_eq by (rule refl)

text \<open>
  \<open>Decimal(text)\<close>, and the money field's \<open>_decimal\<close> of a string.  Python would also take underscores
  between digits and blanks around the text; here such a text is refused.
\<close>

definition decimal_value :: "string \<Rightarrow> rat option" where
  "decimal_value s = map_option fst (decimal_parts s)"

definition parse_decimal :: "string \<Rightarrow> rat option" where
  "parse_decimal s =
     (if 128 < length s then None
      else case decimal_parts s of
          None \<Rightarrow> None
        | Some (value, expo, adjusted) \<Rightarrow>
            if 1000 < \<bar>expo\<bar> \<or> 19 < adjusted \<or> \<not> fits_numeric value then None else Some value)"

lemma of_char_char_of_digit: "n < 10 \<Longrightarrow> of_char (digit_char n) = 48 + n"
  by (simp add: digit_char_def of_char_of)

lemma digit_value_char: "n < 10 \<Longrightarrow> digit_value (digit_char n) = n"
  by (simp add: digit_value_def of_char_char_of_digit)

lemma is_digit_char: "n < 10 \<Longrightarrow> is_digit (digit_char n)"
  by (simp add: is_digit_def less_eq_char_def of_char_char_of_digit)

lemma digits_value_snoc: "digits_value (s @ [c]) = 10 * digits_value s + digit_value c"
  by (simp add: digits_value_def)

lemma digits_value_append: "digits_value (s @ t) = digits_value s * 10 ^ length t + digits_value t"
  by (induction t rule: rev_induct)
     (simp_all add: digits_value_snoc append_assoc[symmetric] digits_value_def algebra_simps del: append_assoc)

lemma digits_value_single: "digits_value [c] = digit_value c"
  by (simp add: digits_value_def)

lemma nat_text_value: "digits_value (nat_text n) = n"
proof (induction n rule: nat_text.induct)
  case (1 n)
  show ?case
  proof (cases "n < 10")
    case True
    then show ?thesis by (simp add: nat_text.simps[of n] digits_value_single digit_value_char)
  next
    case False
    with 1 show ?thesis by (simp add: nat_text.simps[of n] digits_value_snoc digit_value_char)
  qed
qed

lemma nat_text_digits: "list_all is_digit (nat_text n)"
proof (induction n rule: nat_text.induct)
  case (1 n)
  then show ?case by (cases "n < 10") (simp_all add: nat_text.simps[of n] is_digit_char)
qed

lemma nat_text_nonempty: "nat_text n \<noteq> []"
  by (subst nat_text.simps) simp

lemma nat_text_length: "n < 10 ^ k \<Longrightarrow> 0 < k \<Longrightarrow> length (nat_text n) \<le> k"
proof (induction n arbitrary: k rule: nat_text.induct)
  case (1 n)
  show ?case
  proof (cases "n < 10")
    case True
    with 1 show ?thesis by (simp add: nat_text.simps[of n])
  next
    case False
    with 1(2,3) obtain j where k: "k = Suc j" "0 < j"
      by (cases k; cases "k - 1") auto
    then have "n div 10 < 10 ^ j" using 1(2) by (simp add: less_mult_imp_div_less mult.commute)
    with 1(1)[OF False this k(2)] False k show ?thesis by (simp add: nat_text.simps[of n])
  qed
qed

lemma frac_text_0 [simp]: "frac_text k 0 = []"
  by (simp add: frac_text.simps[of k])

text \<open>The digits after the point: their value, their number, and that they are digits.\<close>

lemma floor_digit: "0 \<le> f \<Longrightarrow> f < 1 \<Longrightarrow> 0 \<le> \<lfloor>10 * f\<rfloor> \<and> \<lfloor>10 * f\<rfloor> < 10" for f :: rat
  by (simp add: floor_less_iff)

lemma frac_text_spec:
  fixes f :: rat
  assumes "0 \<le> f" "f < 1" "j \<le> k" "f * 10 ^ j \<in> \<int>"
  shows "length (frac_text k f) \<le> j \<and> list_all is_digit (frac_text k f) \<and>
    of_nat (digits_value (frac_text k f)) = f * 10 ^ length (frac_text k f)"
  using assms
proof (induction j arbitrary: k f)
  case 0
  then have "f = 0" by (auto elim!: Ints_cases)
  then show ?case by (simp add: digits_value_def)
next
  case (Suc j)
  show ?case
  proof (cases "f = 0")
    case True
    then show ?thesis by (simp add: digits_value_def)
  next
    case False
    let ?d = "\<lfloor>10 * f\<rfloor>" and ?g = "10 * f - of_int \<lfloor>10 * f\<rfloor>"
    have d: "0 \<le> ?d" "?d < 10" using floor_digit[OF Suc.prems(1,2)] by simp_all
    have g: "0 \<le> ?g" "?g < 1" by linarith+
    have "?g * 10 ^ j = f * 10 ^ Suc j - of_int (?d * 10 ^ j)" by (simp add: algebra_simps)
    with Suc.prems(4) have "?g * 10 ^ j \<in> \<int>" by (metis Ints_diff Ints_of_int)
    with Suc.IH[OF g, of "k - 1"] Suc.prems(3)
    have IH: "length (frac_text (k - 1) ?g) \<le> j" "list_all is_digit (frac_text (k - 1) ?g)"
      "of_nat (digits_value (frac_text (k - 1) ?g)) = ?g * 10 ^ length (frac_text (k - 1) ?g)"
      by auto
    have eq: "frac_text k f = digit_char (nat ?d) # frac_text (k - 1) ?g"
      using False Suc.prems(3) by (simp add: frac_text.simps[of k f])
    have "digits_value (frac_text k f) =
        nat ?d * 10 ^ length (frac_text (k - 1) ?g) + digits_value (frac_text (k - 1) ?g)"
      using digits_value_append[of "[digit_char (nat ?d)]" "frac_text (k - 1) ?g"] d
      by (simp add: eq digits_value_single digit_value_char nat_less_iff)
    then have "of_nat (digits_value (frac_text k f)) = f * 10 ^ length (frac_text k f)"
      using d IH(3) by (simp add: eq algebra_simps)
    with IH(1,2) d show ?thesis by (simp add: eq is_digit_char nat_less_iff)
  qed
qed

lemma takeWhile_digits: "list_all is_digit s \<Longrightarrow> takeWhile is_digit (s @ t) = s @ takeWhile is_digit t"
  by (induction s) auto

lemma dropWhile_digits: "list_all is_digit s \<Longrightarrow> dropWhile is_digit (s @ t) = dropWhile is_digit t"
  by (induction s) auto

lemma dot_not_digit [simp]: "\<not> is_digit (CHR ''.'')"
  by (simp add: is_digit_def less_eq_char_def)

lemma split_sign_digit: "list_all is_digit s \<Longrightarrow> s \<noteq> [] \<Longrightarrow> split_sign (s @ t) = (False, s @ t)"
  by (cases s) (auto simp: is_digit_def less_eq_char_def)

lemma fits_ints: "fits_numeric d \<Longrightarrow> (\<bar>d\<bar> - of_int \<lfloor>\<bar>d\<bar>\<rfloor>) * 10 ^ 18 \<in> \<int>"
proof -
  assume "fits_numeric d"
  then have "d * 10 ^ 18 \<in> \<int>" unfolding fits_numeric_def by (metis Ints_of_int)
  then have "\<bar>d\<bar> * 10 ^ 18 \<in> \<int>" by (cases "d < 0") (auto simp: Ints_minus)
  then have "\<bar>d\<bar> * 10 ^ 18 - of_int (\<lfloor>\<bar>d\<bar>\<rfloor> * 10 ^ 18) \<in> \<int>" by (simp only: Ints_diff Ints_of_int)
  then show ?thesis by (simp add: left_diff_distrib)
qed

lemma parse_decimal_string:
  assumes "fits_numeric d"
  shows "parse_decimal (decimal_string d) = Some d"
proof (cases "d = 0")
  case True
  have "parse_decimal (decimal_string 0) = Some 0" by code_simp
  with True show ?thesis by simp
next
  case False
  define w where "w = nat_text (nat \<lfloor>\<bar>d\<bar>\<rfloor>)"
  define f where "f = frac_text 1000 (\<bar>d\<bar> - of_int \<lfloor>\<bar>d\<bar>\<rfloor>)"
  have spec: "length f \<le> 18" "list_all is_digit f"
    "of_nat (digits_value f) = (\<bar>d\<bar> - of_int \<lfloor>\<bar>d\<bar>\<rfloor>) * 10 ^ length f"
    using frac_text_spec[of "\<bar>d\<bar> - of_int \<lfloor>\<bar>d\<bar>\<rfloor>" 18 1000] fits_ints[OF assms]
    unfolding f_def by (auto; linarith)+
  have w: "list_all is_digit w" "w \<noteq> []" "digits_value w = nat \<lfloor>\<bar>d\<bar>\<rfloor>"
    by (simp_all add: w_def nat_text_digits nat_text_nonempty nat_text_value)
  have bound: "\<bar>d\<bar> < 10 ^ 20" using assms by (simp add: fits_numeric_def)
  then have "nat \<lfloor>\<bar>d\<bar>\<rfloor> < 10 ^ 20" by (simp add: nat_less_iff floor_less_iff)
  then have lw: "length w \<le> 20" unfolding w_def by (rule nat_text_length) simp
  define c where "c = digits_value (w @ f)"
  have c: "of_nat c = \<bar>d\<bar> * 10 ^ length f"
    using spec(3) w(3) by (simp add: c_def digits_value_append algebra_simps)
  have cpos: "c \<noteq> 0"
  proof
    assume "c = 0"
    with c False show False by simp
  qed
  have "(of_nat c :: rat) < of_nat (10 ^ (20 + length f))"
    using bound c by (simp add: power_add)
  then have "c < 10 ^ (20 + length f)" by (simp only: of_nat_less_iff)
  then have "length (nat_text c) \<le> 20 + length f" by (rule nat_text_length) simp
  then have adj: "int (length (nat_text c)) - 1 + (0 - int (length f)) \<le> 19" by simp
  have val: "(if d < 0 then - 1 else 1) * of_nat c * pow10 (0 - int (length f)) = d"
    using c by (cases "length f = 0") (auto simp: pow10_def)
  have str: "decimal_string d = (if d < 0 then ''-'' else []) @ w @ (if f = [] then [] else ''.'' @ f)"
    using False by (simp add: decimal_string_def Let_def w_def f_def whole_text_def)
  have len: "length (decimal_string d) \<le> 128"
    using lw spec(1) by (simp add: str)
  have sign: "split_sign (decimal_string d) = (d < 0, w @ (if f = [] then [] else ''.'' @ f))"
    using w(1,2) by (auto simp: str split_sign_digit split_sign_digit[where t = "[]", simplified])
  have tw: "takeWhile is_digit w = w" "dropWhile is_digit w = []"
    "takeWhile is_digit f = f" "dropWhile is_digit f = []"
    using w(1) spec(2) takeWhile_digits[of _ "[]"] dropWhile_digits[of _ "[]"] by auto
  show ?thesis
  proof (cases "f = []")
    case True
    then have cw: "digits_value w = c" by (simp add: c_def)
    show ?thesis
      using len sign True w(2) cpos adj val assms
      by (simp add: parse_decimal_def decimal_parts_def Let_def tw cw)
  next
    case False
    have "takeWhile is_digit (w @ ''.'' @ f) = w" "dropWhile is_digit (w @ ''.'' @ f) = ''.'' @ f"
      using w(1) by (simp_all add: takeWhile_digits dropWhile_digits)
    then show ?thesis
      using len sign False w(2) spec(1) cpos adj val assms
      by (simp add: parse_decimal_def decimal_parts_def Let_def tw c_def[symmetric])
  qed
qed

text \<open>Integer texts determine the integer.\<close>

lemma minus_not_digit: "\<not> is_digit (CHR ''-'')"
  by (simp add: is_digit_def less_eq_char_def)

lemma nat_text_hd: "hd (nat_text n) \<noteq> CHR ''-''"
proof -
  have "is_digit (hd (nat_text n))"
    using nat_text_digits[of n] nat_text_nonempty[of n] by (cases "nat_text n") auto
  then show ?thesis using minus_not_digit by metis
qed

lemma nat_text_inj: "nat_text m = nat_text n \<Longrightarrow> m = n"
  by (metis nat_text_value)

lemma int_text_sign: "hd (int_text i) = CHR ''-'' \<longleftrightarrow> i < 0"
  using nat_text_hd by (auto simp: int_text_def whole_text_def)

lemma int_text_inj [simp]: "int_text i = int_text j \<longleftrightarrow> i = j"
proof
  assume eq: "int_text i = int_text j"
  then have "i < 0 \<longleftrightarrow> j < 0" using int_text_sign by metis
  then show "i = j"
  proof (cases "i < 0")
    case True
    with \<open>i < 0 \<longleftrightarrow> j < 0\<close> eq have "nat_text (nat (- i)) = nat_text (nat (- j))"
      by (simp add: int_text_def whole_text_def)
    with True \<open>i < 0 \<longleftrightarrow> j < 0\<close> show ?thesis by (auto dest: nat_text_inj)
  next
    case False
    with \<open>i < 0 \<longleftrightarrow> j < 0\<close> eq have "nat_text (nat i) = nat_text (nat j)"
      by (simp add: int_text_def whole_text_def)
    with False \<open>i < 0 \<longleftrightarrow> j < 0\<close> show ?thesis by (auto dest: nat_text_inj)
  qed
qed simp

section \<open>Market snapshots\<close>

definition as_str :: "json \<Rightarrow> string option" where
  "as_str v = (case v of JStr s \<Rightarrow> Some s | _ \<Rightarrow> None)"

definition as_int :: "json \<Rightarrow> int option" where
  "as_int v = (case v of JInt i \<Rightarrow> Some i | _ \<Rightarrow> None)"

definition as_bool :: "json \<Rightarrow> bool option" where
  "as_bool v = (case v of JBool b \<Rightarrow> Some b | _ \<Rightarrow> None)"

definition as_dec :: "json \<Rightarrow> rat option" where
  "as_dec v = (case v of JStr s \<Rightarrow> parse_decimal s | _ \<Rightarrow> None)"

definition field :: "(json \<Rightarrow> 'a option) \<Rightarrow> json \<Rightarrow> string \<Rightarrow> 'a option" where
  "field f v k = Option.bind (jget v k) f"

definition market_keys :: "string list" where
  "market_keys = [''schema_version'', ''venue'', ''instrument'', ''bid'', ''ask'', ''asof_ns'',
     ''book_valid'', ''instrument_spec_hash'', ''fee_schedule_hash'']"

definition parse_market :: "json \<Rightarrow> market_snapshot option" where
  "parse_market v =
     (case v of JObj kvs \<Rightarrow>
        if \<not> list_all (\<lambda>(k, _). k \<in> set market_keys) kvs then None
        else if (case jget v ''schema_version'' of None \<Rightarrow> False | Some sv \<Rightarrow> sv \<noteq> JStr ''2.0'') then None
        else (case (field as_str v ''venue'', field as_str v ''instrument'', field as_dec v ''bid'',
                    field as_dec v ''ask'', field as_int v ''asof_ns'', field as_bool v ''book_valid'',
                    field as_str v ''instrument_spec_hash'', field as_str v ''fee_schedule_hash'') of
            (Some ve, Some i, Some b, Some a, Some t, Some bv, Some ih, Some fh) \<Rightarrow>
              let m = \<lparr>mk_venue = ve, mk_instrument = i, mk_bid = b, mk_ask = a, mk_asof_ns = t,
                       mk_book_valid = bv, mk_instrument_spec_hash = ih, mk_fee_schedule_hash = fh\<rparr>
              in if valid_market_snapshot m then Some m else None
          | _ \<Rightarrow> None)
      | _ \<Rightarrow> None)"

lemma parse_market_json:
  assumes "valid_market_snapshot m"
  shows "parse_market (market_json m) = Some m"
proof -
  have "fits_numeric (mk_bid m)" "fits_numeric (mk_ask m)"
    using assms by (simp_all add: valid_market_snapshot_def valid_positive_def)
  then show ?thesis
    using assms
    by (cases m) (simp add: parse_market_def market_json_def market_keys_def field_def jget_def as_str_def
        as_int_def as_bool_def as_dec_def parse_decimal_string Let_def)
qed

lemma parse_market_valid: "parse_market v = Some m \<Longrightarrow> valid_market_snapshot m"
  by (auto simp: parse_market_def Let_def split: json.splits if_splits option.splits)

end
