(* ===== verification/Schema.thy ===== *)
theory Schema
  imports Wire
begin

text \<open>
  The shared tables of \<open>src/qt/persistence/schema.py\<close>: one record per table row with the columns in
  order, the uniqueness constraints as \<open>.._clash\<close>, the CHECK constraints and the exact money type
  as predicates, and the database as one record of tables.  JSON columns that the code always reads
  back through \<open>model_validate\<close> hold the contract itself; the others hold \<open>json\<close>.  Enumerated text
  columns hold the contract's enumeration.  A UTC date column is the number of that day since the
  epoch.  VARCHAR widths and foreign keys are not modelled (every insert of the modelled code
  references rows it has just read).
\<close>

section \<open>Rows\<close>

record paper_fill =
  pl_intent_id :: string
  pl_venue_trade_id :: string
  pl_quantity :: rat
  pl_price :: rat
  pl_fee :: rat
  pl_fee_asset :: string
  pl_base_asset :: string
  pl_quote_asset :: string

record paper_record =
  pr_intent :: order_intent
  pr_intent_hash :: string
  pr_book_hash :: string
  pr_fills :: "paper_fill list"
  pr_snapshot :: order_snapshot
  pr_submit :: submit_result
  pr_account_sequence :: int

text \<open>What an artifact's JSON payload holds, by the way it is read back.\<close>

datatype artifact_payload =
    AJson json
  | ADeployment deployment_manifest
  | APaperResult paper_record

definition paper_fill_json :: "paper_fill \<Rightarrow> json" where
  "paper_fill_json f = JObj
     [(''intent_id'', JStr (pl_intent_id f)), (''venue_trade_id'', JStr (pl_venue_trade_id f)),
      (''quantity'', jdec (pl_quantity f)), (''price'', jdec (pl_price f)), (''fee'', jdec (pl_fee f)),
      (''fee_asset'', JStr (pl_fee_asset f)), (''base_asset'', JStr (pl_base_asset f)),
      (''quote_asset'', JStr (pl_quote_asset f))]"

definition paper_record_json :: "paper_record \<Rightarrow> json" where
  "paper_record_json r = JObj
     [(''intent'', intent_json (pr_intent r)), (''intent_hash'', JStr (pr_intent_hash r)),
      (''book_hash'', JStr (pr_book_hash r)), (''fills'', JArr (map paper_fill_json (pr_fills r))),
      (''snapshot'', JObj (order_snapshot_fields (pr_snapshot r))),
      (''submit'', JObj (submit_result_fields (pr_submit r))),
      (''limitations'',
         JArr [JStr ''No market impact or maker queue model; immediate taker fills only'']),
      (''account_sequence'', JInt (pr_account_sequence r))]"

fun payload_json :: "artifact_payload \<Rightarrow> json" where
  "payload_json (AJson v) = v"
| "payload_json (ADeployment m) = manifest_json m"
| "payload_json (APaperResult r) = paper_record_json r"

record artifact_row =
  ar_tenant_id :: string
  ar_kind :: string
  ar_entity_id :: string
  ar_payload :: artifact_payload
  ar_sha256 :: string
  ar_created_ns :: int

definition artifact_clash :: "artifact_row \<Rightarrow> artifact_row \<Rightarrow> bool" where
  "artifact_clash r s \<longleftrightarrow> ar_tenant_id r = ar_tenant_id s \<and> ar_kind r = ar_kind s \<and>
     ar_entity_id r = ar_entity_id s"

datatype job_status = QUEUED | RUNNING | JOB_COMPLETED | JOB_FAILED | JOB_CANCELLED | JOB_EXHAUSTED

fun job_status_text :: "job_status \<Rightarrow> string" where
  "job_status_text QUEUED = ''QUEUED''"
| "job_status_text RUNNING = ''RUNNING''"
| "job_status_text JOB_COMPLETED = ''COMPLETED''"
| "job_status_text JOB_FAILED = ''FAILED''"
| "job_status_text JOB_CANCELLED = ''CANCELLED''"
| "job_status_text JOB_EXHAUSTED = ''EXHAUSTED''"

record job_row =
  jb_job_id :: string
  jb_tenant_id :: string
  jb_kind :: string
  jb_idempotency_key :: string
  jb_payload :: json
  jb_sha256 :: string
  jb_status :: job_status
  jb_created_ns :: int
  jb_deadline_ns :: int
  jb_lease_until_ns :: int
  jb_lease_token :: "string option"
  jb_attempts :: int
  jb_cancel_requested :: bool
  jb_result :: "json option"

definition job_clash :: "job_row \<Rightarrow> job_row \<Rightarrow> bool" where
  "job_clash r s \<longleftrightarrow> jb_job_id r = jb_job_id s \<or>
     (jb_tenant_id r = jb_tenant_id s \<and> jb_kind r = jb_kind s \<and>
      jb_idempotency_key r = jb_idempotency_key s)"

record event_row =
  ev_sequence :: nat
  ev_tenant_id :: string
  ev_entity_id :: string
  ev_event_type :: string
  ev_payload :: "(string \<times> json) list"
  ev_created_ns :: int

record account_row =
  ac_account_id :: string
  ac_tenant_id :: string
  ac_quote_asset :: string
  ac_capital :: rat
  ac_mode :: risk_mode
  ac_reserved_quote :: rat
  ac_daily_new_risk :: rat
  ac_day_utc :: int
  ac_lease_token :: "string option"
  ac_lease_owner :: "string option"
  ac_lease_until_ns :: int
  ac_reconciled_ns :: int

definition account_clash :: "account_row \<Rightarrow> account_row \<Rightarrow> bool" where
  "account_clash r s \<longleftrightarrow> ac_account_id r = ac_account_id s"

definition account_money :: "account_row \<Rightarrow> bool" where
  "account_money a \<longleftrightarrow> fits_numeric (ac_capital a) \<and> fits_numeric (ac_reserved_quote a) \<and>
     fits_numeric (ac_daily_new_risk a)"

definition account_check :: "account_row \<Rightarrow> bool" where
  "account_check a \<longleftrightarrow> 0 < ac_capital a \<and> 0 \<le> ac_reserved_quote a"

text \<open>The JSON payload of an order row.\<close>

record envelope =
  en_intent :: order_intent
  en_instrument :: instrument_spec
  en_fees :: fee_schedule
  en_deployment :: deployment_manifest

definition envelope_json :: "envelope \<Rightarrow> json" where
  "envelope_json e = JObj
     [(''intent'', intent_json (en_intent e)), (''instrument'', instrument_json (en_instrument e)),
      (''fees'', fees_json (en_fees e)), (''deployment'', manifest_json (en_deployment e))]"

record order_row =
  od_intent_id :: string
  od_account_id :: string
  od_tenant_id :: string
  od_deployment_id :: string
  od_signal_id :: string
  od_leg_no :: int
  od_venue :: string
  od_instrument :: string
  od_side :: side
  od_quantity :: rat
  od_filled_quantity :: rat
  od_reserved_quote :: rat
  od_reserved_base :: rat
  od_risk_reservation_id :: string
  od_status :: order_status
  od_settlement_status :: settlement_status
  od_payload :: envelope
  od_sha256 :: string
  od_venue_order_id :: "string option"
  od_created_ns :: int
  od_updated_ns :: int
  od_last_reconciled_ns :: int

definition order_clash :: "order_row \<Rightarrow> order_row \<Rightarrow> bool" where
  "order_clash r s \<longleftrightarrow> od_intent_id r = od_intent_id s \<or>
     od_risk_reservation_id r = od_risk_reservation_id s \<or>
     (od_account_id r = od_account_id s \<and> od_deployment_id r = od_deployment_id s \<and>
      od_signal_id r = od_signal_id s \<and> od_leg_no r = od_leg_no s)"

definition order_money :: "order_row \<Rightarrow> bool" where
  "order_money r \<longleftrightarrow> fits_numeric (od_quantity r) \<and> fits_numeric (od_filled_quantity r) \<and>
     fits_numeric (od_reserved_quote r) \<and> fits_numeric (od_reserved_base r)"

definition order_check :: "order_row \<Rightarrow> bool" where
  "order_check r \<longleftrightarrow> 0 < od_quantity r \<and> 0 \<le> od_filled_quantity r \<and>
     od_filled_quantity r \<le> od_quantity r"

record fill_row =
  fl_fill_id :: string
  fl_intent_id :: string
  fl_venue :: string
  fl_account_id :: string
  fl_venue_trade_id :: string
  fl_quantity :: rat
  fl_price :: rat
  fl_fee :: rat
  fl_fee_asset :: string
  fl_sha256 :: string
  fl_created_ns :: int

definition fill_clash :: "fill_row \<Rightarrow> fill_row \<Rightarrow> bool" where
  "fill_clash r s \<longleftrightarrow> fl_fill_id r = fl_fill_id s \<or>
     (fl_venue r = fl_venue s \<and> fl_account_id r = fl_account_id s \<and>
      fl_venue_trade_id r = fl_venue_trade_id s)"

definition fill_money :: "fill_row \<Rightarrow> bool" where
  "fill_money f \<longleftrightarrow> fits_numeric (fl_quantity f) \<and> fits_numeric (fl_price f) \<and> fits_numeric (fl_fee f)"

definition fill_check :: "fill_row \<Rightarrow> bool" where
  "fill_check f \<longleftrightarrow> 0 < fl_quantity f \<and> 0 < fl_price f \<and> 0 \<le> fl_fee f"

record ledger_transaction_row =
  lt_transaction_id :: string
  lt_account_id :: string
  lt_kind :: string
  lt_source_id :: string
  lt_created_ns :: int

definition ledger_transaction_clash :: "ledger_transaction_row \<Rightarrow> ledger_transaction_row \<Rightarrow> bool" where
  "ledger_transaction_clash r s \<longleftrightarrow> lt_transaction_id r = lt_transaction_id s \<or>
     (lt_account_id r = lt_account_id s \<and> lt_kind r = lt_kind s \<and> lt_source_id r = lt_source_id s)"

record ledger_entry_row =
  le_entry_id :: string
  le_transaction_id :: string
  le_account_id :: string
  le_asset :: string
  le_bucket :: string
  le_amount :: rat

definition ledger_entry_clash :: "ledger_entry_row \<Rightarrow> ledger_entry_row \<Rightarrow> bool" where
  "ledger_entry_clash r s \<longleftrightarrow> le_entry_id r = le_entry_id s"

record health_row =
  hl_name :: string
  hl_tenant_id :: string
  hl_observed_ns :: int
  hl_payload :: json

definition health_clash :: "health_row \<Rightarrow> health_row \<Rightarrow> bool" where
  "health_clash r s \<longleftrightarrow> hl_name r = hl_name s \<and> hl_tenant_id r = hl_tenant_id s"

datatype head_status = HEAD_ACTIVE | HEAD_INACTIVE

record head_row =
  hd_tenant_id :: string
  hd_account_id :: string
  hd_deployment_id :: "string option"
  hd_status :: head_status
  hd_generation :: int
  hd_updated_ns :: int
  hd_reason :: string

definition head_clash :: "head_row \<Rightarrow> head_row \<Rightarrow> bool" where
  "head_clash r s \<longleftrightarrow> hd_tenant_id r = hd_tenant_id s \<and> hd_account_id r = hd_account_id s"

record risk_state_row =
  rs_account_id :: string
  rs_tenant_id :: string
  rs_policy_hash :: string
  rs_day_utc :: int
  rs_day_start_equity :: rat
  rs_high_water_equity :: rat
  rs_last_equity :: rat
  rs_last_mark_ns :: int
  rs_market :: market_snapshot
  rs_latched_reasons :: "string list"

definition risk_state_clash :: "risk_state_row \<Rightarrow> risk_state_row \<Rightarrow> bool" where
  "risk_state_clash r s \<longleftrightarrow> rs_account_id r = rs_account_id s"

definition risk_state_money :: "risk_state_row \<Rightarrow> bool" where
  "risk_state_money r \<longleftrightarrow> fits_numeric (rs_day_start_equity r) \<and>
     fits_numeric (rs_high_water_equity r) \<and> fits_numeric (rs_last_equity r)"

record snapshot_row =
  sn_snapshot_id :: string
  sn_tenant_id :: string
  sn_account_id :: string
  sn_observed_ns :: int
  sn_market_hash :: string
  sn_payload :: json
  sn_sha256 :: string

definition snapshot_clash :: "snapshot_row \<Rightarrow> snapshot_row \<Rightarrow> bool" where
  "snapshot_clash r s \<longleftrightarrow> sn_snapshot_id r = sn_snapshot_id s"

record usage_budget_row =
  ub_tenant_id :: string
  ub_period :: string
  ub_reserved :: rat
  ub_maximum :: rat

definition usage_budget_clash :: "usage_budget_row \<Rightarrow> usage_budget_row \<Rightarrow> bool" where
  "usage_budget_clash r s \<longleftrightarrow> ub_tenant_id r = ub_tenant_id s \<and> ub_period r = ub_period s"

definition usage_budget_money :: "usage_budget_row \<Rightarrow> bool" where
  "usage_budget_money b \<longleftrightarrow> fits_numeric (ub_reserved b) \<and> fits_numeric (ub_maximum b)"

datatype call_status = CALL_RESERVED | CALL_EXCEEDED | CALL_COMPLETED

record model_call_row =
  mc_tenant_id :: string
  mc_call_id :: string
  mc_run_id :: string
  mc_request_hash :: string
  mc_periods :: "string list"
  mc_reserved :: rat
  mc_actual :: "rat option"
  mc_status :: call_status
  mc_created_ns :: int

definition model_call_clash :: "model_call_row \<Rightarrow> model_call_row \<Rightarrow> bool" where
  "model_call_clash r s \<longleftrightarrow> mc_tenant_id r = mc_tenant_id s \<and> mc_call_id r = mc_call_id s"

section \<open>The database\<close>

record db =
  artifacts :: "artifact_row list"
  jobs :: "job_row list"
  events :: "event_row list"
  accounts :: "account_row list"
  orders :: "order_row list"
  fills :: "fill_row list"
  ledger_transactions :: "ledger_transaction_row list"
  ledger_entries :: "ledger_entry_row list"
  runtime_health :: "health_row list"
  deployment_heads :: "head_row list"
  risk_state :: "risk_state_row list"
  portfolio_snapshots :: "snapshot_row list"
  usage_budgets :: "usage_budget_row list"
  model_calls :: "model_call_row list"

definition empty_db :: db where
  "empty_db = \<lparr>artifacts = [], jobs = [], events = [], accounts = [], orders = [], fills = [],
     ledger_transactions = [], ledger_entries = [], runtime_health = [], deployment_heads = [],
     risk_state = [], portfolio_snapshots = [], usage_budgets = [], model_calls = []\<rparr>"

text \<open>
  A call made of transactions: the database it leaves, and what it returns or raises.  One
  transaction that raises leaves the database as it was.
\<close>

type_synonym 'a call = "db \<Rightarrow> 'a result \<times> db"
type_synonym 'a transaction = "db \<Rightarrow> ('a \<times> db) result"

definition transaction :: "'a transaction \<Rightarrow> 'a call" where
  "transaction f d = (case f d of Inl e \<Rightarrow> (Inl e, d) | Inr (x, d') \<Rightarrow> (Inr x, d'))"

lemma transaction_cases:
  obtains (rollback) e where "f d = Inl e" "transaction f d = (Inl e, d)"
  | (commit) x d' where "f d = Inr (x, d')" "transaction f d = (Inr x, d')"
  by (cases "f d") (auto simp: transaction_def)

interpretation artifact_table: keyed_table
  "\<lambda>r. (ar_tenant_id r, ar_kind r, ar_entity_id r)" artifact_clash
  by unfold_locales (simp add: artifact_clash_def)

interpretation job_table: keyed_table jb_job_id job_clash
  by unfold_locales (simp add: job_clash_def)

interpretation account_table: keyed_table ac_account_id account_clash
  by unfold_locales (simp add: account_clash_def)

interpretation order_table: keyed_table od_intent_id order_clash
  by unfold_locales (simp add: order_clash_def)

interpretation fill_table: keyed_table fl_fill_id fill_clash
  by unfold_locales (simp add: fill_clash_def)

interpretation ledger_transaction_table: keyed_table lt_transaction_id ledger_transaction_clash
  by unfold_locales (simp add: ledger_transaction_clash_def)

interpretation ledger_entry_table: keyed_table le_entry_id ledger_entry_clash
  by unfold_locales (simp add: ledger_entry_clash_def)

interpretation health_table: keyed_table "\<lambda>r. (hl_name r, hl_tenant_id r)" health_clash
  by unfold_locales (simp add: health_clash_def)

interpretation head_table: keyed_table "\<lambda>r. (hd_tenant_id r, hd_account_id r)" head_clash
  by unfold_locales (simp add: head_clash_def)

interpretation risk_state_table: keyed_table rs_account_id risk_state_clash
  by unfold_locales (simp add: risk_state_clash_def)

interpretation snapshot_table: keyed_table sn_snapshot_id snapshot_clash
  by unfold_locales (simp add: snapshot_clash_def)

interpretation usage_budget_table: keyed_table "\<lambda>r. (ub_tenant_id r, ub_period r)" usage_budget_clash
  by unfold_locales (simp add: usage_budget_clash_def)

interpretation model_call_table: keyed_table "\<lambda>r. (mc_tenant_id r, mc_call_id r)" model_call_clash
  by unfold_locales (simp add: model_call_clash_def)

section \<open>Writing rows\<close>

text \<open>
  An UPDATE binds its values first (\<open>ExactMoney.process_bind_param\<close>, whose \<open>ValueError\<close> SQLAlchemy
  reports as a \<open>StatementError\<close>) and then checks the CHECK constraints.
\<close>

definition update_account :: "string \<Rightarrow> (account_row \<Rightarrow> account_row) \<Rightarrow> db \<Rightarrow> db result" where
  "update_account aid f d =
     (let hit = (\<lambda>r. ac_account_id r = aid) in
      if list_ex (\<lambda>r. hit r \<and> \<not> account_money (f r)) (accounts d)
      then Inl (StatementError ''money_does_not_fit_numeric_38_18_exactly'')
      else if list_ex (\<lambda>r. hit r \<and> \<not> account_check (f r)) (accounts d)
      then Inl (IntegrityError ''ck_v4_risk_amounts'')
      else Inr (d\<lparr>accounts := update_where hit f (accounts d)\<rparr>))"

definition update_order :: "string \<Rightarrow> (order_row \<Rightarrow> order_row) \<Rightarrow> db \<Rightarrow> db result" where
  "update_order oid f d =
     (let hit = (\<lambda>r. od_intent_id r = oid) in
      if list_ex (\<lambda>r. hit r \<and> \<not> order_money (f r)) (orders d)
      then Inl (StatementError ''money_does_not_fit_numeric_38_18_exactly'')
      else if list_ex (\<lambda>r. hit r \<and> \<not> order_check (f r)) (orders d)
      then Inl (IntegrityError ''ck_v4_order_quantity'')
      else Inr (d\<lparr>orders := update_where hit f (orders d)\<rparr>))"

definition insert_account_once :: "account_row \<Rightarrow> db \<Rightarrow> db result" where
  "insert_account_once r d =
     (if \<not> account_money r then Inl (StatementError ''money_does_not_fit_numeric_38_18_exactly'')
      else if \<not> account_check r then Inl (IntegrityError ''ck_v4_risk_amounts'')
      else Inr (d\<lparr>accounts := insert_once account_clash r (accounts d)\<rparr>))"

definition insert_order_once :: "order_row \<Rightarrow> db \<Rightarrow> db result" where
  "insert_order_once r d =
     (if \<not> order_money r then Inl (StatementError ''money_does_not_fit_numeric_38_18_exactly'')
      else if \<not> order_check r then Inl (IntegrityError ''ck_v4_order_quantity'')
      else Inr (d\<lparr>orders := insert_once order_clash r (orders d)\<rparr>))"

definition insert_fill :: "fill_row \<Rightarrow> db \<Rightarrow> db result" where
  "insert_fill r d =
     (if \<not> fill_money r then Inl (StatementError ''money_does_not_fit_numeric_38_18_exactly'')
      else if \<not> fill_check r then Inl (IntegrityError ''ck_v4_fill_amounts'')
      else bind (insert_row fill_clash ''uq_v4_venue_fill'' r (fills d))
             (\<lambda>rows. Inr (d\<lparr>fills := rows\<rparr>)))"

text \<open>\<open>Repository.event\<close>: the sequence number is the table's autoincrement.\<close>

definition add_event ::
  "string \<Rightarrow> string \<Rightarrow> string \<Rightarrow> (string \<times> json) list \<Rightarrow> int \<Rightarrow> db \<Rightarrow> db" where
  "add_event tenant entity kind payload now d =
     d\<lparr>events := events d @ [\<lparr>ev_sequence = Suc (length (events d)), ev_tenant_id = tenant,
        ev_entity_id = entity, ev_event_type = kind, ev_payload = payload, ev_created_ns = now\<rparr>]\<rparr>"

lemma update_account_eq_Inr [result_simps]:
  "update_account aid f d = Inr d' \<longleftrightarrow>
     (\<forall>r \<in> set (accounts d). ac_account_id r = aid \<longrightarrow> account_money (f r) \<and> account_check (f r)) \<and>
     d' = d\<lparr>accounts := update_where (\<lambda>r. ac_account_id r = aid) f (accounts d)\<rparr>"
  by (auto simp: update_account_def Let_def list_ex_iff)

lemma update_order_eq_Inr [result_simps]:
  "update_order oid f d = Inr d' \<longleftrightarrow>
     (\<forall>r \<in> set (orders d). od_intent_id r = oid \<longrightarrow> order_money (f r) \<and> order_check (f r)) \<and>
     d' = d\<lparr>orders := update_where (\<lambda>r. od_intent_id r = oid) f (orders d)\<rparr>"
  by (auto simp: update_order_def Let_def list_ex_iff)

lemma insert_account_once_eq_Inr [result_simps]:
  "insert_account_once r d = Inr d' \<longleftrightarrow> account_money r \<and> account_check r \<and>
     d' = d\<lparr>accounts := insert_once account_clash r (accounts d)\<rparr>"
  by (auto simp: insert_account_once_def)

lemma insert_order_once_eq_Inr [result_simps]:
  "insert_order_once r d = Inr d' \<longleftrightarrow> order_money r \<and> order_check r \<and>
     d' = d\<lparr>orders := insert_once order_clash r (orders d)\<rparr>"
  by (auto simp: insert_order_once_def)

lemma insert_fill_eq_Inr [result_simps]:
  "insert_fill r d = Inr d' \<longleftrightarrow> fill_money r \<and> fill_check r \<and>
     (\<forall>s \<in> set (fills d). \<not> fill_clash r s) \<and> d' = d\<lparr>fills := fills d @ [r]\<rparr>"
  by (auto simp: insert_fill_def result_simps)

end
