(* ===== verification/Risk.thy ===== *)
theory Risk
  imports Schema
begin

text \<open>
  The risk guard, \<open>src/qt/operations/risk.py\<close>: ledger-based marks, fixed-capital loss limits and
  latched stops.  \<open>evaluate_locked\<close> is the read-only evaluation made under the account lock,
  \<open>check_tx\<close> and \<open>stop_tx\<close> are the two transactions that write risk state, account mode and events.
  The clock argument \<open>t\<close> is the wall clock \<open>time.time_ns()\<close> of the transaction, \<open>now_ns\<close> the
  optional replay clock.
\<close>

section \<open>Amounts and marks\<close>

definition floor18 :: "rat \<Rightarrow> rat" where
  "floor18 x = of_int \<lfloor>x * 10 ^ 18\<rfloor> / 10 ^ 18"

definition terminal :: "order_status \<Rightarrow> bool" where
  "terminal s \<longleftrightarrow> s \<in> {FILLED, REJECTED, CANCELED, EXPIRED}"

definition uncertain :: "order_status \<Rightarrow> bool" where
  "uncertain s \<longleftrightarrow> s \<in> {SUBMITTING, UNKNOWN, CANCEL_PENDING}"

text \<open>\<open>_balances\<close>: the wallet bucket of an account's ledger, by asset.\<close>

definition wallet_entries :: "string \<Rightarrow> ledger_entry_row list \<Rightarrow> ledger_entry_row list" where
  "wallet_entries aid entries =
     select_where (\<lambda>e. le_account_id e = aid \<and> le_bucket e = ''wallet'') entries"

definition wallet :: "string \<Rightarrow> db \<Rightarrow> (string \<times> rat) list" where
  "wallet aid d =
     dict_sum (map (\<lambda>e. (le_asset e, le_amount e)) (wallet_entries aid (ledger_entries d)))"

text \<open>\<open>list(dict.fromkeys(reasons))\<close>: without repetitions, first occurrences kept.\<close>

fun dedupe_from :: "'a list \<Rightarrow> 'a list \<Rightarrow> 'a list" where
  "dedupe_from seen [] = []"
| "dedupe_from seen (x # xs) =
     (if x \<in> set seen then dedupe_from seen xs else x # dedupe_from (x # seen) xs)"

definition dedupe :: "'a list \<Rightarrow> 'a list" where
  "dedupe xs = dedupe_from [] xs"

definition ensure_active_deployment :: "string \<Rightarrow> string \<Rightarrow> string \<Rightarrow> db \<Rightarrow> unit result" where
  "ensure_active_deployment tenant aid deployment_id d =
     (case first_where (\<lambda>h. hd_tenant_id h = tenant \<and> hd_account_id h = aid) (deployment_heads d) of
        None \<Rightarrow> Inr ()
      | Some h \<Rightarrow>
          if hd_status h \<noteq> HEAD_ACTIVE \<or> hd_deployment_id h \<noteq> Some deployment_id
          then Inl (ConflictError ''deployment_is_not_the_active_account_head'') else Inr ())"

definition reason_if :: "bool \<Rightarrow> string \<Rightarrow> string list" where
  "reason_if c r = (if c then [r] else [])"

definition risk_reasons ::
  "hasher \<Rightarrow> account_row \<Rightarrow> risk_state_row option \<Rightarrow> (string \<times> rat) list \<Rightarrow> deployment_manifest \<Rightarrow>
   instrument_spec \<Rightarrow> market_snapshot \<Rightarrow> int \<Rightarrow> string list" where
  "risk_reasons sha account state w deployment instrument market now =
     reason_if (mk_venue market \<noteq> dm_venue deployment \<or> mk_instrument market \<noteq> is_instrument instrument \<or>
                mk_instrument_spec_hash market \<noteq> content_hash sha (instrument_json instrument) \<or>
                mk_fee_schedule_hash market \<notin> set (dm_fee_schedule_hashes deployment))
       ''market_or_instrument_version_mismatch'' @
     reason_if (\<not> (dm_valid_from_ns deployment \<le> now \<and> now < dm_valid_until_ns deployment))
       ''deployment_expired_or_not_effective'' @
     reason_if (\<not> mk_book_valid market \<or>
                \<not> (0 \<le> now - mk_asof_ns market \<and> now - mk_asof_ns market \<le> 1000000000) \<or>
                is_effective_from_ns instrument > now \<or>
                (case is_effective_to_ns instrument of None \<Rightarrow> False | Some t \<Rightarrow> now \<ge> t))
       ''untrusted_or_stale_market'' @
     reason_if (ac_quote_asset account \<noteq> is_quote_asset instrument \<or>
                ac_capital account \<noteq> rb_capital (dm_risk_budget deployment) \<or>
                rb_currency (dm_risk_budget deployment) \<noteq> ac_quote_asset account)
       ''valuation_currency_or_capital_mismatch'' @
     reason_if (list_ex (\<lambda>(asset, amount). asset \<notin> {is_base_asset instrument, is_quote_asset instrument} \<and>
                            amount \<noteq> 0) w \<or>
                list_ex (\<lambda>(asset, amount). amount < 0) w)
       ''untrusted_multiasset_or_negative_inventory'' @
     reason_if (case state of None \<Rightarrow> False | Some s \<Rightarrow> rs_policy_hash s \<noteq> dm_risk_policy_hash deployment)
       ''risk_policy_changed_without_review'' @
     reason_if (case state of None \<Rightarrow> False | Some s \<Rightarrow> now < rs_last_mark_ns s)
       ''risk_mark_time_regression''"

record risk_marks =
  km_daily_loss :: rat
  km_drawdown :: rat
  km_daily_loss_limit :: rat
  km_drawdown_limit :: rat
  km_day_utc :: int
  km_day_start_equity :: rat
  km_high_water_equity :: rat

record risk_report =
  rr_safe_new_risk :: bool
  rr_mode :: risk_mode
  rr_reasons :: "string list"
  rr_equity :: "rat option"
  rr_wallet :: "(string \<times> rat) list"
  rr_state :: "risk_state_row option"
  rr_observation_discarded :: bool
  rr_marks :: "risk_marks option"

definition blocked_report ::
  "risk_mode \<Rightarrow> string list \<Rightarrow> (string \<times> rat) list \<Rightarrow> risk_state_row option \<Rightarrow> bool \<Rightarrow> risk_report" where
  "blocked_report mode reasons w state discarded =
     \<lparr>rr_safe_new_risk = False, rr_mode = mode, rr_reasons = reasons, rr_equity = None, rr_wallet = w,
      rr_state = state, rr_observation_discarded = discarded, rr_marks = None\<rparr>"

text \<open>The notional of the unfilled part of an account's live buy orders.\<close>

definition pending_exposure :: "string \<Rightarrow> db \<Rightarrow> rat" where
  "pending_exposure aid d =
     (\<Sum>r\<leftarrow>select_where (\<lambda>r. od_account_id r = aid \<and> \<not> terminal (od_status r) \<and> od_side r = buy) (orders d).
        (od_quantity r - od_filled_quantity r) * oi_limit_price (en_intent (od_payload r)))"

definition halting_reasons :: "string list" where
  "halting_reasons = [''execution_requires_reconciliation'', ''settlement_requires_reconciliation'',
     ''cash_reservation_exceeds_actual_wallet'']"

text \<open>The marks of a trusted valuation.\<close>

definition mark_equity ::
  "account_row \<Rightarrow> risk_state_row option \<Rightarrow> deployment_manifest \<Rightarrow> int \<Rightarrow> rat \<Rightarrow> risk_marks" where
  "mark_equity account state deployment now equity =
     (let day = utc_day now;
          high = max (ac_capital account)
                   (max (case state of None \<Rightarrow> ac_capital account | Some s \<Rightarrow> rs_high_water_equity s) equity);
          day_start = (case state of None \<Rightarrow> ac_capital account
                       | Some s \<Rightarrow> if rs_day_utc s = day then rs_day_start_equity s else rs_last_equity s)
      in \<lparr>km_daily_loss = max 0 (day_start - equity), km_drawdown = max 0 (high - equity),
          km_daily_loss_limit = ac_capital account *
            min (5 / 1000) (rb_maximum_daily_loss_fraction (dm_risk_budget deployment)),
          km_drawdown_limit = ac_capital account *
            min (3 / 100) (rb_maximum_drawdown_fraction (dm_risk_budget deployment)),
          km_day_utc = day, km_day_start_equity = day_start, km_high_water_equity = high\<rparr>)"

text \<open>The reasons found once the account could be valued.\<close>

definition valued_reasons ::
  "account_row \<Rightarrow> (string \<times> rat) list \<Rightarrow> deployment_manifest \<Rightarrow> instrument_spec \<Rightarrow> market_snapshot \<Rightarrow>
   int \<Rightarrow> risk_marks \<Rightarrow> db \<Rightarrow> string list" where
  "valued_reasons account w deployment instrument market now marks d =
     reason_if (km_daily_loss marks \<ge> km_daily_loss_limit marks) ''maximum_daily_loss'' @
     reason_if (km_drawdown marks \<ge> km_drawdown_limit marks) ''maximum_drawdown'' @
     reason_if (dict_get w (is_base_asset instrument) * mk_bid market +
                  pending_exposure (ac_account_id account) d
                > ac_capital account *
                  min (30 / 100) (rb_maximum_position_fraction (dm_risk_budget deployment)))
       ''maximum_position_exposure'' @
     reason_if (dict_get w (is_quote_asset instrument) < ac_reserved_quote account)
       ''cash_reservation_exceeds_actual_wallet'' @
     reason_if (exists_where (\<lambda>r. od_account_id r = ac_account_id account \<and>
                  (od_status r = UNKNOWN \<or>
                   (od_status r \<in> {SUBMITTING, CANCEL_PENDING} \<and> od_updated_ns r \<le> now - 5000000000)))
                  (orders d))
       ''execution_requires_reconciliation'' @
     reason_if (exists_where (\<lambda>r. od_account_id r = ac_account_id account \<and>
                  od_settlement_status r \<notin> {NOT_REQUIRED, CONFIRMED}) (orders d))
       ''settlement_requires_reconciliation''"

definition evaluated_mode :: "account_row \<Rightarrow> string list \<Rightarrow> risk_mode" where
  "evaluated_mode account reasons =
     (if ac_mode account = HALTED then HALTED
      else if list_ex (\<lambda>r. r \<in> set reasons) halting_reasons then HALTED
      else if reasons \<noteq> [] then REDUCE_ONLY else ac_mode account)"

definition evaluate_locked ::
  "hasher \<Rightarrow> account_row \<Rightarrow> deployment_manifest \<Rightarrow> instrument_spec \<Rightarrow> market_snapshot \<Rightarrow> int \<Rightarrow> db \<Rightarrow>
   risk_report" where
  "evaluate_locked sha account deployment instrument market now d =
     (let state = first_where (\<lambda>s. rs_account_id s = ac_account_id account \<and>
                                  rs_tenant_id s = ac_tenant_id account) (risk_state d);
          w = wallet (ac_account_id account) d;
          reasons = risk_reasons sha account state w deployment instrument market now
      in if reasons = [] \<and> (case state of None \<Rightarrow> False
                             | Some s \<Rightarrow> mk_asof_ns market < mk_asof_ns (rs_market s))
         then blocked_report (ac_mode account) [''superseded_market_observation''] w state True
         else if reasons \<noteq> [] then blocked_report HALTED reasons w state False
         else
           let raw = dict_get w (is_quote_asset instrument) +
                       dict_get w (is_base_asset instrument) * mk_bid market
           in if \<bar>raw\<bar> \<ge> 10 ^ 20
              then blocked_report HALTED [''unsupported_valuation_precision''] w state False
              else
                let equity = floor18 raw;
                    marks = mark_equity account state deployment now equity;
                    found = valued_reasons account w deployment instrument market now marks d;
                    mode = evaluated_mode account found
                in \<lparr>rr_safe_new_risk = (mode = ACTIVE), rr_mode = mode, rr_reasons = found,
                    rr_equity = Some equity, rr_wallet = w, rr_state = state,
                    rr_observation_discarded = False, rr_marks = Some marks\<rparr>)"

section \<open>Transactions\<close>

definition report_json :: "risk_report \<Rightarrow> json" where
  "report_json r = JObj
     ([(''safe_new_risk'', JBool (rr_safe_new_risk r)), (''mode'', JStr (mode_text (rr_mode r))),
       (''reasons'', JArr (map JStr (rr_reasons r))), (''equity'', jopt jdec (rr_equity r))] @
      (case rr_marks r of None \<Rightarrow> []
       | Some k \<Rightarrow>
          [(''daily_loss'', jdec (km_daily_loss k)), (''drawdown'', jdec (km_drawdown k)),
           (''daily_loss_limit'', jdec (km_daily_loss_limit k)),
           (''drawdown_limit'', jdec (km_drawdown_limit k)),
           (''valuation_rounding'', JStr ''floor_to_18_decimal_places''),
           (''day_utc'', JStr (iso_date (km_day_utc k))),
           (''day_start_equity'', jdec (km_day_start_equity k)),
           (''high_water_equity'', jdec (km_high_water_equity k))]) @
      [(''wallet'', JObj (map (\<lambda>(a, x). (a, jdec x)) (rr_wallet r)))])"

record check_report =
  ck_report :: risk_report
  ck_latched_reasons :: "string list"
  ck_persisted :: bool

definition upsert_risk_state :: "risk_state_row \<Rightarrow> db \<Rightarrow> db result" where
  "upsert_risk_state values d =
     (if \<not> risk_state_money values
      then Inl (StatementError ''money_does_not_fit_numeric_38_18_exactly'')
      else Inr (d\<lparr>risk_state :=
        update_where (\<lambda>r. rs_account_id r = rs_account_id values) (\<lambda>_. values)
          (insert_once risk_state_clash values (risk_state d))\<rparr>))"

text \<open>The risk state row and the portfolio snapshot \<open>check\<close> writes: all of it after a valuation, only the latched reasons otherwise.\<close>

definition record_marks ::
  "hasher \<Rightarrow> string \<Rightarrow> deployment_manifest \<Rightarrow> market_snapshot \<Rightarrow> int \<Rightarrow> risk_report \<Rightarrow> string list \<Rightarrow>
   db \<Rightarrow> db result" where
  "record_marks sha tenant deployment market now report latched d =
     (let aid = dm_account_id deployment; market_hash = content_hash sha (market_json market);
          payload = report_json report in
      case (rr_equity report, rr_marks report) of
        (Some equity, Some k) \<Rightarrow>
          bind (upsert_risk_state
            \<lparr>rs_account_id = aid, rs_tenant_id = tenant,
             rs_policy_hash = dm_risk_policy_hash deployment, rs_day_utc = km_day_utc k,
             rs_day_start_equity = km_day_start_equity k,
             rs_high_water_equity = km_high_water_equity k, rs_last_equity = equity,
             rs_last_mark_ns = now, rs_market = market, rs_latched_reasons = latched\<rparr> d) (\<lambda>d1.
          Inr (d1\<lparr>portfolio_snapshots := insert_once snapshot_clash
            \<lparr>sn_snapshot_id = content_hash sha
               (JArr [JStr tenant, JStr aid, JInt now, JStr market_hash, payload]),
             sn_tenant_id = tenant, sn_account_id = aid, sn_observed_ns = now,
             sn_market_hash = market_hash, sn_payload = payload,
             sn_sha256 = content_hash sha payload\<rparr> (portfolio_snapshots d1)\<rparr>))
      | _ \<Rightarrow>
          (case rr_state report of
             None \<Rightarrow> Inr d
           | Some _ \<Rightarrow> Inr (d\<lparr>risk_state := update_where (\<lambda>r. rs_account_id r = aid)
                          (\<lambda>r. r\<lparr>rs_latched_reasons := latched\<rparr>) (risk_state d)\<rparr>)))"

text \<open>\<open>check\<close>\<close>

definition check_tx ::
  "hasher \<Rightarrow> string \<Rightarrow> deployment_manifest \<Rightarrow> instrument_spec \<Rightarrow> market_snapshot \<Rightarrow> int option \<Rightarrow> int \<Rightarrow>
   check_report transaction" where
  "check_tx sha tenant deployment instrument market now_ns t d =
     bind (raise_if (case now_ns of None \<Rightarrow> False | Some n \<Rightarrow> n < 0) (ValueError ''invalid_risk_clock'')) (\<lambda>_.
     bind (or_raise (first_where (\<lambda>a. ac_tenant_id a = tenant \<and> ac_account_id a = dm_account_id deployment)
                       (accounts d)) (KeyError ''account_not_found'')) (\<lambda>account.
     let now = (case now_ns of None \<Rightarrow> t | Some n \<Rightarrow> n);
         aid = dm_account_id deployment in
     bind (ensure_active_deployment tenant aid (dm_deployment_id deployment) d) (\<lambda>_.
     let report = evaluate_locked sha account deployment instrument market now d;
         old = (case rr_state report of None \<Rightarrow> [] | Some s \<Rightarrow> rs_latched_reasons s) in
     if rr_observation_discarded report
     then Inr (\<lparr>ck_report = report, ck_latched_reasons = old, ck_persisted = False\<rparr>, d)
     else
       let latched = dedupe (old @ rr_reasons report) in
       bind (record_marks sha tenant deployment market now report latched d) (\<lambda>d2.
       bind (if rr_mode report \<noteq> ac_mode account
             then bind (update_account aid (\<lambda>a. a\<lparr>ac_mode := rr_mode report\<rparr>) d2) (\<lambda>d3.
                    Inr (add_event tenant aid ''risk_stop''
                      [(''mode'', JStr (mode_text (rr_mode report))),
                       (''reasons'', JArr (map JStr (rr_reasons report)))] t d3))
             else Inr d2) (\<lambda>d4.
       Inr (\<lparr>ck_report = report, ck_latched_reasons = latched, ck_persisted = True\<rparr>, d4))))))"

definition join_reasons :: "string list \<Rightarrow> string" where
  "join_reasons rs = join '','' rs"

definition ensure_new_risk_locked ::
  "hasher \<Rightarrow> account_row \<Rightarrow> deployment_manifest \<Rightarrow> instrument_spec \<Rightarrow> market_snapshot \<Rightarrow> int \<Rightarrow> db \<Rightarrow>
   unit result" where
  "ensure_new_risk_locked sha account deployment instrument market now d =
     (let report = evaluate_locked sha account deployment instrument market now d in
      if rr_observation_discarded report
      then Inl (StaleMarketObservationError ''superseded_market_observation'')
      else if \<not> rr_safe_new_risk report
      then Inl (RiskBudgetExceededError (''risk_budget_or_health_stop:'' @ join_reasons (rr_reasons report)))
      else Inr ())"

datatype stop_report =
    StopInactive string
  | StopLatched string risk_mode "string list"

definition stop_tx ::
  "string \<Rightarrow> string \<Rightarrow> string list \<Rightarrow> risk_mode \<Rightarrow> string option \<Rightarrow> int \<Rightarrow> stop_report transaction" where
  "stop_tx tenant aid reasons mode deployment_id t d =
     bind (raise_if (mode \<notin> {HALTED, REDUCE_ONLY} \<or> reasons = []) (ValueError ''invalid_risk_stop'')) (\<lambda>_.
     bind (or_raise (first_where (\<lambda>a. ac_tenant_id a = tenant \<and> ac_account_id a = aid) (accounts d))
             (KeyError ''account_not_found'')) (\<lambda>account.
     if (case deployment_id of None \<Rightarrow> False
         | Some dep \<Rightarrow> ensure_active_deployment tenant aid dep d \<noteq> Inr ())
     then Inr (StopInactive aid, d)
     else
       let previous = first_where (\<lambda>s. rs_account_id s = aid) (risk_state d);
           latched = dedupe ((case previous of None \<Rightarrow> [] | Some s \<Rightarrow> rs_latched_reasons s) @ reasons);
           selected = (if ac_mode account = HALTED then HALTED else mode) in
       bind (update_account aid (\<lambda>a. a\<lparr>ac_mode := selected\<rparr>) d) (\<lambda>d1.
       let d2 = (case previous of None \<Rightarrow> d1
                 | Some _ \<Rightarrow> d1\<lparr>risk_state := update_where (\<lambda>r. rs_account_id r = aid)
                                (\<lambda>r. r\<lparr>rs_latched_reasons := latched\<rparr>) (risk_state d1)\<rparr>) in
       Inr (StopLatched aid selected reasons,
            add_event tenant aid ''risk_stop''
              [(''mode'', JStr (mode_text selected)), (''reasons'', JArr (map JStr reasons))] t d2))))"

end
