(* ===== verification/OMS.thy ===== *)
theory OMS
  imports Risk
begin

text \<open>
  The order management system, \<open>src/qt/execution/oms.py\<close>.  Every \<open>with self.repo.transaction()\<close> block
  is one function \<open>.._tx\<close> from a database to a result and a new database; a method that runs several
  transactions, or awaits the venue between them, is a \<open>call\<close> composed of those.  A transaction's
  argument \<open>t\<close> is the wall clock it reads with \<open>time.time_ns()\<close>; \<open>now_ns\<close> is the replay clock of the
  callers.  The preliminary \<open>get_order\<close> that only looks up the account of an order is the first read
  of the transaction that follows it: order rows are never deleted and never change account.
\<close>

section \<open>Amounts, identities and clocks\<close>

text \<open>\<open>_amount\<close>\<close>

definition amount_check :: "bool \<Rightarrow> rat \<Rightarrow> unit result" where
  "amount_check positive v =
     bind (raise_if (v < 0 \<or> (positive \<and> v \<le> 0))
             (ValueError ''amount_requires_finite_nonnegative_decimal'')) (\<lambda>_.
     raise_if (of_int \<lfloor>v * 10 ^ 18\<rfloor> \<noteq> v * 10 ^ 18 \<or> v \<ge> 10 ^ 20)
       (ValueError ''amount_exceeds_exact_numeric_precision''))"

text \<open>\<open>_ceil\<close>\<close>

definition ceil18 :: "rat \<Rightarrow> rat" where
  "ceil18 x = of_int \<lceil>x * 10 ^ 18\<rceil> / 10 ^ 18"

text \<open>\<open>_text\<close>: \<open>str.strip\<close> removes the ASCII white space.\<close>

definition is_space :: "char \<Rightarrow> bool" where
  "is_space c = (let n = of_char c :: nat in (9 \<le> n \<and> n \<le> 13) \<or> (28 \<le> n \<and> n \<le> 32))"

definition text_check :: "nat \<Rightarrow> string \<Rightarrow> unit result" where
  "text_check maximum v =
     raise_if (list_all is_space v \<or> maximum < length v) (ValueError ''invalid_identity'')"

text \<open>\<open>_now\<close>\<close>

definition now_of :: "int option \<Rightarrow> int \<Rightarrow> int result" where
  "now_of now_ns t =
     (let value = (case now_ns of None \<Rightarrow> t | Some n \<Rightarrow> n) in
      if value < 0 then Inl (ValueError ''invalid_clock'') else Inr value)"

text \<open>
  Decimal arithmetic at 80 digits (\<open>ctx.prec = 80\<close>): rounding half-even to 80 significant digits.
  The sums and products of the code are exact on NUMERIC(38,18) values within its order limits; the
  one place where the context rounds is the quotient of \<open>apply_fill\<close>.
\<close>

definition half_even :: "rat \<Rightarrow> int" where
  "half_even x =
     (let f = \<lfloor>x\<rfloor>; r = x - of_int f
      in if r < 1 / 2 then f else if r > 1 / 2 then f + 1 else if even f then f else f + 1)"

fun leading_zeros :: "nat \<Rightarrow> rat \<Rightarrow> nat" where
  "leading_zeros 0 x = 0"
| "leading_zeros (Suc n) x = (if x \<ge> 1 then 0 else Suc (leading_zeros n (10 * x)))"

definition prec80 :: "rat \<Rightarrow> rat" where
  "prec80 x =
     (if x = 0 then 0
      else let a = \<bar>x\<bar>;
               k = (if a \<ge> 1 then 80 - int (length (whole_text \<lfloor>a\<rfloor>))
                    else 79 + int (leading_zeros 200 a))
           in (if x < 0 then - 1 else 1) * of_int (half_even (a * pow10 k)) / pow10 k)"

section \<open>Reading rows\<close>

text \<open>\<open>_account\<close> and \<open>_order\<close>\<close>

definition fetch_account :: "string \<Rightarrow> string \<Rightarrow> db \<Rightarrow> account_row result" where
  "fetch_account tenant aid d =
     or_raise (first_where (\<lambda>a. ac_tenant_id a = tenant \<and> ac_account_id a = aid) (accounts d))
       (KeyError ''account_not_found'')"

definition fetch_order :: "hasher \<Rightarrow> string \<Rightarrow> string \<Rightarrow> db \<Rightarrow> order_row result" where
  "fetch_order sha tenant oid d =
     bind (or_raise (first_where (\<lambda>r. od_tenant_id r = tenant \<and> od_intent_id r = oid) (orders d))
             (KeyError ''order_not_found'')) (\<lambda>row.
     if content_hash sha (envelope_json (od_payload row)) \<noteq> od_sha256 row
     then Inl (ConflictError ''order_content_integrity_failure'') else Inr row)"

text \<open>
  The dictionaries the methods return: the order row, the flags some branches add to it, and the
  fills \<open>get_order\<close> attaches.
\<close>

record order_view =
  ov_row :: order_row
  ov_flags :: "(string \<times> bool) list"
  ov_fills :: "fill_row list option"

definition plain :: "order_row \<Rightarrow> order_view" where
  "plain row = \<lparr>ov_row = row, ov_flags = [], ov_fills = None\<rparr>"

definition flagged :: "order_row \<Rightarrow> (string \<times> bool) list \<Rightarrow> order_view" where
  "flagged row flags = \<lparr>ov_row = row, ov_flags = flags, ov_fills = None\<rparr>"

definition order_fills :: "string \<Rightarrow> db \<Rightarrow> fill_row list" where
  "order_fills oid d =
     sort_key (\<lambda>f. (fl_created_ns f, fl_fill_id f)) (select_where (\<lambda>f. fl_intent_id f = oid) (fills d))"

definition get_order :: "hasher \<Rightarrow> string \<Rightarrow> string \<Rightarrow> order_view call" where
  "get_order sha tenant oid d =
     (bind (fetch_order sha tenant oid d) (\<lambda>row.
        Inr \<lparr>ov_row = row, ov_flags = [], ov_fills = Some (order_fills oid d)\<rparr>), d)"

record balance_view =
  bv_account_id :: string
  bv_mode :: risk_mode
  bv_wallet :: "(string \<times> rat) list"
  bv_reserved :: "(string \<times> rat) list"
  bv_available :: "(string \<times> rat) list"

definition balances :: "string \<Rightarrow> string \<Rightarrow> db \<Rightarrow> balance_view result" where
  "balances tenant aid d =
     bind (fetch_account tenant aid d) (\<lambda>account.
     let w = wallet aid d;
         reserved = fold (\<lambda>r. dict_add (is_base_asset (en_instrument (od_payload r))) (od_reserved_base r))
           (select_where (\<lambda>r. od_account_id r = aid \<and> od_reserved_base r \<noteq> 0) (orders d))
           [(ac_quote_asset account, ac_reserved_quote account)];
         assets = remdups (map fst w @ map fst reserved)
     in Inr \<lparr>bv_account_id = aid, bv_mode = ac_mode account, bv_wallet = w, bv_reserved = reserved,
          bv_available = map (\<lambda>a. (a, dict_get w a - dict_get reserved a)) assets\<rparr>)"

section \<open>The journal\<close>

definition journal_rows ::
  "hasher \<Rightarrow> string \<Rightarrow> string \<Rightarrow> (string \<times> string \<times> rat) list \<Rightarrow> ledger_entry_row list" where
  "journal_rows sha aid transaction_id entries =
     map (\<lambda>(index, asset, bucket, amount).
            \<lparr>le_entry_id = content_hash sha (JArr [JStr transaction_id, JInt (int index)]),
             le_transaction_id = transaction_id, le_account_id = aid, le_asset = asset,
             le_bucket = bucket, le_amount = amount\<rparr>)
       (zip [0..<length entries] entries)"

text \<open>One INSERT per entry.\<close>

fun insert_entries :: "ledger_entry_row list \<Rightarrow> ledger_entry_row list \<Rightarrow> ledger_entry_row list result" where
  "insert_entries [] rows = Inr rows"
| "insert_entries (e # es) rows =
     (if \<not> fits_numeric (le_amount e)
      then Inl (StatementError ''money_does_not_fit_numeric_38_18_exactly'')
      else bind (insert_row ledger_entry_clash ''pk_v4_ledger_entries'' e rows) (insert_entries es))"

definition journal ::
  "hasher \<Rightarrow> string \<Rightarrow> string \<Rightarrow> string \<Rightarrow> (string \<times> string \<times> rat) list \<Rightarrow> int \<Rightarrow> db \<Rightarrow> db result" where
  "journal sha aid kind source entries now d =
     (let totals = dict_sum (map (\<lambda>(asset, bucket, amount). (asset, amount)) entries);
          transaction_id = content_hash sha (JArr [JStr aid, JStr kind, JStr source])
      in bind (raise_if (list_ex (\<lambda>(asset, total). total \<noteq> 0) totals)
                 (ValueError ''unbalanced_asset_journal'')) (\<lambda>_.
         bind (insert_row ledger_transaction_clash ''uq_v4_ledger_source''
                 \<lparr>lt_transaction_id = transaction_id, lt_account_id = aid, lt_kind = kind,
                  lt_source_id = source, lt_created_ns = now\<rparr> (ledger_transactions d)) (\<lambda>ts.
         bind (insert_entries (journal_rows sha aid transaction_id entries) (ledger_entries d)) (\<lambda>es.
         Inr (d\<lparr>ledger_transactions := ts, ledger_entries := es\<rparr>)))))"

text \<open>The account creation also returns the row; its event records the capital as text.\<close>

definition create_account_tx ::
  "hasher \<Rightarrow> string \<Rightarrow> string \<Rightarrow> rat \<Rightarrow> string \<Rightarrow> int \<Rightarrow> account_row transaction" where
  "create_account_tx sha tenant aid capital quote_asset t d =
     bind (text_check 80 tenant) (\<lambda>_. bind (text_check 100 aid) (\<lambda>_.
     bind (text_check 32 quote_asset) (\<lambda>_. bind (amount_check True capital) (\<lambda>_.
     bind (insert_account_once
             \<lparr>ac_account_id = aid, ac_tenant_id = tenant, ac_quote_asset = quote_asset,
              ac_capital = capital, ac_mode = ACTIVE, ac_reserved_quote = 0, ac_daily_new_risk = 0,
              ac_day_utc = utc_day t, ac_lease_token = None, ac_lease_owner = None,
              ac_lease_until_ns = 0, ac_reconciled_ns = t\<rparr> d) (\<lambda>d1.
     bind (fetch_account tenant aid d1) (\<lambda>account.
     bind (raise_if (ac_capital account \<noteq> capital \<or> ac_quote_asset account \<noteq> quote_asset)
             (ConflictError ''account_identity_conflict'')) (\<lambda>_.
     if exists_where (\<lambda>x. lt_account_id x = aid \<and> lt_kind x = ''funding'') (ledger_transactions d1)
     then Inr (account, d1)
     else bind (journal sha aid ''funding'' aid
                 [(quote_asset, ''wallet'', capital), (quote_asset, ''equity'', - capital)] t d1) (\<lambda>d2.
          Inr (account, add_event tenant aid ''account_created'' [(''capital'', jdec capital)] t d2)))))))))"

section \<open>Calls of several transactions\<close>

definition call_bind :: "'a call \<Rightarrow> ('a \<Rightarrow> 'b call) \<Rightarrow> 'b call" where
  "call_bind m f d = (case m d of (Inl e, d') \<Rightarrow> (Inl e, d') | (Inr x, d') \<Rightarrow> f x d')"

definition raise_call :: "error \<Rightarrow> 'a call" where
  "raise_call e d = (Inl e, d)"

definition return_call :: "'a \<Rightarrow> 'a call" where
  "return_call x d = (Inr x, d)"

text \<open>
  \<open>except RiskBudgetExceededError as exc: self.risk_guard.stop(..); raise\<close>, around a call.
\<close>

definition stop_after_budget :: "string \<Rightarrow> string \<Rightarrow> int \<Rightarrow> 'a call \<Rightarrow> 'a call" where
  "stop_after_budget tenant aid t body d =
     (case body d of
        (Inl (RiskBudgetExceededError m), d1) \<Rightarrow>
          call_bind (transaction (stop_tx tenant aid [m] REDUCE_ONLY None t))
            (\<lambda>_. raise_call (RiskBudgetExceededError m)) d1
      | r \<Rightarrow> r)"

section \<open>Verification of an order\<close>

text \<open>\<open>a % b\<close> is not zero.\<close>

definition off_grid :: "rat \<Rightarrow> rat \<Rightarrow> bool" where
  "off_grid a b \<longleftrightarrow> of_int \<lfloor>a / b\<rfloor> * b \<noteq> a"

definition not_effective :: "int \<Rightarrow> int option \<Rightarrow> int \<Rightarrow> bool" where
  "not_effective from_ns to_ns now \<longleftrightarrow>
     from_ns > now \<or> (case to_ns of None \<Rightarrow> False | Some e \<Rightarrow> now \<ge> e)"

text \<open>\<open>_verify\<close>\<close>

definition verify_order ::
  "hasher \<Rightarrow> order_intent \<Rightarrow> instrument_spec \<Rightarrow> fee_schedule \<Rightarrow> deployment_manifest \<Rightarrow>
   market_snapshot \<Rightarrow> int \<Rightarrow> unit result" where
  "verify_order sha intent instrument fees deployment market now =
     bind (raise_if (oi_venue intent \<noteq> is_venue instrument \<or> oi_instrument intent \<noteq> is_instrument instrument)
             (ValueError ''instrument_identity_mismatch'')) (\<lambda>_.
     bind (raise_if (oi_instrument_spec_hash intent \<noteq> content_hash sha (instrument_json instrument))
             (ValueError ''instrument_version_mismatch'')) (\<lambda>_.
     bind (raise_if (oi_fee_schedule_hash intent \<noteq> content_hash sha (fees_json fees) \<or>
                     oi_fee_schedule_hash intent \<notin> set (dm_fee_schedule_hashes deployment))
             (ValueError ''fee_version_mismatch'')) (\<lambda>_.
     bind (raise_if (oi_account_id intent \<noteq> dm_account_id deployment \<or> oi_venue intent \<noteq> dm_venue deployment \<or>
                     oi_deployment_id intent \<noteq> dm_deployment_id deployment \<or>
                     oi_strategy_hash intent \<noteq> dm_strategy_hash deployment \<or>
                     oi_policy_hash intent \<noteq> dm_risk_policy_hash deployment)
             (ValueError ''deployment_identity_mismatch'')) (\<lambda>_.
     bind (raise_if (mk_venue market \<noteq> oi_venue intent \<or> mk_instrument market \<noteq> oi_instrument intent \<or>
                     mk_fee_schedule_hash market \<noteq> oi_fee_schedule_hash intent \<or>
                     mk_instrument_spec_hash market \<noteq> oi_instrument_spec_hash intent)
             (ValueError ''market_version_mismatch'')) (\<lambda>_.
     bind (raise_if (\<not> mk_book_valid market \<or>
                     \<not> (0 \<le> now - mk_asof_ns market \<and> now - mk_asof_ns market \<le> 1000000000))
             (ValueError ''market_is_not_fresh_and_trusted'')) (\<lambda>_.
     bind (raise_if (\<not> (oi_created_at_ns intent \<le> now \<and> now < oi_valid_until_ns intent))
             (ValueError ''order_not_current'')) (\<lambda>_.
     bind (raise_if (not_effective (is_effective_from_ns instrument) (is_effective_to_ns instrument) now \<or>
                     not_effective (fs_effective_from_ns fees) (fs_effective_to_ns fees) now)
             (ValueError ''specification_not_effective'')) (\<lambda>_.
     bind (raise_if (\<not> (dm_valid_from_ns deployment \<le> now \<and> now < dm_valid_until_ns deployment))
             (ValueError ''deployment_not_current'')) (\<lambda>_.
     bind (raise_if (fs_venue fees \<noteq> oi_venue intent \<or> fs_fee_basis fees \<noteq> notional \<or> fs_funding_rules fees \<noteq> [])
             (ValueError ''unsupported_fee_rules'')) (\<lambda>_.
     bind (raise_if (fs_fee_rules fees \<noteq> []) (ValueError ''fee_rules_require_dedicated_verified_model'')) (\<lambda>_.
     bind (raise_if (is_instrument_type instrument \<noteq> spot \<or> is_contract_multiplier instrument \<noteq> 1)
             (ValueError ''only_unlevered_spot_is_supported'')) (\<lambda>_.
     bind (raise_if (is_trading_sessions instrument \<noteq> [''24x7'']) (ValueError ''unsupported_trading_session'')) (\<lambda>_.
     bind (raise_if (fs_fee_asset fees \<notin> {is_base_asset instrument, is_quote_asset instrument})
             (ValueError ''unknown_fee_asset_funding'')) (\<lambda>_.
     bind (raise_if (max (fs_maker_rate fees) (fs_taker_rate fees) \<ge> 1) (ValueError ''invalid_fee_rate'')) (\<lambda>_.
     bind (raise_if (off_grid (oi_limit_price intent) (is_price_increment instrument) \<or>
                     off_grid (oi_quantity intent) (is_quantity_increment instrument))
             (ValueError ''order_precision_mismatch'')) (\<lambda>_.
     raise_if (oi_quantity intent < is_minimum_quantity instrument \<or>
               oi_quantity intent * oi_limit_price intent < is_minimum_notional instrument)
       (ValueError ''order_below_venue_minimum'')))))))))))))))))"

section \<open>The venue\<close>

text \<open>
  What awaiting an adapter method gives back: a typed result, a value of another type, or an
  exception (\<open>asyncio.CancelledError\<close> included; \<open>wait_for\<close> raises \<open>TimeoutError\<close>).  The adapter is
  code outside this module: its methods are functions of their argument and the database, and give
  back the database as the adapter's own transactions, and those of other workers during the await,
  leave it.
\<close>

datatype 'a reply = Returned 'a | Untyped | Raised error

record adapter =
  ad_execution_mode :: "string option"
  ad_submit :: "order_intent \<Rightarrow> db \<Rightarrow> submit_result reply \<times> db"
  ad_cancel :: "order_identity \<Rightarrow> db \<Rightarrow> cancel_result reply \<times> db"
  ad_query :: "order_identity \<Rightarrow> db \<Rightarrow> order_snapshot reply \<times> db"
  ad_reconcile :: "reconcile_cursor \<Rightarrow> db \<Rightarrow> reconcile_batch reply \<times> db"

text \<open>The configuration of an \<open>OMS\<close> object.\<close>

record oms_config =
  cf_funded_gate :: "(deployment_manifest \<Rightarrow> adapter \<Rightarrow> bool) option"
  cf_daily_entry_fraction :: rat

definition make_oms ::
  "(deployment_manifest \<Rightarrow> adapter \<Rightarrow> bool) option \<Rightarrow> rat \<Rightarrow> oms_config result" where
  "make_oms funded_gate fraction =
     bind (amount_check True fraction) (\<lambda>_.
     bind (raise_if (fraction > 1) (ValueError ''daily_entry_fraction_must_not_exceed_one'')) (\<lambda>_.
     Inr \<lparr>cf_funded_gate = funded_gate, cf_daily_entry_fraction = fraction\<rparr>))"

section \<open>Reservation\<close>

definition intent_envelope ::
  "order_intent \<Rightarrow> instrument_spec \<Rightarrow> fee_schedule \<Rightarrow> deployment_manifest \<Rightarrow> envelope" where
  "intent_envelope intent instrument fees deployment =
     \<lparr>en_intent = intent, en_instrument = instrument, en_fees = fees, en_deployment = deployment\<rparr>"

definition has_uncertain :: "string \<Rightarrow> db \<Rightarrow> bool" where
  "has_uncertain aid d \<longleftrightarrow> exists_where (\<lambda>r. od_account_id r = aid \<and> uncertain (od_status r)) (orders d)"

definition fee_rate :: "fee_schedule \<Rightarrow> rat" where
  "fee_rate fees = max 0 (max (fs_maker_rate fees) (fs_taker_rate fees))"

definition quote_hold :: "order_intent \<Rightarrow> instrument_spec \<Rightarrow> fee_schedule \<Rightarrow> rat" where
  "quote_hold intent instrument fees =
     (if oi_side intent = buy
      then ceil18 (oi_quantity intent * oi_limit_price intent *
             (if fs_fee_asset fees = is_quote_asset instrument then 1 + fee_rate fees else 1))
      else 0)"

definition base_hold :: "order_intent \<Rightarrow> instrument_spec \<Rightarrow> fee_schedule \<Rightarrow> rat" where
  "base_hold intent instrument fees =
     (if oi_side intent = sell
      then ceil18 (oi_quantity intent *
             (if fs_fee_asset fees = is_base_asset instrument then 1 + fee_rate fees else 1))
      else 0)"

definition reserved_base_of :: "string \<Rightarrow> string \<Rightarrow> db \<Rightarrow> rat" where
  "reserved_base_of aid base d =
     (\<Sum>r\<leftarrow>select_where (\<lambda>r. od_account_id r = aid \<and> is_base_asset (en_instrument (od_payload r)) = base)
        (orders d). od_reserved_base r)"

text \<open>The checks of \<open>_reserve\<close> between the identity checks and the amounts.\<close>

definition admission_check ::
  "hasher \<Rightarrow> oms_config \<Rightarrow> account_row \<Rightarrow> order_intent \<Rightarrow> instrument_spec \<Rightarrow> fee_schedule \<Rightarrow>
   deployment_manifest \<Rightarrow> market_snapshot \<Rightarrow> int \<Rightarrow> db \<Rightarrow> unit result" where
  "admission_check sha cf account intent instrument fees deployment market now d =
     bind (verify_order sha intent instrument fees deployment market now) (\<lambda>_.
     bind (if oi_side intent = buy
           then ensure_new_risk_locked sha account deployment instrument market now d else Inr ()) (\<lambda>_.
     bind (raise_if (dm_mode deployment = live_canary \<and> cf_funded_gate cf = None)
             (ValueError ''funded_execution_not_verified'')) (\<lambda>_.
     bind (raise_if (ac_quote_asset account \<noteq> is_quote_asset instrument \<or>
                     rb_currency (dm_risk_budget deployment) \<noteq> ac_quote_asset account \<or>
                     rb_capital (dm_risk_budget deployment) \<noteq> ac_capital account \<or>
                     rb_maximum_leverage (dm_risk_budget deployment) > 1)
             (ValueError ''account_risk_currency_or_capital_mismatch'')) (\<lambda>_.
     bind (raise_if (exists_where (\<lambda>r. od_account_id r = oi_account_id intent \<and>
                       od_deployment_id r = oi_deployment_id intent \<and>
                       od_signal_id r = oi_signal_id intent \<and> od_leg_no r = oi_leg_no intent) (orders d))
             (ConflictError ''signal_leg_already_reserved'')) (\<lambda>_.
     bind (raise_if (exists_where (\<lambda>r. od_risk_reservation_id r = oi_risk_reservation_id intent) (orders d))
             (ConflictError ''risk_reservation_identity_conflict'')) (\<lambda>_.
     bind (raise_if (has_uncertain (oi_account_id intent) d) (ValueError ''account_requires_reconciliation'')) (\<lambda>_.
     bind (raise_if (ac_mode account = HALTED \<or>
                     (ac_mode account \<in> {REDUCE_ONLY, EMERGENCY_EXIT} \<and> oi_side intent \<noteq> sell))
             (ValueError ''risk_mode_blocks_new_order'')) (\<lambda>_.
     raise_if (oi_reduce_only intent \<and> oi_side intent \<noteq> sell)
       (ValueError ''spot_reduce_only_requires_owned_inventory_sale'')))))))))"

text \<open>The amounts: what the account can afford, and the day's new risk of a buy.\<close>

definition budget_check ::
  "oms_config \<Rightarrow> account_row \<Rightarrow> order_intent \<Rightarrow> instrument_spec \<Rightarrow> fee_schedule \<Rightarrow> deployment_manifest \<Rightarrow>
   market_snapshot \<Rightarrow> int \<Rightarrow> db \<Rightarrow> rat result" where
  "budget_check cf account intent instrument fees deployment market now d =
     (let w = wallet (oi_account_id intent) d;
          gross = oi_quantity intent * oi_limit_price intent;
          daily = (if ac_day_utc account = utc_day now then ac_daily_new_risk account else 0) in
      bind (raise_if (list_ex (\<lambda>(asset, amount). amount < 0) w)
              (ValueError ''negative_wallet_requires_reconciliation'')) (\<lambda>_.
      bind (raise_if (list_ex (\<lambda>(asset, amount).
                asset \<notin> {is_base_asset instrument, is_quote_asset instrument} \<and> amount > 0) w)
              (ValueError ''multiasset_valuation_is_not_verified'')) (\<lambda>_.
      bind (raise_if (gross > ac_capital account *
                        min (2 / 100) (rb_maximum_order_fraction (dm_risk_budget deployment)))
              (ValueError ''maximum_order_notional_exceeded'')) (\<lambda>_.
      if oi_side intent = buy then
        bind (raise_if (dict_get w (ac_quote_asset account) - ac_reserved_quote account
                          < quote_hold intent instrument fees)
                (ValueError ''insufficient_unreserved_cash'')) (\<lambda>_.
        bind (raise_if (dict_get w (is_base_asset instrument) * max (mk_ask market) (oi_limit_price intent) +
                          pending_exposure (oi_account_id intent) d + gross
                        > ac_capital account *
                          min (30 / 100) (rb_maximum_position_fraction (dm_risk_budget deployment)))
                (ValueError ''maximum_position_notional_exceeded'')) (\<lambda>_.
        bind (raise_if (daily + gross > ac_capital account * cf_daily_entry_fraction cf)
                (ValueError ''daily_entry_budget_exhausted'')) (\<lambda>_.
        Inr (daily + gross))))
      else
        bind (raise_if (dict_get w (is_base_asset instrument) -
                          reserved_base_of (oi_account_id intent) (is_base_asset instrument) d
                        < base_hold intent instrument fees)
                (ValueError ''insufficient_unreserved_owned_inventory'')) (\<lambda>_.
        Inr (ac_daily_new_risk account))))))"

definition new_order ::
  "hasher \<Rightarrow> string \<Rightarrow> order_intent \<Rightarrow> instrument_spec \<Rightarrow> fee_schedule \<Rightarrow> deployment_manifest \<Rightarrow> int \<Rightarrow>
   order_row" where
  "new_order sha tenant intent instrument fees deployment now =
     (let payload = intent_envelope intent instrument fees deployment in
      \<lparr>od_intent_id = oi_intent_id intent, od_account_id = oi_account_id intent, od_tenant_id = tenant,
       od_deployment_id = oi_deployment_id intent, od_signal_id = oi_signal_id intent,
       od_leg_no = oi_leg_no intent, od_venue = oi_venue intent, od_instrument = oi_instrument intent,
       od_side = oi_side intent, od_quantity = oi_quantity intent, od_filled_quantity = 0,
       od_reserved_quote = quote_hold intent instrument fees,
       od_reserved_base = base_hold intent instrument fees,
       od_risk_reservation_id = oi_risk_reservation_id intent, od_status = RESERVED,
       od_settlement_status = NOT_REQUIRED, od_payload = payload,
       od_sha256 = content_hash sha (envelope_json payload), od_venue_order_id = None,
       od_created_ns = now, od_updated_ns = now, od_last_reconciled_ns = 0\<rparr>)"

text \<open>\<open>_reserve\<close>\<close>

definition reserve_tx ::
  "hasher \<Rightarrow> oms_config \<Rightarrow> string \<Rightarrow> order_intent \<Rightarrow> instrument_spec \<Rightarrow> fee_schedule \<Rightarrow>
   deployment_manifest \<Rightarrow> market_snapshot \<Rightarrow> int option \<Rightarrow> int \<Rightarrow> order_view transaction" where
  "reserve_tx sha cf tenant intent instrument fees deployment market now_ns t d =
     bind (text_check 160 (oi_intent_id intent)) (\<lambda>_. bind (text_check 100 (oi_account_id intent)) (\<lambda>_.
     bind (text_check 160 (oi_risk_reservation_id intent)) (\<lambda>_.
     bind (fetch_account tenant (oi_account_id intent) d) (\<lambda>account.
     bind (now_of now_ns t) (\<lambda>now.
     bind (ensure_active_deployment tenant (oi_account_id intent) (oi_deployment_id intent) d) (\<lambda>_.
     let row = new_order sha tenant intent instrument fees deployment now;
         aid = oi_account_id intent in
     case first_where (\<lambda>r. od_intent_id r = oi_intent_id intent) (orders d) of
       Some existing \<Rightarrow>
         if od_tenant_id existing \<noteq> tenant \<or> od_sha256 existing \<noteq> od_sha256 row
         then Inl (ConflictError ''order_identity_conflict'') else Inr (plain existing, d)
     | None \<Rightarrow>
         bind (admission_check sha cf account intent instrument fees deployment market now d) (\<lambda>_.
         bind (budget_check cf account intent instrument fees deployment market now d) (\<lambda>daily.
         bind (if oi_side intent = buy
               then update_account aid (\<lambda>a. a\<lparr>ac_daily_new_risk := daily, ac_day_utc := utc_day now\<rparr>) d
               else Inr d) (\<lambda>d1.
         bind (update_account aid (\<lambda>a. a\<lparr>ac_reserved_quote :=
                 ac_reserved_quote account + od_reserved_quote row\<rparr>) d1) (\<lambda>d2.
         bind (insert_order_once row d2) (\<lambda>d3.
         bind (raise_if (case first_where (\<lambda>r. od_intent_id r = oi_intent_id intent) (orders d3) of
                           None \<Rightarrow> True
                         | Some inserted \<Rightarrow> od_tenant_id inserted \<noteq> tenant \<or>
                             od_sha256 inserted \<noteq> od_sha256 row)
                 (ConflictError ''order_or_reservation_identity_conflict'')) (\<lambda>_.
         Inr (plain row, add_event tenant (oi_intent_id intent) ''order_reserved''
                [(''sha256'', JStr (od_sha256 row))] t d3)))))))))))))"

text \<open>\<open>reserve\<close>: the risk check, the reservation, and the stop after a refused budget.\<close>

definition reserve ::
  "hasher \<Rightarrow> oms_config \<Rightarrow> string \<Rightarrow> order_intent \<Rightarrow> instrument_spec \<Rightarrow> fee_schedule \<Rightarrow>
   deployment_manifest \<Rightarrow> market_snapshot \<Rightarrow> int option \<Rightarrow> (nat \<Rightarrow> int) \<Rightarrow> order_view call" where
  "reserve sha cf tenant intent instrument fees deployment market now_ns clk =
     call_bind (transaction (check_tx sha tenant deployment instrument market now_ns (clk 0))) (\<lambda>checked.
     let report = ck_report checked in
     if rr_observation_discarded report
     then raise_call (StaleMarketObservationError ''superseded_market_observation'')
     else if rr_mode report = HALTED \<or> (rr_mode report \<noteq> ACTIVE \<and> oi_side intent = buy)
     then raise_call (RiskBudgetExceededError
            (''risk_budget_or_health_stop:'' @ join_reasons (rr_reasons report)))
     else stop_after_budget tenant (oi_account_id intent) (clk 2)
            (transaction (reserve_tx sha cf tenant intent instrument fees deployment market now_ns (clk 1))))"

section \<open>The account lease\<close>

text \<open>
  \<open>claim_account\<close>: \<open>known\<close> is the token this process remembers for the owner, \<open>fresh\<close> the new
  \<open>uuid4().hex\<close>.
\<close>

definition claim_account_tx ::
  "string \<Rightarrow> string \<Rightarrow> string \<Rightarrow> int \<Rightarrow> string option \<Rightarrow> string option \<Rightarrow> string \<Rightarrow> int \<Rightarrow>
   string option transaction" where
  "claim_account_tx tenant aid owner ttl lease_token known fresh t d =
     bind (text_check 160 owner) (\<lambda>_.
     bind (raise_if (\<not> (1 \<le> ttl \<and> ttl \<le> 300)) (ValueError ''invalid_lease_ttl'')) (\<lambda>_.
     bind (fetch_account tenant aid d) (\<lambda>account.
     let proof_token = (if lease_token \<noteq> None then lease_token else known);
         held = ac_lease_until_ns account > t in
     bind (raise_if (held \<and> (ac_lease_owner account \<noteq> Some owner \<or> proof_token \<noteq> ac_lease_token account))
             (ConflictError ''account_execution_lease_held'')) (\<lambda>_.
     bind (raise_if (\<not> held \<and> lease_token \<noteq> None \<and> lease_token \<noteq> ac_lease_token account)
             (ConflictError ''account_execution_lease_lost'')) (\<lambda>_.
     let token = (if held then ac_lease_token account else Some fresh) in
     bind (update_account aid (\<lambda>a. a\<lparr>ac_lease_owner := Some owner, ac_lease_token := token,
             ac_lease_until_ns := t + ttl * 1000000000\<rparr>) d) (\<lambda>d1.
     Inr (token, add_event tenant aid ''execution_lease_claimed'' [(''owner'', JStr owner)] t d1)))))))"

type_synonym lease_tokens = "((string \<times> string \<times> string) \<times> string option) list"

definition claim_account ::
  "lease_tokens \<Rightarrow> string \<Rightarrow> string \<Rightarrow> string \<Rightarrow> int \<Rightarrow> string option \<Rightarrow> string \<Rightarrow> int \<Rightarrow> db \<Rightarrow>
   string option result \<times> lease_tokens \<times> db" where
  "claim_account tokens tenant aid owner ttl lease_token fresh t d =
     (let key = (tenant, aid, owner);
          known = (case map_of tokens key of None \<Rightarrow> None | Some k \<Rightarrow> k) in
      case transaction (claim_account_tx tenant aid owner ttl lease_token known fresh t) d of
        (Inl e, d1) \<Rightarrow> (Inl e, tokens, d1)
      | (Inr token, d1) \<Rightarrow> (Inr token, (key, token) # tokens, d1))"

text \<open>\<open>_lease\<close>\<close>

definition lease_check :: "account_row \<Rightarrow> string \<Rightarrow> int \<Rightarrow> unit result" where
  "lease_check account token now =
     raise_if (ac_lease_token account \<noteq> Some token \<or> ac_lease_until_ns account \<le> now)
       (ConflictError ''account_execution_lease_lost'')"

section \<open>Releasing, settling, losing certainty\<close>

text \<open>\<open>_release\<close>\<close>

definition release :: "account_row \<Rightarrow> order_row \<Rightarrow> order_status \<Rightarrow> int \<Rightarrow> db \<Rightarrow> db result" where
  "release account order status now d =
     bind (update_account (ac_account_id account) (\<lambda>a. a\<lparr>ac_reserved_quote :=
             ac_reserved_quote account - od_reserved_quote order\<rparr>) d)
       (update_order (od_intent_id order) (\<lambda>r. r\<lparr>od_status := status, od_reserved_quote := 0,
             od_reserved_base := 0, od_updated_ns := now\<rparr>))"

definition halt_account :: "string \<Rightarrow> db \<Rightarrow> db result" where
  "halt_account aid = update_account aid (\<lambda>a. a\<lparr>ac_mode := HALTED\<rparr>)"

text \<open>\<open>_settlement\<close>\<close>

definition settlement ::
  "string \<Rightarrow> order_row \<Rightarrow> settlement_status \<Rightarrow> bool \<Rightarrow> int \<Rightarrow> db \<Rightarrow> (settlement_status \<times> db) result" where
  "settlement tenant row incoming authoritative t d =
     (let current = od_settlement_status row; broken = {settlement_status.FAILED, REORGED} in
      if incoming = NOT_REQUIRED \<or> (current = CONFIRMED \<and> incoming = PENDING) then Inr (current, d)
      else if current \<in> broken \<and> incoming \<notin> broken \<and> (\<not> authoritative \<or> incoming \<noteq> CONFIRMED)
      then Inr (current, d)
      else
        bind (if incoming \<noteq> current
              then bind (update_order (od_intent_id row) (\<lambda>r. r\<lparr>od_settlement_status := incoming\<rparr>) d) (\<lambda>d1.
                   Inr (add_event tenant (od_intent_id row) ''settlement_observed''
                     [(''previous'', JStr (settlement_text current)),
                      (''status'', JStr (settlement_text incoming)),
                      (''authoritative_snapshot'', JBool authoritative)] t d1))
              else Inr d) (\<lambda>d2.
        bind (if incoming \<in> broken then halt_account (od_account_id row) d2 else Inr d2) (\<lambda>d3.
        Inr (incoming, d3))))"

text \<open>
  \<open>_uncertain\<close>: the transaction returns the order when the late failure is ignored; otherwise the
  order is reread.
\<close>

definition uncertain_tx ::
  "hasher \<Rightarrow> string \<Rightarrow> string \<Rightarrow> string \<Rightarrow> order_status option \<Rightarrow> int \<Rightarrow> order_row option transaction" where
  "uncertain_tx sha tenant oid reason expected t d =
     bind (fetch_order sha tenant oid d) (\<lambda>found.
     bind (fetch_account tenant (od_account_id found) d) (\<lambda>account.
     if terminal (od_status found) \<or>
        (case expected of None \<Rightarrow> False | Some e \<Rightarrow> od_status found \<notin> {e, UNKNOWN})
     then Inr (Some found, add_event tenant oid ''late_transport_failure_ignored''
                 [(''reason'', JStr reason), (''observed_status'', JStr (status_text (od_status found)))] t d)
     else
       bind (update_order oid (\<lambda>r. r\<lparr>od_status := UNKNOWN, od_updated_ns := t\<rparr>) d) (\<lambda>d1.
       bind (halt_account (ac_account_id account) d1) (\<lambda>d2.
       Inr (None, add_event tenant oid ''execution_uncertain'' [(''reason'', JStr reason)] t d2)))))"

definition uncertain_call ::
  "hasher \<Rightarrow> string \<Rightarrow> string \<Rightarrow> string \<Rightarrow> order_status option \<Rightarrow> int \<Rightarrow> order_view call" where
  "uncertain_call sha tenant oid reason expected t =
     call_bind (transaction (uncertain_tx sha tenant oid reason expected t)) (\<lambda>ignored.
     case ignored of Some found \<Rightarrow> return_call (plain found) | None \<Rightarrow> get_order sha tenant oid)"

section \<open>Submission\<close>

definition market_health :: "string \<Rightarrow> order_row \<Rightarrow> db \<Rightarrow> health_row option" where
  "market_health tenant row d =
     first_where (\<lambda>h. hl_tenant_id h = tenant \<and>
        hl_name h = ''market:'' @ od_venue row @ '':'' @ od_instrument row) (runtime_health d)"

text \<open>The first half of \<open>submit\<close>: a trusted market and a passing risk check for a reserved order.\<close>

definition submission_market :: "string \<Rightarrow> order_row \<Rightarrow> db \<Rightarrow> json option" where
  "submission_market tenant row d =
     (case market_health tenant row d of
        Some h \<Rightarrow> if hl_payload h = JNull then None else Some (hl_payload h)
      | None \<Rightarrow>
          (case first_where (\<lambda>s. rs_account_id s = od_account_id row) (risk_state d) of
             Some s \<Rightarrow> Some (market_json (rs_market s)) | None \<Rightarrow> None))"

definition stop_and_raise :: "string \<Rightarrow> string \<Rightarrow> string \<Rightarrow> int \<Rightarrow> 'a call" where
  "stop_and_raise tenant aid reason t =
     call_bind (transaction (stop_tx tenant aid [reason] HALTED None t))
       (\<lambda>_. raise_call (RiskBudgetExceededError reason))"

definition submit_guard ::
  "hasher \<Rightarrow> string \<Rightarrow> order_row \<Rightarrow> int option \<Rightarrow> int \<Rightarrow> market_snapshot option call" where
  "submit_guard sha tenant row now_ns t d =
     (case submission_market tenant row d of
        None \<Rightarrow> stop_and_raise tenant (od_account_id row) ''submission_has_no_trusted_market'' t d
      | Some raw \<Rightarrow>
          (case parse_market raw of
             None \<Rightarrow> stop_and_raise tenant (od_account_id row) ''submission_market_invalid'' t d
           | Some market \<Rightarrow>
               call_bind (transaction (check_tx sha tenant (en_deployment (od_payload row))
                            (en_instrument (od_payload row)) market now_ns t)) (\<lambda>checked.
               let guard = ck_report checked in
               if rr_observation_discarded guard
               then raise_call (StaleMarketObservationError ''superseded_market_observation'')
               else if rr_mode guard = HALTED \<or> (rr_mode guard \<noteq> ACTIVE \<and> od_side row = buy)
               then raise_call (RiskBudgetExceededError ''submission_risk_or_health_stop'')
               else return_call (Some market)) d))"

text \<open>The branches of a first transaction: finished here, or on to the venue with this row.\<close>

datatype begun = BeginDone order_view | BeginSend order_row

text \<open>The first transaction of \<open>_submit\<close>.\<close>

definition submit_begin_tx ::
  "hasher \<Rightarrow> oms_config \<Rightarrow> string \<Rightarrow> string \<Rightarrow> adapter \<Rightarrow> string \<Rightarrow> int option \<Rightarrow>
   market_snapshot option \<Rightarrow> int \<Rightarrow> begun transaction" where
  "submit_begin_tx sha cf tenant oid adapter lease_token now_ns checked_market t d =
     bind (fetch_order sha tenant oid d) (\<lambda>row.
     bind (fetch_account tenant (od_account_id row) d) (\<lambda>account.
     bind (now_of now_ns t) (\<lambda>now.
     bind (ensure_active_deployment tenant (od_account_id row) (od_deployment_id row) d) (\<lambda>_.
     bind (lease_check account lease_token now) (\<lambda>_.
     if od_status row \<noteq> RESERVED
     then Inr (BeginDone (flagged row [(''requires_reconciliation'', uncertain (od_status row))]), d)
     else
       let intent = en_intent (od_payload row); deployment = en_deployment (od_payload row);
           aid = od_account_id row; gross = oi_quantity intent * oi_limit_price intent in
       if now \<ge> oi_valid_until_ns intent
       then bind (release account row EXPIRED now d) (\<lambda>d1.
            Inr (BeginDone (plain (row\<lparr>od_status := EXPIRED, od_reserved_quote := 0, od_reserved_base := 0\<rparr>)),
                 add_event tenant oid ''order_expired_unsent'' [] t d1))
       else
         bind (raise_if (ac_mode account = HALTED \<or> (ac_mode account \<noteq> ACTIVE \<and> oi_side intent \<noteq> sell))
                 (ValueError ''risk_mode_blocks_submission'')) (\<lambda>_.
         bind (case checked_market of
                 Some market \<Rightarrow>
                   if oi_side intent = buy
                   then ensure_new_risk_locked sha account deployment (en_instrument (od_payload row)) market now d
                   else Inr ()
               | None \<Rightarrow> Inr ()) (\<lambda>_.
         bind (raise_if (exists_where (\<lambda>r. od_account_id r = aid \<and> od_intent_id r \<noteq> oid \<and>
                           uncertain (od_status r)) (orders d))
                 (ValueError ''account_requires_reconciliation'')) (\<lambda>_.
         if dm_mode deployment = shadow
         then
           bind (release account row CANCELED now d) (\<lambda>d1.
           bind (if oi_side intent = buy \<and> ac_day_utc account = utc_day now
                 then update_account aid (\<lambda>a. a\<lparr>ac_daily_new_risk :=
                        max 0 (ac_daily_new_risk account - gross)\<rparr>) d1
                 else Inr d1) (\<lambda>d2.
           Inr (BeginDone (flagged (row\<lparr>od_status := CANCELED, od_reserved_quote := 0, od_reserved_base := 0\<rparr>)
                  [(''sent'', False), (''shadow'', True)]),
                add_event tenant oid ''shadow_intent_evaluated'' [(''sent'', JBool False)] t d2)))
         else
           bind (raise_if (dm_mode deployment = paper \<and> ad_execution_mode adapter \<noteq> Some ''paper'')
                   (ValueError ''paper_deployment_requires_explicit_paper_adapter'')) (\<lambda>_.
           bind (raise_if (dm_mode deployment = live_canary \<and>
                           (ad_execution_mode adapter \<noteq> Some ''live'' \<or>
                            (case cf_funded_gate cf of None \<Rightarrow> True | Some g \<Rightarrow> \<not> g deployment adapter)))
                   (ValueError ''funded_execution_not_verified'')) (\<lambda>_.
           bind (raise_if (\<not> exists_where (\<lambda>r. od_intent_id r = oid \<and> od_status r = RESERVED) (orders d))
                   (ConflictError ''submission_compare_and_swap_failed'')) (\<lambda>_.
           bind (update_order oid (\<lambda>r. if od_status r = RESERVED
                   then r\<lparr>od_status := SUBMITTING, od_updated_ns := now\<rparr> else r) d) (\<lambda>d1.
           Inr (BeginSend row, add_event tenant oid ''order_submitting'' [] t d1)))))))))))))"

text \<open>\<open>_identity_matches\<close>\<close>

definition identity_check :: "order_row \<Rightarrow> order_identity \<Rightarrow> unit result" where
  "identity_check row identity =
     raise_if (id_intent_id identity \<noteq> od_intent_id row \<or> id_account_id identity \<noteq> od_account_id row \<or>
               id_venue identity \<noteq> od_venue row \<or>
               (od_venue_order_id row \<noteq> None \<and> id_venue_order_id identity \<noteq> od_venue_order_id row))
       (ValueError ''adapter_order_identity_mismatch'')"

text \<open>
  Why a submission is aborted just before the send, if it is, and the account mode it leaves: the
  exceptions of the last market and risk check, most specific first.
\<close>

definition abort_decision ::
  "account_row \<Rightarrow> order_intent \<Rightarrow> unit result \<Rightarrow> (string option \<times> risk_mode) result" where
  "abort_decision account intent checked =
     (let first = (if ac_mode account = HALTED \<or> (ac_mode account \<noteq> ACTIVE \<and> oi_side intent \<noteq> sell)
                   then Some ''risk_mode_changed_before_send'' else None);
          or_else = (\<lambda>r. case first of None \<Rightarrow> Some r | Some f \<Rightarrow> Some f)
      in case checked of
           Inr _ \<Rightarrow> Inr (first, ac_mode account)
         | Inl (StaleMarketObservationError _) \<Rightarrow>
             Inr (or_else ''superseded_market_observation_before_send'', ac_mode account)
         | Inl (RiskBudgetExceededError _) \<Rightarrow>
             Inr (or_else ''risk_budget_changed_before_send'',
                  if ac_mode account = HALTED then HALTED else REDUCE_ONLY)
         | Inl e \<Rightarrow>
             if is_value_error e then Inr (or_else ''market_or_risk_changed_before_send'', HALTED)
             else Inl e)"

definition presend_check ::
  "hasher \<Rightarrow> string \<Rightarrow> account_row \<Rightarrow> order_row \<Rightarrow> market_snapshot option \<Rightarrow> int \<Rightarrow> db \<Rightarrow> unit result" where
  "presend_check sha tenant account row checked_market now d =
     (let intent = en_intent (od_payload row); deployment = en_deployment (od_payload row);
          instrument = en_instrument (od_payload row) in
      bind (case market_health tenant row d of
              Some h \<Rightarrow> or_raise (parse_market (hl_payload h)) (ValueError ''ExecutableMarketSnapshot'')
            | None \<Rightarrow> or_raise checked_market (ValueError ''trusted_market_required_before_send'')) (\<lambda>latest.
      bind (verify_order sha intent instrument (en_fees (od_payload row)) deployment latest now) (\<lambda>_.
      if oi_side intent = buy
      then ensure_new_risk_locked sha account deployment instrument latest now d else Inr ())))"

datatype rechecked = CheckDone order_view | CheckProceed

text \<open>The second transaction of \<open>_submit\<close>, immediately before the side effect; \<open>row\<close> was read by the first.\<close>

definition submit_recheck_tx ::
  "hasher \<Rightarrow> string \<Rightarrow> order_row \<Rightarrow> string \<Rightarrow> int option \<Rightarrow> market_snapshot option \<Rightarrow> int \<Rightarrow>
   rechecked transaction" where
  "submit_recheck_tx sha tenant row lease_token now_ns checked_market t d =
     (let oid = od_intent_id row; aid = od_account_id row in
      bind (fetch_account tenant aid d) (\<lambda>account.
      bind (fetch_order sha tenant oid d) (\<lambda>current.
      bind (now_of now_ns t) (\<lambda>now.
      bind (lease_check account lease_token t) (\<lambda>_.
      bind (ensure_active_deployment tenant aid (od_deployment_id row) d) (\<lambda>_.
      if od_status current \<noteq> SUBMITTING
      then Inr (CheckDone (flagged current [(''requires_reconciliation'', uncertain (od_status current))]), d)
      else
        bind (abort_decision account (en_intent (od_payload row))
                (presend_check sha tenant account row checked_market now d)) (\<lambda>(reason, abort_mode).
        case reason of
          None \<Rightarrow> Inr (CheckProceed, d)
        | Some why \<Rightarrow>
            bind (release account current CANCELED now d) (\<lambda>d1.
            bind (update_account aid (\<lambda>a. a\<lparr>ac_mode := abort_mode\<rparr>) d1) (\<lambda>d2.
            Inr (CheckDone (flagged (current\<lparr>od_status := CANCELED, od_reserved_quote := 0,
                     od_reserved_base := 0\<rparr>) [(''sent'', False), (''never_sent'', True)]),
                 add_event tenant oid ''order_aborted_before_send''
                   [(''reason'', JStr why), (''never_sent'', JBool True)] t d2))))))))))"

text \<open>The last transaction of \<open>_submit\<close>: the acknowledgement.\<close>

definition submit_ack_tx ::
  "hasher \<Rightarrow> string \<Rightarrow> order_row \<Rightarrow> string \<Rightarrow> submit_result \<Rightarrow> int \<Rightarrow> unit transaction" where
  "submit_ack_tx sha tenant row lease_token answer t d =
     (let oid = od_intent_id row; aid = od_account_id row;
          vid = id_venue_order_id (sr_identity answer) in
      bind (fetch_account tenant aid d) (\<lambda>account.
      bind (fetch_order sha tenant oid d) (\<lambda>current.
      bind (lease_check account lease_token t) (\<lambda>_.
      bind (identity_check current (sr_identity answer)) (\<lambda>_.
      bind (if vid \<noteq> None then update_order oid (\<lambda>r. r\<lparr>od_venue_order_id := vid\<rparr>) d else Inr d) (\<lambda>d1.
      bind (if od_status current = SUBMITTING then
              bind (if sr_status answer = submit_rejected
                    then release account current REJECTED t d1
                    else update_order oid (\<lambda>r. r\<lparr>
                           od_status := (if sr_status answer = accepted then ACKNOWLEDGED else UNKNOWN),
                           od_venue_order_id := vid, od_updated_ns := t\<rparr>) d1) (\<lambda>d2.
              if sr_status answer = submit_unknown then halt_account aid d2 else Inr d2)
            else Inr d1) (\<lambda>d3.
      Inr ((), add_event tenant oid ''submission_result'' (submit_result_fields answer) t d3))))))))"

text \<open>
  What the \<open>try\<close> around an awaited venue call makes of its reply: the checked result, or the type
  name of the exception.
\<close>

definition checked_reply ::
  "('a \<Rightarrow> order_identity) \<Rightarrow> order_row \<Rightarrow> 'a reply \<Rightarrow> 'a result" where
  "checked_reply identity row reply =
     (case reply of
        Raised e \<Rightarrow> Inl e
      | Untyped \<Rightarrow> Inl (ValueError ''adapter_result_must_be_typed'')
      | Returned answer \<Rightarrow> bind (identity_check row (identity answer)) (\<lambda>_. Inr answer))"

text \<open>
  \<open>except asyncio.CancelledError: self._uncertain(..); raise\<close> and
  \<open>except Exception as exc: return self._uncertain(..)\<close>.
\<close>

definition transport_failure ::
  "hasher \<Rightarrow> string \<Rightarrow> string \<Rightarrow> string \<Rightarrow> order_status \<Rightarrow> error \<Rightarrow> int \<Rightarrow> order_view call" where
  "transport_failure sha tenant oid cancelled expected e t =
     (if e = CancelledError
      then call_bind (uncertain_call sha tenant oid cancelled (Some expected) t) (\<lambda>_. raise_call e)
      else uncertain_call sha tenant oid (error_name e) (Some expected) t)"

text \<open>\<open>_submit\<close>\<close>

definition submit_inner ::
  "hasher \<Rightarrow> oms_config \<Rightarrow> string \<Rightarrow> string \<Rightarrow> adapter \<Rightarrow> string \<Rightarrow> int option \<Rightarrow>
   market_snapshot option \<Rightarrow> (nat \<Rightarrow> int) \<Rightarrow> order_view call" where
  "submit_inner sha cf tenant oid adapter lease_token now_ns checked_market clk =
     call_bind (transaction (submit_begin_tx sha cf tenant oid adapter lease_token now_ns checked_market (clk 0)))
       (\<lambda>b. case b of
          BeginDone v \<Rightarrow> return_call v
        | BeginSend row \<Rightarrow> (\<lambda>d1.
            let failure = (\<lambda>e. transport_failure sha tenant oid ''submission_cancelled'' SUBMITTING e (clk 2)) in
            case transaction (submit_recheck_tx sha tenant row lease_token now_ns checked_market (clk 1)) d1 of
              (Inl e, d2) \<Rightarrow> failure e d2
            | (Inr (CheckDone v), d2) \<Rightarrow> (Inr v, d2)
            | (Inr CheckProceed, d2) \<Rightarrow>
                (case ad_submit adapter (en_intent (od_payload row)) d2 of (reply, d3) \<Rightarrow>
                   (case checked_reply sr_identity row reply of
                      Inl e \<Rightarrow> failure e d3
                    | Inr answer \<Rightarrow>
                        call_bind (transaction (submit_ack_tx sha tenant row lease_token answer (clk 2)))
                          (\<lambda>_. get_order sha tenant oid) d3))))"

text \<open>\<open>submit\<close>\<close>

definition submit ::
  "hasher \<Rightarrow> oms_config \<Rightarrow> string \<Rightarrow> string \<Rightarrow> adapter \<Rightarrow> string \<Rightarrow> int option \<Rightarrow> (nat \<Rightarrow> int) \<Rightarrow>
   order_view call" where
  "submit sha cf tenant oid adapter lease_token now_ns clk =
     call_bind (get_order sha tenant oid) (\<lambda>view.
     let row = ov_row view; body = submit_inner sha cf tenant oid adapter lease_token now_ns in
     case (if od_status row = RESERVED then now_of now_ns (clk 0) else Inr 0) of
       Inl e \<Rightarrow> raise_call e
     | Inr now \<Rightarrow>
         call_bind
           (if od_status row = RESERVED \<and> now < oi_valid_until_ns (en_intent (od_payload row))
            then submit_guard sha tenant row now_ns (clk 1) else return_call None) (\<lambda>market.
         stop_after_budget tenant (od_account_id row) (clk 5) (body market (\<lambda>n. clk (n + 2)))))"

section \<open>Cancellation\<close>

definition order_identity_of :: "order_row \<Rightarrow> order_identity" where
  "order_identity_of row = \<lparr>id_venue = od_venue row, id_account_id = od_account_id row,
     id_intent_id = od_intent_id row, id_venue_order_id = od_venue_order_id row\<rparr>"

definition cancel_begin_tx ::
  "hasher \<Rightarrow> string \<Rightarrow> string \<Rightarrow> string \<Rightarrow> int \<Rightarrow> begun transaction" where
  "cancel_begin_tx sha tenant oid lease_token t d =
     bind (fetch_order sha tenant oid d) (\<lambda>row.
     bind (fetch_account tenant (od_account_id row) d) (\<lambda>account.
     bind (lease_check account lease_token t) (\<lambda>_.
     if terminal (od_status row) then Inr (BeginDone (plain row), d)
     else if od_status row = RESERVED
     then bind (release account row CANCELED t d) (\<lambda>d1.
          Inr (BeginDone (plain (row\<lparr>od_status := CANCELED, od_reserved_quote := 0, od_reserved_base := 0\<rparr>)),
               add_event tenant oid ''unsent_order_canceled'' [] t d1))
     else if uncertain (od_status row)
     then Inr (BeginDone (flagged row [(''requires_reconciliation'', True)]), d)
     else bind (update_order oid (\<lambda>r. r\<lparr>od_status := CANCEL_PENDING, od_updated_ns := t\<rparr>) d) (\<lambda>d1.
          Inr (BeginSend row, add_event tenant oid ''cancel_pending'' [] t d1)))))"

definition cancel_ack_tx ::
  "hasher \<Rightarrow> string \<Rightarrow> order_row \<Rightarrow> string \<Rightarrow> cancel_result \<Rightarrow> int \<Rightarrow> unit transaction" where
  "cancel_ack_tx sha tenant row lease_token answer t d =
     (let oid = od_intent_id row in
      bind (fetch_account tenant (od_account_id row) d) (\<lambda>account.
      bind (fetch_order sha tenant oid d) (\<lambda>current.
      bind (lease_check account lease_token t) (\<lambda>_.
      bind (if od_status current = CANCEL_PENDING \<and> cr_status answer = confirmed
            then release account current CANCELED t d
            else if od_status current = CANCEL_PENDING \<and> cr_status answer = cancel_rejected
            then update_order oid (\<lambda>r. r\<lparr>od_status :=
                   (if od_filled_quantity current \<noteq> 0 then PARTIALLY_FILLED else ACKNOWLEDGED)\<rparr>) d
            else Inr d) (\<lambda>d1.
      Inr ((), add_event tenant oid ''cancel_result'' (cancel_result_fields answer) t d1))))))"

definition cancel ::
  "hasher \<Rightarrow> string \<Rightarrow> string \<Rightarrow> adapter \<Rightarrow> string \<Rightarrow> (nat \<Rightarrow> int) \<Rightarrow> order_view call" where
  "cancel sha tenant oid adapter lease_token clk =
     call_bind (transaction (cancel_begin_tx sha tenant oid lease_token (clk 0)))
       (\<lambda>b. case b of
          BeginDone v \<Rightarrow> return_call v
        | BeginSend row \<Rightarrow> (\<lambda>d1.
            case ad_cancel adapter (order_identity_of row) d1 of (reply, d2) \<Rightarrow>
              (case checked_reply cr_identity row reply of
                 Inl e \<Rightarrow> transport_failure sha tenant oid ''cancel_cancelled'' CANCEL_PENDING e (clk 1) d2
               | Inr answer \<Rightarrow>
                   call_bind (transaction (cancel_ack_tx sha tenant row lease_token answer (clk 1)))
                     (\<lambda>_. get_order sha tenant oid) d2)))"

section \<open>Fills\<close>

record fill_args =
  fa_venue_trade_id :: string
  fa_quantity :: rat
  fa_price :: rat
  fa_fee :: rat
  fa_fee_asset :: string
  fa_base_asset :: string
  fa_quote_asset :: string
  fa_settlement_status :: string

definition settlement_of_text :: "string \<Rightarrow> settlement_status option" where
  "settlement_of_text s =
     find (\<lambda>x. settlement_text x = s) [NOT_REQUIRED, PENDING, CONFIRMED, settlement_status.FAILED, REORGED]"

text \<open>What a fill is worth: the buyer pays the ceiling, the seller receives the floor.\<close>

definition fill_gross :: "side \<Rightarrow> rat \<Rightarrow> rat \<Rightarrow> rat" where
  "fill_gross sd quantity price = (if sd = buy then ceil18 (quantity * price) else floor18 (quantity * price))"

definition fill_payload :: "string \<Rightarrow> fill_args \<Rightarrow> rat \<Rightarrow> (string \<times> json) list" where
  "fill_payload oid a gross =
     [(''intent_id'', JStr oid), (''quantity'', jdec (fa_quantity a)), (''price'', jdec (fa_price a)),
      (''fee'', jdec (fa_fee a)), (''fee_asset'', JStr (fa_fee_asset a)),
      (''base_asset'', JStr (fa_base_asset a)), (''quote_asset'', JStr (fa_quote_asset a)),
      (''cash_notional'', jdec gross), (''cash_rounding'', JStr ''buyer_ceiling_seller_floor_18dp'')]"

definition never_sent_events :: "string list" where
  "never_sent_events = [''shadow_intent_evaluated'', ''order_aborted_before_send'',
     ''unsent_order_canceled'', ''order_expired_unsent'']"

definition proven_never_sent :: "string \<Rightarrow> string \<Rightarrow> db \<Rightarrow> bool" where
  "proven_never_sent tenant oid d \<longleftrightarrow>
     exists_where (\<lambda>e. ev_tenant_id e = tenant \<and> ev_entity_id e = oid \<and>
       ev_event_type e \<in> set never_sent_events) (events d)"

definition side_sign :: "side \<Rightarrow> rat" where
  "side_sign sd = (if sd = buy then 1 else - 1)"

definition trade_entries :: "side \<Rightarrow> fill_args \<Rightarrow> rat \<Rightarrow> (string \<times> string \<times> rat) list" where
  "trade_entries sd a gross =
     [(fa_base_asset a, ''wallet'', fa_quantity a * side_sign sd),
      (fa_base_asset a, ''counterparty'', - fa_quantity a * side_sign sd),
      (fa_quote_asset a, ''wallet'', - gross * side_sign sd),
      (fa_quote_asset a, ''counterparty'', gross * side_sign sd),
      (fa_fee_asset a, ''wallet'', - fa_fee a), (fa_fee_asset a, ''fee_expense'', fa_fee a)]"

text \<open>
  What stays reserved for the unfilled part of an order: \<open>quantity * remaining\<close> goes through the
  80 digit quotient \<open>remaining = (quantity - filled) / quantity\<close>.
\<close>

definition remaining_quote :: "order_row \<Rightarrow> rat \<Rightarrow> rat" where
  "remaining_quote row filled =
     (let fees = en_fees (od_payload row) in
      if \<not> terminal (od_status row) \<and> od_side row = buy
      then ceil18 ((od_quantity row - filled) * oi_limit_price (en_intent (od_payload row)) *
             (if fs_fee_asset fees = is_quote_asset (en_instrument (od_payload row)) then 1 + fee_rate fees else 1))
      else 0)"

definition remaining_base :: "order_row \<Rightarrow> rat \<Rightarrow> rat" where
  "remaining_base row filled =
     (let fees = en_fees (od_payload row); remaining = prec80 ((od_quantity row - filled) / od_quantity row) in
      if \<not> terminal (od_status row) \<and> od_side row = sell
      then ceil18 (prec80 (prec80 (od_quantity row * remaining) *
             (if fs_fee_asset fees = is_base_asset (en_instrument (od_payload row)) then 1 + fee_rate fees else 1)))
      else 0)"

definition filled_status :: "order_row \<Rightarrow> rat \<Rightarrow> order_status" where
  "filled_status row filled =
     (if filled = od_quantity row then FILLED
      else if terminal (od_status row) \<or> od_status row = CANCEL_PENDING then od_status row
      else PARTIALLY_FILLED)"

text \<open>The conditions under which an applied fill halts the account.\<close>

definition fill_breach :: "account_row \<Rightarrow> order_row \<Rightarrow> fill_args \<Rightarrow> rat \<Rightarrow> rat \<Rightarrow> db \<Rightarrow> bool" where
  "fill_breach account row a gross account_reserved d =
     (let w = wallet (od_account_id row) d; fees = en_fees (od_payload row);
          limit_price = oi_limit_price (en_intent (od_payload row)) in
      list_ex (\<lambda>(asset, value). value < 0) w \<or>
      dict_get w (fa_quote_asset a) < account_reserved \<or>
      dict_get w (fa_base_asset a) < reserved_base_of (od_account_id row) (fa_base_asset a) d \<or>
      fa_fee_asset a \<noteq> fs_fee_asset fees \<or>
      fa_fee a > ceil18 (if fa_fee_asset a = fa_quote_asset a then gross * fee_rate fees
                         else fa_quantity a * fee_rate fees) \<or>
      (if od_side row = buy then fa_price a > limit_price else fa_price a < limit_price))"

definition fill_args_check :: "fill_args \<Rightarrow> settlement_status result" where
  "fill_args_check a =
     bind (text_check 200 (fa_venue_trade_id a)) (\<lambda>_. bind (text_check 32 (fa_fee_asset a)) (\<lambda>_.
     bind (text_check 32 (fa_base_asset a)) (\<lambda>_. bind (text_check 32 (fa_quote_asset a)) (\<lambda>_.
     bind (amount_check True (fa_quantity a)) (\<lambda>_. bind (amount_check True (fa_price a)) (\<lambda>_.
     bind (amount_check False (fa_fee a)) (\<lambda>_.
     or_raise (settlement_of_text (fa_settlement_status a)) (ValueError ''invalid_settlement_status''))))))))"

text \<open>The effects of a new fill, after every check.\<close>

definition book_fill ::
  "hasher \<Rightarrow> string \<Rightarrow> account_row \<Rightarrow> order_row \<Rightarrow> fill_args \<Rightarrow> settlement_status \<Rightarrow> rat \<Rightarrow> string \<Rightarrow>
   int \<Rightarrow> fill_row transaction" where
  "book_fill sha tenant account row a settled gross digest t d =
     (let oid = od_intent_id row; aid = od_account_id row;
          filled = od_filled_quantity row + fa_quantity a;
          fill_id = content_hash sha (JArr [JStr (od_venue row), JStr aid, JStr (fa_venue_trade_id a)]);
          fill = \<lparr>fl_fill_id = fill_id, fl_intent_id = oid, fl_venue = od_venue row, fl_account_id = aid,
                  fl_venue_trade_id = fa_venue_trade_id a, fl_quantity = fa_quantity a,
                  fl_price = fa_price a, fl_fee = fa_fee a, fl_fee_asset = fa_fee_asset a,
                  fl_sha256 = digest, fl_created_ns = t\<rparr>;
          account_reserved = ac_reserved_quote account - od_reserved_quote row + remaining_quote row filled in
      bind (insert_fill fill d) (\<lambda>d1.
      bind (journal sha aid ''trade'' fill_id (trade_entries (od_side row) a gross) t d1) (\<lambda>d2.
      bind (settlement tenant row settled False t d2) (\<lambda>(settlement_now, d3).
      bind (update_order oid (\<lambda>r. r\<lparr>od_filled_quantity := filled, od_reserved_quote := remaining_quote row filled,
              od_reserved_base := remaining_base row filled, od_status := filled_status row filled,
              od_settlement_status := settlement_now, od_updated_ns := t\<rparr>) d3) (\<lambda>d4.
      bind (update_account aid (\<lambda>a. a\<lparr>ac_reserved_quote := account_reserved\<rparr>) d4) (\<lambda>d5.
      bind (if fill_breach account row a gross account_reserved d5 \<or>
               settled \<in> {settlement_status.FAILED, REORGED}
            then halt_account aid d5 else Inr d5) (\<lambda>d6.
      Inr (fill, add_event tenant oid ''fill_applied''
             (fill_payload oid a gross @ [(''fill_id'', JStr fill_id)]) t d6))))))))"

text \<open>\<open>apply_fill\<close>\<close>

definition apply_fill_tx ::
  "hasher \<Rightarrow> string \<Rightarrow> string \<Rightarrow> fill_args \<Rightarrow> int \<Rightarrow> fill_row transaction" where
  "apply_fill_tx sha tenant oid a t d =
     bind (fill_args_check a) (\<lambda>settled.
     bind (fetch_order sha tenant oid d) (\<lambda>row.
     bind (fetch_account tenant (od_account_id row) d) (\<lambda>account.
     let spec = en_instrument (od_payload row);
         gross = fill_gross (od_side row) (fa_quantity a) (fa_price a);
         digest = content_hash sha (JObj (fill_payload oid a gross)) in
     bind (raise_if (fa_base_asset a \<noteq> is_base_asset spec \<or> fa_quote_asset a \<noteq> is_quote_asset spec)
             (ValueError ''fill_asset_identity_mismatch'')) (\<lambda>_.
     bind (amount_check True gross) (\<lambda>_.
     case first_where (\<lambda>f. fl_venue f = od_venue row \<and> fl_account_id f = od_account_id row \<and>
             fl_venue_trade_id f = fa_venue_trade_id a) (fills d) of
       Some existing \<Rightarrow>
         if fl_sha256 existing \<noteq> digest then Inl (ConflictError ''venue_trade_identity_conflict'')
         else bind (settlement tenant row settled False t d) (\<lambda>(_, d1). Inr (existing, d1))
     | None \<Rightarrow>
         bind (raise_if (od_status row = RESERVED) (ValueError ''fill_for_never_submitted_order'')) (\<lambda>_.
         bind (raise_if (proven_never_sent tenant oid d) (ValueError ''fill_for_proven_never_sent_order'')) (\<lambda>_.
         bind (raise_if (od_filled_quantity row + fa_quantity a > od_quantity row)
                 (ValueError ''fill_exceeds_order_quantity'')) (\<lambda>_.
         book_fill sha tenant account row a settled gross digest t d))))))))"

section \<open>Venue snapshots and reconciliation\<close>

text \<open>The refusals of \<open>_snapshot\<close>, in order.\<close>

definition snapshot_check :: "order_row \<Rightarrow> order_snapshot \<Rightarrow> int \<Rightarrow> unit result" where
  "snapshot_check row s t =
     bind (identity_check row (os_identity s)) (\<lambda>_.
     bind (raise_if (od_status row = RESERVED) (ValueError ''snapshot_for_never_submitted_order'')) (\<lambda>_.
     bind (raise_if (os_quantity s \<noteq> od_quantity row \<or> os_filled_quantity s \<noteq> od_filled_quantity row)
             (ValueError ''snapshot_fill_ledger_difference_requires_fill_reconciliation'')) (\<lambda>_.
     bind (raise_if (os_asof_ns s < od_created_ns row \<or> os_asof_ns s > t)
             (ValueError ''snapshot_time_is_not_causal'')) (\<lambda>_.
     bind (raise_if (os_status s \<in> {CREATED, RESERVED, SUBMITTING, UNKNOWN})
             (ValueError ''snapshot_does_not_resolve_external_execution'')) (\<lambda>_.
     bind (raise_if (terminal (od_status row) \<and> os_status s \<noteq> od_status row)
             (ValueError ''snapshot_cannot_regress_terminal_order'')) (\<lambda>_.
     bind (raise_if (os_status s = FILLED \<and> os_filled_quantity s \<noteq> od_quantity row)
             (ValueError ''filled_snapshot_is_incomplete'')) (\<lambda>_.
     raise_if (os_status s = ACKNOWLEDGED \<and> os_filled_quantity s > 0)
       (ValueError ''acknowledged_snapshot_cannot_erase_partial_fill_state''))))))))"

text \<open>\<open>_snapshot\<close>: \<open>Some\<close> the order when the snapshot is ignored.\<close>

definition snapshot_tx ::
  "hasher \<Rightarrow> string \<Rightarrow> order_snapshot \<Rightarrow> int \<Rightarrow> order_row option transaction" where
  "snapshot_tx sha tenant s t d =
     bind (fetch_order sha tenant (id_intent_id (os_identity s)) d) (\<lambda>row.
     bind (identity_check row (os_identity s)) (\<lambda>_.
     bind (fetch_account tenant (od_account_id row) d) (\<lambda>account.
     let oid = od_intent_id row in
     if os_asof_ns s < od_last_reconciled_ns row \<or>
        (os_filled_quantity s < od_filled_quantity row \<and> os_asof_ns s < od_updated_ns row)
     then Inr (Some row, add_event tenant oid ''stale_order_snapshot_ignored''
                 [(''snapshot_ns'', JInt (os_asof_ns s)), (''current_updated_ns'', JInt (od_updated_ns row))] t d)
     else
       bind (snapshot_check row s t) (\<lambda>_.
       if od_status row = CANCEL_PENDING \<and> \<not> terminal (os_status s) then Inr (Some row, d)
       else
         bind (if terminal (os_status s) then release account row (os_status s) t d else Inr d) (\<lambda>d1.
         bind (settlement tenant row (os_settlement_status s) True t d1) (\<lambda>(settlement_now, d2).
         bind (update_order oid (\<lambda>r. r\<lparr>od_status := os_status s,
                 od_venue_order_id := id_venue_order_id (os_identity s),
                 od_settlement_status := settlement_now, od_last_reconciled_ns := os_asof_ns s,
                 od_updated_ns := t\<rparr>) d2) (\<lambda>d3.
         bind (if os_settlement_status s \<in> {settlement_status.FAILED, REORGED}
               then halt_account (od_account_id row) d3 else Inr d3) (\<lambda>d4.
         Inr (None, add_event tenant oid ''order_reconciled'' (order_snapshot_fields s) t d4)))))))))"

definition snapshot_call :: "hasher \<Rightarrow> string \<Rightarrow> order_snapshot \<Rightarrow> int \<Rightarrow> order_view call" where
  "snapshot_call sha tenant s t =
     call_bind (transaction (snapshot_tx sha tenant s t)) (\<lambda>ignored.
     case ignored of
       Some row \<Rightarrow> return_call (flagged row [(''snapshot_ignored'', True)])
     | None \<Rightarrow> get_order sha tenant (id_intent_id (os_identity s)))"

text \<open>\<open>query\<close>: any exception of the venue or of the snapshot makes the order uncertain.\<close>

definition query :: "hasher \<Rightarrow> string \<Rightarrow> string \<Rightarrow> adapter \<Rightarrow> (nat \<Rightarrow> int) \<Rightarrow> order_view call" where
  "query sha tenant oid adapter clk =
     call_bind (get_order sha tenant oid) (\<lambda>view d1.
     case ad_query adapter (order_identity_of (ov_row view)) d1 of (reply, d2) \<Rightarrow>
       (case (case reply of
                Raised e \<Rightarrow> (Inl e, d2)
              | Untyped \<Rightarrow> (Inl (ValueError ''adapter_query_result_must_be_typed''), d2)
              | Returned s \<Rightarrow> snapshot_call sha tenant s (clk 0) d2) of
          (Inl e, d3) \<Rightarrow>
            if e = CancelledError then (Inl e, d3)
            else uncertain_call sha tenant oid (''query:'' @ error_name e) None (clk 1) d3
        | r \<Rightarrow> r))"

text \<open>\<open>mark_reconciled\<close> and \<open>set_mode\<close>\<close>

definition unsettled :: "string \<Rightarrow> db \<Rightarrow> bool" where
  "unsettled aid d \<longleftrightarrow> exists_where (\<lambda>r. od_account_id r = aid \<and>
     od_settlement_status r \<notin> {NOT_REQUIRED, CONFIRMED}) (orders d)"

definition mark_reconciled_tx ::
  "string \<Rightarrow> string \<Rightarrow> int option \<Rightarrow> int \<Rightarrow> account_row transaction" where
  "mark_reconciled_tx tenant aid now_ns t d =
     bind (now_of now_ns t) (\<lambda>now.
     bind (fetch_account tenant aid d) (\<lambda>account.
     bind (raise_if (has_uncertain aid d) (ValueError ''unresolved_execution_states_remain'')) (\<lambda>_.
     bind (raise_if (unsettled aid d) (ValueError ''unresolved_settlement_states_remain'')) (\<lambda>_.
     bind (update_account aid (\<lambda>a. a\<lparr>ac_reconciled_ns := now\<rparr>) d) (\<lambda>d1.
     Inr (account\<lparr>ac_reconciled_ns := now\<rparr>, add_event tenant aid ''account_reconciled'' [] t d1))))))"

definition set_mode_tx ::
  "string \<Rightarrow> string \<Rightarrow> risk_mode \<Rightarrow> string \<Rightarrow> string option \<Rightarrow> int \<Rightarrow> account_row transaction" where
  "set_mode_tx tenant aid mode reason deployment_id t d =
     bind (raise_if (list_all is_space reason) (ValueError ''invalid_risk_mode_or_reason'')) (\<lambda>_.
     bind (fetch_account tenant aid d) (\<lambda>account.
     bind (case deployment_id of None \<Rightarrow> Inr () | Some dep \<Rightarrow> ensure_active_deployment tenant aid dep d) (\<lambda>_.
     bind (raise_if (mode = ACTIVE \<and> list_ex (\<lambda>(asset, value). value < 0) (wallet aid d))
             (ValueError ''negative_wallet_prevents_reactivation'')) (\<lambda>_.
     bind (raise_if (mode = ACTIVE \<and> has_uncertain aid d)
             (ValueError ''uncertain_orders_prevent_reactivation'')) (\<lambda>_.
     bind (raise_if (mode = ACTIVE \<and> unsettled aid d)
             (ValueError ''unresolved_settlement_prevents_reactivation'')) (\<lambda>_.
     bind (update_account aid (\<lambda>a. a\<lparr>ac_mode := mode\<rparr>) d) (\<lambda>d1.
     Inr (account\<lparr>ac_mode := mode\<rparr>, add_event tenant aid ''risk_mode_changed''
            [(''mode'', JStr (mode_text mode)), (''reason'', JStr reason)] t d1))))))))"

text \<open>
  One fill of a reconciliation batch, a JSON object.  The money members must be decimal strings; the
  others are passed on as keyword arguments, so an unknown or a missing one is a \<open>TypeError\<close>.  A
  member that is not text is refused by \<open>apply_fill\<close> as a blank one is.
\<close>

definition decimal_member :: "(string \<times> json) list \<Rightarrow> string \<Rightarrow> rat result" where
  "decimal_member kvs name =
     bind (or_raise (map_of kvs name) (KeyError name)) (\<lambda>v.
     case v of JStr s \<Rightarrow> or_raise (decimal_value s) InvalidOperation
     | _ \<Rightarrow> Inl (ValueError ''reconciled_money_requires_decimal_strings''))"

definition text_member :: "(string \<times> json) list \<Rightarrow> string \<Rightarrow> string" where
  "text_member kvs name = (case map_of kvs name of Some (JStr s) \<Rightarrow> s | _ \<Rightarrow> [])"

definition required_members :: "string list" where
  "required_members = [''venue_trade_id'', ''quantity'', ''price'', ''fee'', ''fee_asset'',
     ''base_asset'', ''quote_asset'']"

definition reconcile_fill ::
  "hasher \<Rightarrow> string \<Rightarrow> string \<Rightarrow> string \<Rightarrow> json \<Rightarrow> int \<Rightarrow> unit call" where
  "reconcile_fill sha tenant aid venue item t d =
     (let kvs = (case item of JObj m \<Rightarrow> m | _ \<Rightarrow> []) in
      case (bind (decimal_member kvs ''quantity'') (\<lambda>quantity.
            bind (decimal_member kvs ''price'') (\<lambda>price.
            bind (decimal_member kvs ''fee'') (\<lambda>fee.
            bind (or_raise (map_of kvs ''intent_id'') (KeyError ''intent_id'')) (\<lambda>identity.
            let oid = (case identity of JStr s \<Rightarrow> s | _ \<Rightarrow> []) in
            bind (fetch_order sha tenant oid d) (\<lambda>row.
            bind (raise_if (od_account_id row \<noteq> aid \<or> od_venue row \<noteq> venue)
                    (ValueError ''reconciled_fill_account_mismatch'')) (\<lambda>_.
            bind (raise_if (\<not> list_all (\<lambda>(k, _). k \<in> set (''intent_id'' # ''settlement_status'' # required_members)) kvs \<or>
                            \<not> list_all (\<lambda>k. map_of kvs k \<noteq> None) required_members)
                    (TypeError ''apply_fill'')) (\<lambda>_.
            Inr (oid, \<lparr>fa_venue_trade_id = text_member kvs ''venue_trade_id'', fa_quantity = quantity,
                       fa_price = price, fa_fee = fee, fa_fee_asset = text_member kvs ''fee_asset'',
                       fa_base_asset = text_member kvs ''base_asset'',
                       fa_quote_asset = text_member kvs ''quote_asset'',
                       fa_settlement_status = (if map_of kvs ''settlement_status'' = None then ''NOT_REQUIRED''
                                               else text_member kvs ''settlement_status'')\<rparr>))))))))) of
        Inl e \<Rightarrow> (Inl e, d)
      | Inr (oid, args) \<Rightarrow>
          call_bind (transaction (apply_fill_tx sha tenant oid args t)) (\<lambda>_. return_call ()) d)"

fun each_call :: "('x \<Rightarrow> unit call) \<Rightarrow> 'x list \<Rightarrow> unit call" where
  "each_call f [] = return_call ()"
| "each_call f (x # xs) = call_bind (f x) (\<lambda>_. each_call f xs)"

definition reconcile_snapshot ::
  "hasher \<Rightarrow> string \<Rightarrow> string \<Rightarrow> string \<Rightarrow> order_snapshot \<Rightarrow> int \<Rightarrow> unit call" where
  "reconcile_snapshot sha tenant aid venue s t =
     (if id_account_id (os_identity s) \<noteq> aid \<or> id_venue (os_identity s) \<noteq> venue
      then raise_call (ValueError ''reconciled_order_account_mismatch'')
      else call_bind (snapshot_call sha tenant s t) (\<lambda>_. return_call ()))"

text \<open>\<open>reconcile\<close>: \<open>t\<close> is the wall clock of its transactions.\<close>

definition reconcile ::
  "hasher \<Rightarrow> string \<Rightarrow> string \<Rightarrow> adapter \<Rightarrow> string \<Rightarrow> string option \<Rightarrow> int \<Rightarrow> (bool \<times> reconcile_cursor) call" where
  "reconcile sha tenant aid adapter venue cursor t =
     call_bind (\<lambda>d. (fetch_account tenant aid d, d)) (\<lambda>_ d1.
     case ad_reconcile adapter \<lparr>rc_venue = venue, rc_account_id = aid, rc_cursor = cursor\<rparr> d1 of
       (Raised e, d2) \<Rightarrow> (Inl e, d2)
     | (Untyped, d2) \<Rightarrow> (Inl (OtherError ''AttributeError''), d2)
     | (Returned batch, d2) \<Rightarrow>
         (if rc_account_id (bt_next_cursor batch) \<noteq> aid \<or> rc_venue (bt_next_cursor batch) \<noteq> venue
          then raise_call (ValueError ''reconciliation_identity_mismatch'')
          else
            call_bind (each_call (\<lambda>item. reconcile_fill sha tenant aid venue item t) (bt_fills batch)) (\<lambda>_.
            call_bind (each_call (\<lambda>s. reconcile_snapshot sha tenant aid venue s t) (bt_orders batch)) (\<lambda>_.
            call_bind (if bt_complete batch
                       then call_bind (transaction (mark_reconciled_tx tenant aid None t)) (\<lambda>_. return_call ())
                       else return_call ()) (\<lambda>_.
            return_call (bt_complete batch, bt_next_cursor batch))))) d2)"

end
