(* ===== verification/OMS_Inv.thy ===== *)
theory OMS_Inv
  imports OMS
begin

text \<open>
  What every transaction of the order management system keeps: the reservations of an account are
  the sum of its orders' reservations, filled quantities are the sums of the fills, the ledger
  balances, terminal orders hold nothing, order states only move forward.  A transaction that works
  on one order is described by \<open>moved\<close>: it replaces that row and shifts the account's reservation;
  the description of a transaction is composed from those of its statements.
\<close>

section \<open>The invariant\<close>

definition holds_of :: "string \<Rightarrow> order_row list \<Rightarrow> rat" where
  "holds_of aid rows = (\<Sum>r\<leftarrow>filter (\<lambda>r. od_account_id r = aid) rows. od_reserved_quote r)"

definition holds_match :: "db \<Rightarrow> bool" where
  "holds_match d \<longleftrightarrow> (\<forall>a \<in> set (accounts d). ac_reserved_quote a = holds_of (ac_account_id a) (orders d))"

definition order_sound :: "order_row \<Rightarrow> bool" where
  "order_sound r \<longleftrightarrow> 0 \<le> od_filled_quantity r \<and> od_filled_quantity r \<le> od_quantity r \<and>
     (terminal (od_status r) \<longrightarrow> od_reserved_quote r = 0 \<and> od_reserved_base r = 0) \<and>
     (od_status r = RESERVED \<longrightarrow> od_filled_quantity r = 0)"

definition filled_by :: "string \<Rightarrow> fill_row list \<Rightarrow> rat" where
  "filled_by oid rows = (\<Sum>f\<leftarrow>filter (\<lambda>f. fl_intent_id f = oid) rows. fl_quantity f)"

definition fills_match :: "db \<Rightarrow> bool" where
  "fills_match d \<longleftrightarrow>
     (\<forall>r \<in> set (orders d). od_filled_quantity r = filled_by (od_intent_id r) (fills d)) \<and>
     (\<forall>f \<in> set (fills d). fl_intent_id f \<in> od_intent_id ` set (orders d))"

definition entry_total :: "string \<Rightarrow> string \<Rightarrow> ledger_entry_row list \<Rightarrow> rat" where
  "entry_total transaction_id asset rows =
     (\<Sum>e\<leftarrow>filter (\<lambda>e. le_transaction_id e = transaction_id \<and> le_asset e = asset) rows. le_amount e)"

definition ledger_balanced :: "db \<Rightarrow> bool" where
  "ledger_balanced d \<longleftrightarrow>
     (\<forall>e \<in> set (ledger_entries d). entry_total (le_transaction_id e) (le_asset e) (ledger_entries d) = 0)"

definition keyed :: "db \<Rightarrow> bool" where
  "keyed d \<longleftrightarrow> distinct (map ac_account_id (accounts d)) \<and> distinct (map od_intent_id (orders d)) \<and>
     (\<forall>r \<in> set (orders d). od_account_id r \<in> ac_account_id ` set (accounts d))"

definition oms_inv :: "db \<Rightarrow> bool" where
  "oms_inv d \<longleftrightarrow> keyed d \<and> holds_match d \<and> list_all order_sound (orders d) \<and> fills_match d \<and>
     ledger_balanced d"

text \<open>The moves of an order through its states.\<close>

definition allowed :: "order_status \<Rightarrow> order_status \<Rightarrow> bool" where
  "allowed s s' \<longleftrightarrow> s' = s \<or>
     (if s = RESERVED then s' \<in> {SUBMITTING, EXPIRED, CANCELED, UNKNOWN}
      else if terminal s then s' = FILLED
      else s' \<notin> {CREATED, RESERVED, SUBMITTING})"

lemma ledger_balanced_iff:
  "ledger_balanced d \<longleftrightarrow> (\<forall>x asset. entry_total x asset (ledger_entries d) = 0)"
proof
  assume *: "ledger_balanced d"
  show "\<forall>x asset. entry_total x asset (ledger_entries d) = 0"
  proof (intro allI)
    fix x asset
    show "entry_total x asset (ledger_entries d) = 0"
    proof (cases "\<exists>e \<in> set (ledger_entries d). le_transaction_id e = x \<and> le_asset e = asset")
      case True
      with * show ?thesis by (auto simp: ledger_balanced_def)
    next
      case False
      then have "filter (\<lambda>e. le_transaction_id e = x \<and> le_asset e = asset) (ledger_entries d) = []"
        by (auto simp: filter_empty_conv)
      then show ?thesis by (simp add: entry_total_def)
    qed
  qed
qed (simp add: ledger_balanced_def)

section \<open>Moving one order\<close>

definition account_kept :: "account_row \<Rightarrow> account_row \<Rightarrow> bool" where
  "account_kept a b \<longleftrightarrow> ac_account_id b = ac_account_id a \<and> ac_tenant_id b = ac_tenant_id a \<and>
     ac_capital b = ac_capital a \<and> ac_quote_asset b = ac_quote_asset a \<and>
     (ac_mode a = HALTED \<longrightarrow> ac_mode b = HALTED)"

definition frozen :: "order_row \<Rightarrow> order_row \<Rightarrow> bool" where
  "frozen r s \<longleftrightarrow> od_intent_id s = od_intent_id r \<and> od_account_id s = od_account_id r \<and>
     od_tenant_id s = od_tenant_id r \<and> od_payload s = od_payload r \<and> od_sha256 s = od_sha256 r \<and>
     od_quantity s = od_quantity r \<and> od_side s = od_side r"

definition accounts_shift :: "string \<Rightarrow> rat \<Rightarrow> db \<Rightarrow> db \<Rightarrow> bool" where
  "accounts_shift aid x d d' \<longleftrightarrow>
     list_all2 (\<lambda>a b. account_kept a b \<and>
         ac_reserved_quote b = ac_reserved_quote a + (if ac_account_id a = aid then x else 0))
       (accounts d) (accounts d')"

definition moved :: "order_row \<Rightarrow> order_row \<Rightarrow> rat \<Rightarrow> db \<Rightarrow> db \<Rightarrow> bool" where
  "moved r s x d d' \<longleftrightarrow> frozen r s \<and> r \<in> set (orders d) \<and>
     orders d' = update_where (\<lambda>q. od_intent_id q = od_intent_id r) (\<lambda>_. s) (orders d) \<and>
     accounts_shift (od_account_id r) x d d'"

definition books :: "db \<Rightarrow> fill_row list \<times> ledger_entry_row list" where
  "books d = (fills d, ledger_entries d)"

lemma account_kept_refl [simp]: "account_kept a a"
  by (simp add: account_kept_def)

lemma account_kept_trans: "account_kept a b \<Longrightarrow> account_kept b c \<Longrightarrow> account_kept a c"
  by (auto simp: account_kept_def)

lemma frozen_refl [simp]: "frozen r r"
  by (simp add: frozen_def)

lemma frozen_trans: "frozen r s \<Longrightarrow> frozen s u \<Longrightarrow> frozen r u"
  by (simp add: frozen_def)

lemma accounts_shift_refl: "accounts d' = accounts d \<Longrightarrow> accounts_shift aid 0 d d'"
  by (simp add: accounts_shift_def list_all2_refl)

lemma accounts_shift_trans:
  assumes "accounts_shift aid x d d1" and "accounts_shift aid y d1 d2"
  shows "accounts_shift aid (x + y) d d2"
proof -
  have "list_all2 (\<lambda>a c. account_kept a c \<and>
      ac_reserved_quote c = ac_reserved_quote a + (if ac_account_id a = aid then x + y else 0))
    (accounts d) (accounts d2)"
    by (rule list_all2_trans[OF _ assms[unfolded accounts_shift_def]])
      (auto simp: account_kept_def)
  then show ?thesis by (simp add: accounts_shift_def)
qed

lemma list_all2_map_if: "(\<And>x. x \<in> set xs \<Longrightarrow> P x (f x)) \<Longrightarrow> list_all2 P xs (map f xs)"
  by (simp add: list_all2_map2 list.rel_refl_strong)

lemma accounts_shift_update:
  assumes "update_account aid f d = Inr d'"
    and "\<And>a. a \<in> set (accounts d) \<Longrightarrow> ac_account_id a = aid \<Longrightarrow>
      account_kept a (f a) \<and> ac_reserved_quote (f a) = ac_reserved_quote a + x"
  shows "accounts_shift aid x d d'"
  using assms
  by (auto simp: accounts_shift_def update_account_eq_Inr update_where_def intro!: list_all2_map_if)

lemma update_where_self:
  assumes "distinct (map key rows)" and "r \<in> set rows"
  shows "update_where (\<lambda>q. key q = key r) (\<lambda>_. r) rows = rows"
  unfolding update_where_def using assms by (intro map_idI) (auto dest: unique_row[where key = key])

lemma moved_refl:
  assumes "keyed d" and "r \<in> set (orders d)" and "orders d' = orders d" and "accounts_shift (od_account_id r) x d d'"
  shows "moved r r x d d'"
  using assms by (simp add: moved_def keyed_def update_where_self)

lemma moved_trans:
  assumes "moved r s x d d1" and "moved s u y d1 d2"
  shows "moved r u (x + y) d d2"
proof -
  have eq: "od_intent_id s = od_intent_id r" "od_account_id s = od_account_id r"
    using assms(1) by (simp_all add: moved_def frozen_def)
  have "orders d2 = update_where (\<lambda>q. od_intent_id q = od_intent_id r) (\<lambda>_. u) (orders d)"
    using assms eq by (auto simp: moved_def update_where_def)
  then show ?thesis
    using assms eq accounts_shift_trans frozen_trans by (auto simp: moved_def)
qed

lemma keyed_moved: "moved r s x d d' \<Longrightarrow> keyed d \<Longrightarrow> keyed d'"
proof -
  assume m: "moved r s x d d'" and k: "keyed d"
  have "map ac_account_id (accounts d') = map ac_account_id (accounts d)"
    using m by (auto simp: moved_def accounts_shift_def account_kept_def list_all2_conv_all_nth
      intro!: nth_equalityI)
  moreover have "map od_intent_id (orders d') = map od_intent_id (orders d)"
    using m by (auto simp: moved_def frozen_def update_where_def)
  moreover have "\<forall>q \<in> set (orders d'). od_account_id q \<in> od_account_id ` set (orders d)"
    using m by (auto simp: moved_def frozen_def set_update_where)
  moreover have "ac_account_id ` set (accounts d') = ac_account_id ` set (accounts d)"
    using calculation(1) by (metis set_map)
  ultimately show ?thesis using k by (auto simp: keyed_def)
qed

lemma moved_row: "moved r s x d d' \<Longrightarrow> s \<in> set (orders d')"
  by (auto simp: moved_def set_update_where image_iff)

lemma moved_order:
  assumes "keyed d" and "r \<in> set (orders d)" and "update_order (od_intent_id r) f d = Inr d'"
    and "frozen r (f r)"
  shows "moved r (f r) 0 d d'"
proof -
  have "update_where (\<lambda>q. od_intent_id q = od_intent_id r) f (orders d) =
    update_where (\<lambda>q. od_intent_id q = od_intent_id r) (\<lambda>_. f r) (orders d)"
    using assms(1,2) by (auto simp: update_where_def keyed_def dest: unique_row[where key = od_intent_id])
  with assms show ?thesis
    by (auto simp: moved_def update_order_eq_Inr intro!: accounts_shift_refl)
qed

lemma moved_order_check:
  assumes "r \<in> set (orders d)" and "update_order (od_intent_id r) f d = Inr d'"
  shows "order_check (f r)"
  using assms by (auto simp: update_order_eq_Inr)

lemma moved_account:
  assumes "keyed d" and "r \<in> set (orders d)" and "update_account (od_account_id r) f d = Inr d'"
    and "\<And>a. a \<in> set (accounts d) \<Longrightarrow> ac_account_id a = od_account_id r \<Longrightarrow>
      account_kept a (f a) \<and> ac_reserved_quote (f a) = ac_reserved_quote a + x"
  shows "moved r r x d d'"
  using assms accounts_shift_update[OF assms(3)]
  by (auto simp: update_account_eq_Inr intro!: moved_refl)

lemma moved_event: "moved r s x d d' \<Longrightarrow> moved r s x d (add_event tenant entity kind payload t d')"
  by (simp add: moved_def add_event_def accounts_shift_def)

text \<open>Setting an account's columns from the row read at the beginning of the transaction.\<close>

lemma moved_set:
  assumes "keyed d" and "a \<in> set (accounts d)" and "ac_account_id a = od_account_id r"
    and "moved r s x d d1"
    and "update_account (od_account_id r) f d1 = Inr d2"
    and "\<And>b. account_kept a b \<Longrightarrow> ac_reserved_quote b = ac_reserved_quote a + x \<Longrightarrow>
      account_kept a (f b) \<and> ac_reserved_quote (f b) = ac_reserved_quote a + y"
  shows "moved r s y d d2"
proof -
  let ?s = "\<lambda>z a b. account_kept a b \<and>
    ac_reserved_quote b = ac_reserved_quote a + (if ac_account_id a = od_account_id r then z else 0)"
  have "list_all2 (?s x) (accounts d) (accounts d1)"
    using assms(4) by (simp add: moved_def accounts_shift_def)
  moreover have "?s y p (if ac_account_id q = od_account_id r then f q else q)"
    if "p \<in> set (accounts d)" "?s x p q" for p q
  proof (cases "ac_account_id p = od_account_id r")
    case True
    then have "p = a"
      using assms(1-3) that(1) by (auto simp: keyed_def dest: unique_row[where key = ac_account_id])
    with True that(2) assms(6)[of q] show ?thesis by (auto simp: account_kept_def)
  next
    case False
    with that(2) show ?thesis by (auto simp: account_kept_def)
  qed
  ultimately have "list_all2 (?s y) (accounts d)
      (map (\<lambda>q. if ac_account_id q = od_account_id r then f q else q) (accounts d1))"
    unfolding list_all2_map2 by (rule list.rel_mono_strong)
  then have "accounts_shift (od_account_id r) y d d2"
    using assms(5) by (simp add: accounts_shift_def update_account_eq_Inr update_where_def)
  moreover have "orders d2 = orders d1"
    using assms(5) by (simp add: update_account_eq_Inr)
  ultimately show ?thesis using assms(4) by (simp add: moved_def)
qed

lemma fetch_order_eq_Inr [result_simps]:
  "fetch_order sha tenant oid d = Inr r \<longleftrightarrow>
     first_where (\<lambda>r. od_tenant_id r = tenant \<and> od_intent_id r = oid) (orders d) = Some r \<and>
     content_hash sha (envelope_json (od_payload r)) = od_sha256 r"
  by (auto simp: fetch_order_def result_simps)

lemma fetch_order_row:
  "fetch_order sha tenant oid d = Inr r \<Longrightarrow> r \<in> set (orders d) \<and> od_intent_id r = oid \<and> od_tenant_id r = tenant"
  by (auto simp: fetch_order_eq_Inr dest: first_where_Some)

lemma fetch_account_row:
  "fetch_account tenant aid d = Inr a \<Longrightarrow> a \<in> set (accounts d) \<and> ac_account_id a = aid \<and> ac_tenant_id a = tenant"
  by (auto simp: fetch_account_def result_simps dest: first_where_Some)

lemma books_update [simp]:
  "update_account aid f d = Inr d' \<Longrightarrow> books d' = books d"
  "update_order oid g d = Inr d' \<Longrightarrow> books d' = books d"
  "books (add_event tenant entity kind payload t d) = books d"
  by (auto simp: books_def update_account_eq_Inr update_order_eq_Inr add_event_def)

section \<open>A moved order keeps the invariant\<close>

lemma holds_moved:
  assumes "keyed d" and "holds_match d" and "moved r s (od_reserved_quote s - od_reserved_quote r) d d'"
  shows "holds_match d'"
proof -
  have r: "r \<in> set (orders d)" and od: "orders d' = update_where (\<lambda>q. od_intent_id q = od_intent_id r) (\<lambda>_. s) (orders d)"
    and fz: "od_account_id s = od_account_id r"
    using assms(3) by (simp_all add: moved_def frozen_def)
  have sum: "holds_of aid (orders d') = holds_of aid (orders d) +
      (if aid = od_account_id r then od_reserved_quote s - od_reserved_quote r else 0)" for aid
  proof -
    have conv: "(\<Sum>q\<leftarrow>filter (\<lambda>q. od_account_id q = aid) rows. od_reserved_quote q) =
        (\<Sum>q\<leftarrow>rows. if od_account_id q = aid then od_reserved_quote q else 0)" for rows
      by (induction rows) auto
    show ?thesis
      using sum_update_where[where key = od_intent_id and rows = "orders d" and r = r and f = "\<lambda>_. s"
          and v = "\<lambda>q. if od_account_id q = aid then od_reserved_quote q else 0"] assms(1) r fz
      by (auto simp: holds_of_def od keyed_def conv)
  qed
  show ?thesis
    unfolding holds_match_def
  proof
    fix b assume "b \<in> set (accounts d')"
    then obtain i where i: "i < length (accounts d')" "b = accounts d' ! i"
      by (auto simp: in_set_conv_nth)
    then have "account_kept (accounts d ! i) b"
      "ac_reserved_quote b = ac_reserved_quote (accounts d ! i) +
        (if ac_account_id (accounts d ! i) = od_account_id r then od_reserved_quote s - od_reserved_quote r else 0)"
      "accounts d ! i \<in> set (accounts d)"
      using assms(3) by (auto simp: moved_def accounts_shift_def list_all2_conv_all_nth)
    then show "ac_reserved_quote b = holds_of (ac_account_id b) (orders d')"
      using assms(2) sum by (auto simp: holds_match_def account_kept_def)
  qed
qed

lemma sound_moved:
  "moved r s x d d' \<Longrightarrow> order_sound s \<Longrightarrow> list_all order_sound (orders d) \<Longrightarrow> list_all order_sound (orders d')"
  by (auto simp: moved_def list_all_iff set_update_where)

lemma fills_moved:
  assumes "keyed d" and "moved r s x d d'" and "fills d' = fills d" and "od_filled_quantity s = od_filled_quantity r"
    and "fills_match d"
  shows "fills_match d'"
proof -
  have fr: "od_intent_id s = od_intent_id r" using assms(2) by (simp add: moved_def frozen_def)
  have "map od_intent_id (orders d') = map od_intent_id (orders d)"
    using assms(2) fr by (auto simp: moved_def update_where_def)
  then have "od_intent_id ` set (orders d') = od_intent_id ` set (orders d)" by (metis set_map)
  moreover have "od_filled_quantity q = filled_by (od_intent_id q) (fills d)" if "q \<in> set (orders d')" for q
    using that assms fr by (auto simp: moved_def set_update_where fills_match_def split: if_splits)
  ultimately show ?thesis using assms(3,5) by (auto simp: fills_match_def)
qed

lemma balanced_books: "books d' = books d \<Longrightarrow> ledger_balanced d \<Longrightarrow> ledger_balanced d'"
  by (simp add: books_def ledger_balanced_def)

lemma oms_inv_moved:
  assumes "oms_inv d" and "moved r s (od_reserved_quote s - od_reserved_quote r) d d'"
    and "books d' = books d" and "order_sound s" and "od_filled_quantity s = od_filled_quantity r"
  shows "oms_inv d'"
  using assms keyed_moved holds_moved sound_moved fills_moved balanced_books
  by (auto simp: oms_inv_def books_def)

lemma oms_inv_row: "oms_inv d \<Longrightarrow> r \<in> set (orders d) \<Longrightarrow> order_sound r"
  by (simp add: oms_inv_def list_all_iff)

lemma oms_inv_same:
  assumes "oms_inv d" and "orders d' = orders d" and "books d' = books d"
    and acc: "map (\<lambda>a. (ac_account_id a, ac_reserved_quote a)) (accounts d') =
      map (\<lambda>a. (ac_account_id a, ac_reserved_quote a)) (accounts d)"
  shows "oms_inv d'"
proof -
  have keys: "map ac_account_id (accounts d') = map ac_account_id (accounts d)"
    using arg_cong[OF acc, of "map fst"] by (simp add: comp_def)
  have "(\<lambda>a. (ac_account_id a, ac_reserved_quote a)) ` set (accounts d') =
      (\<lambda>a. (ac_account_id a, ac_reserved_quote a)) ` set (accounts d)"
    using acc by (metis set_map)
  then have "holds_match d' = holds_match d"
    unfolding holds_match_def assms(2)
    by (smt (verit) image_iff prod.inject)
  moreover have "ac_account_id ` set (accounts d') = ac_account_id ` set (accounts d)"
    using keys by (metis set_map)
  then have "keyed d' = keyed d" by (simp only: keyed_def assms(2) keys)
  ultimately show ?thesis
    using assms by (auto simp: oms_inv_def books_def fills_match_def ledger_balanced_def)
qed

lemma accounts_shift_0:
  "accounts_shift aid 0 d d' \<Longrightarrow> map (\<lambda>a. (ac_account_id a, ac_reserved_quote a)) (accounts d') =
      map (\<lambda>a. (ac_account_id a, ac_reserved_quote a)) (accounts d)"
  by (auto simp: accounts_shift_def list_all2_conv_all_nth account_kept_def intro!: nth_equalityI)

text \<open>A transaction that writes no books: it moves at most one order, and moves it forward.\<close>

definition forward :: "order_row \<Rightarrow> order_row \<Rightarrow> bool" where
  "forward r s \<longleftrightarrow> allowed (od_status r) (od_status s) \<and> (order_sound r \<longrightarrow> order_sound s) \<and>
     od_filled_quantity s = od_filled_quantity r"

definition oms_move :: "db \<Rightarrow> db \<Rightarrow> bool" where
  "oms_move d d' \<longleftrightarrow> books d' = books d \<and>
     ((orders d' = orders d \<and> (\<exists>aid. accounts_shift aid 0 d d')) \<or>
      (\<exists>r s. moved r s (od_reserved_quote s - od_reserved_quote r) d d' \<and> forward r s))"

lemma oms_inv_move:
  assumes "oms_inv d" and "oms_move d d'"
  shows "oms_inv d'"
proof (cases "orders d' = orders d \<and> (\<exists>aid. accounts_shift aid 0 d d')")
  case True
  then show ?thesis
    using assms oms_inv_same[OF assms(1)] accounts_shift_0 by (auto simp: oms_move_def)
next
  case False
  then obtain r s where m: "moved r s (od_reserved_quote s - od_reserved_quote r) d d'" and f: "forward r s"
    using assms(2) by (auto simp: oms_move_def)
  moreover have "order_sound r" using m oms_inv_row[OF assms(1)] by (simp add: moved_def)
  ultimately show ?thesis
    using oms_inv_moved[OF assms(1) m] assms(2) by (simp add: forward_def oms_move_def)
qed

section \<open>The statements of a transaction\<close>

lemma moved_then_order:
  assumes "keyed d" and "moved r s x d d1" and "update_order (od_intent_id r) f d1 = Inr d2"
    and "frozen s (f s)"
  shows "moved r (f s) x d d2 \<and> order_check (f s)"
proof -
  have id: "od_intent_id s = od_intent_id r" using assms(2) by (simp add: moved_def frozen_def)
  have "moved s (f s) 0 d1 d2"
    using moved_order[OF keyed_moved[OF assms(2,1)] moved_row[OF assms(2)]] assms(3,4) by (simp add: id)
  then show ?thesis
    using moved_trans[OF assms(2)] moved_order_check[OF moved_row[OF assms(2)]] assms(3)
    by (fastforce simp: id)
qed

lemma moved_then_account:
  assumes "keyed d" and "moved r s x d d1" and "update_account (od_account_id r) f d1 = Inr d2"
    and "\<And>a. account_kept a (f a) \<and> ac_reserved_quote (f a) = ac_reserved_quote a"
  shows "moved r s x d d2"
proof -
  have id: "od_account_id s = od_account_id r" using assms(2) by (simp add: moved_def frozen_def)
  have "moved s s 0 d1 d2"
    using moved_account[OF keyed_moved[OF assms(2,1)] moved_row[OF assms(2)]] assms(3,4) by (simp add: id)
  then show ?thesis using moved_trans[OF assms(2)] by fastforce
qed

lemma moved_then_halt:
  "keyed d \<Longrightarrow> moved r s x d d1 \<Longrightarrow> halt_account (od_account_id r) d1 = Inr d2 \<Longrightarrow> moved r s x d d2"
  unfolding halt_account_def by (rule moved_then_account) (auto simp: account_kept_def)

lemma moved_start: "keyed d \<Longrightarrow> r \<in> set (orders d) \<Longrightarrow> moved r r 0 d d"
  by (simp add: moved_refl accounts_shift_refl)

lemma books_halt [simp]: "halt_account aid d = Inr d' \<Longrightarrow> books d' = books d"
  by (simp add: halt_account_def)

lemma release_moved:
  assumes "keyed d" and "a \<in> set (accounts d)" and "ac_account_id a = od_account_id r"
    and "moved r s 0 d d1" and "od_intent_id q = od_intent_id r" and "release a q st now d1 = Inr d2"
  shows "moved r (s\<lparr>od_status := st, od_reserved_quote := 0, od_reserved_base := 0, od_updated_ns := now\<rparr>)
      (- od_reserved_quote q) d d2 \<and> books d2 = books d1 \<and>
    order_check (s\<lparr>od_status := st, od_reserved_quote := 0, od_reserved_base := 0, od_updated_ns := now\<rparr>)"
proof -
  obtain d' where 1: "update_account (od_account_id r)
      (\<lambda>b. b\<lparr>ac_reserved_quote := ac_reserved_quote a - od_reserved_quote q\<rparr>) d1 = Inr d'"
    and 2: "update_order (od_intent_id r) (\<lambda>r. r\<lparr>od_status := st, od_reserved_quote := 0,
             od_reserved_base := 0, od_updated_ns := now\<rparr>) d' = Inr d2"
    using assms(3,5,6) by (auto simp: release_def result_simps(1))
  have "moved r s (- od_reserved_quote q) d d'"
    by (rule moved_set[OF assms(1-4) 1]) (simp add: account_kept_def)
  from moved_then_order[OF assms(1) this 2] 1 2 show ?thesis by (simp add: frozen_def)
qed

lemma settlement_moved:
  assumes "keyed d" and "moved r s x d d1" and "od_intent_id q = od_intent_id r"
    and "od_account_id q = od_account_id r"
    and "settlement tenant q incoming authoritative t d1 = Inr (z, d2)"
  shows "\<exists>z'. moved r (s\<lparr>od_settlement_status := z'\<rparr>) x d d2 \<and> books d2 = books d1"
proof -
  have same: "s = s\<lparr>od_settlement_status := od_settlement_status s\<rparr>" by simp
  show ?thesis
  proof (cases "d2 = d1")
    case True
    with assms(2) same show ?thesis by metis
  next
    case False
    then obtain d' where 1: "(if incoming \<noteq> od_settlement_status q
        then bind (update_order (od_intent_id r) (\<lambda>r. r\<lparr>od_settlement_status := incoming\<rparr>) d1) (\<lambda>d1.
               Inr (add_event tenant (od_intent_id r) ''settlement_observed''
                     [(''previous'', JStr (settlement_text (od_settlement_status q))),
                      (''status'', JStr (settlement_text incoming)),
                      (''authoritative_snapshot'', JBool authoritative)] t d1))
              else Inr d1) = Inr d'"
      and 2: "(if incoming \<in> {settlement_status.FAILED, REORGED} then halt_account (od_account_id r) d' else Inr d') = Inr d2"
      using assms(3-5) by (auto simp: settlement_def Let_def bind_eq_Inr split: if_splits)
    have "\<exists>z'. moved r (s\<lparr>od_settlement_status := z'\<rparr>) x d d' \<and> books d' = books d1"
    proof (cases "incoming \<noteq> od_settlement_status q")
      case True
      then obtain e where u: "update_order (od_intent_id r) (\<lambda>r. r\<lparr>od_settlement_status := incoming\<rparr>) d1 = Inr e"
        and d': "books d' = books e" "orders d' = orders e" "accounts d' = accounts e"
        using 1 by (auto simp: bind_eq_Inr add_event_def books_def)
      from moved_then_order[OF assms(1,2) u] have "moved r (s\<lparr>od_settlement_status := incoming\<rparr>) x d e"
        by (simp add: frozen_def)
      with d' u show ?thesis by (auto simp: moved_def accounts_shift_def)
    next
      case False
      then have "d' = d1" using 1 by simp
      moreover have "moved r (s\<lparr>od_settlement_status := od_settlement_status s\<rparr>) x d d1"
        using assms(2) by simp
      ultimately show ?thesis by blast
    qed
    then obtain z' where m: "moved r (s\<lparr>od_settlement_status := z'\<rparr>) x d d'" and b: "books d' = books d1"
      by blast
    from 2 have "moved r (s\<lparr>od_settlement_status := z'\<rparr>) x d d2 \<and> books d2 = books d'"
      using moved_then_halt[OF assms(1) m] m by (auto split: if_splits)
    with b show ?thesis by auto
  qed
qed

section \<open>The transactions\<close>

lemma order_check_bounds: "order_check r \<Longrightarrow> 0 \<le> od_filled_quantity r \<and> od_filled_quantity r \<le> od_quantity r"
  by (simp add: order_check_def)

lemma oms_move_idle:
  "books d' = books d \<Longrightarrow> orders d' = orders d \<Longrightarrow> accounts d' = accounts d \<Longrightarrow> oms_move d d'"
  by (auto simp: oms_move_def intro: accounts_shift_refl)

lemma oms_move_account:
  assumes "update_account aid f d = Inr d'"
    and "\<And>a. a \<in> set (accounts d) \<Longrightarrow> ac_account_id a = aid \<Longrightarrow>
      account_kept a (f a) \<and> ac_reserved_quote (f a) = ac_reserved_quote a"
  shows "oms_move d d'"
proof -
  have "accounts_shift aid 0 d d'" using accounts_shift_update[OF assms(1)] assms(2) by simp
  then show ?thesis
    using assms(1) by (auto simp: oms_move_def) (simp add: update_account_eq_Inr)
qed

lemma oms_move_event [simp]:
  "oms_move d (add_event tenant entity kind payload t d') = oms_move d d'"
  by (simp add: oms_move_def accounts_shift_def moved_def add_event_def books_def)

lemma oms_moveI:
  "moved r s (od_reserved_quote s - od_reserved_quote r) d d' \<Longrightarrow> forward r s \<Longrightarrow> books d' = books d \<Longrightarrow>
   oms_move d d'"
  by (auto simp: oms_move_def)

lemma uncertain_move:
  assumes "keyed d" and "uncertain_tx sha tenant oid reason expected t d = Inr (v, d')"
  shows "oms_move d d'"
proof -
  obtain r a where r: "fetch_order sha tenant oid d = Inr r" and a: "fetch_account tenant (od_account_id r) d = Inr a"
    using assms(2) by (auto simp: uncertain_tx_def bind_eq_Inr)
  note row = fetch_order_row[OF r] and acc = fetch_account_row[OF a]
  show ?thesis
  proof (cases "terminal (od_status r) \<or>
        (case expected of None \<Rightarrow> False | Some e \<Rightarrow> od_status r \<notin> {e, UNKNOWN})")
    case True
    with assms(2) r a show ?thesis by (auto simp: uncertain_tx_def intro: oms_move_idle)
  next
    case False
    with assms(2) r a obtain d1 d2 where
      1: "update_order (od_intent_id r) (\<lambda>r. r\<lparr>od_status := UNKNOWN, od_updated_ns := t\<rparr>) d = Inr d1"
      and 2: "halt_account (od_account_id r) d1 = Inr d2"
      and d': "d' = add_event tenant oid ''execution_uncertain'' [(''reason'', JStr reason)] t d2"
      using row acc by (auto simp: uncertain_tx_def bind_eq_Inr)
    let ?s = "r\<lparr>od_status := UNKNOWN, od_updated_ns := t\<rparr>"
    have m: "moved r ?s 0 d d1 \<and> order_check ?s"
      using moved_then_order[OF assms(1) moved_start[OF assms(1)] 1] row by (simp add: frozen_def)
    then have "moved r ?s 0 d d2" using moved_then_halt[OF assms(1) _ 2] by blast
    moreover have "forward r ?s"
      using False order_check_bounds m by (auto simp: forward_def allowed_def order_sound_def terminal_def)
    ultimately show ?thesis using 1 2 d' by (auto intro!: oms_moveI)
  qed
qed

lemma release_move:
  assumes "keyed d" and "fetch_order sha tenant oid d = Inr r"
    and "fetch_account tenant (od_account_id r) d = Inr a"
    and "release a r st now d = Inr d'"
    and "terminal st" and "allowed (od_status r) st"
  shows "oms_move d d'" "\<exists>s. moved r s (od_reserved_quote s - od_reserved_quote r) d d' \<and> forward r s"
proof -
  note row = fetch_order_row[OF assms(2)] and acc = fetch_account_row[OF assms(3)]
  let ?s = "r\<lparr>od_status := st, od_reserved_quote := 0, od_reserved_base := 0, od_updated_ns := now\<rparr>"
  have m: "moved r ?s (- od_reserved_quote r) d d' \<and> books d' = books d \<and> order_check ?s"
    using release_moved[OF assms(1) _ _ moved_start[OF assms(1)] refl assms(4)] row acc by simp
  moreover have f: "forward r ?s"
    using assms(5,6) order_check_bounds m by (auto simp: forward_def order_sound_def terminal_def)
  ultimately show "oms_move d d'" by (auto intro!: oms_moveI)
  from m f show "\<exists>s. moved r s (od_reserved_quote s - od_reserved_quote r) d d' \<and> forward r s"
    by (intro exI[of _ ?s]) simp
qed

lemma abort_keeps_halt:
  "abort_decision a intent c = Inr (why, m) \<Longrightarrow> ac_mode a = HALTED \<Longrightarrow> m = HALTED"
  by (auto simp: abort_decision_def Let_def split: sum.splits error.splits if_splits)

text \<open>\<open>row_read row d\<close>: the row a worker read in an earlier transaction is still there.\<close>

definition row_read :: "order_row \<Rightarrow> db \<Rightarrow> bool" where
  "row_read row d \<longleftrightarrow> (\<exists>q \<in> set (orders d). frozen row q)"

lemma row_read_current:
  assumes "keyed d" and "row_read row d" and "fetch_order sha tenant (od_intent_id row) d = Inr r"
  shows "frozen row r"
proof -
  obtain q where q: "q \<in> set (orders d)" "frozen row q" using assms(2) by (auto simp: row_read_def)
  moreover have "r \<in> set (orders d)" "od_intent_id r = od_intent_id row"
    using fetch_order_row[OF assms(3)] by auto
  ultimately have "q = r" using assms(1)
    by (auto simp: keyed_def frozen_def dest: unique_row[where key = od_intent_id])
  with q show ?thesis by simp
qed

lemma submit_recheck_move:
  assumes "keyed d" and "row_read row d"
    and "submit_recheck_tx sha tenant row token now_ns market t d = Inr (v, d')"
  shows "oms_move d d'"
proof -
  obtain a r now where a: "fetch_account tenant (od_account_id row) d = Inr a"
    and r: "fetch_order sha tenant (od_intent_id row) d = Inr r"
    using assms(3) by (auto simp: submit_recheck_tx_def Let_def bind_eq_Inr)
  have fr: "od_account_id r = od_account_id row" "od_intent_id r = od_intent_id row"
    using row_read_current[OF assms(1,2) r] by (simp_all add: frozen_def)
  show ?thesis
  proof (cases "v = CheckProceed \<or> od_status r \<noteq> SUBMITTING")
    case True
    with assms(3) a r have "d' = d"
      by (auto simp: submit_recheck_tx_def Let_def bind_eq_Inr split: if_splits option.splits)
    then show ?thesis by (simp add: oms_move_idle)
  next
    case False
    with assms(3) a r obtain now c why m d1 d2 flags where
      dec: "abort_decision a (en_intent (od_payload row)) c = Inr (Some why, m)"
      and 1: "release a r CANCELED now d = Inr d1"
      and 2: "update_account (od_account_id r) (\<lambda>a. a\<lparr>ac_mode := m\<rparr>) d1 = Inr d2"
      and d': "d' = add_event tenant (od_intent_id row) ''order_aborted_before_send'' flags t d2"
      using fr by (auto simp: submit_recheck_tx_def Let_def bind_eq_Inr split: if_splits option.splits)
    note row = fetch_order_row[OF r] and acc = fetch_account_row[OF a]
    let ?s = "r\<lparr>od_status := CANCELED, od_reserved_quote := 0, od_reserved_base := 0, od_updated_ns := now\<rparr>"
    have m: "moved r ?s (- od_reserved_quote r) d d1 \<and> books d1 = books d \<and> order_check ?s"
      using release_moved[OF assms(1) _ _ moved_start[OF assms(1)] refl 1] row acc fr by simp
    then have "moved r ?s (- od_reserved_quote r) d d2"
      using moved_set[OF assms(1) _ _ _ 2, of a] acc fr abort_keeps_halt[OF dec]
      by (auto simp: account_kept_def)
    moreover have "forward r ?s"
      using False m order_check_bounds[of ?s] by (auto simp: forward_def allowed_def order_sound_def terminal_def)
    ultimately show ?thesis using m 2 d' by (auto intro!: oms_moveI)
  qed
qed

lemma cas_update:
  assumes "keyed d" and "r \<in> set (orders d)" and "od_status r = RESERVED"
    and "update_order (od_intent_id r) (\<lambda>r. if od_status r = RESERVED
                   then r\<lparr>od_status := SUBMITTING, od_updated_ns := now\<rparr> else r) d = Inr d'"
  shows "moved r (r\<lparr>od_status := SUBMITTING, od_updated_ns := now\<rparr>) 0 d d'"
  using moved_then_order[OF assms(1) moved_start[OF assms(1,2)] assms(4)] assms(3) by (simp add: frozen_def)

lemma submit_begin_move:
  assumes "keyed d" and "submit_begin_tx sha cf tenant oid adapter token now_ns market t d = Inr (v, d')"
  shows "oms_move d d'"
proof -
  obtain r a where r: "fetch_order sha tenant oid d = Inr r"
    and a: "fetch_account tenant (od_account_id r) d = Inr a"
    using assms(2) by (auto simp: submit_begin_tx_def Let_def bind_eq_Inr)
  note row = fetch_order_row[OF r] and acc = fetch_account_row[OF a]
  consider (idle) "d' = d"
    | (expired) now d1 where "od_status r = RESERVED" "release a r EXPIRED now d = Inr d1"
        "d' = add_event tenant oid ''order_expired_unsent'' [] t d1"
    | (shadow) now d1 d2 f flags where "od_status r = RESERVED" "release a r CANCELED now d = Inr d1"
        "d2 = d1 \<or> update_account (od_account_id r) (\<lambda>a. a\<lparr>ac_daily_new_risk := f\<rparr>) d1 = Inr d2"
        "d' = add_event tenant oid ''shadow_intent_evaluated'' flags t d2"
    | (send) now d1 where "od_status r = RESERVED"
        "update_order oid (\<lambda>r. if od_status r = RESERVED
                   then r\<lparr>od_status := SUBMITTING, od_updated_ns := now\<rparr> else r) d = Inr d1"
        "d' = add_event tenant oid ''order_submitting'' [] t d1"
    using assms(2) r a
    by (auto simp: submit_begin_tx_def Let_def bind_eq_Inr split: if_splits) blast+
  then show ?thesis
  proof cases
    case idle
    then show ?thesis by (simp add: oms_move_idle)
  next
    case expired
    have "oms_move d d1"
      using release_move(1)[OF assms(1) r a expired(2)] expired(1) by (simp add: terminal_def allowed_def)
    with expired(3) show ?thesis by simp
  next
    case shadow
    obtain s where m: "moved r s (od_reserved_quote s - od_reserved_quote r) d d1" and f: "forward r s"
      using release_move(2)[OF assms(1) r a shadow(2)] shadow(1) by (auto simp: terminal_def allowed_def)
    have "moved r s (od_reserved_quote s - od_reserved_quote r) d d2"
      using shadow(3) m moved_then_account[OF assms(1) m] by (auto simp: account_kept_def)
    moreover have "books d2 = books d"
      using shadow(2,3) by (auto simp: release_def bind_eq_Inr)
    ultimately show ?thesis using shadow(4) f by (auto intro!: oms_moveI)
  next
    case send
    have "moved r (r\<lparr>od_status := SUBMITTING, od_updated_ns := now\<rparr>) 0 d d1"
      using cas_update[OF assms(1) _ send(1)] send(2) row by blast
    moreover have "forward r (r\<lparr>od_status := SUBMITTING, od_updated_ns := now\<rparr>)"
      using send(1) by (auto simp: forward_def allowed_def order_sound_def terminal_def)
    ultimately show ?thesis using send(2,3) by (auto intro!: oms_moveI)
  qed
qed

lemma submit_ack_move:
  assumes "keyed d" and "row_read row d" and "submit_ack_tx sha tenant row token answer t d = Inr (v, d')"
  shows "oms_move d d'"
proof -
  let ?vid = "id_venue_order_id (sr_identity answer)"
  obtain a r d1 d2 d3 where a: "fetch_account tenant (od_account_id row) d = Inr a"
    and r: "fetch_order sha tenant (od_intent_id row) d = Inr r"
    and 1: "(if ?vid \<noteq> None then update_order (od_intent_id row) (\<lambda>r. r\<lparr>od_venue_order_id := ?vid\<rparr>) d
             else Inr d) = Inr d1"
    and 2: "(if od_status r = SUBMITTING then
              bind (if sr_status answer = submit_rejected then release a r REJECTED t d1
                    else update_order (od_intent_id row) (\<lambda>r. r\<lparr>
                           od_status := (if sr_status answer = accepted then ACKNOWLEDGED else UNKNOWN),
                           od_venue_order_id := ?vid, od_updated_ns := t\<rparr>) d1) (\<lambda>d2.
              if sr_status answer = submit_unknown then halt_account (od_account_id row) d2 else Inr d2)
            else Inr d1) = Inr d3"
    and d': "d' = add_event tenant (od_intent_id row) ''submission_result'' (submit_result_fields answer) t d3"
    using assms(3) by (auto simp: submit_ack_tx_def Let_def bind_eq_Inr)
  note row = fetch_order_row[OF r] and acc = fetch_account_row[OF a]
  have fr: "od_account_id r = od_account_id row" "od_intent_id r = od_intent_id row"
    using row_read_current[OF assms(1,2) r] by (simp_all add: frozen_def)
  obtain s where m: "moved r s 0 d d1" and s: "s = r\<lparr>od_venue_order_id := od_venue_order_id s\<rparr>"
    and b: "books d1 = books d" "order_check s \<or> s = r"
  proof (cases "?vid \<noteq> None")
    case True
    with 1 fr have u: "update_order (od_intent_id r) (\<lambda>r. r\<lparr>od_venue_order_id := ?vid\<rparr>) d = Inr d1" by simp
    with moved_then_order[OF assms(1) moved_start[OF assms(1)] u] row show ?thesis
      by (intro that[of "r\<lparr>od_venue_order_id := ?vid\<rparr>"]) (auto simp: frozen_def)
  next
    case False
    with 1 moved_start[OF assms(1)] row show ?thesis by (intro that[of r]) auto
  qed
  have "oms_move d d3"
  proof (cases "od_status r = SUBMITTING")
    case False
    have "forward r s" using s by (cases r, cases s) (auto simp: forward_def allowed_def order_sound_def)
    moreover have "od_reserved_quote s = od_reserved_quote r" using s by (cases r, cases s) auto
    ultimately show ?thesis using 2 False m b by (auto intro!: oms_moveI)
  next
    case sub: True
    show ?thesis
    proof (cases "sr_status answer = submit_rejected")
      case True
      then have 3: "release a r REJECTED t d1 = Inr d3" using 2 sub by (auto simp: bind_eq_Inr)
      let ?s = "s\<lparr>od_status := REJECTED, od_reserved_quote := 0, od_reserved_base := 0, od_updated_ns := t\<rparr>"
      have n: "moved r ?s (- od_reserved_quote r) d d3 \<and> books d3 = books d1 \<and> order_check ?s"
        using release_moved[OF assms(1) _ _ m refl 3] acc fr by simp
      moreover have "forward r ?s"
        using n sub order_check_bounds[of ?s] s
        by (cases r, cases s) (auto simp: forward_def allowed_def order_sound_def terminal_def)
      ultimately show ?thesis using b by (auto intro!: oms_moveI)
    next
      case False
      define st where "st = (if sr_status answer = accepted then ACKNOWLEDGED else UNKNOWN)"
      obtain d2 where 3: "update_order (od_intent_id r)
          (\<lambda>r. r\<lparr>od_status := st, od_venue_order_id := ?vid, od_updated_ns := t\<rparr>) d1 = Inr d2"
        and 4: "d3 = d2 \<or> halt_account (od_account_id r) d2 = Inr d3"
        using 2 sub False fr by (auto simp: bind_eq_Inr st_def split: if_splits)
      let ?s = "s\<lparr>od_status := st, od_venue_order_id := ?vid, od_updated_ns := t\<rparr>"
      have n: "moved r ?s 0 d d2 \<and> order_check ?s"
        using moved_then_order[OF assms(1) m 3] by (simp add: frozen_def)
      then have "moved r ?s 0 d d3" using 4 moved_then_halt[OF assms(1)] by blast
      moreover have "forward r ?s"
        using n sub order_check_bounds[of ?s] s
        by (cases r, cases s) (auto simp: forward_def allowed_def order_sound_def terminal_def st_def)
      moreover have "od_reserved_quote ?s = od_reserved_quote r" using s by (cases r, cases s) auto
      moreover have "books d3 = books d" using 3 4 b by auto
      ultimately show ?thesis by (auto intro!: oms_moveI)
    qed
  qed
  with d' show ?thesis by simp
qed

lemma cancel_begin_move:
  assumes "keyed d" and "cancel_begin_tx sha tenant oid token t d = Inr (v, d')"
  shows "oms_move d d'"
proof -
  obtain r a where r: "fetch_order sha tenant oid d = Inr r"
    and a: "fetch_account tenant (od_account_id r) d = Inr a"
    using assms(2) by (auto simp: cancel_begin_tx_def bind_eq_Inr)
  note row = fetch_order_row[OF r] and acc = fetch_account_row[OF a]
  consider (idle) "d' = d"
    | (unsent) d1 where "od_status r = RESERVED" "release a r CANCELED t d = Inr d1"
        "d' = add_event tenant oid ''unsent_order_canceled'' [] t d1"
    | (send) d1 where "od_status r \<noteq> RESERVED" "\<not> terminal (od_status r)"
        "update_order oid (\<lambda>r. r\<lparr>od_status := CANCEL_PENDING, od_updated_ns := t\<rparr>) d = Inr d1"
        "d' = add_event tenant oid ''cancel_pending'' [] t d1"
    using assms(2) r a by (auto simp: cancel_begin_tx_def bind_eq_Inr split: if_splits)
  then show ?thesis
  proof cases
    case idle
    then show ?thesis by (simp add: oms_move_idle)
  next
    case unsent
    have "oms_move d d1"
      using release_move(1)[OF assms(1) r a unsent(2)] unsent(1) by (simp add: terminal_def allowed_def)
    with unsent(3) show ?thesis by simp
  next
    case send
    let ?s = "r\<lparr>od_status := CANCEL_PENDING, od_updated_ns := t\<rparr>"
    have u: "update_order (od_intent_id r) (\<lambda>r. r\<lparr>od_status := CANCEL_PENDING, od_updated_ns := t\<rparr>) d = Inr d1"
      using send(3) row by simp
    have m: "moved r ?s 0 d d1 \<and> order_check ?s"
      using moved_then_order[OF assms(1) moved_start[OF assms(1)] u] row by (simp add: frozen_def)
    moreover have "forward r ?s"
      using send(1,2) m order_check_bounds[of ?s] by (auto simp: forward_def allowed_def order_sound_def terminal_def)
    ultimately show ?thesis using send(3,4) by (auto intro!: oms_moveI)
  qed
qed

lemma cancel_ack_move:
  assumes "keyed d" and "row_read row d" and "cancel_ack_tx sha tenant row token answer t d = Inr (v, d')"
  shows "oms_move d d'"
proof -
  obtain a r where a: "fetch_account tenant (od_account_id row) d = Inr a"
    and r: "fetch_order sha tenant (od_intent_id row) d = Inr r"
    using assms(3) by (auto simp: cancel_ack_tx_def Let_def bind_eq_Inr)
  note row = fetch_order_row[OF r] and acc = fetch_account_row[OF a]
  have fr: "od_account_id r = od_account_id row" "od_intent_id r = od_intent_id row"
    using row_read_current[OF assms(1,2) r] by (simp_all add: frozen_def)
  consider (idle) f where "d' = add_event tenant (od_intent_id row) ''cancel_result'' f t d"
    | (confirmed) d1 f where "od_status r = CANCEL_PENDING" "release a r CANCELED t d = Inr d1"
        "d' = add_event tenant (od_intent_id row) ''cancel_result'' f t d1"
    | (rejected) d1 st f where "od_status r = CANCEL_PENDING" "st \<in> {PARTIALLY_FILLED, ACKNOWLEDGED}"
        "update_order (od_intent_id r) (\<lambda>r. r\<lparr>od_status := st\<rparr>) d = Inr d1"
        "d' = add_event tenant (od_intent_id row) ''cancel_result'' f t d1"
    using assms(3) r a fr by (auto simp: cancel_ack_tx_def Let_def bind_eq_Inr split: if_splits) blast+
  then show ?thesis
  proof cases
    case idle
    then show ?thesis by (simp add: oms_move_idle)
  next
    case confirmed
    have "oms_move d d1"
      using release_move(1)[OF assms(1) r _ confirmed(2)] a fr confirmed(1)
      by (simp add: terminal_def allowed_def)
    with confirmed(3) show ?thesis by simp
  next
    case rejected
    let ?s = "r\<lparr>od_status := st\<rparr>"
    have m: "moved r ?s 0 d d1 \<and> order_check ?s"
      using moved_then_order[OF assms(1) moved_start[OF assms(1)] rejected(3)] row
      by (simp add: frozen_def)
    moreover have "forward r ?s"
      using rejected(1,2) m order_check_bounds[of ?s]
      by (auto simp: forward_def allowed_def order_sound_def terminal_def)
    ultimately show ?thesis using rejected(3,4) by (auto intro!: oms_moveI)
  qed
qed

lemma snapshot_move:
  assumes "keyed d" and "list_all order_sound (orders d)" and "snapshot_tx sha tenant s t d = Inr (v, d')"
  shows "oms_move d d'"
proof -
  obtain r a where r: "fetch_order sha tenant (id_intent_id (os_identity s)) d = Inr r"
    and a: "fetch_account tenant (od_account_id r) d = Inr a"
    using assms(3) by (auto simp: snapshot_tx_def Let_def bind_eq_Inr)
  note row = fetch_order_row[OF r] and acc = fetch_account_row[OF a]
  consider (idle) k f where "d' = d \<or> d' = add_event tenant (od_intent_id r) k f t d"
    | (update) d1 d2 d3 d4 z f where "snapshot_check r s t = Inr ()"
        "od_status r \<noteq> CANCEL_PENDING \<or> terminal (os_status s)"
        "(if terminal (os_status s) then release a r (os_status s) t d else Inr d) = Inr d1"
        "settlement tenant r (os_settlement_status s) True t d1 = Inr (z, d2)"
        "update_order (od_intent_id r) (\<lambda>r. r\<lparr>od_status := os_status s,
                 od_venue_order_id := id_venue_order_id (os_identity s),
                 od_settlement_status := z, od_last_reconciled_ns := os_asof_ns s,
                 od_updated_ns := t\<rparr>) d2 = Inr d3"
        "d4 = d3 \<or> halt_account (od_account_id r) d3 = Inr d4"
        "d' = add_event tenant (od_intent_id r) ''order_reconciled'' f t d4"
    using assms(3) r a
    by (auto simp: snapshot_tx_def Let_def bind_eq_Inr split: if_splits prod.splits) blast+
  then show ?thesis
  proof cases
    case idle
    then show ?thesis by (auto simp: oms_move_idle)
  next
    case update
    let ?f = "\<lambda>r :: order_row. r\<lparr>od_status := os_status s,
                 od_venue_order_id := id_venue_order_id (os_identity s),
                 od_settlement_status := z, od_last_reconciled_ns := os_asof_ns s, od_updated_ns := t\<rparr>"
    define q where "q = (if terminal (os_status s)
        then r\<lparr>od_status := os_status s, od_reserved_quote := 0, od_reserved_base := 0, od_updated_ns := t\<rparr>
        else r)"
    have m1: "moved r q (od_reserved_quote q - od_reserved_quote r) d d1 \<and> books d1 = books d"
      using release_moved[OF assms(1) _ _ moved_start[OF assms(1)] refl, of a r] update(3) row acc
        moved_start[OF assms(1)] by (auto simp: q_def split: if_splits)
    obtain z' where m2: "moved r (q\<lparr>od_settlement_status := z'\<rparr>) (od_reserved_quote q - od_reserved_quote r) d d2"
      and b2: "books d2 = books d1"
      using settlement_moved[OF assms(1) conjunct1[OF m1] refl refl update(4)] by blast
    have m3: "moved r (?f (q\<lparr>od_settlement_status := z'\<rparr>)) (od_reserved_quote q - od_reserved_quote r) d d3"
      and oc: "order_check (?f (q\<lparr>od_settlement_status := z'\<rparr>))"
      using moved_then_order[OF assms(1) m2 update(5)] by (simp_all add: frozen_def)
    have m4: "moved r (?f (q\<lparr>od_settlement_status := z'\<rparr>)) (od_reserved_quote q - od_reserved_quote r) d d4"
      using update(6) m3 moved_then_halt[OF assms(1) m3] by blast
    have "od_status r \<noteq> RESERVED" "os_status s \<notin> {CREATED, RESERVED, SUBMITTING, UNKNOWN}"
      "terminal (od_status r) \<longrightarrow> os_status s = od_status r"
      using update(1) by (auto simp: snapshot_check_def bind_eq_Inr raise_if_eq_Inr)
    then have "forward r (?f (q\<lparr>od_settlement_status := z'\<rparr>))"
      using oc order_check_bounds[OF oc]
      by (auto simp: forward_def allowed_def order_sound_def q_def)
    moreover have "books d4 = books d" using m1 b2 update(5,6) by auto
    ultimately show ?thesis using m4 update(7) by (auto intro!: oms_moveI)
  qed
qed

lemma record_marks_frame:
  "record_marks sha tenant dep market now report latched d = Inr d' \<Longrightarrow>
   books d' = books d \<and> orders d' = orders d \<and> accounts d' = accounts d"
  by (auto simp: record_marks_def upsert_risk_state_def books_def Let_def bind_eq_Inr
      split: option.splits if_splits)

lemma evaluate_keeps_halt: "ac_mode a = HALTED \<Longrightarrow>
   rr_observation_discarded (evaluate_locked sha a dep ins market now d) \<or>
   rr_mode (evaluate_locked sha a dep ins market now d) = HALTED"
  by (simp add: evaluate_locked_def Let_def blocked_report_def evaluated_mode_def)

lemma check_move:
  assumes "keyed d" and "check_tx sha tenant dep ins market now_ns t d = Inr (v, d')"
  shows "oms_move d d'"
proof -
  obtain a where a: "first_where (\<lambda>a. ac_tenant_id a = tenant \<and> ac_account_id a = dm_account_id dep) (accounts d) = Some a"
    using assms(2) by (auto simp: check_tx_def bind_eq_Inr or_raise_eq_Inr)
  define now where "now = (case now_ns of None \<Rightarrow> t | Some n \<Rightarrow> n)"
  let ?e = "evaluate_locked sha a dep ins market now d"
  from first_where_Some[OF a] have acc: "a \<in> set (accounts d)" "ac_account_id a = dm_account_id dep" by auto
  show ?thesis
  proof (cases "rr_observation_discarded ?e")
    case True
    with assms(2) a have "d' = d"
      by (auto simp: check_tx_def bind_eq_Inr or_raise_eq_Inr Let_def now_def)
    then show ?thesis by (simp add: oms_move_idle)
  next
    case False
    then obtain latched d2 d4 where 0: "record_marks sha tenant dep market now ?e latched d = Inr d2"
      and 2: "(if rr_mode ?e \<noteq> ac_mode a
               then bind (update_account (dm_account_id dep) (\<lambda>a. a\<lparr>ac_mode := rr_mode ?e\<rparr>) d2) (\<lambda>d3.
                    Inr (add_event tenant (dm_account_id dep) ''risk_stop''
                      [(''mode'', JStr (mode_text (rr_mode ?e))),
                       (''reasons'', JArr (map JStr (rr_reasons ?e)))] t d3))
               else Inr d2) = Inr d4"
      and 3: "d' = d4"
      using assms(2) a by (auto simp: check_tx_def bind_eq_Inr or_raise_eq_Inr Let_def now_def[symmetric])
    have 1: "books d2 = books d" "orders d2 = orders d" "accounts d2 = accounts d"
      using record_marks_frame[OF 0] by auto
    have "oms_move d2 d4"
    proof (cases "rr_mode ?e \<noteq> ac_mode a")
      case True
      then obtain d3 k f where u: "update_account (dm_account_id dep) (\<lambda>a. a\<lparr>ac_mode := rr_mode ?e\<rparr>) d2 = Inr d3"
        and d4: "d4 = add_event tenant (dm_account_id dep) k f t d3"
        using 2 by (auto simp: bind_eq_Inr)
      have "b = a" if "b \<in> set (accounts d2)" "ac_account_id b = dm_account_id dep" for b
        using that acc 1 assms(1) by (auto simp: keyed_def dest: unique_row[where key = ac_account_id])
      moreover have "ac_mode a = HALTED \<Longrightarrow> rr_mode ?e = HALTED"
        using evaluate_keeps_halt[of a sha dep ins market now d] False by blast
      ultimately have "oms_move d2 d3"
        by (intro oms_move_account[OF u]) (auto simp: account_kept_def)
      then show ?thesis by (simp add: d4)
    next
      case False
      with 2 show ?thesis by (simp add: oms_move_idle)
    qed
    then show ?thesis using 1 3 by (simp add: oms_move_def moved_def accounts_shift_def)
  qed
qed

lemma stop_move:
  assumes "keyed d" and "stop_tx tenant aid reasons mode dep t d = Inr (v, d')"
  shows "oms_move d d'"
proof -
  obtain a where a: "first_where (\<lambda>a. ac_tenant_id a = tenant \<and> ac_account_id a = aid) (accounts d) = Some a"
    using assms(2) by (auto simp: stop_tx_def bind_eq_Inr or_raise_eq_Inr)
  from first_where_Some[OF a] have acc: "a \<in> set (accounts d)" "ac_account_id a = aid" by auto
  consider (idle) "d' = d"
    | (stop) m d1 d2 rs k f where "m = (if ac_mode a = HALTED then HALTED else mode)"
        "update_account aid (\<lambda>a. a\<lparr>ac_mode := m\<rparr>) d = Inr d1"
        "d2 = d1 \<or> d2 = d1\<lparr>risk_state := rs\<rparr>" "d' = add_event tenant aid k f t d2"
    using assms(2) a
    by (auto simp: stop_tx_def bind_eq_Inr or_raise_eq_Inr Let_def split: if_splits option.splits) blast+
  then show ?thesis
  proof cases
    case idle
    then show ?thesis by (simp add: oms_move_idle)
  next
    case stop
    have "b = a" if "b \<in> set (accounts d)" "ac_account_id b = aid" for b
      using that acc assms(1) by (auto simp: keyed_def dest: unique_row[where key = ac_account_id])
    then have "oms_move d d1"
      by (intro oms_move_account[OF stop(2)]) (auto simp: account_kept_def stop(1))
    moreover have "books d2 = books d1" "orders d2 = orders d1" "accounts d2 = accounts d1"
      using stop(3) by (auto simp: books_def)
    ultimately have "oms_move d d2" by (simp add: oms_move_def moved_def accounts_shift_def)
    then show ?thesis using stop(4) by simp
  qed
qed

lemma claim_account_move:
  "claim_account_tx tenant aid owner ttl token known fresh t d = Inr (v, d') \<Longrightarrow> oms_move d d'"
  by (auto simp: claim_account_tx_def bind_eq_Inr Let_def)
    (erule oms_move_account, simp add: account_kept_def)

lemma mark_reconciled_move:
  "mark_reconciled_tx tenant aid now_ns t d = Inr (v, d') \<Longrightarrow> oms_move d d'"
  by (auto simp: mark_reconciled_tx_def bind_eq_Inr)
    (erule oms_move_account, simp add: account_kept_def)

lemma set_mode_inv:
  assumes "oms_inv d" and "set_mode_tx tenant aid mode reason dep t d = Inr (v, d')"
  shows "oms_inv d'"
proof -
  obtain d1 k f where u: "update_account aid (\<lambda>a. a\<lparr>ac_mode := mode\<rparr>) d = Inr d1"
    and d': "d' = add_event tenant aid k f t d1"
    using assms(2) by (auto simp: set_mode_tx_def bind_eq_Inr)
  show ?thesis
  proof (rule oms_inv_same[OF assms(1)])
    show "orders d' = orders d" using u d' by (simp add: update_account_eq_Inr add_event_def)
    show "books d' = books d" using u d' by simp
    show "map (\<lambda>a. (ac_account_id a, ac_reserved_quote a)) (accounts d') =
        map (\<lambda>a. (ac_account_id a, ac_reserved_quote a)) (accounts d)"
      using u d' by (simp add: update_account_eq_Inr add_event_def update_where_def)
  qed
qed

section \<open>Transactions that write the books\<close>

definition asset_sum :: "string \<Rightarrow> (string \<times> string \<times> rat) list \<Rightarrow> rat" where
  "asset_sum asset entries = (\<Sum>e\<leftarrow>filter (\<lambda>e. fst e = asset) entries. snd (snd e))"

lemma insert_entries_append: "insert_entries es rows = Inr rows' \<Longrightarrow> rows' = rows @ es"
  by (induction es rows rule: insert_entries.induct) (auto simp: bind_eq_Inr insert_row_eq_Inr split: if_splits)

lemma journal_effect:
  assumes "journal sha aid kind source entries now d = Inr d'"
  obtains x ts where "d' = d\<lparr>ledger_transactions := ts, ledger_entries := ledger_entries d @ journal_rows sha aid x entries\<rparr>"
    and "\<forall>asset. asset_sum asset entries = 0"
    and "x = content_hash sha (JArr [JStr aid, JStr kind, JStr source])"
    and "\<forall>r \<in> set (ledger_transactions d). lt_transaction_id r \<noteq> x"
proof -
  let ?es = "map (\<lambda>(asset, bucket, amount). (asset, amount)) entries"
  let ?x = "content_hash sha (JArr [JStr aid, JStr kind, JStr source])"
  have z: "\<forall>(k, v) \<in> set (dict_sum ?es). v = 0"
    using assms by (auto simp: journal_def Let_def bind_eq_Inr raise_if_eq_Inr list_ex_iff)
  have sum: "asset_sum asset entries = 0" for asset
  proof -
    have "dict_get (dict_sum ?es) asset = 0"
      using z by (auto simp: dict_get_def split: option.splits dest!: map_of_SomeD)
    moreover have "(\<Sum>(k, v)\<leftarrow>filter (\<lambda>(k, v). k = asset) (map (\<lambda>(asset, bucket, amount). (asset, amount)) es). v) =
        asset_sum asset es" for es :: "(string \<times> string \<times> rat) list"
      by (induction es) (auto simp: asset_sum_def)
    ultimately show ?thesis by (simp add: dict_get_sum)
  qed
  obtain ts es where "insert_row ledger_transaction_clash ''uq_v4_ledger_source''
                 \<lparr>lt_transaction_id = ?x, lt_account_id = aid, lt_kind = kind,
                  lt_source_id = source, lt_created_ns = now\<rparr> (ledger_transactions d) = Inr ts"
    and "insert_entries (journal_rows sha aid ?x entries) (ledger_entries d) = Inr es"
    and "d' = d\<lparr>ledger_transactions := ts, ledger_entries := es\<rparr>"
    using assms by (auto simp: journal_def Let_def bind_eq_Inr)
  then show ?thesis
    using sum by (intro that[of ?x ts])
      (auto dest!: insert_entries_append simp: insert_row_eq_Inr ledger_transaction_clash_def)
qed

lemma sum_filter_append: "(\<Sum>e\<leftarrow>filter P (xs @ ys). f e) = (\<Sum>e\<leftarrow>filter P xs. f e) + (\<Sum>e\<leftarrow>filter P ys. f e)"
  for f :: "'a \<Rightarrow> rat"
  by simp

lemma entry_total_rows:
  "entry_total y asset (journal_rows sha aid x entries) =
     (if y = x then asset_sum asset entries else 0)"
proof -
  have "(\<Sum>e\<leftarrow>filter (\<lambda>e. le_transaction_id e = y \<and> le_asset e = asset)
      (map (\<lambda>(index, asset, bucket, amount).
            \<lparr>le_entry_id = content_hash sha (JArr [JStr x, JInt (int index)]),
             le_transaction_id = x, le_account_id = aid, le_asset = asset,
             le_bucket = bucket, le_amount = amount\<rparr>) (zip is es)). le_amount e) =
     (if y = x then asset_sum asset es else 0)"
    if "length is = length es" for "is" :: "nat list" and es
    using that by (induction "is" es rule: list_induct2) (auto simp: asset_sum_def)
  then show ?thesis by (simp add: entry_total_def journal_rows_def)
qed

lemma journal_balanced:
  assumes "journal sha aid kind source entries now d = Inr d'" and "ledger_balanced d"
  shows "ledger_balanced d'"
proof -
  obtain x ts where d': "d' = d\<lparr>ledger_transactions := ts, ledger_entries := ledger_entries d @ journal_rows sha aid x entries\<rparr>"
    and z: "\<forall>asset. asset_sum asset entries = 0"
    using journal_effect[OF assms(1)] by metis
  have "entry_total y asset (ledger_entries d') = 0" for y asset
  proof -
    have "entry_total y asset (ledger_entries d) = 0"
      using assms(2) by (simp add: ledger_balanced_iff)
    moreover have "entry_total y asset (journal_rows sha aid x entries) = 0"
      using z by (simp add: entry_total_rows)
    ultimately show ?thesis by (simp add: d' entry_total_def)
  qed
  then show ?thesis by (simp add: ledger_balanced_iff)
qed

lemma journal_frame:
  "journal sha aid kind source entries now d = Inr d' \<Longrightarrow>
   accounts d' = accounts d \<and> orders d' = orders d \<and> fills d' = fills d \<and> events d' = events d"
  by (erule journal_effect) simp

lemma create_account_effect:
  assumes "create_account_tx sha tenant aid capital quote t d = Inr (v, d')"
  obtains a d1 where "ac_account_id a = aid" "ac_reserved_quote a = 0" "ac_mode a = ACTIVE"
    and "insert_account_once a d = Inr d1"
    and "d' = d1 \<or> (\<exists>entries k f d2. journal sha aid ''funding'' aid entries t d1 = Inr d2 \<and>
              d' = add_event tenant aid k f t d2)"
proof -
  let ?a = "\<lparr>ac_account_id = aid, ac_tenant_id = tenant, ac_quote_asset = quote,
              ac_capital = capital, ac_mode = ACTIVE, ac_reserved_quote = 0, ac_daily_new_risk = 0,
              ac_day_utc = utc_day t, ac_lease_token = None, ac_lease_owner = None,
              ac_lease_until_ns = 0, ac_reconciled_ns = t\<rparr>"
  obtain d1 where "insert_account_once ?a d = Inr d1"
    and "d' = d1 \<or> (\<exists>entries k f d2. journal sha aid ''funding'' aid entries t d1 = Inr d2 \<and>
              d' = add_event tenant aid k f t d2)"
    using assms by (auto simp: create_account_tx_def bind_eq_Inr split: if_splits)
  then show ?thesis by (intro that[of ?a d1]) simp_all
qed

lemma create_account_inv:
  assumes "oms_inv d" and "create_account_tx sha tenant aid capital quote t d = Inr (v, d')"
  shows "oms_inv d'"
proof -
  obtain a d1 where a_def: "ac_account_id a = aid" "ac_reserved_quote a = 0"
    and 1: "insert_account_once a d = Inr d1"
    and 2: "d' = d1 \<or> (\<exists>entries k f d2. journal sha aid ''funding'' aid entries t d1 = Inr d2 \<and>
              d' = add_event tenant aid k f t d2)"
    by (rule create_account_effect[OF assms(2)])
  have d1: "d1 = d\<lparr>accounts := insert_once account_clash a (accounts d)\<rparr>"
    using 1 by (simp add: insert_account_once_eq_Inr)
  have "keyed d1"
    using assms(1) account_table.insert_once_distinct account_table.insert_once_keeps
    by (auto simp: oms_inv_def keyed_def d1)
  moreover have "holds_match d1"
    unfolding holds_match_def
  proof
    fix b assume b: "b \<in> set (accounts d1)"
    show "ac_reserved_quote b = holds_of (ac_account_id b) (orders d1)"
    proof (cases "b \<in> set (accounts d)")
      case True
      with assms(1) show ?thesis by (simp add: oms_inv_def holds_match_def d1)
    next
      case False
      with b have "b = a" "\<forall>c \<in> set (accounts d). ac_account_id c \<noteq> aid"
        by (auto simp: d1 insert_once_def a_def account_clash_def list_ex_iff split: if_splits)
      moreover from this assms(1) have "filter (\<lambda>r. od_account_id r = aid) (orders d) = []"
        by (fastforce simp: oms_inv_def keyed_def filter_empty_conv)
      ultimately show ?thesis by (simp add: d1 holds_of_def a_def)
    qed
  qed
  ultimately have i: "oms_inv d1"
    using assms(1) by (auto simp: oms_inv_def d1 fills_match_def ledger_balanced_def)
  from 2 show ?thesis
  proof (elim disjE exE conjE)
    assume "d' = d1" then show ?thesis using i by simp
  next
    fix entries k f d2 assume j: "journal sha aid ''funding'' aid entries t d1 = Inr d2"
      and d': "d' = add_event tenant aid k f t d2"
    show ?thesis
      using i journal_frame[OF j] journal_balanced[OF j] d'
      by (auto simp: oms_inv_def keyed_def holds_match_def fills_match_def ledger_balanced_def add_event_def)
  qed
qed

lemma ceil18_0 [simp]: "ceil18 0 = 0"
  by (simp add: ceil18_def)

lemma prec80_0 [simp]: "prec80 0 = 0"
  by (simp add: prec80_def)

lemma filled_sound:
  assumes "order_check s" and "od_filled_quantity s = filled" and "od_quantity s = od_quantity row"
    and "od_reserved_quote s = remaining_quote row filled" and "od_reserved_base s = remaining_base row filled"
    and "od_status s = filled_status row filled" and "od_status row \<noteq> RESERVED"
  shows "order_sound s \<and> allowed (od_status row) (od_status s)"
proof -
  have "terminal (filled_status row filled) \<Longrightarrow> remaining_quote row filled = 0 \<and> remaining_base row filled = 0"
    by (auto simp: filled_status_def remaining_quote_def remaining_base_def Let_def terminal_def split: if_splits)
  moreover have "allowed (od_status row) (filled_status row filled)"
    using assms(7) by (auto simp: allowed_def filled_status_def terminal_def)
  moreover have "filled_status row filled \<noteq> RESERVED"
    using assms(7) by (simp add: filled_status_def)
  ultimately show ?thesis using assms order_check_bounds[OF assms(1)] by (simp add: order_sound_def)
qed

text \<open>What \<open>book_fill\<close> does, step by step.\<close>

lemma book_fill_effect:
  assumes "keyed d" and "fetch_order sha tenant oid d = Inr row"
    and "fetch_account tenant (od_account_id row) d = Inr a"
    and "od_status row \<noteq> RESERVED"
    and "book_fill sha tenant a row args settled gross digest t d = Inr (f, d')"
  obtains s d2 where "moved row s (od_reserved_quote s - od_reserved_quote row) d d'"
    and "order_sound s" and "allowed (od_status row) (od_status s)"
    and "od_filled_quantity s = od_filled_quantity row + fa_quantity args"
    and "fills d' = fills d @ [f]" and "fl_intent_id f = oid" and "fl_quantity f = fa_quantity args"
    and "journal sha (od_account_id row) ''trade'' (fl_fill_id f)
           (trade_entries (od_side row) args gross) t (d\<lparr>fills := fills d @ [f]\<rparr>) = Inr d2"
    and "ledger_entries d' = ledger_entries d2"
proof -
  note row = fetch_order_row[OF assms(2)] and acc = fetch_account_row[OF assms(3)]
  define filled where "filled = od_filled_quantity row + fa_quantity args"
  let ?rq = "remaining_quote row filled"
  obtain d1 d2 d3 d4 d5 d6 z k ev where
    1: "insert_fill f d = Inr d1"
    and 2: "journal sha (od_account_id row) ''trade'' (fl_fill_id f) (trade_entries (od_side row) args gross) t d1 = Inr d2"
    and 3: "settlement tenant row settled False t d2 = Inr (z, d3)"
    and 4: "update_order (od_intent_id row) (\<lambda>r. r\<lparr>od_filled_quantity := filled, od_reserved_quote := ?rq,
              od_reserved_base := remaining_base row filled, od_status := filled_status row filled,
              od_settlement_status := z, od_updated_ns := t\<rparr>) d3 = Inr d4"
    and 5: "update_account (od_account_id row) (\<lambda>b. b\<lparr>ac_reserved_quote :=
              ac_reserved_quote a - od_reserved_quote row + ?rq\<rparr>) d4 = Inr d5"
    and 6: "d6 = d5 \<or> halt_account (od_account_id row) d5 = Inr d6"
    and 7: "d' = add_event tenant oid k ev t d6"
    and f: "fl_intent_id f = oid" "fl_quantity f = fa_quantity args"
    using assms(5) row
    by (auto simp: book_fill_def Let_def bind_eq_Inr filled_def split: if_splits) blast+
  have d1: "d1 = d\<lparr>fills := fills d @ [f]\<rparr>" using 1 by (simp add: insert_fill_eq_Inr)
  have m2: "moved row row 0 d d2"
    using moved_refl[OF assms(1)] row journal_frame[OF 2] d1 by (simp add: accounts_shift_refl)
  obtain z' where m3: "moved row (row\<lparr>od_settlement_status := z'\<rparr>) 0 d d3" and b3: "books d3 = books d2"
    using settlement_moved[OF assms(1) m2 refl refl 3] by blast
  define s where "s = row\<lparr>od_filled_quantity := filled, od_reserved_quote := ?rq,
              od_reserved_base := remaining_base row filled, od_status := filled_status row filled,
              od_settlement_status := z, od_updated_ns := t\<rparr>"
  have m4: "moved row s 0 d d4 \<and> order_check s"
    using moved_then_order[OF assms(1) m3 4] by (simp add: frozen_def s_def)
  have m5: "moved row s (?rq - od_reserved_quote row) d d5"
    by (rule moved_set[OF assms(1) _ _ conjunct1[OF m4] 5, of a]) (use acc in \<open>auto simp: account_kept_def\<close>)
  have m6: "moved row s (?rq - od_reserved_quote row) d d6"
    using 6 moved_then_halt[OF assms(1) m5] m5 by blast
  have b6: "books d6 = books d2" using 4 5 6 b3 by auto
  show ?thesis
  proof (rule that[of s d2])
    show "moved row s (od_reserved_quote s - od_reserved_quote row) d d'"
      using m6 7 by (simp add: s_def moved_event)
    have ss: "order_sound s \<and> allowed (od_status row) (od_status s)"
      by (rule filled_sound[where filled = filled]) (use m4 assms(4) in \<open>simp_all add: s_def\<close>)
    show "order_sound s" "allowed (od_status row) (od_status s)" using ss by auto
    show "od_filled_quantity s = od_filled_quantity row + fa_quantity args" by (simp add: s_def filled_def)
    show "fills d' = fills d @ [f]" "ledger_entries d' = ledger_entries d2"
      using b6 7 journal_frame[OF 2] d1 by (simp_all add: books_def add_event_def)
    show "journal sha (od_account_id row) ''trade'' (fl_fill_id f)
           (trade_entries (od_side row) args gross) t (d\<lparr>fills := fills d @ [f]\<rparr>) = Inr d2"
      using 2 d1 by simp
  qed (use f in simp_all)
qed

lemma fills_booked:
  assumes "keyed d" and "fills_match d" and "moved row s x d d'" and "fills d' = fills d @ [f]"
    and "fl_intent_id f = od_intent_id row" and "od_filled_quantity s = od_filled_quantity row + fl_quantity f"
  shows "fills_match d'"
proof -
  have fr: "od_intent_id s = od_intent_id row" and row: "row \<in> set (orders d)"
    and od: "orders d' = update_where (\<lambda>q. od_intent_id q = od_intent_id row) (\<lambda>_. s) (orders d)"
    using assms(3) by (simp_all add: moved_def frozen_def)
  have "map od_intent_id (orders d') = map od_intent_id (orders d)"
    using fr by (auto simp: od update_where_def)
  then have ids: "od_intent_id ` set (orders d') = od_intent_id ` set (orders d)" by (metis set_map)
  have "od_filled_quantity q = filled_by (od_intent_id q) (fills d')" if "q \<in> set (orders d')" for q
  proof (cases "od_intent_id q = od_intent_id row")
    case True
    with that have "q = s" using fr by (auto simp: od set_update_where split: if_splits)
    then show ?thesis
      using assms(2,4-6) row fr by (simp add: fills_match_def filled_by_def)
  next
    case False
    with that have "q \<in> set (orders d)" using fr by (auto simp: od set_update_where split: if_splits)
    then show ?thesis
      using assms(2,4,5) False by (simp add: fills_match_def filled_by_def)
  qed
  then show ?thesis
    using assms(2,4,5) ids row by (auto simp: fills_match_def)
qed

lemma settlement_move:
  assumes "keyed d" and "fetch_order sha tenant oid d = Inr r"
    and "settlement tenant r incoming authoritative t d = Inr (z, d')"
  shows "oms_move d d'"
proof -
  obtain z' where m: "moved r (r\<lparr>od_settlement_status := z'\<rparr>) 0 d d'" and b: "books d' = books d"
    using settlement_moved[OF assms(1) moved_start[OF assms(1)] refl refl assms(3)]
      fetch_order_row[OF assms(2)] by blast
  moreover have "forward r (r\<lparr>od_settlement_status := z'\<rparr>)"
    by (simp add: forward_def allowed_def order_sound_def)
  ultimately show ?thesis using oms_moveI[OF _ _ b, of r "r\<lparr>od_settlement_status := z'\<rparr>"] by simp
qed

lemma apply_fill_cases:
  assumes "apply_fill_tx sha tenant oid args t d = Inr (f, d')"
  obtains (replay) row settled z where "fetch_order sha tenant oid d = Inr row"
      "settlement tenant row settled False t d = Inr (z, d')" "f \<in> set (fills d)"
  | (fresh) row a settled gross digest where "fetch_order sha tenant oid d = Inr row"
      "fetch_account tenant (od_account_id row) d = Inr a" "od_status row \<noteq> RESERVED"
      "\<not> proven_never_sent tenant oid d" "od_filled_quantity row + fa_quantity args \<le> od_quantity row"
      "gross = fill_gross (od_side row) (fa_quantity args) (fa_price args)"
      "book_fill sha tenant a row args settled gross digest t d = Inr (f, d')"
      "first_where (\<lambda>f. fl_venue f = od_venue row \<and> fl_account_id f = od_account_id row \<and>
             fl_venue_trade_id f = fa_venue_trade_id args) (fills d) = None"
proof -
  obtain row a settled where 1: "fetch_order sha tenant oid d = Inr row"
    and 2: "fetch_account tenant (od_account_id row) d = Inr a" and 3: "fill_args_check args = Inr settled"
    using assms by (auto simp: apply_fill_tx_def bind_eq_Inr)
  let ?find = "first_where (\<lambda>f. fl_venue f = od_venue row \<and> fl_account_id f = od_account_id row \<and>
             fl_venue_trade_id f = fa_venue_trade_id args) (fills d)"
  show ?thesis
  proof (cases ?find)
    case None
    show ?thesis
      by (rule fresh[OF 1 2]) (use assms 1 2 3 None in \<open>auto simp: apply_fill_tx_def Let_def bind_eq_Inr raise_if_eq_Inr\<close>)
  next
    case (Some x)
    obtain z where "settlement tenant row settled False t d = Inr (z, d')" "f = x"
      using assms 1 2 3 Some by (auto simp: apply_fill_tx_def Let_def bind_eq_Inr split: if_splits)
    then show ?thesis using replay[OF 1] first_where_Some[OF Some] by blast
  qed
qed

lemma apply_fill_inv:
  assumes i: "oms_inv d" and "apply_fill_tx sha tenant oid args t d = Inr (f, d')"
  shows "oms_inv d'"
proof -
  have k: "keyed d" using i by (simp add: oms_inv_def)
  from assms(2) show ?thesis
  proof (cases rule: apply_fill_cases)
    case (replay row settled z)
    from settlement_move[OF k replay(1,2)] show ?thesis by (rule oms_inv_move[OF i])
  next
    case (fresh row a settled gross digest)
    obtain s d2 where m: "moved row s (od_reserved_quote s - od_reserved_quote row) d d'"
      and so: "order_sound s"
      and q: "od_filled_quantity s = od_filled_quantity row + fa_quantity args"
      and f: "fills d' = fills d @ [f]" "fl_intent_id f = oid" "fl_quantity f = fa_quantity args"
      and j: "journal sha (od_account_id row) ''trade'' (fl_fill_id f)
           (trade_entries (od_side row) args gross) t (d\<lparr>fills := fills d @ [f]\<rparr>) = Inr d2"
      and l: "ledger_entries d' = ledger_entries d2"
      by (rule book_fill_effect[OF k fresh(1-3,7)])
    have "ledger_balanced (d\<lparr>fills := fills d @ [f]\<rparr>)" using i by (simp add: oms_inv_def ledger_balanced_def)
    then have "ledger_balanced d'" using journal_balanced[OF j] l by (simp add: ledger_balanced_def)
    moreover have "fills_match d'"
      using fills_booked[OF k _ m f(1)] f q i fetch_order_row[OF fresh(1)] by (simp add: oms_inv_def)
    ultimately show ?thesis
      using i keyed_moved[OF m k] holds_moved[OF k _ m] sound_moved[OF m so] by (simp add: oms_inv_def)
  qed
qed

lemma reserve_cases:
  assumes "reserve_tx sha cf tenant intent instrument fees deployment market now_ns t d = Inr (v, d')"
  obtains (existing) r where "d' = d" "r \<in> set (orders d)" "od_intent_id r = oi_intent_id intent"
      "od_tenant_id r = tenant" "v = plain r"
      "od_sha256 r = content_hash sha (envelope_json (intent_envelope intent instrument fees deployment))"
  | (new) a now daily where "fetch_account tenant (oi_account_id intent) d = Inr a" "now_of now_ns t = Inr now"
      "\<forall>r \<in> set (orders d). od_intent_id r \<noteq> oi_intent_id intent"
      "admission_check sha cf a intent instrument fees deployment market now d = Inr ()"
      "budget_check cf a intent instrument fees deployment market now d = Inr daily"
      "v = plain (new_order sha tenant intent instrument fees deployment now)"
      "orders d' = orders d @ [new_order sha tenant intent instrument fees deployment now]"
      "order_check (new_order sha tenant intent instrument fees deployment now)"
      "books d' = books d"
      "\<exists>d1. (if oi_side intent = buy
               then update_account (oi_account_id intent) (\<lambda>a. a\<lparr>ac_daily_new_risk := daily, ac_day_utc := utc_day now\<rparr>) d
               else Inr d) = Inr d1 \<and>
         (\<exists>d2. update_account (oi_account_id intent) (\<lambda>b. b\<lparr>ac_reserved_quote :=
                 ac_reserved_quote a + quote_hold intent instrument fees\<rparr>) d1 = Inr d2 \<and> accounts d' = accounts d2)"
proof -
  obtain a now where a: "fetch_account tenant (oi_account_id intent) d = Inr a" and n: "now_of now_ns t = Inr now"
    using assms by (auto simp: reserve_tx_def bind_eq_Inr)
  let ?row = "new_order sha tenant intent instrument fees deployment now"
  have rid: "od_intent_id ?row = oi_intent_id intent" by (simp add: new_order_def Let_def)
  show ?thesis
  proof (cases "first_where (\<lambda>r. od_intent_id r = oi_intent_id intent) (orders d)")
    case (Some r)
    show ?thesis
      by (rule existing[of r])
        (use assms a n Some first_where_Some[OF Some] in \<open>auto simp: reserve_tx_def Let_def bind_eq_Inr new_order_def split: if_splits\<close>)
  next
    case None
    then obtain daily d1 d2 d3 k f where
      ad: "admission_check sha cf a intent instrument fees deployment market now d = Inr ()"
      and bu: "budget_check cf a intent instrument fees deployment market now d = Inr daily"
      and 1: "(if oi_side intent = buy
               then update_account (oi_account_id intent) (\<lambda>a. a\<lparr>ac_daily_new_risk := daily, ac_day_utc := utc_day now\<rparr>) d
               else Inr d) = Inr d1"
      and 2: "update_account (oi_account_id intent) (\<lambda>b. b\<lparr>ac_reserved_quote :=
                 ac_reserved_quote a + quote_hold intent instrument fees\<rparr>) d1 = Inr d2"
      and 3: "insert_order_once ?row d2 = Inr d3"
      and 4: "first_where (\<lambda>r. od_intent_id r = oi_intent_id intent) (orders d3) \<noteq> None"
      and 5: "v = plain ?row" "d' = add_event tenant (oi_intent_id intent) k f t d3"
      using assms a n
      by (auto simp: reserve_tx_def Let_def bind_eq_Inr raise_if_eq_Inr new_order_def split: option.splits)
    have od: "orders d2 = orders d"
      using 1 2 by (auto simp: update_account_eq_Inr split: if_splits)
    have nw: "\<forall>r \<in> set (orders d). od_intent_id r \<noteq> oi_intent_id intent"
      using None by (simp add: first_where_None)
    have "orders d3 = orders d @ [?row]"
      using 3 4 nw by (auto simp: insert_order_once_eq_Inr insert_once_def od first_where_None split: if_splits)
    then have od': "orders d' = orders d @ [?row]" using 5 by (simp add: add_event_def)
    have "books d3 = books d2" "accounts d3 = accounts d2"
      using 3 by (auto simp: insert_order_once_eq_Inr books_def)
    moreover have "books d2 = books d" using 1 2 by (auto split: if_splits)
    ultimately have b: "books d' = books d" and ac: "accounts d' = accounts d2"
      using 5 by (simp_all add: add_event_def books_def)
    have "order_check ?row" using 3 by (simp add: insert_order_once_eq_Inr)
    then show ?thesis
      using new[OF a n nw ad bu 5(1) od' _ b] 1 2 ac by blast
  qed
qed

lemma reserve_inv:
  assumes "oms_inv d" and "reserve_tx sha cf tenant intent instrument fees deployment market now_ns t d = Inr (v, d')"
  shows "oms_inv d'"
  using assms(2)
proof (cases rule: reserve_cases)
  case existing
  then show ?thesis using assms(1) by simp
next
  case (new a now daily)
  note acc = fetch_account_row[OF new(1)]
  define n where "n = new_order sha tenant intent instrument fees deployment now"
  have n: "od_account_id n = oi_account_id intent" "od_intent_id n = oi_intent_id intent"
    "od_reserved_quote n = quote_hold intent instrument fees" "od_filled_quantity n = 0" "od_status n = RESERVED"
    by (simp_all add: n_def new_order_def Let_def)
  have sh: "\<forall>b \<in> set (accounts d'). \<exists>c \<in> set (accounts d). ac_account_id b = ac_account_id c \<and>
      ac_reserved_quote b = ac_reserved_quote c + (if ac_account_id c = oi_account_id intent then od_reserved_quote n else 0)"
    and ids: "map ac_account_id (accounts d') = map ac_account_id (accounts d)"
  proof -
    have "c = a" if "c \<in> set (accounts d)" "ac_account_id c = oi_account_id intent" for c
      using that acc assms(1) by (auto simp: oms_inv_def keyed_def dest: unique_row[where key = ac_account_id])
    then show "\<forall>b \<in> set (accounts d'). \<exists>c \<in> set (accounts d). ac_account_id b = ac_account_id c \<and>
      ac_reserved_quote b = ac_reserved_quote c + (if ac_account_id c = oi_account_id intent then od_reserved_quote n else 0)"
      using new(10) n by (auto simp: update_account_eq_Inr set_update_where split: if_splits)
    show "map ac_account_id (accounts d') = map ac_account_id (accounts d)"
      using new(10) by (auto simp: update_account_eq_Inr update_where_def comp_def split: if_splits)
  qed
  have idset: "ac_account_id ` set (accounts d') = ac_account_id ` set (accounts d)"
    using ids by (metis set_map)
  have od: "orders d' = orders d @ [n]" using new(7) by (simp add: n_def)
  have "oi_account_id intent \<in> ac_account_id ` set (accounts d)" using acc by (metis imageI)
  then have "keyed d'"
    using assms(1) new(3) n ids idset by (auto simp: oms_inv_def keyed_def od)
  moreover have "holds_match d'"
    unfolding holds_match_def
  proof
    fix b assume "b \<in> set (accounts d')"
    with sh obtain c where "c \<in> set (accounts d)" "ac_account_id b = ac_account_id c"
      "ac_reserved_quote b = ac_reserved_quote c + (if ac_account_id c = oi_account_id intent then od_reserved_quote n else 0)"
      by blast
    with assms(1) n show "ac_reserved_quote b = holds_of (ac_account_id b) (orders d')"
      by (auto simp: oms_inv_def holds_match_def holds_of_def od)
  qed
  moreover have "order_sound n"
    using new(8) n by (auto simp: n_def[symmetric] order_sound_def order_check_def terminal_def)
  moreover have "fills_match d'"
  proof -
    have "filled_by (oi_intent_id intent) (fills d) = 0"
    proof -
      have "filter (\<lambda>f. fl_intent_id f = oi_intent_id intent) (fills d) = []"
        using assms(1) new(3) by (fastforce simp: oms_inv_def fills_match_def filter_empty_conv)
      then show ?thesis by (simp add: filled_by_def)
    qed
    then show ?thesis
      using assms(1) new(9) n by (auto simp: oms_inv_def fills_match_def od books_def)
  qed
  ultimately show ?thesis
    using assms(1) new(9) by (auto simp: oms_inv_def od intro: balanced_books)
qed

section \<open>Every database the system reaches\<close>

text \<open>
  One step of the system: a committed transaction of the order management system or of its risk
  guard, or any transaction of another component, which leaves accounts, orders, fills and ledger
  alone.
\<close>

inductive oms_step :: "hasher \<Rightarrow> oms_config \<Rightarrow> db \<Rightarrow> db \<Rightarrow> bool" for sha cf where
  step_create: "create_account_tx sha tenant aid capital quote t d = Inr (a, d') \<Longrightarrow> oms_step sha cf d d'"
| step_check: "check_tx sha tenant dep ins market now_ns t d = Inr (c, d') \<Longrightarrow> oms_step sha cf d d'"
| step_stop: "stop_tx tenant aid reasons mode dep t d = Inr (p, d') \<Longrightarrow> oms_step sha cf d d'"
| step_reserve: "reserve_tx sha cf tenant intent ins fees dep market now_ns t d = Inr (v, d') \<Longrightarrow> oms_step sha cf d d'"
| step_claim: "claim_account_tx tenant aid owner ttl token known fresh t d = Inr (k, d') \<Longrightarrow> oms_step sha cf d d'"
| step_begin: "submit_begin_tx sha cf tenant oid adapter token now_ns m t d = Inr (b, d') \<Longrightarrow> oms_step sha cf d d'"
| step_recheck: "row_read row d \<Longrightarrow> submit_recheck_tx sha tenant row token now_ns m t d = Inr (e, d') \<Longrightarrow>
    oms_step sha cf d d'"
| step_ack: "row_read row d \<Longrightarrow> submit_ack_tx sha tenant row token answer t d = Inr (u, d') \<Longrightarrow> oms_step sha cf d d'"
| step_cancel: "cancel_begin_tx sha tenant oid token t d = Inr (b, d') \<Longrightarrow> oms_step sha cf d d'"
| step_cancelled: "row_read row d \<Longrightarrow> cancel_ack_tx sha tenant row token reply t d = Inr (u, d') \<Longrightarrow> oms_step sha cf d d'"
| step_fill: "apply_fill_tx sha tenant oid args t d = Inr (f, d') \<Longrightarrow> oms_step sha cf d d'"
| step_snapshot: "snapshot_tx sha tenant s t d = Inr (r, d') \<Longrightarrow> oms_step sha cf d d'"
| step_uncertain: "uncertain_tx sha tenant oid reason expected t d = Inr (r, d') \<Longrightarrow> oms_step sha cf d d'"
| step_reconciled: "mark_reconciled_tx tenant aid now_ns t d = Inr (a, d') \<Longrightarrow> oms_step sha cf d d'"
| step_mode: "set_mode_tx tenant aid mode reason dep t d = Inr (a, d') \<Longrightarrow> oms_step sha cf d d'"
| step_other: "accounts d' = accounts d \<Longrightarrow> orders d' = orders d \<Longrightarrow> books d' = books d \<Longrightarrow> oms_step sha cf d d'"

text \<open>Most transactions are moves of one order; the others write books, rows or modes.\<close>

lemma oms_step_kinds:
  assumes "oms_step sha cf d d'" and "keyed d" and "list_all order_sound (orders d)"
  obtains (move) "oms_move d d'"
  | (create) tenant aid capital quote t a where "create_account_tx sha tenant aid capital quote t d = Inr (a, d')"
  | (reserve) tenant intent ins fees dep market now_ns t v where
      "reserve_tx sha cf tenant intent ins fees dep market now_ns t d = Inr (v, d')"
  | (fill) tenant oid args t f where "apply_fill_tx sha tenant oid args t d = Inr (f, d')"
  | (mode) tenant aid m reason dep t a where "set_mode_tx tenant aid m reason dep t d = Inr (a, d')"
  using assms(1)
proof cases
  case step_check then show ?thesis using check_move[OF assms(2)] move by blast
next
  case step_stop then show ?thesis using stop_move[OF assms(2)] move by blast
next
  case step_claim then show ?thesis using claim_account_move move by blast
next
  case step_begin then show ?thesis using submit_begin_move[OF assms(2)] move by blast
next
  case step_recheck then show ?thesis using submit_recheck_move[OF assms(2)] move by blast
next
  case step_ack then show ?thesis using submit_ack_move[OF assms(2)] move by blast
next
  case step_cancel then show ?thesis using cancel_begin_move[OF assms(2)] move by blast
next
  case step_cancelled then show ?thesis using cancel_ack_move[OF assms(2)] move by blast
next
  case step_snapshot then show ?thesis using snapshot_move[OF assms(2,3)] move by blast
next
  case step_uncertain then show ?thesis using uncertain_move[OF assms(2)] move by blast
next
  case step_reconciled then show ?thesis using mark_reconciled_move move by blast
next
  case step_other then show ?thesis using oms_move_idle move by blast
qed (use create reserve fill mode in blast)+

lemma oms_invD: "oms_inv d \<Longrightarrow> keyed d" "oms_inv d \<Longrightarrow> list_all order_sound (orders d)"
  "oms_inv d \<Longrightarrow> holds_match d" "oms_inv d \<Longrightarrow> fills_match d" "oms_inv d \<Longrightarrow> ledger_balanced d"
  by (simp_all add: oms_inv_def)

lemma oms_inv_step:
  assumes "oms_step sha cf d d'" and "oms_inv d"
  shows "oms_inv d'"
  using assms(1) oms_invD(1,2)[OF assms(2)]
  by (rule oms_step_kinds)
    (use assms(2) in \<open>blast intro: oms_inv_move create_account_inv reserve_inv apply_fill_inv set_mode_inv\<close>)+

lemma oms_inv_empty: "oms_inv empty_db"
  by (simp add: oms_inv_def keyed_def holds_match_def fills_match_def ledger_balanced_def empty_db_def)

interpretation oms: transition_system "oms_step sha cf" oms_inv empty_db for sha cf
  by unfold_locales (auto intro: oms_inv_step oms_inv_empty)

section \<open>Orders and modes over time\<close>

definition order_advances :: "order_row \<Rightarrow> order_row \<Rightarrow> bool" where
  "order_advances r s \<longleftrightarrow> frozen r s \<and> allowed (od_status r) (od_status s) \<and>
     od_filled_quantity r \<le> od_filled_quantity s"

lemma order_advances_refl [simp]: "order_advances r r"
  by (simp add: order_advances_def allowed_def)

lemma moved_advances:
  assumes "moved r s x d d'" and "order_advances r s" and "keyed d" and "q \<in> set (orders d)"
  shows "\<exists>p \<in> set (orders d'). order_advances q p"
proof (cases "od_intent_id q = od_intent_id r")
  case True
  then have "q = r" using assms(1,3,4) by (auto simp: moved_def keyed_def dest: unique_row[where key = od_intent_id])
  then show ?thesis using moved_row[OF assms(1)] assms(2) by blast
next
  case False
  then have "q \<in> set (orders d')" using assms(1,4) by (auto simp: moved_def set_update_where)
  then show ?thesis by (intro bexI[of _ q]) simp_all
qed

lemma moved_old: "moved r s x d d' \<Longrightarrow> p \<in> set (orders d') \<Longrightarrow> od_intent_id p \<in> od_intent_id ` set (orders d)"
  by (auto simp: moved_def frozen_def set_update_where)

lemma oms_move_advances:
  assumes "oms_move d d'" and "keyed d" and "q \<in> set (orders d)"
  shows "\<exists>p \<in> set (orders d'). order_advances q p"
proof (cases "orders d' = orders d")
  case True
  with assms(3) show ?thesis by (intro bexI[of _ q]) simp_all
next
  case False
  then obtain r s where m: "moved r s (od_reserved_quote s - od_reserved_quote r) d d'" and f: "forward r s"
    using assms(1) by (auto simp: oms_move_def)
  then have "order_advances r s" by (simp add: order_advances_def forward_def moved_def)
  with m show ?thesis using assms(2,3) by (rule moved_advances)
qed

lemma oms_move_old:
  "oms_move d d' \<Longrightarrow> p \<in> set (orders d') \<Longrightarrow> od_intent_id p \<in> od_intent_id ` set (orders d)"
  by (auto simp: oms_move_def dest: moved_old)

lemma create_account_orders:
  assumes "create_account_tx sha tenant aid capital quote t d = Inr (v, d')"
  shows "orders d' = orders d"
proof -
  obtain a d1 where 1: "insert_account_once a d = Inr d1"
    and 2: "d' = d1 \<or> (\<exists>entries k f d2. journal sha aid ''funding'' aid entries t d1 = Inr d2 \<and>
              d' = add_event tenant aid k f t d2)"
    by (rule create_account_effect[OF assms])
  have "orders d1 = orders d" using 1 by (simp add: insert_account_once_eq_Inr)
  with 2 show ?thesis by (auto simp: add_event_def dest!: journal_frame)
qed

lemma set_mode_orders: "set_mode_tx tenant aid m reason dep t d = Inr (a, d') \<Longrightarrow> orders d' = orders d"
  by (auto simp: set_mode_tx_def bind_eq_Inr update_account_eq_Inr add_event_def)

lemma apply_fill_advances:
  assumes "apply_fill_tx sha tenant oid args t d = Inr (f, d')" and "oms_inv d" and "fa_quantity args \<ge> 0"
    and "q \<in> set (orders d)"
  shows "\<exists>p \<in> set (orders d'). order_advances q p"
  using assms(1)
proof (cases rule: apply_fill_cases)
  case (replay row settled z)
  from settlement_move[OF oms_invD(1)[OF assms(2)] replay(1,2)] show ?thesis
    using oms_invD(1)[OF assms(2)] assms(4) by (rule oms_move_advances)
next
  case (fresh row a settled gross digest)
  obtain s d2 where m: "moved row s (od_reserved_quote s - od_reserved_quote row) d d'"
    and al: "allowed (od_status row) (od_status s)"
    and q: "od_filled_quantity s = od_filled_quantity row + fa_quantity args"
    by (rule book_fill_effect[OF oms_invD(1)[OF assms(2)] fresh(1-3,7)])
  have "order_advances row s"
    using m al q assms(3) by (simp add: order_advances_def moved_def)
  with m show ?thesis using oms_invD(1)[OF assms(2)] assms(4) by (rule moved_advances)
qed

lemma apply_fill_quantity: "apply_fill_tx sha tenant oid args t d = Inr (f, d') \<Longrightarrow> 0 < fa_quantity args"
  by (auto simp: apply_fill_tx_def fill_args_check_def amount_check_def bind_eq_Inr raise_if_eq_Inr)

lemma apply_fill_old:
  assumes "apply_fill_tx sha tenant oid args t d = Inr (f, d')" and "oms_inv d" and "p \<in> set (orders d')"
  shows "od_intent_id p \<in> od_intent_id ` set (orders d)"
  using assms(1)
proof (cases rule: apply_fill_cases)
  case (replay row settled z)
  from settlement_move[OF oms_invD(1)[OF assms(2)] replay(1,2)] assms(3) show ?thesis by (rule oms_move_old)
next
  case (fresh row a settled gross digest)
  obtain s d2 where m: "moved row s (od_reserved_quote s - od_reserved_quote row) d d'"
    by (rule book_fill_effect[OF oms_invD(1)[OF assms(2)] fresh(1-3,7)])
  then show ?thesis using assms(3) by (rule moved_old)
qed

lemma oms_step_advances:
  assumes "oms_step sha cf d d'" and "oms_inv d" and "q \<in> set (orders d)"
  shows "\<exists>p \<in> set (orders d'). order_advances q p"
  using assms(1) oms_invD(1,2)[OF assms(2)]
proof (cases rule: oms_step_kinds)
  case move
  then show ?thesis using oms_invD(1)[OF assms(2)] assms(3) by (rule oms_move_advances)
next
  case create
  then show ?thesis using create_account_orders assms(3) by (intro bexI[of _ q]) simp_all
next
  case reserve
  then have "set (orders d) \<subseteq> set (orders d')" by (cases rule: reserve_cases) auto
  then show ?thesis using assms(3) by (intro bexI[of _ q]) auto
next
  case fill
  then show ?thesis using apply_fill_advances[OF fill assms(2) _ assms(3)] apply_fill_quantity by force
next
  case mode
  then show ?thesis using set_mode_orders assms(3) by (intro bexI[of _ q]) simp_all
qed

lemma oms_step_new:
  assumes "oms_step sha cf d d'" and "oms_inv d" and "p \<in> set (orders d')"
    and "od_intent_id p \<notin> od_intent_id ` set (orders d)"
  shows "od_status p = RESERVED"
  using assms(1) oms_invD(1,2)[OF assms(2)]
proof (cases rule: oms_step_kinds)
  case reserve
  then show ?thesis using assms(3,4) by (cases rule: reserve_cases) (auto simp: new_order_def Let_def)
next
  case move
  then show ?thesis using oms_move_old assms(3,4) by blast
next
  case create
  then show ?thesis using create_account_orders assms(3,4) by fastforce
next
  case fill
  then show ?thesis using apply_fill_old[OF fill assms(2)] assms(3,4) by blast
next
  case mode
  then show ?thesis using set_mode_orders assms(3,4) by fastforce
qed

section \<open>The halted mode\<close>

lemma moved_kept:
  assumes "accounts_shift aid x d d'" and "keyed d" and "a \<in> set (accounts d)" and "b \<in> set (accounts d')"
    and "ac_account_id b = ac_account_id a"
  shows "account_kept a b"
proof -
  obtain i where i: "i < length (accounts d')" "b = accounts d' ! i" using assms(4) by (auto simp: in_set_conv_nth)
  then have k: "account_kept (accounts d ! i) b" "accounts d ! i \<in> set (accounts d)"
    using assms(1) by (auto simp: accounts_shift_def list_all2_conv_all_nth)
  then have "ac_account_id (accounts d ! i) = ac_account_id a" using assms(5) by (simp add: account_kept_def)
  then have "accounts d ! i = a"
    using k(2) assms(2,3) by (auto simp: keyed_def dest: unique_row[where key = ac_account_id])
  with k show ?thesis by simp
qed

lemma oms_move_kept:
  "oms_move d d' \<Longrightarrow> keyed d \<Longrightarrow> a \<in> set (accounts d) \<Longrightarrow> b \<in> set (accounts d') \<Longrightarrow>
   ac_account_id b = ac_account_id a \<Longrightarrow> account_kept a b"
  by (auto simp: oms_move_def moved_def intro: moved_kept)

lemma create_account_kept:
  assumes "create_account_tx sha tenant aid capital quote t d = Inr (v, d')" and "keyed d"
    and "a \<in> set (accounts d)" and "b \<in> set (accounts d')" and "ac_account_id b = ac_account_id a"
  shows "b = a"
proof -
  obtain n d1 where 1: "insert_account_once n d = Inr d1"
    and 2: "d' = d1 \<or> (\<exists>entries k f d2. journal sha aid ''funding'' aid entries t d1 = Inr d2 \<and>
              d' = add_event tenant aid k f t d2)"
    by (rule create_account_effect[OF assms(1)])
  have "accounts d' = insert_once account_clash n (accounts d)"
    using 1 2 by (auto simp: add_event_def insert_account_once_eq_Inr dest!: journal_frame)
  then have "a \<in> set (accounts d')" "distinct (map ac_account_id (accounts d'))"
    using assms(2,3) account_table.insert_once_keeps account_table.insert_once_distinct
    by (auto simp: keyed_def)
  with assms(4,5) show ?thesis by (auto dest: unique_row[where key = ac_account_id])
qed

lemma reserve_kept:
  assumes "reserve_tx sha cf tenant intent ins fees dep market now_ns t d = Inr (v, d')" and "keyed d"
    and "a \<in> set (accounts d)" and "b \<in> set (accounts d')" and "ac_account_id b = ac_account_id a"
  shows "ac_mode b = ac_mode a"
proof -
  have "map (\<lambda>a. (ac_account_id a, ac_mode a)) (accounts d') = map (\<lambda>a. (ac_account_id a, ac_mode a)) (accounts d)"
    using assms(1)
  proof (cases rule: reserve_cases)
    case (new a' now daily)
    from new(10) show ?thesis
      by (auto simp: update_account_eq_Inr update_where_def comp_def split: if_splits)
  qed auto
  then have "(ac_account_id b, ac_mode b) \<in> (\<lambda>a. (ac_account_id a, ac_mode a)) ` set (accounts d)"
    using assms(4) by (metis (no_types, lifting) image_eqI list.set_map)
  then obtain c where c: "c \<in> set (accounts d)" "ac_account_id b = ac_account_id c" "ac_mode b = ac_mode c"
    by auto
  then have "c = a" using assms(2,3,5) by (auto simp: keyed_def dest: unique_row[where key = ac_account_id])
  with c show ?thesis by simp
qed

lemma apply_fill_kept:
  assumes "apply_fill_tx sha tenant oid args t d = Inr (f, d')" and "oms_inv d"
    and "a \<in> set (accounts d)" and "b \<in> set (accounts d')" and "ac_account_id b = ac_account_id a"
  shows "account_kept a b"
  using assms(1)
proof (cases rule: apply_fill_cases)
  case (replay row settled z)
  from settlement_move[OF oms_invD(1)[OF assms(2)] replay(1,2)] show ?thesis
    using oms_invD(1)[OF assms(2)] assms(3-5) by (rule oms_move_kept)
next
  case (fresh row a' settled gross digest)
  obtain s d2 where m: "moved row s (od_reserved_quote s - od_reserved_quote row) d d'"
    by (rule book_fill_effect[OF oms_invD(1)[OF assms(2)] fresh(1-3,7)])
  then show ?thesis using oms_invD(1)[OF assms(2)] assms(3-5) by (auto simp: moved_def intro: moved_kept)
qed

lemma halted_step:
  assumes "oms_step sha cf d d'" and "oms_inv d" and "a \<in> set (accounts d)" and "ac_mode a = HALTED"
    and "b \<in> set (accounts d')" and "ac_account_id b = ac_account_id a"
  shows "ac_mode b = HALTED \<or>
    (\<exists>tenant aid m reason dep t x. set_mode_tx tenant aid m reason dep t d = Inr (x, d'))"
  using assms(1) oms_invD(1,2)[OF assms(2)]
proof (cases rule: oms_step_kinds)
  case move
  then show ?thesis using oms_move_kept[OF move oms_invD(1)[OF assms(2)] assms(3,5,6)] assms(4)
    by (simp add: account_kept_def)
next
  case create
  then show ?thesis using create_account_kept[OF create oms_invD(1)[OF assms(2)] assms(3,5,6)] assms(4) by simp
next
  case reserve
  then show ?thesis using reserve_kept[OF reserve oms_invD(1)[OF assms(2)] assms(3,5,6)] assms(4) by simp
next
  case fill
  then show ?thesis using apply_fill_kept[OF fill assms(2,3,5,6)] assms(4) by (simp add: account_kept_def)
qed blast

section \<open>Each order is sent at most once\<close>

text \<open>
  Workers over one database: \<open>ready\<close> are the rows between the first and the second transaction of a
  submission, \<open>sent\<close> the intents whose second transaction let the venue call happen, latest first.
  A worker may crash at any point.
\<close>

record world =
  wd_db :: db
  wd_ready :: "order_row list"
  wd_sent :: "string list"

inductive sender_step :: "hasher \<Rightarrow> oms_config \<Rightarrow> world \<Rightarrow> world \<Rightarrow> bool" for sha cf where
  plain_step: "oms_step sha cf (wd_db w) d' \<Longrightarrow> sender_step sha cf w (w\<lparr>wd_db := d'\<rparr>)"
| begin_step: "submit_begin_tx sha cf tenant oid adapter token now_ns m t (wd_db w) = Inr (BeginSend row, d') \<Longrightarrow>
    sender_step sha cf w (w\<lparr>wd_db := d', wd_ready := row # wd_ready w\<rparr>)"
| send_step: "row \<in> set (wd_ready w) \<Longrightarrow>
    submit_recheck_tx sha tenant row token now_ns m t (wd_db w) = Inr (CheckProceed, d') \<Longrightarrow>
    sender_step sha cf w (w\<lparr>wd_db := d', wd_ready := remove1 row (wd_ready w),
      wd_sent := od_intent_id row # wd_sent w\<rparr>)"
| abort_step: "row \<in> set (wd_ready w) \<Longrightarrow>
    submit_recheck_tx sha tenant row token now_ns m t (wd_db w) = Inr (CheckDone v, d') \<Longrightarrow>
    sender_step sha cf w (w\<lparr>wd_db := d', wd_ready := remove1 row (wd_ready w)\<rparr>)"
| crash_step: "sender_step sha cf w (w\<lparr>wd_ready := remove1 row (wd_ready w)\<rparr>)"

definition left_reserved :: "db \<Rightarrow> string \<Rightarrow> bool" where
  "left_reserved d oid \<longleftrightarrow> (\<exists>r \<in> set (orders d). od_intent_id r = oid \<and> od_status r \<noteq> RESERVED)"

definition sender_inv :: "world \<Rightarrow> bool" where
  "sender_inv w \<longleftrightarrow> oms_inv (wd_db w) \<and> distinct (map od_intent_id (wd_ready w) @ wd_sent w) \<and>
     list_all (\<lambda>r. row_read r (wd_db w)) (wd_ready w) \<and>
     list_all (left_reserved (wd_db w)) (map od_intent_id (wd_ready w) @ wd_sent w)"

lemma order_advances_left: "order_advances r s \<Longrightarrow> od_status r \<noteq> RESERVED \<Longrightarrow> od_status s \<noteq> RESERVED"
  by (auto simp: order_advances_def allowed_def terminal_def split: if_splits)

lemma left_reserved_step:
  assumes "oms_step sha cf d d'" and "oms_inv d" and "left_reserved d oid"
  shows "left_reserved d' oid"
proof -
  obtain r where r: "r \<in> set (orders d)" "od_intent_id r = oid" "od_status r \<noteq> RESERVED"
    using assms(3) by (auto simp: left_reserved_def)
  obtain p where "p \<in> set (orders d')" "order_advances r p" using oms_step_advances[OF assms(1,2) r(1)] by blast
  with r order_advances_left show ?thesis by (auto simp: left_reserved_def order_advances_def frozen_def)
qed

lemma row_read_step: "oms_step sha cf d d' \<Longrightarrow> oms_inv d \<Longrightarrow> row_read r d \<Longrightarrow> row_read r d'"
  using oms_step_advances frozen_trans unfolding row_read_def order_advances_def by meson

lemma begin_effect:
  assumes "keyed d" and "submit_begin_tx sha cf tenant oid adapter token now_ns m t d = Inr (BeginSend row, d')"
  shows "row \<in> set (orders d) \<and> od_status row = RESERVED \<and> left_reserved d' (od_intent_id row) \<and> row_read row d'"
proof -
  obtain now d1 where r: "fetch_order sha tenant oid d = Inr row" and st: "od_status row = RESERVED"
    and u: "update_order oid (\<lambda>r. if od_status r = RESERVED
                   then r\<lparr>od_status := SUBMITTING, od_updated_ns := now\<rparr> else r) d = Inr d1"
    and d': "orders d' = orders d1"
    using assms(2) by (auto simp: submit_begin_tx_def Let_def bind_eq_Inr add_event_def split: if_splits)
  note row = fetch_order_row[OF r]
  have "moved row (row\<lparr>od_status := SUBMITTING, od_updated_ns := now\<rparr>) 0 d d1"
    using cas_update[OF assms(1) _ st] u row by blast
  then have "row\<lparr>od_status := SUBMITTING, od_updated_ns := now\<rparr> \<in> set (orders d')"
    using d' by (simp add: moved_row)
  moreover have "frozen row (row\<lparr>od_status := SUBMITTING, od_updated_ns := now\<rparr>)"
    by (simp add: frozen_def)
  ultimately have "row_read row d'" by (auto simp: row_read_def)
  moreover have "left_reserved d' (od_intent_id row)"
    unfolding left_reserved_def
    by (rule bexI[OF _ \<open>row\<lparr>od_status := SUBMITTING, od_updated_ns := now\<rparr> \<in> set (orders d')\<close>]) simp
  ultimately show ?thesis using row st by simp
qed

lemma left_reserved_not_reserved:
  "keyed d \<Longrightarrow> left_reserved d (od_intent_id r) \<Longrightarrow> r \<in> set (orders d) \<Longrightarrow> od_status r \<noteq> RESERVED"
  by (auto simp: keyed_def left_reserved_def dest: unique_row[where key = od_intent_id])

lemma sender_inv_db:
  assumes "sender_inv w" and "oms_step sha cf (wd_db w) d'"
  shows "sender_inv (w\<lparr>wd_db := d'\<rparr>)"
  using assms oms_inv_step[OF assms(2)] left_reserved_step[OF assms(2)] row_read_step[OF assms(2)]
  by (auto simp: sender_inv_def list_all_iff)

lemma remove1_perm: "r \<in> set xs \<Longrightarrow> mset (map f (remove1 r xs) @ f r # ys) = mset (map f xs @ ys)"
  by (induction xs) auto

lemma sender_inv_drop:
  assumes "sender_inv w"
  shows "sender_inv (w\<lparr>wd_ready := remove1 r (wd_ready w)\<rparr>)"
proof (cases "r \<in> set (wd_ready w)")
  case True
  note perm = remove1_perm[OF True, of od_intent_id "wd_sent w"]
  show ?thesis
    using assms mset_eq_imp_distinct_iff[OF perm] set_remove1_subset[of r "wd_ready w"]
    by (auto simp: sender_inv_def list_all_iff)
next
  case False
  with assms show ?thesis by (simp add: remove1_idem)
qed

lemma sender_inv_step:
  assumes "sender_step sha cf w w'" and "sender_inv w"
  shows "sender_inv w'"
  using assms(1)
proof cases
  case (plain_step d')
  then show ?thesis using sender_inv_db[OF assms(2)] by simp
next
  case (begin_step tenant oid adapter token now_ns m t row d')
  have i: "oms_inv (wd_db w)" using assms(2) by (simp add: sender_inv_def)
  note e = begin_effect[OF oms_invD(1)[OF i] begin_step(2)]
  have "od_intent_id row \<notin> set (map od_intent_id (wd_ready w) @ wd_sent w)"
  proof
    assume "od_intent_id row \<in> set (map od_intent_id (wd_ready w) @ wd_sent w)"
    then have "left_reserved (wd_db w) (od_intent_id row)"
      using assms(2) by (auto simp: sender_inv_def list_all_iff)
    with left_reserved_not_reserved[OF oms_invD(1)[OF i]] e show False by blast
  qed
  moreover have "sender_inv (w\<lparr>wd_db := d'\<rparr>)"
    using sender_inv_db[OF assms(2) step_begin[OF begin_step(2)]] by simp
  ultimately show ?thesis using e begin_step(1) by (auto simp: sender_inv_def)
next
  case (send_step row tenant token now_ns m t d')
  have rr: "row_read row (wd_db w)" using assms(2) send_step(2) by (auto simp: sender_inv_def list_all_iff)
  have s: "sender_inv (w\<lparr>wd_db := d'\<rparr>)"
    by (rule sender_inv_db[OF assms(2) step_recheck[OF rr send_step(3)]])
  note perm = remove1_perm[OF send_step(2), of od_intent_id "wd_sent w"]
  show ?thesis
    using s send_step(1) mset_eq_imp_distinct_iff[OF perm] mset_eq_setD[OF perm]
    by (auto simp: sender_inv_def list_all_iff dest: notin_set_remove1)
next
  case (abort_step row tenant token now_ns m t v d')
  have rr: "row_read row (wd_db w)" using assms(2) abort_step(2) by (auto simp: sender_inv_def list_all_iff)
  have s: "sender_inv (w\<lparr>wd_db := d'\<rparr>)"
    by (rule sender_inv_db[OF assms(2) step_recheck[OF rr abort_step(3)]])
  from sender_inv_drop[OF this, of row] abort_step(1) show ?thesis by simp
next
  case (crash_step row)
  then show ?thesis using sender_inv_drop[OF assms(2)] by simp
qed

definition start_world :: world where
  "start_world = \<lparr>wd_db = empty_db, wd_ready = [], wd_sent = []\<rparr>"

lemma sender_inv_start: "sender_inv start_world"
  by (simp add: sender_inv_def start_world_def oms_inv_empty)

interpretation senders: transition_system "sender_step sha cf" sender_inv start_world for sha cf
  by unfold_locales (auto intro: sender_inv_step sender_inv_start)

end
