(* ===== verification/Fixtures.thy ===== *)
theory Fixtures
  imports Schema
begin

text \<open>
  A small concrete world for the worked examples of the other theories: the identity as
  the hash function, a spot instrument, a fee schedule, a paper deployment of 1000 USDT and a market.
\<close>

definition text_sha :: hasher where
  "text_sha s = s"

lemma content_hash_pair [simp]:
  "content_hash text_sha (JArr [JStr x, JInt i]) = content_hash text_sha (JArr [JStr x, JInt j]) \<longleftrightarrow>
     int_text i = int_text j"
  by (simp add: content_hash_def text_sha_def)

definition hash_of :: "int \<Rightarrow> string" where
  "hash_of n = padded 64 n"

definition btc :: instrument_spec where
  "btc = \<lparr>is_venue = ''sim'', is_instrument = ''BTCUSDT'', is_base_asset = ''BTC'',
     is_quote_asset = ''USDT'', is_settlement_asset = ''USDT'', is_price_increment = 1 / 100,
     is_quantity_increment = 1 / 1000, is_minimum_quantity = 1 / 1000, is_minimum_notional = 1,
     is_contract_multiplier = 1, is_instrument_type = spot, is_trading_sessions = [''24x7''],
     is_effective_from_ns = 0, is_effective_to_ns = None, is_native_identifiers = [],
     is_source = ''fixture''\<rparr>"

definition fees0 :: fee_schedule where
  "fees0 = \<lparr>fs_venue = ''sim'', fs_account_tier = ''base'', fs_maker_rate = 0, fs_taker_rate = 1 / 1000,
     fs_fee_basis = notional, fs_fee_asset = ''USDT'', fs_funding_rules = [], fs_fee_rules = [],
     fs_effective_from_ns = 0, fs_effective_to_ns = None, fs_source = ''fixture'',
     fs_source_hash = hash_of 1\<rparr>"

definition budget0 :: risk_budget where
  "budget0 = \<lparr>rb_capital = 1000, rb_currency = ''USDT'', rb_maximum_position_fraction = 30 / 100,
     rb_maximum_order_fraction = 2 / 100, rb_planned_loss_fraction = 1 / 100,
     rb_maximum_drawdown_fraction = 3 / 100, rb_maximum_daily_loss_fraction = 5 / 1000,
     rb_maximum_leverage = 1\<rparr>"

definition btc_hash :: string where
  "btc_hash = content_hash text_sha (instrument_json btc)"

definition fees_hash :: string where
  "fees_hash = content_hash text_sha (fees_json fees0)"

definition canary :: "deployment_mode \<Rightarrow> deployment_manifest" where
  "canary mode = \<lparr>dm_deployment_id = ''dep'', dm_strategy_hash = hash_of 2, dm_provider = ''fixture'',
     dm_model_id = ''model'', dm_prompt_hash = hash_of 3, dm_tools_hash = hash_of 4,
     dm_risk_policy_hash = hash_of 5, dm_fee_schedule_hashes = [fees_hash],
     dm_validation_report_hash = hash_of 6, dm_venue = ''sim'', dm_account_id = ''acc'', dm_mode = mode,
     dm_risk_budget = budget0, dm_valid_from_ns = 0, dm_valid_until_ns = 10 ^ 15, dm_signature = ''sig''\<rparr>"

definition market_at :: "int \<Rightarrow> market_snapshot" where
  "market_at t = \<lparr>mk_venue = ''sim'', mk_instrument = ''BTCUSDT'', mk_bid = 100, mk_ask = 101,
     mk_asof_ns = t, mk_book_valid = True, mk_instrument_spec_hash = btc_hash,
     mk_fee_schedule_hash = fees_hash\<rparr>"

definition intent_of :: "string \<Rightarrow> side \<Rightarrow> rat \<Rightarrow> rat \<Rightarrow> order_intent" where
  "intent_of name sd quantity price = \<lparr>oi_intent_id = name, oi_account_id = ''acc'',
     oi_deployment_id = ''dep'', oi_signal_id = name, oi_leg_no = 0, oi_venue = ''sim'',
     oi_instrument = ''BTCUSDT'', oi_side = sd, oi_quantity = quantity, oi_limit_price = price,
     oi_time_in_force = IOC, oi_strategy_hash = hash_of 2, oi_policy_hash = hash_of 5,
     oi_fee_schedule_hash = fees_hash, oi_instrument_spec_hash = btc_hash,
     oi_risk_reservation_id = ''r-'' @ name, oi_created_at_ns = 0, oi_valid_until_ns = 10 ^ 12,
     oi_reduce_only = False\<rparr>"

text \<open>The database a transaction leaves.\<close>

definition committed :: "('a \<times> db) result \<Rightarrow> db" where
  "committed r = (case r of Inl e \<Rightarrow> empty_db | Inr (x, d) \<Rightarrow> d)"

definition commits :: "('a \<times> db) result \<Rightarrow> bool" where
  "commits r = (case r of Inl e \<Rightarrow> False | Inr (x, d) \<Rightarrow> True)"

lemma commits_committed: "commits r \<Longrightarrow> \<exists>x. r = Inr (x, committed r)"
  by (auto simp: commits_def committed_def split: sum.splits)

end
