(* ===== verification/OMS_Props.thy ===== *)
theory OMS_Props
  imports OMS_Inv Fixtures
begin

text \<open>
  What the order management system promises, over every interleaving of its transactions: the
  statements of the invariants of \<open>OMS_Inv\<close> on reachable databases, and the effects of single
  operations, each with a worked example on the small world of \<open>Fixtures\<close>.
\<close>

section \<open>A worked history\<close>

definition plain_config :: oms_config where
  "plain_config = \<lparr>cf_funded_gate = None, cf_daily_entry_fraction = 1\<rparr>"

definition opened :: "(account_row \<times> db) result" where
  "opened = create_account_tx text_sha ''t'' ''acc'' 1000 ''USDT'' 0 empty_db"

lemmas open_simps = create_account_tx_def text_check_def is_space_def amount_check_def
  insert_account_once_def insert_once_def account_money_def account_check_def fits_numeric_def
  fetch_account_def first_where_def exists_where_def journal_def dict_sum_def insert_row_def
  journal_rows_def ledger_entry_clash_def ledger_transaction_clash_def empty_db_def raise_if_def

lemma opened_commits: "commits opened"
  by (simp add: opened_def open_simps commits_def Let_def)

lemma opened_step: "oms_step text_sha plain_config empty_db (committed opened)"
  using commits_committed[OF opened_commits] unfolding opened_def by (blast intro: step_create)

lemma opened_reachable: "(oms_step text_sha plain_config)\<^sup>*\<^sup>* empty_db (committed opened)"
  using opened_step by (rule r_into_rtranclp)

section \<open>Reachable databases\<close>

text \<open>
  C1: in every database reachable from the empty one by the transactions of the order management
  system and the risk guard, in any order and from any callers, the cash an account holds reserved is
  the sum of the holds of its orders: no transaction frees or reserves money on one side only.
\<close>

theorem account_holds_are_order_holds:
  assumes "(oms_step sha cf)\<^sup>*\<^sup>* empty_db d" and "a \<in> set (accounts d)"
  shows "ac_reserved_quote a = holds_of (ac_account_id a) (orders d)"
  using oms.inv_reachable[OF assms(1)] assms(2) by (simp add: oms_inv_def holds_match_def)

theorem account_holds_are_order_holds_witness:
  "list_all (\<lambda>a. ac_reserved_quote a = holds_of (ac_account_id a) (orders (committed opened)))
     (accounts (committed opened))"
  using account_holds_are_order_holds[OF opened_reachable] by (simp add: list_all_iff)

text \<open>
  C2: in every reachable database the filled quantity of an order is the sum of its fills, never
  negative and never above the ordered quantity, and every fill belongs to an order.
\<close>

theorem fills_explain_orders:
  assumes "(oms_step sha cf)\<^sup>*\<^sup>* empty_db d"
  shows "(\<forall>r \<in> set (orders d). od_filled_quantity r = filled_by (od_intent_id r) (fills d) \<and>
            0 \<le> od_filled_quantity r \<and> od_filled_quantity r \<le> od_quantity r) \<and>
         (\<forall>f \<in> set (fills d). fl_intent_id f \<in> od_intent_id ` set (orders d))"
  using oms.inv_reachable[OF assms]
  by (auto simp: oms_inv_def fills_match_def order_sound_def list_all_iff)

theorem fills_explain_orders_witness:
  "list_all (\<lambda>f. fl_intent_id f \<in> od_intent_id ` set (orders (committed opened))) (fills (committed opened))"
  using fills_explain_orders[OF opened_reachable] by (simp add: list_all_iff)

text \<open>
  C3: the ledger of every reachable database is double entry: within each journal transaction the
  amounts of each asset sum to zero.
\<close>

theorem ledger_is_double_entry:
  assumes "(oms_step sha cf)\<^sup>*\<^sup>* empty_db d"
  shows "entry_total transaction_id asset (ledger_entries d) = 0"
  using oms.inv_reachable[OF assms] by (simp add: oms_inv_def ledger_balanced_iff)

theorem ledger_is_double_entry_witness:
  "\<forall>transaction_id asset. entry_total transaction_id asset (ledger_entries (committed opened)) = 0"
  using ledger_is_double_entry[OF opened_reachable] by blast

text \<open>
  C4: with any number of concurrent senders, of crashes between the two submission transactions and
  of interleaved transactions, the venue is asked to place an order at most once.
\<close>

theorem sent_at_most_once:
  assumes "(sender_step sha cf)\<^sup>*\<^sup>* start_world w"
  shows "distinct (wd_sent w)"
  using senders.inv_reachable[OF assms] by (simp add: sender_inv_def)

theorem sent_at_most_once_witness:
  "distinct (wd_sent (start_world\<lparr>wd_db := committed opened\<rparr>))"
proof -
  have "oms_step text_sha plain_config (wd_db start_world) (committed opened)"
    using opened_step by (simp add: start_world_def)
  then have "sender_step text_sha plain_config start_world (start_world\<lparr>wd_db := committed opened\<rparr>)"
    by (rule plain_step)
  then show ?thesis using sent_at_most_once by blast
qed

definition life_advances :: "order_row \<Rightarrow> order_row \<Rightarrow> bool" where
  "life_advances r s \<longleftrightarrow> frozen r s \<and> od_filled_quantity r \<le> od_filled_quantity s \<and>
     (od_status r \<noteq> RESERVED \<longrightarrow> od_status s \<noteq> RESERVED) \<and>
     (terminal (od_status r) \<longrightarrow> od_status s = od_status r \<or> od_status s = FILLED)"

lemma advances_life: "order_advances r s \<Longrightarrow> life_advances r s"
  by (auto simp: order_advances_def life_advances_def allowed_def terminal_def split: if_splits)

lemma terminal_FILLED: "terminal FILLED"
  by (simp add: terminal_def)

lemma life_advances_trans: "life_advances r s \<Longrightarrow> life_advances s u \<Longrightarrow> life_advances r u"
  unfolding life_advances_def by (metis frozen_trans order_trans terminal_FILLED)

text \<open>
  An order is never lost and never rewritten: after any sequence of transactions the row is still
  there with the same identity, content, side and quantity, its filled quantity has not decreased, it
  never becomes \<open>RESERVED\<close> again, and a terminal status stays, except for a late fill that completes
  the order.
\<close>

theorem order_life:
  assumes "(oms_step sha cf)\<^sup>*\<^sup>* d d'" and "oms_inv d" and "r \<in> set (orders d)"
  shows "\<exists>s \<in> set (orders d'). life_advances r s"
proof -
  have "\<forall>q \<in> set (orders d). \<exists>s \<in> set (orders d'). life_advances q s"
  proof (rule oms.related_steps[OF assms(1,2), where R = "\<lambda>a b. \<forall>q \<in> set (orders a). \<exists>s \<in> set (orders b). life_advances q s"])
    show "\<forall>q \<in> set (orders a). \<exists>s \<in> set (orders a). life_advances q s" for a
      using advances_life order_advances_refl by blast
    show "\<forall>q \<in> set (orders a). \<exists>s \<in> set (orders c). life_advances q s"
      if "\<forall>q \<in> set (orders a). \<exists>s \<in> set (orders b). life_advances q s"
        and "\<forall>q \<in> set (orders b). \<exists>s \<in> set (orders c). life_advances q s" for a b c
      using that life_advances_trans by meson
    show "\<forall>q \<in> set (orders a). \<exists>s \<in> set (orders b). life_advances q s"
      if "oms_inv a" and "oms_step sha cf a b" for a b
      using oms_step_advances[OF that(2,1)] advances_life by blast
  qed
  with assms(3) show ?thesis by blast
qed

text \<open>
  Only \<open>set_mode\<close>, the explicit operator decision, takes an account out of \<open>HALTED\<close>: every other
  transaction of the order management system or the risk guard leaves a halted account halted.
\<close>

theorem halted_until_set_mode:
  assumes "oms_step sha cf d d'" and "oms_inv d" and "a \<in> set (accounts d)" and "ac_mode a = HALTED"
    and "b \<in> set (accounts d')" and "ac_account_id b = ac_account_id a" and "ac_mode b \<noteq> HALTED"
  shows "\<exists>tenant aid mode reason dep t x. set_mode_tx tenant aid mode reason dep t d = Inr (x, d')"
  using halted_step[OF assms(1-6)] assms(7) by blast

end
