(* ===== verification/Repository.thy ===== *)
theory Repository
  imports Schema
begin

text \<open>
  The registry of \<open>src/qt/persistence/repository.py\<close>: immutable content-addressed artifacts, fenced
  and idempotent jobs, append-only events and health rows.  A job passes
  \<open>QUEUED, RUNNING, COMPLETED | FAILED | CANCELLED | EXHAUSTED\<close>; a worker holds it by a lease token
  until \<open>lease_until_ns\<close>.  \<open>FOR UPDATE SKIP LOCKED\<close> passes over the rows other transactions have
  locked: the predicate \<open>locked\<close>.
\<close>

section \<open>Artifacts\<close>

definition assert_job_fence :: "string \<Rightarrow> string \<times> string \<Rightarrow> int \<Rightarrow> db \<Rightarrow> unit result" where
  "assert_job_fence tenant fence t d =
     (case first_where (\<lambda>j. jb_tenant_id j = tenant \<and> jb_job_id j = fst fence) (jobs d) of
        None \<Rightarrow> Inl (ConflictError ''job_lease_lost'')
      | Some active \<Rightarrow>
          raise_if (jb_lease_token active \<noteq> Some (snd fence) \<or> jb_status active \<noteq> RUNNING \<or>
                    jb_cancel_requested active \<or> jb_lease_until_ns active \<le> t \<or> jb_deadline_ns active \<le> t)
            (ConflictError ''job_lease_lost''))"

definition check_fence :: "string \<Rightarrow> (string \<times> string) option \<Rightarrow> int \<Rightarrow> db \<Rightarrow> unit result" where
  "check_fence tenant fence t d =
     (case fence of None \<Rightarrow> Inr () | Some f \<Rightarrow> assert_job_fence tenant f t d)"

definition artifact_key :: "string \<Rightarrow> string \<Rightarrow> string \<Rightarrow> artifact_row \<Rightarrow> bool" where
  "artifact_key tenant kind identity r \<longleftrightarrow>
     ar_tenant_id r = tenant \<and> ar_kind r = kind \<and> ar_entity_id r = identity"

definition put_tx ::
  "hasher \<Rightarrow> string \<Rightarrow> string \<Rightarrow> artifact_payload \<Rightarrow> string option \<Rightarrow> (string \<times> string) option \<Rightarrow> int \<Rightarrow>
   artifact_row transaction" where
  "put_tx sha tenant kind payload entity_id fence t d =
     (let digest = content_hash sha (payload_json payload);
          identity = (case entity_id of None \<Rightarrow> digest | Some e \<Rightarrow> if e = [] then digest else e) in
      bind (check_fence tenant fence t d) (\<lambda>_.
      let d1 = d\<lparr>artifacts := insert_once artifact_clash
            \<lparr>ar_tenant_id = tenant, ar_kind = kind, ar_entity_id = identity, ar_payload = payload,
             ar_sha256 = digest, ar_created_ns = t\<rparr> (artifacts d)\<rparr> in
      bind (or_raise (first_where (artifact_key tenant kind identity) (artifacts d1)) NoResultFound) (\<lambda>row.
      bind (raise_if (ar_sha256 row \<noteq> digest) (ConflictError ''immutable_artifact_identity_conflict'')) (\<lambda>_.
      Inr (row, d1)))))"

definition get_artifact :: "hasher \<Rightarrow> string \<Rightarrow> string \<Rightarrow> string \<Rightarrow> db \<Rightarrow> artifact_row result" where
  "get_artifact sha tenant kind identity d =
     bind (or_raise (first_where (artifact_key tenant kind identity) (artifacts d))
             (KeyError ''artifact_not_found'')) (\<lambda>row.
     bind (raise_if (content_hash sha (payload_json (ar_payload row)) \<noteq> ar_sha256 row)
             (ConflictError ''artifact_integrity_failure'')) (\<lambda>_.
     Inr row))"

definition list_artifacts :: "string \<Rightarrow> string \<Rightarrow> int \<Rightarrow> db \<Rightarrow> artifact_row list result" where
  "list_artifacts tenant kind limit d =
     bind (raise_if (\<not> (1 \<le> limit \<and> limit \<le> 200)) (ValueError ''limit_out_of_range'')) (\<lambda>_.
     Inr (take (nat limit) (sort_key (\<lambda>r. (- ar_created_ns r, ar_entity_id r))
       (select_where (\<lambda>r. ar_tenant_id r = tenant \<and> ar_kind r = kind) (artifacts d)))))"

section \<open>Jobs\<close>

definition enqueue_tx ::
  "hasher \<Rightarrow> string \<Rightarrow> string \<Rightarrow> json \<Rightarrow> string \<Rightarrow> int option \<Rightarrow> (string \<times> string) option \<Rightarrow> int \<Rightarrow>
   job_row transaction" where
  "enqueue_tx sha tenant kind payload key deadline_ns fence t d =
     bind (raise_if (key = [] \<or> 200 < length key) (ValueError ''invalid_idempotency_key'')) (\<lambda>_.
     let identity = content_hash sha (JArr [JStr tenant, JStr kind, JStr key]);
         digest = content_hash sha payload in
     bind (check_fence tenant fence t d) (\<lambda>_.
     let d1 = d\<lparr>jobs := insert_once job_clash
           \<lparr>jb_job_id = identity, jb_tenant_id = tenant, jb_kind = kind, jb_idempotency_key = key,
            jb_payload = payload, jb_sha256 = digest, jb_status = QUEUED, jb_created_ns = t,
            jb_deadline_ns = (case deadline_ns of None \<Rightarrow> t + 900000000000
                              | Some n \<Rightarrow> if n = 0 then t + 900000000000 else n),
            jb_lease_until_ns = 0, jb_lease_token = None, jb_attempts = 0, jb_cancel_requested = False,
            jb_result = None\<rparr> (jobs d)\<rparr> in
     bind (or_raise (first_where (\<lambda>j. jb_job_id j = identity) (jobs d1)) NoResultFound) (\<lambda>row.
     bind (raise_if (jb_sha256 row \<noteq> digest) (ConflictError ''idempotency_key_payload_conflict'')) (\<lambda>_.
     Inr (row, d1)))))"

definition fetch_job :: "string \<Rightarrow> string \<Rightarrow> db \<Rightarrow> job_row result" where
  "fetch_job tenant job_id d =
     or_raise (first_where (\<lambda>j. jb_tenant_id j = tenant \<and> jb_job_id j = job_id) (jobs d))
       (KeyError ''job_not_found'')"

definition claimable :: "string \<Rightarrow> string option \<Rightarrow> (string \<Rightarrow> bool) \<Rightarrow> int \<Rightarrow> job_row \<Rightarrow> bool" where
  "claimable kind tenant locked now j \<longleftrightarrow>
     jb_kind j = kind \<and> jb_status j \<in> {QUEUED, RUNNING} \<and>
     (case tenant of None \<Rightarrow> True | Some x \<Rightarrow> jb_tenant_id j = x) \<and>
     jb_lease_until_ns j \<le> now \<and> \<not> locked (jb_job_id j)"

definition spent :: "int \<Rightarrow> job_row \<Rightarrow> bool" where
  "spent now j \<longleftrightarrow> jb_deadline_ns j \<le> now \<or> jb_attempts j \<ge> 3 \<or> jb_cancel_requested j"

text \<open>The rows \<open>claim\<close> retires, one after the other, each with its event.\<close>

definition retire_job :: "int \<Rightarrow> job_row \<Rightarrow> db \<Rightarrow> db" where
  "retire_job t j d =
     (let state = (if jb_cancel_requested j then JOB_CANCELLED else JOB_EXHAUSTED) in
      add_event (jb_tenant_id j) (jb_job_id j) (job_status_text state) [] t
        (d\<lparr>jobs := update_where (\<lambda>x. jb_job_id x = jb_job_id j) (\<lambda>x. x\<lparr>jb_status := state\<rparr>) (jobs d)\<rparr>))"

definition claim_tx ::
  "string \<Rightarrow> int \<Rightarrow> int option \<Rightarrow> string option \<Rightarrow> (string \<Rightarrow> bool) \<Rightarrow> string \<Rightarrow> int \<Rightarrow>
   job_row option transaction" where
  "claim_tx kind lease_seconds now_ns tenant locked fresh t d =
     (let now = (case now_ns of None \<Rightarrow> t | Some n \<Rightarrow> n);
          expired = select_where (\<lambda>j. claimable kind tenant locked now j \<and> spent now j) (jobs d);
          d1 = fold (retire_job t) expired d in
      case sort_key (\<lambda>j. (jb_created_ns j, jb_job_id j))
             (select_where (\<lambda>j. claimable kind tenant locked now j \<and> \<not> spent now j) (jobs d1)) of
        [] \<Rightarrow> Inr (None, d1)
      | row # _ \<Rightarrow>
          let taken = row\<lparr>jb_status := RUNNING, jb_lease_token := Some fresh,
                jb_lease_until_ns := now + lease_seconds * 1000000000, jb_attempts := jb_attempts row + 1\<rparr> in
          Inr (Some taken,
            add_event (jb_tenant_id row) (jb_job_id row) ''claimed'' [(''attempt'', JInt (jb_attempts taken))] t
              (d1\<lparr>jobs := update_where (\<lambda>j. jb_job_id j = jb_job_id row)
                 (\<lambda>j. j\<lparr>jb_status := RUNNING, jb_lease_token := Some fresh,
                    jb_lease_until_ns := now + lease_seconds * 1000000000, jb_attempts := jb_attempts taken\<rparr>)
                 (jobs d1)\<rparr>)))"

text \<open>What a worker holds of a claimed job.\<close>

record held_job =
  hj_job_id :: string
  hj_tenant_id :: string
  hj_lease_token :: "string option"

definition held :: "job_row \<Rightarrow> held_job" where
  "held j = \<lparr>hj_job_id = jb_job_id j, hj_tenant_id = jb_tenant_id j, hj_lease_token = jb_lease_token j\<rparr>"

definition held_row :: "held_job \<Rightarrow> job_row \<Rightarrow> bool" where
  "held_row job j \<longleftrightarrow> jb_job_id j = hj_job_id job \<and> jb_tenant_id j = hj_tenant_id job"

definition heartbeat_tx :: "held_job \<Rightarrow> int \<Rightarrow> int \<Rightarrow> bool transaction" where
  "heartbeat_tx job lease_seconds t d =
     (case first_where (held_row job) (jobs d) of
        None \<Rightarrow> Inr (False, d)
      | Some row \<Rightarrow>
          if jb_lease_token row \<noteq> hj_lease_token job \<or> jb_status row \<noteq> RUNNING \<or> jb_cancel_requested row \<or>
             jb_lease_until_ns row \<le> t \<or> jb_deadline_ns row \<le> t
          then Inr (False, d)
          else Inr (True, d\<lparr>jobs := update_where (\<lambda>j. jb_job_id j = hj_job_id job)
                 (\<lambda>j. j\<lparr>jb_lease_until_ns := t + lease_seconds * 1000000000\<rparr>) (jobs d)\<rparr>))"

definition finish_tx :: "held_job \<Rightarrow> (string \<times> json) list \<Rightarrow> bool \<Rightarrow> int \<Rightarrow> job_row transaction" where
  "finish_tx job answer has_failed t d =
     bind (or_raise (first_where (held_row job) (jobs d)) NoResultFound) (\<lambda>row.
     bind (raise_if (jb_lease_token row \<noteq> hj_lease_token job \<or> jb_status row \<noteq> RUNNING \<or>
                     jb_lease_until_ns row \<le> t \<or> jb_deadline_ns row \<le> t)
             (ConflictError ''job_lease_lost'')) (\<lambda>_.
     let status = (if jb_cancel_requested row then JOB_CANCELLED
                   else if has_failed then JOB_FAILED else JOB_COMPLETED);
         d1 = d\<lparr>jobs := update_where (\<lambda>j. jb_job_id j = hj_job_id job)
                (\<lambda>j. j\<lparr>jb_status := status, jb_result := Some (JObj answer), jb_lease_until_ns := 0\<rparr>) (jobs d)\<rparr>;
         d2 = add_event (hj_tenant_id job) (hj_job_id job) (job_status_text status) answer t d1 in
     bind (fetch_job (hj_tenant_id job) (hj_job_id job) d2) (\<lambda>after. Inr (after, d2))))"

definition cancel_job_tx :: "string \<Rightarrow> string \<Rightarrow> int \<Rightarrow> job_row transaction" where
  "cancel_job_tx tenant job_id t d =
     bind (fetch_job tenant job_id d) (\<lambda>row.
     let d1 = (if jb_status row \<in> {QUEUED, RUNNING}
               then add_event tenant job_id ''cancel_requested'' [] t
                 (d\<lparr>jobs := update_where (\<lambda>j. jb_job_id j = job_id)
                    (\<lambda>j. j\<lparr>jb_cancel_requested := True,
                       jb_status := (if jb_status row = QUEUED then JOB_CANCELLED else RUNNING)\<rparr>) (jobs d)\<rparr>)
               else d) in
     bind (fetch_job tenant job_id d1) (\<lambda>after. Inr (after, d1)))"

section \<open>Events and health\<close>

definition event_page :: "string \<Rightarrow> string \<Rightarrow> int \<Rightarrow> int \<Rightarrow> db \<Rightarrow> event_row list result" where
  "event_page tenant entity after limit d =
     bind (raise_if (after < 0 \<or> \<not> (1 \<le> limit \<and> limit \<le> 200)) (ValueError ''invalid_event_cursor_or_limit'')) (\<lambda>_.
     Inr (take (nat limit) (sort_key ev_sequence
       (select_where (\<lambda>e. ev_tenant_id e = tenant \<and> ev_entity_id e = entity \<and> int (ev_sequence e) > after)
          (events d)))))"

definition health_tx :: "string \<Rightarrow> string \<Rightarrow> json \<Rightarrow> int \<Rightarrow> unit transaction" where
  "health_tx tenant name payload t d =
     Inr ((), d\<lparr>runtime_health :=
       update_where (\<lambda>h. hl_tenant_id h = tenant \<and> hl_name h = name)
         (\<lambda>h. h\<lparr>hl_observed_ns := t, hl_payload := payload\<rparr>)
         (insert_once health_clash
            \<lparr>hl_name = name, hl_tenant_id = tenant, hl_observed_ns = t, hl_payload = payload\<rparr>
            (runtime_health d))\<rparr>)"

section \<open>Job states\<close>

definition job_closed :: "job_row \<Rightarrow> bool" where
  "job_closed j \<longleftrightarrow> jb_status j \<notin> {QUEUED, RUNNING}"

definition job_sound :: "job_row \<Rightarrow> bool" where
  "job_sound j \<longleftrightarrow> 0 \<le> jb_attempts j \<and> jb_attempts j \<le> 3 \<and>
     (jb_status j = QUEUED \<longrightarrow> jb_attempts j = 0 \<and> \<not> jb_cancel_requested j) \<and>
     (jb_status j = RUNNING \<longrightarrow> 1 \<le> jb_attempts j \<and> jb_lease_token j \<noteq> None)"

definition jobs_inv :: "db \<Rightarrow> bool" where
  "jobs_inv d \<longleftrightarrow> distinct (map jb_job_id (jobs d)) \<and> list_all job_sound (jobs d)"

definition job_kept :: "job_row \<Rightarrow> job_row \<Rightarrow> bool" where
  "job_kept j k \<longleftrightarrow> jb_job_id k = jb_job_id j \<and> jb_tenant_id k = jb_tenant_id j \<and> jb_kind k = jb_kind j \<and>
     jb_idempotency_key k = jb_idempotency_key j \<and> jb_payload k = jb_payload j \<and> jb_sha256 k = jb_sha256 j \<and>
     jb_deadline_ns k = jb_deadline_ns j \<and> jb_attempts j \<le> jb_attempts k"

text \<open>One transaction rewrites the job table row by row, leaves closed rows alone and may add a queued one.\<close>

definition jobs_step :: "db \<Rightarrow> db \<Rightarrow> bool" where
  "jobs_step d d' \<longleftrightarrow> (\<exists>f new. jobs d' = map f (jobs d) @ new \<and>
     (\<forall>j \<in> set (jobs d). job_kept j (f j) \<and> (job_closed j \<longrightarrow> f j = j) \<and> (jb_status (f j) = QUEUED \<longrightarrow> f j = j) \<and>
        (job_sound j \<longrightarrow> job_sound (f j))) \<and>
     (\<forall>j \<in> set new. job_sound j \<and> jb_status j = QUEUED) \<and>
     (distinct (map jb_job_id (jobs d)) \<longrightarrow> distinct (map jb_job_id (jobs d'))))"

lemma job_kept_refl [simp]: "job_kept j j"
  by (simp add: job_kept_def)

lemma jobs_step_map:
  assumes "jobs d' = map f (jobs d)"
    and "\<And>j. j \<in> set (jobs d) \<Longrightarrow> job_kept j (f j)"
    and "\<And>j. j \<in> set (jobs d) \<Longrightarrow> job_closed j \<Longrightarrow> f j = j"
    and "\<And>j. j \<in> set (jobs d) \<Longrightarrow> jb_status (f j) = QUEUED \<Longrightarrow> f j = j"
    and "\<And>j. j \<in> set (jobs d) \<Longrightarrow> job_sound j \<Longrightarrow> job_sound (f j)"
  shows "jobs_step d d'"
proof -
  have ids: "map jb_job_id (jobs d') = map jb_job_id (jobs d)"
    using assms(1,2) by (simp add: job_kept_def)
  have "distinct (map jb_job_id (jobs d)) \<longrightarrow> distinct (map jb_job_id (jobs d'))"
    unfolding ids by (rule impI)
  then show ?thesis
    unfolding jobs_step_def using assms by (intro exI[of _ f] exI[of _ "[]"]) (simp del: distinct_map)
qed

lemma jobs_step_inv: "jobs_step d d' \<Longrightarrow> jobs_inv d \<Longrightarrow> jobs_inv d'"
  by (auto simp: jobs_step_def jobs_inv_def list_all_iff)

lemma jobs_step_refl: "jobs d' = jobs d \<Longrightarrow> jobs_step d d'"
  by (rule jobs_step_map[where f = id]) auto

lemma jobs_step_update:
  assumes "jobs d' = update_where (\<lambda>j. jb_job_id j = x) f (jobs d)"
    and "distinct (map jb_job_id (jobs d))" and "r \<in> set (jobs d)" and "jb_job_id r = x"
    and "job_kept r (f r)" and "\<not> job_closed r" and "jb_status (f r) \<noteq> QUEUED"
    and "job_sound r \<Longrightarrow> job_sound (f r)"
  shows "jobs_step d d'"
proof (rule jobs_step_map[where f = "\<lambda>j. if jb_job_id j = x then f j else j"])
  show "jobs d' = map (\<lambda>j. if jb_job_id j = x then f j else j) (jobs d)"
    using assms(1) by (simp add: update_where_def)
  have "j = r" if "j \<in> set (jobs d)" "jb_job_id j = x" for j
    using that assms(2-4) by (auto dest: unique_row[where key = jb_job_id])
  then show "\<And>j. j \<in> set (jobs d) \<Longrightarrow> job_kept j (if jb_job_id j = x then f j else j)"
    "\<And>j. j \<in> set (jobs d) \<Longrightarrow> job_closed j \<Longrightarrow> (if jb_job_id j = x then f j else j) = j"
    "\<And>j. j \<in> set (jobs d) \<Longrightarrow> jb_status (if jb_job_id j = x then f j else j) = QUEUED \<Longrightarrow>
       (if jb_job_id j = x then f j else j) = j"
    "\<And>j. j \<in> set (jobs d) \<Longrightarrow> job_sound j \<Longrightarrow> job_sound (if jb_job_id j = x then f j else j)"
    using assms(5-8) by auto
qed

lemma jobs_add_event [simp]: "jobs (add_event tenant entity kind payload t d) = jobs d"
  by (simp add: add_event_def)

text \<open>What retiring the expired rows does to the table.\<close>

definition retired :: "job_row \<Rightarrow> job_row" where
  "retired j = j\<lparr>jb_status := (if jb_cancel_requested j then JOB_CANCELLED else JOB_EXHAUSTED)\<rparr>"

lemma jobs_retire: "jobs (retire_job t e d) = map (\<lambda>j. if jb_job_id j = jb_job_id e
    then j\<lparr>jb_status := (if jb_cancel_requested e then JOB_CANCELLED else JOB_EXHAUSTED)\<rparr> else j) (jobs d)"
  by (simp add: retire_job_def Let_def update_where_def)

lemma fold_retire:
  assumes "distinct (map jb_job_id (jobs d))" and "distinct (map jb_job_id es)"
    and "set es \<subseteq> set (jobs d)"
  shows "jobs (fold (retire_job t) es d) = map (\<lambda>j. if j \<in> set es then retired j else j) (jobs d)"
  using assms
proof (induction es arbitrary: d rule: rev_induct)
  case Nil
  then show ?case by simp
next
  case (snoc e es)
  let ?g = "\<lambda>j. if j \<in> set es then retired j else j"
  have IH: "jobs (fold (retire_job t) es d) = map ?g (jobs d)"
    using snoc by simp
  have idg: "jb_job_id (?g j) = jb_job_id j" for j by (simp add: retired_def)
  have "(if jb_job_id (?g j) = jb_job_id e
      then (?g j)\<lparr>jb_status := (if jb_cancel_requested e then JOB_CANCELLED else JOB_EXHAUSTED)\<rparr> else ?g j) =
      (if j \<in> set (es @ [e]) then retired j else j)" if "j \<in> set (jobs d)" for j
  proof (cases "jb_job_id j = jb_job_id e")
    case True
    then have "j = e" using that snoc.prems by (auto dest: unique_row[where key = jb_job_id])
    moreover have "e \<notin> set es" using snoc.prems(2) by auto
    ultimately show ?thesis by (simp add: retired_def)
  next
    case False
    then show ?thesis using idg[of j] by (auto simp: retired_def)
  qed
  then show ?case
    by (simp only: fold_append fold.simps comp_def id_def jobs_retire IH map_map) (intro map_cong; simp)
qed

definition after_retiring :: "string \<Rightarrow> string option \<Rightarrow> (string \<Rightarrow> bool) \<Rightarrow> int \<Rightarrow> job_row \<Rightarrow> job_row" where
  "after_retiring kind tenant locked now j =
     (if claimable kind tenant locked now j \<and> spent now j then retired j else j)"

lemma claim_retires:
  assumes "distinct (map jb_job_id (jobs d))"
  shows "jobs (fold (retire_job t) (select_where (\<lambda>j. claimable kind tenant locked now j \<and> spent now j) (jobs d)) d) =
    map (after_retiring kind tenant locked now) (jobs d)"
proof -
  let ?es = "select_where (\<lambda>j. claimable kind tenant locked now j \<and> spent now j) (jobs d)"
  have "distinct (map jb_job_id ?es)" "set ?es \<subseteq> set (jobs d)"
    using assms by (auto simp: select_where_def distinct_map_filter)
  from fold_retire[OF assms this] show ?thesis
    by (simp add: after_retiring_def select_where_def)
qed

lemma after_retiring_id [simp]: "jb_job_id (after_retiring kind tenant locked now j) = jb_job_id j"
  by (simp add: after_retiring_def retired_def)

text \<open>The outcomes of \<open>claim\<close>.\<close>

lemma claim_cases:
  assumes "distinct (map jb_job_id (jobs d))"
    and "claim_tx kind lease_seconds now_ns tenant locked fresh t d = Inr (r, d')"
    and "now = (case now_ns of None \<Rightarrow> t | Some n \<Rightarrow> n)"
  obtains (idle) "r = None" "jobs d' = map (after_retiring kind tenant locked now) (jobs d)"
  | (taken) row where "row \<in> set (jobs d)" "claimable kind tenant locked now row" "\<not> spent now row"
      "r = Some (row\<lparr>jb_status := RUNNING, jb_lease_token := Some fresh,
                jb_lease_until_ns := now + lease_seconds * 1000000000, jb_attempts := jb_attempts row + 1\<rparr>)"
      "jobs d' = map (\<lambda>j. if j = row then the r else after_retiring kind tenant locked now j) (jobs d)"
proof -
  let ?es = "select_where (\<lambda>j. claimable kind tenant locked now j \<and> spent now j) (jobs d)"
  let ?d1 = "fold (retire_job t) ?es d"
  let ?free = "sort_key (\<lambda>j. (jb_created_ns j, jb_job_id j))
             (select_where (\<lambda>j. claimable kind tenant locked now j \<and> \<not> spent now j) (jobs ?d1))"
  note J = claim_retires[OF assms(1), of t kind tenant locked now]
  show ?thesis
  proof (cases ?free)
    case Nil
    then show ?thesis using idle assms(2) J by (auto simp: claim_tx_def Let_def assms(3)[symmetric])
  next
    case (Cons row rest)
    then have "row \<in> set ?free" by simp
    then have f: "row \<in> set (jobs ?d1)" "claimable kind tenant locked now row" "\<not> spent now row"
      by (auto simp: select_where_def)
    then obtain j where j: "j \<in> set (jobs d)" "row = after_retiring kind tenant locked now j"
      by (auto simp: J)
    have "jb_status (retired j) \<notin> {QUEUED, RUNNING}" by (simp add: retired_def)
    then have "row \<noteq> retired j" using f(2) unfolding claimable_def by metis
    then have "row = j" using j(2) by (simp add: after_retiring_def split: if_splits)
    with j have rin: "row \<in> set (jobs d)" by simp
    let ?tk = "row\<lparr>jb_status := RUNNING, jb_lease_token := Some fresh,
                jb_lease_until_ns := now + lease_seconds * 1000000000, jb_attempts := jb_attempts row + 1\<rparr>"
    have "claim_tx kind lease_seconds now_ns tenant locked fresh t d = Inr (Some ?tk,
        add_event (jb_tenant_id row) (jb_job_id row) ''claimed'' [(''attempt'', JInt (jb_attempts row + 1))] t
          (?d1\<lparr>jobs := update_where (\<lambda>j. jb_job_id j = jb_job_id row)
             (\<lambda>j. j\<lparr>jb_status := RUNNING, jb_lease_token := Some fresh,
                jb_lease_until_ns := now + lease_seconds * 1000000000, jb_attempts := jb_attempts row + 1\<rparr>)
             (jobs ?d1)\<rparr>))"
      unfolding claim_tx_def Let_def assms(3)[symmetric] Cons by simp
    with assms(2) have e: "r = Some ?tk" "d' = add_event (jb_tenant_id row) (jb_job_id row) ''claimed''
          [(''attempt'', JInt (jb_attempts row + 1))] t
          (?d1\<lparr>jobs := update_where (\<lambda>j. jb_job_id j = jb_job_id row)
             (\<lambda>j. j\<lparr>jb_status := RUNNING, jb_lease_token := Some fresh,
                jb_lease_until_ns := now + lease_seconds * 1000000000, jb_attempts := jb_attempts row + 1\<rparr>)
             (jobs ?d1)\<rparr>)" by (simp_all only: sum.inject prod.inject)
    note r = e(1)
    have d': "jobs d' = update_where (\<lambda>j. jb_job_id j = jb_job_id row)
                 (\<lambda>j. j\<lparr>jb_status := RUNNING, jb_lease_token := Some fresh,
                    jb_lease_until_ns := now + lease_seconds * 1000000000, jb_attempts := jb_attempts row + 1\<rparr>)
                 (jobs ?d1)"
      unfolding e(2) jobs_add_event by simp
    have self: "after_retiring kind tenant locked now row = row" using f(3) by (simp add: after_retiring_def)
    let ?ar = "after_retiring kind tenant locked now"
    have step: "(if jb_job_id (?ar j) = jb_job_id row then (?ar j)\<lparr>jb_status := RUNNING,
          jb_lease_token := Some fresh, jb_lease_until_ns := now + lease_seconds * 1000000000,
          jb_attempts := jb_attempts row + 1\<rparr> else ?ar j) = (if j = row then ?tk else ?ar j)"
      if "j \<in> set (jobs d)" for j
    proof (cases "j = row")
      case True
      then show ?thesis by (simp add: self)
    next
      case False
      then have "jb_job_id j \<noteq> jb_job_id row"
        using that assms(1) rin by (auto dest: unique_row[where key = jb_job_id])
      with False show ?thesis by simp
    qed
    have "jobs d' = map (\<lambda>j. if j = row then ?tk else ?ar j) (jobs d)"
      unfolding d' J update_where_def map_map comp_def by (rule map_cong[OF refl step])
    then show ?thesis using taken[OF rin f(2,3) r] r by simp
  qed
qed

section \<open>Every job transaction is a step\<close>

lemma enqueue_step:
  assumes "enqueue_tx sha tenant kind payload key deadline fence t d = Inr (r, d')"
  shows "jobs_step d d'"
proof -
  obtain n where d': "jobs d' = insert_once job_clash n (jobs d)" and n: "job_sound n" "jb_status n = QUEUED"
    using assms by (auto simp: enqueue_tx_def Let_def bind_eq_Inr job_sound_def)
  obtain new where new: "jobs d' = jobs d @ new" "set new \<subseteq> {n}"
    by (cases "list_ex (job_clash n) (jobs d)")
      (use d' in \<open>auto simp: insert_once_def intro: that[of "[]"] that[of "[n]"]\<close>)
  have "distinct (map jb_job_id (jobs d)) \<longrightarrow> distinct (map jb_job_id (jobs d'))"
    unfolding d' using job_table.insert_once_distinct by blast
  then show ?thesis
    unfolding jobs_step_def
    by (intro exI[of _ id] exI[of _ new]) (use new n in \<open>auto simp del: distinct_map\<close>)
qed

lemma claim_step:
  assumes "jobs_inv d" and "claim_tx kind lease_seconds now_ns tenant locked fresh t d = Inr (r, d')"
  shows "jobs_step d d'"
proof -
  define now where "now = (case now_ns of None \<Rightarrow> t | Some n \<Rightarrow> n)"
  have k: "distinct (map jb_job_id (jobs d))" using assms(1) by (simp add: jobs_inv_def)
  have ar: "job_kept j (after_retiring kind tenant locked now j)"
    "job_closed j \<Longrightarrow> after_retiring kind tenant locked now j = j"
    "jb_status (after_retiring kind tenant locked now j) = QUEUED \<Longrightarrow> after_retiring kind tenant locked now j = j"
    "job_sound j \<Longrightarrow> job_sound (after_retiring kind tenant locked now j)" for j
    by (auto simp: after_retiring_def retired_def job_kept_def job_closed_def claimable_def job_sound_def)
  from k assms(2) now_def show ?thesis
  proof (cases rule: claim_cases)
    case idle
    show ?thesis by (rule jobs_step_map[OF idle(2)]) (use ar in auto)
  next
    case (taken row)
    have s: "job_sound row" using assms(1) taken(1) by (simp add: jobs_inv_def list_all_iff)
    have "job_kept row (the r)" "\<not> job_closed row" "jb_status (the r) = RUNNING" "job_sound (the r)"
      using taken(2-4) s by (auto simp: job_kept_def job_closed_def claimable_def spent_def job_sound_def)
    then show ?thesis
      by (intro jobs_step_map[OF taken(5)]) (use ar in auto)
  qed
qed

lemma heartbeat_step:
  assumes "jobs_inv d" and "heartbeat_tx job lease_seconds t d = Inr (b, d')"
  shows "jobs_step d d'"
proof (cases "d' = d")
  case True
  then show ?thesis by (simp add: jobs_step_refl)
next
  case False
  then obtain row where f: "first_where (held_row job) (jobs d) = Some row" and st: "jb_status row = RUNNING"
    and d': "jobs d' = update_where (\<lambda>j. jb_job_id j = hj_job_id job)
                 (\<lambda>j. j\<lparr>jb_lease_until_ns := t + lease_seconds * 1000000000\<rparr>) (jobs d)"
    using assms(2) by (auto simp: heartbeat_tx_def split: option.splits if_splits)
  from first_where_Some[OF f] show ?thesis
    by (intro jobs_step_update[OF d', of row])
      (use assms(1) st in \<open>auto simp: jobs_inv_def held_row_def job_kept_def job_closed_def job_sound_def\<close>)
qed

lemma finish_step:
  assumes "jobs_inv d" and "finish_tx job answer f t d = Inr (r, d')"
  shows "jobs_step d d'"
proof -
  obtain row s where f: "first_where (held_row job) (jobs d) = Some row" and st: "jb_status row = RUNNING"
    and d': "jobs d' = update_where (\<lambda>j. jb_job_id j = hj_job_id job)
                (\<lambda>j. j\<lparr>jb_status := s, jb_result := Some (JObj answer), jb_lease_until_ns := 0\<rparr>) (jobs d)"
    and s: "s \<in> {JOB_CANCELLED, JOB_FAILED, JOB_COMPLETED}"
    using assms(2) by (auto simp: finish_tx_def Let_def bind_eq_Inr or_raise_eq_Inr raise_if_eq_Inr)
  from first_where_Some[OF f] show ?thesis
    by (intro jobs_step_update[OF d', of row])
      (use assms(1) st s in \<open>auto simp: jobs_inv_def held_row_def job_kept_def job_closed_def job_sound_def\<close>)
qed

lemma cancel_job_step:
  assumes "jobs_inv d" and "cancel_job_tx tenant job_id t d = Inr (r, d')"
  shows "jobs_step d d'"
proof -
  obtain row where f: "first_where (\<lambda>j. jb_tenant_id j = tenant \<and> jb_job_id j = job_id) (jobs d) = Some row"
    and c: "(jb_status row \<in> {QUEUED, RUNNING} \<and> jobs d' = update_where (\<lambda>j. jb_job_id j = job_id)
                    (\<lambda>j. j\<lparr>jb_cancel_requested := True,
                       jb_status := (if jb_status row = QUEUED then JOB_CANCELLED else RUNNING)\<rparr>) (jobs d)) \<or>
        jobs d' = jobs d"
    using assms(2) by (auto simp: cancel_job_tx_def fetch_job_def Let_def bind_eq_Inr or_raise_eq_Inr split: if_splits)
  from c show ?thesis
  proof (elim disjE conjE)
    assume st: "jb_status row \<in> {QUEUED, RUNNING}"
      and d': "jobs d' = update_where (\<lambda>j. jb_job_id j = job_id)
                    (\<lambda>j. j\<lparr>jb_cancel_requested := True,
                       jb_status := (if jb_status row = QUEUED then JOB_CANCELLED else RUNNING)\<rparr>) (jobs d)"
    from first_where_Some[OF f] show ?thesis
      by (intro jobs_step_update[OF d', of row])
        (use assms(1) st in \<open>auto simp: jobs_inv_def job_kept_def job_closed_def job_sound_def\<close>)
  qed (rule jobs_step_refl)
qed

inductive job_step :: "hasher \<Rightarrow> db \<Rightarrow> db \<Rightarrow> bool" for sha where
  job_enqueue: "enqueue_tx sha tenant kind payload key deadline fence t d = Inr (r, d') \<Longrightarrow> job_step sha d d'"
| job_claim: "claim_tx kind lease_seconds now_ns tn locked fresh t d = Inr (c, d') \<Longrightarrow> job_step sha d d'"
| job_heartbeat: "heartbeat_tx job lease_seconds t d = Inr (b, d') \<Longrightarrow> job_step sha d d'"
| job_finish: "finish_tx job answer f t d = Inr (r, d') \<Longrightarrow> job_step sha d d'"
| job_cancel: "cancel_job_tx tenant job_id t d = Inr (r, d') \<Longrightarrow> job_step sha d d'"
| job_other: "jobs d' = jobs d \<Longrightarrow> job_step sha d d'"

lemma job_step_jobs:
  assumes "job_step sha d d'" and "jobs_inv d"
  shows "jobs_step d d'"
  using assms(1)
proof cases
  case job_enqueue then show ?thesis by (rule enqueue_step)
next
  case job_claim then show ?thesis by (rule claim_step[OF assms(2)])
next
  case job_heartbeat then show ?thesis by (rule heartbeat_step[OF assms(2)])
next
  case job_finish then show ?thesis by (rule finish_step[OF assms(2)])
next
  case job_cancel then show ?thesis by (rule cancel_job_step[OF assms(2)])
next
  case job_other then show ?thesis by (rule jobs_step_refl)
qed

lemma jobs_inv_step: "job_step sha d d' \<Longrightarrow> jobs_inv d \<Longrightarrow> jobs_inv d'"
  using job_step_jobs jobs_step_inv by blast

lemma jobs_inv_empty: "jobs_inv empty_db"
  by (simp add: jobs_inv_def empty_db_def)

interpretation jobs: transition_system "job_step sha" jobs_inv empty_db for sha
  by unfold_locales (auto intro: jobs_inv_step jobs_inv_empty)

end
