(* ===== verification/Budgets.thy ===== *)
theory Budgets
  imports Schema
begin

text \<open>
  The research spend ledger, \<open>src/qt/operations/budgets.py\<close>: every paid model call is reserved
  against a day, a month and a run budget before it is made, and settled at its actual cost after.
  \<open>now\<close> is the wall clock the method reads; amounts are within the default 28 digit context.
\<close>

section \<open>Operations\<close>

text \<open>The three periods of a call, in sorted order.\<close>

definition period_limits :: "int \<Rightarrow> string \<Rightarrow> rat \<Rightarrow> rat \<Rightarrow> rat \<Rightarrow> (string \<times> rat) list" where
  "period_limits now run run_maximum day_maximum month_maximum =
     [(''day:'' @ iso_date (utc_day now), day_maximum), (''month:'' @ iso_month (utc_day now), month_maximum),
      (''run:'' @ run, run_maximum)]"

definition budget_key :: "string \<Rightarrow> string \<Rightarrow> usage_budget_row \<Rightarrow> bool" where
  "budget_key tenant period b \<longleftrightarrow> ub_tenant_id b = tenant \<and> ub_period b = period"

definition call_key :: "string \<Rightarrow> string \<Rightarrow> model_call_row \<Rightarrow> bool" where
  "call_key tenant call c \<longleftrightarrow> mc_tenant_id c = tenant \<and> mc_call_id c = call"

fun lock_budgets :: "string \<Rightarrow> (string \<times> rat) list \<Rightarrow> db \<Rightarrow> (usage_budget_row list \<times> db) result" where
  "lock_budgets tenant [] d = Inr ([], d)"
| "lock_budgets tenant ((period, maximum) # ps) d =
     (if \<not> fits_numeric maximum then Inl (StatementError ''money_does_not_fit_numeric_38_18_exactly'')
      else
        let d1 = d\<lparr>usage_budgets := insert_once usage_budget_clash
              \<lparr>ub_tenant_id = tenant, ub_period = period, ub_reserved = 0, ub_maximum = maximum\<rparr>
              (usage_budgets d)\<rparr> in
        bind (or_raise (first_where (budget_key tenant period) (usage_budgets d1)) NoResultFound) (\<lambda>row.
        bind (lock_budgets tenant ps d1) (\<lambda>(rows, d2). Inr (row # rows, d2))))"

text \<open>\<open>reserved = row["reserved"] + amount\<close> for every locked row.\<close>

fun charge_budgets :: "string \<Rightarrow> rat \<Rightarrow> usage_budget_row list \<Rightarrow> db \<Rightarrow> db result" where
  "charge_budgets tenant amount [] d = Inr d"
| "charge_budgets tenant amount (row # rows) d =
     (if \<not> fits_numeric (ub_reserved row + amount)
      then Inl (StatementError ''money_does_not_fit_numeric_38_18_exactly'')
      else charge_budgets tenant amount rows
        (d\<lparr>usage_budgets := update_where (budget_key tenant (ub_period row))
           (\<lambda>b. b\<lparr>ub_reserved := ub_reserved row + amount\<rparr>) (usage_budgets d)\<rparr>))"

definition reserve_call_tx ::
  "string \<Rightarrow> string \<Rightarrow> string \<Rightarrow> string \<Rightarrow> rat \<Rightarrow> rat \<Rightarrow> rat \<Rightarrow> rat \<Rightarrow> int \<Rightarrow> model_call_row transaction" where
  "reserve_call_tx tenant run call request_hash amount run_maximum day_maximum month_maximum now d =
     bind (raise_if (amount \<le> 0 \<or> run_maximum \<le> 0 \<or> day_maximum \<le> 0 \<or> month_maximum \<le> 0 \<or>
                     run_maximum > 1 \<or> day_maximum > 5 \<or> month_maximum > 150)
             (ValueError ''invalid_or_excessive_research_allocation'')) (\<lambda>_.
     let periods = period_limits now run run_maximum day_maximum month_maximum in
     bind (lock_budgets tenant periods d) (\<lambda>(locked, d1).
     case first_where (call_key tenant call) (model_calls d1) of
       Some existing \<Rightarrow>
         if mc_request_hash existing \<noteq> request_hash
         then Inl (ConflictError ''model_call_identity_conflict'')
         else Inl (ConflictError ''model_call_already_reserved_do_not_repeat'')
     | None \<Rightarrow>
         bind (raise_if (list_ex (\<lambda>row. ub_reserved row + amount >
                  min (ub_maximum row) (dict_get periods (ub_period row))) locked)
                 (ValueError ''research_spend_budget_exhausted'')) (\<lambda>_.
         bind (charge_budgets tenant amount locked d1) (\<lambda>d2.
         let values = \<lparr>mc_tenant_id = tenant, mc_call_id = call, mc_run_id = run,
               mc_request_hash = request_hash, mc_periods = map fst periods, mc_reserved = amount,
               mc_actual = None, mc_status = CALL_RESERVED, mc_created_ns = now\<rparr> in
         if \<not> fits_numeric amount then Inl (StatementError ''money_does_not_fit_numeric_38_18_exactly'')
         else bind (insert_row model_call_clash ''pk_model_calls'' values (model_calls d2)) (\<lambda>rows.
              Inr (values, d2\<lparr>model_calls := rows\<rparr>))))))"

fun fetch_budgets :: "string \<Rightarrow> string list \<Rightarrow> db \<Rightarrow> usage_budget_row list result" where
  "fetch_budgets tenant [] d = Inr []"
| "fetch_budgets tenant (p # ps) d =
     bind (or_raise (first_where (budget_key tenant p) (usage_budgets d)) NoResultFound) (\<lambda>row.
     bind (fetch_budgets tenant ps d) (\<lambda>rows. Inr (row # rows)))"

definition complete_call_tx :: "string \<Rightarrow> string \<Rightarrow> rat \<Rightarrow> unit transaction" where
  "complete_call_tx tenant call actual d =
     bind (raise_if (actual < 0) (ValueError ''invalid_actual_cost'')) (\<lambda>_.
     bind (or_raise (first_where (call_key tenant call) (model_calls d)) NoResultFound) (\<lambda>row.
     bind (fetch_budgets tenant (sort (mc_periods row)) d) (\<lambda>budgets.
     case mc_actual row of
       Some a \<Rightarrow> if a \<noteq> actual then Inl (ConflictError ''actual_cost_is_immutable'') else Inr ((), d)
     | None \<Rightarrow>
         let delta = actual - mc_reserved row in
         bind (charge_budgets tenant delta budgets d) (\<lambda>d1.
         if \<not> fits_numeric actual then Inl (StatementError ''money_does_not_fit_numeric_38_18_exactly'')
         else Inr ((), d1\<lparr>model_calls := update_where (call_key tenant call)
                (\<lambda>c. c\<lparr>mc_actual := Some actual,
                   mc_status := (if delta > 0 then CALL_EXCEEDED else CALL_COMPLETED)\<rparr>) (model_calls d1)\<rparr>)))))"

section \<open>Every budget is the sum of its calls\<close>

definition call_cost :: "model_call_row \<Rightarrow> rat" where
  "call_cost c = (case mc_actual c of None \<Rightarrow> mc_reserved c | Some a \<Rightarrow> a)"

definition charged :: "string \<Rightarrow> string \<Rightarrow> model_call_row list \<Rightarrow> rat" where
  "charged tenant period calls =
     (\<Sum>c\<leftarrow>filter (\<lambda>c. mc_tenant_id c = tenant \<and> period \<in> set (mc_periods c)) calls. call_cost c)"

definition budgets_inv :: "db \<Rightarrow> bool" where
  "budgets_inv d \<longleftrightarrow>
     distinct (map (\<lambda>b. (ub_tenant_id b, ub_period b)) (usage_budgets d)) \<and>
     distinct (map (\<lambda>c. (mc_tenant_id c, mc_call_id c)) (model_calls d)) \<and>
     (\<forall>b \<in> set (usage_budgets d). ub_reserved b = charged (ub_tenant_id b) (ub_period b) (model_calls d)) \<and>
     (\<forall>c \<in> set (model_calls d). distinct (mc_periods c) \<and>
        (\<forall>p \<in> set (mc_periods c). (mc_tenant_id c, p) \<in> (\<lambda>b. (ub_tenant_id b, ub_period b)) ` set (usage_budgets d)))"

definition budget_id :: "usage_budget_row \<Rightarrow> string \<times> string" where
  "budget_id b = (ub_tenant_id b, ub_period b)"

lemma budget_key_id: "budget_key tenant period b \<longleftrightarrow> budget_id b = (tenant, period)"
  by (auto simp: budget_key_def budget_id_def)

lemma budgets_inv_id: "budgets_inv d \<longleftrightarrow> distinct (map budget_id (usage_budgets d)) \<and>
     distinct (map (\<lambda>c. (mc_tenant_id c, mc_call_id c)) (model_calls d)) \<and>
     (\<forall>b \<in> set (usage_budgets d). ub_reserved b = charged (ub_tenant_id b) (ub_period b) (model_calls d)) \<and>
     (\<forall>c \<in> set (model_calls d). distinct (mc_periods c) \<and>
        (\<forall>p \<in> set (mc_periods c). (mc_tenant_id c, p) \<in> budget_id ` set (usage_budgets d)))"
  by (simp add: budgets_inv_def budget_id_def[abs_def])

lemma charged_none:
  assumes "budgets_inv d" and "\<forall>b \<in> set (usage_budgets d). budget_id b \<noteq> (tenant, period)"
  shows "charged tenant period (model_calls d) = 0"
proof -
  have "filter (\<lambda>c. mc_tenant_id c = tenant \<and> period \<in> set (mc_periods c)) (model_calls d) = []"
    using assms by (fastforce simp: budgets_inv_id filter_empty_conv)
  then show ?thesis by (simp add: charged_def)
qed

lemma lock_one:
  assumes "budgets_inv d" and "b = \<lparr>ub_tenant_id = tenant, ub_period = period, ub_reserved = 0, ub_maximum = maximum\<rparr>"
  shows "budgets_inv (d\<lparr>usage_budgets := insert_once usage_budget_clash b (usage_budgets d)\<rparr>)"
proof (cases "list_ex (usage_budget_clash b) (usage_budgets d)")
  case True
  then show ?thesis using assms(1) by (simp add: insert_once_def)
next
  case False
  then have new: "\<forall>x \<in> set (usage_budgets d). budget_id x \<noteq> (tenant, period)"
    by (auto simp: list_ex_iff usage_budget_clash_def budget_id_def assms(2))
  have "charged tenant period (model_calls d) = 0" by (rule charged_none[OF assms(1) new])
  then show ?thesis
    using assms(1) new False by (auto simp: budgets_inv_id insert_once_def assms(2) budget_id_def image_iff)
qed

lemma lock_budgets_spec:
  assumes "lock_budgets tenant ps d = Inr (rows, d')" and "budgets_inv d"
  shows "budgets_inv d' \<and> model_calls d' = model_calls d \<and> map budget_id rows = map (\<lambda>p. (tenant, fst p)) ps \<and>
    set (usage_budgets d) \<subseteq> set (usage_budgets d') \<and> set rows \<subseteq> set (usage_budgets d')"
  using assms
proof (induction tenant ps d arbitrary: rows rule: lock_budgets.induct)
  case (2 tenant period maximum ps d)
  define d1 where "d1 = d\<lparr>usage_budgets := insert_once usage_budget_clash
              \<lparr>ub_tenant_id = tenant, ub_period = period, ub_reserved = 0, ub_maximum = maximum\<rparr>
              (usage_budgets d)\<rparr>"
  obtain row rest where fit: "fits_numeric maximum"
    and row: "first_where (budget_key tenant period) (usage_budgets d1) = Some row"
    and rest: "lock_budgets tenant ps d1 = Inr (rest, d')" and rows: "rows = row # rest"
    using "2.prems"(1) by (auto simp: bind_eq_Inr or_raise_eq_Inr d1_def split: if_splits)
  have i: "budgets_inv d1" unfolding d1_def by (rule lock_one[OF "2.prems"(2) refl])
  have "budgets_inv d' \<and> model_calls d' = model_calls d1 \<and> map budget_id rest = map (\<lambda>p. (tenant, fst p)) ps \<and>
    set (usage_budgets d1) \<subseteq> set (usage_budgets d') \<and> set rest \<subseteq> set (usage_budgets d')"
    by (rule "2.IH"[OF _ d1_def _ rest i]) (use fit row in auto)
  moreover have "set (usage_budgets d) \<subseteq> set (usage_budgets d1)"
    using usage_budget_table.insert_once_keeps by (auto simp: d1_def)
  ultimately show ?case
    using first_where_Some[OF row] by (auto simp: rows budget_key_id d1_def)
qed simp

lemma charge_budgets_spec:
  assumes "charge_budgets tenant amount rows d = Inr d'" and "distinct (map budget_id (usage_budgets d))"
    and "distinct (map budget_id rows)" and "set rows \<subseteq> set (usage_budgets d)"
    and "\<forall>r \<in> set rows. ub_tenant_id r = tenant"
  shows "usage_budgets d' = map (\<lambda>b. if budget_id b \<in> budget_id ` set rows
      then b\<lparr>ub_reserved := ub_reserved b + amount\<rparr> else b) (usage_budgets d) \<and> model_calls d' = model_calls d"
  using assms
proof (induction tenant amount rows d rule: charge_budgets.induct)
  case (2 tenant amount row rows d)
  define d1 where "d1 = d\<lparr>usage_budgets := update_where (budget_key tenant (ub_period row))
           (\<lambda>b. b\<lparr>ub_reserved := ub_reserved row + amount\<rparr>) (usage_budgets d)\<rparr>"
  have c: "charge_budgets tenant amount rows d1 = Inr d'" and fit: "fits_numeric (ub_reserved row + amount)"
    using "2.prems"(1) by (auto simp: d1_def split: if_splits)
  have rid: "budget_id row = (tenant, ub_period row)" using "2.prems"(5) by (simp add: budget_id_def)
  have same: "b = row" if "b \<in> set (usage_budgets d)" "budget_id b = budget_id row" for b
    using that "2.prems"(2,4) by (auto dest: unique_row[where key = budget_id])
  have t1: "usage_budgets d1 = map (\<lambda>b. if budget_id b = budget_id row
      then b\<lparr>ub_reserved := ub_reserved b + amount\<rparr> else b) (usage_budgets d)"
  proof -
    have "(if budget_key tenant (ub_period row) b then b\<lparr>ub_reserved := ub_reserved row + amount\<rparr> else b) =
        (if budget_id b = budget_id row then b\<lparr>ub_reserved := ub_reserved b + amount\<rparr> else b)"
      if "b \<in> set (usage_budgets d)" for b
      using same[OF that] by (cases "budget_id b = budget_id row") (auto simp: budget_key_id rid)
    then show ?thesis unfolding d1_def by (simp add: update_where_def cong: map_cong)
  qed
  have ids: "map budget_id (usage_budgets d1) = map budget_id (usage_budgets d)"
    unfolding t1 by (simp add: budget_id_def)
  have "set rows \<subseteq> set (usage_budgets d1)"
  proof
    fix r assume r: "r \<in> set rows"
    then have "budget_id r \<noteq> budget_id row" "r \<in> set (usage_budgets d)"
      using "2.prems"(3,4) by (auto simp: image_iff)
    then have "r = (if budget_id r = budget_id row then r\<lparr>ub_reserved := ub_reserved r + amount\<rparr> else r)" by simp
    then show "r \<in> set (usage_budgets d1)"
      unfolding t1 set_map using \<open>r \<in> set (usage_budgets d)\<close> by (rule image_eqI)
  qed
  then have IH: "usage_budgets d' = map (\<lambda>b. if budget_id b \<in> budget_id ` set rows
      then b\<lparr>ub_reserved := ub_reserved b + amount\<rparr> else b) (usage_budgets d1) \<and> model_calls d' = model_calls d1"
    using "2.IH" fit c ids "2.prems"(2,3,5) by (simp add: d1_def)
  have nin: "budget_id row \<notin> budget_id ` set rows" using "2.prems"(3) by simp
  have keep: "budget_id (b\<lparr>ub_reserved := x\<rparr>) = budget_id b" for b x by (simp add: budget_id_def)
  have "usage_budgets d' = map (\<lambda>b. if budget_id b \<in> budget_id ` set (row # rows)
      then b\<lparr>ub_reserved := ub_reserved b + amount\<rparr> else b) (usage_budgets d)"
    unfolding conjunct1[OF IH] t1 map_map using nin by (intro map_cong) (auto simp: keep)
  moreover have "model_calls d' = model_calls d" using IH by (simp add: d1_def)
  ultimately show ?case by simp
qed simp

lemma fetch_budgets_spec:
  "fetch_budgets tenant ps d = Inr rows \<Longrightarrow>
   map budget_id rows = map (Pair tenant) ps \<and> set rows \<subseteq> set (usage_budgets d)"
proof (induction tenant ps d arbitrary: rows rule: fetch_budgets.induct)
  case (2 tenant p ps d)
  then obtain row rest where row: "first_where (budget_key tenant p) (usage_budgets d) = Some row"
    and rest: "fetch_budgets tenant ps d = Inr rest" and rows: "rows = row # rest"
    by (auto simp: bind_eq_Inr or_raise_eq_Inr)
  from "2.IH"[OF _ rest] row first_where_Some[OF row] show ?case
    by (auto simp: rows budget_key_id)
qed simp

lemma rows_of_tenant: "map budget_id rows = map (Pair tenant) ps \<Longrightarrow>
   (\<forall>r \<in> set rows. ub_tenant_id r = tenant) \<and> budget_id ` set rows = Pair tenant ` set ps \<and>
   (distinct (map budget_id rows) \<longleftrightarrow> distinct ps)"
proof -
  assume *: "map budget_id rows = map (Pair tenant) ps"
  then have "budget_id ` set rows = Pair tenant ` set ps" by (metis set_map)
  moreover from this have "\<forall>r \<in> set rows. ub_tenant_id r = tenant"
    by (auto simp: budget_id_def dest!: equalityD1 subsetD)
  moreover have "distinct (map (Pair tenant) ps) \<longleftrightarrow> distinct ps"
    by (simp add: distinct_map inj_on_def)
  ultimately show ?thesis unfolding * by simp
qed

lemma period_limits_distinct: "distinct (map fst (period_limits now run a b c))"
  by (simp add: period_limits_def)

text \<open>Charging the budgets of a call keeps the sums when the call's cost changes by the same amount.\<close>

lemma charged_budgets_inv:
  assumes "budgets_inv d" and "charge_budgets tenant amount rows d = Inr d1"
    and "map budget_id rows = map (Pair tenant) ps" and "distinct ps" and "set rows \<subseteq> set (usage_budgets d)"
    and "distinct (map (\<lambda>c. (mc_tenant_id c, mc_call_id c)) calls)"
    and "\<And>tn p. charged tn p calls = charged tn p (model_calls d) + (if tn = tenant \<and> p \<in> set ps then amount else 0)"
    and "\<forall>c \<in> set calls. distinct (mc_periods c) \<and>
        (\<forall>p \<in> set (mc_periods c). (mc_tenant_id c, p) \<in> budget_id ` set (usage_budgets d))"
  shows "budgets_inv (d1\<lparr>model_calls := calls\<rparr>)"
proof -
  note r = rows_of_tenant[OF assms(3)]
  have u: "usage_budgets d1 = map (\<lambda>b. if budget_id b \<in> Pair tenant ` set ps
      then b\<lparr>ub_reserved := ub_reserved b + amount\<rparr> else b) (usage_budgets d)"
    using charge_budgets_spec[OF assms(2)] assms(1,4,5) r by (simp add: budgets_inv_id)
  have ids: "map budget_id (usage_budgets d1) = map budget_id (usage_budgets d)"
    unfolding u by (simp add: budget_id_def)
  then have idset: "budget_id ` set (usage_budgets d1) = budget_id ` set (usage_budgets d)" by (metis set_map)
  have "ub_reserved b = charged (ub_tenant_id b) (ub_period b) calls" if bin: "b \<in> set (usage_budgets d1)" for b
  proof -
    obtain x where x: "x \<in> set (usage_budgets d)" "b = (if budget_id x \<in> Pair tenant ` set ps
      then x\<lparr>ub_reserved := ub_reserved x + amount\<rparr> else x)"
      using bin unfolding u set_map by blast
    then have "ub_reserved x = charged (ub_tenant_id x) (ub_period x) (model_calls d)"
      using assms(1) by (simp add: budgets_inv_id)
    with x(2) assms(7) show ?thesis by (auto simp: budget_id_def)
  qed
  then show ?thesis
    using assms(1,6,8) ids idset by (simp add: budgets_inv_id)
qed

lemma charge_budgets_calls: "charge_budgets tenant amount rows d = Inr d' \<Longrightarrow> model_calls d' = model_calls d"
  by (induction tenant amount rows d rule: charge_budgets.induct) (auto split: if_splits)

lemma reserve_call_cases:
  assumes "reserve_call_tx tenant run call h amount rm dm mm now d = Inr (v, d')" and "budgets_inv d"
  obtains locked d1 d2 where "lock_budgets tenant (period_limits now run rm dm mm) d = Inr (locked, d1)"
    and "budgets_inv d1" and "model_calls d1 = model_calls d"
    and "map budget_id locked = map (Pair tenant) (map fst (period_limits now run rm dm mm))"
    and "set locked \<subseteq> set (usage_budgets d1)"
    and "\<forall>c \<in> set (model_calls d). \<not> call_key tenant call c"
    and "\<forall>row \<in> set locked. ub_reserved row + amount \<le>
           min (ub_maximum row) (dict_get (period_limits now run rm dm mm) (ub_period row))"
    and "charge_budgets tenant amount locked d1 = Inr d2"
    and "v = \<lparr>mc_tenant_id = tenant, mc_call_id = call, mc_run_id = run, mc_request_hash = h,
           mc_periods = map fst (period_limits now run rm dm mm), mc_reserved = amount, mc_actual = None,
           mc_status = CALL_RESERVED, mc_created_ns = now\<rparr>"
    and "d' = d2\<lparr>model_calls := model_calls d @ [v]\<rparr>" and "0 < amount" and "fits_numeric amount"
    and "rm \<le> 1" and "dm \<le> 5" and "mm \<le> 150"
proof -
  let ?ps = "period_limits now run rm dm mm"
  obtain locked d1 where l: "lock_budgets tenant ?ps d = Inr (locked, d1)"
    using assms(1) by (auto simp: reserve_call_tx_def Let_def bind_eq_Inr)
  note s = lock_budgets_spec[OF l assms(2)]
  have none: "first_where (call_key tenant call) (model_calls d) = None"
    using assms(1) l s by (auto simp: reserve_call_tx_def Let_def bind_eq_Inr split: option.splits if_splits)
  obtain d2 where c: "charge_budgets tenant amount locked d1 = Inr d2"
    and lim: "\<not> list_ex (\<lambda>row. ub_reserved row + amount > min (ub_maximum row) (dict_get ?ps (ub_period row))) locked"
    and rest: "v = \<lparr>mc_tenant_id = tenant, mc_call_id = call, mc_run_id = run, mc_request_hash = h,
           mc_periods = map fst ?ps, mc_reserved = amount, mc_actual = None,
           mc_status = CALL_RESERVED, mc_created_ns = now\<rparr>"
      "d' = d2\<lparr>model_calls := model_calls d2 @ [v]\<rparr>" "fits_numeric amount" "0 < amount"
      "rm \<le> 1" "dm \<le> 5" "mm \<le> 150"
    using assms(1) l s none
    by (auto simp: reserve_call_tx_def Let_def bind_eq_Inr raise_if_eq_Inr insert_row_eq_Inr split: if_splits)
  have "model_calls d2 = model_calls d" using charge_budgets_calls[OF c] s by simp
  with l s c lim rest none show ?thesis
    by (intro that[of locked d1 d2]) (auto simp: first_where_None list_ex_iff not_less)
qed

lemma reserve_call_inv:
  assumes "reserve_call_tx tenant run call h amount rm dm mm now d = Inr (v, d')" and "budgets_inv d"
  shows "budgets_inv d'"
  using assms
proof (cases rule: reserve_call_cases)
  case (1 locked d1 d2)
  let ?ps = "map fst (period_limits now run rm dm mm)"
  have "budgets_inv (d2\<lparr>model_calls := model_calls d1 @ [v]\<rparr>)"
  proof (rule charged_budgets_inv[OF 1(2,8,4) period_limits_distinct 1(5)])
    show "distinct (map (\<lambda>c. (mc_tenant_id c, mc_call_id c)) (model_calls d1 @ [v]))"
      using 1(2,3,6,9) by (auto simp: budgets_inv_id call_key_def)
    show "charged tn p (model_calls d1 @ [v]) = charged tn p (model_calls d1) +
        (if tn = tenant \<and> p \<in> set ?ps then amount else 0)" for tn p
      by (simp add: charged_def 1(9) call_cost_def)
    have "Pair tenant ` set ?ps \<subseteq> budget_id ` set (usage_budgets d1)"
      using rows_of_tenant[OF 1(4)] image_mono[OF 1(5), of budget_id] by simp
    then have "\<forall>p \<in> set ?ps. (tenant, p) \<in> budget_id ` set (usage_budgets d1)" by blast
    then show "\<forall>c \<in> set (model_calls d1 @ [v]). distinct (mc_periods c) \<and>
        (\<forall>p \<in> set (mc_periods c). (mc_tenant_id c, p) \<in> budget_id ` set (usage_budgets d1))"
      using 1(2,9) period_limits_distinct[of now run rm dm mm] by (simp add: budgets_inv_id)
  qed
  with 1(3,10) show ?thesis by simp
qed

lemma complete_call_inv:
  assumes "complete_call_tx tenant call actual d = Inr (u, d')" and "budgets_inv d"
  shows "budgets_inv d'"
proof -
  obtain row rows where f: "first_where (call_key tenant call) (model_calls d) = Some row"
    and b: "fetch_budgets tenant (sort (mc_periods row)) d = Inr rows"
    using assms(1) by (auto simp: complete_call_tx_def bind_eq_Inr or_raise_eq_Inr)
  note row = first_where_Some[OF f] and br = fetch_budgets_spec[OF b]
  show ?thesis
  proof (cases "mc_actual row")
    case (Some a)
    then have "d' = d" using assms(1) f b by (auto simp: complete_call_tx_def bind_eq_Inr split: if_splits)
    then show ?thesis using assms(2) by simp
  next
    case None
    let ?f = "\<lambda>c :: model_call_row. c\<lparr>mc_actual := Some actual,
        mc_status := (if actual - mc_reserved row > 0 then CALL_EXCEEDED else CALL_COMPLETED)\<rparr>"
    obtain d1 where c: "charge_budgets tenant (actual - mc_reserved row) rows d = Inr d1"
      and d': "d' = d1\<lparr>model_calls := update_where (call_key tenant call) ?f (model_calls d1)\<rparr>"
      using assms(1) f b None by (auto simp: complete_call_tx_def Let_def bind_eq_Inr split: if_splits)
    let ?key = "\<lambda>c. (mc_tenant_id c, mc_call_id c)"
    have k: "call_key tenant call = (\<lambda>c. ?key c = ?key row)" using row by (auto simp: call_key_def)
    have rt: "mc_tenant_id row = tenant" using row by (simp add: call_key_def)
    have kd: "distinct (map ?key (model_calls d))" and ps: "distinct (mc_periods row)"
      using assms(2) row by (auto simp: budgets_inv_id)
    have "budgets_inv (d1\<lparr>model_calls := update_where (call_key tenant call) ?f (model_calls d)\<rparr>)"
    proof (rule charged_budgets_inv[OF assms(2) c, where ps = "sort (mc_periods row)"])
      show "map budget_id rows = map (Pair tenant) (sort (mc_periods row))" "set rows \<subseteq> set (usage_budgets d)"
        using br by auto
      show "distinct (sort (mc_periods row))" using ps by simp
      show "distinct (map ?key (update_where (call_key tenant call) ?f (model_calls d)))"
        using kd by (simp add: update_where_key)
      show "charged tn p (update_where (call_key tenant call) ?f (model_calls d)) = charged tn p (model_calls d) +
          (if tn = tenant \<and> p \<in> set (sort (mc_periods row)) then actual - mc_reserved row else 0)" for tn p
        using sum_update_where_filter[OF kd conjunct1[OF row], where f = ?f and v = call_cost
            and P = "\<lambda>c. mc_tenant_id c = tn \<and> p \<in> set (mc_periods c)"] rt None
        by (auto simp: charged_def k call_cost_def call_key_def)
      show "\<forall>c \<in> set (update_where (call_key tenant call) ?f (model_calls d)). distinct (mc_periods c) \<and>
          (\<forall>p \<in> set (mc_periods c). (mc_tenant_id c, p) \<in> budget_id ` set (usage_budgets d))"
        using assms(2) by (auto simp: budgets_inv_id set_update_where)
    qed
    with d' charge_budgets_calls[OF c] show ?thesis by simp
  qed
qed

end
