(* ===== verification/Gates.thy ===== *)
theory Gates
  imports Canonical
begin

text \<open>
  The promotion gates, \<open>src/qt/operations/gates.py\<close>.  Evidence is a JSON-like dictionary; numbers are
  Python's \<open>int\<close>, \<open>float\<close> and \<open>bool\<close>.  A finite float is the rational it denotes, so a comparison of
  an integer with a float is exact, as Python's is; the float thresholds of the rules are the
  doubles nearest to their decimal text.  \<open>float(value)\<close> of an integer too large for a double raises
  \<open>OverflowError\<close>.
\<close>

section \<open>Evidence and rules\<close>

datatype evidence =
    EInt int
  | EFloat rat
  | ENonfinite
  | EBool bool
  | EOther

type_synonym evidence_map = "(string \<times> evidence) list"

text \<open>The largest integer below which \<open>float\<close> does not overflow: \<open>2^1024 - 2^970\<close>.\<close>

definition float_limit :: int where
  "float_limit = 2 ^ 1024 - 2 ^ 970"

text \<open>\<open>type(value) in (int, float, bool) and isfinite(float(value))\<close>, and the value it has.\<close>

definition finite_number :: "evidence option \<Rightarrow> rat option result" where
  "finite_number v =
     (case v of
        None \<Rightarrow> Inr None
      | Some (EInt i) \<Rightarrow> if \<bar>i\<bar> \<ge> float_limit then Inl OverflowError else Inr (Some (of_int i))
      | Some (EFloat x) \<Rightarrow> Inr (Some x)
      | Some ENonfinite \<Rightarrow> Inr None
      | Some (EBool b) \<Rightarrow> Inr (Some (if b then 1 else 0))
      | Some EOther \<Rightarrow> Inr None)"

datatype comparison = at_least | at_most

record rule =
  ru_name :: string
  ru_comparison :: comparison
  ru_threshold :: rat
  ru_sample_profile :: string
  ru_failure_action :: string
  ru_method :: string

datatype check_status = check_pass | check_fail | check_insufficient

record check =
  gk_rule :: rule
  gk_status :: check_status
  gk_observed :: "rat option"
  gk_reason :: string

definition probability_names :: "string list" where
  "probability_names = [''holm_p'', ''ece'', ''availability'', ''data_coverage'', ''fee_coverage'']"

definition flag_names :: "string list" where
  "flag_names = [''reproducible'', ''stress_passed'', ''power_sufficient'', ''capital_configured'']"

definition signed_names :: "string list" where
  "signed_names = [''net_expectancy_lcb'', ''benchmark_excess_lcb'', ''brier_skill_lcb'',
     ''economic_profit_lcb'', ''sharpe'', ''sortino'', ''calmar'']"

definition ends_with :: "string \<Rightarrow> string \<Rightarrow> bool" where
  "ends_with suffix s \<longleftrightarrow> length suffix \<le> length s \<and> drop (length s - length suffix) s = suffix"

definition is_flag :: "string \<Rightarrow> bool" where
  "is_flag name \<longleftrightarrow> ends_with ''_verified'' name \<or> name \<in> set flag_names"

definition outside_domain :: "string \<Rightarrow> rat \<Rightarrow> bool" where
  "outside_domain name v \<longleftrightarrow>
     (name \<in> set probability_names \<and> \<not> (0 \<le> v \<and> v \<le> 1)) \<or>
     (is_flag name \<and> v \<noteq> 0 \<and> v \<noteq> 1) \<or>
     (name \<notin> set signed_names \<and> v < 0)"

text \<open>\<open>Rule.evaluate\<close>\<close>

definition evaluate_rule :: "evidence_map \<Rightarrow> rule \<Rightarrow> check result" where
  "evaluate_rule evidence r =
     bind (finite_number (map_of evidence (ru_name r))) (\<lambda>found.
     case found of
       None \<Rightarrow> Inr \<lparr>gk_rule = r, gk_status = check_insufficient, gk_observed = None,
                 gk_reason = ''missing_or_nonfinite_evidence''\<rparr>
     | Some v \<Rightarrow>
         if outside_domain (ru_name r) v
         then Inr \<lparr>gk_rule = r, gk_status = check_fail, gk_observed = Some v,
                gk_reason = ''evidence_outside_metric_domain''\<rparr>
         else
           let good = (if ru_comparison r = at_least then v \<ge> ru_threshold r else v \<le> ru_threshold r) in
           Inr \<lparr>gk_rule = r, gk_status = (if good then check_pass else check_fail), gk_observed = Some v,
             gk_reason = (if good then ''threshold_satisfied'' else ''threshold_not_satisfied'')\<rparr>)"

section \<open>The policy\<close>

definition rule_of :: "string \<Rightarrow> comparison \<Rightarrow> rat \<Rightarrow> string \<Rightarrow> string \<Rightarrow> string \<Rightarrow> rule" where
  "rule_of name c threshold profile action how =
     \<lparr>ru_name = name, ru_comparison = c, ru_threshold = threshold, ru_sample_profile = profile,
      ru_failure_action = action, ru_method = how\<rparr>"

text \<open>The doubles \<open>1.1\<close>, \<open>1e-12\<close>, \<open>.05\<close> and \<open>.999\<close>.\<close>

definition double_1_1 :: rat where "double_1_1 = 2476979795053773 / 2 ^ 51"
definition double_1e_12 :: rat where "double_1e_12 = 4951760157141521 / 2 ^ 92"
definition double_0_05 :: rat where "double_0_05 = 3602879701896397 / 2 ^ 56"
definition double_0_999 :: rat where "double_0_999 = 8998192055486251 / 2 ^ 53"

definition integrity_rules :: "rule list" where
  "integrity_rules =
     [rule_of ''causality_verified'' at_least 1 ''R/E'' ''Q'' ''future mutation and prefix checks'',
      rule_of ''accounting_verified'' at_least 1 ''E'' ''H'' ''per-asset ledger balance'',
      rule_of ''fee_coverage'' at_least 1 ''R/E'' ''B'' ''verified applicable costs / all applicable costs'',
      rule_of ''dataset_verified'' at_least 1 ''D'' ''Q'' ''manifest and actual content hash'',
      rule_of ''reproducible'' at_least 1 ''E'' ''Q'' ''same spec/image/seed output hashes'']"

definition strategy_rules :: "rule list" where
  "strategy_rules =
     [rule_of ''oos_days'' at_least 365 ''R'' ''B'' ''calendar daily NAV observations'',
      rule_of ''independent_events'' at_least 100 ''R'' ''B'' ''pre-registered risk event clusters'',
      rule_of ''sharpe'' at_least 1 ''R'' ''B'' ''365-day annualized net return Sharpe'',
      rule_of ''sortino'' at_least 1 ''R'' ''B'' ''target-zero downside deviation'',
      rule_of ''calmar'' at_least (1 / 2) ''R'' ''B'' ''calendar CAGR / maximum drawdown'',
      rule_of ''profit_factor'' at_least double_1_1 ''R'' ''B'' ''net winning PnL / absolute losing PnL'',
      rule_of ''net_expectancy_lcb'' at_least double_1e_12 ''R'' ''B'' ''cluster bootstrap 95% lower bound'',
      rule_of ''benchmark_excess_lcb'' at_least double_1e_12 ''R'' ''B'' ''paired benchmark utility lower bound'',
      rule_of ''holm_p'' at_most double_0_05 ''R'' ''B'' ''full registered hypothesis-family correction'',
      rule_of ''search_accounting_verified'' at_least 1 ''R'' ''B'' ''completed population audit'',
      rule_of ''stress_passed'' at_least 1 ''R/E'' ''B'' ''2x costs and liquidity/latency scenarios'',
      rule_of ''power_sufficient'' at_least 1 ''R'' ''B'' ''pre-registered effect size power analysis'']"

definition forward_rules :: "rule list" where
  "forward_rules =
     [rule_of ''paper_days'' at_least 30 ''E'' ''B'' ''elapsed frozen-version paper observations'',
      rule_of ''paper_intents'' at_least 200 ''E'' ''B'' ''logical order intents'',
      rule_of ''shadow_days'' at_least 14 ''E'' ''B'' ''elapsed frozen-version shadow observations'',
      rule_of ''shadow_intents'' at_least 100 ''E'' ''B'' ''fully risk-checked unsent intents'',
      rule_of ''duplicate_effects'' at_most 0 ''E'' ''H'' ''duplicate submissions or ledger applications'',
      rule_of ''unreconciled_orders'' at_most 0 ''E/L'' ''H'' ''UNKNOWN or unexplained order states'',
      rule_of ''account_difference'' at_most 0 ''E/L'' ''H'' ''unexplained difference in native asset units'',
      rule_of ''data_coverage'' at_least double_0_999 ''D'' ''H'' ''valid active intervals / expected intervals'',
      rule_of ''availability'' at_least double_0_999 ''O'' ''H'' ''eligible trading minutes / planned minutes'',
      rule_of ''restore_drills'' at_least 3 ''O'' ''B'' ''successful fresh-environment reconciled restores'',
      rule_of ''recovery_verified'' at_least 1 ''E/O'' ''B'' ''all critical crash injection cases'',
      rule_of ''account_eligibility_verified'' at_least 1 ''L'' ''B'' ''venue and account qualification'',
      rule_of ''live_adapter_verified'' at_least 1 ''E'' ''B'' ''exact deployed funded lifecycle adapter'',
      rule_of ''capital_configured'' at_least 1 ''L'' ''B'' ''isolated account capital and risk policy'']"

definition low_frequency_rules :: "rule list" where
  "low_frequency_rules =
     [rule_of ''paper_days'' at_least 90 ''E'' ''B'' ''low-frequency elapsed paper days'',
      rule_of ''paper_independent_events'' at_least 30 ''E'' ''B'' ''independent event episodes'']"

definition prediction_rules :: "rule list" where
  "prediction_rules =
     [rule_of ''settled_event_clusters'' at_least 300 ''F'' ''B'' ''distinct settled event clusters'',
      rule_of ''brier_skill_lcb'' at_least double_1e_12 ''F'' ''B'' ''paired event-cluster bootstrap'',
      rule_of ''ece'' at_most double_0_05 ''F'' ''B'' ''adaptive bins with >=30 observations'',
      rule_of ''rules_verified'' at_least 1 ''F'' ''B'' ''exact settlement and fee versions'']"

definition scale_rules :: "rule list" where
  "scale_rules =
     [rule_of ''live_days'' at_least 90 ''L'' ''B'' ''frozen deployment actual funded days'',
      rule_of ''live_lifecycles'' at_least 100 ''L'' ''B'' ''actual completed trade lifecycles'',
      rule_of ''economic_profit_lcb'' at_least double_1e_12 ''L'' ''B'' ''net profit after platform costs'']"

definition stages :: "string list" where
  "stages = [''research'', ''paper'', ''shadow'', ''live_canary'', ''scale'']"

text \<open>The rules of a stage.\<close>

definition stage_rules :: "string \<Rightarrow> bool \<Rightarrow> bool \<Rightarrow> rule list" where
  "stage_rules stage low_frequency prediction_market =
     (let base = integrity_rules @
            (if stage \<in> {''shadow'', ''live_canary'', ''scale''} then strategy_rules else []);
          funded =
            (if stage \<in> {''live_canary'', ''scale''}
             then (let all_rules = base @ forward_rules in
                   (if low_frequency
                    then filter (\<lambda>r. ru_name r \<notin> {''paper_days'', ''paper_intents''}) all_rules @ low_frequency_rules
                    else all_rules) @
                   (if prediction_market then prediction_rules else []))
             else base)
      in funded @ (if stage = ''scale'' then scale_rules else []))"

fun evaluate_rules :: "evidence_map \<Rightarrow> rule list \<Rightarrow> check list result" where
  "evaluate_rules evidence [] = Inr []"
| "evaluate_rules evidence (r # rs) =
     bind (evaluate_rule evidence r) (\<lambda>c. bind (evaluate_rules evidence rs) (\<lambda>cs. Inr (c # cs)))"

text \<open>The versioned definition of the policy and its fingerprint.\<close>

definition threshold_json :: "rat \<Rightarrow> json" where
  "threshold_json x =
     (if x = 1 / 2 then JFloat ''0.5'' else if x = double_1_1 then JFloat ''1.1''
      else if x = double_1e_12 then JFloat ''1e-12'' else if x = double_0_05 then JFloat ''0.05''
      else if x = double_0_999 then JFloat ''0.999'' else JInt \<lfloor>x\<rfloor>)"

definition rule_json :: "rule \<Rightarrow> json" where
  "rule_json r = JObj
     [(''name'', JStr (ru_name r)), (''comparison'', JStr (if ru_comparison r = at_least then ''>='' else ''<='')),
      (''threshold'', threshold_json (ru_threshold r)), (''sample_profile'', JStr (ru_sample_profile r)),
      (''failure_action'', JStr (ru_failure_action r)), (''method'', JStr (ru_method r))]"

definition policy_definition :: json where
  "policy_definition = JObj
     [(''version'', JStr ''qt-production-v1''),
      (''rules'', JArr (map rule_json (integrity_rules @ strategy_rules @ forward_rules))),
      (''defaults'', JObj
         [(''paper_capital'', JStr ''10000''), (''max_order_fraction'', JStr ''0.02''),
          (''max_position_fraction'', JStr ''0.30''), (''max_daily_loss_fraction'', JStr ''0.005''),
          (''max_drawdown_fraction'', JStr ''0.03''), (''max_leverage'', JStr ''1'')])]"

definition fingerprint :: "hasher \<Rightarrow> string" where
  "fingerprint sha = content_hash sha policy_definition"

text \<open>\<open>GatePolicy.evaluate\<close>\<close>

record decision =
  dc_policy_hash :: string
  dc_stage :: string
  dc_eligible :: bool
  dc_checks :: "check list"

definition evaluate_stage :: "hasher \<Rightarrow> string \<Rightarrow> evidence_map \<Rightarrow> bool \<Rightarrow> bool \<Rightarrow> decision result" where
  "evaluate_stage sha stage evidence low_frequency prediction_market =
     bind (raise_if (stage \<notin> set stages) (ValueError ''unknown_promotion_stage'')) (\<lambda>_.
     bind (evaluate_rules evidence (stage_rules stage low_frequency prediction_market)) (\<lambda>checks.
     Inr \<lparr>dc_policy_hash = fingerprint sha, dc_stage = stage, dc_eligible = list_all (\<lambda>c. gk_status c = check_pass) checks, dc_checks = checks\<rparr>))"

section \<open>What eligibility means\<close>

definition satisfied :: "evidence_map \<Rightarrow> rule \<Rightarrow> bool" where
  "satisfied evidence r \<longleftrightarrow>
     (case finite_number (map_of evidence (ru_name r)) of
        Inr (Some v) \<Rightarrow> \<not> outside_domain (ru_name r) v \<and>
          (if ru_comparison r = at_least then ru_threshold r \<le> v else v \<le> ru_threshold r)
      | _ \<Rightarrow> False)"

lemma evaluate_rule_pass:
  assumes "evaluate_rule evidence r = Inr c"
  shows "gk_status c = check_pass \<longleftrightarrow> satisfied evidence r"
proof (cases "finite_number (map_of evidence (ru_name r))")
  case (Inr found)
  then show ?thesis
    using assms unfolding evaluate_rule_def satisfied_def Let_def
    by (cases found) (auto split: if_splits)
qed (use assms in \<open>simp add: evaluate_rule_def\<close>)

lemma satisfied_evaluates: "satisfied evidence r \<Longrightarrow> \<exists>c. evaluate_rule evidence r = Inr c"
  by (cases "finite_number (map_of evidence (ru_name r))")
    (auto simp: satisfied_def evaluate_rule_def Let_def split: option.splits)

lemma evaluate_rules_pass:
  "evaluate_rules evidence rs = Inr cs \<Longrightarrow>
   list_all (\<lambda>c. gk_status c = check_pass) cs \<longleftrightarrow> list_all (satisfied evidence) rs"
  by (induction evidence rs arbitrary: cs rule: evaluate_rules.induct)
    (auto simp: bind_eq_Inr dest: evaluate_rule_pass)

lemma evaluate_rules_total:
  "list_all (satisfied evidence) rs \<Longrightarrow> \<exists>cs. evaluate_rules evidence rs = Inr cs"
  by (induction evidence rs rule: evaluate_rules.induct) (auto dest!: satisfied_evaluates)

definition funded_rules :: "bool \<Rightarrow> bool \<Rightarrow> rule list" where
  "funded_rules lf pm =
     (if lf then filter (\<lambda>r. ru_name r \<notin> {''paper_days'', ''paper_intents''})
               (integrity_rules @ strategy_rules @ forward_rules) @ low_frequency_rules
      else integrity_rules @ strategy_rules @ forward_rules) @
     (if pm then prediction_rules else [])"

lemma stage_rules_simps:
  "stage_rules ''research'' lf pm = integrity_rules"
  "stage_rules ''paper'' lf pm = integrity_rules"
  "stage_rules ''shadow'' lf pm = integrity_rules @ strategy_rules"
  "stage_rules ''live_canary'' lf pm = funded_rules lf pm"
  "stage_rules ''scale'' lf pm = funded_rules lf pm @ scale_rules"
  by (simp_all add: stage_rules_def funded_rules_def Let_def)

lemma validated_names:
  "r \<in> set (integrity_rules @ strategy_rules) \<Longrightarrow> ru_name r \<noteq> ''paper_days'' \<and> ru_name r \<noteq> ''paper_intents''"
proof -
  have "list_all (\<lambda>r. ru_name r \<noteq> ''paper_days'' \<and> ru_name r \<noteq> ''paper_intents'') (integrity_rules @ strategy_rules)"
    by (simp add: integrity_rules_def strategy_rules_def rule_of_def)
  then show "r \<in> set (integrity_rules @ strategy_rules) \<Longrightarrow> ?thesis" by (simp only: list_all_iff) blast
qed

lemma stage_rules_mono:
  "set (stage_rules ''research'' lf pm) \<subseteq> set (stage_rules ''shadow'' lf pm)"
  "set (stage_rules ''shadow'' lf pm) \<subseteq> set (stage_rules ''live_canary'' lf pm)"
  "set (stage_rules ''live_canary'' lf pm) \<subseteq> set (stage_rules ''scale'' lf pm)"
proof -
  show "set (stage_rules ''research'' lf pm) \<subseteq> set (stage_rules ''shadow'' lf pm)"
    unfolding stage_rules_simps by simp
  show "set (stage_rules ''shadow'' lf pm) \<subseteq> set (stage_rules ''live_canary'' lf pm)"
  proof
    fix r assume "r \<in> set (stage_rules ''shadow'' lf pm)"
    then have r: "r \<in> set (integrity_rules @ strategy_rules)" by (simp only: stage_rules_simps)
    then have "r \<in> set (integrity_rules @ strategy_rules @ forward_rules)" by auto
    with validated_names[OF r] show "r \<in> set (stage_rules ''live_canary'' lf pm)"
      unfolding stage_rules_simps funded_rules_def by (cases lf) (simp_all only: set_append set_filter if_True if_False, blast+)
  qed
  show "set (stage_rules ''live_canary'' lf pm) \<subseteq> set (stage_rules ''scale'' lf pm)"
    unfolding stage_rules_simps by simp
qed

lemma evaluate_stage_eligible:
  "evaluate_stage sha stage evidence lf pm = Inr dec \<Longrightarrow>
   dc_eligible dec \<longleftrightarrow> list_all (satisfied evidence) (stage_rules stage lf pm)"
  by (auto simp: evaluate_stage_def bind_eq_Inr evaluate_rules_pass)

end
