(* ===== verification/Orderbook.thy ===== *)
theory Orderbook
  imports Contracts
begin

text \<open>
  The deterministic L2 book of \<open>src/qt/marketdata/orderbook.py\<close>: a snapshot starts a synchronisation,
  contiguous deltas advance it, any gap or contradiction invalidates it until the next snapshot.  A
  side of the book is a Python dictionary from price to quantity, an association list in insertion
  order.  Exceptions of class \<open>BookInvalidError\<close> that \<open>apply_snapshot\<close> and \<open>apply_delta\<close> catch become
  the invalid reason.
\<close>

section \<open>Messages\<close>

record price_level =
  lv_price :: rat
  lv_quantity :: rat

definition valid_price_level :: "price_level \<Rightarrow> bool" where
  "valid_price_level l \<longleftrightarrow> valid_positive (lv_price l) \<and> valid_nonnegative (lv_quantity l)"

definition price_level_json :: "price_level \<Rightarrow> json" where
  "price_level_json l = JObj [(''schema_version'', JStr ''2.0''), (''price'', jdec (lv_price l)),
     (''quantity'', jdec (lv_quantity l))]"

record depth_snapshot =
  sd_last_update_id :: int
  sd_bids :: "price_level list"
  sd_asks :: "price_level list"
  sd_exchange_ts_ns :: int
  sd_received_ts_ns :: int

definition valid_depth_snapshot :: "depth_snapshot \<Rightarrow> bool" where
  "valid_depth_snapshot s \<longleftrightarrow> 0 \<le> sd_last_update_id s \<and> list_all valid_price_level (sd_bids s) \<and>
     list_all valid_price_level (sd_asks s) \<and> valid_timestamp (sd_exchange_ts_ns s) \<and>
     valid_timestamp (sd_received_ts_ns s)"

record depth_delta =
  dd_first_update_id :: int
  dd_last_update_id :: int
  dd_previous_final_update_id :: "int option"
  dd_bids :: "price_level list"
  dd_asks :: "price_level list"
  dd_exchange_ts_ns :: int
  dd_received_ts_ns :: int

text \<open>The constructor of \<open>DepthDelta\<close> accepts exactly these values.\<close>

definition valid_depth_delta :: "depth_delta \<Rightarrow> bool" where
  "valid_depth_delta m \<longleftrightarrow> 0 \<le> dd_first_update_id m \<and> 0 \<le> dd_last_update_id m \<and>
     opt_all (\<lambda>u. 0 \<le> u) (dd_previous_final_update_id m) \<and> list_all valid_price_level (dd_bids m) \<and>
     list_all valid_price_level (dd_asks m) \<and> valid_timestamp (dd_exchange_ts_ns m) \<and>
     valid_timestamp (dd_received_ts_ns m) \<and> dd_first_update_id m \<le> dd_last_update_id m"

definition depth_delta_json :: "depth_delta \<Rightarrow> json" where
  "depth_delta_json m = JObj
     [(''schema_version'', JStr ''2.0''), (''first_update_id'', JInt (dd_first_update_id m)),
      (''last_update_id'', JInt (dd_last_update_id m)),
      (''previous_final_update_id'', jopt JInt (dd_previous_final_update_id m)),
      (''bids'', JArr (map price_level_json (dd_bids m))),
      (''asks'', JArr (map price_level_json (dd_asks m))),
      (''exchange_ts_ns'', JInt (dd_exchange_ts_ns m)), (''received_ts_ns'', JInt (dd_received_ts_ns m))]"

record book_view =
  vw_last_update_id :: int
  vw_bids :: "price_level list"
  vw_asks :: "price_level list"
  vw_exchange_ts_ns :: int
  vw_received_ts_ns :: int

section \<open>The book\<close>

datatype book_status = BOOK_INVALID | BOOK_SYNCING | BOOK_VALID

type_synonym book_side = "(rat \<times> rat) list"

record order_book =
  bk_maximum_levels :: int
  bk_status :: book_status
  bk_invalid_reason :: "string option"
  bk_last_update_id :: "int option"
  bk_exchange_ts_ns :: int
  bk_received_ts_ns :: int
  bk_bids :: book_side
  bk_asks :: book_side
  bk_last_delta_hash :: "string option"
  bk_last_delta_received_ns :: "int option"

definition make_book :: "int \<Rightarrow> order_book result" where
  "make_book maximum =
     bind (raise_if (maximum < 1) (ValueError ''maximum levels must be a positive integer'')) (\<lambda>_.
     Inr \<lparr>bk_maximum_levels = maximum, bk_status = BOOK_INVALID, bk_invalid_reason = Some ''snapshot_required'',
          bk_last_update_id = None, bk_exchange_ts_ns = 0, bk_received_ts_ns = 0, bk_bids = [], bk_asks = [],
          bk_last_delta_hash = None, bk_last_delta_received_ns = None\<rparr>)"

definition invalidate :: "string \<Rightarrow> order_book \<Rightarrow> order_book" where
  "invalidate reason b = b\<lparr>bk_status := BOOK_INVALID, bk_invalid_reason := Some reason\<rparr>"

text \<open>\<open>_levels\<close>: the dictionary of a list of levels.\<close>

definition side_levels :: "bool \<Rightarrow> price_level list \<Rightarrow> book_side result" where
  "side_levels is_snapshot levels =
     bind (raise_if (\<not> distinct (map lv_price levels)) (BookInvalidError ''duplicate_price_level'')) (\<lambda>_.
     bind (raise_if (is_snapshot \<and> list_ex (\<lambda>l. lv_quantity l = 0) levels)
             (BookInvalidError ''zero_quantity_in_snapshot'')) (\<lambda>_.
     Inr (map (\<lambda>l. (lv_price l, lv_quantity l)) levels)))"

definition best_bid :: "book_side \<Rightarrow> rat" where
  "best_bid bids = Max (fst ` set bids)"

definition best_ask :: "book_side \<Rightarrow> rat" where
  "best_ask asks = Min (fst ` set asks)"

definition check_spread :: "book_side \<Rightarrow> book_side \<Rightarrow> unit result" where
  "check_spread bids asks =
     bind (raise_if (bids = [] \<or> asks = []) (BookInvalidError ''empty_side'')) (\<lambda>_.
     raise_if (best_bid bids \<ge> best_ask asks) (BookInvalidError ''crossed_or_locked_book''))"

text \<open>\<open>target.pop(price, None)\<close> and \<open>target[price] = quantity\<close>.\<close>

definition side_pop :: "rat \<Rightarrow> book_side \<Rightarrow> book_side" where
  "side_pop p s = filter (\<lambda>(x, _). x \<noteq> p) s"

fun side_put :: "rat \<Rightarrow> rat \<Rightarrow> book_side \<Rightarrow> book_side" where
  "side_put p q [] = [(p, q)]"
| "side_put p q ((x, y) # s) = (if x = p then (x, q) # s else (x, y) # side_put p q s)"

fun apply_changes :: "book_side \<Rightarrow> book_side \<Rightarrow> book_side" where
  "apply_changes [] target = target"
| "apply_changes ((p, q) # changes) target =
     apply_changes changes (if q = 0 then side_pop p target else side_put p q target)"

definition capacity_check :: "order_book \<Rightarrow> book_side \<Rightarrow> book_side \<Rightarrow> unit result" where
  "capacity_check b bids asks =
     raise_if (max (int (length bids)) (int (length asks)) > bk_maximum_levels b)
       (BookInvalidError ''depth_capacity_requires_resnapshot'')"

text \<open>The exception that stops an update becomes the invalid reason.\<close>

definition or_invalid :: "order_book \<Rightarrow> 'a result \<Rightarrow> ('a \<Rightarrow> bool \<times> order_book) \<Rightarrow> bool \<times> order_book" where
  "or_invalid b r f = (case r of Inl e \<Rightarrow> (False, invalidate (error_text e) b) | Inr x \<Rightarrow> f x)"

definition snapshot_sides :: "order_book \<Rightarrow> depth_snapshot \<Rightarrow> (book_side \<times> book_side) result" where
  "snapshot_sides b s =
     bind (side_levels True (sd_bids s)) (\<lambda>bids.
     bind (side_levels True (sd_asks s)) (\<lambda>asks.
     bind (capacity_check b bids asks) (\<lambda>_.
     bind (check_spread bids asks) (\<lambda>_. Inr (bids, asks)))))"

definition apply_snapshot :: "depth_snapshot \<Rightarrow> order_book \<Rightarrow> bool \<times> order_book" where
  "apply_snapshot s b =
     or_invalid b (snapshot_sides b s) (\<lambda>(bids, asks).
       (True, b\<lparr>bk_bids := bids, bk_asks := asks, bk_last_update_id := Some (sd_last_update_id s),
          bk_exchange_ts_ns := sd_exchange_ts_ns s, bk_received_ts_ns := sd_received_ts_ns s,
          bk_last_delta_hash := None, bk_last_delta_received_ns := None,
          bk_status := BOOK_SYNCING, bk_invalid_reason := Some ''bridging_delta_required''\<rparr>))"

definition delta_hash :: "hasher \<Rightarrow> depth_delta \<Rightarrow> string" where
  "delta_hash sha m = content_hash sha (depth_delta_json (m\<lparr>dd_received_ts_ns := 0\<rparr>))"

definition delta_sides :: "order_book \<Rightarrow> depth_delta \<Rightarrow> (book_side \<times> book_side) result" where
  "delta_sides b m =
     bind (side_levels False (dd_bids m)) (\<lambda>bid_changes.
     bind (side_levels False (dd_asks m)) (\<lambda>ask_changes.
     let bids = apply_changes bid_changes (bk_bids b); asks = apply_changes ask_changes (bk_asks b) in
     bind (capacity_check b bids asks) (\<lambda>_.
     bind (check_spread bids asks) (\<lambda>_. Inr (bids, asks)))))"

definition apply_delta :: "hasher \<Rightarrow> depth_delta \<Rightarrow> order_book \<Rightarrow> bool \<times> order_book" where
  "apply_delta sha m b =
     (case bk_last_update_id b of
        None \<Rightarrow> (False, b)
      | Some current \<Rightarrow>
          if bk_status b = BOOK_INVALID then (False, b)
          else
            let digest = delta_hash sha m in
            if bk_status b = BOOK_SYNCING \<and> dd_last_update_id m \<le> current then (False, b)
            else if dd_last_update_id m = current \<and> Some digest = bk_last_delta_hash b then (False, b)
            else if dd_last_update_id m \<le> current
            then (False, invalidate ''out_of_order_or_conflicting_duplicate'' b)
            else if (case bk_last_delta_received_ns b of None \<Rightarrow> False | Some r \<Rightarrow> dd_received_ts_ns m < r)
            then (False, invalidate ''receipt_time_regression'' b)
            else if \<not> (dd_first_update_id m \<le> current + 1 \<and> current + 1 \<le> dd_last_update_id m)
            then (False, invalidate ''sequence_gap'' b)
            else if bk_status b = BOOK_VALID \<and> dd_previous_final_update_id m \<noteq> None \<and>
                    dd_previous_final_update_id m \<noteq> Some current
            then (False, invalidate ''previous_sequence_mismatch'' b)
            else
              or_invalid b (delta_sides b m) (\<lambda>(bids, asks).
                (True, b\<lparr>bk_bids := bids, bk_asks := asks, bk_last_update_id := Some (dd_last_update_id m),
                   bk_exchange_ts_ns := dd_exchange_ts_ns m,
                   bk_received_ts_ns := max (bk_received_ts_ns b) (dd_received_ts_ns m),
                   bk_last_delta_received_ns := Some (dd_received_ts_ns m),
                   bk_last_delta_hash := Some digest, bk_status := BOOK_VALID, bk_invalid_reason := None\<rparr>)))"

text \<open>The best levels first: bids by falling price, asks by rising price.\<close>

definition side_view :: "bool \<Rightarrow> nat \<Rightarrow> book_side \<Rightarrow> price_level list" where
  "side_view descending depth s =
     map (\<lambda>(p, q). \<lparr>lv_price = p, lv_quantity = q\<rparr>)
       (take depth (if descending then rev (sort s) else sort s))"

definition book_refuses :: "string \<Rightarrow> order_book \<Rightarrow> book_view result \<times> order_book" where
  "book_refuses reason b = (Inl (BookInvalidError reason), b)"

definition view_book :: "int \<Rightarrow> int \<Rightarrow> int \<Rightarrow> order_book \<Rightarrow> book_view result \<times> order_book" where
  "view_book now maximum_age depth b =
     (if depth \<le> 0 \<or> maximum_age < 0 \<or> now < 0
      then (Inl (ValueError ''depth must be positive and age nonnegative''), b)
      else case bk_last_update_id b of
        None \<Rightarrow> book_refuses (case bk_invalid_reason b of Some (c # r) \<Rightarrow> c # r | _ \<Rightarrow> ''invalid_book'') b
      | Some current \<Rightarrow>
          if bk_status b \<noteq> BOOK_VALID
          then book_refuses (case bk_invalid_reason b of Some (c # r) \<Rightarrow> c # r | _ \<Rightarrow> ''invalid_book'') b
          else if now < bk_received_ts_ns b
          then book_refuses ''receipt_in_future'' (invalidate ''receipt_in_future'' b)
          else if now < bk_exchange_ts_ns b
          then book_refuses ''exchange_time_in_future'' (invalidate ''exchange_time_in_future'' b)
          else if now - bk_received_ts_ns b > maximum_age then book_refuses ''stale_book'' b
          else if now - bk_exchange_ts_ns b > maximum_age then book_refuses ''stale_exchange_data'' b
          else (Inr \<lparr>vw_last_update_id = current, vw_bids = side_view True (nat depth) (bk_bids b),
                  vw_asks = side_view False (nat depth) (bk_asks b),
                  vw_exchange_ts_ns = bk_exchange_ts_ns b, vw_received_ts_ns = bk_received_ts_ns b\<rparr>, b))"

section \<open>Sides as maps\<close>

definition side_ok :: "book_side \<Rightarrow> bool" where
  "side_ok s \<longleftrightarrow> distinct (map fst s) \<and> list_all (\<lambda>(p, q). 0 < q) s"

lemma map_of_side_pop: "map_of (side_pop p s) x = (if x = p then None else map_of s x)"
  by (induction s) (auto simp: side_pop_def)

lemma map_of_side_put: "map_of (side_put p q s) x = (if x = p then Some q else map_of s x)"
  by (induction p q s rule: side_put.induct) auto

lemma side_pop_keys: "fst ` set (side_pop p s) = fst ` set s - {p}"
  by (auto simp: side_pop_def image_iff)

lemma side_put_keys: "fst ` set (side_put p q s) = insert p (fst ` set s)"
  by (induction p q s rule: side_put.induct) auto

lemma side_ok_pop: "side_ok s \<Longrightarrow> side_ok (side_pop p s)"
  by (induction s) (auto simp: side_ok_def side_pop_def)

lemma side_ok_put:
  assumes "side_ok s" and "0 < q"
  shows "side_ok (side_put p q s)"
  using assms
proof (induction p q s rule: side_put.induct)
  case (2 p q x y s)
  then show ?case using side_put_keys[of p q s] by (auto simp: side_ok_def)
qed (simp add: side_ok_def)

lemma side_ok_changes:
  "side_ok target \<Longrightarrow> list_all (\<lambda>(p, q). 0 \<le> q) changes \<Longrightarrow> side_ok (apply_changes changes target)"
  by (induction changes target rule: apply_changes.induct) (auto simp: side_ok_pop side_ok_put)

text \<open>What a list of level changes does to a map from prices to quantities.\<close>

definition side_update :: "price_level list \<Rightarrow> (rat \<rightharpoonup> rat) \<Rightarrow> rat \<rightharpoonup> rat" where
  "side_update levels m = (\<lambda>p. case map_of (map (\<lambda>l. (lv_price l, lv_quantity l)) levels) p of
     None \<Rightarrow> m p | Some q \<Rightarrow> if q = 0 then None else Some q)"

lemma map_of_apply_changes:
  "distinct (map fst changes) \<Longrightarrow> map_of (apply_changes changes target) p =
     (case map_of changes p of None \<Rightarrow> map_of target p | Some q \<Rightarrow> if q = 0 then None else Some q)"
proof (induction changes target rule: apply_changes.induct)
  case (2 x q changes target)
  then have "map_of changes x = None" by (simp add: map_of_eq_None_iff)
  with 2 show ?case by (auto simp: map_of_side_pop map_of_side_put split: option.splits)
qed simp

lemma side_levels_eq [result_simps]:
  "side_levels is_snapshot levels = Inr s \<longleftrightarrow> distinct (map lv_price levels) \<and>
     (is_snapshot \<longrightarrow> (\<forall>l \<in> set levels. lv_quantity l \<noteq> 0)) \<and> s = map (\<lambda>l. (lv_price l, lv_quantity l)) levels"
  by (auto simp: side_levels_def result_simps list_ex_iff)

section \<open>Accepted messages\<close>

definition book_uncrossed :: "order_book \<Rightarrow> bool" where
  "book_uncrossed b \<longleftrightarrow> bk_bids b \<noteq> [] \<and> bk_asks b \<noteq> [] \<and> best_bid (bk_bids b) < best_ask (bk_asks b)"

definition book_inv :: "order_book \<Rightarrow> bool" where
  "book_inv b \<longleftrightarrow> side_ok (bk_bids b) \<and> side_ok (bk_asks b) \<and>
     int (length (bk_bids b)) \<le> bk_maximum_levels b \<and> int (length (bk_asks b)) \<le> bk_maximum_levels b \<and>
     (bk_status b \<noteq> BOOK_INVALID \<longrightarrow> bk_last_update_id b \<noteq> None \<and> book_uncrossed b)"

lemma book_inv_invalidate: "book_inv b \<Longrightarrow> book_inv (invalidate reason b)"
  by (simp add: book_inv_def invalidate_def)

lemma or_invalid_cases:
  assumes "or_invalid b r f = (applied, b')"
  obtains (refused) reason where "applied = False" "b' = invalidate reason b"
  | (accepted) x where "r = Inr x" "f x = (applied, b')"
  using assms by (cases r) (auto simp: or_invalid_def)

lemma snapshot_sides_ok:
  assumes "snapshot_sides b s = Inr (bids, asks)" and "valid_depth_snapshot s"
  shows "side_ok bids \<and> side_ok asks \<and> int (length bids) \<le> bk_maximum_levels b \<and>
    int (length asks) \<le> bk_maximum_levels b \<and> bids \<noteq> [] \<and> asks \<noteq> [] \<and> best_bid bids < best_ask asks"
  using assms
  by (auto simp: snapshot_sides_def capacity_check_def check_spread_def result_simps side_ok_def comp_def
      list_all_iff valid_depth_snapshot_def valid_price_level_def valid_nonnegative_def less_le)

lemma delta_sides_ok:
  assumes "delta_sides b m = Inr (bids, asks)"
  shows "bids = apply_changes (map (\<lambda>l. (lv_price l, lv_quantity l)) (dd_bids m)) (bk_bids b)"
    and "asks = apply_changes (map (\<lambda>l. (lv_price l, lv_quantity l)) (dd_asks m)) (bk_asks b)"
    and "distinct (map lv_price (dd_bids m))" and "distinct (map lv_price (dd_asks m))"
    and "int (length bids) \<le> bk_maximum_levels b" and "int (length asks) \<le> bk_maximum_levels b"
    and "bids \<noteq> []" and "asks \<noteq> []" and "best_bid bids < best_ask asks"
  using assms by (auto simp: delta_sides_def Let_def capacity_check_def check_spread_def result_simps)

lemma apply_snapshot_inv:
  assumes "apply_snapshot s b = (applied, b')" and "valid_depth_snapshot s" and "book_inv b"
  shows "book_inv b'"
proof -
  from assms(1)[unfolded apply_snapshot_def] show ?thesis
  proof (cases rule: or_invalid_cases)
    case (accepted x)
    with snapshot_sides_ok[of b s "fst x" "snd x"] assms(2) show ?thesis
      by (auto simp: book_inv_def book_uncrossed_def split: prod.splits)
  qed (simp add: assms(3) book_inv_invalidate)
qed

text \<open>What an accepted delta met, and what it did.\<close>

lemma apply_delta_cases:
  assumes "apply_delta sha m b = (applied, b')"
  obtains (ignored) "applied = False" "b' = b"
  | (invalid) reason where "applied = False" "b' = invalidate reason b" "bk_status b \<noteq> BOOK_INVALID"
  | (advance) current bids asks where "applied = True" "bk_last_update_id b = Some current"
      "bk_status b \<noteq> BOOK_INVALID" "dd_first_update_id m \<le> current + 1" "current + 1 \<le> dd_last_update_id m"
      "delta_sides b m = Inr (bids, asks)" "bk_status b' = BOOK_VALID" "bk_bids b' = bids" "bk_asks b' = asks"
      "bk_last_update_id b' = Some (dd_last_update_id m)" "bk_maximum_levels b' = bk_maximum_levels b"
proof (cases "bk_last_update_id b")
  case None
  then show ?thesis using assms ignored by (simp add: apply_delta_def)
next
  case (Some current)
  show ?thesis
  proof (cases "\<exists>reason. apply_delta sha m b = (False, b) \<or> (bk_status b \<noteq> BOOK_INVALID \<and> apply_delta sha m b = (False, invalidate reason b))")
    case True
    then show ?thesis using assms ignored invalid by auto
  next
    case False
    then have "bk_status b \<noteq> BOOK_INVALID" "dd_first_update_id m \<le> current + 1" "current + 1 \<le> dd_last_update_id m"
      and o: "or_invalid b (delta_sides b m) (\<lambda>(bids, asks).
                (True, b\<lparr>bk_bids := bids, bk_asks := asks, bk_last_update_id := Some (dd_last_update_id m),
                   bk_exchange_ts_ns := dd_exchange_ts_ns m,
                   bk_received_ts_ns := max (bk_received_ts_ns b) (dd_received_ts_ns m),
                   bk_last_delta_received_ns := Some (dd_received_ts_ns m),
                   bk_last_delta_hash := Some (delta_hash sha m), bk_status := BOOK_VALID, bk_invalid_reason := None\<rparr>))
              = (applied, b')"
      using assms Some unfolding apply_delta_def Let_def by (auto split: if_splits)
    note facts = this
    from o show ?thesis
    proof (cases rule: or_invalid_cases)
      case (refused reason)
      then show ?thesis using facts(1) invalid by blast
    next
      case (accepted x)
      then show ?thesis using facts(1-3) Some advance[of current "fst x" "snd x"] by (auto split: prod.splits)
    qed
  qed
qed

lemma apply_delta_inv:
  assumes "apply_delta sha m b = (applied, b')" and "valid_depth_delta m" and "book_inv b"
  shows "book_inv b'"
  using assms(1)
proof (cases rule: apply_delta_cases)
  case (advance current bids asks)
  note ok = delta_sides_ok[OF advance(6)]
  have "list_all (\<lambda>(p, q). 0 \<le> q) (map (\<lambda>l. (lv_price l, lv_quantity l)) (dd_bids m))"
    "list_all (\<lambda>(p, q). 0 \<le> q) (map (\<lambda>l. (lv_price l, lv_quantity l)) (dd_asks m))"
    using assms(2) by (auto simp: valid_depth_delta_def list_all_iff valid_price_level_def valid_nonnegative_def)
  then have "side_ok bids" "side_ok asks"
    unfolding ok(1,2) using assms(3) by (auto intro: side_ok_changes simp: book_inv_def)
  then show ?thesis using advance ok(5-9) by (simp add: book_inv_def book_uncrossed_def)
qed (simp_all add: assms(3) book_inv_invalidate)

lemma view_book_keeps: "view_book now age depth b = (r, b') \<Longrightarrow> b' = b \<or> (\<exists>reason. b' = invalidate reason b)"
  by (auto simp: view_book_def book_refuses_def split: if_splits option.splits)

inductive book_step :: "hasher \<Rightarrow> order_book \<Rightarrow> order_book \<Rightarrow> bool" for sha where
  snapshot_step: "valid_depth_snapshot s \<Longrightarrow> apply_snapshot s b = (applied, b') \<Longrightarrow> book_step sha b b'"
| delta_step: "valid_depth_delta m \<Longrightarrow> apply_delta sha m b = (applied, b') \<Longrightarrow> book_step sha b b'"
| view_step: "view_book now age depth b = (r, b') \<Longrightarrow> book_step sha b b'"
| invalidate_step: "book_step sha b (invalidate reason b)"

inductive_cases book_stepE: "book_step sha b b'"

lemma book_inv_step: "book_step sha b b' \<Longrightarrow> book_inv b \<Longrightarrow> book_inv b'"
  by (erule book_stepE)
    (auto dest: apply_snapshot_inv apply_delta_inv view_book_keeps intro: book_inv_invalidate)

definition blank_book :: "nat \<Rightarrow> order_book" where
  "blank_book n = \<lparr>bk_maximum_levels = int n + 1, bk_status = BOOK_INVALID,
     bk_invalid_reason = Some ''snapshot_required'', bk_last_update_id = None, bk_exchange_ts_ns = 0,
     bk_received_ts_ns = 0, bk_bids = [], bk_asks = [], bk_last_delta_hash = None,
     bk_last_delta_received_ns = None\<rparr>"

lemma make_book_blank: "make_book maximum = Inr b \<Longrightarrow> b = blank_book (nat (maximum - 1))"
  by (auto simp: make_book_def blank_book_def result_simps)

lemma book_inv_blank: "book_inv (blank_book n)"
  by (simp add: blank_book_def book_inv_def side_ok_def)

interpretation books: transition_system "book_step sha" book_inv "blank_book n" for sha n
  by unfold_locales (auto intro: book_inv_step book_inv_blank)

section \<open>What the book promises\<close>

text \<open>
  C5: an accepted delta continues the book without a gap and does exactly the dictionary update it
  describes: its range covers the next update id, every price it names is set to its quantity or
  removed when that is zero, every other price is untouched, and the result is uncrossed.
\<close>

theorem delta_refines_map_update:
  assumes "apply_delta sha m b = (True, b')"
  shows "(\<exists>current. bk_last_update_id b = Some current \<and> dd_first_update_id m \<le> current + 1 \<and>
            current + 1 \<le> dd_last_update_id m) \<and>
         bk_last_update_id b' = Some (dd_last_update_id m) \<and>
         map_of (bk_bids b') = side_update (dd_bids m) (map_of (bk_bids b)) \<and>
         map_of (bk_asks b') = side_update (dd_asks m) (map_of (bk_asks b)) \<and>
         bk_status b' = BOOK_VALID \<and> book_uncrossed b'"
  using assms
proof (cases rule: apply_delta_cases)
  case (advance current bids asks)
  note ok = delta_sides_ok[OF advance(6)]
  have "map_of (bk_bids b') = side_update (dd_bids m) (map_of (bk_bids b))"
    "map_of (bk_asks b') = side_update (dd_asks m) (map_of (bk_asks b))"
    using ok(3,4) unfolding advance(8,9) ok(1,2)
    by (auto simp: side_update_def map_of_apply_changes comp_def)
  then show ?thesis using advance ok(7-9) by (simp add: book_uncrossed_def)
qed simp_all

definition level :: "rat \<Rightarrow> rat \<Rightarrow> price_level" where
  "level p q = \<lparr>lv_price = p, lv_quantity = q\<rparr>"

definition demo_snapshot :: depth_snapshot where
  "demo_snapshot = \<lparr>sd_last_update_id = 7, sd_bids = [level 100 2, level 99 1], sd_asks = [level 101 3],
     sd_exchange_ts_ns = 5, sd_received_ts_ns = 6\<rparr>"

definition demo_delta :: depth_delta where
  "demo_delta = \<lparr>dd_first_update_id = 7, dd_last_update_id = 9, dd_previous_final_update_id = None,
     dd_bids = [level 100 0], dd_asks = [level 102 1], dd_exchange_ts_ns = 7, dd_received_ts_ns = 8\<rparr>"

definition demo_book :: order_book where
  "demo_book = snd (apply_delta (\<lambda>s. s) demo_delta (snd (apply_snapshot demo_snapshot (blank_book 9))))"

lemmas book_simps = apply_snapshot_def snapshot_sides_def side_levels_def capacity_check_def
  check_spread_def best_bid_def best_ask_def or_invalid_def raise_if_def apply_delta_def delta_sides_def
  side_pop_def Let_def level_def demo_snapshot_def demo_delta_def blank_book_def

lemma demo_synced: "apply_snapshot demo_snapshot (blank_book 9) = (True, snd (apply_snapshot demo_snapshot (blank_book 9)))"
  by (simp add: book_simps)

lemma demo_applied:
  "apply_delta (\<lambda>s. s) demo_delta (snd (apply_snapshot demo_snapshot (blank_book 9))) = (True, demo_book)"
  by (simp add: demo_book_def book_simps)

theorem delta_refines_map_update_witness:
  "map_of (bk_bids demo_book) = side_update [level 100 0] (map_of [(100, 2), (99, 1)])"
proof -
  have "bk_bids (snd (apply_snapshot demo_snapshot (blank_book 9))) = [(100, 2), (99, 1)]"
    "dd_bids demo_delta = [level 100 0]" by (simp_all add: book_simps)
  then show ?thesis using delta_refines_map_update[OF demo_applied] by simp
qed

lemma sorted_strict: "distinct (map fst s) \<Longrightarrow> sorted_wrt (<) (map fst (sort (s :: book_side)))"
proof -
  assume d: "distinct (map fst s)"
  have "sorted (map fst (sort s))"
    using sorted_sort[of s] unfolding sorted_map
    by (rule sorted_wrt_mono_rel[rotated]) (auto simp: less_eq_prod_def)
  moreover have "distinct (map fst (sort s))" using d by (metis distinct_map mset_sort distinct_sort set_sort)
  ultimately show ?thesis by (simp add: strict_sorted_iff)
qed

lemma side_view_sorted:
  assumes "side_ok s"
  shows "sorted_wrt (\<lambda>a b. if descending then lv_price b < lv_price a else lv_price a < lv_price b)
      (side_view descending depth s)"
    and "list_all (\<lambda>l. 0 < lv_quantity l) (side_view descending depth s)"
    and "length (side_view descending depth s) \<le> depth"
proof -
  have up: "sorted_wrt (<) (map fst (sort s))" using assms by (intro sorted_strict) (simp add: side_ok_def)
  then have "sorted_wrt (\<lambda>a b. fst a < fst b) (sort s)" by (simp add: sorted_wrt_map)
  then have "sorted_wrt (\<lambda>a b. if descending then fst b < fst a else fst a < fst b)
      (take depth (if descending then rev (sort s) else sort s))"
    by (intro sorted_wrt_take) (auto simp: sorted_wrt_rev)
  then show "sorted_wrt (\<lambda>a b. if descending then lv_price b < lv_price a else lv_price a < lv_price b)
      (side_view descending depth s)"
    unfolding side_view_def by (cases descending) (simp_all add: sorted_wrt_map case_prod_unfold)
  have "\<forall>x \<in> set (take depth (if descending then rev (sort s) else sort s)). 0 < snd x"
    using assms by (auto simp: side_ok_def list_all_iff dest!: in_set_takeD)
  then show "list_all (\<lambda>l. 0 < lv_quantity l) (side_view descending depth s)"
    unfolding side_view_def by (cases descending) (fastforce simp: list_all_iff)+
  show "length (side_view descending depth s) \<le> depth" by (simp add: side_view_def)
qed

lemma view_book_cases:
  assumes "view_book now age depth b = (Inr v, b')"
  shows "bk_status b = BOOK_VALID" and "b' = b" and "0 < depth"
    and "vw_bids v = side_view True (nat depth) (bk_bids b)" and "vw_asks v = side_view False (nat depth) (bk_asks b)"
    and "bk_received_ts_ns b \<le> now \<and> now - bk_received_ts_ns b \<le> age"
    and "bk_exchange_ts_ns b \<le> now \<and> now - bk_exchange_ts_ns b \<le> age"
  using assms by (auto simp: view_book_def book_refuses_def split: if_splits option.splits)

lemma sort_bounds:
  assumes "s \<noteq> []"
  shows "fst (hd (sort (s :: book_side))) = Min (fst ` set s)" and "fst (hd (rev (sort s))) = Max (fst ` set s)"
proof -
  obtain x xs where x: "sort s = x # xs" using assms by (cases "sort s") (auto simp flip: set_empty simp: set_sort)
  then have sorted: "sorted (x # xs)" by (metis sorted_sort)
  have set: "set s = insert x (set xs)" by (metis x set_sort list.set(2))
  show "fst (hd (sort s)) = Min (fst ` set s)"
    unfolding x set using sorted by (intro Min_eqI[symmetric]) (auto simp: less_eq_prod_def)
  obtain ys y where y: "sort s = ys @ [y]" using x by (metis rev_exhaust list.distinct(1))
  then have sorted': "sorted (ys @ [y])" by (metis sorted_sort)
  have set': "set s = insert y (set ys)" by (metis y set_sort set_append list.set Un_insert_right sup_bot_right)
  show "fst (hd (rev (sort s))) = Max (fst ` set s)"
    unfolding y set' using sorted' by (intro Max_eqI[symmetric]) (auto simp: less_eq_prod_def sorted_append)
qed

lemma hd_side_view:
  assumes "s \<noteq> []" and "0 < depth"
  shows "lv_price (hd (side_view descending (nat depth) s)) = fst (hd (if descending then rev (sort s) else sort s))"
    and "side_view descending (nat depth) s \<noteq> []"
proof -
  have "(if descending then rev (sort s) else sort s) \<noteq> []"
    using assms(1) by (metis length_0_conv length_rev length_sort)
  then obtain x xs where x: "(if descending then rev (sort s) else sort s) = x # xs" by (meson neq_Nil_conv)
  obtain k where k: "nat depth = Suc k" using assms(2) by (cases "nat depth") auto
  show "lv_price (hd (side_view descending (nat depth) s)) = fst (hd (if descending then rev (sort s) else sort s))"
    "side_view descending (nat depth) s \<noteq> []"
    unfolding side_view_def x k by (simp_all split: prod.split)
qed

text \<open>
  Whatever snapshots, deltas, readings and invalidations a book has seen, a view it grants is
  fresh within the requested age by both clocks, shows strictly falling bids and strictly rising asks
  of positive quantity, at most the requested depth, and its best bid is below its best ask.
\<close>

theorem granted_view_is_sound:
  assumes "(book_step sha)\<^sup>*\<^sup>* (blank_book n) b" and "view_book now age depth b = (Inr v, b')"
  shows "sorted_wrt (\<lambda>a c. lv_price c < lv_price a) (vw_bids v) \<and>
    sorted_wrt (\<lambda>a c. lv_price a < lv_price c) (vw_asks v) \<and>
    list_all (\<lambda>l. 0 < lv_quantity l) (vw_bids v @ vw_asks v) \<and>
    length (vw_bids v) \<le> nat depth \<and> length (vw_asks v) \<le> nat depth \<and>
    vw_bids v \<noteq> [] \<and> vw_asks v \<noteq> [] \<and> lv_price (hd (vw_bids v)) < lv_price (hd (vw_asks v)) \<and>
    0 \<le> now - bk_received_ts_ns b \<and> now - bk_received_ts_ns b \<le> age \<and>
    0 \<le> now - bk_exchange_ts_ns b \<and> now - bk_exchange_ts_ns b \<le> age"
proof -
  note v = view_book_cases[OF assms(2)]
  have i: "book_inv b" using books.inv_reachable[OF assms(1)] .
  then have ok: "side_ok (bk_bids b)" "side_ok (bk_asks b)" and u: "book_uncrossed b"
    using v(1) by (auto simp: book_inv_def)
  have ne: "bk_bids b \<noteq> []" "bk_asks b \<noteq> []" using u by (auto simp: book_uncrossed_def)
  have "lv_price (hd (vw_bids v)) < lv_price (hd (vw_asks v))"
    using u hd_side_view(1)[OF ne(1) v(3), of True] hd_side_view(1)[OF ne(2) v(3), of False]
      sort_bounds(2)[OF ne(1)] sort_bounds(1)[OF ne(2)] v(4,5)
    by (simp add: book_uncrossed_def best_bid_def best_ask_def)
  moreover have "sorted_wrt (\<lambda>a c. lv_price c < lv_price a) (vw_bids v)"
    using side_view_sorted(1)[OF ok(1), of True] v(4) by simp
  moreover have "sorted_wrt (\<lambda>a c. lv_price a < lv_price c) (vw_asks v)"
    using side_view_sorted(1)[OF ok(2), of False] v(5) by simp
  moreover have "list_all (\<lambda>l. 0 < lv_quantity l) (vw_bids v @ vw_asks v)"
    using side_view_sorted(2)[OF ok(1)] side_view_sorted(2)[OF ok(2)] v(4,5) by simp
  moreover have "length (vw_bids v) \<le> nat depth \<and> length (vw_asks v) \<le> nat depth"
    using side_view_sorted(3)[OF ok(1)] side_view_sorted(3)[OF ok(2)] v(4,5) by simp
  moreover have "vw_bids v \<noteq> [] \<and> vw_asks v \<noteq> []"
    using hd_side_view(2)[OF ne(1) v(3)] hd_side_view(2)[OF ne(2) v(3)] v(4,5) by simp
  ultimately show ?thesis using v(6,7) by (intro conjI) simp_all
qed

lemma demo_reachable: "(book_step (\<lambda>s. s))\<^sup>*\<^sup>* (blank_book 9) demo_book"
proof -
  have "valid_depth_snapshot demo_snapshot" "valid_depth_delta demo_delta"
    by (simp_all add: valid_depth_snapshot_def valid_depth_delta_def demo_snapshot_def demo_delta_def level_def
        valid_price_level_def valid_positive_def valid_nonnegative_def fits_numeric_def valid_timestamp_def)
  then show ?thesis using demo_synced demo_applied
    by (meson converse_rtranclp_into_rtranclp delta_step r_into_rtranclp snapshot_step)
qed

lemma demo_view: "\<exists>v. view_book 10 4 1 demo_book = (Inr v, demo_book)"
  by (simp add: demo_book_def view_book_def book_simps)

theorem granted_view_is_sound_witness:
  "\<exists>v. view_book 10 4 1 demo_book = (Inr v, demo_book) \<and> length (vw_bids v) \<le> nat 1 \<and>
     lv_price (hd (vw_bids v)) < lv_price (hd (vw_asks v))"
  using demo_view granted_view_is_sound[OF demo_reachable] by blast

text \<open>
  A gap is permanent until the next snapshot: once a book is invalid, no sequence of deltas, however
  long and whatever it contains, brings back a view.
\<close>

lemma gap_needs_snapshot:
  assumes "bk_status b = BOOK_VALID \<or> bk_status b = BOOK_SYNCING" and "bk_last_update_id b = Some current"
    and "current + 1 < dd_first_update_id m"
    and "case bk_last_delta_received_ns b of None \<Rightarrow> True | Some r \<Rightarrow> r \<le> dd_received_ts_ns m"
    and "dd_first_update_id m \<le> dd_last_update_id m"
  shows "snd (apply_delta sha m b) = invalidate ''sequence_gap'' b \<and>
    fold (\<lambda>m b. snd (apply_delta sha m b)) ms (invalidate ''sequence_gap'' b) = invalidate ''sequence_gap'' b \<and>
    (\<exists>e. fst (view_book now age depth (invalidate ''sequence_gap'' b)) = Inl e)"
proof -
  have "apply_delta sha m b = (False, invalidate ''sequence_gap'' b)"
    using assms by (auto simp: apply_delta_def Let_def split: option.splits)
  moreover have "apply_delta sha x (invalidate ''sequence_gap'' b) = (False, invalidate ''sequence_gap'' b)" for x
    by (simp add: apply_delta_def invalidate_def split: option.split)
  then have "fold (\<lambda>m b. snd (apply_delta sha m b)) ms (invalidate ''sequence_gap'' b) = invalidate ''sequence_gap'' b"
    by (induction ms) simp_all
  moreover have "\<exists>e. fst (view_book now age depth (invalidate ''sequence_gap'' b)) = Inl e"
    by (simp add: view_book_def book_refuses_def invalidate_def split: option.split)
  ultimately show ?thesis by simp
qed

lemma stale_deltas_ignored:
  assumes "bk_status b = BOOK_SYNCING" and "bk_last_update_id b = Some current"
    and "list_all (\<lambda>m. dd_last_update_id m \<le> current) stale"
  shows "fold (\<lambda>m b. snd (apply_delta sha m b)) stale b = b"
  using assms(3) by (induction stale) (simp_all add: apply_delta_def assms(1,2) Let_def)

text \<open>
  C31: recovery needs one snapshot and one delta.  Whatever state a book is in, after an acceptable
  snapshot every delta that the snapshot already covers is ignored, and the first one that continues
  it and leaves an uncrossed book within capacity makes the book valid: its sides are the levels of the
  snapshot under the delta's dictionary update, and a reader whose clock and age allow the message's
  times gets the best levels of exactly these sides, under the delta's update id and times.
\<close>

theorem book_recovers:
  assumes "snapshot_sides b s = Inr sides"
    and "synced = snd (apply_snapshot s b)" and "list_all (\<lambda>m. dd_last_update_id m \<le> sd_last_update_id s) stale"
    and "dd_first_update_id m \<le> sd_last_update_id s + 1" and "sd_last_update_id s < dd_last_update_id m"
    and "delta_sides synced m = Inr sides'"
    and "0 < depth" and "0 \<le> now"
    and "max (sd_received_ts_ns s) (dd_received_ts_ns m) \<le> now" and "dd_exchange_ts_ns m \<le> now"
    and "now - max (sd_received_ts_ns s) (dd_received_ts_ns m) \<le> age" and "now - dd_exchange_ts_ns m \<le> age"
  shows "\<exists>v b'. apply_delta sha m (fold (\<lambda>m b. snd (apply_delta sha m b)) stale synced) = (True, b') \<and>
    bk_status b' = BOOK_VALID \<and> book_uncrossed b' \<and>
    map_of (bk_bids b') = side_update (dd_bids m) (map_of (map (\<lambda>l. (lv_price l, lv_quantity l)) (sd_bids s))) \<and>
    map_of (bk_asks b') = side_update (dd_asks m) (map_of (map (\<lambda>l. (lv_price l, lv_quantity l)) (sd_asks s))) \<and>
    view_book now age depth b' = (Inr v, b') \<and> vw_last_update_id v = dd_last_update_id m \<and>
    vw_bids v = side_view True (nat depth) (bk_bids b') \<and> vw_asks v = side_view False (nat depth) (bk_asks b') \<and>
    vw_exchange_ts_ns v = dd_exchange_ts_ns m \<and> vw_received_ts_ns v = max (sd_received_ts_ns s) (dd_received_ts_ns m)"
proof -
  obtain bids asks bids' asks' where sides: "sides = (bids, asks)" "sides' = (bids', asks')" by (metis surj_pair)
  have old: "bids = map (\<lambda>l. (lv_price l, lv_quantity l)) (sd_bids s)" "asks = map (\<lambda>l. (lv_price l, lv_quantity l)) (sd_asks s)"
    using assms(1) by (auto simp: snapshot_sides_def side_levels_def result_simps sides)
  note new = delta_sides_ok[OF assms(6)[unfolded sides]]
  have synced: "bk_status synced = BOOK_SYNCING" "bk_last_update_id synced = Some (sd_last_update_id s)"
    "bk_last_delta_received_ns synced = None" "bk_last_delta_hash synced = None" "bk_received_ts_ns synced = sd_received_ts_ns s"
    "bk_bids synced = bids" "bk_asks synced = asks"
    using assms(1,2) by (auto simp: apply_snapshot_def or_invalid_def sides split: prod.splits)
  let ?b' = "synced\<lparr>bk_bids := bids', bk_asks := asks',
      bk_last_update_id := Some (dd_last_update_id m), bk_exchange_ts_ns := dd_exchange_ts_ns m,
      bk_received_ts_ns := max (bk_received_ts_ns synced) (dd_received_ts_ns m),
      bk_last_delta_received_ns := Some (dd_received_ts_ns m), bk_last_delta_hash := Some (delta_hash sha m),
      bk_status := BOOK_VALID, bk_invalid_reason := None\<rparr>"
  have "apply_delta sha m synced = (True, ?b')"
    using assms(4-6) synced by (simp add: apply_delta_def or_invalid_def Let_def sides)
  moreover have "map_of bids' = side_update (dd_bids m) (map_of (map (\<lambda>l. (lv_price l, lv_quantity l)) (sd_bids s)))"
    "map_of asks' = side_update (dd_asks m) (map_of (map (\<lambda>l. (lv_price l, lv_quantity l)) (sd_asks s)))"
    using new(3,4) unfolding new(1,2) synced(6,7) old(1,2) by (auto simp: side_update_def map_of_apply_changes comp_def)
  moreover have "0 \<le> age" using assms(10,12) by auto
  then have "\<exists>v. view_book now age depth ?b' = (Inr v, ?b') \<and> vw_last_update_id v = dd_last_update_id m \<and>
      vw_bids v = side_view True (nat depth) bids' \<and> vw_asks v = side_view False (nat depth) asks' \<and>
      vw_exchange_ts_ns v = dd_exchange_ts_ns m \<and> vw_received_ts_ns v = max (sd_received_ts_ns s) (dd_received_ts_ns m)"
    using assms(7-12) synced by (simp add: view_book_def not_less del: max.bounded_iff)
  then obtain v where "view_book now age depth ?b' = (Inr v, ?b')" "vw_last_update_id v = dd_last_update_id m"
      "vw_bids v = side_view True (nat depth) bids'" "vw_asks v = side_view False (nat depth) asks'"
      "vw_exchange_ts_ns v = dd_exchange_ts_ns m" "vw_received_ts_ns v = max (sd_received_ts_ns s) (dd_received_ts_ns m)"
    by blast
  ultimately show ?thesis using stale_deltas_ignored[OF synced(1,2) assms(3)] new(7-9)
    by (intro exI[of _ v] exI[of _ ?b']) (simp add: book_uncrossed_def)
qed

theorem book_recovers_witness:
  "\<exists>v b'. apply_delta (\<lambda>s. s) demo_delta (snd (apply_snapshot demo_snapshot (invalidate ''sequence_gap'' demo_book))) = (True, b') \<and>
     view_book 10 4 1 b' = (Inr v, b') \<and> vw_last_update_id v = 9"
proof -
  have "snapshot_sides (invalidate ''sequence_gap'' demo_book) demo_snapshot = Inr ([(100, 2), (99, 1)], [(101, 3)])"
    by (simp add: demo_book_def invalidate_def book_simps)
  moreover have "delta_sides (snd (apply_snapshot demo_snapshot (invalidate ''sequence_gap'' demo_book))) demo_delta =
      Inr ([(99, 1)], [(101, 3), (102, 1)])"
    by (simp add: demo_book_def invalidate_def book_simps)
  moreover have "dd_first_update_id demo_delta = 7" "dd_last_update_id demo_delta = 9" "dd_received_ts_ns demo_delta = 8"
    "dd_exchange_ts_ns demo_delta = 7" "sd_last_update_id demo_snapshot = 7" "sd_received_ts_ns demo_snapshot = 6"
    by (simp_all add: demo_delta_def demo_snapshot_def)
  ultimately show ?thesis
    using book_recovers[of "invalidate ''sequence_gap'' demo_book" demo_snapshot "([(100, 2), (99, 1)], [(101, 3)])" _ "[]" demo_delta
        "([(99, 1)], [(101, 3), (102, 1)])" 1 10 4 "\<lambda>s. s"] by auto
qed

end
