(* ===== verification/Causal.thy ===== *)
theory Causal
  imports Contracts
begin

text \<open>
  Point-in-time access to bars and observations, \<open>src/qt/marketdata/causal.py\<close>: only what was closed
  and available at the decision time is visible, in source order, and nothing that comes later can
  change it.
\<close>

section \<open>Bars\<close>

record closed_bar =
  cb_instrument :: string
  cb_open_ts_ns :: int
  cb_close_ts_ns :: int
  cb_available_at_ns :: int
  cb_received_at_ns :: int
  cb_open :: rat
  cb_high :: rat
  cb_low :: rat
  cb_close :: rat
  cb_volume :: rat

definition valid_closed_bar :: "closed_bar \<Rightarrow> bool" where
  "valid_closed_bar b \<longleftrightarrow>
     valid_timestamp (cb_open_ts_ns b) \<and> valid_timestamp (cb_close_ts_ns b) \<and>
     valid_timestamp (cb_available_at_ns b) \<and> valid_timestamp (cb_received_at_ns b) \<and>
     valid_positive (cb_open b) \<and> valid_positive (cb_high b) \<and> valid_positive (cb_low b) \<and>
     valid_positive (cb_close b) \<and> valid_nonnegative (cb_volume b) \<and>
     cb_open_ts_ns b < cb_close_ts_ns b \<and> cb_close_ts_ns b \<le> cb_available_at_ns b \<and>
     cb_available_at_ns b \<le> cb_received_at_ns b \<and>
     cb_low b \<le> min (cb_open b) (cb_close b) \<and> max (cb_open b) (cb_close b) \<le> cb_high b"

definition known_at :: "bool \<Rightarrow> closed_bar \<Rightarrow> int" where
  "known_at use_received_time b = (if use_received_time then cb_received_at_ns b else cb_available_at_ns b)"

text \<open>
  The loop of \<open>closed_bars_asof\<close>: \<open>selected\<close> is the list so far, last element first, and \<open>previous\<close>
  the availability of the bar before.
\<close>

fun scan_bars :: "int \<Rightarrow> bool \<Rightarrow> closed_bar list \<Rightarrow> int option \<Rightarrow> closed_bar list \<Rightarrow> closed_bar list result" where
  "scan_bars decision use_received selected previous [] = Inr (rev selected)"
| "scan_bars decision use_received selected previous (b # bars) =
     (let known = known_at use_received b in
      if known > decision then Inr (rev selected)
      else if (case previous of None \<Rightarrow> False | Some p \<Rightarrow> known < p)
      then Inl (ValueError ''bars are out of availability order'')
      else if (case selected of [] \<Rightarrow> False | s # _ \<Rightarrow> cb_open_ts_ns b < cb_close_ts_ns s)
      then Inl (ValueError ''bars overlap or revise an earlier bar; use an explicit revision stream'')
      else scan_bars decision use_received
             (if cb_close_ts_ns b \<le> decision then b # selected else selected) (Some known) bars)"

definition closed_bars_asof :: "closed_bar list \<Rightarrow> int \<Rightarrow> bool \<Rightarrow> closed_bar list result" where
  "closed_bars_asof bars decision use_received =
     bind (raise_if (decision < 0) (ValueError ''decision time must be nonnegative integer nanoseconds''))
       (\<lambda>_. scan_bars decision use_received [] None bars)"

definition latest_closed_bar :: "closed_bar list \<Rightarrow> int \<Rightarrow> bool \<Rightarrow> int option \<Rightarrow> closed_bar option result" where
  "latest_closed_bar bars decision use_received maximum_age =
     bind (raise_if (case maximum_age of None \<Rightarrow> False | Some m \<Rightarrow> m < 0)
             (ValueError ''maximum age must be nonnegative integer nanoseconds'')) (\<lambda>_.
     bind (closed_bars_asof bars decision use_received) (\<lambda>available.
     Inr (if available = [] then None
          else let latest = last available in
            case maximum_age of
              None \<Rightarrow> Some latest
            | Some m \<Rightarrow> if decision - cb_close_ts_ns latest > m then None else Some latest)))"

section \<open>Observations\<close>

fun scan_observations :: "int \<Rightarrow> (int \<times> 'a) option \<Rightarrow> (int \<times> 'a) list \<Rightarrow> (int \<times> 'a) option result" where
  "scan_observations decision latest [] = Inr latest"
| "scan_observations decision latest ((t, v) # os) =
     (if t < 0 then Inl (ValueError ''observation availability must be nonnegative integer nanoseconds'')
      else if t > decision then Inr latest
      else if (case latest of None \<Rightarrow> False | Some (s, _) \<Rightarrow> t < s)
      then Inl (ValueError ''observations are out of availability order'')
      else scan_observations decision (Some (t, v)) os)"

definition asof_available :: "(int \<times> 'a) list \<Rightarrow> int \<Rightarrow> int option \<Rightarrow> 'a option result" where
  "asof_available observations decision maximum_age =
     bind (raise_if (decision < 0) (ValueError ''decision time must be nonnegative integer nanoseconds'')) (\<lambda>_.
     bind (raise_if (case maximum_age of None \<Rightarrow> False | Some m \<Rightarrow> m < 0)
             (ValueError ''maximum age must be nonnegative integer nanoseconds'')) (\<lambda>_.
     bind (scan_observations decision None observations) (\<lambda>found.
     Inr (case found of
            None \<Rightarrow> None
          | Some (t, v) \<Rightarrow>
              (case maximum_age of None \<Rightarrow> Some v | Some m \<Rightarrow> if decision - t > m then None else Some v)))))"

section \<open>The future cannot change the past\<close>

definition visible :: "int \<Rightarrow> bool \<Rightarrow> closed_bar list \<Rightarrow> closed_bar list" where
  "visible decision use_received bars = takeWhile (\<lambda>b. known_at use_received b \<le> decision) bars"

lemma scan_bars_visible:
  "scan_bars decision use_received selected previous bars =
   scan_bars decision use_received selected previous (visible decision use_received bars)"
  by (induction decision use_received selected previous bars rule: scan_bars.induct)
    (auto simp: visible_def Let_def split: option.splits list.splits)

lemma scan_bars_selected:
  "scan_bars decision use_received selected previous bars = Inr r \<Longrightarrow>
   r = rev selected @ filter (\<lambda>b. cb_close_ts_ns b \<le> decision) (visible decision use_received bars)"
  by (induction decision use_received selected previous bars arbitrary: r rule: scan_bars.induct)
    (auto simp: visible_def Let_def split: if_splits option.splits list.splits)

lemma scan_bars_ordered:
  assumes "scan_bars decision use_received selected previous bars = Inr r"
    and "sorted_wrt (\<lambda>a b. cb_close_ts_ns a \<le> cb_open_ts_ns b) (rev selected)"
    and "\<forall>b \<in> set selected \<union> set bars. cb_open_ts_ns b < cb_close_ts_ns b"
  shows "sorted_wrt (\<lambda>a b. cb_close_ts_ns a \<le> cb_open_ts_ns b) r"
  using assms
proof (induction decision use_received selected previous bars arbitrary: r rule: scan_bars.induct)
  case (2 decision use_received selected previous b bars)
  have "sorted_wrt (\<lambda>a b. cb_close_ts_ns a \<le> cb_open_ts_ns b) (rev (b # selected))"
    if "case selected of [] \<Rightarrow> True | s # _ \<Rightarrow> cb_close_ts_ns s \<le> cb_open_ts_ns b"
  proof (cases selected)
    case (Cons s rest)
    have "cb_close_ts_ns a \<le> cb_open_ts_ns b" if "a \<in> set selected" for a
    proof (cases "a = s")
      case False
      with that Cons "2.prems"(2) have "cb_close_ts_ns a \<le> cb_open_ts_ns s"
        by (auto simp: sorted_wrt_append)
      moreover have "cb_open_ts_ns s < cb_close_ts_ns s" using "2.prems"(3) Cons by simp
      moreover have "cb_close_ts_ns s \<le> cb_open_ts_ns b"
        using \<open>case selected of [] \<Rightarrow> True | s # _ \<Rightarrow> cb_close_ts_ns s \<le> cb_open_ts_ns b\<close> Cons by simp
      ultimately show ?thesis by linarith
    qed (use \<open>case selected of [] \<Rightarrow> True | s # _ \<Rightarrow> cb_close_ts_ns s \<le> cb_open_ts_ns b\<close> Cons in simp)
    then show ?thesis using "2.prems"(2) by (simp add: sorted_wrt_append)
  qed simp
  then show ?case
    using "2.IH" "2.prems"
    by (auto simp: Let_def split: if_splits option.splits list.splits)
qed simp

lemma scan_observations_prefix:
  "scan_observations decision latest obs =
   scan_observations decision latest (takeWhile (\<lambda>(t, _). t \<le> decision) obs @
     (case dropWhile (\<lambda>(t, _). t \<le> decision) obs of [] \<Rightarrow> [] | x # _ \<Rightarrow> [x]))"
  by (induction decision latest obs rule: scan_observations.induct)
    (auto split: option.splits list.splits)

text \<open>
  C6: what a strategy sees at a decision time is exactly the bars that were available and closed by
  then, in their source order, without overlap; it is a function of the visible prefix alone, so rows
  appended or changed after the prefix cannot alter a past signal.
\<close>

theorem closed_bars_are_causal:
  assumes "closed_bars_asof bars decision use_received = Inr seen"
    and "list_all valid_closed_bar bars"
    and "visible decision use_received later = visible decision use_received bars"
  shows "seen = filter (\<lambda>b. cb_close_ts_ns b \<le> decision) (visible decision use_received bars) \<and>
    sorted_wrt (\<lambda>a b. cb_close_ts_ns a \<le> cb_open_ts_ns b) seen \<and>
    closed_bars_asof later decision use_received = Inr seen"
proof -
  have s: "scan_bars decision use_received [] None bars = Inr seen" and d: "\<not> decision < 0"
    using assms(1) by (auto simp: closed_bars_asof_def result_simps)
  have "sorted_wrt (\<lambda>a b. cb_close_ts_ns a \<le> cb_open_ts_ns b) seen"
    using scan_bars_ordered[OF s] assms(2) by (auto simp: list_all_iff valid_closed_bar_def)
  moreover have "closed_bars_asof later decision use_received = Inr seen"
    using s d scan_bars_visible[of decision use_received "[]" None bars]
      scan_bars_visible[of decision use_received "[]" None later] assms(3)
    by (simp add: closed_bars_asof_def)
  ultimately show ?thesis using scan_bars_selected[OF s] by simp
qed

definition bar_at :: "int \<Rightarrow> closed_bar" where
  "bar_at t = \<lparr>cb_instrument = ''BTCUSDT'', cb_open_ts_ns = t, cb_close_ts_ns = t + 10,
     cb_available_at_ns = t + 11, cb_received_at_ns = t + 12, cb_open = 1, cb_high = 2, cb_low = 1,
     cb_close = 2, cb_volume = 1\<rparr>"

theorem closed_bars_are_causal_witness:
  "closed_bars_asof [bar_at 0, bar_at 10, bar_at 20] 25 True = Inr [bar_at 0, bar_at 10]"
proof -
  have "closed_bars_asof [bar_at 0, bar_at 10] 25 True = Inr [bar_at 0, bar_at 10]"
    by (simp add: closed_bars_asof_def known_at_def bar_at_def)
  moreover have "list_all valid_closed_bar [bar_at 0, bar_at 10]"
    by (simp add: valid_closed_bar_def bar_at_def valid_timestamp_def valid_positive_def
        valid_nonnegative_def fits_numeric_def)
  moreover have "visible 25 True [bar_at 0, bar_at 10, bar_at 20] = visible 25 True [bar_at 0, bar_at 10]"
    by (simp add: visible_def known_at_def bar_at_def)
  ultimately show ?thesis using closed_bars_are_causal by blast
qed

end
