(* ===== verification/Splits.thy ===== *)
theory Splits
  imports Prelude
begin

text \<open>
  Chronological splits and combinatorial purged cross validation, \<open>src/qt/experiments/splits.py\<close>.
  Indices and clock values are Python integers.
\<close>

section \<open>Intervals and splits\<close>

record label_interval =
  li_start :: int
  li_end :: int

text \<open>\<open>LabelInterval.__post_init__\<close>\<close>

definition valid_label_interval :: "label_interval \<Rightarrow> bool" where
  "valid_label_interval i \<longleftrightarrow> 0 \<le> li_start i \<and> li_start i \<le> li_end i"

record split =
  sp_split_id :: nat
  sp_train_indices :: "int list"
  sp_test_indices :: "int list"
  sp_test_groups :: "nat list"

record path_segment =
  sg_group :: nat
  sg_split_id :: nat
  sg_test_indices :: "int list"

record cpcv_plan =
  cv_groups :: int
  cv_test_groups :: int
  cv_splits :: "split list"
  cv_paths :: "path_segment list list"
  cv_independent_paths :: bool

fun chronological :: "label_interval list \<Rightarrow> bool" where
  "chronological (a # b # rest) \<longleftrightarrow> li_start a \<le> li_start b \<and> chronological (b # rest)"
| "chronological _ \<longleftrightarrow> True"

definition validate_intervals :: "label_interval list \<Rightarrow> unit result" where
  "validate_intervals intervals =
     bind (raise_if (intervals = []) (ValueError ''empty_intervals'')) (\<lambda>_.
     raise_if (\<not> chronological intervals) (ValueError ''intervals_not_chronological''))"

definition interval_at :: "label_interval list \<Rightarrow> int \<Rightarrow> label_interval" where
  "interval_at intervals i = intervals ! nat i"

text \<open>A training label that neither overlaps a test label nor starts in the embargo after it.\<close>

definition clear_of :: "int \<Rightarrow> label_interval \<Rightarrow> label_interval \<Rightarrow> bool" where
  "clear_of embargo a test \<longleftrightarrow> li_end a < li_start test \<or> li_start a > li_end test + embargo"

definition purge_training :: "label_interval list \<Rightarrow> int list \<Rightarrow> int list \<Rightarrow> int \<Rightarrow> int list result" where
  "purge_training intervals train tests embargo =
     bind (validate_intervals intervals) (\<lambda>_.
     bind (raise_if (embargo < 0 \<or> tests = []) (ValueError ''invalid_embargo_or_empty_test'')) (\<lambda>_.
     bind (raise_if (list_ex (\<lambda>i. i < 0 \<or> i \<ge> int (length intervals)) (train @ tests))
             (ValueError ''index_out_of_range'')) (\<lambda>_.
     bind (raise_if (\<not> distinct train \<or> \<not> distinct tests) (ValueError ''duplicate_indices'')) (\<lambda>_.
     Inr (filter (\<lambda>i. i \<notin> set tests \<and>
            list_all (\<lambda>test. clear_of embargo (interval_at intervals i) test) (map (interval_at intervals) tests)) train)))))"

section \<open>Walk forward\<close>

text \<open>\<open>range(start, stop, stride)\<close> for a positive stride.\<close>

fun range_by :: "nat \<Rightarrow> int \<Rightarrow> int \<Rightarrow> int \<Rightarrow> int list" where
  "range_by 0 start stop stride = []"
| "range_by (Suc n) start stop stride =
     (if start < stop then start # range_by n (start + stride) stop stride else [])"

definition py_range :: "int \<Rightarrow> int \<Rightarrow> int \<Rightarrow> int list" where
  "py_range start stop stride = range_by (nat (stop - start)) start stop stride"

definition walk_fold ::
  "label_interval list \<Rightarrow> int \<Rightarrow> int \<Rightarrow> bool \<Rightarrow> int \<Rightarrow> nat \<Rightarrow> int \<Rightarrow> split result" where
  "walk_fold intervals train_size test_size expanding embargo k start =
     (let tests = [start..start + test_size - 1];
          train = [(if expanding then 0 else start - train_size)..start - 1];
          causal = filter (\<lambda>i. li_end (interval_at intervals i) < li_start (interval_at intervals start)) train in
      bind (purge_training intervals causal tests embargo) (\<lambda>purged.
      bind (raise_if (purged = []) (ValueError ''empty_training_after_purge'')) (\<lambda>_.
      Inr \<lparr>sp_split_id = k, sp_train_indices = purged, sp_test_indices = tests, sp_test_groups = []\<rparr>)))"

fun walk_folds ::
  "label_interval list \<Rightarrow> int \<Rightarrow> int \<Rightarrow> bool \<Rightarrow> int \<Rightarrow> nat \<Rightarrow> int list \<Rightarrow> split list result" where
  "walk_folds intervals train_size test_size expanding embargo k [] = Inr []"
| "walk_folds intervals train_size test_size expanding embargo k (start # starts) =
     bind (walk_fold intervals train_size test_size expanding embargo k start) (\<lambda>s.
     bind (walk_folds intervals train_size test_size expanding embargo (Suc k) starts) (\<lambda>rest.
     Inr (s # rest)))"

definition walk_forward_splits ::
  "label_interval list \<Rightarrow> int \<Rightarrow> int \<Rightarrow> int option \<Rightarrow> bool \<Rightarrow> int \<Rightarrow> split list result" where
  "walk_forward_splits intervals train_size test_size step expanding embargo =
     bind (validate_intervals intervals) (\<lambda>_.
     let stride = (case step of None \<Rightarrow> test_size | Some s \<Rightarrow> s) in
     bind (raise_if (train_size < 1 \<or> test_size < 1 \<or> stride < test_size)
             (ValueError ''invalid_walk_forward_sizes_or_overlapping_tests'')) (\<lambda>_.
     walk_folds intervals train_size test_size expanding embargo 0
       (py_range train_size (int (length intervals) - test_size + 1) stride)))"

section \<open>Combinatorial purged cross validation\<close>

text \<open>\<open>itertools.combinations\<close>, in its order.\<close>

fun combinations :: "nat \<Rightarrow> 'a list \<Rightarrow> 'a list list" where
  "combinations 0 xs = [[]]"
| "combinations (Suc k) [] = []"
| "combinations (Suc k) (x # xs) = map ((#) x) (combinations k xs) @ combinations (Suc k) xs"

definition group_sizes :: "nat \<Rightarrow> nat \<Rightarrow> nat list" where
  "group_sizes n groups = map (\<lambda>g. n div groups + (if g < n mod groups then 1 else 0)) [0..<groups]"

fun blocks_from :: "nat \<Rightarrow> nat list \<Rightarrow> int list list" where
  "blocks_from offset [] = []"
| "blocks_from offset (s # sizes) = map int [offset..<offset + s] # blocks_from (offset + s) sizes"

definition cpcv_fold ::
  "label_interval list \<Rightarrow> int list list \<Rightarrow> int \<Rightarrow> nat \<Rightarrow> nat list \<Rightarrow> split result" where
  "cpcv_fold intervals blocks embargo k selected =
     (let tests = concat (map (\<lambda>g. blocks ! g) selected);
          train = concat (map (\<lambda>g. blocks ! g) (filter (\<lambda>g. g \<notin> set selected) [0..<length blocks])) in
      bind (purge_training intervals train tests embargo) (\<lambda>purged.
      bind (raise_if (purged = []) (ValueError ''empty_training_after_purge'')) (\<lambda>_.
      Inr \<lparr>sp_split_id = k, sp_train_indices = purged, sp_test_indices = tests, sp_test_groups = selected\<rparr>)))"

fun cpcv_folds ::
  "label_interval list \<Rightarrow> int list list \<Rightarrow> int \<Rightarrow> nat \<Rightarrow> nat list list \<Rightarrow> split list result" where
  "cpcv_folds intervals blocks embargo k [] = Inr []"
| "cpcv_folds intervals blocks embargo k (selected # others) =
     bind (cpcv_fold intervals blocks embargo k selected) (\<lambda>s.
     bind (cpcv_folds intervals blocks embargo (Suc k) others) (\<lambda>rest. Inr (s # rest)))"

text \<open>\<open>for path_index, split in enumerate(appearances): paths[path_index].append(..)\<close>\<close>

fun append_segments ::
  "nat \<Rightarrow> int list \<Rightarrow> nat \<Rightarrow> split list \<Rightarrow> path_segment list list \<Rightarrow> path_segment list list result" where
  "append_segments g block i [] paths = Inr paths"
| "append_segments g block i (s # rest) paths =
     (if i < length paths
      then append_segments g block (Suc i) rest (paths[i := paths ! i @
             [\<lparr>sg_group = g, sg_split_id = sp_split_id s, sg_test_indices = block\<rparr>]])
      else Inl (OtherError ''IndexError''))"

fun fill_paths ::
  "int list list \<Rightarrow> split list \<Rightarrow> nat list \<Rightarrow> path_segment list list \<Rightarrow> path_segment list list result" where
  "fill_paths blocks splits [] paths = Inr paths"
| "fill_paths blocks splits (g # gs) paths =
     bind (append_segments g (blocks ! g) 0 (filter (\<lambda>s. g \<in> set (sp_test_groups s)) splits) paths)
       (fill_paths blocks splits gs)"

definition cpcv_splits :: "label_interval list \<Rightarrow> int \<Rightarrow> int \<Rightarrow> int \<Rightarrow> cpcv_plan result" where
  "cpcv_splits intervals groups test_groups embargo =
     bind (validate_intervals intervals) (\<lambda>_.
     bind (raise_if (\<not> (1 \<le> test_groups \<and> test_groups < groups \<and> groups \<le> int (length intervals)))
             (ValueError ''invalid_cpcv_groups'')) (\<lambda>_.
     let g = nat groups; k = nat test_groups;
         blocks = blocks_from 0 (group_sizes (length intervals) g) in
     bind (cpcv_folds intervals blocks embargo 0 (combinations k [0..<g])) (\<lambda>splits.
     bind (fill_paths blocks splits [0..<g] (replicate ((g - 1) choose (k - 1)) [])) (\<lambda>paths.
     Inr \<lparr>cv_groups = groups, cv_test_groups = test_groups, cv_splits = splits, cv_paths = paths,
          cv_independent_paths = False\<rparr>))))"

section \<open>Purging\<close>

lemma purge_training_eq:
  assumes "purge_training intervals train tests embargo = Inr kept"
  shows "kept = filter (\<lambda>i. i \<notin> set tests \<and>
           (\<forall>j \<in> set tests. clear_of embargo (interval_at intervals i) (interval_at intervals j))) train"
    and "set tests \<subseteq> {0..<int (length intervals)}" and "set train \<subseteq> {0..<int (length intervals)}"
    and "chronological intervals" and "0 \<le> embargo" and "distinct tests"
  using assms
  by (auto simp: purge_training_def validate_intervals_def result_simps list_all_iff list_ex_iff ball_Un not_less not_le)

lemma chronological_nth:
  "chronological xs \<Longrightarrow> i \<le> j \<Longrightarrow> j < length xs \<Longrightarrow> li_start (xs ! i) \<le> li_start (xs ! j)"
proof (induction xs arbitrary: i j rule: chronological.induct)
  case (1 a b rest)
  show ?case
  proof (cases i)
    case 0
    show ?thesis
    proof (cases j)
      case (Suc j')
      have "li_start a \<le> li_start b" using "1.prems"(1) by simp
      also have "\<dots> \<le> li_start ((b # rest) ! j')" using "1.IH"[of 0 j'] "1.prems" Suc by simp
      finally show ?thesis using 0 Suc by simp
    qed (use 0 in simp)
  next
    case (Suc i')
    then obtain j' where "j = Suc j'" using "1.prems"(2) by (cases j) auto
    then show ?thesis using "1.IH"[of i' j'] "1.prems" Suc by simp
  qed
qed (auto simp: less_Suc_eq_le)

section \<open>Walk forward\<close>

lemma range_by_bounds: "0 < stride \<Longrightarrow> x \<in> set (range_by n start stop stride) \<Longrightarrow> start \<le> x \<and> x < stop"
  by (induction n start stop stride rule: range_by.induct) (auto split: if_splits)

lemma range_by_spaced:
  "0 < stride \<Longrightarrow> sorted_wrt (\<lambda>a b. a + stride \<le> b) (range_by n start stop stride)"
  by (induction n start stop stride rule: range_by.induct) (auto dest: range_by_bounds)

lemma walk_folds_starts:
  "walk_folds intervals train_size test_size expanding embargo k starts = Inr splits \<Longrightarrow>
   length splits = length starts \<and>
   (\<forall>n < length starts. walk_fold intervals train_size test_size expanding embargo (k + n) (starts ! n) = Inr (splits ! n))"
proof (induction intervals train_size test_size expanding embargo k starts arbitrary: splits rule: walk_folds.induct)
  case (2 intervals train_size test_size expanding embargo k start starts)
  from "2.prems" obtain s rest where s: "walk_fold intervals train_size test_size expanding embargo k start = Inr s"
    and r: "walk_folds intervals train_size test_size expanding embargo (Suc k) starts = Inr rest"
    and sp: "splits = s # rest" by (auto simp: result_simps)
  from "2.IH"[OF s r] s sp show ?case by (auto simp: less_Suc_eq_0_disj)
qed simp

lemma walk_fold_split:
  assumes "walk_fold intervals train_size test_size expanding embargo k start = Inr s"
  shows "sp_test_indices s = [start..start + test_size - 1]"
    and "i \<in> set (sp_train_indices s) \<Longrightarrow> i < start \<and> li_end (interval_at intervals i) < li_start (interval_at intervals start)"
    and "sp_train_indices s \<noteq> []" and "chronological intervals"
    and "set (sp_test_indices s) \<subseteq> {0..<int (length intervals)}"
proof -
  let ?tests = "[start..start + test_size - 1]"
  let ?causal = "filter (\<lambda>i. li_end (interval_at intervals i) < li_start (interval_at intervals start))
      [(if expanding then 0 else start - train_size)..start - 1]"
  obtain kept where k: "purge_training intervals ?causal ?tests embargo = Inr kept" and "kept \<noteq> []"
    and s: "s = \<lparr>sp_split_id = k, sp_train_indices = kept, sp_test_indices = ?tests, sp_test_groups = []\<rparr>"
    using assms by (auto simp: walk_fold_def Let_def result_simps)
  note p = purge_training_eq[OF k]
  show "sp_test_indices s = ?tests" "sp_train_indices s \<noteq> []" using s \<open>kept \<noteq> []\<close> by simp_all
  show "chronological intervals" by (rule p(4))
  show "set (sp_test_indices s) \<subseteq> {0..<int (length intervals)}" using p(2) s by simp
  show "i \<in> set (sp_train_indices s) \<Longrightarrow>
      i < start \<and> li_end (interval_at intervals i) < li_start (interval_at intervals start)"
    unfolding s using p(1) by auto
qed

lemma walk_forward_folds:
  assumes "walk_forward_splits intervals train_size test_size step expanding embargo = Inr splits"
  obtains starts stride where "walk_folds intervals train_size test_size expanding embargo 0 starts = Inr splits"
    and "sorted_wrt (\<lambda>a b. a + stride \<le> b) starts" and "test_size \<le> stride" and "1 \<le> test_size"
proof
  let ?stride = "case step of None \<Rightarrow> test_size | Some s \<Rightarrow> s"
  let ?starts = "py_range train_size (int (length intervals) - test_size + 1) ?stride"
  show "walk_folds intervals train_size test_size expanding embargo 0 ?starts = Inr splits"
    and b: "test_size \<le> ?stride" and c: "1 \<le> test_size"
    using assms by (auto simp: walk_forward_splits_def Let_def result_simps)
  from b c show "sorted_wrt (\<lambda>a b. a + ?stride \<le> b) ?starts"
    unfolding py_range_def by (intro range_by_spaced) simp
qed

text \<open>
  C7: a walk-forward split never looks ahead: every training label is fully observed, its end strictly
  before the start of every test label of the split, its index before every test index, no split has
  an empty training set, and no observation is tested by two splits.
\<close>

theorem walk_forward_no_lookahead:
  assumes "walk_forward_splits intervals train_size test_size step expanding embargo = Inr splits"
  shows "(\<forall>s \<in> set splits. sp_train_indices s \<noteq> [] \<and>
            (\<forall>i \<in> set (sp_train_indices s). \<forall>j \<in> set (sp_test_indices s).
               i < j \<and> li_end (interval_at intervals i) < li_start (interval_at intervals j))) \<and>
         sorted_wrt (\<lambda>s t. set (sp_test_indices s) \<inter> set (sp_test_indices t) = {}) splits"
proof -
  obtain starts stride where f: "walk_folds intervals train_size test_size expanding embargo 0 starts = Inr splits"
    and sp: "sorted_wrt (\<lambda>a b. a + stride \<le> b) starts" and st: "test_size \<le> stride"
    using walk_forward_folds[OF assms] by metis
  note folds = walk_folds_starts[OF f]
  have "sp_train_indices s \<noteq> [] \<and> (\<forall>i \<in> set (sp_train_indices s). \<forall>j \<in> set (sp_test_indices s).
          i < j \<and> li_end (interval_at intervals i) < li_start (interval_at intervals j))" if mem: "s \<in> set splits" for s
  proof -
    obtain n where n: "n < length starts" "s = splits ! n" using mem folds by (auto simp: in_set_conv_nth)
    have w: "walk_fold intervals train_size test_size expanding embargo n (starts ! n) = Inr s"
      using folds n by auto
    note x = walk_fold_split[OF w]
    have "li_start (interval_at intervals (starts ! n)) \<le> li_start (interval_at intervals j)"
      if "j \<in> set (sp_test_indices s)" for j
    proof -
      have j: "starts ! n \<le> j" "0 \<le> j" "j < int (length intervals)" using that x(1,5) by auto
      then have "nat (starts ! n) \<le> nat j" "nat j < length intervals" by simp_all
      then show ?thesis unfolding interval_at_def by (rule chronological_nth[OF x(4)])
    qed
    with x(1,2,3) show ?thesis by (fastforce intro: order.strict_trans2)
  qed
  moreover have "sorted_wrt (\<lambda>s t. set (sp_test_indices s) \<inter> set (sp_test_indices t) = {}) splits"
  proof (unfold sorted_wrt_iff_nth_less, intro allI impI)
    fix a b assume ab: "a < b" "b < length splits"
    then have "starts ! a + stride \<le> starts ! b"
      using sp folds by (auto simp: sorted_wrt_iff_nth_less)
    moreover have "sp_test_indices (splits ! a) = [starts ! a..starts ! a + test_size - 1]"
        "sp_test_indices (splits ! b) = [starts ! b..starts ! b + test_size - 1]"
      using folds ab walk_fold_split(1) by (metis add_0 order_less_trans)+
    ultimately show "set (sp_test_indices (splits ! a)) \<inter> set (sp_test_indices (splits ! b)) = {}"
      using st by auto
  qed
  ultimately show ?thesis by blast
qed

definition day_labels :: "int \<Rightarrow> label_interval list" where
  "day_labels n = map (\<lambda>i. \<lparr>li_start = 10 * i, li_end = 10 * i + 5\<rparr>) [0..n - 1]"

theorem walk_forward_no_lookahead_witness:
  "sorted_wrt (\<lambda>s t. set (sp_test_indices s) \<inter> set (sp_test_indices t) = {})
     [\<lparr>sp_split_id = 0, sp_train_indices = [0, 1], sp_test_indices = [2], sp_test_groups = []\<rparr>,
      \<lparr>sp_split_id = 1, sp_train_indices = [1, 2], sp_test_indices = [3], sp_test_groups = []\<rparr>]"
proof -
  have "walk_forward_splits (day_labels 4) 2 1 None False 0 =
      Inr [\<lparr>sp_split_id = 0, sp_train_indices = [0, 1], sp_test_indices = [2], sp_test_groups = []\<rparr>,
        \<lparr>sp_split_id = 1, sp_train_indices = [1, 2], sp_test_indices = [3], sp_test_groups = []\<rparr>]"
    by code_simp
  from walk_forward_no_lookahead[OF this] show ?thesis by blast
qed

section \<open>Every observation is tested once per path\<close>

lemma set_combinations: "c \<in> set (combinations k xs) \<Longrightarrow> set c \<subseteq> set xs \<and> length c = k"
proof (induction k xs arbitrary: c rule: combinations.induct)
  case (3 k x xs)
  from "3.prems" consider c' where "c = x # c'" "c' \<in> set (combinations k xs)"
    | "c \<in> set (combinations (Suc k) xs)" by auto
  then show ?case
  proof cases
    case 1
    with "3.IH"(1)[of c'] show ?thesis by auto
  next
    case 2
    with "3.IH"(2)[of c] show ?thesis by auto
  qed
qed auto

lemma length_combinations: "length (combinations k xs) = length xs choose k"
  by (induction k xs rule: combinations.induct) auto

lemma filter_length_map_Cons:
  "length (filter (\<lambda>c. g \<in> set c) (map ((#) x) cs)) =
   (if g = x then length cs else length (filter (\<lambda>c. g \<in> set c) cs))"
  by (induction cs) auto

lemma length_containing:
  assumes "distinct xs" and "g \<in> set xs" and "0 < k"
  shows "length (filter (\<lambda>c. g \<in> set c) (combinations k xs)) = (length xs - 1) choose (k - 1)"
  using assms
proof (induction k xs rule: combinations.induct)
  case (3 k x xs)
  show ?case
  proof (cases "g = x")
    case True
    have "filter (\<lambda>c. g \<in> set c) (combinations (Suc k) xs) = []"
      using "3.prems" True set_combinations[of _ "Suc k" xs] by (auto simp: filter_empty_conv)
    then show ?thesis using True by (simp add: filter_length_map_Cons length_combinations)
  next
    case False
    with "3.prems" have g: "g \<in> set xs" and d: "distinct xs" by auto
    then obtain n where n: "length xs = Suc n" by (cases xs) auto
    have second: "length (filter (\<lambda>c. g \<in> set c) (combinations (Suc k) xs)) = n choose k"
      using "3.IH"(2) g d n by simp
    show ?thesis
    proof (cases k)
      case 0
      then show ?thesis using False second n by (simp add: filter_length_map_Cons)
    next
      case (Suc k')
      then have "length (filter (\<lambda>c. g \<in> set c) (combinations k xs)) = n choose k'"
        using "3.IH"(1) g d n by simp
      then show ?thesis using False second n Suc filter_length_map_Cons[of g x "combinations k xs"]
        by (simp del: filter_map)
    qed
  qed
qed auto

lemma concat_blocks: "concat (blocks_from offset sizes) = map int [offset..<offset + sum_list sizes]"
proof (induction offset sizes rule: blocks_from.induct)
  case (2 offset s sizes)
  have "[offset..<offset + (s + sum_list sizes)] = [offset..<offset + s] @ [offset + s..<offset + s + sum_list sizes]"
    by (metis add.assoc le_add1 upt_add_eq_append)
  then show ?case using 2 by simp
qed simp

lemma length_blocks [simp]: "length (blocks_from offset sizes) = length sizes"
  by (induction offset sizes rule: blocks_from.induct) auto

lemma sum_ones: "(\<Sum>g\<leftarrow>[0..<k]. if g < m then 1 else 0 :: nat) = min k m"
  by (induction k) auto

lemma sum_group_sizes: "0 < groups \<Longrightarrow> sum_list (group_sizes n groups) = n"
proof -
  assume "0 < groups"
  have "sum_list (group_sizes n groups) = groups * (n div groups) + (\<Sum>g\<leftarrow>[0..<groups]. if g < n mod groups then 1 else 0)"
    by (simp add: group_sizes_def sum_list_addf sum_list_triv)
  also have "\<dots> = n" using \<open>0 < groups\<close> by (simp add: sum_ones min_absorb2 less_imp_le mult.commute)
  finally show ?thesis .
qed

lemma append_segments_eq:
  assumes "i + length ss \<le> length paths"
  shows "append_segments g block i ss paths = Inr (map (\<lambda>p. paths ! p @
      (if i \<le> p \<and> p < i + length ss
       then [\<lparr>sg_group = g, sg_split_id = sp_split_id (ss ! (p - i)), sg_test_indices = block\<rparr>] else []))
      [0..<length paths])"
  using assms
proof (induction ss arbitrary: i paths)
  case Nil
  have "append_segments g block i [] paths = Inr (map (\<lambda>p. paths ! p) [0..<length paths])"
    by (simp add: map_nth)
  also have "\<dots> = Inr (map (\<lambda>p. paths ! p @ (if i \<le> p \<and> p < i + length [] then
      [\<lparr>sg_group = g, sg_split_id = sp_split_id ([] ! (p - i)), sg_test_indices = block\<rparr>] else [])) [0..<length paths])"
    by simp
  finally show ?case .
next
  case (Cons s ss)
  let ?seg = "\<lambda>s. \<lparr>sg_group = g, sg_split_id = sp_split_id s, sg_test_indices = block\<rparr>"
  let ?next = "paths[i := paths ! i @ [?seg s]]"
  have "append_segments g block i (s # ss) paths = append_segments g block (Suc i) ss ?next"
    using Cons.prems by simp
  also have "\<dots> = Inr (map (\<lambda>p. ?next ! p @ (if Suc i \<le> p \<and> p < Suc i + length ss then [?seg (ss ! (p - Suc i))] else []))
      [0..<length ?next])"
    using Cons.prems by (intro Cons.IH) simp
  also have "\<dots> = Inr (map (\<lambda>p. paths ! p @ (if i \<le> p \<and> p < i + length (s # ss) then [?seg ((s # ss) ! (p - i))] else []))
      [0..<length paths])"
    using Cons.prems by (auto simp: nth_list_update nth_Cons' not_less_eq_eq le_Suc_eq)
  finally show ?case .
qed

lemma fill_paths_eq:
  assumes "\<forall>g \<in> set gs. length (filter (\<lambda>s. g \<in> set (sp_test_groups s)) splits) = length paths"
  shows "fill_paths blocks splits gs paths = Inr (map (\<lambda>p. paths ! p @
      map (\<lambda>g. \<lparr>sg_group = g,
             sg_split_id = sp_split_id (filter (\<lambda>s. g \<in> set (sp_test_groups s)) splits ! p),
             sg_test_indices = blocks ! g\<rparr>) gs) [0..<length paths])"
  using assms
proof (induction gs arbitrary: paths)
  case Nil
  have "map (\<lambda>p. paths ! p) [0..<length paths] = paths" by (rule map_nth)
  then show ?case by simp
next
  case (Cons g gs)
  let ?app = "filter (\<lambda>s. g \<in> set (sp_test_groups s)) splits"
  let ?one = "map (\<lambda>p. paths ! p @ [\<lparr>sg_group = g, sg_split_id = sp_split_id (?app ! p), sg_test_indices = blocks ! g\<rparr>])
      [0..<length paths]"
  have "append_segments g (blocks ! g) 0 ?app paths = Inr ?one"
    using Cons.prems by (simp add: append_segments_eq)
  moreover have "fill_paths blocks splits gs ?one = Inr (map (\<lambda>p. ?one ! p @
      map (\<lambda>g. \<lparr>sg_group = g, sg_split_id = sp_split_id (filter (\<lambda>s. g \<in> set (sp_test_groups s)) splits ! p),
        sg_test_indices = blocks ! g\<rparr>) gs) [0..<length ?one])"
    using Cons.prems by (intro Cons.IH) simp
  ultimately show ?case by simp
qed

lemma cpcv_folds_splits:
  "cpcv_folds intervals blocks embargo k selections = Inr splits \<Longrightarrow>
   map sp_test_groups splits = selections \<and>
   (\<forall>s \<in> set splits. \<exists>k. cpcv_fold intervals blocks embargo k (sp_test_groups s) = Inr s)"
proof (induction intervals blocks embargo k selections arbitrary: splits rule: cpcv_folds.induct)
  case (2 intervals blocks embargo k selected others)
  from "2.prems" obtain s rest where s: "cpcv_fold intervals blocks embargo k selected = Inr s"
    and r: "cpcv_folds intervals blocks embargo (Suc k) others = Inr rest" and sp: "splits = s # rest"
    by (auto simp: result_simps)
  have "sp_test_groups s = selected" using s by (auto simp: cpcv_fold_def Let_def result_simps)
  with "2.IH"[OF s r] s sp show ?case by auto
qed simp

lemma appearances:
  assumes "map sp_test_groups splits = combinations k [0..<n]" and "g < n" and "0 < k"
  shows "length (filter (\<lambda>s. g \<in> set (sp_test_groups s)) splits) = (n - 1) choose (k - 1)"
proof -
  have "filter (\<lambda>c. g \<in> set c) (map sp_test_groups splits) =
      map sp_test_groups (filter (\<lambda>s. g \<in> set (sp_test_groups s)) splits)"
    by (simp add: filter_map comp_def)
  then have "length (filter (\<lambda>s. g \<in> set (sp_test_groups s)) splits) =
      length (filter (\<lambda>c. g \<in> set c) (combinations k [0..<n]))"
    using assms(1) by (metis length_map)
  then show ?thesis using length_containing[of "[0..<n]" g k] assms(2,3) by simp
qed

lemma cpcv_plan_cases:
  assumes "cpcv_splits intervals groups test_groups embargo = Inr plan"
  obtains n k where "n = nat groups" "k = nat test_groups" "0 < k" "k < n" "n \<le> length intervals"
    "cpcv_folds intervals (blocks_from 0 (group_sizes (length intervals) n)) embargo 0
       (combinations k [0..<n]) = Inr (cv_splits plan)"
    "fill_paths (blocks_from 0 (group_sizes (length intervals) n)) (cv_splits plan) [0..<n]
       (replicate ((n - 1) choose (k - 1)) []) = Inr (cv_paths plan)"
  using assms by (auto simp: cpcv_splits_def Let_def result_simps)

text \<open>
  A CPCV plan of \<open>groups\<close> groups with \<open>test_groups\<close> test groups has one split per choice of test
  groups and \<open>comb(groups - 1, test_groups - 1)\<close> backtest paths, and every path tests every
  observation exactly once, in chronological order.
\<close>

theorem cpcv_paths_cover_once:
  assumes "cpcv_splits intervals groups test_groups embargo = Inr plan"
  shows "length (cv_splits plan) = nat groups choose nat test_groups \<and>
    length (cv_paths plan) = (nat groups - 1) choose (nat test_groups - 1) \<and>
    list_all (\<lambda>path. concat (map sg_test_indices path) = map int [0..<length intervals]) (cv_paths plan)"
proof -
  from assms obtain n k where nk: "n = nat groups" "k = nat test_groups" "0 < k" "k < n" "n \<le> length intervals"
    and folds: "cpcv_folds intervals (blocks_from 0 (group_sizes (length intervals) n)) embargo 0
       (combinations k [0..<n]) = Inr (cv_splits plan)"
    and paths: "fill_paths (blocks_from 0 (group_sizes (length intervals) n)) (cv_splits plan) [0..<n]
       (replicate ((n - 1) choose (k - 1)) []) = Inr (cv_paths plan)" by (rule cpcv_plan_cases)
  let ?blocks = "blocks_from 0 (group_sizes (length intervals) n)"
  have groups: "map sp_test_groups (cv_splits plan) = combinations k [0..<n]"
    using cpcv_folds_splits[OF folds] by simp
  then have "length (cv_splits plan) = n choose k" by (metis length_combinations length_map length_upt minus_nat.diff_0)
  have len: "length ?blocks = n" by (simp add: group_sizes_def)
  have "cv_paths plan = map (\<lambda>p. replicate ((n - 1) choose (k - 1)) [] ! p @
      map (\<lambda>g. \<lparr>sg_group = g, sg_split_id = sp_split_id (filter (\<lambda>s. g \<in> set (sp_test_groups s)) (cv_splits plan) ! p),
             sg_test_indices = ?blocks ! g\<rparr>) [0..<n]) [0..<(n - 1) choose (k - 1)]"
    using fill_paths_eq[of "[0..<n]" "cv_splits plan" "replicate ((n - 1) choose (k - 1)) []" ?blocks]
      appearances[OF groups] nk(3) paths by simp
  moreover have "concat (map (\<lambda>g. ?blocks ! g) [0..<n]) = map int [0..<length intervals]"
  proof -
    have "map (\<lambda>g. ?blocks ! g) [0..<n] = ?blocks" using map_nth[of ?blocks] len by simp
    then show ?thesis using nk(3,4) by (simp add: concat_blocks sum_group_sizes)
  qed
  ultimately show ?thesis
    using \<open>length (cv_splits plan) = n choose k\<close> nk by (simp add: list_all_iff comp_def)
qed

theorem cpcv_paths_cover_once_witness:
  "\<exists>plan. cpcv_splits (day_labels 4) 4 2 0 = Inr plan \<and> length (cv_splits plan) = 6 \<and>
     length (cv_paths plan) = 3 \<and>
     list_all (\<lambda>path. concat (map sg_test_indices path) = [0, 1, 2, 3]) (cv_paths plan)"
proof -
  have "case cpcv_splits (day_labels 4) 4 2 0 of Inl e \<Rightarrow> False | Inr plan \<Rightarrow> True" by code_simp
  then obtain plan where p: "cpcv_splits (day_labels 4) 4 2 0 = Inr plan" by (auto split: sum.splits)
  moreover have "length (day_labels 4) = 4" and "nat 4 choose nat 2 = 6" and "(nat 4 - 1) choose (nat 2 - 1) = 3"
    and "map int [0..<4] = [0, 1, 2, 3]" by code_simp+
  ultimately show ?thesis using cpcv_paths_cover_once[OF p] by auto
qed

text \<open>
  C8: cross validation does not leak: in every split of a plan no training observation is tested, and
  each training label ends before a test label starts or starts after its end and the embargo.
\<close>

theorem cpcv_no_leakage:
  assumes "cpcv_splits intervals groups test_groups embargo = Inr plan" and "s \<in> set (cv_splits plan)"
    and "i \<in> set (sp_train_indices s)" and "j \<in> set (sp_test_indices s)"
  shows "i \<noteq> j \<and> clear_of embargo (interval_at intervals i) (interval_at intervals j)"
proof -
  from assms(1) obtain n k where folds: "cpcv_folds intervals (blocks_from 0 (group_sizes (length intervals) n)) embargo 0
       (combinations k [0..<n]) = Inr (cv_splits plan)" by (rule cpcv_plan_cases)
  then obtain m where "cpcv_fold intervals (blocks_from 0 (group_sizes (length intervals) n)) embargo m (sp_test_groups s) = Inr s"
    using cpcv_folds_splits assms(2) by blast
  then obtain train where p: "purge_training intervals train (sp_test_indices s) embargo = Inr (sp_train_indices s)"
    unfolding cpcv_fold_def Let_def bind_eq_Inr by (metis (no_types, lifting) Inr_inject split.select_convs(2,3))
  show ?thesis using purge_training_eq(1)[OF p] assms(3,4) by auto
qed

theorem cpcv_no_leakage_witness:
  "clear_of 0 (interval_at (day_labels 2) 1) (interval_at (day_labels 2) 0)"
proof -
  let ?s = "\<lparr>sp_split_id = 0, sp_train_indices = [1], sp_test_indices = [0], sp_test_groups = [0]\<rparr>"
  have "case cpcv_splits (day_labels 2) 2 1 0 of Inl e \<Rightarrow> False | Inr plan \<Rightarrow> ?s \<in> set (cv_splits plan)" by code_simp
  then obtain plan where p: "cpcv_splits (day_labels 2) 2 1 0 = Inr plan" and "?s \<in> set (cv_splits plan)"
    by (auto split: sum.splits)
  from cpcv_no_leakage[OF this, of 1 0] show ?thesis by simp
qed

end
