(* ===== verification/Releases.thy ===== *)
theory Releases
  imports OMS Repository Fixtures
begin

text \<open>
  Signed deployments and the active head of each account, \<open>src/qt/operations/releases.py\<close>.  \<open>mac\<close> is
  HMAC-SHA256 of a key and a text in hexadecimal.  The clocks \<open>clk 0\<close>, \<open>clk 1\<close>, .. are the successive
  readings of \<open>time.time_ns()\<close> of one call.  An artifact of kind \<open>deployment\<close> whose payload is not a
  manifest is refused by \<open>model_validate\<close>.
\<close>

section \<open>Signatures and stored manifests\<close>

type_synonym mac = "string \<Rightarrow> string \<Rightarrow> string"

record deployment_registry =
  dr_signing_key :: "string option"
  dr_policy_hash :: string

text \<open>The signed text of a manifest.\<close>

definition signed_text :: "deployment_manifest \<Rightarrow> string" where
  "signed_text m = canonical_json (JObj (unsigned_fields m))"

text \<open>\<open>_signature\<close>; \<open>compare_digest\<close> raises on text that is not ASCII.\<close>

definition signature_check ::
  "mac \<Rightarrow> deployment_registry \<Rightarrow> deployment_manifest \<Rightarrow> int option \<Rightarrow> unit result" where
  "signature_check mac reg m current =
     (case dr_signing_key reg of
        None \<Rightarrow> Inl (ConflictError ''deployment_signing_key_not_configured'')
      | Some key \<Rightarrow>
          bind (raise_if (length key < 32) (ConflictError ''deployment_signing_key_not_configured'')) (\<lambda>_.
          bind (raise_if (list_ex (\<lambda>c. (128::nat) \<le> of_char c) (dm_signature m)) (TypeError ''compare_digest'')) (\<lambda>_.
          bind (raise_if (dm_signature m \<noteq> mac key (signed_text m))
                  (ConflictError ''deployment_signature_invalid'')) (\<lambda>_.
          raise_if (case current of
                      None \<Rightarrow> False
                    | Some now \<Rightarrow> \<not> (dm_valid_from_ns m \<le> now \<and> now < dm_valid_until_ns m) \<or>
                        dm_risk_policy_hash m \<noteq> dr_policy_hash reg)
            (ConflictError ''deployment_signature_expired_or_policy_changed'')))))"

text \<open>\<open>_stored\<close>\<close>

definition stored_deployment :: "hasher \<Rightarrow> string \<Rightarrow> string \<Rightarrow> db \<Rightarrow> artifact_row result" where
  "stored_deployment sha tenant identity d =
     bind (or_raise (first_where (artifact_key tenant ''deployment'' identity) (artifacts d))
             (KeyError ''deployment_not_found'')) (\<lambda>row.
     bind (raise_if (content_hash sha (payload_json (ar_payload row)) \<noteq> ar_sha256 row)
             (ConflictError ''deployment_artifact_integrity_failure'')) (\<lambda>_. Inr row))"

definition payload_manifest :: "artifact_payload \<Rightarrow> deployment_manifest result" where
  "payload_manifest p = (case p of ADeployment m \<Rightarrow> Inr m | _ \<Rightarrow> Inl (ValueError ''DeploymentManifest''))"

text \<open>The manifest of a stored deployment.\<close>

definition stored_manifest :: "hasher \<Rightarrow> string \<Rightarrow> string \<Rightarrow> db \<Rightarrow> deployment_manifest result" where
  "stored_manifest sha tenant identity d =
     bind (stored_deployment sha tenant identity d) (\<lambda>row. payload_manifest (ar_payload row))"

section \<open>The conditions of a change\<close>

text \<open>\<open>_flat\<close>: the account, when it exists, has no order in flight, no reservation and no inventory.\<close>

definition flat_account :: "string \<Rightarrow> string \<Rightarrow> db \<Rightarrow> account_row option result" where
  "flat_account tenant aid d =
     (case first_where (\<lambda>a. ac_tenant_id a = tenant \<and> ac_account_id a = aid) (accounts d) of
        None \<Rightarrow>
          if exists_where (\<lambda>a. ac_account_id a = aid) (accounts d)
          then Inl (ConflictError ''deployment_account_is_not_owned_by_tenant'') else Inr None
      | Some account \<Rightarrow>
          bind (raise_if (exists_where (\<lambda>r. od_account_id r = aid \<and>
                    (\<not> terminal (od_status r) \<or> od_settlement_status r \<notin> {NOT_REQUIRED, CONFIRMED})) (orders d) \<or>
                  ac_reserved_quote account \<noteq> 0)
                  (ConflictError ''deployment_change_requires_no_orders_or_unsettled_effects'')) (\<lambda>_.
          let w = wallet aid d in
          bind (raise_if (list_ex (\<lambda>(asset, value). asset \<noteq> ac_quote_asset account \<and> value \<noteq> 0) w)
                  (ConflictError ''deployment_change_requires_flat_inventory'')) (\<lambda>_.
          bind (raise_if (dict_get w (ac_quote_asset account) < 0)
                  (ConflictError ''deployment_change_requires_reconciled_cash'')) (\<lambda>_.
          Inr (Some account)))))"

definition budget_limits :: "risk_budget \<Rightarrow> rat list" where
  "budget_limits b = [rb_capital b, rb_maximum_position_fraction b, rb_maximum_order_fraction b,
     rb_planned_loss_fraction b, rb_maximum_drawdown_fraction b, rb_maximum_daily_loss_fraction b,
     rb_maximum_leverage b]"

text \<open>\<open>_no_escalation\<close>\<close>

definition no_escalation :: "deployment_manifest \<Rightarrow> deployment_manifest \<Rightarrow> unit result" where
  "no_escalation previous m =
     (let old = dm_risk_budget previous; new = dm_risk_budget m in
      raise_if (rb_currency old \<noteq> rb_currency new \<or>
                list_ex (\<lambda>(o_limit, n_limit). n_limit > o_limit) (zip (budget_limits old) (budget_limits new)))
        (ConflictError ''deployment_risk_increase_requires_separate_explicit_review''))"

definition reason_check :: "string \<Rightarrow> error \<Rightarrow> unit result" where
  "reason_check reason e = raise_if (list_all is_space reason \<or> length reason > 1024) e"

definition head_of :: "string \<Rightarrow> string \<Rightarrow> head_row \<Rightarrow> bool" where
  "head_of tenant aid h \<longleftrightarrow> hd_tenant_id h = tenant \<and> hd_account_id h = aid"

section \<open>Activation\<close>

text \<open>The previous deployment must be authentic and the new one no riskier.\<close>

definition successor_check ::
  "hasher \<Rightarrow> mac \<Rightarrow> deployment_registry \<Rightarrow> string \<Rightarrow> head_row \<Rightarrow> deployment_manifest \<Rightarrow> db \<Rightarrow> unit result" where
  "successor_check sha mac reg tenant head m d =
     (case hd_deployment_id head of
        None \<Rightarrow> Inr ()
      | Some previous_id \<Rightarrow>
          bind (stored_manifest sha tenant previous_id d) (\<lambda>previous.
          bind (signature_check mac reg previous None) (\<lambda>_. no_escalation previous m)))"

definition capital_check :: "account_row option \<Rightarrow> deployment_manifest \<Rightarrow> unit result" where
  "capital_check account m =
     (case account of
        None \<Rightarrow> raise_if (dm_mode m \<noteq> paper)
          (ConflictError ''shadow_or_funded_deployment_requires_existing_reconciled_account'')
      | Some a \<Rightarrow> raise_if (ac_capital a \<noteq> rb_capital (dm_risk_budget m) \<or>
                            ac_quote_asset a \<noteq> rb_currency (dm_risk_budget m))
          (ConflictError ''deployment_capital_or_currency_requires_separate_account_review''))"

definition blank_head :: "string \<Rightarrow> string \<Rightarrow> int \<Rightarrow> head_row" where
  "blank_head tenant aid now = \<lparr>hd_tenant_id = tenant, hd_account_id = aid, hd_deployment_id = None,
     hd_status = HEAD_INACTIVE, hd_generation = 0, hd_updated_ns = now, hd_reason = ''uninitialized''\<rparr>"

definition activation_artifact ::
  "hasher \<Rightarrow> string \<Rightarrow> deployment_manifest \<Rightarrow> int \<Rightarrow> artifact_row" where
  "activation_artifact sha tenant m now =
     \<lparr>ar_tenant_id = tenant, ar_kind = ''deployment'', ar_entity_id = dm_deployment_id m,
      ar_payload = ADeployment m, ar_sha256 = content_hash sha (manifest_json m), ar_created_ns = now\<rparr>"

text \<open>The end of \<open>activate\<close>: the artifact, the head and the event.\<close>

definition install_deployment ::
  "hasher \<Rightarrow> string \<Rightarrow> head_row \<Rightarrow> deployment_manifest \<Rightarrow> string \<Rightarrow> int \<Rightarrow> int \<Rightarrow> artifact_row transaction" where
  "install_deployment sha tenant head m reason now t d =
     (let aid = dm_account_id m; dep = dm_deployment_id m;
          d1 = d\<lparr>artifacts := insert_once artifact_clash (activation_artifact sha tenant m now) (artifacts d)\<rparr>;
          d2 = d1\<lparr>deployment_heads := update_where (head_of tenant aid)
                 (\<lambda>h. h\<lparr>hd_deployment_id := Some dep, hd_status := HEAD_ACTIVE,
                    hd_generation := hd_generation head + 1, hd_updated_ns := now, hd_reason := reason\<rparr>)
                 (deployment_heads d1)\<rparr>;
          d3 = add_event tenant dep ''deployment_activated''
                 [(''account_id'', JStr aid), (''previous_id'', jopt JStr (hd_deployment_id head)),
                  (''generation'', JInt (hd_generation head + 1)), (''reason'', JStr reason)] t d2
      in bind (stored_deployment sha tenant dep d3) (\<lambda>row. Inr (row, d3)))"

definition activate_tx ::
  "hasher \<Rightarrow> mac \<Rightarrow> deployment_registry \<Rightarrow> string \<Rightarrow> deployment_manifest \<Rightarrow> string \<Rightarrow> (nat \<Rightarrow> int) \<Rightarrow>
   artifact_row transaction" where
  "activate_tx sha mac reg tenant m reason clk d =
     bind (signature_check mac reg m (Some (clk 0))) (\<lambda>_.
     bind (reason_check reason (ValueError ''deployment_activation_reason_required'')) (\<lambda>_.
     let aid = dm_account_id m; now = clk 1;
         d1 = d\<lparr>deployment_heads := insert_once head_clash (blank_head tenant aid now) (deployment_heads d)\<rparr> in
     bind (or_raise (first_where (head_of tenant aid) (deployment_heads d1)) NoResultFound) (\<lambda>head.
     case first_where (artifact_key tenant ''deployment'' (dm_deployment_id m)) (artifacts d1) of
       Some existing \<Rightarrow>
         if ar_sha256 existing \<noteq> content_hash sha (manifest_json m)
         then Inl (ConflictError ''immutable_deployment_identity_conflict'')
         else if hd_deployment_id head = Some (dm_deployment_id m) \<and> hd_status head = HEAD_ACTIVE
         then Inr (existing, d1)
         else Inl (ConflictError ''deployment_identity_is_historical_use_explicit_rollback'')
     | None \<Rightarrow>
         bind (successor_check sha mac reg tenant head m d1) (\<lambda>_.
         bind (flat_account tenant aid d1) (\<lambda>account.
         bind (capital_check account m) (\<lambda>_.
         bind (signature_check mac reg m (Some (clk 2))) (\<lambda>_.
         install_deployment sha tenant head m reason now (clk 3) d1)))))))"

section \<open>Reading and deactivating\<close>

definition is_active :: "string \<Rightarrow> string \<Rightarrow> db \<Rightarrow> bool" where
  "is_active tenant deployment_id d \<longleftrightarrow>
     exists_where (\<lambda>h. hd_tenant_id h = tenant \<and> hd_deployment_id h = Some deployment_id \<and>
       hd_status h = HEAD_ACTIVE) (deployment_heads d)"

definition verify_deployment ::
  "hasher \<Rightarrow> mac \<Rightarrow> deployment_registry \<Rightarrow> string \<Rightarrow> string \<Rightarrow> int \<Rightarrow> db \<Rightarrow> deployment_manifest result" where
  "verify_deployment sha mac reg tenant deployment_id t d =
     bind (stored_manifest sha tenant deployment_id d) (\<lambda>m.
     bind (signature_check mac reg m (Some t)) (\<lambda>_.
     bind (raise_if (case first_where (head_of tenant (dm_account_id m)) (deployment_heads d) of
                       None \<Rightarrow> True
                     | Some h \<Rightarrow> hd_status h \<noteq> HEAD_ACTIVE \<or> hd_deployment_id h \<noteq> Some deployment_id)
             (ConflictError ''deployment_is_not_the_active_account_head'')) (\<lambda>_. Inr m)))"

definition read_signed ::
  "hasher \<Rightarrow> mac \<Rightarrow> deployment_registry \<Rightarrow> string \<Rightarrow> string \<Rightarrow> db \<Rightarrow> deployment_manifest result" where
  "read_signed sha mac reg tenant deployment_id d =
     bind (stored_manifest sha tenant deployment_id d) (\<lambda>m.
     bind (signature_check mac reg m None) (\<lambda>_. Inr m))"

record active_entry =
  ae_deployment_id :: "string option"
  ae_account_id :: string
  ae_generation :: int
  ae_payload :: artifact_payload

fun active_entries :: "hasher \<Rightarrow> string \<Rightarrow> head_row list \<Rightarrow> db \<Rightarrow> active_entry list result" where
  "active_entries sha tenant [] d = Inr []"
| "active_entries sha tenant (h # hs) d =
     bind (or_raise (hd_deployment_id h) (KeyError ''deployment_not_found'')) (\<lambda>identity.
     bind (stored_deployment sha tenant identity d) (\<lambda>row.
     bind (active_entries sha tenant hs d) (\<lambda>rest.
     Inr (\<lparr>ae_deployment_id = hd_deployment_id h, ae_account_id = hd_account_id h,
           ae_generation = hd_generation h, ae_payload = ar_payload row\<rparr> # rest))))"

definition active_list :: "hasher \<Rightarrow> string \<Rightarrow> db \<Rightarrow> active_entry list result" where
  "active_list sha tenant d =
     active_entries sha tenant (sort_key hd_account_id
       (select_where (\<lambda>h. hd_tenant_id h = tenant \<and> hd_status h = HEAD_ACTIVE) (deployment_heads d))) d"

definition deactivate_tx ::
  "hasher \<Rightarrow> mac \<Rightarrow> deployment_registry \<Rightarrow> string \<Rightarrow> string \<Rightarrow> string \<Rightarrow> int \<Rightarrow> head_row transaction" where
  "deactivate_tx sha mac reg tenant deployment_id reason t d =
     bind (reason_check reason (ValueError ''deployment_deactivation_reason_required'')) (\<lambda>_.
     bind (stored_manifest sha tenant deployment_id d) (\<lambda>m.
     bind (signature_check mac reg m None) (\<lambda>_.
     let aid = dm_account_id m in
     bind (or_raise (first_where (head_of tenant aid) (deployment_heads d))
             (ConflictError ''only_the_current_head_can_be_deactivated'')) (\<lambda>head.
     bind (raise_if (hd_deployment_id head \<noteq> Some deployment_id)
             (ConflictError ''only_the_current_head_can_be_deactivated'')) (\<lambda>_.
     if hd_status head = HEAD_INACTIVE then Inr (head, d)
     else
       bind (flat_account tenant aid d) (\<lambda>_.
       let change = (\<lambda>h. h\<lparr>hd_status := HEAD_INACTIVE, hd_generation := hd_generation head + 1,
                          hd_updated_ns := t, hd_reason := reason\<rparr>) in
       Inr (change head, add_event tenant deployment_id ''deployment_deactivated'' [(''reason'', JStr reason)] t
              (d\<lparr>deployment_heads := update_where (head_of tenant aid) change (deployment_heads d)\<rparr>))))))))"

section \<open>What a change of head requires and does\<close>

definition authentic :: "mac \<Rightarrow> deployment_registry \<Rightarrow> deployment_manifest \<Rightarrow> bool" where
  "authentic mac reg m \<longleftrightarrow>
     (\<exists>key. dr_signing_key reg = Some key \<and> 32 \<le> length key \<and> dm_signature m = mac key (signed_text m))"

definition in_force :: "deployment_registry \<Rightarrow> deployment_manifest \<Rightarrow> int \<Rightarrow> bool" where
  "in_force reg m now \<longleftrightarrow> dm_valid_from_ns m \<le> now \<and> now < dm_valid_until_ns m \<and>
     dm_risk_policy_hash m = dr_policy_hash reg"

lemma signature_check_eq [result_simps]:
  "signature_check mac reg m current = Inr u \<Longrightarrow> authentic mac reg m"
  "signature_check mac reg m (Some now) = Inr u \<Longrightarrow> in_force reg m now"
  by (auto simp: signature_check_def authentic_def in_force_def result_simps split: option.splits)

definition no_riskier :: "risk_budget \<Rightarrow> risk_budget \<Rightarrow> bool" where
  "no_riskier old new \<longleftrightarrow> rb_currency new = rb_currency old \<and> rb_capital new \<le> rb_capital old \<and>
     rb_maximum_position_fraction new \<le> rb_maximum_position_fraction old \<and>
     rb_maximum_order_fraction new \<le> rb_maximum_order_fraction old \<and>
     rb_planned_loss_fraction new \<le> rb_planned_loss_fraction old \<and>
     rb_maximum_drawdown_fraction new \<le> rb_maximum_drawdown_fraction old \<and>
     rb_maximum_daily_loss_fraction new \<le> rb_maximum_daily_loss_fraction old \<and>
     rb_maximum_leverage new \<le> rb_maximum_leverage old"

lemma no_escalation_eq: "no_escalation previous m = Inr u \<longleftrightarrow> no_riskier (dm_risk_budget previous) (dm_risk_budget m)"
  by (auto simp: no_escalation_def no_riskier_def budget_limits_def Let_def result_simps not_less)

definition idle_account :: "string \<Rightarrow> string \<Rightarrow> db \<Rightarrow> bool" where
  "idle_account tenant aid d \<longleftrightarrow>
     (\<forall>r \<in> set (orders d). od_account_id r = aid \<longrightarrow> terminal (od_status r) \<and>
        od_settlement_status r \<in> {NOT_REQUIRED, CONFIRMED})"

lemma flat_account_Some:
  assumes "flat_account tenant aid d = Inr (Some a)"
  shows "idle_account tenant aid d" and "ac_reserved_quote a = 0" and "a \<in> set (accounts d)"
    and "ac_account_id a = aid" and "\<forall>(asset, v) \<in> set (wallet aid d). asset \<noteq> ac_quote_asset a \<longrightarrow> v = 0"
    and "0 \<le> dict_get (wallet aid d) (ac_quote_asset a)"
  using assms
  by (auto simp: flat_account_def idle_account_def Let_def result_simps exists_where_iff list_ex_iff not_less
      split: option.splits if_splits dest: first_where_Some)

lemma flat_account_None: "flat_account tenant aid d = Inr None \<Longrightarrow> \<forall>a \<in> set (accounts d). ac_account_id a \<noteq> aid"
  by (auto simp: flat_account_def Let_def result_simps exists_where_iff split: option.splits if_splits)

text \<open>The tables a change of head leaves alone.\<close>

definition untouched :: "db \<Rightarrow> db \<Rightarrow> bool" where
  "untouched d d' \<longleftrightarrow> orders d' = orders d \<and> fills d' = fills d \<and> accounts d' = accounts d \<and>
     ledger_transactions d' = ledger_transactions d \<and> ledger_entries d' = ledger_entries d \<and>
     risk_state d' = risk_state d \<and> portfolio_snapshots d' = portfolio_snapshots d"

definition head_key :: "head_row \<Rightarrow> string \<times> string" where
  "head_key h = (hd_tenant_id h, hd_account_id h)"

lemma head_of_key: "head_of tenant aid h \<longleftrightarrow> head_key h = (tenant, aid)"
  by (simp add: head_of_def head_key_def)

text \<open>The head of an account before a change: the stored one, or the blank one.\<close>

definition head_before :: "string \<Rightarrow> string \<Rightarrow> int \<Rightarrow> db \<Rightarrow> head_row" where
  "head_before tenant aid now d =
     (case first_where (head_of tenant aid) (deployment_heads d) of None \<Rightarrow> blank_head tenant aid now | Some h \<Rightarrow> h)"

lemma first_where_snoc:
  "first_where P (rows @ [r]) = (case first_where P rows of None \<Rightarrow> if P r then Some r else None | Some x \<Rightarrow> Some x)"
  by (induction rows) (auto simp: first_where_def)

lemma insert_head:
  "first_where (head_of tenant aid) (insert_once head_clash (blank_head tenant aid now) rows) =
     Some (case first_where (head_of tenant aid) rows of None \<Rightarrow> blank_head tenant aid now | Some h \<Rightarrow> h)"
proof (cases "list_ex (head_clash (blank_head tenant aid now)) rows")
  case True
  then obtain h where h: "h \<in> set rows" "head_of tenant aid h"
    by (auto simp: list_ex_iff head_clash_def blank_head_def head_of_def)
  then obtain h' where "first_where (head_of tenant aid) rows = Some h'"
    by (cases "first_where (head_of tenant aid) rows") (auto simp: first_where_None)
  then show ?thesis using True by (simp add: insert_once_def)
next
  case False
  then have "first_where (head_of tenant aid) rows = None"
    by (auto simp: first_where_None list_ex_iff head_clash_def blank_head_def head_of_def)
  then show ?thesis
    using False by (simp add: insert_once_def first_where_snoc head_of_def blank_head_def)
qed

lemma activate_cases:
  assumes "activate_tx sha mac reg tenant m reason clk d = Inr (row, d')"
  obtains (again) "d' = d\<lparr>deployment_heads := insert_once head_clash (blank_head tenant (dm_account_id m) (clk 1)) (deployment_heads d)\<rparr>"
      "row \<in> set (artifacts d)" "artifact_key tenant ''deployment'' (dm_deployment_id m) row"
      "ar_sha256 row = content_hash sha (manifest_json m)"
      "hd_deployment_id (head_before tenant (dm_account_id m) (clk 1) d) = Some (dm_deployment_id m)"
      "hd_status (head_before tenant (dm_account_id m) (clk 1) d) = HEAD_ACTIVE"
  | (fresh) head d1 account where "head = head_before tenant (dm_account_id m) (clk 1) d"
      "d1 = d\<lparr>deployment_heads := insert_once head_clash (blank_head tenant (dm_account_id m) (clk 1)) (deployment_heads d)\<rparr>"
      "\<forall>r \<in> set (artifacts d). \<not> artifact_key tenant ''deployment'' (dm_deployment_id m) r"
      "successor_check sha mac reg tenant head m d1 = Inr ()"
      "flat_account tenant (dm_account_id m) d1 = Inr account" "capital_check account m = Inr ()"
      "authentic mac reg m" "in_force reg m (clk 2)"
      "install_deployment sha tenant head m reason (clk 1) (clk 3) d1 = Inr (row, d')"
proof -
  let ?d1 = "d\<lparr>deployment_heads := insert_once head_clash (blank_head tenant (dm_account_id m) (clk 1)) (deployment_heads d)\<rparr>"
  let ?head = "head_before tenant (dm_account_id m) (clk 1) d"
  have f: "first_where (head_of tenant (dm_account_id m)) (deployment_heads ?d1) = Some ?head"
    by (simp add: insert_head head_before_def)
  show ?thesis
  proof (cases "first_where (artifact_key tenant ''deployment'' (dm_deployment_id m)) (artifacts d)")
    case (Some existing)
    with assms f again first_where_Some[OF Some] show ?thesis
      by (auto simp: activate_tx_def Let_def result_simps split: if_splits)
  next
    case None
    with assms f obtain account where "successor_check sha mac reg tenant ?head m ?d1 = Inr ()"
      and "flat_account tenant (dm_account_id m) ?d1 = Inr account" and "capital_check account m = Inr ()"
      and s: "signature_check mac reg m (Some (clk 2)) = Inr ()"
      and "install_deployment sha tenant ?head m reason (clk 1) (clk 3) ?d1 = Inr (row, d')"
      by (auto simp: activate_tx_def Let_def bind_eq_Inr)
    then show ?thesis using None signature_check_eq[OF s] signature_check_eq(2)[OF s]
      by (intro fresh) (auto simp: first_where_None)
  qed
qed

lemma install_effect:
  assumes "install_deployment sha tenant head m reason now t d = Inr (row, d')"
  shows "artifacts d' = insert_once artifact_clash (activation_artifact sha tenant m now) (artifacts d)"
    and "deployment_heads d' = update_where (head_of tenant (dm_account_id m))
           (\<lambda>h. h\<lparr>hd_deployment_id := Some (dm_deployment_id m), hd_status := HEAD_ACTIVE,
              hd_generation := hd_generation head + 1, hd_updated_ns := now, hd_reason := reason\<rparr>) (deployment_heads d)"
    and "untouched d d'"
  using assms by (auto simp: install_deployment_def Let_def result_simps add_event_def untouched_def)

lemma activation_artifact_new:
  assumes "\<forall>r \<in> set rows. \<not> artifact_key tenant ''deployment'' (dm_deployment_id m) r"
  shows "insert_once artifact_clash (activation_artifact sha tenant m now) rows = rows @ [activation_artifact sha tenant m now]"
  using assms by (auto simp: insert_once_def list_ex_iff artifact_clash_def activation_artifact_def artifact_key_def)

text \<open>
  C9: a deployment that was not stored before becomes the active head of its account only when its
  HMAC signature verifies under a configured key and it is in force under the current risk policy at
  the last clock reading; when its account exists, every order of it is terminal and settled, nothing
  is reserved, no asset but the quote currency is held and the capital and currency agree; and an
  unknown account is only ever opened for paper.  The generation grows by one, the manifest is appended to
  the artifacts, and no earlier manifest, order, fill, account, ledger or risk row changes.
\<close>

theorem activation_is_gated:
  assumes "activate_tx sha mac reg tenant m reason clk d = Inr (row, d')"
    and "\<forall>r \<in> set (artifacts d). \<not> artifact_key tenant ''deployment'' (dm_deployment_id m) r"
  shows "authentic mac reg m \<and> in_force reg m (clk 2) \<and>
    ((\<exists>a \<in> set (accounts d). ac_account_id a = dm_account_id m \<and> idle_account tenant (dm_account_id m) d \<and>
        ac_reserved_quote a = 0 \<and> ac_capital a = rb_capital (dm_risk_budget m) \<and>
        ac_quote_asset a = rb_currency (dm_risk_budget m) \<and>
        (\<forall>(asset, v) \<in> set (wallet (dm_account_id m) d). asset \<noteq> ac_quote_asset a \<longrightarrow> v = 0)) \<or>
     (dm_mode m = paper \<and> (\<forall>a \<in> set (accounts d). ac_account_id a \<noteq> dm_account_id m))) \<and>
    artifacts d' = artifacts d @ [activation_artifact sha tenant m (clk 1)] \<and> untouched d d' \<and>
    (\<exists>h \<in> set (deployment_heads d'). head_of tenant (dm_account_id m) h \<and> hd_status h = HEAD_ACTIVE \<and>
       hd_deployment_id h = Some (dm_deployment_id m) \<and>
       hd_generation h = hd_generation (head_before tenant (dm_account_id m) (clk 1) d) + 1)"
  using assms(1)
proof (cases rule: activate_cases)
  case again
  with assms(2) show ?thesis by blast
next
  case (fresh head d1 account)
  note e = install_effect[OF fresh(9)]
  have same: "orders d1 = orders d" "accounts d1 = accounts d" "artifacts d1 = artifacts d" "wallet aid d1 = wallet aid d"
    "untouched d d1" for aid
    using fresh(2) by (simp_all add: wallet_def untouched_def)
  have "(\<exists>a \<in> set (accounts d). ac_account_id a = dm_account_id m \<and> idle_account tenant (dm_account_id m) d \<and>
        ac_reserved_quote a = 0 \<and> ac_capital a = rb_capital (dm_risk_budget m) \<and>
        ac_quote_asset a = rb_currency (dm_risk_budget m) \<and>
        (\<forall>(asset, v) \<in> set (wallet (dm_account_id m) d). asset \<noteq> ac_quote_asset a \<longrightarrow> v = 0)) \<or>
     (dm_mode m = paper \<and> (\<forall>a \<in> set (accounts d). ac_account_id a \<noteq> dm_account_id m))"
  proof (cases account)
    case None
    with fresh(5,6) same flat_account_None[of tenant "dm_account_id m" d1] show ?thesis
      by (auto simp: capital_check_def result_simps)
  next
    case (Some a)
    with fresh(5) have f: "flat_account tenant (dm_account_id m) d1 = Inr (Some a)" by simp
    from fresh(6) Some have "ac_capital a = rb_capital (dm_risk_budget m)" "ac_quote_asset a = rb_currency (dm_risk_budget m)"
      by (auto simp: capital_check_def result_simps)
    moreover have "idle_account tenant (dm_account_id m) d" using flat_account_Some(1)[OF f] same by (simp add: idle_account_def)
    ultimately show ?thesis using flat_account_Some(2-5)[OF f] same by auto
  qed
  moreover have "artifacts d' = artifacts d @ [activation_artifact sha tenant m (clk 1)]"
    unfolding e(1) same(3) using fresh(3) by (rule activation_artifact_new)
  moreover have "untouched d d'" using same(5) e(3) by (simp add: untouched_def)
  moreover have "\<exists>h \<in> set (deployment_heads d1). head_of tenant (dm_account_id m) h"
    using insert_head[of tenant "dm_account_id m" "clk 1" "deployment_heads d"] fresh(2)
    by (auto dest: first_where_Some)
  then have "\<exists>h \<in> set (deployment_heads d'). head_of tenant (dm_account_id m) h \<and> hd_status h = HEAD_ACTIVE \<and>
       hd_deployment_id h = Some (dm_deployment_id m) \<and> hd_generation h = hd_generation head + 1"
  proof
    fix h assume h: "h \<in> set (deployment_heads d1)" "head_of tenant (dm_account_id m) h"
    let ?h = "h\<lparr>hd_deployment_id := Some (dm_deployment_id m), hd_status := HEAD_ACTIVE,
        hd_generation := hd_generation head + 1, hd_updated_ns := clk 1, hd_reason := reason\<rparr>"
    have "?h \<in> set (deployment_heads d')" unfolding e(2) set_update_where using h by (intro image_eqI[of _ _ h]) simp_all
    then show ?thesis using h(2) by (intro bexI[of _ ?h]) (simp_all add: head_of_def)
  qed
  ultimately show ?thesis using fresh(1,7,8) by simp
qed

definition demo_registry :: deployment_registry where
  "demo_registry = \<lparr>dr_signing_key = Some (replicate 32 (CHR ''k'')), dr_policy_hash = hash_of 5\<rparr>"

definition demo_mac :: mac where
  "demo_mac key s = ''sig''"

definition demo_activation :: "(artifact_row \<times> db) result" where
  "demo_activation = activate_tx text_sha demo_mac demo_registry ''t'' (canary paper) ''start'' (\<lambda>n. int n + 1) empty_db"

lemmas release_simps = activate_tx_def signature_check_def reason_check_def is_space_def first_where_def
  insert_once_def head_of_def blank_head_def artifact_key_def successor_check_def flat_account_def exists_where_def
  capital_check_def install_deployment_def stored_deployment_def activation_artifact_def update_where_def
  demo_registry_def demo_mac_def canary_def empty_db_def raise_if_def add_event_def

lemma demo_activation_commits: "commits demo_activation"
  by (simp add: demo_activation_def release_simps commits_def Let_def)

theorem activation_is_gated_witness:
  "authentic demo_mac demo_registry (canary paper) \<and> in_force demo_registry (canary paper) 3 \<and>
   artifacts (committed demo_activation) = [activation_artifact text_sha ''t'' (canary paper) 2]"
proof -
  obtain row where r: "activate_tx text_sha demo_mac demo_registry ''t'' (canary paper) ''start'' (\<lambda>n. int n + 1) empty_db =
      Inr (row, committed demo_activation)"
    using commits_committed[OF demo_activation_commits] unfolding demo_activation_def by blast
  have "\<forall>r \<in> set (artifacts empty_db). \<not> artifact_key ''t'' ''deployment'' (dm_deployment_id (canary paper)) r"
    and "artifacts empty_db = []" by (simp_all add: empty_db_def)
  with activation_is_gated[OF r] show ?thesis by simp
qed

section \<open>The history of a head\<close>

definition heads_inv :: "db \<Rightarrow> bool" where
  "heads_inv d \<longleftrightarrow> distinct (map head_key (deployment_heads d)) \<and>
     (\<forall>h \<in> set (deployment_heads d). 0 \<le> hd_generation h \<and> (hd_status h = HEAD_ACTIVE \<longrightarrow> hd_deployment_id h \<noteq> None))"

text \<open>A head either stays exactly as it is or moves to a higher generation.\<close>

definition head_advances :: "db \<Rightarrow> db \<Rightarrow> bool" where
  "head_advances d d' \<longleftrightarrow> (\<forall>h \<in> set (deployment_heads d). \<exists>h' \<in> set (deployment_heads d').
     head_key h' = head_key h \<and> (h' = h \<or> hd_generation h < hd_generation h')) \<and>
     (\<exists>more. artifacts d' = artifacts d @ more)"

inductive release_step :: "hasher \<Rightarrow> mac \<Rightarrow> deployment_registry \<Rightarrow> db \<Rightarrow> db \<Rightarrow> bool" for sha mac reg where
  activation: "activate_tx sha mac reg tenant m reason clk d = Inr (row, d') \<Longrightarrow> release_step sha mac reg d d'"
| deactivation: "deactivate_tx sha mac reg tenant dep reason t d = Inr (h, d') \<Longrightarrow> release_step sha mac reg d d'"

inductive_cases release_stepE: "release_step sha mac reg d d'"

lemma heads_update:
  assumes "heads_inv d" and "head \<in> set (deployment_heads d)" and "head_key head = (tenant, aid)"
    and "deployment_heads d' = update_where (head_of tenant aid) f (deployment_heads d)"
    and "\<And>h. head_key (f h) = head_key h" and "\<And>h. hd_generation (f h) = hd_generation head + 1"
    and "\<And>h. hd_status (f h) = HEAD_ACTIVE \<longrightarrow> hd_deployment_id (f h) \<noteq> None"
    and "\<exists>more. artifacts d' = artifacts d @ more"
  shows "heads_inv d' \<and> head_advances d d'"
proof -
  have u: "h = head" if "h \<in> set (deployment_heads d)" "head_of tenant aid h" for h
    using that assms(1-3) unique_row[of head_key] by (auto simp: heads_inv_def head_of_key)
  have "distinct (map head_key (deployment_heads d'))"
    using assms(1,4,5) by (simp add: heads_inv_def update_where_key)
  moreover have "0 \<le> hd_generation h \<and> (hd_status h = HEAD_ACTIVE \<longrightarrow> hd_deployment_id h \<noteq> None)"
    if "h \<in> set (deployment_heads d')" for h
    using that assms(1,2,4,6,7) by (auto simp: set_update_where heads_inv_def)
  moreover have "\<exists>h' \<in> set (deployment_heads d'). head_key h' = head_key h \<and> (h' = h \<or> hd_generation h < hd_generation h')"
    if "h \<in> set (deployment_heads d)" for h
    using that u[of h] assms(5,6) unfolding assms(4) set_update_where by (cases "head_of tenant aid h") force+
  ultimately show ?thesis using assms(8) by (simp add: heads_inv_def head_advances_def)
qed

lemma heads_blank:
  assumes "heads_inv d"
  shows "heads_inv (d\<lparr>deployment_heads := insert_once head_clash (blank_head tenant aid now) (deployment_heads d)\<rparr>)"
    and "head_advances d (d\<lparr>deployment_heads := insert_once head_clash (blank_head tenant aid now) (deployment_heads d)\<rparr>)"
  using assms
  by (auto simp: heads_inv_def head_advances_def insert_once_def list_ex_iff head_clash_def blank_head_def head_key_def)

lemma head_advances_trans:
  assumes "head_advances d d1" and "head_advances d1 d2"
  shows "head_advances d d2"
proof -
  note a = assms(1)[unfolded head_advances_def] and b = assms(2)[unfolded head_advances_def]
  obtain more1 more2 where "artifacts d1 = artifacts d @ more1" "artifacts d2 = artifacts d1 @ more2"
    using conjunct2[OF a] conjunct2[OF b] by (elim exE)
  then have "\<exists>more. artifacts d2 = artifacts d @ more" by simp
  moreover have "\<exists>h2 \<in> set (deployment_heads d2). head_key h2 = head_key h \<and> (h2 = h \<or> hd_generation h < hd_generation h2)"
    if mem: "h \<in> set (deployment_heads d)" for h
  proof -
    obtain h1 where 1: "h1 \<in> set (deployment_heads d1)" "head_key h1 = head_key h \<and> (h1 = h \<or> hd_generation h < hd_generation h1)"
      using bspec[OF conjunct1[OF a] mem] by (elim bexE)
    obtain h2 where 2: "h2 \<in> set (deployment_heads d2)" "head_key h2 = head_key h1 \<and> (h2 = h1 \<or> hd_generation h1 < hd_generation h2)"
      using bspec[OF conjunct1[OF b] 1(1)] by (elim bexE)
    have "head_key h2 = head_key h \<and> (h2 = h \<or> hd_generation h < hd_generation h2)" using 1(2) 2(2) by auto
    with 2(1) show ?thesis by (rule bexI[rotated])
  qed
  ultimately show ?thesis unfolding head_advances_def by (intro conjI ballI)
qed

lemma head_advances_refl: "head_advances d d"
  by (auto simp: head_advances_def)

lemma activate_heads:
  assumes "activate_tx sha mac reg tenant m reason clk d = Inr (row, d')" and "heads_inv d"
  shows "heads_inv d' \<and> head_advances d d'"
  using assms(1)
proof (cases rule: activate_cases)
  case again
  with heads_blank[OF assms(2)] show ?thesis by simp
next
  case (fresh head d1 account)
  note e = install_effect[OF fresh(9)]
  have b: "heads_inv d1" "head_advances d d1"
    unfolding fresh(2) by (rule heads_blank[OF assms(2)])+
  have "first_where (head_of tenant (dm_account_id m)) (deployment_heads d1) = Some head"
    using fresh(1,2) by (simp add: insert_head head_before_def)
  from first_where_Some[OF this] have h: "head \<in> set (deployment_heads d1)" "head_key head = (tenant, dm_account_id m)"
    by (auto simp: head_of_key)
  let ?f = "\<lambda>h :: head_row. h\<lparr>hd_deployment_id := Some (dm_deployment_id m), hd_status := HEAD_ACTIVE,
      hd_generation := hd_generation head + 1, hd_updated_ns := clk 1, hd_reason := reason\<rparr>"
  have a: "\<exists>more. artifacts d' = artifacts d1 @ more" unfolding e(1) by (rule artifact_table.insert_once_prefix)
  have k: "head_key (?f h) = head_key h" "hd_generation (?f h) = hd_generation head + 1"
    "hd_status (?f h) = HEAD_ACTIVE \<longrightarrow> hd_deployment_id (?f h) \<noteq> None" for h
    by (simp_all add: head_key_def)
  have "heads_inv d' \<and> head_advances d1 d'"
    by (rule heads_update[OF b(1) h e(2) k a])
  with b(2) show ?thesis using head_advances_trans by blast
qed

lemma deactivate_heads:
  assumes "deactivate_tx sha mac reg tenant dep reason t d = Inr (h, d')" and "heads_inv d"
  shows "heads_inv d' \<and> head_advances d d'"
proof -
  obtain m :: deployment_manifest and head :: head_row where f: "first_where (head_of tenant (dm_account_id m)) (deployment_heads d) = Some head"
    and "hd_deployment_id head = Some dep"
    and r: "(if hd_status head = HEAD_INACTIVE then Inr (head, d)
       else bind (flat_account tenant (dm_account_id m) d) (\<lambda>_. Inr (head\<lparr>hd_status := HEAD_INACTIVE,
              hd_generation := hd_generation head + 1, hd_updated_ns := t, hd_reason := reason\<rparr>,
            add_event tenant dep ''deployment_deactivated'' [(''reason'', JStr reason)] t
              (d\<lparr>deployment_heads := update_where (head_of tenant (dm_account_id m))
                (\<lambda>h. h\<lparr>hd_status := HEAD_INACTIVE, hd_generation := hd_generation head + 1,
                          hd_updated_ns := t, hd_reason := reason\<rparr>) (deployment_heads d)\<rparr>)))) = Inr (h, d')"
    using assms(1) unfolding deactivate_tx_def Let_def bind_eq_Inr or_raise_eq_Inr raise_if_eq_Inr not_not
    by blast
  have c: "d' = d \<or> d' = add_event tenant dep ''deployment_deactivated'' [(''reason'', JStr reason)] t
              (d\<lparr>deployment_heads := update_where (head_of tenant (dm_account_id m))
                (\<lambda>h. h\<lparr>hd_status := HEAD_INACTIVE, hd_generation := hd_generation head + 1,
                          hd_updated_ns := t, hd_reason := reason\<rparr>) (deployment_heads d)\<rparr>)"
    using r by (cases "hd_status head = HEAD_INACTIVE") (auto simp: bind_eq_Inr)
  from c show ?thesis
  proof
    assume "d' = d"
    then show ?thesis using assms(2) head_advances_refl by simp
  next
    assume d': "d' = add_event tenant dep ''deployment_deactivated'' [(''reason'', JStr reason)] t
              (d\<lparr>deployment_heads := update_where (head_of tenant (dm_account_id m))
                (\<lambda>h. h\<lparr>hd_status := HEAD_INACTIVE, hd_generation := hd_generation head + 1,
                          hd_updated_ns := t, hd_reason := reason\<rparr>) (deployment_heads d)\<rparr>)"
    from first_where_Some[OF f] have h: "head \<in> set (deployment_heads d)" "head_key head = (tenant, dm_account_id m)"
      by (auto simp: head_of_key)
    show ?thesis
      by (rule heads_update[OF assms(2) h, where f = "\<lambda>h. h\<lparr>hd_status := HEAD_INACTIVE,
            hd_generation := hd_generation head + 1, hd_updated_ns := t, hd_reason := reason\<rparr>"])
        (simp_all add: d' add_event_def head_key_def)
  qed
qed

lemma heads_inv_step: "release_step sha mac reg d d' \<Longrightarrow> heads_inv d \<Longrightarrow> heads_inv d'"
  by (erule release_stepE) (auto dest: activate_heads deactivate_heads)

lemma heads_inv_empty: "heads_inv empty_db"
  by (simp add: heads_inv_def empty_db_def)

interpretation releases: transition_system "release_step sha mac reg" heads_inv empty_db for sha mac reg
  by unfold_locales (auto intro: heads_inv_step heads_inv_empty)

text \<open>
  The history of account heads is a version history: over any sequence of activations and
  deactivations a head is never removed, its generation never falls, two observations of the same
  generation are the same head, and stored manifests are only appended.
\<close>

theorem head_generations_version:
  assumes "(release_step sha mac reg)\<^sup>*\<^sup>* d d'" and "heads_inv d" and "h \<in> set (deployment_heads d)"
  shows "(\<exists>h' \<in> set (deployment_heads d'). head_key h' = head_key h \<and>
            (h' = h \<or> hd_generation h < hd_generation h')) \<and>
         (\<exists>more. artifacts d' = artifacts d @ more)"
proof -
  have "head_advances d d'"
    by (rule releases.related_steps[OF assms(1,2)])
      (auto intro: head_advances_refl head_advances_trans dest: activate_heads deactivate_heads elim!: release_stepE)
  with assms(3) show ?thesis by (auto simp: head_advances_def)
qed

definition demo_head :: head_row where
  "demo_head = hd (deployment_heads (committed demo_activation))"

theorem head_generations_version_witness:
  "\<exists>h'. head_key h' = head_key demo_head \<and> (h' = demo_head \<or> hd_generation demo_head < hd_generation h')"
proof -
  obtain row where "activate_tx text_sha demo_mac demo_registry ''t'' (canary paper) ''start'' (\<lambda>n. int n + 1) empty_db =
      Inr (row, committed demo_activation)"
    using commits_committed[OF demo_activation_commits] unfolding demo_activation_def by blast
  then have "heads_inv (committed demo_activation)" using activate_heads heads_inv_empty by blast
  moreover have "demo_head \<in> set (deployment_heads (committed demo_activation))"
    by (simp add: demo_head_def demo_activation_def release_simps committed_def Let_def)
  ultimately show ?thesis
    using head_generations_version[OF rtranclp.rtrancl_refl] by (metis (full_types))
qed

text \<open>
  \<open>verify\<close> returns a manifest only when it is the stored, unaltered content of the deployment, its
  signature is authentic, it is in force under the current policy, and it is the active head of its
  account: reading an old or replaced deployment never confers authority.
\<close>

theorem verified_deployment_is_active:
  assumes "verify_deployment sha mac reg tenant dep t d = Inr m"
  shows "authentic mac reg m \<and> in_force reg m t \<and> is_active tenant dep d \<and>
    (\<exists>row \<in> set (artifacts d). artifact_key tenant ''deployment'' dep row \<and> ar_payload row = ADeployment m \<and>
       ar_sha256 row = content_hash sha (manifest_json m))"
proof -
  obtain row where r: "first_where (artifact_key tenant ''deployment'' dep) (artifacts d) = Some row"
    "content_hash sha (payload_json (ar_payload row)) = ar_sha256 row" "payload_manifest (ar_payload row) = Inr m"
    and s: "signature_check mac reg m (Some t) = Inr ()"
    and h: "\<not> (case first_where (head_of tenant (dm_account_id m)) (deployment_heads d) of
               None \<Rightarrow> True | Some h \<Rightarrow> hd_status h \<noteq> HEAD_ACTIVE \<or> hd_deployment_id h \<noteq> Some dep)"
    using assms by (auto simp: verify_deployment_def stored_manifest_def stored_deployment_def result_simps)
  have "is_active tenant dep d"
    using h by (auto simp: is_active_def exists_where_iff head_of_def split: option.splits dest!: first_where_Some)
  moreover have "ar_payload row = ADeployment m" using r(3) by (auto simp: payload_manifest_def split: artifact_payload.splits)
  ultimately show ?thesis using first_where_Some[OF r(1)] r(2) signature_check_eq(1)[OF s] signature_check_eq(2)[OF s] by auto
qed

theorem verified_deployment_is_active_witness:
  "is_active ''t'' ''dep'' (committed demo_activation)"
proof -
  have "verify_deployment text_sha demo_mac demo_registry ''t'' ''dep'' 5 (committed demo_activation) = Inr (canary paper)"
    by (simp add: verify_deployment_def stored_manifest_def payload_manifest_def demo_activation_def committed_def
        release_simps Let_def)
  then show ?thesis using verified_deployment_is_active by blast
qed

end
