(* ===== verification/Forecasts.thy ===== *)
theory Forecasts
  imports OMS Fixtures
begin

text \<open>
  The forecast authority, \<open>src/qt/forecasting/repository.py\<close>: immutable forecasts, privileged
  append-only resolutions with consecutive revisions, and the choice of the observations a scorecard
  uses.  The scores themselves are floating point statistics (\<open>_score_rows\<close>, \<open>_cluster_comparison\<close>) and
  are not modelled: \<open>score_selection\<close> stops at the rows they are given.  A resolution request is the
  JSON object the source ingestor sends; a text that spells a NaN or an infinity is refused as one
  that spells no number is.  \<open>t\<close> is the wall clock of the call.
\<close>

section \<open>Rows\<close>

fun prediction_mode_text :: "prediction_mode \<Rightarrow> string" where
  "prediction_mode_text blind = ''blind''"
| "prediction_mode_text market_conditioned = ''market_conditioned''"

definition forecast_json :: "forecast_record \<Rightarrow> json" where
  "forecast_json f = JObj
     [(''schema_version'', JStr ''2.0''), (''forecast_id'', JStr (fr_forecast_id f)),
      (''event_id'', JStr (fr_event_id f)), (''event_cluster_id'', JStr (fr_event_cluster_id f)),
      (''market_id'', JStr (fr_market_id f)), (''outcome_id'', JStr (fr_outcome_id f)),
      (''probability'', jdec (fr_probability f)), (''market_bid'', jopt jdec (fr_market_bid f)),
      (''market_ask'', jopt jdec (fr_market_ask f)), (''market_mid'', jopt jdec (fr_market_mid f)),
      (''market_probability_missing_reason'', jopt JStr (fr_market_probability_missing_reason f)),
      (''decision_at_ns'', JInt (fr_decision_at_ns f)), (''horizon_end_ns'', JInt (fr_horizon_end_ns f)),
      (''model_provider'', JStr (fr_model_provider f)), (''model_id'', JStr (fr_model_id f)),
      (''prompt_hash'', JStr (fr_prompt_hash f)), (''rules_hash'', JStr (fr_rules_hash f)),
      (''prediction_mode'', JStr (prediction_mode_text (fr_prediction_mode f))),
      (''evidence_hashes'', JArr (map JStr (fr_evidence_hashes f)))]"

record forecast_row =
  fw_tenant_id :: string
  fw_forecast_id :: string
  fw_event_cluster_id :: string
  fw_decision_ns :: int
  fw_payload :: forecast_record
  fw_sha256 :: string
  fw_created_ns :: int

definition forecast_clash :: "forecast_row \<Rightarrow> forecast_row \<Rightarrow> bool" where
  "forecast_clash r s \<longleftrightarrow> fw_tenant_id r = fw_tenant_id s \<and> fw_forecast_id r = fw_forecast_id s"

datatype resolution_status = res_pending | res_resolved | res_canceled | res_disputed

fun resolution_status_text :: "resolution_status \<Rightarrow> string" where
  "resolution_status_text res_pending = ''pending''"
| "resolution_status_text res_resolved = ''resolved''"
| "resolution_status_text res_canceled = ''canceled''"
| "resolution_status_text res_disputed = ''disputed''"

record resolution_body =
  bd_status :: resolution_status
  bd_outcome :: "int option"
  bd_payout :: "rat option"
  bd_resolved_at_ns :: "int option"
  bd_observed_at_ns :: int
  bd_source :: string
  bd_source_hash :: string
  bd_rules_hash :: string
  bd_verified :: bool
  bd_redeemed_at_ns :: "int option"
  bd_note :: "string option"

definition body_json :: "resolution_body \<Rightarrow> json" where
  "body_json b = JObj
     [(''status'', JStr (resolution_status_text (bd_status b))), (''outcome'', jopt JInt (bd_outcome b)),
      (''payout'', jopt jdec (bd_payout b)), (''resolved_at_ns'', jopt JInt (bd_resolved_at_ns b)),
      (''observed_at_ns'', JInt (bd_observed_at_ns b)), (''source'', JStr (bd_source b)),
      (''source_hash'', JStr (bd_source_hash b)), (''rules_hash'', JStr (bd_rules_hash b)),
      (''verified'', JBool (bd_verified b)), (''redeemed_at_ns'', jopt JInt (bd_redeemed_at_ns b)),
      (''note'', jopt JStr (bd_note b))]"

record resolution_row =
  rv_tenant_id :: string
  rv_resolution_id :: string
  rv_forecast_id :: string
  rv_revision :: int
  rv_actor_id :: string
  rv_payload :: resolution_body
  rv_sha256 :: string
  rv_created_ns :: int

definition resolution_clash :: "resolution_row \<Rightarrow> resolution_row \<Rightarrow> bool" where
  "resolution_clash r s \<longleftrightarrow> rv_tenant_id r = rv_tenant_id s \<and>
     (rv_resolution_id r = rv_resolution_id s \<or>
      (rv_forecast_id r = rv_forecast_id s \<and> rv_revision r = rv_revision s))"

record forecast_store =
  fd_db :: db
  fd_records :: "forecast_row list"
  fd_resolutions :: "resolution_row list"

section \<open>Reading a request\<close>

text \<open>\<open>request.get(name)\<close>: a missing member and \<open>null\<close> are both \<open>None\<close>.\<close>

type_synonym request = "(string \<times> json) list"

definition req :: "request \<Rightarrow> string \<Rightarrow> json" where
  "req request name = (case map_of request name of None \<Rightarrow> JNull | Some v \<Rightarrow> v)"

text \<open>\<open>_identity\<close>\<close>

definition identity_text :: "nat \<Rightarrow> json \<Rightarrow> string result" where
  "identity_text maximum v =
     (case v of
        JStr s \<Rightarrow> if list_all is_space s \<or> maximum < length s
                  then Inl (ValueError ''invalid_forecast_identity'') else Inr s
      | _ \<Rightarrow> Inl (ValueError ''invalid_forecast_identity''))"

text \<open>\<open>_hash\<close>\<close>

definition hash_text :: "json \<Rightarrow> string result" where
  "hash_text v =
     (case v of
        JStr s \<Rightarrow> if valid_sha256 s then Inr s else Inl (ValueError ''resolution_requires_sha256_evidence'')
      | _ \<Rightarrow> Inl (ValueError ''resolution_requires_sha256_evidence''))"

text \<open>\<open>_timestamp\<close>\<close>

definition timestamp_of :: "bool \<Rightarrow> int \<Rightarrow> json \<Rightarrow> int option result" where
  "timestamp_of optional t v =
     (case v of
        JInt i \<Rightarrow> if i < 0 \<or> i > t
                  then Inl (ValueError ''resolution_timestamp_must_be_observed_integer_nanoseconds'') else Inr (Some i)
      | JNull \<Rightarrow> if optional then Inr None
                  else Inl (ValueError ''resolution_timestamp_must_be_observed_integer_nanoseconds'')
      | _ \<Rightarrow> Inl (ValueError ''resolution_timestamp_must_be_observed_integer_nanoseconds''))"

text \<open>\<open>_payout\<close>\<close>

definition payout_of :: "json \<Rightarrow> rat option result" where
  "payout_of v =
     (case v of
        JNull \<Rightarrow> Inr None
      | JStr s \<Rightarrow>
          bind (raise_if (128 < length s) (ValueError ''payout_exceeds_exact_precision'')) (\<lambda>_.
          bind (or_raise (decimal_parts s) (ValueError ''invalid_payout_decimal'')) (\<lambda>(value, expo, _).
          bind (raise_if (\<not> (0 \<le> value \<and> value \<le> 1)) (ValueError ''payout_must_be_between_zero_and_one'')) (\<lambda>_.
          bind (raise_if (1000 < \<bar>expo\<bar> \<or> of_int \<lfloor>value * 10 ^ 18\<rfloor> \<noteq> value * 10 ^ 18)
                  (ValueError ''payout_exceeds_exact_precision'')) (\<lambda>_. Inr (Some value)))))
      | _ \<Rightarrow> Inl (ValueError ''payout_requires_decimal_string''))"

definition outcome_of :: "json \<Rightarrow> int option result" where
  "outcome_of v =
     (case v of
        JNull \<Rightarrow> Inr None
      | JInt i \<Rightarrow> if i = 0 \<or> i = 1 then Inr (Some i) else Inl (ValueError ''outcome_must_be_binary_or_null'')
      | _ \<Rightarrow> Inl (ValueError ''outcome_must_be_binary_or_null''))"

definition status_of :: "request \<Rightarrow> resolution_status result" where
  "status_of request =
     (case map_of request ''status'' of
        None \<Rightarrow> Inr res_resolved
      | Some (JStr s) \<Rightarrow>
          if s = ''pending'' then Inr res_pending else if s = ''resolved'' then Inr res_resolved
          else if s = ''canceled'' then Inr res_canceled else if s = ''disputed'' then Inr res_disputed
          else Inl (ValueError ''invalid_resolution_status'')
      | Some (JArr _) \<Rightarrow> Inl (TypeError ''unhashable'')
      | Some (JObj _) \<Rightarrow> Inl (TypeError ''unhashable'')
      | Some _ \<Rightarrow> Inl (ValueError ''invalid_resolution_status''))"

definition note_of :: "json \<Rightarrow> string option result" where
  "note_of v =
     (case v of
        JNull \<Rightarrow> Inr None
      | JStr s \<Rightarrow> if 4096 < length s then Inl (ValueError ''invalid_resolution_note'') else Inr (Some s)
      | _ \<Rightarrow> Inl (ValueError ''invalid_resolution_note''))"

definition resolution_keys :: "string list" where
  "resolution_keys = [''resolution_id'', ''status'', ''outcome'', ''payout'', ''resolved_at_ns'',
     ''observed_at_ns'', ''source'', ''source_hash'', ''rules_hash'', ''verified'', ''redeemed_at_ns'', ''note'']"

text \<open>\<open>_resolution\<close>: the checked body of a request.\<close>

definition resolution_of ::
  "forecast_record \<Rightarrow> request \<Rightarrow> resolution_body option \<Rightarrow> int \<Rightarrow> resolution_body result" where
  "resolution_of forecast request previous t =
     bind (raise_if (\<not> list_all (\<lambda>(k, _). k \<in> set resolution_keys) request)
             (ValueError ''unknown_resolution_fields'')) (\<lambda>_.
     bind (raise_if (req request ''verified'' \<noteq> JBool True)
             (ValueError ''resolution_requires_verified_source_ingestor'')) (\<lambda>_.
     bind (hash_text (req request ''rules_hash'')) (\<lambda>rules.
     bind (raise_if (rules \<noteq> fr_rules_hash forecast) (ValueError ''resolution_rules_version_mismatch'')) (\<lambda>_.
     bind (status_of request) (\<lambda>status.
     bind (outcome_of (req request ''outcome'')) (\<lambda>outcome.
     bind (payout_of (req request ''payout'')) (\<lambda>payout.
     bind (raise_if (case (outcome, payout) of (Some i, Some p) \<Rightarrow> p \<noteq> of_int i | _ \<Rightarrow> False)
             (ValueError ''special_payout_requires_null_binary_outcome'')) (\<lambda>_.
     bind (raise_if (status = res_resolved \<and> outcome = None \<and> payout = None)
             (ValueError ''resolved_outcome_or_payout_required'')) (\<lambda>_.
     bind (timestamp_of (status \<noteq> res_resolved) t (req request ''resolved_at_ns'')) (\<lambda>resolved_at.
     bind (timestamp_of False t
             (case map_of request ''observed_at_ns'' of
                Some v \<Rightarrow> v
              | None \<Rightarrow> JInt (case previous of None \<Rightarrow> t | Some b \<Rightarrow> bd_observed_at_ns b))) (\<lambda>seen.
     let observed = (case seen of None \<Rightarrow> 0 | Some o_ns \<Rightarrow> o_ns) in
     bind (raise_if (observed < fr_decision_at_ns forecast \<or>
             (case resolved_at of None \<Rightarrow> False
              | Some r \<Rightarrow> \<not> (fr_decision_at_ns forecast < r \<and> r \<le> observed)))
             (ValueError ''resolution_time_precedes_decision_or_observation'')) (\<lambda>_.
     bind (timestamp_of True t (req request ''redeemed_at_ns'')) (\<lambda>redeemed.
     bind (raise_if (case redeemed of None \<Rightarrow> False
             | Some x \<Rightarrow> (case resolved_at of None \<Rightarrow> True | Some r \<Rightarrow> \<not> (r \<le> x \<and> x \<le> observed)))
             (ValueError ''redemption_must_follow_resolution'')) (\<lambda>_.
     bind (note_of (req request ''note'')) (\<lambda>note.
     bind (identity_text 2048 (req request ''source'')) (\<lambda>source.
     bind (hash_text (req request ''source_hash'')) (\<lambda>source_hash.
     Inr \<lparr>bd_status = status, bd_outcome = outcome, bd_payout = payout, bd_resolved_at_ns = resolved_at,
          bd_observed_at_ns = observed, bd_source = source, bd_source_hash = source_hash,
          bd_rules_hash = fr_rules_hash forecast, bd_verified = True, bd_redeemed_at_ns = redeemed,
          bd_note = note\<rparr>)))))))))))))))))"

section \<open>Operations\<close>

definition forecast_at :: "string \<Rightarrow> string \<Rightarrow> forecast_row \<Rightarrow> bool" where
  "forecast_at tenant fid r \<longleftrightarrow> fw_tenant_id r = tenant \<and> fw_forecast_id r = fid"

definition resolution_at :: "string \<Rightarrow> string \<Rightarrow> resolution_row \<Rightarrow> bool" where
  "resolution_at tenant rid r \<longleftrightarrow> rv_tenant_id r = tenant \<and> rv_resolution_id r = rid"

definition record_forecast ::
  "hasher \<Rightarrow> string \<Rightarrow> forecast_record \<Rightarrow> int \<Rightarrow> forecast_store \<Rightarrow> (forecast_row \<times> forecast_store) result" where
  "record_forecast sha tenant forecast t s =
     bind (identity_text 80 (JStr tenant)) (\<lambda>_.
     bind (identity_text 160 (JStr (fr_forecast_id forecast))) (\<lambda>_.
     bind (identity_text 160 (JStr (fr_event_cluster_id forecast))) (\<lambda>_.
     bind (raise_if (fr_decision_at_ns forecast > t) (ValueError ''forecast_decision_is_in_the_future'')) (\<lambda>_.
     let digest = content_hash sha (forecast_json forecast);
         rows = insert_once forecast_clash
           \<lparr>fw_tenant_id = tenant, fw_forecast_id = fr_forecast_id forecast,
            fw_event_cluster_id = fr_event_cluster_id forecast, fw_decision_ns = fr_decision_at_ns forecast,
            fw_payload = forecast, fw_sha256 = digest, fw_created_ns = t\<rparr> (fd_records s) in
     bind (or_raise (first_where (forecast_at tenant (fr_forecast_id forecast)) rows) NoResultFound) (\<lambda>row.
     bind (raise_if (fw_sha256 row \<noteq> digest) (ConflictError ''forecast_identity_conflict'')) (\<lambda>_.
     Inr (row, s\<lparr>fd_records := rows\<rparr>)))))))"

text \<open>\<open>_get\<close>\<close>

definition get_forecast :: "hasher \<Rightarrow> string \<Rightarrow> string \<Rightarrow> forecast_store \<Rightarrow> forecast_row result" where
  "get_forecast sha tenant fid s =
     bind (or_raise (first_where (forecast_at tenant fid) (fd_records s)) (KeyError ''forecast_not_found'')) (\<lambda>row.
     bind (raise_if (content_hash sha (forecast_json (fw_payload row)) \<noteq> fw_sha256 row)
             (ConflictError ''forecast_integrity_failure'')) (\<lambda>_. Inr row))"

definition resolution_digest :: "hasher \<Rightarrow> string \<Rightarrow> string \<Rightarrow> resolution_body \<Rightarrow> string" where
  "resolution_digest sha fid actor body = content_hash sha (JArr [JStr fid, JStr actor, body_json body])"

text \<open>\<open>_verified_resolution\<close>\<close>

definition verified_resolution :: "hasher \<Rightarrow> resolution_row \<Rightarrow> unit result" where
  "verified_resolution sha r =
     raise_if (resolution_digest sha (rv_forecast_id r) (rv_actor_id r) (rv_payload r) \<noteq> rv_sha256 r)
       (ConflictError ''resolution_integrity_failure'')"

definition latest_revision :: "string \<Rightarrow> string \<Rightarrow> resolution_row list \<Rightarrow> int" where
  "latest_revision tenant fid rows =
     fold max (map rv_revision (select_where (\<lambda>r. rv_tenant_id r = tenant \<and> rv_forecast_id r = fid) rows)) 0"

text \<open>The last part of \<open>resolve\<close>: the new revision.\<close>

definition append_resolution ::
  "string \<Rightarrow> string \<Rightarrow> string \<Rightarrow> string \<Rightarrow> resolution_body \<Rightarrow> string \<Rightarrow> int \<Rightarrow> forecast_store \<Rightarrow>
   (resolution_row \<times> forecast_store) result" where
  "append_resolution tenant fid identity actor body digest t s =
     (let new = \<lparr>rv_tenant_id = tenant, rv_resolution_id = identity, rv_forecast_id = fid,
            rv_revision = latest_revision tenant fid (fd_resolutions s) + 1, rv_actor_id = actor,
            rv_payload = body, rv_sha256 = digest, rv_created_ns = t\<rparr>;
          rows = insert_once resolution_clash new (fd_resolutions s) in
      bind (or_raise (first_where (resolution_at tenant identity) rows) NoResultFound) (\<lambda>actual.
      bind (raise_if (rv_sha256 actual \<noteq> digest) (ConflictError ''resolution_identity_conflict'')) (\<lambda>_.
      Inr (actual, s\<lparr>fd_resolutions := rows,
             fd_db := add_event tenant fid ''forecast_resolution_appended''
               [(''resolution_id'', JStr identity), (''revision'', JInt (rv_revision new)),
                (''actor_id'', JStr actor), (''source_hash'', JStr (bd_source_hash body))] t (fd_db s)\<rparr>))))"

definition resolve_forecast ::
  "hasher \<Rightarrow> string \<Rightarrow> string \<Rightarrow> request \<Rightarrow> string \<Rightarrow> string list option \<Rightarrow> int \<Rightarrow> forecast_store \<Rightarrow>
   (resolution_row \<times> forecast_store) result" where
  "resolve_forecast sha tenant fid request actor permissions t s =
     bind (raise_if (case permissions of None \<Rightarrow> True | Some ps \<Rightarrow> ''forecast:resolve'' \<notin> set ps)
             (PermissionError ''forecast_source_resolution_permission_required'')) (\<lambda>_.
     bind (identity_text 160 (JStr actor)) (\<lambda>_.
     bind (get_forecast sha tenant fid s) (\<lambda>row.
     let given = req request ''resolution_id'' in
     bind (if given = JNull then Inr None
           else bind (identity_text 160 given) (\<lambda>rid. Inr (Some rid))) (\<lambda>named.
     let existing = (case named of None \<Rightarrow> None
                     | Some rid \<Rightarrow> first_where (resolution_at tenant rid) (fd_resolutions s)) in
     bind (resolution_of (fw_payload row) request (map_option rv_payload existing) t) (\<lambda>body.
     let identity = (case named of Some rid \<Rightarrow> rid | None \<Rightarrow> content_hash sha (JArr [JStr fid, body_json body]));
         digest = resolution_digest sha fid actor body in
     case existing of
       Some old \<Rightarrow>
         bind (verified_resolution sha old) (\<lambda>_.
         bind (raise_if (rv_sha256 old \<noteq> digest \<or> rv_forecast_id old \<noteq> fid)
                 (ConflictError ''resolution_identity_conflict'')) (\<lambda>_. Inr (old, s)))
     | None \<Rightarrow>
         (case first_where (resolution_at tenant identity) (fd_resolutions s) of
            Some old \<Rightarrow>
              bind (verified_resolution sha old) (\<lambda>_.
              bind (raise_if (rv_sha256 old \<noteq> digest) (ConflictError ''resolution_identity_conflict'')) (\<lambda>_.
              Inr (old, s)))
          | None \<Rightarrow> append_resolution tenant fid identity actor body digest t s))))))"

fun verify_all :: "hasher \<Rightarrow> resolution_row list \<Rightarrow> unit result" where
  "verify_all sha [] = Inr ()"
| "verify_all sha (r # rs) = bind (verified_resolution sha r) (\<lambda>_. verify_all sha rs)"

definition resolution_history ::
  "hasher \<Rightarrow> string \<Rightarrow> string \<Rightarrow> forecast_store \<Rightarrow> resolution_row list result" where
  "resolution_history sha tenant fid s =
     bind (get_forecast sha tenant fid s) (\<lambda>_.
     let rows = sort_key rv_revision (select_where (\<lambda>r. rv_tenant_id r = tenant \<and> rv_forecast_id r = fid)
                  (fd_resolutions s)) in
     bind (verify_all sha rows) (\<lambda>_. Inr rows))"

section \<open>The observations of a scorecard\<close>

definition cohort :: "hasher \<Rightarrow> forecast_record \<Rightarrow> string" where
  "cohort sha f = content_hash sha (JArr [JStr (fr_event_id f), JStr (fr_outcome_id f),
     JInt (fr_horizon_end_ns f), JStr (prediction_mode_text (fr_prediction_mode f))])"

record score_counts =
  ct_total :: nat
  ct_unresolved :: nat
  ct_canceled :: nat
  ct_disputed :: nat
  ct_non_binary :: nat
  ct_duplicate_cohort :: nat
  ct_invalid_observations :: nat

definition binary_body :: "resolution_body \<Rightarrow> bool" where
  "binary_body b \<longleftrightarrow> (bd_outcome b = Some 0 \<or> bd_outcome b = Some 1) \<and>
     (case bd_payout b of None \<Rightarrow> True | Some p \<Rightarrow> Some p = map_option of_int (bd_outcome b))"

definition count_body :: "resolution_body option \<Rightarrow> score_counts \<Rightarrow> score_counts" where
  "count_body body c =
     (case body of
        None \<Rightarrow> c\<lparr>ct_unresolved := Suc (ct_unresolved c)\<rparr>
      | Some b \<Rightarrow>
          (case bd_status b of
             res_pending \<Rightarrow> c\<lparr>ct_unresolved := Suc (ct_unresolved c)\<rparr>
           | res_canceled \<Rightarrow> c\<lparr>ct_canceled := Suc (ct_canceled c)\<rparr>
           | res_disputed \<Rightarrow> c\<lparr>ct_disputed := Suc (ct_disputed c)\<rparr>
           | res_resolved \<Rightarrow> if binary_body b then c else c\<lparr>ct_non_binary := Suc (ct_non_binary c)\<rparr>))"

text \<open>The loop over the forecasts: counts, and the first forecast of each cohort with its resolution.\<close>

type_synonym cohorts = "(string \<times> forecast_record \<times> resolution_body option) list"

fun scan_forecasts ::
  "hasher \<Rightarrow> (string \<rightharpoonup> resolution_row) \<Rightarrow> forecast_row list \<Rightarrow> score_counts \<Rightarrow> cohorts \<Rightarrow>
   (score_counts \<times> cohorts) result" where
  "scan_forecasts sha latest [] c cs = Inr (c, cs)"
| "scan_forecasts sha latest (row # rows) c cs =
     bind (raise_if (content_hash sha (forecast_json (fw_payload row)) \<noteq> fw_sha256 row)
             (ConflictError ''forecast_integrity_failure'')) (\<lambda>_.
     let forecast = fw_payload row;
         body = map_option rv_payload (latest (fr_forecast_id forecast));
         c1 = count_body body c;
         key = cohort sha forecast in
     if map_of cs key \<noteq> None
     then scan_forecasts sha latest rows (c1\<lparr>ct_duplicate_cohort := Suc (ct_duplicate_cohort c1)\<rparr>) cs
     else scan_forecasts sha latest rows c1 (cs @ [(key, forecast, body)]))"

fun scored_rows :: "cohorts \<Rightarrow> score_counts \<Rightarrow> score_counts \<times> (string \<times> forecast_record \<times> resolution_body) list" where
  "scored_rows [] c = (c, [])"
| "scored_rows ((key, forecast, body) # cs) c =
     (case body of
        None \<Rightarrow> scored_rows cs c
      | Some b \<Rightarrow>
          if bd_status b \<noteq> res_resolved \<or> \<not> binary_body b then scored_rows cs c
          else if \<not> bd_verified b \<or> bd_rules_hash b \<noteq> fr_rules_hash forecast
          then scored_rows cs (c\<lparr>ct_invalid_observations := Suc (ct_invalid_observations c)\<rparr>)
          else (case scored_rows cs c of (c', rows) \<Rightarrow> (c', (key, forecast, b) # rows)))"

definition score_selection ::
  "hasher \<Rightarrow> string \<Rightarrow> forecast_store \<Rightarrow>
   (score_counts \<times> (string \<times> forecast_record \<times> resolution_body) list) result" where
  "score_selection sha tenant s =
     (let records = sort_key (\<lambda>r. (fw_decision_ns r, fw_forecast_id r))
            (select_where (\<lambda>r. fw_tenant_id r = tenant) (fd_records s));
          resolutions = sort_key rv_revision (select_where (\<lambda>r. rv_tenant_id r = tenant) (fd_resolutions s));
          latest = map_of (rev (map (\<lambda>r. (rv_forecast_id r, r)) resolutions)) in
      bind (verify_all sha resolutions) (\<lambda>_.
      bind (scan_forecasts sha latest records
              \<lparr>ct_total = length records, ct_unresolved = 0, ct_canceled = 0, ct_disputed = 0,
               ct_non_binary = 0, ct_duplicate_cohort = 0, ct_invalid_observations = 0\<rparr> []) (\<lambda>(c, cs).
      Inr (scored_rows cs c))))"

section \<open>Append-only history\<close>

text \<open>What the checks of \<open>_resolution\<close> establish of an accepted body at the time \<open>t\<close> of the call.\<close>

definition body_fits :: "forecast_record \<Rightarrow> resolution_body \<Rightarrow> int \<Rightarrow> bool" where
  "body_fits f b t \<longleftrightarrow>
     bd_verified b \<and> bd_rules_hash b = fr_rules_hash f \<and> valid_sha256 (bd_source_hash b) \<and>
     fr_decision_at_ns f \<le> bd_observed_at_ns b \<and> bd_observed_at_ns b \<le> t \<and>
     opt_all (\<lambda>r. fr_decision_at_ns f < r \<and> r \<le> bd_observed_at_ns b) (bd_resolved_at_ns b) \<and>
     opt_all (\<lambda>x. opt_all (\<lambda>r. r \<le> x) (bd_resolved_at_ns b) \<and> bd_resolved_at_ns b \<noteq> None \<and>
                x \<le> bd_observed_at_ns b) (bd_redeemed_at_ns b) \<and>
     (bd_status b = res_resolved \<longrightarrow>
        bd_resolved_at_ns b \<noteq> None \<and> (bd_outcome b \<noteq> None \<or> bd_payout b \<noteq> None)) \<and>
     opt_all (\<lambda>i. i \<in> {0, 1}) (bd_outcome b) \<and> opt_all (\<lambda>p. 0 \<le> p \<and> p \<le> 1) (bd_payout b) \<and>
     opt_all (\<lambda>i. opt_all (\<lambda>p. p = of_int i) (bd_payout b)) (bd_outcome b)"

lemma timestamp_of_bounds:
  "timestamp_of optional t v = Inr x \<Longrightarrow> opt_all (\<lambda>i. 0 \<le> i \<and> i \<le> t) x \<and> (x = None \<longrightarrow> optional)"
  by (auto simp: timestamp_of_def split: json.splits if_splits)

lemma outcome_of_binary: "outcome_of v = Inr x \<Longrightarrow> opt_all (\<lambda>i. i \<in> {0, 1}) x"
  by (auto simp: outcome_of_def split: json.splits if_splits)

lemma payout_of_unit: "payout_of v = Inr x \<Longrightarrow> opt_all (\<lambda>p. 0 \<le> p \<and> p \<le> 1) x"
  by (auto simp: payout_of_def result_simps split: json.splits)

lemma hash_text_valid: "hash_text v = Inr h \<Longrightarrow> valid_sha256 h"
  by (auto simp: hash_text_def split: json.splits if_splits)

lemma resolution_of_fits:
  assumes "resolution_of f request previous t = Inr b"
  shows "body_fits f b t"
proof -
  obtain status outcome payout resolved_at seen redeemed memo origin source_hash where
    parts: "outcome_of (req request ''outcome'') = Inr outcome" "payout_of (req request ''payout'') = Inr payout"
      "timestamp_of (status \<noteq> res_resolved) t (req request ''resolved_at_ns'') = Inr resolved_at"
      "timestamp_of True t (req request ''redeemed_at_ns'') = Inr redeemed"
      "hash_text (req request ''source_hash'') = Inr source_hash"
    and seen: "timestamp_of False t (case map_of request ''observed_at_ns'' of Some v \<Rightarrow> v
        | None \<Rightarrow> JInt (case previous of None \<Rightarrow> t | Some b \<Rightarrow> bd_observed_at_ns b)) = Inr seen"
    and agree: "\<not> (case (outcome, payout) of (Some i, Some p) \<Rightarrow> p \<noteq> of_int i | _ \<Rightarrow> False)"
    and known: "\<not> (status = res_resolved \<and> outcome = None \<and> payout = None)"
    and order: "\<not> ((case seen of None \<Rightarrow> 0 | Some o_ns \<Rightarrow> o_ns) < fr_decision_at_ns f \<or>
         (case resolved_at of None \<Rightarrow> False
          | Some r \<Rightarrow> \<not> (fr_decision_at_ns f < r \<and> r \<le> (case seen of None \<Rightarrow> 0 | Some o_ns \<Rightarrow> o_ns))))"
    and redeem: "\<not> (case redeemed of None \<Rightarrow> False
         | Some x \<Rightarrow> (case resolved_at of None \<Rightarrow> True
             | Some r \<Rightarrow> \<not> (r \<le> x \<and> x \<le> (case seen of None \<Rightarrow> 0 | Some o_ns \<Rightarrow> o_ns))))"
    and b: "b = \<lparr>bd_status = status, bd_outcome = outcome, bd_payout = payout, bd_resolved_at_ns = resolved_at,
          bd_observed_at_ns = (case seen of None \<Rightarrow> 0 | Some o_ns \<Rightarrow> o_ns), bd_source = origin,
          bd_source_hash = source_hash, bd_rules_hash = fr_rules_hash f, bd_verified = True,
          bd_redeemed_at_ns = redeemed, bd_note = memo\<rparr>"
    using assms unfolding resolution_of_def Let_def bind_eq_Inr raise_if_eq_Inr sum.inject by blast
  obtain observed where observed: "seen = Some observed" "observed \<le> t"
    using timestamp_of_bounds[OF seen] by (cases seen) auto
  have status: "status = res_resolved \<longrightarrow> resolved_at \<noteq> None"
    using timestamp_of_bounds[OF parts(3)] by auto
  note facts = outcome_of_binary[OF parts(1)] payout_of_unit[OF parts(2)] hash_text_valid[OF parts(5)]
  show ?thesis
    using facts agree known order redeem status observed
    by (cases outcome; cases payout; cases resolved_at; cases redeemed) (simp_all add: body_fits_def b)
qed

inductive forecast_step :: "hasher \<Rightarrow> forecast_store \<Rightarrow> forecast_store \<Rightarrow> bool" for sha where
  recorded: "record_forecast sha tenant f t s = Inr (row, s') \<Longrightarrow> forecast_step sha s s'"
| resolved: "resolve_forecast sha tenant fid request actor permissions t s = Inr (row, s') \<Longrightarrow>
    forecast_step sha s s'"

definition empty_forecasts :: forecast_store where
  "empty_forecasts = \<lparr>fd_db = empty_db, fd_records = [], fd_resolutions = []\<rparr>"

definition forecast_key :: "forecast_row \<Rightarrow> string \<times> string" where
  "forecast_key r = (fw_tenant_id r, fw_forecast_id r)"

definition resolution_key :: "resolution_row \<Rightarrow> string \<times> string" where
  "resolution_key r = (rv_tenant_id r, rv_resolution_id r)"

interpretation forecasts: keyed_table forecast_key forecast_clash
  by unfold_locales (simp add: forecast_key_def forecast_clash_def)

interpretation resolutions: keyed_table resolution_key resolution_clash
  by unfold_locales (simp add: resolution_key_def resolution_clash_def)

definition revisions_of :: "string \<Rightarrow> string \<Rightarrow> resolution_row list \<Rightarrow> int list" where
  "revisions_of tenant fid rows =
     map rv_revision (select_where (\<lambda>r. rv_tenant_id r = tenant \<and> rv_forecast_id r = fid) rows)"

definition forecast_row_ok :: "hasher \<Rightarrow> forecast_row \<Rightarrow> bool" where
  "forecast_row_ok sha w \<longleftrightarrow> fw_sha256 w = content_hash sha (forecast_json (fw_payload w)) \<and>
     fw_forecast_id w = fr_forecast_id (fw_payload w) \<and> fr_decision_at_ns (fw_payload w) \<le> fw_created_ns w"

definition resolution_row_ok :: "hasher \<Rightarrow> forecast_store \<Rightarrow> resolution_row \<Rightarrow> bool" where
  "resolution_row_ok sha s r \<longleftrightarrow>
     rv_sha256 r = resolution_digest sha (rv_forecast_id r) (rv_actor_id r) (rv_payload r) \<and>
     (\<exists>w \<in> set (fd_records s). forecast_key w = (rv_tenant_id r, rv_forecast_id r) \<and>
        body_fits (fw_payload w) (rv_payload r) (rv_created_ns r))"

definition forecasts_inv :: "hasher \<Rightarrow> forecast_store \<Rightarrow> bool" where
  "forecasts_inv sha s \<longleftrightarrow>
     distinct (map forecast_key (fd_records s)) \<and> distinct (map resolution_key (fd_resolutions s)) \<and>
     (\<forall>w \<in> set (fd_records s). forecast_row_ok sha w) \<and>
     (\<forall>r \<in> set (fd_resolutions s). resolution_row_ok sha s r) \<and>
     (\<forall>tenant fid. consecutive (revisions_of tenant fid (fd_resolutions s)))"

lemma latest_revision_eq:
  "forecasts_inv sha s \<Longrightarrow>
   latest_revision tenant fid (fd_resolutions s) = int (length (revisions_of tenant fid (fd_resolutions s)))"
  by (simp add: forecasts_inv_def latest_revision_def consecutive_max flip: revisions_of_def)

lemma revisions_of_snoc:
  "revisions_of tenant fid (rows @ [r]) = revisions_of tenant fid rows @
     (if rv_tenant_id r = tenant \<and> rv_forecast_id r = fid then [rv_revision r] else [])"
  by (simp add: revisions_of_def select_where_def)

lemma revisions_of_mem:
  "r \<in> set rows \<Longrightarrow> rv_revision r \<in> set (revisions_of (rv_tenant_id r) (rv_forecast_id r) rows)"
  by (auto simp: revisions_of_def select_where_def)

text \<open>What a successful call leaves: the same store, or one new row.\<close>

lemma record_cases:
  assumes "record_forecast sha tenant f t s = Inr (row, s')"
  obtains (replay) "s' = s" "row \<in> set (fd_records s)" "forecast_key row = (tenant, fr_forecast_id f)"
      "fw_sha256 row = content_hash sha (forecast_json f)"
  | (fresh) "s' = s\<lparr>fd_records := fd_records s @ [row]\<rparr>"
      "forecast_key row \<notin> forecast_key ` set (fd_records s)" "forecast_row_ok sha row"
      "fw_payload row = f" "forecast_key row = (tenant, fr_forecast_id f)"
proof -
  let ?new = "\<lparr>fw_tenant_id = tenant, fw_forecast_id = fr_forecast_id f,
            fw_event_cluster_id = fr_event_cluster_id f, fw_decision_ns = fr_decision_at_ns f,
            fw_payload = f, fw_sha256 = content_hash sha (forecast_json f), fw_created_ns = t\<rparr>"
  let ?rows = "insert_once forecast_clash ?new (fd_records s)"
  have first: "first_where (forecast_at tenant (fr_forecast_id f)) ?rows = Some row"
    and hash: "fw_sha256 row = content_hash sha (forecast_json f)"
    and s': "s' = s\<lparr>fd_records := ?rows\<rparr>" and past: "fr_decision_at_ns f \<le> t"
    using assms by (auto simp: record_forecast_def result_simps Let_def)
  have row: "row \<in> set ?rows" "forecast_key row = (tenant, fr_forecast_id f)"
    using first_where_Some[OF first] by (auto simp: forecast_at_def forecast_key_def)
  have clash: "forecast_clash ?new r \<longleftrightarrow> forecast_key r = (tenant, fr_forecast_id f)" for r
    by (auto simp: forecast_clash_def forecast_key_def)
  show ?thesis
  proof (cases "list_ex (forecast_clash ?new) (fd_records s)")
    case True
    then have "?rows = fd_records s" by (simp add: insert_once_def)
    then show ?thesis using replay row hash s' by simp
  next
    case False
    then have rows: "?rows = fd_records s @ [?new]" by (simp add: insert_once_def)
    have absent: "forecast_key r \<noteq> (tenant, fr_forecast_id f)" if "r \<in> set (fd_records s)" for r
      using False that by (auto simp: list_ex_iff clash)
    then have "row = ?new" using row by (auto simp: rows)
    then show ?thesis using fresh s' rows absent past row(2) by (fastforce simp: forecast_row_ok_def)
  qed
qed

lemma get_forecast_eq_Inr:
  "get_forecast sha tenant fid s = Inr w \<Longrightarrow> w \<in> set (fd_records s) \<and> forecast_key w = (tenant, fid)"
  by (auto simp: get_forecast_def result_simps forecast_at_def forecast_key_def dest: first_where_Some)

lemma append_cases:
  assumes "append_resolution tenant fid identity actor body digest t s = Inr (row, s')"
    and "forecasts_inv sha s" and "first_where (resolution_at tenant identity) (fd_resolutions s) = None"
  shows "row = \<lparr>rv_tenant_id = tenant, rv_resolution_id = identity, rv_forecast_id = fid,
            rv_revision = latest_revision tenant fid (fd_resolutions s) + 1, rv_actor_id = actor,
            rv_payload = body, rv_sha256 = digest, rv_created_ns = t\<rparr> \<and>
         fd_records s' = fd_records s \<and> fd_resolutions s' = fd_resolutions s @ [row] \<and>
         (tenant, identity) \<notin> resolution_key ` set (fd_resolutions s)"
proof -
  define new where "new = \<lparr>rv_tenant_id = tenant, rv_resolution_id = identity, rv_forecast_id = fid,
            rv_revision = latest_revision tenant fid (fd_resolutions s) + 1, rv_actor_id = actor,
            rv_payload = body, rv_sha256 = digest, rv_created_ns = t\<rparr>"
  have absent: "\<not> resolution_at tenant identity r" if "r \<in> set (fd_resolutions s)" for r
    using assms(3) that by (simp add: first_where_None)
  have "rv_revision r \<le> latest_revision tenant fid (fd_resolutions s)"
    if "r \<in> set (fd_resolutions s)" "rv_tenant_id r = tenant" "rv_forecast_id r = fid" for r
    using revisions_of_mem[OF that(1)] that(2,3) assms(2) consecutive_bound
    unfolding latest_revision_eq[OF assms(2)] forecasts_inv_def by metis
  then have "\<not> list_ex (resolution_clash new) (fd_resolutions s)"
    using absent by (force simp: list_ex_iff resolution_clash_def new_def resolution_at_def)
  then have rows: "insert_once resolution_clash new (fd_resolutions s) = fd_resolutions s @ [new]"
    by (simp add: insert_once_def)
  obtain actual where "first_where (resolution_at tenant identity) (fd_resolutions s @ [new]) = Some actual"
    and "row = actual" and s': "fd_records s' = fd_records s" "fd_resolutions s' = fd_resolutions s @ [new]"
    using assms(1) unfolding append_resolution_def new_def[symmetric] Let_def rows
    by (auto simp: result_simps)
  then have "row \<in> set (fd_resolutions s @ [new])" "resolution_at tenant identity row"
    using first_where_Some by metis+
  then have "row = new" using absent by auto
  then show ?thesis using s' absent by (auto simp: new_def resolution_at_def resolution_key_def)
qed

lemma resolve_cases:
  assumes "resolve_forecast sha tenant fid request actor permissions t s = Inr (row, s')"
    and "forecasts_inv sha s"
  obtains (replay) "s' = s" "row \<in> set (fd_resolutions s)" "rv_tenant_id row = tenant"
  | (fresh) w where "fd_records s' = fd_records s" "fd_resolutions s' = fd_resolutions s @ [row]"
      "resolution_key row \<notin> resolution_key ` set (fd_resolutions s)"
      "rv_tenant_id row = tenant" "rv_forecast_id row = fid" "rv_actor_id row = actor"
      "rv_revision row = latest_revision tenant fid (fd_resolutions s) + 1" "rv_created_ns row = t"
      "rv_sha256 row = resolution_digest sha fid actor (rv_payload row)"
      "w \<in> set (fd_records s)" "forecast_key w = (tenant, fid)" "body_fits (fw_payload w) (rv_payload row) t"
proof -
  obtain w named body where w: "get_forecast sha tenant fid s = Inr w"
    and body: "resolution_of (fw_payload w) request (map_option rv_payload
        (case named of None \<Rightarrow> None | Some rid \<Rightarrow> first_where (resolution_at tenant rid) (fd_resolutions s))) t
      = Inr body"
    and rest: "(let identity = (case named of Some rid \<Rightarrow> rid | None \<Rightarrow> content_hash sha (JArr [JStr fid, body_json body]));
         digest = resolution_digest sha fid actor body in
     case (case named of None \<Rightarrow> None | Some rid \<Rightarrow> first_where (resolution_at tenant rid) (fd_resolutions s)) of
       Some old \<Rightarrow>
         bind (verified_resolution sha old) (\<lambda>_.
         bind (raise_if (rv_sha256 old \<noteq> digest \<or> rv_forecast_id old \<noteq> fid)
                 (ConflictError ''resolution_identity_conflict'')) (\<lambda>_. Inr (old, s)))
     | None \<Rightarrow>
         (case first_where (resolution_at tenant identity) (fd_resolutions s) of
            Some old \<Rightarrow>
              bind (verified_resolution sha old) (\<lambda>_.
              bind (raise_if (rv_sha256 old \<noteq> digest) (ConflictError ''resolution_identity_conflict'')) (\<lambda>_.
              Inr (old, s)))
          | None \<Rightarrow> append_resolution tenant fid identity actor body digest t s)) = Inr (row, s')"
    using assms(1) unfolding resolve_forecast_def bind_eq_Inr Let_def raise_if_eq_Inr by blast
  note fits = resolution_of_fits[OF body] and w = get_forecast_eq_Inr[OF w]
  define identity where "identity = (case named of Some rid \<Rightarrow> rid | None \<Rightarrow> content_hash sha (JArr [JStr fid, body_json body]))"
  have old: ?thesis if "first_where (resolution_at tenant identity) (fd_resolutions s) = Some old"
    "row = old" "s' = s" for old
    using replay that first_where_Some[OF that(1)] by (simp add: resolution_at_def)
  show ?thesis
  proof (cases "first_where (resolution_at tenant identity) (fd_resolutions s)")
    case None
    then have "append_resolution tenant fid identity actor body (resolution_digest sha fid actor body) t s = Inr (row, s')"
      using rest unfolding identity_def[symmetric] Let_def
      by (cases named) (simp_all add: identity_def)
    from append_cases[OF this assms(2) None] show ?thesis
      using fresh[of w] w fits by (auto simp: resolution_key_def)
  next
    case (Some o1)
    then have "row = o1 \<and> s' = s"
      using rest unfolding identity_def[symmetric] Let_def
      by (cases named) (simp_all add: identity_def result_simps)
    with Some old show ?thesis by blast
  qed
qed

lemma forecasts_inv_record:
  assumes "record_forecast sha tenant f t s = Inr (row, s')" and "forecasts_inv sha s"
  shows "forecasts_inv sha s'"
  using assms(1)
proof (cases rule: record_cases)
  case replay
  then show ?thesis using assms(2) by simp
next
  case fresh
  then show ?thesis using assms(2)
    by (force simp: forecasts_inv_def resolution_row_ok_def)
qed

lemma forecasts_inv_resolve:
  assumes "resolve_forecast sha tenant fid request actor permissions t s = Inr (row, s')"
    and "forecasts_inv sha s"
  shows "forecasts_inv sha s'"
  using assms
proof (cases rule: resolve_cases)
  case replay
  then show ?thesis using assms(2) by simp
next
  case (fresh w)
  have "resolution_row_ok sha s' row" using fresh by (auto simp: resolution_row_ok_def)
  moreover have "consecutive (revisions_of tn fd (fd_resolutions s'))" for tn fd
    using assms(2) fresh(2,4,5,7) latest_revision_eq[OF assms(2), of tenant fid]
    by (auto simp: forecasts_inv_def revisions_of_snoc intro: consecutive_snoc)
  ultimately show ?thesis using assms(2) fresh
    by (auto simp: forecasts_inv_def resolution_row_ok_def)
qed

lemma forecasts_inv_step: "forecast_step sha s s' \<Longrightarrow> forecasts_inv sha s \<Longrightarrow> forecasts_inv sha s'"
  by (induction rule: forecast_step.induct) (auto intro: forecasts_inv_record forecasts_inv_resolve)

lemma forecasts_inv_empty: "forecasts_inv sha empty_forecasts"
  by (simp add: forecasts_inv_def empty_forecasts_def revisions_of_def select_where_def consecutive_def)

interpretation forecasting: transition_system "forecast_step sha" "forecasts_inv sha" empty_forecasts
  by unfold_locales (auto intro: forecasts_inv_step simp: forecasts_inv_empty)

section \<open>What the authority promises\<close>

text \<open>
  C24: in every store reachable from the empty one, the revisions of a forecast are numbered 1, 2, 3, ..
  in the order they were appended, without a gap or a repetition.
\<close>

theorem resolution_revisions_consecutive:
  assumes "(forecast_step sha)\<^sup>*\<^sup>* empty_forecasts s"
  shows "revisions_of tenant fid (fd_resolutions s) =
    map int [1..<Suc (length (revisions_of tenant fid (fd_resolutions s)))]"
  using forecasting.inv_reachable[OF assms] unfolding forecasts_inv_def consecutive_def by blast

lemma record_present:
  assumes "distinct (map forecast_key (fd_records s))" and "row \<in> set (fd_records s)"
    and "forecast_key row = (tenant, fr_forecast_id g)" and "identity_text 80 (JStr tenant) = Inr a"
    and "identity_text 160 (JStr (fr_forecast_id g)) = Inr b"
    and "identity_text 160 (JStr (fr_event_cluster_id g)) = Inr c" and "fr_decision_at_ns g \<le> t"
  shows "record_forecast sha tenant g t s =
    (if fw_sha256 row \<noteq> content_hash sha (forecast_json g)
     then Inl (ConflictError ''forecast_identity_conflict'') else Inr (row, s))"
proof -
  let ?new = "\<lparr>fw_tenant_id = tenant, fw_forecast_id = fr_forecast_id g,
            fw_event_cluster_id = fr_event_cluster_id g, fw_decision_ns = fr_decision_at_ns g,
            fw_payload = g, fw_sha256 = content_hash sha (forecast_json g), fw_created_ns = t\<rparr>"
  have rows: "insert_once forecast_clash ?new (fd_records s) = fd_records s"
    using assms(3) by (intro forecasts.insert_once_present[OF assms(2)]) (simp add: forecast_key_def)
  have "forecast_at tenant (fr_forecast_id g) = (\<lambda>x. forecast_key x = forecast_key row)"
    using assms(3) by (auto simp: forecast_at_def forecast_key_def fun_eq_iff)
  then have "first_where (forecast_at tenant (fr_forecast_id g)) (fd_records s) = Some row"
    using first_where_unique[OF assms(1,2)] by simp
  then show ?thesis using assms(4-7) by (simp add: record_forecast_def Let_def rows raise_if_def)
qed

text \<open>
  Recording is idempotent and a stored forecast never changes: the same forecast can be recorded
  again at any later time and gives the stored row, and a forecast of the same identity with another
  content hash is refused.
\<close>

theorem forecasts_immutable:
  assumes "record_forecast sha tenant f t s = Inr (row, s')" and "forecasts_inv sha s" and "t \<le> t'"
    and "fr_forecast_id g = fr_forecast_id f" and "fr_event_cluster_id g = fr_event_cluster_id f"
    and "fr_decision_at_ns g \<le> t'"
  shows "record_forecast sha tenant g t' s' =
    (if content_hash sha (forecast_json g) = content_hash sha (forecast_json f) then Inr (row, s')
     else Inl (ConflictError ''forecast_identity_conflict''))"
proof -
  have inv: "distinct (map forecast_key (fd_records s'))"
    using forecasts_inv_record[OF assms(1,2)] by (simp add: forecasts_inv_def)
  have row: "row \<in> set (fd_records s') \<and> forecast_key row = (tenant, fr_forecast_id f) \<and>
      fw_sha256 row = content_hash sha (forecast_json f)"
    using assms(1) by (cases rule: record_cases) (auto simp: forecast_row_ok_def)
  obtain a b c where ids: "identity_text 80 (JStr tenant) = Inr a"
      "identity_text 160 (JStr (fr_forecast_id g)) = Inr b"
      "identity_text 160 (JStr (fr_event_cluster_id g)) = Inr c"
    using assms(1,4,5) unfolding record_forecast_def bind_eq_Inr by auto
  show ?thesis
    using record_present[OF inv _ _ ids assms(6), of row] row assms(4) by simp
qed

definition store_grows :: "forecast_store \<Rightarrow> forecast_store \<Rightarrow> bool" where
  "store_grows a b \<longleftrightarrow> (\<exists>new_records. fd_records b = fd_records a @ new_records) \<and>
     (\<exists>new_resolutions. fd_resolutions b = fd_resolutions a @ new_resolutions)"

lemma store_grows_step: "forecast_step sha a b \<Longrightarrow> forecasts_inv sha a \<Longrightarrow> store_grows a b"
  by (induction rule: forecast_step.induct)
    (fastforce simp: store_grows_def elim: record_cases resolve_cases)+

lemma store_grows_trans: "store_grows a b \<Longrightarrow> store_grows b c \<Longrightarrow> store_grows a c"
  unfolding store_grows_def by auto

text \<open>
  Nothing is rewritten or removed: after any sequence of calls the old forecasts and the old
  resolutions are a prefix of the new ones.
\<close>

theorem forecast_history_append_only:
  assumes "(forecast_step sha)\<^sup>*\<^sup>* s s'" and "forecasts_inv sha s"
  shows "store_grows s s'"
proof (rule forecasting.related_steps[OF assms, where R = store_grows])
  show "store_grows a a" for a by (simp add: store_grows_def)
  show "store_grows a c" if "store_grows a b" "store_grows b c" for a b c
    using that by (rule store_grows_trans)
  show "store_grows a b" if "forecasts_inv sha a" "forecast_step sha a b" for a b
    using that by (rule store_grows_step[rotated])
qed

section \<open>The scorecard\<close>

definition record_order :: "forecast_row \<Rightarrow> int \<times> string" where
  "record_order w = (fw_decision_ns w, fw_forecast_id w)"

text \<open>The entry of a cohort is its first forecast, with the payload of the latest resolution.\<close>

definition chosen_from :: "hasher \<Rightarrow> (string \<rightharpoonup> resolution_row) \<Rightarrow> forecast_row list \<Rightarrow>
    string \<times> forecast_record \<times> resolution_body option \<Rightarrow> bool" where
  "chosen_from sha latest rows e \<longleftrightarrow> (case e of (key, f, body) \<Rightarrow>
     \<exists>pre w post. rows = pre @ w # post \<and> fw_payload w = f \<and> cohort sha f = key \<and>
       body = map_option rv_payload (latest (fr_forecast_id f)) \<and>
       (\<forall>v \<in> set pre. cohort sha (fw_payload v) \<noteq> key))"

lemma count_body_kept [simp]:
  "ct_total (count_body b c) = ct_total c" "ct_duplicate_cohort (count_body b c) = ct_duplicate_cohort c"
  "ct_invalid_observations (count_body b c) = ct_invalid_observations c"
  by (simp_all add: count_body_def split: option.splits resolution_status.splits)

lemma map_of_None_keys: "map_of cs key = None \<longleftrightarrow> key \<notin> set (map fst cs)"
  by (simp add: map_of_eq_None_iff)

lemma scan_forecasts_spec:
  assumes "scan_forecasts sha latest rows c cs = Inr (c', cs')"
    and "distinct (map fst cs)" and "set (map fst cs) = (\<lambda>w. cohort sha (fw_payload w)) ` set done_rows"
    and "\<forall>e \<in> set cs. chosen_from sha latest done_rows e"
  shows "distinct (map fst cs') \<and> (\<forall>e \<in> set cs'. chosen_from sha latest (done_rows @ rows) e) \<and>
    ct_duplicate_cohort c' + length cs' = ct_duplicate_cohort c + length cs + length rows \<and>
    ct_total c' = ct_total c \<and> ct_invalid_observations c' = ct_invalid_observations c"
  using assms
proof (induction rows arbitrary: c cs done_rows)
  case Nil
  then show ?case by auto
next
  case (Cons w rows)
  let ?key = "cohort sha (fw_payload w)"
  let ?body = "map_option rv_payload (latest (fr_forecast_id (fw_payload w)))"
  have later: "\<forall>e \<in> set cs. chosen_from sha latest (done_rows @ [w]) e"
    using Cons.prems(4) by (fastforce simp: chosen_from_def)
  show ?case
  proof (cases "map_of cs ?key")
    case None
    then have new: "?key \<notin> set (map fst cs)" by (simp add: map_of_eq_None_iff)
    have fresh: "cohort sha (fw_payload v) \<noteq> ?key" if "v \<in> set done_rows" for v
      using new that unfolding Cons.prems(3) by (metis imageI)
    have "chosen_from sha latest (done_rows @ [w]) (?key, fw_payload w, ?body)"
      unfolding chosen_from_def prod.case
      by (rule exI[of _ done_rows], rule exI[of _ w], rule exI[of _ "[]"]) (simp add: fresh)
    moreover have "scan_forecasts sha latest rows (count_body ?body c) (cs @ [(?key, fw_payload w, ?body)]) = Inr (c', cs')"
      using Cons.prems(1) None by (simp add: Let_def bind_eq_Inr)
    ultimately show ?thesis
      using Cons.IH[of "count_body ?body c" "cs @ [(?key, fw_payload w, ?body)]" "done_rows @ [w]"]
        Cons.prems(2,3) later new by simp
  next
    case (Some e)
    let ?c1 = "count_body ?body c"
    have mem: "?key \<in> set (map fst cs)" using Some by (force dest: map_of_SomeD)
    have "scan_forecasts sha latest rows (?c1\<lparr>ct_duplicate_cohort := Suc (ct_duplicate_cohort ?c1)\<rparr>) cs = Inr (c', cs')"
      using Cons.prems(1) Some by (simp add: Let_def bind_eq_Inr)
    from Cons.IH[OF this Cons.prems(2), of "done_rows @ [w]"] show ?thesis
      using Cons.prems(3) later mem by (simp add: insert_absorb)
  qed
qed

definition usable :: "string \<times> forecast_record \<times> resolution_body \<Rightarrow> bool" where
  "usable e = (case e of (key, f, b) \<Rightarrow>
     bd_status b = res_resolved \<and> binary_body b \<and> bd_verified b \<and> bd_rules_hash b = fr_rules_hash f)"

lemma scored_rows_spec:
  "scored_rows cs c = (c', rows) \<Longrightarrow>
   (\<forall>(key, f, b) \<in> set rows. (key, f, Some b) \<in> set cs \<and> usable (key, f, b)) \<and>
   set (map fst rows) \<subseteq> set (map fst cs) \<and> (distinct (map fst cs) \<longrightarrow> distinct (map fst rows)) \<and>
   length rows + ct_invalid_observations c' \<le> ct_invalid_observations c + length cs \<and>
   ct_total c' = ct_total c \<and> ct_duplicate_cohort c' = ct_duplicate_cohort c"
proof (induction cs arbitrary: c c' rows)
  case Nil
  then show ?case by simp
next
  case (Cons e cs)
  obtain key f body where e: "e = (key, f, body)" by (cases e)
  show ?case
  proof (cases "\<exists>b. body = Some b \<and> usable (key, f, b)")
    case True
    then obtain b where b: "body = Some b" "usable (key, f, b)" by blast
    obtain c1 rs where rest: "scored_rows cs c = (c1, rs)" by fastforce
    with Cons.prems e b have "rows = (key, f, b) # rs" "c' = c1" by (auto simp: usable_def)
    with Cons.IH[OF rest] e b show ?thesis by auto
  next
    case False
    then obtain c0 where rest: "scored_rows cs c0 = (c', rows)" and c0: "ct_total c0 = ct_total c"
        "ct_duplicate_cohort c0 = ct_duplicate_cohort c" "ct_invalid_observations c0 \<le> Suc (ct_invalid_observations c)"
      using Cons.prems e by (auto simp: usable_def split: option.splits if_splits)
    from Cons.IH[OF rest] c0 e show ?thesis by auto
  qed
qed

text \<open>
  A row of the scorecard: the forecast is the earliest of its cohort, and the resolution the latest
  revision of that forecast, verified, under the rules the forecast was made for.
\<close>

definition scored_soundly :: "hasher \<Rightarrow> string \<Rightarrow> forecast_store \<Rightarrow> string \<times> forecast_record \<times> resolution_body \<Rightarrow> bool" where
  "scored_soundly sha tenant s e \<longleftrightarrow> usable e \<and> (case e of (key, f, b) \<Rightarrow> key = cohort sha f \<and>
     (\<exists>w \<in> set (fd_records s). fw_tenant_id w = tenant \<and> fw_payload w = f \<and>
        (\<forall>v \<in> set (fd_records s). fw_tenant_id v = tenant \<and> cohort sha (fw_payload v) = key \<longrightarrow>
           record_order w \<le> record_order v)) \<and>
     (\<exists>r \<in> set (fd_resolutions s). rv_tenant_id r = tenant \<and> rv_forecast_id r = fr_forecast_id f \<and>
        rv_payload r = b \<and>
        (\<forall>q \<in> set (fd_resolutions s). rv_tenant_id q = tenant \<and> rv_forecast_id q = fr_forecast_id f \<longrightarrow>
           rv_revision q \<le> rv_revision r)))"

text \<open>
  A scorecard scores each cohort at most once, through its earliest forecast and the latest
  verified resolution of it, and its counts account for every forecast of the tenant: what is scored,
  invalid or a duplicate never exceeds the total.
\<close>

theorem scorecard_selection_sound:
  assumes "score_selection sha tenant s = Inr (c, rows)"
  shows "distinct (map fst rows) \<and> (\<forall>e \<in> set rows. scored_soundly sha tenant s e) \<and>
    length rows + ct_invalid_observations c + ct_duplicate_cohort c \<le> ct_total c"
proof -
  define records where "records = sort_key (\<lambda>r. (fw_decision_ns r, fw_forecast_id r))
            (select_where (\<lambda>r. fw_tenant_id r = tenant) (fd_records s))"
  define resolutions where "resolutions = sort_key rv_revision (select_where (\<lambda>r. rv_tenant_id r = tenant) (fd_resolutions s))"
  define latest where "latest = map_of (rev (map (\<lambda>r. (rv_forecast_id r, r)) resolutions))"
  obtain c1 cs where scan: "scan_forecasts sha latest records
              \<lparr>ct_total = length records, ct_unresolved = 0, ct_canceled = 0, ct_disputed = 0,
               ct_non_binary = 0, ct_duplicate_cohort = 0, ct_invalid_observations = 0\<rparr> [] = Inr (c1, cs)"
    and scored: "scored_rows cs c1 = (c, rows)"
    using assms unfolding score_selection_def Let_def bind_eq_Inr
    by (auto simp: records_def resolutions_def latest_def)
  note scanned = scan_forecasts_spec[OF scan, of "[]", simplified]
  note sound = scored_rows_spec[OF scored]
  have sorted_records: "sorted (map record_order records)"
    unfolding records_def record_order_def by (rule sorted_sort_key)
  have "scored_soundly sha tenant s e" if "e \<in> set rows" for e
  proof -
    obtain key f b where e: "e = (key, f, b)" by (cases e)
    with that sound have "(key, f, Some b) \<in> set cs" and use: "usable e" by auto
    with scanned obtain pre w post where split: "records = pre @ w # post" "fw_payload w = f" "cohort sha f = key"
      and body: "Some b = map_option rv_payload (latest (fr_forecast_id f))"
      and first: "\<forall>v \<in> set pre. cohort sha (fw_payload v) \<noteq> key"
      by (auto simp: chosen_from_def)
    have "record_order w \<le> record_order v" if "v \<in> set records" "cohort sha (fw_payload v) = key" for v
      using that sorted_records first by (auto simp: split sorted_append)
    moreover have "set records = {w \<in> set (fd_records s). fw_tenant_id w = tenant}"
      by (auto simp: records_def select_where_def)
    moreover have "w \<in> set records" using split by simp
    moreover obtain r where "latest (fr_forecast_id f) = Some r" "rv_payload r = b" using body[symmetric] by auto
    moreover from this have "r \<in> set resolutions \<and> rv_forecast_id r = fr_forecast_id f \<and>
        (\<forall>q \<in> set resolutions. rv_forecast_id q = fr_forecast_id f \<longrightarrow> rv_revision q \<le> rv_revision r)"
      unfolding latest_def by (intro map_of_rev_last) (simp_all add: resolutions_def)
    moreover have "set resolutions = {r \<in> set (fd_resolutions s). rv_tenant_id r = tenant}"
      by (auto simp: resolutions_def select_where_def)
    ultimately show ?thesis using use split(2,3) unfolding scored_soundly_def e by auto
  qed
  with scanned sound show ?thesis by simp
qed

section \<open>A worked example\<close>

definition demo_hash :: string where "demo_hash = replicate 64 (CHR ''a'')"

definition demo_forecast :: forecast_record where
  "demo_forecast = \<lparr>fr_forecast_id = ''f1'', fr_event_id = ''e1'', fr_event_cluster_id = ''c1'',
     fr_market_id = ''m1'', fr_outcome_id = ''yes'', fr_probability = 1 / 2, fr_market_bid = None,
     fr_market_ask = None, fr_market_mid = None, fr_market_probability_missing_reason = Some ''closed'',
     fr_decision_at_ns = 10, fr_horizon_end_ns = 100, fr_model_provider = ''p'', fr_model_id = ''m'',
     fr_prompt_hash = demo_hash, fr_rules_hash = demo_hash, fr_prediction_mode = blind,
     fr_evidence_hashes = [demo_hash]\<rparr>"

definition demo_request :: "int \<Rightarrow> request" where
  "demo_request seen = [(''status'', JStr ''resolved''), (''outcome'', JInt 1), (''resolved_at_ns'', JInt 50),
     (''observed_at_ns'', JInt seen), (''source'', JStr ''official''), (''source_hash'', JStr demo_hash),
     (''rules_hash'', JStr demo_hash), (''verified'', JBool True)]"

lemma demo_sha: "valid_sha256 demo_hash"
  by (simp add: demo_hash_def valid_sha256_def numeral_eq_Suc hex_lower_def)

definition demo_row :: forecast_row where
  "demo_row = \<lparr>fw_tenant_id = ''t'', fw_forecast_id = ''f1'', fw_event_cluster_id = ''c1'', fw_decision_ns = 10,
     fw_payload = demo_forecast, fw_sha256 = content_hash text_sha (forecast_json demo_forecast), fw_created_ns = 20\<rparr>"

lemma demo_sel [simp]:
  "fr_forecast_id demo_forecast = ''f1''" "fr_event_cluster_id demo_forecast = ''c1''"
  "fr_decision_at_ns demo_forecast = 10" "fr_rules_hash demo_forecast = demo_hash"
  "fw_tenant_id demo_row = ''t''" "fw_forecast_id demo_row = ''f1''" "fw_payload demo_row = demo_forecast"
  "fw_sha256 demo_row = content_hash text_sha (forecast_json demo_forecast)"
  by (simp_all add: demo_forecast_def demo_row_def)

definition demo_store :: forecast_store where
  "demo_store = \<lparr>fd_db = empty_db, fd_records = [demo_row], fd_resolutions = []\<rparr>"

lemma demo_recorded: "record_forecast text_sha ''t'' demo_forecast 20 empty_forecasts = Inr (demo_row, demo_store)"
  by (simp add: record_forecast_def identity_text_def is_space_def insert_once_def empty_forecasts_def
      demo_row_def[symmetric] first_where_def forecast_at_def demo_store_def)

definition demo_body :: resolution_body where
  "demo_body = \<lparr>bd_status = res_resolved, bd_outcome = Some 1, bd_payout = None, bd_resolved_at_ns = Some 50,
     bd_observed_at_ns = 60, bd_source = ''official'', bd_source_hash = demo_hash, bd_rules_hash = demo_hash,
     bd_verified = True, bd_redeemed_at_ns = None, bd_note = None\<rparr>"

definition demo_resolved :: "(resolution_row \<times> forecast_store) result" where
  "demo_resolved = resolve_forecast text_sha ''t'' ''f1'' (demo_request 60) ''judge'' (Some [''forecast:resolve'']) 70 demo_store"

lemma demo_checked: "resolution_of demo_forecast (demo_request 60) None 70 = Inr demo_body"
  by (simp add: resolution_of_def demo_request_def resolution_keys_def req_def hash_text_def demo_sha status_of_def
      outcome_of_def payout_of_def timestamp_of_def note_of_def identity_text_def is_space_def demo_body_def raise_if_def)

lemma demo_append: "demo_resolved = append_resolution ''t'' ''f1'' (content_hash text_sha (JArr [JStr ''f1'', body_json demo_body]))
   ''judge'' demo_body (resolution_digest text_sha ''f1'' ''judge'' demo_body) 70 demo_store"
  by (simp add: demo_resolved_def resolve_forecast_def identity_text_def is_space_def get_forecast_def first_where_def
     demo_store_def forecast_at_def demo_checked req_def demo_request_def[of 60, THEN arg_cong[of _ _ "\<lambda>r. map_of r ''resolution_id''"]])

definition demo_id :: string where
  "demo_id = content_hash text_sha (JArr [JStr ''f1'', body_json demo_body])"

definition demo_resolution :: resolution_row where
  "demo_resolution = \<lparr>rv_tenant_id = ''t'', rv_resolution_id = demo_id, rv_forecast_id = ''f1'', rv_revision = 1,
     rv_actor_id = ''judge'', rv_payload = demo_body,
     rv_sha256 = resolution_digest text_sha ''f1'' ''judge'' demo_body, rv_created_ns = 70\<rparr>"

lemma demo_commits: "\<exists>d. demo_resolved = Inr (demo_resolution, \<lparr>fd_db = d, fd_records = [demo_row], fd_resolutions = [demo_resolution]\<rparr>)"
  unfolding demo_append demo_id_def[symmetric]
  by (simp add: append_resolution_def Let_def latest_revision_def select_where_def demo_store_def insert_once_def
    first_where_def resolution_at_def demo_resolution_def raise_if_def)

lemma demo_forecasts_reachable: "\<exists>d. (forecast_step text_sha)\<^sup>*\<^sup>* empty_forecasts
    \<lparr>fd_db = d, fd_records = [demo_row], fd_resolutions = [demo_resolution]\<rparr>"
proof -
  have "forecast_step text_sha empty_forecasts demo_store" by (rule recorded[OF demo_recorded])
  moreover obtain d where "demo_resolved = Inr (demo_resolution, \<lparr>fd_db = d, fd_records = [demo_row], fd_resolutions = [demo_resolution]\<rparr>)"
    using demo_commits by blast
  ultimately show ?thesis
    unfolding demo_resolved_def by (blast dest: resolved intro: converse_rtranclp_into_rtranclp)
qed

definition demo_final :: "db \<Rightarrow> forecast_store" where
  "demo_final d = \<lparr>fd_db = d, fd_records = [demo_row], fd_resolutions = [demo_resolution]\<rparr>"

theorem resolution_revisions_consecutive_witness:
  "\<exists>d. (forecast_step text_sha)\<^sup>*\<^sup>* empty_forecasts (demo_final d) \<and> revisions_of ''t'' ''f1'' (fd_resolutions (demo_final d)) = [1]"
proof -
  obtain d where reach: "(forecast_step text_sha)\<^sup>*\<^sup>* empty_forecasts (demo_final d)"
    using demo_forecasts_reachable unfolding demo_final_def by blast
  have "length (revisions_of ''t'' ''f1'' (fd_resolutions (demo_final d))) = 1"
    by (simp add: demo_final_def revisions_of_def select_where_def demo_resolution_def)
  then show ?thesis using resolution_revisions_consecutive[OF reach, of "''t''" "''f1''"] reach by auto
qed

theorem forecasts_immutable_witness:
  "record_forecast text_sha ''t'' demo_forecast 30 demo_store = Inr (demo_row, demo_store)"
  using forecasts_immutable[OF demo_recorded forecasts_inv_empty, of 30 demo_forecast] by simp

theorem forecast_history_append_only_witness: "\<exists>d. store_grows demo_store (demo_final d)"
proof -
  obtain d where "demo_resolved = Inr (demo_resolution, demo_final d)"
    using demo_commits unfolding demo_final_def by blast
  then have "(forecast_step text_sha)\<^sup>*\<^sup>* demo_store (demo_final d)"
    unfolding demo_resolved_def by (blast intro: resolved)
  from forecast_history_append_only[OF this forecasts_inv_record[OF demo_recorded forecasts_inv_empty]]
  show ?thesis by blast
qed

lemma demo_selected:
  "score_selection text_sha ''t'' (demo_final empty_db) =
     Inr (\<lparr>ct_total = 1, ct_unresolved = 0, ct_canceled = 0, ct_disputed = 0, ct_non_binary = 0,
           ct_duplicate_cohort = 0, ct_invalid_observations = 0\<rparr>,
          [(cohort text_sha demo_forecast, demo_forecast, demo_body)])"
proof -
  have "verified_resolution text_sha demo_resolution = Inr ()"
    by (simp add: verified_resolution_def demo_resolution_def)
  moreover have "rv_tenant_id demo_resolution = ''t''" "rv_forecast_id demo_resolution = ''f1''"
    "rv_payload demo_resolution = demo_body"
    by (simp_all add: demo_resolution_def)
  moreover have "bd_status demo_body = res_resolved" "binary_body demo_body" "bd_verified demo_body"
    "bd_rules_hash demo_body = demo_hash"
    by (simp_all add: demo_body_def binary_body_def)
  ultimately show ?thesis
    by (simp add: score_selection_def demo_final_def select_where_def count_body_def)
qed

theorem scorecard_selection_sound_witness:
  "scored_soundly text_sha ''t'' (demo_final empty_db) (cohort text_sha demo_forecast, demo_forecast, demo_body)"
  using scorecard_selection_sound[OF demo_selected] by simp

end
