(* ===== verification/Registry.thy ===== *)
theory Registry
  imports Repository OMS Fixtures
begin

text \<open>
  The experiment registry, \<open>src/qt/experiments/registry.py\<close>: campaigns that own a holdout window of a
  dataset, their trials, and the one audited grant that opens the window.  It is a \<open>Repository\<close>: its
  tables live beside the shared ones (\<open>rg_db\<close>), whose events and jobs it uses.  \<open>t\<close> is the wall clock
  of the call and \<open>grant_id\<close> the fresh \<open>uuid4().hex\<close>.  A job whose payload has no text member
  \<open>experiment_hash\<close> joins no trial.
\<close>

section \<open>Rows\<close>

record campaign_row =
  cp_tenant_id :: string
  cp_campaign_id :: string
  cp_dataset_id :: string
  cp_holdout_start_ns :: int
  cp_holdout_end_ns :: int
  cp_candidate_limit :: int
  cp_payload :: json
  cp_sha256 :: string
  cp_created_ns :: int

datatype trial_status = trial_submitted | trial_completed | trial_failed | trial_aborted | trial_rejected

fun trial_status_text :: "trial_status \<Rightarrow> string" where
  "trial_status_text trial_submitted = ''submitted''"
| "trial_status_text trial_completed = ''completed''"
| "trial_status_text trial_failed = ''failed''"
| "trial_status_text trial_aborted = ''aborted''"
| "trial_status_text trial_rejected = ''rejected''"

record trial_row =
  tr_tenant_id :: string
  tr_trial_id :: string
  tr_campaign_id :: string
  tr_payload :: json
  tr_sha256 :: string
  tr_status :: trial_status
  tr_result :: "json option"
  tr_result_sha256 :: "string option"
  tr_created_ns :: int

record grant_row =
  gr_tenant_id :: string
  gr_campaign_id :: string
  gr_grant_id :: string
  gr_actor_id :: string
  gr_reason :: string
  gr_granted_ns :: int

definition grant_clash :: "grant_row \<Rightarrow> grant_row \<Rightarrow> bool" where
  "grant_clash r s \<longleftrightarrow> gr_grant_id r = gr_grant_id s \<or>
     (gr_tenant_id r = gr_tenant_id s \<and> gr_campaign_id r = gr_campaign_id s)"

record registry =
  rg_db :: db
  rg_guards :: "(string \<times> string) list"
  rg_campaigns :: "campaign_row list"
  rg_trials :: "trial_row list"
  rg_grants :: "grant_row list"

definition empty_registry :: registry where
  "empty_registry = \<lparr>rg_db = empty_db, rg_guards = [], rg_campaigns = [], rg_trials = [], rg_grants = []\<rparr>"

definition campaign_at :: "string \<Rightarrow> string \<Rightarrow> campaign_row \<Rightarrow> bool" where
  "campaign_at tenant cid c \<longleftrightarrow> cp_tenant_id c = tenant \<and> cp_campaign_id c = cid"

definition trial_at :: "string \<Rightarrow> string \<Rightarrow> trial_row \<Rightarrow> bool" where
  "trial_at tenant tid r \<longleftrightarrow> tr_tenant_id r = tenant \<and> tr_trial_id r = tid"

definition trial_of :: "string \<Rightarrow> string \<Rightarrow> trial_row \<Rightarrow> bool" where
  "trial_of tenant cid r \<longleftrightarrow> tr_tenant_id r = tenant \<and> tr_campaign_id r = cid"

definition grant_of :: "string \<Rightarrow> string \<Rightarrow> grant_row \<Rightarrow> bool" where
  "grant_of tenant cid g \<longleftrightarrow> gr_tenant_id g = tenant \<and> gr_campaign_id g = cid"

text \<open>Two half-open windows of one dataset meet: the overlap query of the code.\<close>

definition owns_window :: "string \<Rightarrow> string \<Rightarrow> int \<Rightarrow> int \<Rightarrow> campaign_row \<Rightarrow> bool" where
  "owns_window tenant dataset lo hi c \<longleftrightarrow> cp_tenant_id c = tenant \<and> cp_dataset_id c = dataset \<and>
     cp_holdout_start_ns c < hi \<and> cp_holdout_end_ns c > lo"

section \<open>Campaigns\<close>

definition campaign_payload :: "string \<Rightarrow> int \<Rightarrow> int \<Rightarrow> json \<Rightarrow> int \<Rightarrow> json" where
  "campaign_payload dataset lo hi protocol limit = JObj
     [(''dataset_id'', JStr dataset), (''holdout_start_ns'', JInt lo), (''holdout_end_ns'', JInt hi),
      (''protocol'', protocol), (''candidate_limit'', JInt limit)]"

definition register_campaign ::
  "hasher \<Rightarrow> string \<Rightarrow> string \<Rightarrow> string \<Rightarrow> int \<Rightarrow> int \<Rightarrow> json \<Rightarrow> int \<Rightarrow> int \<Rightarrow> registry \<Rightarrow>
   (campaign_row \<times> registry) result" where
  "register_campaign sha tenant cid dataset lo hi protocol limit t s =
     bind (raise_if (tenant = [] \<or> cid = [] \<or> dataset = []) (ValueError ''campaign_identity_required'')) (\<lambda>_.
     bind (raise_if (\<not> (0 \<le> lo \<and> lo < hi) \<or> \<not> (1 \<le> limit \<and> limit \<le> 30))
             (ValueError ''invalid_campaign_bounds'')) (\<lambda>_.
     let payload = campaign_payload dataset lo hi protocol limit;
         digest = content_hash sha payload;
         s1 = s\<lparr>rg_guards := insert_once (=) (tenant, dataset) (rg_guards s)\<rparr> in
     case first_where (campaign_at tenant cid) (rg_campaigns s) of
       Some existing \<Rightarrow>
         bind (raise_if (cp_sha256 existing \<noteq> digest) (ConflictError ''campaign_identity_conflict'')) (\<lambda>_.
         Inr (existing, s1))
     | None \<Rightarrow>
         bind (raise_if (exists_where (owns_window tenant dataset lo hi) (rg_campaigns s))
                 (ConflictError ''holdout_window_already_owned_by_campaign'')) (\<lambda>_.
         let row = \<lparr>cp_tenant_id = tenant, cp_campaign_id = cid, cp_dataset_id = dataset,
               cp_holdout_start_ns = lo, cp_holdout_end_ns = hi, cp_candidate_limit = limit,
               cp_payload = payload, cp_sha256 = digest, cp_created_ns = t\<rparr> in
         Inr (row, s1\<lparr>rg_campaigns := rg_campaigns s @ [row],
                rg_db := add_event tenant cid ''campaign_registered'' [(''sha256'', JStr digest)] t (rg_db s)\<rparr>))))"

definition get_campaign :: "string \<Rightarrow> string \<Rightarrow> registry \<Rightarrow> campaign_row result" where
  "get_campaign tenant cid s =
     or_raise (first_where (campaign_at tenant cid) (rg_campaigns s)) (KeyError ''campaign_not_found'')"

section \<open>Trials\<close>

text \<open>A proposal is a nonempty JSON object.\<close>

definition register_trial ::
  "hasher \<Rightarrow> string \<Rightarrow> string \<Rightarrow> string \<Rightarrow> (string \<times> json) list \<Rightarrow> (string \<times> string) option \<Rightarrow> int \<Rightarrow>
   registry \<Rightarrow> (trial_row \<times> registry) result" where
  "register_trial sha tenant cid tid proposal fence t s =
     bind (raise_if (tid = [] \<or> proposal = []) (ValueError ''trial_identity_and_proposal_required'')) (\<lambda>_.
     let digest = content_hash sha (JObj [(''campaign_id'', JStr cid), (''proposal'', JObj proposal)]) in
     bind (check_fence tenant fence t (rg_db s)) (\<lambda>_.
     bind (get_campaign tenant cid s) (\<lambda>campaign.
     case first_where (trial_at tenant tid) (rg_trials s) of
       Some existing \<Rightarrow>
         bind (raise_if (tr_sha256 existing \<noteq> digest) (ConflictError ''trial_identity_conflict'')) (\<lambda>_.
         Inr (existing, s))
     | None \<Rightarrow>
         bind (raise_if (exists_where (grant_of tenant cid) (rg_grants s))
                 (ConflictError ''campaign_frozen_after_holdout_unlock'')) (\<lambda>_.
         bind (raise_if (int (length (select_where (trial_of tenant cid) (rg_trials s)))
                   \<ge> cp_candidate_limit campaign)
                 (ConflictError ''campaign_candidate_limit_exceeded'')) (\<lambda>_.
         let row = \<lparr>tr_tenant_id = tenant, tr_trial_id = tid, tr_campaign_id = cid, tr_payload = JObj proposal,
               tr_sha256 = digest, tr_status = trial_submitted, tr_result = None, tr_result_sha256 = None,
               tr_created_ns = t\<rparr> in
         Inr (row, s\<lparr>rg_trials := rg_trials s @ [row],
                rg_db := add_event tenant tid ''trial_registered''
                  [(''campaign_id'', JStr cid), (''sha256'', JStr digest)] t (rg_db s)\<rparr>))))))"

definition finished_trial :: "trial_status \<Rightarrow> json \<Rightarrow> string \<Rightarrow> trial_row \<Rightarrow> trial_row" where
  "finished_trial status outcome digest r =
     r\<lparr>tr_status := status, tr_result := Some outcome, tr_result_sha256 := Some digest\<rparr>"

definition finish_trial ::
  "hasher \<Rightarrow> string \<Rightarrow> string \<Rightarrow> trial_status \<Rightarrow> json \<Rightarrow> (string \<times> string) option \<Rightarrow> int \<Rightarrow>
   registry \<Rightarrow> (trial_row \<times> registry) result" where
  "finish_trial sha tenant tid status outcome fence t s =
     bind (raise_if (status = trial_submitted) (ValueError ''invalid_terminal_trial_status'')) (\<lambda>_.
     let digest = content_hash sha (JObj [(''status'', JStr (trial_status_text status)), (''result'', outcome)]) in
     bind (check_fence tenant fence t (rg_db s)) (\<lambda>_.
     bind (or_raise (first_where (trial_at tenant tid) (rg_trials s)) (KeyError ''trial_not_found'')) (\<lambda>row.
     if tr_status row \<noteq> trial_submitted
     then bind (raise_if (tr_result_sha256 row \<noteq> Some digest) (ConflictError ''terminal_trial_result_immutable'')) (\<lambda>_.
          Inr (row, s))
     else Inr (finished_trial status outcome digest row,
            s\<lparr>rg_trials := update_where (trial_at tenant tid) (finished_trial status outcome digest) (rg_trials s),
              rg_db := add_event tenant tid ''trial_finished''
                [(''status'', JStr (trial_status_text status)), (''sha256'', JStr digest)] t (rg_db s)\<rparr>))))"

definition trial_population :: "string \<Rightarrow> string \<Rightarrow> registry \<Rightarrow> trial_row list result" where
  "trial_population tenant cid s =
     bind (get_campaign tenant cid s) (\<lambda>_.
     Inr (sort_key (\<lambda>r. (tr_created_ns r, tr_trial_id r)) (select_where (trial_of tenant cid) (rg_trials s))))"

section \<open>Abandoned trials\<close>

definition job_experiment :: "job_row \<Rightarrow> string option" where
  "job_experiment j =
     (case jget (jb_payload j) ''experiment_hash'' of Some (JStr h) \<Rightarrow> Some h | _ \<Rightarrow> None)"

definition still_active :: "registry \<Rightarrow> job_row \<Rightarrow> bool" where
  "still_active s j \<longleftrightarrow> exists_where (\<lambda>o_j. jb_tenant_id o_j = jb_tenant_id j \<and> jb_kind o_j = ''experiment'' \<and>
     jb_sha256 o_j = jb_sha256 j \<and> jb_status o_j \<in> {QUEUED, RUNNING}) (jobs (rg_db s))"

definition abandoned :: "string \<Rightarrow> registry \<Rightarrow> job_row \<Rightarrow> bool" where
  "abandoned tenant s j \<longleftrightarrow> jb_tenant_id j = tenant \<and> jb_kind j = ''experiment'' \<and>
     jb_status j \<in> {JOB_CANCELLED, JOB_EXHAUSTED, JOB_FAILED} \<and>
     (case job_experiment j of None \<Rightarrow> False
      | Some h \<Rightarrow> exists_where (\<lambda>r. trial_at tenant h r \<and> tr_status r = trial_submitted) (rg_trials s)) \<and>
     \<not> still_active s j"

definition abandoned_result :: "hasher \<Rightarrow> job_row \<Rightarrow> json" where
  "abandoned_result sha j = JObj
     [(''job_id'', JStr (jb_job_id j)), (''queue_status'', JStr (job_status_text (jb_status j))),
      (''attempts'', JInt (jb_attempts j)),
      (''queue_result_hash'', JStr (content_hash sha (case jb_result j of None \<Rightarrow> JNull | Some v \<Rightarrow> v)))]"

text \<open>The loop over the selected jobs; \<open>finished\<close> is the number of trials it finished.\<close>

fun finish_abandoned ::
  "hasher \<Rightarrow> string \<Rightarrow> int \<Rightarrow> job_row list \<Rightarrow> nat \<Rightarrow> registry \<Rightarrow> (nat \<times> registry) result" where
  "finish_abandoned sha tenant t [] finished s = Inr (finished, s)"
| "finish_abandoned sha tenant t (j # js) finished s =
     (if content_hash sha (jb_payload j) \<noteq> jb_sha256 j then finish_abandoned sha tenant t js finished s
      else
        (case job_experiment j of
           None \<Rightarrow> finish_abandoned sha tenant t js finished s
         | Some h \<Rightarrow>
             bind (or_raise (first_where (trial_at tenant h) (rg_trials s)) NoResultFound) (\<lambda>current.
             if tr_status current \<noteq> trial_submitted then finish_abandoned sha tenant t js finished s
             else bind (finish_trial sha tenant h
                          (if jb_status j = JOB_FAILED then trial_failed else trial_aborted)
                          (abandoned_result sha j) None t s) (\<lambda>(_, s').
                  finish_abandoned sha tenant t js (Suc finished) s'))))"

text \<open>\<open>FOR UPDATE .. SKIP LOCKED\<close> passes over the jobs other transactions hold: \<open>locked\<close>.\<close>

definition reconcile_terminal_jobs ::
  "hasher \<Rightarrow> string \<Rightarrow> nat \<Rightarrow> (string \<Rightarrow> bool) \<Rightarrow> int \<Rightarrow> registry \<Rightarrow> (nat \<times> registry) result" where
  "reconcile_terminal_jobs sha tenant limit locked t s =
     bind (raise_if (\<not> (1 \<le> limit \<and> limit \<le> 100)) (ValueError ''terminal_trial_reconciliation_limit_invalid'')) (\<lambda>_.
     let rows = take limit (filter (\<lambda>j. \<not> locked (jb_job_id j))
           (sort_key (\<lambda>j. (jb_created_ns j, jb_job_id j)) (select_where (abandoned tenant s) (jobs (rg_db s))))) in
     finish_abandoned sha tenant t rows 0 s)"

section \<open>The holdout\<close>

definition unlock_refusal :: "string \<Rightarrow> string \<Rightarrow> string \<Rightarrow> string list \<Rightarrow> string \<Rightarrow> registry \<Rightarrow> string option" where
  "unlock_refusal tenant cid actor permissions reason s =
     (let population = select_where (trial_of tenant cid) (rg_trials s) in
      if ''holdout:unlock'' \<notin> set permissions \<or> actor = [] \<or> list_all is_space reason
      then Some ''holdout_unlock_permission_or_reason_required''
      else if exists_where (grant_of tenant cid) (rg_grants s) then Some ''holdout_already_unlocked''
      else if population = [] \<or> list_ex (\<lambda>r. tr_status r = trial_submitted) population
      then Some ''campaign_trials_not_terminal''
      else None)"

definition unlock_event :: "string \<Rightarrow> string \<Rightarrow> string option \<Rightarrow> string option \<Rightarrow> (string \<times> json) list" where
  "unlock_event actor reason denial grant_id =
     [(''actor_id'', JStr actor), (''reason'', JStr reason), (''denial'', jopt JStr denial),
      (''grant_id'', jopt JStr grant_id)]"

text \<open>A refusal is recorded: the transaction commits its event before the call raises.\<close>

definition unlock_holdout ::
  "string \<Rightarrow> string \<Rightarrow> string \<Rightarrow> string list \<Rightarrow> string \<Rightarrow> string \<Rightarrow> int \<Rightarrow> registry \<Rightarrow>
   grant_row result \<times> registry" where
  "unlock_holdout tenant cid actor permissions reason grant_id t s =
     (case get_campaign tenant cid s of
        Inl e \<Rightarrow> (Inl e, s)
      | Inr _ \<Rightarrow>
          (case unlock_refusal tenant cid actor permissions reason s of
             Some denial \<Rightarrow>
               (Inl (PermissionError denial),
                s\<lparr>rg_db := add_event tenant cid ''holdout_unlock_denied''
                   (unlock_event actor reason (Some denial) None) t (rg_db s)\<rparr>)
           | None \<Rightarrow>
               (let grant = \<lparr>gr_tenant_id = tenant, gr_campaign_id = cid, gr_grant_id = grant_id,
                      gr_actor_id = actor, gr_reason = reason, gr_granted_ns = t\<rparr> in
                case insert_row grant_clash ''campaign_holdout_grants'' grant (rg_grants s) of
                  Inl e \<Rightarrow> (Inl e, s)
                | Inr rows \<Rightarrow>
                    (Inr grant, s\<lparr>rg_grants := rows,
                       rg_db := add_event tenant cid ''holdout_unlocked''
                         (unlock_event actor reason None (Some grant_id)) t (rg_db s)\<rparr>))))"

definition authorize_holdout_read ::
  "string \<Rightarrow> string \<Rightarrow> string \<Rightarrow> string \<Rightarrow> string list \<Rightarrow> int \<Rightarrow> registry \<Rightarrow>
   campaign_row result \<times> registry" where
  "authorize_holdout_read tenant cid actor grant_id permissions t s =
     (let allowed = exists_where (\<lambda>g. grant_of tenant cid g \<and> gr_actor_id g = actor \<and> gr_grant_id g = grant_id)
            (rg_grants s) \<and> ''holdout:read'' \<in> set permissions;
          s' = s\<lparr>rg_db := add_event tenant cid (if allowed then ''holdout_read'' else ''holdout_read_denied'')
                 [(''actor_id'', JStr actor)] t (rg_db s)\<rparr> in
      (if allowed then get_campaign tenant cid s' else Inl (PermissionError ''holdout_read_not_authorized''), s'))"

definition guard_development_read :: "string \<Rightarrow> string \<Rightarrow> int \<Rightarrow> int \<Rightarrow> registry \<Rightarrow> unit result" where
  "guard_development_read tenant dataset lo hi s =
     bind (raise_if (\<not> (0 \<le> lo \<and> lo < hi)) (ValueError ''invalid_read_window'')) (\<lambda>_.
     raise_if (exists_where (owns_window tenant dataset lo hi) (rg_campaigns s))
       (PermissionError ''development_read_overlaps_protected_holdout''))"

section \<open>Invariant\<close>

definition campaign_key :: "campaign_row \<Rightarrow> string \<times> string" where
  "campaign_key c = (cp_tenant_id c, cp_campaign_id c)"

definition trial_key :: "trial_row \<Rightarrow> string \<times> string" where
  "trial_key r = (tr_tenant_id r, tr_trial_id r)"

definition grant_key :: "grant_row \<Rightarrow> string \<times> string" where
  "grant_key g = (gr_tenant_id g, gr_campaign_id g)"

interpretation grant_table: keyed_table grant_key grant_clash
  by unfold_locales (simp add: grant_key_def grant_clash_def)

definition population :: "string \<times> string \<Rightarrow> trial_row list \<Rightarrow> trial_row list" where
  "population key rows = select_where (trial_of (fst key) (snd key)) rows"

definition terminal_trials :: "trial_row list \<Rightarrow> bool" where
  "terminal_trials rows \<longleftrightarrow> rows \<noteq> [] \<and> (\<forall>r \<in> set rows. tr_status r \<noteq> trial_submitted)"

definition campaign_sound :: "campaign_row \<Rightarrow> bool" where
  "campaign_sound c \<longleftrightarrow> 0 \<le> cp_holdout_start_ns c \<and> cp_holdout_start_ns c < cp_holdout_end_ns c \<and>
     1 \<le> cp_candidate_limit c \<and> cp_candidate_limit c \<le> 30"

definition windows_apart :: "campaign_row \<Rightarrow> campaign_row \<Rightarrow> bool" where
  "windows_apart c e \<longleftrightarrow> (cp_tenant_id c = cp_tenant_id e \<and> cp_dataset_id c = cp_dataset_id e \<longrightarrow>
     cp_holdout_end_ns c \<le> cp_holdout_start_ns e \<or> cp_holdout_end_ns e \<le> cp_holdout_start_ns c)"

definition registry_inv :: "registry \<Rightarrow> bool" where
  "registry_inv s \<longleftrightarrow>
     distinct (map campaign_key (rg_campaigns s)) \<and> (\<forall>c \<in> set (rg_campaigns s). campaign_sound c) \<and>
     (\<forall>c \<in> set (rg_campaigns s). \<forall>e \<in> set (rg_campaigns s). c \<noteq> e \<longrightarrow> windows_apart c e) \<and>
     distinct (map trial_key (rg_trials s)) \<and>
     (\<forall>r \<in> set (rg_trials s). (tr_tenant_id r, tr_campaign_id r) \<in> campaign_key ` set (rg_campaigns s)) \<and>
     (\<forall>c \<in> set (rg_campaigns s).
        int (length (population (campaign_key c) (rg_trials s))) \<le> cp_candidate_limit c) \<and>
     distinct (map grant_key (rg_grants s)) \<and>
     (\<forall>g \<in> set (rg_grants s). grant_key g \<in> campaign_key ` set (rg_campaigns s) \<and>
        terminal_trials (population (grant_key g) (rg_trials s)))"

text \<open>What a finishing does to a trial: nothing, or the one change from \<open>submitted\<close>.\<close>

definition trial_moves :: "trial_row \<Rightarrow> trial_row \<Rightarrow> bool" where
  "trial_moves r r' \<longleftrightarrow> r' = r \<or> (tr_status r = trial_submitted \<and>
     (\<exists>status outcome digest. status \<noteq> trial_submitted \<and> r' = finished_trial status outcome digest r))"

lemma trial_moves_refl [simp]: "trial_moves r r"
  by (simp add: trial_moves_def)

lemma trial_moves_trans: "trial_moves a b \<Longrightarrow> trial_moves b c \<Longrightarrow> trial_moves a c"
  by (auto simp: trial_moves_def finished_trial_def)

lemma trial_moves_keeps:
  "trial_moves r r' \<Longrightarrow> tr_tenant_id r' = tr_tenant_id r \<and> tr_trial_id r' = tr_trial_id r \<and>
     tr_campaign_id r' = tr_campaign_id r \<and> tr_payload r' = tr_payload r \<and> tr_sha256 r' = tr_sha256 r \<and>
     (tr_status r \<noteq> trial_submitted \<longrightarrow> r' = r)"
  by (auto simp: trial_moves_def finished_trial_def)

definition trials_move :: "registry \<Rightarrow> registry \<Rightarrow> bool" where
  "trials_move s s' \<longleftrightarrow> rg_campaigns s' = rg_campaigns s \<and> rg_grants s' = rg_grants s \<and>
     list_all2 trial_moves (rg_trials s) (rg_trials s')"

lemma trials_move_refl: "trials_move s s"
  by (simp add: trials_move_def list_all2_refl)

lemma trials_move_trans: "trials_move a b \<Longrightarrow> trials_move b c \<Longrightarrow> trials_move a c"
  unfolding trials_move_def using list_all2_trans[of trial_moves trial_moves trial_moves] trial_moves_trans
  by metis

lemma moved_population:
  "list_all2 trial_moves rows rows' \<Longrightarrow> list_all2 trial_moves (population key rows) (population key rows')"
proof (induction rule: list_all2_induct)
  case Nil
  then show ?case by (simp add: population_def select_where_def)
next
  case (Cons r rs r' rs')
  then show ?case
    using trial_moves_keeps[OF Cons.hyps(1)] by (auto simp: population_def select_where_def trial_of_def)
qed

lemma moved_terminal:
  assumes "list_all2 trial_moves rows rows'" and "terminal_trials rows"
  shows "rows' = rows"
proof (rule nth_equalityI)
  show "length rows' = length rows" using list_all2_lengthD[OF assms(1)] by simp
  fix n assume "n < length rows'"
  then have "n < length rows" using list_all2_lengthD[OF assms(1)] by simp
  then have "trial_moves (rows ! n) (rows' ! n)" and "tr_status (rows ! n) \<noteq> trial_submitted"
    using list_all2_nthD[OF assms(1)] assms(2) by (auto simp: terminal_trials_def)
  then show "rows' ! n = rows ! n" by (simp add: trial_moves_def)
qed

lemma moved_keys:
  assumes "list_all2 trial_moves rows rows'"
  shows "map trial_key rows' = map trial_key rows"
    and "map (\<lambda>r. (tr_tenant_id r, tr_campaign_id r)) rows' = map (\<lambda>r. (tr_tenant_id r, tr_campaign_id r)) rows"
  using assms by (induction rule: list_all2_induct) (simp_all add: trial_key_def trial_moves_keeps)

lemma trials_move_inv:
  assumes "trials_move s s'" and "registry_inv s"
  shows "registry_inv s'"
proof -
  have same: "rg_campaigns s' = rg_campaigns s" "rg_grants s' = rg_grants s"
    and moved: "list_all2 trial_moves (rg_trials s) (rg_trials s')"
    using assms(1) by (simp_all add: trials_move_def)
  have keys: "map trial_key (rg_trials s') = map trial_key (rg_trials s)"
    using moved by (rule moved_keys)
  have homes: "(\<lambda>r. (tr_tenant_id r, tr_campaign_id r)) ` set (rg_trials s') =
      (\<lambda>r. (tr_tenant_id r, tr_campaign_id r)) ` set (rg_trials s)"
    using moved_keys(2)[OF moved, THEN arg_cong[where f = set]] unfolding set_map .
  have count: "length (population key (rg_trials s')) = length (population key (rg_trials s))" for key
    using list_all2_lengthD[OF moved_population[OF moved]] by metis
  have closed: "terminal_trials (population (grant_key g) (rg_trials s'))" if "g \<in> set (rg_grants s)" for g
  proof -
    have "terminal_trials (population (grant_key g) (rg_trials s))"
      using that assms(2) by (simp add: registry_inv_def)
    then show ?thesis using moved_terminal[OF moved_population[OF moved]] by metis
  qed
  have home: "(tr_tenant_id r, tr_campaign_id r) \<in> campaign_key ` set (rg_campaigns s)"
    if mem: "r \<in> set (rg_trials s')" for r
  proof -
    obtain q where "q \<in> set (rg_trials s)"
      and "(tr_tenant_id r, tr_campaign_id r) = (tr_tenant_id q, tr_campaign_id q)"
      using homes[THEN equalityD1, THEN subsetD, OF imageI, OF mem] by blast
    then show ?thesis using assms(2) by (simp add: registry_inv_def)
  qed
  show ?thesis
    using assms(2) unfolding registry_inv_def same keys count
    by (elim conjE, intro conjI ballI) (assumption | rule home closed | simp)+
qed

lemma trial_at_key: "trial_at tenant tid r \<longleftrightarrow> trial_key r = (tenant, tid)"
  by (simp add: trial_at_def trial_key_def)

lemma registry_inv_trials: "registry_inv s \<Longrightarrow> distinct (map trial_key (rg_trials s))"
  by (simp add: registry_inv_def)

lemma finish_trial_move:
  assumes "finish_trial sha tenant tid status outcome fence t s = Inr (row, s')" and "registry_inv s"
  shows "trials_move s s' \<and> row \<in> set (rg_trials s') \<and> trial_key row = (tenant, tid) \<and>
    tr_status row \<noteq> trial_submitted"
proof -
  let ?digest = "content_hash sha (JObj [(''status'', JStr (trial_status_text status)), (''result'', outcome)])"
  obtain r where r: "first_where (trial_at tenant tid) (rg_trials s) = Some r"
    and status: "status \<noteq> trial_submitted"
    and replay: "tr_status r \<noteq> trial_submitted \<Longrightarrow> row = r \<and> s' = s"
    and finish: "tr_status r = trial_submitted \<Longrightarrow> row = finished_trial status outcome ?digest r \<and>
        rg_campaigns s' = rg_campaigns s \<and> rg_grants s' = rg_grants s \<and>
        rg_trials s' = update_where (trial_at tenant tid) (finished_trial status outcome ?digest) (rg_trials s)"
  proof -
    obtain r where "first_where (trial_at tenant tid) (rg_trials s) = Some r" "status \<noteq> trial_submitted"
      "(if tr_status r \<noteq> trial_submitted
        then bind (raise_if (tr_result_sha256 r \<noteq> Some ?digest) (ConflictError ''terminal_trial_result_immutable'')) (\<lambda>_.
          Inr (r, s))
        else Inr (finished_trial status outcome ?digest r,
            s\<lparr>rg_trials := update_where (trial_at tenant tid) (finished_trial status outcome ?digest) (rg_trials s),
              rg_db := add_event tenant tid ''trial_finished''
                [(''status'', JStr (trial_status_text status)), (''sha256'', JStr ?digest)] t (rg_db s)\<rparr>))
       = Inr (row, s')"
      using assms(1) unfolding finish_trial_def bind_eq_Inr Let_def raise_if_eq_Inr or_raise_eq_Inr by blast
    then show thesis by (intro that[of r]) (auto simp: result_simps)
  qed
  have mem: "r \<in> set (rg_trials s)" "trial_key r = (tenant, tid)"
    using first_where_Some[OF r] by (simp_all add: trial_at_key)
  show ?thesis
  proof (cases "tr_status r = trial_submitted")
    case True
    have "trial_moves q (if trial_at tenant tid q then finished_trial status outcome ?digest q else q)"
      if "q \<in> set (rg_trials s)" for q
    proof (cases "trial_at tenant tid q")
      case hit: True
      have "q = r"
        using unique_row[OF registry_inv_trials[OF assms(2)] that mem(1)] mem(2) hit by (simp add: trial_at_key)
      then show ?thesis using True status hit by (auto simp: trial_moves_def)
    qed simp
    then have "list_all2 trial_moves (rg_trials s) (rg_trials s')"
      using finish[OF True] by (simp add: update_where_def list_all2_conv_all_nth)
    moreover have "row \<in> set (rg_trials s')"
      using finish[OF True] mem by (auto simp: set_update_where trial_at_key intro!: image_eqI[of _ _ r])
    ultimately show ?thesis
      using finish[OF True] mem status by (simp add: trials_move_def finished_trial_def trial_key_def)
  next
    case False
    then show ?thesis using replay mem trials_move_refl by simp
  qed
qed

lemma finish_abandoned_move:
  "finish_abandoned sha tenant t js n s = Inr (m, s') \<Longrightarrow> registry_inv s \<Longrightarrow> trials_move s s' \<and> n \<le> m"
proof (induction js arbitrary: n s)
  case Nil
  then show ?case by (simp add: trials_move_refl)
next
  case (Cons j js)
  consider (skip) "finish_abandoned sha tenant t js n s = Inr (m, s')"
    | (one) h status row s1 where "finish_trial sha tenant h status (abandoned_result sha j) None t s = Inr (row, s1)"
        "finish_abandoned sha tenant t js (Suc n) s1 = Inr (m, s')"
    using Cons.prems(1) by (auto simp: result_simps split: if_splits option.splits)
  then show ?case
  proof cases
    case skip
    then show ?thesis using Cons by blast
  next
    case one
    have "trials_move s s1" using finish_trial_move[OF one(1) Cons.prems(2)] by blast
    moreover have "trials_move s1 s' \<and> Suc n \<le> m"
      using Cons.IH[OF one(2) trials_move_inv[OF calculation Cons.prems(2)]] .
    ultimately show ?thesis using trials_move_trans by auto
  qed
qed

lemma campaign_at_key: "campaign_at tenant cid c \<longleftrightarrow> campaign_key c = (tenant, cid)"
  by (simp add: campaign_at_def campaign_key_def)

lemma register_campaign_cases:
  assumes "register_campaign sha tenant cid dataset lo hi protocol limit t s = Inr (c, s')"
  obtains (known) "c \<in> set (rg_campaigns s)" "rg_campaigns s' = rg_campaigns s" "rg_trials s' = rg_trials s"
      "rg_grants s' = rg_grants s"
  | (fresh) "rg_campaigns s' = rg_campaigns s @ [c]" "rg_trials s' = rg_trials s" "rg_grants s' = rg_grants s"
      "campaign_sound c" "campaign_key c = (tenant, cid)" "campaign_key c \<notin> campaign_key ` set (rg_campaigns s)"
      "\<forall>e \<in> set (rg_campaigns s). windows_apart c e \<and> windows_apart e c"
proof (cases "first_where (campaign_at tenant cid) (rg_campaigns s)")
  case None
  have bounds: "0 \<le> lo" "lo < hi" "1 \<le> limit" "limit \<le> 30"
    and free: "\<not> exists_where (owns_window tenant dataset lo hi) (rg_campaigns s)"
    and c: "c = \<lparr>cp_tenant_id = tenant, cp_campaign_id = cid, cp_dataset_id = dataset,
               cp_holdout_start_ns = lo, cp_holdout_end_ns = hi, cp_candidate_limit = limit,
               cp_payload = campaign_payload dataset lo hi protocol limit,
               cp_sha256 = content_hash sha (campaign_payload dataset lo hi protocol limit), cp_created_ns = t\<rparr>"
    and s': "rg_campaigns s' = rg_campaigns s @ [c]" "rg_trials s' = rg_trials s" "rg_grants s' = rg_grants s"
    using assms None by (auto simp: register_campaign_def result_simps Let_def)
  have "campaign_key c \<notin> campaign_key ` set (rg_campaigns s)"
    using None by (auto simp: first_where_None campaign_at_key c campaign_key_def)
  moreover have "windows_apart c e \<and> windows_apart e c" if "e \<in> set (rg_campaigns s)" for e
    using free that by (auto simp: exists_where_iff owns_window_def windows_apart_def c not_less)
  ultimately show ?thesis
    using fresh s' bounds by (simp add: campaign_sound_def c campaign_key_def)
next
  case (Some e)
  then have "c = e" "rg_campaigns s' = rg_campaigns s" "rg_trials s' = rg_trials s" "rg_grants s' = rg_grants s"
    using assms by (auto simp: register_campaign_def result_simps Let_def)
  then show ?thesis using known first_where_Some[OF Some] by blast
qed

lemma register_trial_cases:
  assumes "register_trial sha tenant cid tid proposal fence t s = Inr (r, s')"
  obtains (known) "s' = s" "r \<in> set (rg_trials s)"
  | (fresh) c where "rg_trials s' = rg_trials s @ [r]" "rg_campaigns s' = rg_campaigns s" "rg_grants s' = rg_grants s"
      "tr_status r = trial_submitted" "trial_key r = (tenant, tid)" "trial_key r \<notin> trial_key ` set (rg_trials s)"
      "tr_tenant_id r = tenant" "tr_campaign_id r = cid" "c \<in> set (rg_campaigns s)" "campaign_key c = (tenant, cid)"
      "(tenant, cid) \<notin> grant_key ` set (rg_grants s)"
      "int (length (population (tenant, cid) (rg_trials s))) < cp_candidate_limit c"
proof (cases "first_where (trial_at tenant tid) (rg_trials s)")
  case None
  obtain c where c: "get_campaign tenant cid s = Inr c"
    and free: "\<not> exists_where (grant_of tenant cid) (rg_grants s)"
    and room: "\<not> int (length (select_where (trial_of tenant cid) (rg_trials s))) \<ge> cp_candidate_limit c"
    and r: "tr_status r = trial_submitted" "trial_key r = (tenant, tid)" "tr_tenant_id r = tenant" "tr_campaign_id r = cid"
    and s': "rg_trials s' = rg_trials s @ [r]" "rg_campaigns s' = rg_campaigns s" "rg_grants s' = rg_grants s"
    using assms None by (auto simp: register_trial_def result_simps Let_def trial_key_def)
  have "c \<in> set (rg_campaigns s)" "campaign_key c = (tenant, cid)"
    using c by (auto simp: get_campaign_def result_simps campaign_at_key dest: first_where_Some)
  moreover have "trial_key r \<notin> trial_key ` set (rg_trials s)"
    using None r(2) by (auto simp: first_where_None trial_at_key)
  moreover have "(tenant, cid) \<notin> grant_key ` set (rg_grants s)"
    using free by (auto simp: exists_where_iff grant_of_def grant_key_def)
  ultimately show ?thesis
    using fresh r s' room by (simp add: population_def not_le)
next
  case (Some e)
  then have "s' = s \<and> r = e"
    using assms by (auto simp: register_trial_def result_simps Let_def)
  then show ?thesis using known first_where_Some[OF Some] by blast
qed

lemma unlock_cases:
  assumes "unlock_holdout tenant cid actor permissions reason grant_id t s = (res, s')"
  obtains (refused) e where "res = Inl e" "rg_campaigns s' = rg_campaigns s" "rg_trials s' = rg_trials s"
      "rg_grants s' = rg_grants s"
  | (granted) g where "res = Inr g" "rg_campaigns s' = rg_campaigns s" "rg_trials s' = rg_trials s"
      "rg_grants s' = rg_grants s @ [g]" "grant_key g = (tenant, cid)"
      "grant_key g \<in> campaign_key ` set (rg_campaigns s)" "grant_key g \<notin> grant_key ` set (rg_grants s)"
      "terminal_trials (population (grant_key g) (rg_trials s))" "''holdout:unlock'' \<in> set permissions"
proof (cases "get_campaign tenant cid s")
  case (Inl e)
  then show ?thesis using assms refused by (auto simp: unlock_holdout_def)
next
  case (Inr c)
  have c: "c \<in> set (rg_campaigns s)" "campaign_key c = (tenant, cid)"
    using Inr by (auto simp: get_campaign_def result_simps campaign_at_key dest: first_where_Some)
  show ?thesis
  proof (cases "unlock_refusal tenant cid actor permissions reason s")
    case (Some denial)
    then show ?thesis using assms Inr refused by (auto simp: unlock_holdout_def)
  next
    case None
    let ?g = "\<lparr>gr_tenant_id = tenant, gr_campaign_id = cid, gr_grant_id = grant_id,
                      gr_actor_id = actor, gr_reason = reason, gr_granted_ns = t\<rparr>"
    have closed: "terminal_trials (population (tenant, cid) (rg_trials s))" "''holdout:unlock'' \<in> set permissions"
      using None by (auto simp: unlock_refusal_def Let_def terminal_trials_def population_def list_ex_iff split: if_splits)
    show ?thesis
    proof (cases "insert_row grant_clash ''campaign_holdout_grants'' ?g (rg_grants s)")
      case (Inl e)
      then show ?thesis using assms Inr None refused by (auto simp: unlock_holdout_def Let_def)
    next
      case rows: (Inr rows)
      then have "\<forall>q \<in> set (rg_grants s). \<not> grant_clash ?g q" and "rows = rg_grants s @ [?g]"
        by (simp_all add: insert_row_eq_Inr)
      then have "grant_key ?g \<notin> grant_key ` set (rg_grants s)" and key: "grant_key ?g = (tenant, cid)"
        by (auto simp: grant_key_def grant_clash_def)
      moreover have "grant_key ?g \<in> campaign_key ` set (rg_campaigns s)"
        using c unfolding key by (metis imageI)
      moreover have "res = Inr ?g" "rg_campaigns s' = rg_campaigns s" "rg_trials s' = rg_trials s"
        "rg_grants s' = rg_grants s @ [?g]"
        using assms Inr None rows \<open>rows = rg_grants s @ [?g]\<close> by (auto simp: unlock_holdout_def Let_def)
      ultimately show ?thesis using closed granted[of ?g] by simp
    qed
  qed
qed

section \<open>Steps\<close>

text \<open>The last rule lets every other subsystem change the shared tables at any time.\<close>

inductive registry_step :: "hasher \<Rightarrow> registry \<Rightarrow> registry \<Rightarrow> bool" for sha where
  step_campaign: "register_campaign sha tenant cid dataset lo hi protocol limit t s = Inr (c, s') \<Longrightarrow>
    registry_step sha s s'"
| step_trial: "register_trial sha tenant cid tid proposal fence t s = Inr (r, s') \<Longrightarrow> registry_step sha s s'"
| step_finish: "finish_trial sha tenant tid status outcome fence t s = Inr (r, s') \<Longrightarrow> registry_step sha s s'"
| step_jobs: "reconcile_terminal_jobs sha tenant limit locked t s = Inr (n, s') \<Longrightarrow> registry_step sha s s'"
| step_unlock: "unlock_holdout tenant cid actor permissions reason grant_id t s = (res, s') \<Longrightarrow>
    registry_step sha s s'"
| step_read: "authorize_holdout_read tenant cid actor grant_id permissions t s = (seen, s') \<Longrightarrow>
    registry_step sha s s'"
| step_other: "registry_step sha s (s\<lparr>rg_db := d\<rparr>)"

text \<open>Every step finishes trials, or appends one campaign, one trial or one grant.\<close>

lemma registry_step_kinds:
  assumes "registry_step sha s s'" and "registry_inv s"
  obtains (move) "trials_move s s'"
  | (campaign) c where "rg_campaigns s' = rg_campaigns s @ [c]" "rg_trials s' = rg_trials s"
      "rg_grants s' = rg_grants s" "campaign_sound c" "campaign_key c \<notin> campaign_key ` set (rg_campaigns s)"
      "\<forall>e \<in> set (rg_campaigns s). windows_apart c e \<and> windows_apart e c"
  | (trial) r c where "rg_trials s' = rg_trials s @ [r]" "rg_campaigns s' = rg_campaigns s"
      "rg_grants s' = rg_grants s" "trial_key r \<notin> trial_key ` set (rg_trials s)" "c \<in> set (rg_campaigns s)"
      "campaign_key c = (tr_tenant_id r, tr_campaign_id r)"
      "campaign_key c \<notin> grant_key ` set (rg_grants s)"
      "int (length (population (campaign_key c) (rg_trials s))) < cp_candidate_limit c"
  | (grant) g where "rg_grants s' = rg_grants s @ [g]" "rg_campaigns s' = rg_campaigns s"
      "rg_trials s' = rg_trials s" "grant_key g \<in> campaign_key ` set (rg_campaigns s)"
      "grant_key g \<notin> grant_key ` set (rg_grants s)" "terminal_trials (population (grant_key g) (rg_trials s))"
  using assms(1)
proof cases
  case (step_campaign tenant cid dataset lo hi protocol limit t c)
  then show ?thesis
    by (cases rule: register_campaign_cases)
      (use move campaign in \<open>auto simp: trials_move_def list_all2_refl\<close>)
next
  case (step_trial tenant cid tid proposal fence t r)
  then show ?thesis
  proof (cases rule: register_trial_cases)
    case known
    then show ?thesis using move trials_move_refl by blast
  next
    case (fresh c)
    then show ?thesis using trial[of r c] by simp
  qed
next
  case (step_finish tenant tid status outcome fence t r)
  then show ?thesis using move finish_trial_move[OF _ assms(2)] by blast
next
  case (step_jobs tenant limit locked t n)
  then show ?thesis using move finish_abandoned_move[OF _ assms(2)]
    by (auto simp: reconcile_terminal_jobs_def result_simps Let_def)
next
  case (step_unlock tenant cid actor permissions reason grant_id t res)
  then show ?thesis
  proof (cases rule: unlock_cases)
    case (refused e)
    then show ?thesis using move by (simp add: trials_move_def list_all2_refl)
  next
    case (granted g)
    then show ?thesis using grant[of g] by simp
  qed
next
  case (step_read tenant cid actor grant_id permissions t seen)
  then have "s' = s\<lparr>rg_db := rg_db s'\<rparr>" by (auto simp: authorize_holdout_read_def Let_def)
  then show ?thesis using move
    by (metis list_all2_refl registry.select_convs registry.update_convs(1) registry.surjective trial_moves_refl trials_move_def)
next
  case (step_other d)
  then show ?thesis using move by (simp add: trials_move_def list_all2_refl)
qed

lemma population_snoc:
  "population key (rows @ [r]) = population key rows @
     (if (tr_tenant_id r, tr_campaign_id r) = key then [r] else [])"
  by (cases key) (simp add: population_def select_where_def trial_of_def)

lemma registry_inv_step:
  assumes "registry_step sha s s'" and "registry_inv s"
  shows "registry_inv s'"
  using assms
proof (cases rule: registry_step_kinds)
  case move
  then show ?thesis using assms(2) by (rule trials_move_inv)
next
  case (campaign c)
  have "population (campaign_key c) (rg_trials s) = []"
  proof -
    have "\<not> trial_of (fst (campaign_key c)) (snd (campaign_key c)) r" if "r \<in> set (rg_trials s)" for r
      using that campaign(5) assms(2) by (fastforce simp: trial_of_def registry_inv_def)
    then show ?thesis by (simp add: population_def select_where_def filter_empty_conv)
  qed
  then have "int (length (population (campaign_key c) (rg_trials s))) \<le> cp_candidate_limit c"
    using campaign(4) by (simp add: campaign_sound_def)
  then show ?thesis using assms(2) campaign by (auto simp: registry_inv_def)
next
  case (trial r c)
  have room: "int (length (population (campaign_key e) (rg_trials s'))) \<le> cp_candidate_limit e"
    if "e \<in> set (rg_campaigns s)" for e
  proof (cases "campaign_key e = campaign_key c")
    case True
    then have "e = c"
      using assms(2) that trial(5) by (intro unique_row[where key = campaign_key]) (auto simp: registry_inv_def)
    then show ?thesis using trial(1,6,8) by (simp add: population_snoc)
  next
    case False
    then show ?thesis using that assms(2) trial(1,6) by (auto simp: registry_inv_def population_snoc)
  qed
  have "population (grant_key g) (rg_trials s') = population (grant_key g) (rg_trials s)"
    if "g \<in> set (rg_grants s)" for g
    using that trial(1,6,7) by (auto simp: population_snoc)
  then show ?thesis
    using assms(2) room trial(1-6) image_eqI[where f = campaign_key, OF trial(6)[symmetric] trial(5)]
    unfolding registry_inv_def by auto
next
  case (grant g)
  then show ?thesis using assms(2) by (auto simp: registry_inv_def)
qed

lemma registry_inv_empty: "registry_inv empty_registry"
  by (simp add: registry_inv_def empty_registry_def)

interpretation registries: transition_system "registry_step sha" registry_inv empty_registry
  by unfold_locales (auto intro: registry_inv_step simp: registry_inv_empty)

section \<open>What the registry promises\<close>

text \<open>What no later step changes: granted populations and the trials that have ended.\<close>

definition settled_kept :: "registry \<Rightarrow> registry \<Rightarrow> bool" where
  "settled_kept s s' \<longleftrightarrow>
     (\<forall>g \<in> set (rg_grants s). g \<in> set (rg_grants s') \<and>
        population (grant_key g) (rg_trials s') = population (grant_key g) (rg_trials s)) \<and>
     (\<forall>r \<in> set (rg_trials s). tr_status r \<noteq> trial_submitted \<longrightarrow> r \<in> set (rg_trials s'))"

lemma settled_kept_refl: "settled_kept s s"
  by (simp add: settled_kept_def)

lemma settled_kept_trans: "settled_kept a b \<Longrightarrow> settled_kept b c \<Longrightarrow> settled_kept a c"
  unfolding settled_kept_def by metis

lemma settled_kept_step:
  assumes "registry_step sha s s'" and "registry_inv s"
  shows "settled_kept s s'"
  using assms
proof (cases rule: registry_step_kinds)
  case move
  then have moved: "list_all2 trial_moves (rg_trials s) (rg_trials s')" and same: "rg_grants s' = rg_grants s"
    by (simp_all add: trials_move_def)
  have "population (grant_key g) (rg_trials s') = population (grant_key g) (rg_trials s)"
    if "g \<in> set (rg_grants s)" for g
    using that assms(2) moved_terminal[OF moved_population[OF moved]] by (simp add: registry_inv_def)
  moreover have "r \<in> set (rg_trials s')" if mem: "r \<in> set (rg_trials s)" and ended: "tr_status r \<noteq> trial_submitted" for r
  proof -
    obtain n where n: "n < length (rg_trials s)" "rg_trials s ! n = r" using mem by (auto simp: in_set_conv_nth)
    then have "rg_trials s' ! n = r"
      using list_all2_nthD[OF moved n(1)] ended by (simp add: trial_moves_def)
    then show ?thesis using n(1) list_all2_lengthD[OF moved] by (metis nth_mem)
  qed
  ultimately show ?thesis by (simp add: settled_kept_def same)
next
  case (campaign c)
  then show ?thesis by (simp add: settled_kept_def)
next
  case (trial r c)
  then show ?thesis by (auto simp: settled_kept_def population_snoc)
next
  case (grant g)
  then show ?thesis by (simp add: settled_kept_def)
qed

lemma settled_kept_steps:
  assumes "(registry_step sha)\<^sup>*\<^sup>* s s'" and "registry_inv s"
  shows "settled_kept s s'"
  by (rule registries.related_steps[OF assms, where R = settled_kept])
    (fact settled_kept_refl, erule (1) settled_kept_trans, erule (1) settled_kept_step[rotated])

text \<open>
  C26: in every reachable registry two different campaigns of a tenant never own overlapping holdout
  windows of the same dataset.
\<close>

theorem holdout_windows_disjoint:
  assumes "(registry_step sha)\<^sup>*\<^sup>* empty_registry s" and "c \<in> set (rg_campaigns s)"
    and "e \<in> set (rg_campaigns s)" and "c \<noteq> e" and "cp_tenant_id c = cp_tenant_id e"
    and "cp_dataset_id c = cp_dataset_id e"
  shows "{cp_holdout_start_ns c ..< cp_holdout_end_ns c} \<inter> {cp_holdout_start_ns e ..< cp_holdout_end_ns e} = {}"
proof -
  have "windows_apart c e"
    using registries.inv_reachable[OF assms(1)] assms(2-4) by (simp add: registry_inv_def)
  with assms(5,6) show ?thesis by (auto simp: windows_apart_def)
qed

text \<open>
  C25: once the holdout of a campaign is granted its population is frozen: whatever is called later,
  in any order and by any worker, the campaign has exactly the trials it had, at least one and at most
  thirty, all of them ended.
\<close>

theorem granted_population_frozen:
  assumes "(registry_step sha)\<^sup>*\<^sup>* empty_registry s" and "g \<in> set (rg_grants s)"
    and "(registry_step sha)\<^sup>*\<^sup>* s s'"
  shows "population (grant_key g) (rg_trials s') = population (grant_key g) (rg_trials s) \<and>
    terminal_trials (population (grant_key g) (rg_trials s)) \<and>
    length (population (grant_key g) (rg_trials s)) \<le> 30"
proof -
  have inv: "registry_inv s" by (rule registries.inv_reachable[OF assms(1)])
  then obtain c where c: "c \<in> set (rg_campaigns s)" "grant_key g = campaign_key c"
    and closed: "terminal_trials (population (grant_key g) (rg_trials s))"
    using assms(2) by (auto simp: registry_inv_def)
  have "int (length (population (grant_key g) (rg_trials s))) \<le> 30"
    using inv c by (fastforce simp: registry_inv_def campaign_sound_def)
  then show ?thesis
    using closed settled_kept_steps[OF assms(3) inv] assms(2) by (simp add: settled_kept_def)
qed

text \<open>
  The result of a trial is final: a trial that is no longer \<open>submitted\<close> is the same row, with the
  same result and hash, after any later steps, so a late or duplicated worker cannot replace it.
\<close>

theorem trial_results_final:
  assumes "(registry_step sha)\<^sup>*\<^sup>* empty_registry s" and "r \<in> set (rg_trials s)"
    and "tr_status r \<noteq> trial_submitted" and "(registry_step sha)\<^sup>*\<^sup>* s s'"
  shows "r \<in> set (rg_trials s')"
  using settled_kept_steps[OF assms(4) registries.inv_reachable[OF assms(1)]] assms(2,3)
  by (simp add: settled_kept_def)

text \<open>
  A development read of a dataset is allowed exactly when its window misses every holdout window
  that a campaign of the tenant owns on that dataset.
\<close>

theorem development_reads_miss_holdouts:
  assumes "(registry_step sha)\<^sup>*\<^sup>* empty_registry s" and "0 \<le> lo" and "lo < hi"
  shows "guard_development_read tenant dataset lo hi s = Inr () \<longleftrightarrow>
    (\<forall>c \<in> set (rg_campaigns s). cp_tenant_id c = tenant \<and> cp_dataset_id c = dataset \<longrightarrow>
       {lo ..< hi} \<inter> {cp_holdout_start_ns c ..< cp_holdout_end_ns c} = {})"
proof -
  have "owns_window tenant dataset lo hi c \<longleftrightarrow> cp_tenant_id c = tenant \<and> cp_dataset_id c = dataset \<and>
      {lo ..< hi} \<inter> {cp_holdout_start_ns c ..< cp_holdout_end_ns c} \<noteq> {}" if "c \<in> set (rg_campaigns s)" for c
  proof -
    have "cp_holdout_start_ns c < cp_holdout_end_ns c"
      using that registries.inv_reachable[OF assms(1)] by (simp add: registry_inv_def campaign_sound_def)
    with assms(3) show ?thesis by (simp add: owns_window_def)
  qed
  with assms(2,3) show ?thesis
    by (auto simp: guard_development_read_def result_simps exists_where_iff)
qed

text \<open>
  Holdout data are read only by the actor of the campaign's grant with the read permission, and
  only when every trial of the campaign has ended.
\<close>

theorem holdout_reads_need_the_grant:
  assumes "(registry_step sha)\<^sup>*\<^sup>* empty_registry s"
    and "authorize_holdout_read tenant cid actor grant_id permissions t s = (Inr c, s')"
  shows "\<exists>g \<in> set (rg_grants s). grant_key g = (tenant, cid) \<and> gr_actor_id g = actor \<and>
    gr_grant_id g = grant_id \<and> ''holdout:read'' \<in> set permissions \<and> campaign_key c = (tenant, cid) \<and>
    terminal_trials (population (tenant, cid) (rg_trials s))"
proof -
  obtain g where g: "g \<in> set (rg_grants s)" "grant_of tenant cid g" "gr_actor_id g = actor"
      "gr_grant_id g = grant_id" "''holdout:read'' \<in> set permissions"
    and c: "get_campaign tenant cid s' = Inr c"
    using assms(2) by (auto simp: authorize_holdout_read_def Let_def exists_where_iff split: if_splits)
  then have "grant_key g = (tenant, cid)" by (simp add: grant_of_def grant_key_def)
  moreover have "campaign_key c = (tenant, cid)"
    using c by (auto simp: get_campaign_def result_simps campaign_at_key dest: first_where_Some)
  moreover have "terminal_trials (population (grant_key g) (rg_trials s))"
    using g(1) registries.inv_reachable[OF assms(1)] by (simp add: registry_inv_def)
  ultimately show ?thesis using g by (intro bexI[of _ g]) auto
qed

section \<open>A worked example\<close>

definition demo_campaign :: campaign_row where
  "demo_campaign = \<lparr>cp_tenant_id = ''t'', cp_campaign_id = ''c'', cp_dataset_id = ''d'', cp_holdout_start_ns = 100,
     cp_holdout_end_ns = 200, cp_candidate_limit = 2, cp_payload = campaign_payload ''d'' 100 200 (JObj []) 2,
     cp_sha256 = content_hash text_sha (campaign_payload ''d'' 100 200 (JObj []) 2), cp_created_ns = 1\<rparr>"

definition demo_trial_hash :: string where
  "demo_trial_hash = content_hash text_sha (JObj [(''campaign_id'', JStr ''c''), (''proposal'', JObj [(''k'', JInt 1)])])"

definition demo_trial :: trial_row where
  "demo_trial = \<lparr>tr_tenant_id = ''t'', tr_trial_id = ''x'', tr_campaign_id = ''c'', tr_payload = JObj [(''k'', JInt 1)],
     tr_sha256 = demo_trial_hash, tr_status = trial_submitted, tr_result = None, tr_result_sha256 = None,
     tr_created_ns = 2\<rparr>"

definition demo_finish_hash :: string where
  "demo_finish_hash = content_hash text_sha (JObj [(''status'', JStr ''completed''), (''result'', JNull)])"

definition demo_ended :: trial_row where
  "demo_ended = finished_trial trial_completed JNull demo_finish_hash demo_trial"

definition demo_grant :: grant_row where
  "demo_grant = \<lparr>gr_tenant_id = ''t'', gr_campaign_id = ''c'', gr_grant_id = ''g'', gr_actor_id = ''owner'',
     gr_reason = ''final'', gr_granted_ns = 4\<rparr>"

definition demo_store_of :: "campaign_row list \<Rightarrow> trial_row list \<Rightarrow> grant_row list \<Rightarrow> db \<Rightarrow> registry" where
  "demo_store_of cs rs gs d = \<lparr>rg_db = d, rg_guards = [(''t'', ''d'')], rg_campaigns = cs, rg_trials = rs, rg_grants = gs\<rparr>"

lemmas demo_registry_simps = demo_store_of_def demo_campaign_def demo_trial_def demo_grant_def first_where_def
  exists_where_def select_where_def

lemma demo_step_campaign:
  "\<exists>d. register_campaign text_sha ''t'' ''c'' ''d'' 100 200 (JObj []) 2 1 empty_registry =
     Inr (demo_campaign, demo_store_of [demo_campaign] [] [] d)"
  by (simp add: register_campaign_def empty_registry_def Let_def insert_once_def demo_registry_simps)

lemma demo_step_trial:
  "\<exists>d'. register_trial text_sha ''t'' ''c'' ''x'' [(''k'', JInt 1)] None 2 (demo_store_of [demo_campaign] [] [] d) =
     Inr (demo_trial, demo_store_of [demo_campaign] [demo_trial] [] d')"
  by (simp add: register_trial_def Let_def check_fence_def get_campaign_def campaign_at_def demo_registry_simps
      demo_trial_hash_def)

lemma demo_step_finish:
  "\<exists>d'. finish_trial text_sha ''t'' ''x'' trial_completed JNull None 3 (demo_store_of [demo_campaign] [demo_trial] [] d) =
     Inr (demo_ended, demo_store_of [demo_campaign] [demo_ended] [] d')"
  by (simp add: finish_trial_def Let_def check_fence_def trial_at_def demo_registry_simps demo_ended_def
      demo_finish_hash_def update_where_def)

lemma demo_step_grant:
  "\<exists>d'. unlock_holdout ''t'' ''c'' ''owner'' [''holdout:unlock''] ''final'' ''g'' 4
      (demo_store_of [demo_campaign] [demo_ended] [] d) =
     (Inr demo_grant, demo_store_of [demo_campaign] [demo_ended] [demo_grant] d')"
  by (simp add: unlock_holdout_def unlock_refusal_def Let_def get_campaign_def campaign_at_def trial_of_def
      demo_registry_simps demo_ended_def finished_trial_def insert_row_def is_space_def)

lemma demo_registry_steps:
  obtains d1 d3 d4 where
    "(registry_step text_sha)\<^sup>*\<^sup>* empty_registry (demo_store_of [demo_campaign] [] [] d1)"
    "(registry_step text_sha)\<^sup>*\<^sup>* empty_registry (demo_store_of [demo_campaign] [demo_ended] [] d3)"
    "registry_step text_sha (demo_store_of [demo_campaign] [demo_ended] [] d3)
      (demo_store_of [demo_campaign] [demo_ended] [demo_grant] d4)"
proof -
  obtain d1 where "registry_step text_sha empty_registry (demo_store_of [demo_campaign] [] [] d1)"
    using demo_step_campaign by (blast intro: step_campaign)
  moreover obtain d2 where "registry_step text_sha (demo_store_of [demo_campaign] [] [] d1)
      (demo_store_of [demo_campaign] [demo_trial] [] d2)"
    using demo_step_trial by (blast intro: step_trial)
  moreover obtain d3 where "registry_step text_sha (demo_store_of [demo_campaign] [demo_trial] [] d2)
      (demo_store_of [demo_campaign] [demo_ended] [] d3)"
    using demo_step_finish by (blast intro: step_finish)
  moreover obtain d4 where "registry_step text_sha (demo_store_of [demo_campaign] [demo_ended] [] d3)
      (demo_store_of [demo_campaign] [demo_ended] [demo_grant] d4)"
    using demo_step_grant by (blast intro: step_unlock)
  ultimately show ?thesis using that by (meson r_into_rtranclp rtranclp_trans)
qed

lemma demo_registry_reachable:
  "\<exists>d. (registry_step text_sha)\<^sup>*\<^sup>* empty_registry (demo_store_of [demo_campaign] [demo_ended] [demo_grant] d)"
  by (rule demo_registry_steps) (blast intro: rtranclp.rtrancl_into_rtrancl)

definition demo_second :: campaign_row where
  "demo_second = \<lparr>cp_tenant_id = ''t'', cp_campaign_id = ''c2'', cp_dataset_id = ''d'', cp_holdout_start_ns = 200,
     cp_holdout_end_ns = 300, cp_candidate_limit = 2, cp_payload = campaign_payload ''d'' 200 300 (JObj []) 2,
     cp_sha256 = content_hash text_sha (campaign_payload ''d'' 200 300 (JObj []) 2), cp_created_ns = 2\<rparr>"

lemma demo_step_second:
  "\<exists>d'. register_campaign text_sha ''t'' ''c2'' ''d'' 200 300 (JObj []) 2 2 (demo_store_of [demo_campaign] [] [] d) =
     Inr (demo_second, demo_store_of [demo_campaign, demo_second] [] [] d')"
  by (simp add: register_campaign_def Let_def insert_once_def demo_registry_simps demo_second_def campaign_at_def
      owns_window_def raise_if_def)

theorem holdout_windows_disjoint_witness:
  "{cp_holdout_start_ns demo_campaign ..< cp_holdout_end_ns demo_campaign} \<inter>
   {cp_holdout_start_ns demo_second ..< cp_holdout_end_ns demo_second} = {}"
proof -
  obtain d1 d2 where "(registry_step text_sha)\<^sup>*\<^sup>* empty_registry (demo_store_of [demo_campaign] [] [] d1)"
    and "registry_step text_sha (demo_store_of [demo_campaign] [] [] d1)
      (demo_store_of [demo_campaign, demo_second] [] [] d2)"
    using demo_registry_steps demo_step_second by (metis step_campaign)
  then have "(registry_step text_sha)\<^sup>*\<^sup>* empty_registry (demo_store_of [demo_campaign, demo_second] [] [] d2)"
    by (rule rtranclp.rtrancl_into_rtrancl)
  from holdout_windows_disjoint[OF this, of demo_campaign demo_second] show ?thesis
    by (simp add: demo_store_of_def demo_campaign_def demo_second_def)
qed

theorem granted_population_frozen_witness:
  "\<exists>d. population (''t'', ''c'') (rg_trials (demo_store_of [demo_campaign] [demo_ended] [demo_grant] d)) = [demo_ended] \<and>
     terminal_trials [demo_ended]"
proof -
  obtain d where reach: "(registry_step text_sha)\<^sup>*\<^sup>* empty_registry (demo_store_of [demo_campaign] [demo_ended] [demo_grant] d)"
    using demo_registry_reachable by blast
  have "population (grant_key demo_grant) [demo_ended] = [demo_ended]" "grant_key demo_grant = (''t'', ''c'')"
    by (simp_all add: population_def select_where_def trial_of_def grant_key_def demo_grant_def demo_ended_def
        finished_trial_def demo_trial_def)
  then show ?thesis
    using granted_population_frozen[OF reach, of demo_grant, OF _ rtranclp.rtrancl_refl]
    by (auto simp: demo_store_of_def)
qed

theorem trial_results_final_witness:
  "\<exists>d. demo_ended \<in> set (rg_trials (demo_store_of [demo_campaign] [demo_ended] [demo_grant] d))"
proof (rule demo_registry_steps)
  fix d1 d3 d4
  assume first: "(registry_step text_sha)\<^sup>*\<^sup>* empty_registry (demo_store_of [demo_campaign] [demo_ended] [] d3)"
    and "registry_step text_sha (demo_store_of [demo_campaign] [demo_ended] [] d3)
      (demo_store_of [demo_campaign] [demo_ended] [demo_grant] d4)"
  then show ?thesis
    using trial_results_final[OF first _ _ r_into_rtranclp, of demo_ended]
    by (auto simp: demo_store_of_def demo_ended_def finished_trial_def)
qed

theorem development_reads_miss_holdouts_witness:
  "\<exists>d. guard_development_read ''t'' ''d'' 0 100 (demo_store_of [demo_campaign] [demo_ended] [demo_grant] d) = Inr () \<and>
     guard_development_read ''t'' ''d'' 0 101 (demo_store_of [demo_campaign] [demo_ended] [demo_grant] d) \<noteq> Inr ()"
proof -
  obtain d where reach: "(registry_step text_sha)\<^sup>*\<^sup>* empty_registry (demo_store_of [demo_campaign] [demo_ended] [demo_grant] d)"
    using demo_registry_reachable by blast
  show ?thesis
    using development_reads_miss_holdouts[OF reach, of 0 100 "''t''" "''d''"]
      development_reads_miss_holdouts[OF reach, of 0 101 "''t''" "''d''"]
    by (auto simp: demo_store_of_def demo_campaign_def intro!: exI[of _ d])
qed

theorem holdout_reads_need_the_grant_witness: "terminal_trials (population (''t'', ''c'') [demo_ended])"
proof -
  obtain d where reach: "(registry_step text_sha)\<^sup>*\<^sup>* empty_registry (demo_store_of [demo_campaign] [demo_ended] [demo_grant] d)"
    using demo_registry_reachable by blast
  let ?s = "demo_store_of [demo_campaign] [demo_ended] [demo_grant] d"
  have "fst (authorize_holdout_read ''t'' ''c'' ''owner'' ''g'' [''holdout:read''] 5 ?s) = Inr demo_campaign"
    by (simp add: authorize_holdout_read_def Let_def demo_registry_simps grant_of_def get_campaign_def campaign_at_def)
  then obtain s' where "authorize_holdout_read ''t'' ''c'' ''owner'' ''g'' [''holdout:read''] 5 ?s = (Inr demo_campaign, s')"
    by (metis prod.collapse)
  from holdout_reads_need_the_grant[OF reach this] show ?thesis by (auto simp: demo_store_of_def)
qed

end
