(* ===== verification/Paper.thy ===== *)
theory Paper
  imports Repository OMS Fixtures
begin

text \<open>
  The simulated venues, \<open>src/qt/execution/simulated.py\<close>: the paper adapter, which fills orders against
  supplied depth only, and the shadow adapter, which sends nothing.  With a repository the paper
  results are artifacts; without one they are held by the object.  A level carries its decimals with
  their \<open>str\<close>, which the hash of the book covers.  \<open>update_book\<close> is \<open>set_book\<close> on the levels of a
  \<open>DepthBook\<close>.  Artifacts of kind \<open>paper_order_result\<close> hold what \<open>submit\<close> wrote.  The arithmetic of a
  match is exact: its 80 digits hold every sum and product of decimals the instrument admits.
\<close>

section \<open>The book\<close>

record paper_level =
  lp_price :: rat
  lp_price_text :: string
  lp_quantity :: rat
  lp_quantity_text :: string

record paper_book =
  pb_market :: market_snapshot
  pb_instrument :: instrument_spec
  pb_fees :: fee_schedule
  pb_bids :: "paper_level list"
  pb_asks :: "paper_level list"
  pb_hash :: string

definition level_json :: "paper_level \<Rightarrow> json" where
  "level_json l = JArr [JStr (lp_price_text l), JStr (lp_quantity_text l)]"

definition book_content :: "paper_book \<Rightarrow> (string \<times> json) list" where
  "book_content b =
     [(''market'', market_json (pb_market b)), (''instrument'', instrument_json (pb_instrument b)),
      (''fees'', fees_json (pb_fees b)), (''bids'', JArr (map level_json (pb_bids b))),
      (''asks'', JArr (map level_json (pb_asks b)))]"

definition paper_book_json :: "paper_book \<Rightarrow> json" where
  "paper_book_json b = JObj (book_content b @ [(''book_hash'', JStr (pb_hash b))])"

text \<open>\<open>_levels\<close>: prices are unique, so the order of the pairs is the order of the prices.\<close>

definition paper_levels :: "bool \<Rightarrow> paper_level list \<Rightarrow> paper_level list result" where
  "paper_levels descending levels =
     bind (raise_if (\<not> list_all (\<lambda>l. 0 < lp_price l \<and> 0 < lp_quantity l) levels)
             (ValueError ''paper_depth_must_be_positive_and_finite'')) (\<lambda>_.
     bind (raise_if (levels = [] \<or> \<not> distinct (map lp_price levels))
             (ValueError ''paper_depth_must_be_nonempty_and_unique'')) (\<lambda>_.
     Inr (sort_key (\<lambda>l. if descending then - lp_price l else lp_price l) levels)))"

definition set_book ::
  "hasher \<Rightarrow> market_snapshot \<Rightarrow> instrument_spec \<Rightarrow> fee_schedule \<Rightarrow> paper_level list \<Rightarrow> paper_level list \<Rightarrow>
   paper_book result" where
  "set_book sha market instrument fees bid_levels ask_levels =
     bind (paper_levels True bid_levels) (\<lambda>bids.
     bind (paper_levels False ask_levels) (\<lambda>asks.
     let b = \<lparr>pb_market = market, pb_instrument = instrument, pb_fees = fees, pb_bids = bids,
              pb_asks = asks, pb_hash = []\<rparr> in
     bind (raise_if (\<not> mk_book_valid market \<or> lp_price (hd bids) \<noteq> mk_bid market \<or>
               lp_price (hd asks) \<noteq> mk_ask market \<or> lp_price (hd bids) \<ge> lp_price (hd asks) \<or>
               mk_venue market \<noteq> is_venue instrument \<or> mk_instrument market \<noteq> is_instrument instrument \<or>
               mk_instrument_spec_hash market \<noteq> content_hash sha (instrument_json instrument) \<or>
               mk_fee_schedule_hash market \<noteq> content_hash sha (fees_json fees))
             (ValueError ''paper_book_quote_or_version_mismatch'')) (\<lambda>_.
     Inr (b\<lparr>pb_hash := content_hash sha (JObj (book_content b))\<rparr>))))"

section \<open>Matching\<close>

text \<open>What earlier orders took from the same side of the same book, per price.\<close>

definition consumed :: "string \<Rightarrow> side \<Rightarrow> paper_record list \<Rightarrow> (rat \<times> rat) list" where
  "consumed book_hash sd previous =
     dict_sum (concat (map (\<lambda>r. map (\<lambda>f. (pl_price f, pl_quantity f)) (pr_fills r))
       (filter (\<lambda>r. pr_book_hash r = book_hash \<and> oi_side (pr_intent r) = sd) previous)))"

definition whole_increments :: "rat \<Rightarrow> rat \<Rightarrow> rat" where
  "whole_increments increment q = of_int \<lfloor>q / increment\<rfloor> * increment"

definition within_limit :: "order_intent \<Rightarrow> rat \<Rightarrow> bool" where
  "within_limit intent price \<longleftrightarrow>
     (if oi_side intent = buy then price \<le> oi_limit_price intent else price \<ge> oi_limit_price intent)"

definition available_depth ::
  "order_intent \<Rightarrow> rat \<Rightarrow> (rat \<times> rat) list \<Rightarrow> paper_level list \<Rightarrow> (rat \<times> rat) list" where
  "available_depth intent increment used levels =
     filter (\<lambda>(price, q). q \<noteq> 0)
       (map (\<lambda>l. (lp_price l, whole_increments increment (max 0 (lp_quantity l - dict_get used (lp_price l)))))
          (filter (\<lambda>l. within_limit intent (lp_price l)) levels))"

definition taker_fee :: "instrument_spec \<Rightarrow> fee_schedule \<Rightarrow> rat \<Rightarrow> rat \<Rightarrow> rat" where
  "taker_fee instrument fees executed price =
     ceil18 (executed * (if fs_fee_asset fees = is_base_asset instrument then 1 else price) *
       max 0 (fs_taker_rate fees))"

definition trade_name :: "string \<Rightarrow> nat \<Rightarrow> string" where
  "trade_name intent_id index = ''paper:'' @ intent_id @ '':'' @ int_text (int index)"

text \<open>The loop over the available levels: the fills and what remains.\<close>

fun match_levels ::
  "order_intent \<Rightarrow> instrument_spec \<Rightarrow> fee_schedule \<Rightarrow> nat \<Rightarrow> (rat \<times> rat) list \<Rightarrow> rat \<Rightarrow>
   (paper_fill list \<times> rat) result" where
  "match_levels intent instrument fees index [] remaining = Inr ([], remaining)"
| "match_levels intent instrument fees index ((price, q) # levels) remaining =
     (let executed = whole_increments (is_quantity_increment instrument) (min remaining q) in
      if executed = 0 then match_levels intent instrument fees (Suc index) levels remaining
      else if fs_fee_asset fees \<noteq> is_quote_asset instrument \<and> fs_fee_asset fees \<noteq> is_base_asset instrument
      then Inl (ValueError ''paper_fee_asset_unavailable'')
      else
        let fill = \<lparr>pl_intent_id = oi_intent_id intent,
              pl_venue_trade_id = trade_name (oi_intent_id intent) index, pl_quantity = executed,
              pl_price = price, pl_fee = taker_fee instrument fees executed price,
              pl_fee_asset = fs_fee_asset fees, pl_base_asset = is_base_asset instrument,
              pl_quote_asset = is_quote_asset instrument\<rparr>;
            left = remaining - executed in
        if left = 0 then Inr ([fill], left)
        else bind (match_levels intent instrument fees (Suc index) levels left) (\<lambda>(fills, rest).
             Inr (fill # fills, rest)))"

definition paper_identity :: "hasher \<Rightarrow> order_intent \<Rightarrow> order_identity" where
  "paper_identity sha intent = \<lparr>id_venue = oi_venue intent, id_account_id = oi_account_id intent,
     id_intent_id = oi_intent_id intent,
     id_venue_order_id = Some (''paper-'' @ take 32 (content_hash sha (intent_json intent)))\<rparr>"

definition match_status :: "order_intent \<Rightarrow> bool \<Rightarrow> rat \<Rightarrow> paper_fill list \<Rightarrow> order_status" where
  "match_status intent rejected remaining matched =
     (if rejected then REJECTED else if remaining = 0 then FILLED
      else if oi_time_in_force intent = IOC then CANCELED
      else if matched \<noteq> [] then PARTIALLY_FILLED else ACKNOWLEDGED)"

definition paper_match ::
  "hasher \<Rightarrow> paper_book \<Rightarrow> order_intent \<Rightarrow> paper_record list \<Rightarrow> int \<Rightarrow> paper_record result" where
  "paper_match sha book intent previous now =
     (let market = pb_market book; instrument = pb_instrument book; fees = pb_fees book in
      bind (raise_if (\<not> (0 \<le> now - mk_asof_ns market \<and> now - mk_asof_ns market \<le> 1000000000))
              (ValueError ''paper_book_stale'')) (\<lambda>_.
      bind (raise_if (oi_venue intent \<noteq> mk_venue market \<or> oi_instrument intent \<noteq> mk_instrument market \<or>
                oi_fee_schedule_hash intent \<noteq> content_hash sha (fees_json fees) \<or>
                oi_instrument_spec_hash intent \<noteq> content_hash sha (instrument_json instrument))
              (ValueError ''paper_intent_version_mismatch'')) (\<lambda>_.
      bind (raise_if (fs_fee_basis fees \<noteq> notional \<or> is_instrument_type instrument \<noteq> spot)
              (ValueError ''paper_fee_or_instrument_model_unavailable'')) (\<lambda>_.
      let used = consumed (pb_hash book) (oi_side intent) previous;
          depth = available_depth intent (is_quantity_increment instrument) used
                    (if oi_side intent = buy then pb_asks book else pb_bids book);
          enough = (\<Sum>(price, q)\<leftarrow>depth. q) \<ge> oi_quantity intent;
          rejected = (now \<ge> oi_valid_until_ns intent \<or> (oi_time_in_force intent = FOK \<and> \<not> enough)) in
      bind (if rejected then Inr ([], oi_quantity intent)
            else match_levels intent instrument fees 0 depth (oi_quantity intent)) (\<lambda>(matched, remaining).
      Inr \<lparr>pr_intent = intent, pr_intent_hash = content_hash sha (intent_json intent),
           pr_book_hash = pb_hash book, pr_fills = matched,
           pr_snapshot = \<lparr>os_identity = paper_identity sha intent,
              os_status = match_status intent rejected remaining matched,
              os_settlement_status = NOT_REQUIRED, os_quantity = oi_quantity intent,
              os_filled_quantity = oi_quantity intent - remaining, os_asof_ns = now\<rparr>,
           pr_submit = \<lparr>sr_status = (if rejected then submit_rejected else accepted),
              sr_identity = paper_identity sha intent, sr_received_at_ns = now,
              sr_reason = Some ''paper_depth_only''\<rparr>,
           pr_account_sequence = 0\<rparr>)))))"

section \<open>The repository adapter\<close>

definition paper_of :: "artifact_payload \<Rightarrow> paper_record option" where
  "paper_of payload = (case payload of APaperResult r \<Rightarrow> Some r | _ \<Rightarrow> None)"

text \<open>\<open>_verified_payload\<close>\<close>

definition verified_payload :: "hasher \<Rightarrow> artifact_row \<Rightarrow> artifact_payload result" where
  "verified_payload sha row =
     bind (raise_if (content_hash sha (payload_json (ar_payload row)) \<noteq> ar_sha256 row)
             (ConflictError ''paper_result_integrity_failure'')) (\<lambda>_. Inr (ar_payload row))"

fun verified_records :: "hasher \<Rightarrow> artifact_row list \<Rightarrow> paper_record list result" where
  "verified_records sha [] = Inr []"
| "verified_records sha (row # rows) =
     bind (verified_payload sha row) (\<lambda>payload.
     bind (verified_records sha rows) (\<lambda>records.
     Inr (case paper_of payload of None \<Rightarrow> records | Some r \<Rightarrow> r # records)))"

definition result_row :: "string \<Rightarrow> artifact_row \<Rightarrow> bool" where
  "result_row tenant row \<longleftrightarrow> ar_tenant_id row = tenant \<and> ar_kind row = ''paper_order_result''"

definition for_book :: "string \<Rightarrow> artifact_row \<Rightarrow> bool" where
  "for_book book_hash row = (case paper_of (ar_payload row) of None \<Rightarrow> False | Some r \<Rightarrow> pr_book_hash r = book_hash)"

definition for_account :: "string \<Rightarrow> artifact_row \<Rightarrow> bool" where
  "for_account aid row =
     (case paper_of (ar_payload row) of None \<Rightarrow> False | Some r \<Rightarrow> oi_account_id (pr_intent r) = aid)"

definition for_venue :: "string \<Rightarrow> artifact_row \<Rightarrow> bool" where
  "for_venue venue row =
     (case paper_of (ar_payload row) of None \<Rightarrow> False | Some r \<Rightarrow> oi_venue (pr_intent r) = venue)"

text \<open>\<open>_records\<close> with a book hash, \<open>_lookup\<close> and \<open>_is_canceled\<close>\<close>

definition paper_records :: "hasher \<Rightarrow> string \<Rightarrow> string \<Rightarrow> db \<Rightarrow> paper_record list result" where
  "paper_records sha tenant book_hash d =
     verified_records sha (sort_key (\<lambda>r. (ar_created_ns r, ar_entity_id r))
       (select_where (\<lambda>row. result_row tenant row \<and> for_book book_hash row) (artifacts d)))"

definition paper_lookup :: "hasher \<Rightarrow> string \<Rightarrow> string \<Rightarrow> db \<Rightarrow> paper_record option result" where
  "paper_lookup sha tenant identity d =
     (case first_where (artifact_key tenant ''paper_order_result'' identity) (artifacts d) of
        None \<Rightarrow> Inr None
      | Some row \<Rightarrow> bind (verified_payload sha row) (\<lambda>payload. Inr (paper_of payload)))"

definition paper_canceled :: "hasher \<Rightarrow> string \<Rightarrow> string \<Rightarrow> db \<Rightarrow> bool result" where
  "paper_canceled sha tenant identity d =
     (case first_where (artifact_key tenant ''paper_cancel'' identity) (artifacts d) of
        None \<Rightarrow> Inr False
      | Some row \<Rightarrow> bind (verified_payload sha row) (\<lambda>_. Inr True))"

definition account_sequence :: "string \<Rightarrow> string \<Rightarrow> db \<Rightarrow> int" where
  "account_sequence tenant aid d =
     fold max (map (\<lambda>row. case paper_of (ar_payload row) of None \<Rightarrow> 0 | Some r \<Rightarrow> pr_account_sequence r)
       (select_where (\<lambda>row. result_row tenant row \<and> for_account aid row) (artifacts d))) 0"

definition lock_artifact :: "hasher \<Rightarrow> string \<Rightarrow> string \<Rightarrow> string \<Rightarrow> json \<Rightarrow> int \<Rightarrow> db \<Rightarrow> db" where
  "lock_artifact sha tenant kind identity payload t d =
     d\<lparr>artifacts := insert_once artifact_clash
        \<lparr>ar_tenant_id = tenant, ar_kind = kind, ar_entity_id = identity, ar_payload = AJson payload,
         ar_sha256 = content_hash sha payload, ar_created_ns = t\<rparr> (artifacts d)\<rparr>"

definition submitted_reply :: "hasher \<Rightarrow> order_intent \<Rightarrow> paper_record \<Rightarrow> submit_result result" where
  "submitted_reply sha intent r =
     bind (raise_if (pr_intent_hash r \<noteq> content_hash sha (intent_json intent))
             (ConflictError ''paper_intent_identity_conflict'')) (\<lambda>_. Inr (pr_submit r))"

definition store_match ::
  "hasher \<Rightarrow> string \<Rightarrow> paper_book \<Rightarrow> order_intent \<Rightarrow> int \<Rightarrow> db \<Rightarrow> (paper_record \<times> db) result" where
  "store_match sha tenant book intent t d =
     bind (paper_records sha tenant (pb_hash book) d) (\<lambda>previous.
     bind (paper_match sha book intent previous t) (\<lambda>fresh.
     let made = fresh\<lparr>pr_account_sequence := 1 + account_sequence tenant (oi_account_id intent) d\<rparr> in
     bind (insert_row artifact_clash ''artifacts''
             \<lparr>ar_tenant_id = tenant, ar_kind = ''paper_order_result'', ar_entity_id = oi_intent_id intent,
              ar_payload = APaperResult made, ar_sha256 = content_hash sha (paper_record_json made),
              ar_created_ns = t\<rparr> (artifacts d)) (\<lambda>rows.
     Inr (made, d\<lparr>artifacts := rows\<rparr>))))"

definition paper_submit_tx ::
  "hasher \<Rightarrow> string \<Rightarrow> paper_book option \<Rightarrow> order_intent \<Rightarrow> int \<Rightarrow> submit_result transaction" where
  "paper_submit_tx sha tenant supplied intent t d =
     bind (paper_lookup sha tenant (oi_intent_id intent) d) (\<lambda>existing.
     case existing of
       Some r \<Rightarrow> bind (submitted_reply sha intent r) (\<lambda>reply. Inr (reply, d))
     | None \<Rightarrow>
         bind (or_raise supplied (ValueError ''paper_requires_supplied_depth'')) (\<lambda>book.
         let d1 = lock_artifact sha tenant ''paper_account'' (oi_account_id intent)
               (JObj [(''account_id'', JStr (oi_account_id intent))]) t d;
             d2 = lock_artifact sha tenant ''paper_book'' (pb_hash book) (paper_book_json book) t d1 in
         bind (paper_lookup sha tenant (oi_intent_id intent) d2) (\<lambda>again.
         bind (case again of Some r \<Rightarrow> Inr (r, d2) | None \<Rightarrow> store_match sha tenant book intent t d2) (\<lambda>(r, d3).
         bind (submitted_reply sha intent r) (\<lambda>reply. Inr (reply, d3))))))"

text \<open>\<open>_verify_identity\<close>\<close>

definition paper_identity_check :: "paper_record \<Rightarrow> order_identity \<Rightarrow> unit result" where
  "paper_identity_check r identity =
     (let stored = os_identity (pr_snapshot r) in
      bind (raise_if (id_venue stored \<noteq> id_venue identity \<or> id_account_id stored \<noteq> id_account_id identity \<or>
                id_intent_id stored \<noteq> id_intent_id identity) (ValueError ''paper_order_identity_mismatch'')) (\<lambda>_.
      raise_if (id_venue_order_id identity \<noteq> None \<and> id_venue_order_id identity \<noteq> id_venue_order_id stored)
        (ValueError ''paper_venue_order_identity_mismatch'')))"

definition current_status :: "paper_record \<Rightarrow> bool \<Rightarrow> int \<Rightarrow> order_status" where
  "current_status r gone t =
     (let status = os_status (pr_snapshot r) in
      if status \<in> {FILLED, REJECTED, CANCELED, EXPIRED} then status
      else if gone then CANCELED
      else if oi_time_in_force (pr_intent r) = GTD \<and> t \<ge> oi_valid_until_ns (pr_intent r) then EXPIRED
      else status)"

definition paper_query :: "hasher \<Rightarrow> string \<Rightarrow> order_identity \<Rightarrow> int \<Rightarrow> db \<Rightarrow> order_snapshot result" where
  "paper_query sha tenant identity t d =
     bind (paper_lookup sha tenant (id_intent_id identity) d) (\<lambda>found.
     bind (or_raise found (KeyError ''paper_order_not_found'')) (\<lambda>r.
     bind (paper_identity_check r identity) (\<lambda>_.
     bind (if os_status (pr_snapshot r) \<in> {FILLED, REJECTED, CANCELED, EXPIRED} then Inr False
           else paper_canceled sha tenant (id_intent_id identity) d) (\<lambda>gone.
     Inr ((pr_snapshot r)\<lparr>os_status := current_status r gone t, os_asof_ns := t\<rparr>)))))"

definition cancel_reply :: "cancel_status \<Rightarrow> order_identity \<Rightarrow> int \<Rightarrow> string option \<Rightarrow> cancel_result" where
  "cancel_reply status identity t reason =
     \<lparr>cr_status = status, cr_identity = identity, cr_received_at_ns = t, cr_reason = reason\<rparr>"

definition paper_cancel_tx :: "hasher \<Rightarrow> string \<Rightarrow> order_identity \<Rightarrow> int \<Rightarrow> cancel_result transaction" where
  "paper_cancel_tx sha tenant identity t d =
     bind (paper_query sha tenant identity t d) (\<lambda>snap.
     if os_status snap = FILLED
     then Inr (cancel_reply cancel_rejected (os_identity snap) t (Some ''already_filled''), d)
     else bind (put_tx sha tenant ''paper_cancel''
                  (AJson (JObj [(''intent_id'', JStr (id_intent_id identity))])) (Some (id_intent_id identity))
                  None t d) (\<lambda>(_, d').
          Inr (cancel_reply confirmed (os_identity snap) t None, d')))"

section \<open>Reconciliation\<close>

text \<open>
  \<open>int(text)\<close>: ASCII digits with single underscores between them, an optional sign, and white space
  around.
\<close>

fun grouped_digits :: "string \<Rightarrow> string option" where
  "grouped_digits [] = None"
| "grouped_digits [c] = (if is_digit c then Some [c] else None)"
| "grouped_digits (c # e # cs) =
     (if \<not> is_digit c then None
      else if e = CHR ''_'' then map_option (Cons c) (grouped_digits cs)
      else map_option (Cons c) (grouped_digits (e # cs)))"

definition strip :: "string \<Rightarrow> string" where
  "strip s = rev (dropWhile is_space (rev (dropWhile is_space s)))"

definition int_of_text :: "string \<Rightarrow> int option" where
  "int_of_text text =
     (case strip text of
        [] \<Rightarrow> None
      | c # cs \<Rightarrow>
          if c = CHR ''-'' then map_option (\<lambda>ds. - int (digits_value ds)) (grouped_digits cs)
          else if c = CHR ''+'' then map_option (\<lambda>ds. int (digits_value ds)) (grouped_digits cs)
          else map_option (\<lambda>ds. int (digits_value ds)) (grouped_digits (c # cs)))"

definition cursor_offset :: "reconcile_cursor \<Rightarrow> nat result" where
  "cursor_offset cursor =
     (let text = (case rc_cursor cursor of None \<Rightarrow> ''0'' | Some s \<Rightarrow> if s = [] then ''0'' else s) in
      bind (or_raise (int_of_text text) (ValueError ''invalid_paper_reconcile_cursor'')) (\<lambda>offset.
      bind (raise_if (offset < 0) (ValueError ''invalid_paper_reconcile_cursor'')) (\<lambda>_. Inr (nat offset))))"

fun query_all :: "hasher \<Rightarrow> string \<Rightarrow> paper_record list \<Rightarrow> int \<Rightarrow> db \<Rightarrow> order_snapshot list result" where
  "query_all sha tenant [] t d = Inr []"
| "query_all sha tenant (r # rs) t d =
     bind (paper_query sha tenant (os_identity (pr_snapshot r)) t d) (\<lambda>snap.
     bind (query_all sha tenant rs t d) (\<lambda>snaps. Inr (snap # snaps)))"

definition batch_of :: "reconcile_cursor \<Rightarrow> nat \<Rightarrow> bool \<Rightarrow> paper_record list \<Rightarrow> order_snapshot list \<Rightarrow> reconcile_batch" where
  "batch_of cursor offset whole records snaps =
     \<lparr>bt_next_cursor = \<lparr>rc_venue = rc_venue cursor, rc_account_id = rc_account_id cursor,
         rc_cursor = Some (int_text (int (offset + length records)))\<rparr>,
      bt_orders = snaps, bt_fills = map paper_fill_json (concat (map pr_fills records)), bt_complete = whole\<rparr>"

definition paper_page :: "hasher \<Rightarrow> string \<Rightarrow> reconcile_cursor \<Rightarrow> nat \<Rightarrow> db \<Rightarrow> paper_record list result" where
  "paper_page sha tenant cursor offset d =
     verified_records sha (take 201 (drop offset
       (sort_key (\<lambda>row. (case paper_of (ar_payload row) of None \<Rightarrow> 0 | Some r \<Rightarrow> pr_account_sequence r, ar_entity_id row))
         (select_where (\<lambda>row. result_row tenant row \<and> for_account (rc_account_id cursor) row \<and>
            for_venue (rc_venue cursor) row) (artifacts d)))))"

definition paper_reconcile :: "hasher \<Rightarrow> string \<Rightarrow> reconcile_cursor \<Rightarrow> int \<Rightarrow> db \<Rightarrow> reconcile_batch result" where
  "paper_reconcile sha tenant cursor t d =
     bind (cursor_offset cursor) (\<lambda>offset.
     bind (paper_page sha tenant cursor offset d) (\<lambda>page.
     let records = take 200 page in
     bind (query_all sha tenant records t d) (\<lambda>snaps.
     Inr (batch_of cursor offset (length page \<le> 200) records snaps))))"

section \<open>The adapter without a repository\<close>

text \<open>\<open>_results\<close> in insertion order, and \<open>_canceled\<close>.\<close>

record local_paper =
  lc_book :: "paper_book option"
  lc_results :: "(string \<times> paper_record) list"
  lc_canceled :: "string list"

definition local_submit ::
  "hasher \<Rightarrow> order_intent \<Rightarrow> int \<Rightarrow> local_paper \<Rightarrow> submit_result result \<times> local_paper" where
  "local_submit sha intent t s =
     (case map_of (lc_results s) (oi_intent_id intent) of
        Some r \<Rightarrow> (submitted_reply sha intent r, s)
      | None \<Rightarrow>
          (case bind (or_raise (lc_book s) (ValueError ''paper_requires_supplied_depth''))
                  (\<lambda>book. paper_match sha book intent (map snd (lc_results s)) t) of
             Inl e \<Rightarrow> (Inl e, s)
           | Inr r \<Rightarrow> (submitted_reply sha intent r,
                       s\<lparr>lc_results := lc_results s @ [(oi_intent_id intent, r)]\<rparr>)))"

definition local_query :: "order_identity \<Rightarrow> int \<Rightarrow> local_paper \<Rightarrow> order_snapshot result" where
  "local_query identity t s =
     bind (or_raise (map_of (lc_results s) (id_intent_id identity)) (KeyError ''paper_order_not_found'')) (\<lambda>r.
     bind (paper_identity_check r identity) (\<lambda>_.
     Inr ((pr_snapshot r)\<lparr>os_status := current_status r (id_intent_id identity \<in> set (lc_canceled s)) t,
            os_asof_ns := t\<rparr>)))"

definition local_cancel :: "order_identity \<Rightarrow> int \<Rightarrow> local_paper \<Rightarrow> cancel_result result \<times> local_paper" where
  "local_cancel identity t s =
     (case local_query identity t s of
        Inl e \<Rightarrow> (Inl e, s)
      | Inr snap \<Rightarrow>
          if os_status snap = FILLED
          then (Inr (cancel_reply cancel_rejected (os_identity snap) t (Some ''already_filled'')), s)
          else (Inr (cancel_reply confirmed (os_identity snap) t None),
                s\<lparr>lc_canceled := List.insert (id_intent_id identity) (lc_canceled s)\<rparr>))"

fun local_queries :: "paper_record list \<Rightarrow> int \<Rightarrow> local_paper \<Rightarrow> order_snapshot list result" where
  "local_queries [] t s = Inr []"
| "local_queries (r # rs) t s =
     bind (local_query (os_identity (pr_snapshot r)) t s) (\<lambda>snap.
     bind (local_queries rs t s) (\<lambda>snaps. Inr (snap # snaps)))"

definition local_reconcile :: "reconcile_cursor \<Rightarrow> int \<Rightarrow> local_paper \<Rightarrow> reconcile_batch result" where
  "local_reconcile cursor t s =
     bind (cursor_offset cursor) (\<lambda>offset.
     let records = filter (\<lambda>r. oi_account_id (pr_intent r) = rc_account_id cursor \<and>
           oi_venue (pr_intent r) = rc_venue cursor) (map snd (lc_results s)) in
     bind (raise_if (offset > length records) (ValueError ''invalid_paper_reconcile_cursor'')) (\<lambda>_.
     let page = take 201 (drop offset records); shown = take 200 page in
     bind (local_queries shown t s) (\<lambda>snaps.
     Inr (batch_of cursor offset (length page \<le> 200) shown snaps))))"

section \<open>The shadow adapter\<close>

definition shadow_submit :: "order_intent \<Rightarrow> int \<Rightarrow> submit_result" where
  "shadow_submit intent t = \<lparr>sr_status = submit_unknown,
     sr_identity = \<lparr>id_venue = oi_venue intent, id_account_id = oi_account_id intent,
       id_intent_id = oi_intent_id intent, id_venue_order_id = None\<rparr>,
     sr_received_at_ns = t, sr_reason = Some ''shadow_unsent''\<rparr>"

definition shadow_cancel :: "order_identity \<Rightarrow> int \<Rightarrow> cancel_result" where
  "shadow_cancel identity t = cancel_reply cancel_rejected identity t (Some ''shadow_unsent'')"

definition shadow_reconcile :: "reconcile_cursor \<Rightarrow> reconcile_batch" where
  "shadow_reconcile cursor = \<lparr>bt_next_cursor = cursor, bt_orders = [], bt_fills = [], bt_complete = True\<rparr>"

section \<open>As venues of the order management system\<close>

definition replied :: "'a result \<Rightarrow> 'a reply" where
  "replied r = (case r of Inl e \<Rightarrow> Raised e | Inr x \<Rightarrow> Returned x)"

definition paper_adapter :: "hasher \<Rightarrow> string \<Rightarrow> paper_book option \<Rightarrow> int \<Rightarrow> adapter" where
  "paper_adapter sha tenant supplied t =
     \<lparr>ad_execution_mode = Some ''paper'',
      ad_submit = (\<lambda>intent d. apfst replied (transaction (paper_submit_tx sha tenant supplied intent t) d)),
      ad_cancel = (\<lambda>identity d. apfst replied (transaction (paper_cancel_tx sha tenant identity t) d)),
      ad_query = (\<lambda>identity d. (replied (paper_query sha tenant identity t d), d)),
      ad_reconcile = (\<lambda>cursor d. (replied (paper_reconcile sha tenant cursor t d), d))\<rparr>"

definition shadow_adapter :: "int \<Rightarrow> adapter" where
  "shadow_adapter t =
     \<lparr>ad_execution_mode = Some ''shadow'',
      ad_submit = (\<lambda>intent d. (Returned (shadow_submit intent t), d)),
      ad_cancel = (\<lambda>identity d. (Returned (shadow_cancel identity t), d)),
      ad_query = (\<lambda>identity d. (Raised (KeyError ''shadow_has_no_venue_order''), d)),
      ad_reconcile = (\<lambda>cursor d. (Returned (shadow_reconcile cursor), d))\<rparr>"

section \<open>Matching uses each depth once\<close>

definition filled_at :: "rat \<Rightarrow> paper_record \<Rightarrow> rat" where
  "filled_at p r = (\<Sum>f\<leftarrow>pr_fills r. if pl_price f = p then pl_quantity f else 0)"

definition book_side_of :: "paper_book \<Rightarrow> side \<Rightarrow> paper_level list" where
  "book_side_of b sd = (if sd = buy then pb_asks b else pb_bids b)"

definition same_side :: "string \<Rightarrow> side \<Rightarrow> paper_record \<Rightarrow> bool" where
  "same_side book_hash sd r \<longleftrightarrow> pr_book_hash r = book_hash \<and> oi_side (pr_intent r) = sd"

lemma consumed_sum:
  "dict_get (consumed h sd records) p = (\<Sum>r\<leftarrow>records. if same_side h sd r then filled_at p r else 0)"
proof -
  have fills: "(\<Sum>(k, x)\<leftarrow>filter (\<lambda>(k, x). k = p) (map (\<lambda>f. (pl_price f, pl_quantity f)) fs). x) =
      (\<Sum>f\<leftarrow>fs. if pl_price f = p then pl_quantity f else 0)" for fs
    by (induction fs) auto
  have concat: "(\<Sum>(k, x)\<leftarrow>filter (\<lambda>(k, x). k = p) (concat xss). x) =
      (\<Sum>xs\<leftarrow>xss. \<Sum>(k, x)\<leftarrow>filter (\<lambda>(k, x). k = p) xs. x)" for xss :: "(rat \<times> rat) list list"
    by (induction xss) auto
  have "(\<Sum>r\<leftarrow>filter (same_side h sd) records. filled_at p r) =
      (\<Sum>r\<leftarrow>records. if same_side h sd r then filled_at p r else 0)"
    by (induction records) auto
  moreover have "same_side h sd = (\<lambda>r. pr_book_hash r = h \<and> oi_side (pr_intent r) = sd)"
    by (simp add: same_side_def fun_eq_iff)
  ultimately show ?thesis
    by (simp add: consumed_def dict_get_sum concat comp_def fills filled_at_def)
qed

lemma whole_increments_bounds:
  assumes "0 < i" and "0 \<le> q"
  shows "0 \<le> whole_increments i q" and "whole_increments i q \<le> q"
proof -
  show "whole_increments i q \<le> q"
    using mult_right_mono[OF of_int_floor_le[of "q / i"], of i] assms(1) by (simp add: whole_increments_def)
  show "0 \<le> whole_increments i q" using assms by (simp add: whole_increments_def)
qed

lemma match_levels_fills:
  assumes "match_levels intent ins fees n levels rem = Inr (fs, rest)"
    and "0 < is_quantity_increment ins" and "0 \<le> rem" and "\<forall>(p, q) \<in> set levels. 0 < q"
  shows "(\<Sum>f\<leftarrow>fs. pl_quantity f) = rem - rest \<and> 0 \<le> rest \<and>
    (\<forall>f \<in> set fs. 0 < pl_quantity f \<and> pl_price f \<in> fst ` set levels) \<and>
    (\<forall>p. (\<Sum>f\<leftarrow>fs. if pl_price f = p then pl_quantity f else 0) \<le> (\<Sum>(x, q)\<leftarrow>levels. if x = p then q else 0))"
  using assms
proof (induction levels arbitrary: n rem fs)
  case Nil
  then show ?case by simp
next
  case (Cons l levels)
  obtain price q where l: "l = (price, q)" by (cases l)
  let ?e = "whole_increments (is_quantity_increment ins) (min rem q)"
  have e: "0 \<le> ?e" "?e \<le> rem" "?e \<le> q"
    using whole_increments_bounds[OF Cons.prems(2), of "min rem q"] Cons.prems(3,4) l by auto
  consider (skip) "?e = 0" "match_levels intent ins fees (Suc n) levels rem = Inr (fs, rest)"
    | (last) f where "fs = [f]" "pl_quantity f = ?e" "pl_price f = price" "rest = 0" "rem = ?e" "?e \<noteq> 0"
    | (more) f gs where "fs = f # gs" "pl_quantity f = ?e" "pl_price f = price" "?e \<noteq> 0"
        "match_levels intent ins fees (Suc n) levels (rem - ?e) = Inr (gs, rest)"
    using Cons.prems(1) unfolding l by (auto simp: Let_def result_simps split: if_splits)
  then show ?case
  proof cases
    case skip
    note ih = Cons.IH[OF skip(2) Cons.prems(2,3)]
    have "(\<Sum>(x, y)\<leftarrow>levels. if x = p then y else 0) \<le> (\<Sum>(x, y)\<leftarrow>l # levels. if x = p then y else 0)" for p
      using Cons.prems(4) l by auto
    then show ?thesis using ih Cons.prems(4) by (auto intro: order_trans)
  next
    case last
    have rest: "0 \<le> (\<Sum>(x, y)\<leftarrow>levels. if x = p then y else 0)" for p
      using Cons.prems(4) by (intro sum_list_nonneg) auto
    show ?thesis using last e l rest by (auto intro: add_increasing2)
  next
    case more
    have "0 \<le> rem - ?e" using e by simp
    note ih = Cons.IH[OF more(5) Cons.prems(2) this]
    then show ?thesis using more e l Cons.prems(4) by (auto intro: add_mono add_increasing)
  qed
qed

lemma available_depth_positive:
  assumes "0 < increment" and "(p, q) \<in> set (available_depth intent increment used levels)"
  shows "0 < q \<and> within_limit intent p \<and> p \<in> lp_price ` set levels \<and> (\<exists>k. q = of_int k * increment)"
proof -
  obtain l where l: "l \<in> set levels" "within_limit intent (lp_price l)" "p = lp_price l"
      "q = whole_increments increment (max 0 (lp_quantity l - dict_get used (lp_price l)))" "q \<noteq> 0"
    using assms(2) by (auto simp: available_depth_def)
  then have "0 < q"
    using whole_increments_bounds(1)[OF assms(1), of "max 0 (lp_quantity l - dict_get used (lp_price l))"] by simp
  moreover have "\<exists>k. q = of_int k * increment" unfolding l(4) whole_increments_def by blast
  ultimately show ?thesis using l(1-3) by simp
qed

lemma available_depth_absent:
  "p \<notin> lp_price ` set levels \<Longrightarrow>
   (\<Sum>(x, q)\<leftarrow>available_depth intent increment used levels. if x = p then q else 0) = 0"
  by (induction levels) (auto simp: available_depth_def)

lemma available_depth_at:
  assumes "0 < increment" and "distinct (map lp_price levels)" and "l \<in> set levels"
  shows "(\<Sum>(x, q)\<leftarrow>available_depth intent increment used levels. if x = lp_price l then q else 0) \<le>
    max 0 (lp_quantity l - dict_get used (lp_price l))"
  using assms(2,3)
proof (induction levels)
  case Nil
  then show ?case by simp
next
  case (Cons m levels)
  let ?q = "whole_increments increment (max 0 (lp_quantity m - dict_get used (lp_price m)))"
  have split: "available_depth intent increment used (m # levels) =
      (if within_limit intent (lp_price m) \<and> ?q \<noteq> 0 then [(lp_price m, ?q)] else []) @
      available_depth intent increment used levels"
    by (simp add: available_depth_def)
  have bound: "?q \<le> max 0 (lp_quantity m - dict_get used (lp_price m))"
    using whole_increments_bounds(2)[OF assms(1)] by simp
  show ?case
  proof (cases "l = m")
    case True
    then have "lp_price l \<notin> lp_price ` set levels" using Cons.prems by auto
    then show ?thesis using bound True by (simp add: split available_depth_absent)
  next
    case False
    then have "l \<in> set levels" "lp_price m \<noteq> lp_price l" using Cons.prems by (auto simp: image_iff)
    then show ?thesis using Cons by (simp add: split)
  qed
qed

lemma paper_levels_eq_Inr:
  assumes "paper_levels descending levels = Inr sorted_levels"
  shows "distinct (map lp_price sorted_levels) \<and> sorted_levels \<noteq> [] \<and>
    (\<forall>l \<in> set sorted_levels. 0 < lp_price l \<and> 0 < lp_quantity l)"
proof -
  have "levels \<noteq> []" "distinct (map lp_price levels)" "\<forall>l \<in> set levels. 0 < lp_price l \<and> 0 < lp_quantity l"
    and s: "sorted_levels = sort_key (\<lambda>l. if descending then - lp_price l else lp_price l) levels"
    using assms by (auto simp: paper_levels_def result_simps list_all_iff)
  moreover have "mset (map lp_price sorted_levels) = mset (map lp_price levels)" by (simp add: s)
  ultimately show ?thesis
    by (metis length_0_conv length_sort mset_eq_imp_distinct_iff set_sort)
qed

definition book_ok :: "paper_book \<Rightarrow> bool" where
  "book_ok b \<longleftrightarrow> 0 < is_quantity_increment (pb_instrument b) \<and>
     (\<forall>sd. distinct (map lp_price (book_side_of b sd)) \<and>
        (\<forall>l \<in> set (book_side_of b sd). 0 < lp_price l \<and> 0 < lp_quantity l))"

lemma set_book_ok:
  "set_book sha market instrument fees bids asks = Inr b \<Longrightarrow> 0 < is_quantity_increment instrument \<Longrightarrow> book_ok b"
  by (auto simp: set_book_def result_simps Let_def book_ok_def book_side_of_def dest!: paper_levels_eq_Inr)

text \<open>The record a match gives, in the terms of the model.\<close>

lemma paper_match_cases:
  assumes "paper_match sha b intent previous now = Inr r"
  obtains depth rejected remaining where
    "depth = available_depth intent (is_quantity_increment (pb_instrument b))
        (consumed (pb_hash b) (oi_side intent) previous) (book_side_of b (oi_side intent))"
    "rejected = (now \<ge> oi_valid_until_ns intent \<or>
        (oi_time_in_force intent = FOK \<and> \<not> (\<Sum>(price, q)\<leftarrow>depth. q) \<ge> oi_quantity intent))"
    "(if rejected then Inr ([], oi_quantity intent)
      else match_levels intent (pb_instrument b) (pb_fees b) 0 depth (oi_quantity intent)) = Inr (pr_fills r, remaining)"
    "pr_intent r = intent" "pr_intent_hash r = content_hash sha (intent_json intent)" "pr_book_hash r = pb_hash b"
    "pr_snapshot r = \<lparr>os_identity = paper_identity sha intent,
        os_status = match_status intent rejected remaining (pr_fills r), os_settlement_status = NOT_REQUIRED,
        os_quantity = oi_quantity intent, os_filled_quantity = oi_quantity intent - remaining, os_asof_ns = now\<rparr>"
    "pr_submit r = \<lparr>sr_status = (if rejected then submit_rejected else accepted),
        sr_identity = paper_identity sha intent, sr_received_at_ns = now, sr_reason = Some ''paper_depth_only''\<rparr>"
proof -
  define depth where "depth = available_depth intent (is_quantity_increment (pb_instrument b))
        (consumed (pb_hash b) (oi_side intent) previous) (book_side_of b (oi_side intent))"
  define rejected where "rejected = (now \<ge> oi_valid_until_ns intent \<or>
        (oi_time_in_force intent = FOK \<and> \<not> (\<Sum>(price, q)\<leftarrow>depth. q) \<ge> oi_quantity intent))"
  obtain fs remaining where m: "(if rejected then Inr ([], oi_quantity intent)
      else match_levels intent (pb_instrument b) (pb_fees b) 0 depth (oi_quantity intent)) = Inr (fs, remaining)"
    and r: "r = \<lparr>pr_intent = intent, pr_intent_hash = content_hash sha (intent_json intent),
           pr_book_hash = pb_hash b, pr_fills = fs,
           pr_snapshot = \<lparr>os_identity = paper_identity sha intent,
              os_status = match_status intent rejected remaining fs,
              os_settlement_status = NOT_REQUIRED, os_quantity = oi_quantity intent,
              os_filled_quantity = oi_quantity intent - remaining, os_asof_ns = now\<rparr>,
           pr_submit = \<lparr>sr_status = (if rejected then submit_rejected else accepted),
              sr_identity = paper_identity sha intent, sr_received_at_ns = now,
              sr_reason = Some ''paper_depth_only''\<rparr>,
           pr_account_sequence = 0\<rparr>"
    using assms unfolding paper_match_def Let_def bind_eq_Inr book_side_of_def[symmetric]
      depth_def[symmetric] rejected_def[symmetric]
    by (clarsimp simp only: prod.case sum.inject split: prod.splits) blast
  show ?thesis
    by (rule that[OF depth_def rejected_def, of remaining]) (use m r in simp_all)
qed

lemma match_within_depth:
  assumes "paper_match sha b intent previous now = Inr r" and "book_ok b" and "0 < oi_quantity intent"
    and "l \<in> set (book_side_of b (oi_side intent))"
    and "dict_get (consumed (pb_hash b) (oi_side intent) previous) (lp_price l) \<le> lp_quantity l"
  shows "dict_get (consumed (pb_hash b) (oi_side intent) previous) (lp_price l) + filled_at (lp_price l) r \<le> lp_quantity l"
  using assms(1)
proof (cases rule: paper_match_cases)
  case (1 depth rejected remaining)
  have inc: "0 < is_quantity_increment (pb_instrument b)" using assms(2) by (simp add: book_ok_def)
  have distinct: "distinct (map lp_price (book_side_of b (oi_side intent)))" using assms(2) by (simp add: book_ok_def)
  show ?thesis
  proof (cases rejected)
    case True
    then show ?thesis using 1(3) assms(5) by (simp add: filled_at_def)
  next
    case False
    have "\<forall>(p, q) \<in> set depth. 0 < q" using available_depth_positive[OF inc] 1(1) by blast
    from match_levels_fills[OF _ inc _ this] False 1(3) assms(3)
    have "filled_at (lp_price l) r \<le> (\<Sum>(x, q)\<leftarrow>depth. if x = lp_price l then q else 0)"
      by (simp add: filled_at_def)
    also have "\<dots> \<le> max 0 (lp_quantity l - dict_get (consumed (pb_hash b) (oi_side intent) previous) (lp_price l))"
      unfolding 1(1) by (rule available_depth_at[OF inc distinct assms(4)])
    finally show ?thesis using assms(5) by simp
  qed
qed

definition depth_kept :: "paper_book \<Rightarrow> paper_record list \<Rightarrow> bool" where
  "depth_kept b records \<longleftrightarrow> (\<forall>sd. \<forall>l \<in> set (book_side_of b sd).
     (\<Sum>r\<leftarrow>records. if same_side (pb_hash b) sd r then filled_at (lp_price l) r else 0) \<le> lp_quantity l)"

lemma depth_kept_match:
  assumes "depth_kept b records" and "paper_match sha b intent previous now = Inr r" and "book_ok b"
    and "0 < oi_quantity intent"
    and "\<And>sd p. dict_get (consumed (pb_hash b) sd previous) p =
      (\<Sum>r\<leftarrow>records. if same_side (pb_hash b) sd r then filled_at p r else 0)"
  shows "depth_kept b (records @ [r])"
proof -
  have side: "same_side (pb_hash b) sd r \<longleftrightarrow> sd = oi_side intent" for sd
    using assms(2) by (cases rule: paper_match_cases) (auto simp: same_side_def)
  show ?thesis
    using assms(1) match_within_depth[OF assms(2-4)] by (auto simp: depth_kept_def side assms(5))
qed

section \<open>The stored results\<close>

definition book_records :: "string \<Rightarrow> artifact_row list \<Rightarrow> paper_record list" where
  "book_records tenant rows =
     List.map_filter (\<lambda>row. if result_row tenant row then paper_of (ar_payload row) else None) rows"

lemma sum_map_filter:
  "(\<Sum>x\<leftarrow>List.map_filter g xs. F x) = (\<Sum>x\<leftarrow>xs. case g x of None \<Rightarrow> 0 | Some y \<Rightarrow> F y)"
  for F :: "'b \<Rightarrow> 'c::comm_monoid_add"
  by (induction xs) (auto simp: List.map_filter_simps split: option.splits)

lemma verified_records_eq:
  "verified_records sha rows = Inr rs \<Longrightarrow> rs = List.map_filter (\<lambda>row. paper_of (ar_payload row)) rows"
  by (induction rows arbitrary: rs)
    (auto simp: List.map_filter_simps result_simps verified_payload_def split: option.splits)

lemma paper_records_sum:
  fixes F :: "paper_record \<Rightarrow> rat"
  assumes "paper_records sha tenant h d = Inr previous"
  shows "(\<Sum>r\<leftarrow>previous. F r) = (\<Sum>r\<leftarrow>book_records tenant (artifacts d). if pr_book_hash r = h then F r else 0)"
proof -
  have "(\<Sum>row\<leftarrow>select_where (\<lambda>row. result_row tenant row \<and> for_book h row) rows.
        case paper_of (ar_payload row) of None \<Rightarrow> 0 | Some r \<Rightarrow> F r) =
      (\<Sum>row\<leftarrow>rows. case (if result_row tenant row then paper_of (ar_payload row) else None) of
        None \<Rightarrow> 0 | Some r \<Rightarrow> if pr_book_hash r = h then F r else 0)" for rows
    by (induction rows) (auto simp: select_where_def for_book_def split: option.splits)
  then show ?thesis
    using verified_records_eq[OF assms[unfolded paper_records_def]]
    by (simp add: book_records_def sum_map_filter sum_list_sort)
qed

lemma consumed_records:
  assumes "paper_records sha tenant h d = Inr previous"
  shows "dict_get (consumed h sd previous) p =
    (\<Sum>r\<leftarrow>book_records tenant (artifacts d). if same_side h sd r then filled_at p r else 0)"
  unfolding consumed_sum paper_records_sum[OF assms]
  by (rule arg_cong[where f = sum_list]) (simp add: same_side_def)

lemma book_records_snoc:
  "book_records tenant (rows @ [row]) = book_records tenant rows @
     (if result_row tenant row then (case paper_of (ar_payload row) of None \<Rightarrow> [] | Some r \<Rightarrow> [r]) else [])"
  by (induction rows) (auto simp: book_records_def List.map_filter_simps split: option.splits)

lemma book_records_other:
  "ar_kind row \<noteq> ''paper_order_result'' \<Longrightarrow>
   book_records tenant (insert_once artifact_clash row rows) = book_records tenant rows"
  by (simp add: insert_once_def book_records_snoc result_row_def)

lemma lock_artifact_records [simp]:
  "kind \<noteq> ''paper_order_result'' \<Longrightarrow>
   book_records tenant (artifacts (lock_artifact sha tn kind identity payload t d)) = book_records tenant (artifacts d)"
  by (simp add: lock_artifact_def book_records_other)

lemma find_snoc: "find P (xs @ [x]) = (case find P xs of None \<Rightarrow> if P x then Some x else None | Some y \<Rightarrow> Some y)"
  by (induction xs) auto

lemma lock_artifact_lookup [simp]:
  "kind \<noteq> ''paper_order_result'' \<Longrightarrow>
   paper_lookup sha tenant oid (lock_artifact sha tn kind identity payload t d) = paper_lookup sha tenant oid d"
  by (simp add: paper_lookup_def lock_artifact_def insert_once_def first_where_def find_snoc artifact_key_def
      split: option.splits)

lemma paper_cancel_records:
  assumes "paper_cancel_tx sha tn identity t d = Inr (reply, d')"
  shows "book_records tenant (artifacts d') = book_records tenant (artifacts d)"
  using assms by (auto simp: paper_cancel_tx_def put_tx_def result_simps Let_def book_records_other split: if_splits)

lemma account_sequence_eq:
  "account_sequence tenant aid d = fold max (map pr_account_sequence
     (filter (\<lambda>r. oi_account_id (pr_intent r) = aid) (book_records tenant (artifacts d)))) 0"
proof -
  have "map (\<lambda>row. case paper_of (ar_payload row) of None \<Rightarrow> 0 | Some r \<Rightarrow> pr_account_sequence r)
       (select_where (\<lambda>row. result_row tenant row \<and> for_account aid row) rows) =
     map pr_account_sequence (filter (\<lambda>r. oi_account_id (pr_intent r) = aid) (book_records tenant rows))" for rows
    by (induction rows) (auto simp: select_where_def book_records_def List.map_filter_simps for_account_def split: option.splits)
  then show ?thesis by (simp add: account_sequence_def)
qed

definition result_artifact :: "hasher \<Rightarrow> string \<Rightarrow> order_intent \<Rightarrow> paper_record \<Rightarrow> int \<Rightarrow> artifact_row" where
  "result_artifact sha tenant intent made t =
     \<lparr>ar_tenant_id = tenant, ar_kind = ''paper_order_result'', ar_entity_id = oi_intent_id intent,
      ar_payload = APaperResult made, ar_sha256 = content_hash sha (paper_record_json made), ar_created_ns = t\<rparr>"

lemma result_artifact_key: "artifact_clash (result_artifact sha tenant intent made t) row \<longleftrightarrow>
    artifact_key tenant ''paper_order_result'' (oi_intent_id intent) row"
  by (auto simp: result_artifact_def artifact_clash_def artifact_key_def)

text \<open>A submission replays a stored result or stores one new match.\<close>

lemma paper_submit_cases:
  assumes "paper_submit_tx sha tenant supplied intent t d = Inr (reply, d')"
  obtains (replay) r where "d' = d" "paper_lookup sha tenant (oi_intent_id intent) d = Inr (Some r)"
      "submitted_reply sha intent r = Inr reply"
  | (fresh) book previous r made rows where "supplied = Some book" "paper_match sha book intent previous t = Inr r"
      "made = r\<lparr>pr_account_sequence := 1 + account_sequence tenant (oi_account_id intent) d\<rparr>"
      "reply = pr_submit r"
      "\<And>sd p. dict_get (consumed (pb_hash book) sd previous) p =
         (\<Sum>q\<leftarrow>book_records tenant (artifacts d). if same_side (pb_hash book) sd q then filled_at p q else 0)"
      "d' = d\<lparr>artifacts := rows @ [result_artifact sha tenant intent made t]\<rparr>"
      "\<forall>row \<in> set rows. \<not> artifact_key tenant ''paper_order_result'' (oi_intent_id intent) row"
      "\<And>tn. book_records tn rows = book_records tn (artifacts d)"
proof -
  obtain existing where existing: "paper_lookup sha tenant (oi_intent_id intent) d = Inr existing"
    using assms by (auto simp: paper_submit_tx_def result_simps)
  show ?thesis
  proof (cases existing)
    case (Some r)
    then show ?thesis using assms existing replay by (auto simp: paper_submit_tx_def result_simps)
  next
    case None
    then obtain book where book: "supplied = Some book"
      using assms existing by (auto simp: paper_submit_tx_def result_simps)
    define d2 where "d2 = lock_artifact sha tenant ''paper_book'' (pb_hash book) (paper_book_json book) t
      (lock_artifact sha tenant ''paper_account'' (oi_account_id intent)
        (JObj [(''account_id'', JStr (oi_account_id intent))]) t d)"
    have same: "book_records tn (artifacts d2) = book_records tn (artifacts d)" for tn by (simp add: d2_def)
    obtain again r d3 where again: "paper_lookup sha tenant (oi_intent_id intent) d2 = Inr again"
      and r: "(case again of Some r \<Rightarrow> Inr (r, d2) | None \<Rightarrow> store_match sha tenant book intent t d2) = Inr (r, d3)"
      and reply: "submitted_reply sha intent r = Inr reply" and d': "d' = d3"
      using assms None book existing unfolding d2_def by (auto simp: paper_submit_tx_def result_simps Let_def)
    have "again = None" using again existing None by (simp add: d2_def)
    then obtain previous fresh rows where previous: "paper_records sha tenant (pb_hash book) d2 = Inr previous"
      and m: "paper_match sha book intent previous t = Inr fresh"
      and made: "r = fresh\<lparr>pr_account_sequence := 1 + account_sequence tenant (oi_account_id intent) d2\<rparr>"
      and rows: "insert_row artifact_clash ''artifacts'' (result_artifact sha tenant intent r t) (artifacts d2) = Inr rows"
      and d3: "d3 = d2\<lparr>artifacts := rows\<rparr>"
      using r by (auto simp: store_match_def result_simps Let_def result_artifact_def)
    have "account_sequence tenant (oi_account_id intent) d2 = account_sequence tenant (oi_account_id intent) d"
      by (simp add: account_sequence_eq same)
    moreover have "reply = pr_submit fresh" using reply by (simp add: submitted_reply_def result_simps made)
    moreover have "d' = d\<lparr>artifacts := artifacts d2 @ [result_artifact sha tenant intent r t]\<rparr>"
      using rows by (simp add: d' d3 insert_row_eq_Inr d2_def lock_artifact_def)
    ultimately show ?thesis
      using fresh[OF book m, of r "artifacts d2"] made rows consumed_records[OF previous]
      by (simp add: same insert_row_eq_Inr result_artifact_key)
  qed
qed

section \<open>Steps of the paper venue\<close>

text \<open>
  The steps of any number of adapters of a tenant, seen from one book \<open>b\<close>: a book with the same
  content hash is the same book.  The last rule lets everything else happen that leaves the paper
  results alone.
\<close>

inductive paper_step :: "hasher \<Rightarrow> string \<Rightarrow> paper_book \<Rightarrow> db \<Rightarrow> db \<Rightarrow> bool" for sha tenant b where
  submitted: "paper_submit_tx sha tenant supplied intent t d = Inr (reply, d') \<Longrightarrow> 0 < oi_quantity intent \<Longrightarrow>
    opt_all (\<lambda>book. book_ok book \<and> (pb_hash book = pb_hash b \<longrightarrow> book = b)) supplied \<Longrightarrow>
    paper_step sha tenant b d d'"
| cancelled: "paper_cancel_tx sha tenant identity t d = Inr (answer, d') \<Longrightarrow> paper_step sha tenant b d d'"
| elsewhere: "book_records tenant (artifacts d') = book_records tenant (artifacts d) \<Longrightarrow> paper_step sha tenant b d d'"

definition account_log :: "string \<Rightarrow> string \<Rightarrow> db \<Rightarrow> paper_record list" where
  "account_log tenant aid d = filter (\<lambda>r. oi_account_id (pr_intent r) = aid) (book_records tenant (artifacts d))"

definition paper_inv :: "string \<Rightarrow> paper_book \<Rightarrow> db \<Rightarrow> bool" where
  "paper_inv tenant b d \<longleftrightarrow> (book_ok b \<longrightarrow> depth_kept b (book_records tenant (artifacts d))) \<and>
     (\<forall>aid. consecutive (map pr_account_sequence (account_log tenant aid d)))"

lemma filled_at_sequence [simp]:
  "filled_at p (r\<lparr>pr_account_sequence := n\<rparr>) = filled_at p r"
  "same_side h sd (r\<lparr>pr_account_sequence := n\<rparr>) = same_side h sd r"
  by (simp_all add: filled_at_def same_side_def)

lemma depth_kept_sequence: "depth_kept b (rs @ [r\<lparr>pr_account_sequence := n\<rparr>]) \<longleftrightarrow> depth_kept b (rs @ [r])"
  by (simp add: depth_kept_def)

lemma paper_step_records:
  assumes "paper_step sha tenant b d d'"
  obtains (same) "book_records tenant (artifacts d') = book_records tenant (artifacts d)"
  | (grown) book intent previous t r where
      "book_records tenant (artifacts d') = book_records tenant (artifacts d) @
         [r\<lparr>pr_account_sequence := 1 + account_sequence tenant (oi_account_id intent) d\<rparr>]"
      "paper_match sha book intent previous t = Inr r" "book_ok book" "pb_hash book = pb_hash b \<longrightarrow> book = b"
      "0 < oi_quantity intent"
      "\<And>sd p. dict_get (consumed (pb_hash book) sd previous) p =
         (\<Sum>q\<leftarrow>book_records tenant (artifacts d). if same_side (pb_hash book) sd q then filled_at p q else 0)"
  using assms
proof cases
  case (submitted supplied intent t reply)
  from submitted(1) show ?thesis
  proof (cases rule: paper_submit_cases)
    case (replay r)
    then show ?thesis using same by simp
  next
    case (fresh book previous r made rows)
    then have "book_records tenant (artifacts d') = book_records tenant (artifacts d) @ [made]"
      by (simp add: book_records_snoc result_row_def result_artifact_def paper_of_def)
    then have "book_records tenant (artifacts d') = book_records tenant (artifacts d) @
        [r\<lparr>pr_account_sequence := 1 + account_sequence tenant (oi_account_id intent) d\<rparr>]"
      by (simp add: fresh(3))
    moreover have "book_ok book" "pb_hash book = pb_hash b \<longrightarrow> book = b" using submitted(3) fresh(1) by simp_all
    ultimately show ?thesis using grown fresh(2,5) submitted(2) by blast
  qed
next
  case (cancelled identity t answer)
  then show ?thesis using same paper_cancel_records by blast
next
  case elsewhere
  then show ?thesis using same by simp
qed

lemma paper_inv_step:
  assumes "paper_step sha tenant b d d'" and "paper_inv tenant b d"
  shows "paper_inv tenant b d'"
  using assms(1)
proof (cases rule: paper_step_records)
  case same
  then show ?thesis using assms(2) by (simp add: paper_inv_def account_log_def)
next
  case (grown book intent previous t r)
  have r: "pr_intent r = intent" "pr_book_hash r = pb_hash book"
    using grown(2) by (cases rule: paper_match_cases; simp)+
  have "depth_kept b (book_records tenant (artifacts d'))" if "book_ok b"
  proof (cases "pb_hash book = pb_hash b")
    case True
    with grown(4) have "book = b" by simp
    then show ?thesis
      using depth_kept_match[OF _ grown(2,3,5,6)] assms(2) that by (simp add: grown(1) depth_kept_sequence paper_inv_def)
  next
    case False
    then show ?thesis using assms(2) r that by (simp add: grown(1) depth_kept_def paper_inv_def same_side_def)
  qed
  moreover have "consecutive (map pr_account_sequence (account_log tenant aid d'))" for aid
  proof -
    have "consecutive (map pr_account_sequence (account_log tenant aid d))"
      using assms(2) by (simp add: paper_inv_def)
    moreover have "account_sequence tenant aid d = int (length (account_log tenant aid d))"
      using consecutive_max[OF calculation] by (simp add: account_sequence_eq account_log_def)
    ultimately show ?thesis
      using consecutive_snoc[of "map pr_account_sequence (account_log tenant aid d)"
          "1 + account_sequence tenant aid d"] r by (auto simp: account_log_def grown(1))
  qed
  ultimately show ?thesis by (simp add: paper_inv_def)
qed

lemma paper_inv_empty: "paper_inv tenant b empty_db"
  by (auto simp: paper_inv_def account_log_def book_records_def List.map_filter_simps empty_db_def consecutive_def
      depth_kept_def book_ok_def intro: less_imp_le)

interpretation paper: transition_system "paper_step sha tenant b" "paper_inv tenant b" empty_db
  by unfold_locales (auto intro: paper_inv_step simp: paper_inv_empty)

definition records_prefix :: "string \<Rightarrow> db \<Rightarrow> db \<Rightarrow> bool" where
  "records_prefix tenant d d' \<longleftrightarrow>
     (\<exists>new_records. book_records tenant (artifacts d') = book_records tenant (artifacts d) @ new_records)"

lemma records_prefix_steps:
  assumes "(paper_step sha tenant b)\<^sup>*\<^sup>* d d'"
  shows "records_prefix tenant d d'"
  using assms
proof (induction rule: rtranclp_induct)
  case base
  show ?case by (simp add: records_prefix_def)
next
  case (step c e)
  from step(2) have "records_prefix tenant c e"
    by (cases rule: paper_step_records) (auto simp: records_prefix_def)
  with step(3) show ?case by (auto simp: records_prefix_def)
qed

section \<open>Pages\<close>

definition venue_log :: "string \<Rightarrow> reconcile_cursor \<Rightarrow> db \<Rightarrow> paper_record list" where
  "venue_log tenant cursor d =
     filter (\<lambda>r. oi_venue (pr_intent r) = rc_venue cursor) (account_log tenant (rc_account_id cursor) d)"

lemma consecutive_sorted: "consecutive xs \<Longrightarrow> sorted_wrt (<) xs"
  unfolding consecutive_def by (erule ssubst) (simp add: sorted_wrt_map del: upt_Suc)

lemma log_sequences:
  "map (\<lambda>row. case paper_of (ar_payload row) of None \<Rightarrow> 0 | Some r \<Rightarrow> pr_account_sequence r)
     (select_where (\<lambda>row. result_row tenant row \<and> for_account aid row) rows) =
   map pr_account_sequence (filter (\<lambda>r. oi_account_id (pr_intent r) = aid) (book_records tenant rows))"
  by (induction rows)
    (auto simp: select_where_def book_records_def List.map_filter_simps for_account_def split: option.splits)

lemma log_rows:
  "filter (\<lambda>r. oi_venue (pr_intent r) = venue) (filter (\<lambda>r. oi_account_id (pr_intent r) = aid) (book_records tenant rows)) =
   map (\<lambda>row. the (paper_of (ar_payload row)))
     (filter (for_venue venue) (select_where (\<lambda>row. result_row tenant row \<and> for_account aid row) rows))"
  by (induction rows)
    (auto simp: select_where_def book_records_def List.map_filter_simps for_account_def for_venue_def split: option.splits)

lemma sort_key_pair_id:
  fixes f :: "'a \<Rightarrow> int" and g :: "'a \<Rightarrow> string"
  assumes "sorted_wrt (<) (map f xs)"
  shows "sort_key (\<lambda>x. (f x, g x)) xs = xs"
proof (rule sort_key_id_if_sorted)
  show "sorted (map (\<lambda>x. (f x, g x)) xs)"
    using assms by (induction xs) (auto simp: less_eq_prod_def)
qed

lemma paper_page_log:
  assumes "paper_page sha tenant cursor offset d = Inr page" and "paper_inv tenant b d"
  shows "page = take 201 (drop offset (venue_log tenant cursor d))"
proof -
  let ?seq = "\<lambda>row. case paper_of (ar_payload row) of None \<Rightarrow> 0 | Some r \<Rightarrow> pr_account_sequence r"
  let ?rows = "select_where (\<lambda>row. result_row tenant row \<and> for_account (rc_account_id cursor) row) (artifacts d)"
  let ?mine = "filter (for_venue (rc_venue cursor)) ?rows"
  have "map ?seq ?rows = map pr_account_sequence (account_log tenant (rc_account_id cursor) d)"
    unfolding account_log_def by (rule log_sequences)
  then have "sorted_wrt (<) (map ?seq ?rows)"
    using assms(2) consecutive_sorted by (simp add: paper_inv_def)
  then have "sorted_wrt (<) (map ?seq ?mine)" unfolding sorted_wrt_map by (rule sorted_wrt_filter)
  then have sorted: "sort_key (\<lambda>row. (?seq row, ar_entity_id row)) ?mine = ?mine" by (rule sort_key_pair_id)
  have mine: "?mine = select_where (\<lambda>row. result_row tenant row \<and> for_account (rc_account_id cursor) row \<and>
            for_venue (rc_venue cursor) row) (artifacts d)"
    by (simp add: select_where_def)
  have "page = List.map_filter (\<lambda>row. paper_of (ar_payload row)) (take 201 (drop offset ?mine))"
    by (rule verified_records_eq[of sha]) (use assms(1) in \<open>simp only: paper_page_def mine[symmetric] sorted\<close>)
  moreover have "List.map_filter (\<lambda>row. paper_of (ar_payload row)) rows =
        map (\<lambda>row. the (paper_of (ar_payload row))) rows" if "set rows \<subseteq> set ?mine" for rows
  proof -
    have some: "\<exists>r. paper_of (ar_payload row) = Some r" if "for_venue venue row" for venue row
      using that by (auto simp: for_venue_def split: option.splits)
    show ?thesis using that by (induction rows) (auto simp: List.map_filter_simps dest!: some)
  qed
  moreover have "set (take 201 (drop offset ?mine)) \<subseteq> set ?mine"
    by (meson set_drop_subset set_take_subset subset_trans)
  ultimately have "page = map (\<lambda>row. the (paper_of (ar_payload row))) (take 201 (drop offset ?mine))" by blast
  then show ?thesis unfolding venue_log_def account_log_def log_rows take_map drop_map .
qed

section \<open>All or nothing\<close>

lemma whole_increments_exact: "0 < i \<Longrightarrow> whole_increments i (of_int k * i) = of_int k * i"
  by (simp add: whole_increments_def)

lemma match_levels_complete:
  assumes "match_levels intent ins fees n levels (of_int m * is_quantity_increment ins) = Inr (fs, rest)"
    and "0 < is_quantity_increment ins" and "0 \<le> m"
    and "\<forall>(p, q) \<in> set levels. 0 < q \<and> (\<exists>k. q = of_int k * is_quantity_increment ins)"
    and "of_int m * is_quantity_increment ins \<le> (\<Sum>(p, q)\<leftarrow>levels. q)"
  shows "rest = 0"
  using assms
proof (induction levels arbitrary: n m fs)
  case Nil
  have "0 \<le> (of_int m :: rat) * is_quantity_increment ins" using Nil.prems(2,3) by simp
  then show ?case using Nil.prems(1,5) by auto
next
  case (Cons l levels)
  let ?i = "is_quantity_increment ins"
  obtain p k where l: "l = (p, of_int k * ?i)" and k: "0 < of_int k * ?i"
    using Cons.prems(4) by (cases l) auto
  have min: "min (of_int m * ?i) (of_int k * ?i) = of_int (min m k) * ?i"
    using Cons.prems(2) by (auto simp: min_def)
  have e: "whole_increments ?i (min (of_int m * ?i) (of_int k * ?i)) = of_int (min m k) * ?i"
    unfolding min by (rule whole_increments_exact[OF Cons.prems(2)])
  have rest: "of_int m * ?i - of_int (min m k) * ?i = of_int (m - min m k) * ?i" by (simp add: algebra_simps)
  have "0 < k" using k Cons.prems(2) by (simp add: zero_less_mult_iff)
  consider (none) "m = 0" | (last) "0 < m" "m \<le> k" | (more) "k < m" using Cons.prems(3) by linarith
  then show ?case
  proof cases
    case none
    have "match_levels intent ins fees j ls 0 = Inr (fs, rest) \<Longrightarrow> \<forall>(p, q) \<in> set ls. 0 < q \<Longrightarrow> rest = 0" for j ls
      by (induction ls arbitrary: j) (auto simp: Let_def whole_increments_def min_def split: if_splits)
    then show ?thesis using Cons.prems(1,4) none by fastforce
  next
    case last
    then have "min m k = m" by simp
    then show ?thesis using Cons.prems(1,2) last e unfolding l
      by (auto simp: Let_def split: if_splits)
  next
    case more
    then have "min m k = k" by simp
    moreover have "of_int (m - k) * ?i \<noteq> 0" "of_int k * ?i \<noteq> 0" using more k Cons.prems(2) by auto
    ultimately obtain gs where "match_levels intent ins fees (Suc n) levels (of_int (m - k) * ?i) = Inr (gs, rest)"
      using Cons.prems(1) e rest unfolding l by (auto simp: Let_def result_simps split: if_splits)
    moreover have "of_int (m - k) * ?i \<le> (\<Sum>(p, q)\<leftarrow>levels. q)"
      using Cons.prems(5) by (simp add: l algebra_simps)
    ultimately show ?thesis
      using Cons.IH[of "Suc n" "m - k" gs, OF _ Cons.prems(2)] Cons.prems(4) more by simp
  qed
qed

section \<open>What the paper venue promises\<close>

text \<open>
  A match is honest about its fills: their sum is the filled quantity of the reported snapshot,
  which is between zero and the ordered quantity; every fill is positive, at a price of the book within
  the limit of the order; the order is reported \<open>FILLED\<close> exactly when all of it is filled; and a
  rejected order has no fill.
\<close>

theorem paper_fills_honest:
  assumes "paper_match sha b intent previous now = Inr r" and "book_ok b" and "0 < oi_quantity intent"
  shows "(\<Sum>f\<leftarrow>pr_fills r. pl_quantity f) = os_filled_quantity (pr_snapshot r) \<and>
    0 \<le> os_filled_quantity (pr_snapshot r) \<and> os_filled_quantity (pr_snapshot r) \<le> oi_quantity intent \<and>
    list_all (\<lambda>f. 0 < pl_quantity f \<and> within_limit intent (pl_price f) \<and>
      pl_price f \<in> lp_price ` set (book_side_of b (oi_side intent))) (pr_fills r) \<and>
    (os_status (pr_snapshot r) = FILLED \<longleftrightarrow> os_filled_quantity (pr_snapshot r) = oi_quantity intent) \<and>
    (sr_status (pr_submit r) = submit_rejected \<longrightarrow> pr_fills r = [])"
  using assms(1)
proof (cases rule: paper_match_cases)
  case (1 depth rejected remaining)
  have inc: "0 < is_quantity_increment (pb_instrument b)" using assms(2) by (simp add: book_ok_def)
  note depth = available_depth_positive[OF inc, of _ _ intent _ "book_side_of b (oi_side intent)", folded 1(1)]
  show ?thesis
  proof (cases rejected)
    case True
    then have "pr_fills r = [] \<and> remaining = oi_quantity intent" using 1(3) by simp
    then show ?thesis using True assms(3) by (simp add: 1(7,8) match_status_def)
  next
    case False
    then have m: "match_levels intent (pb_instrument b) (pb_fees b) 0 depth (oi_quantity intent) = Inr (pr_fills r, remaining)"
      using 1(3) by simp
    have "\<forall>(p, q) \<in> set depth. 0 < q" using depth unfolding 1(1) by blast
    note facts = match_levels_fills[OF m inc less_imp_le[OF assms(3)] this]
    have "list_all (\<lambda>f. 0 < pl_quantity f \<and> within_limit intent (pl_price f) \<and>
        pl_price f \<in> lp_price ` set (book_side_of b (oi_side intent))) (pr_fills r)"
      using facts depth unfolding 1(1) by (fastforce simp: list_all_iff)
    moreover have "0 \<le> (\<Sum>f\<leftarrow>pr_fills r. pl_quantity f)"
      using facts by (intro sum_list_nonneg) (auto intro: less_imp_le)
    ultimately show ?thesis using facts False by (simp add: 1(7,8) match_status_def)
  qed
qed

text \<open>
  A fill-or-kill order on the instrument's quantity grid is all or nothing: either it has no fill
  and is rejected, or it is filled completely.
\<close>

theorem fill_or_kill_all_or_nothing:
  assumes "paper_match sha b intent previous now = Inr r" and "book_ok b"
    and "oi_time_in_force intent = FOK" and "0 < oi_quantity intent"
    and "\<not> off_grid (oi_quantity intent) (is_quantity_increment (pb_instrument b))"
  shows "(sr_status (pr_submit r) = submit_rejected \<and> pr_fills r = []) \<or>
    (sr_status (pr_submit r) = accepted \<and> os_filled_quantity (pr_snapshot r) = oi_quantity intent)"
  using assms(1)
proof (cases rule: paper_match_cases)
  case (1 depth rejected remaining)
  let ?i = "is_quantity_increment (pb_instrument b)"
  have inc: "0 < ?i" using assms(2) by (simp add: book_ok_def)
  show ?thesis
  proof (cases rejected)
    case True
    then show ?thesis using 1(3) by (simp add: 1(8))
  next
    case False
    define m where "m = \<lfloor>oi_quantity intent / ?i\<rfloor>"
    have grid: "of_int m * ?i = oi_quantity intent" using assms(5) by (simp add: off_grid_def m_def)
    have "\<forall>(p, q) \<in> set depth. 0 < q \<and> (\<exists>k. q = of_int k * ?i)"
      using available_depth_positive[OF inc] unfolding 1(1) by blast
    moreover have "0 \<le> m" using assms(4) inc by (simp add: m_def)
    moreover have "of_int m * ?i \<le> (\<Sum>(p, q)\<leftarrow>depth. q)" using False 1(2) assms(3) grid by simp
    moreover have "match_levels intent (pb_instrument b) (pb_fees b) 0 depth (of_int m * ?i) = Inr (pr_fills r, remaining)"
      using 1(3) False grid by simp
    ultimately have "remaining = 0" using match_levels_complete[OF _ inc] by blast
    then show ?thesis using False by (simp add: 1(7,8))
  qed
qed

text \<open>
  C27: depth is never sold twice: whatever is submitted and cancelled by any number of adapters of the
  tenant, at every level of a book the fills of all stored orders on that side together never exceed
  the quantity of the level.
\<close>

theorem depth_never_sold_twice:
  assumes "set_book sha market instrument fees bids asks = Inr b" and "0 < is_quantity_increment instrument"
    and "(paper_step sha tenant b)\<^sup>*\<^sup>* empty_db d" and "l \<in> set (book_side_of b sd)"
  shows "(\<Sum>r\<leftarrow>book_records tenant (artifacts d). if same_side (pb_hash b) sd r then filled_at (lp_price l) r else 0)
    \<le> lp_quantity l"
  using paper.inv_reachable[OF assms(3)] set_book_ok[OF assms(1,2)] assms(4)
  by (simp add: paper_inv_def depth_kept_def)

text \<open>
  Submitting again is a replay: once a submission has committed, the same intent gives the same
  reply at any later time, from any adapter of the tenant, whatever book it holds, and stores nothing.
\<close>

theorem paper_submit_idempotent:
  assumes "paper_submit_tx sha tenant supplied intent t d = Inr (reply, d')"
  shows "paper_submit_tx sha tenant other intent t' d' = Inr (reply, d')"
  using assms
proof (cases rule: paper_submit_cases)
  case (replay r)
  then show ?thesis by (simp add: paper_submit_tx_def)
next
  case (fresh book previous r made rows)
  let ?row = "result_artifact sha tenant intent made t"
  have "find (artifact_key tenant ''paper_order_result'' (oi_intent_id intent)) rows = None"
    using fresh(7) by (auto simp: find_None_iff)
  then have "first_where (artifact_key tenant ''paper_order_result'' (oi_intent_id intent)) (artifacts d') = Some ?row"
    by (simp add: fresh(6) first_where_def find_snoc artifact_key_def result_artifact_def)
  moreover have "verified_payload sha ?row = Inr (APaperResult made)"
    by (simp add: verified_payload_def result_artifact_def)
  moreover have "pr_intent_hash r = content_hash sha (intent_json intent)"
    using fresh(2) by (cases rule: paper_match_cases) simp
  ultimately show ?thesis
    using fresh(3,4) by (simp add: paper_submit_tx_def paper_lookup_def paper_of_def submitted_reply_def)
qed

lemma grouped_digits_all: "list_all is_digit ds \<Longrightarrow> ds \<noteq> [] \<Longrightarrow> grouped_digits ds = Some ds"
proof (induction ds rule: grouped_digits.induct)
  case (3 c e cs)
  moreover have "e \<noteq> CHR ''_''" using 3(3) by (auto simp: is_digit_def)
  ultimately show ?case by simp
qed simp_all

lemma digit_not_space: "is_digit c \<Longrightarrow> \<not> is_space c"
  by (simp add: is_digit_def is_space_def less_eq_char_def Let_def)

lemma strip_digits: "list_all is_digit ds \<Longrightarrow> strip ds = ds"
proof -
  assume "list_all is_digit ds"
  then have "\<not> is_space c" if "c \<in> set ds" for c using that digit_not_space by (auto simp: list_all_iff)
  then have "dropWhile is_space ds = ds" "dropWhile is_space (rev ds) = rev ds"
    by (auto simp: dropWhile_eq_self_iff hd_rev)
  then show ?thesis by (simp add: strip_def)
qed

lemma int_of_text_int_text: "int_of_text (int_text (int n)) = Some (int n)"
proof -
  obtain c cs where ds: "nat_text n = c # cs" using nat_text_nonempty by (cases "nat_text n") auto
  moreover have "list_all is_digit (nat_text n)" by (rule nat_text_digits)
  moreover from this ds have "c \<noteq> CHR ''-''" "c \<noteq> CHR ''+''" by (auto simp: is_digit_def)
  ultimately show ?thesis
    using nat_text_value[of n]
    by (simp add: int_of_text_def int_text_def whole_text_def strip_digits grouped_digits_all del: grouped_digits.simps)
qed

lemma query_all_length: "query_all sha tenant rs t d = Inr snaps \<Longrightarrow> length snaps = length rs"
  by (induction rs arbitrary: snaps) (auto simp: result_simps)

lemma paper_reconcile_log:
  assumes "paper_reconcile sha tenant cursor t d = Inr batch" and "cursor_offset cursor = Inr offset"
    and "paper_inv tenant b d"
  shows "bt_fills batch = map paper_fill_json (concat (map pr_fills (take 200 (drop offset (venue_log tenant cursor d))))) \<and>
    length (bt_orders batch) = min 200 (length (venue_log tenant cursor d) - offset) \<and>
    cursor_offset (bt_next_cursor batch) = Inr (offset + length (bt_orders batch)) \<and>
    rc_venue (bt_next_cursor batch) = rc_venue cursor \<and> rc_account_id (bt_next_cursor batch) = rc_account_id cursor \<and>
    (bt_complete batch \<longleftrightarrow> length (venue_log tenant cursor d) \<le> offset + 200)"
proof -
  obtain page snaps where page: "paper_page sha tenant cursor offset d = Inr page"
    and snaps: "query_all sha tenant (take 200 page) t d = Inr snaps"
    and batch: "batch = batch_of cursor offset (length page \<le> 200) (take 200 page) snaps"
    using assms(1,2) by (auto simp: paper_reconcile_def result_simps Let_def)
  note log = paper_page_log[OF page assms(3)]
  have "cursor_offset (bt_next_cursor batch) = Inr (offset + length (take 200 page))"
    using int_of_text_int_text[of "offset + length (take 200 page)"]
    by (cases "int_text (int (offset + length (take 200 page)))")
      (auto simp: batch batch_of_def cursor_offset_def Let_def int_of_text_def strip_def)
  then show ?thesis
    using query_all_length[OF snaps] by (auto simp: batch batch_of_def log min_def)
qed

text \<open>
  C28: reconciliation reads a log: the fills of a batch are those of the next results, at most 200, of
  the account's log at the venue, which later steps only extend; continuing from the returned cursor,
  at any later time, gives the results that follow, so nothing is missed or repeated; and a batch calls
  itself complete exactly when it reached the end of the log.
\<close>

theorem paper_reconcile_reads_on:
  assumes "(paper_step sha tenant b)\<^sup>*\<^sup>* empty_db d" and "(paper_step sha tenant b)\<^sup>*\<^sup>* d d'"
    and "cursor_offset cursor = Inr offset" and "paper_reconcile sha tenant cursor t d = Inr batch"
    and "paper_reconcile sha tenant (bt_next_cursor batch) t' d' = Inr later"
  shows "bt_fills batch @ bt_fills later = map paper_fill_json (concat (map pr_fills
      (take (length (bt_orders batch) + 200) (drop offset (venue_log tenant cursor d'))))) \<and>
    (bt_complete batch \<longleftrightarrow> length (venue_log tenant cursor d) \<le> offset + 200)"
proof -
  note one = paper_reconcile_log[OF assms(4,3) paper.inv_reachable[OF assms(1)]]
  have "(paper_step sha tenant b)\<^sup>*\<^sup>* empty_db d'" using assms(1,2) by (rule rtranclp_trans)
  note two = paper_reconcile_log[OF assms(5) _ paper.inv_reachable[OF this], of "offset + length (bt_orders batch)"]
  have same: "venue_log tenant (bt_next_cursor batch) d' = venue_log tenant cursor d'"
    using one by (simp add: venue_log_def)
  obtain new_records where "book_records tenant (artifacts d') = book_records tenant (artifacts d) @ new_records"
    using records_prefix_steps[OF assms(2)] by (auto simp: records_prefix_def)
  then obtain more_log where grown: "venue_log tenant cursor d' = venue_log tenant cursor d @ more_log"
    by (auto simp: venue_log_def account_log_def)
  let ?n = "length (bt_orders batch)"
  have "take 200 (drop offset (venue_log tenant cursor d)) = take ?n (drop offset (venue_log tenant cursor d'))"
    unfolding grown using one by (auto simp: min_def)
  moreover have "take (?n + 200) (drop offset (venue_log tenant cursor d')) =
      take ?n (drop offset (venue_log tenant cursor d')) @ take 200 (drop (offset + ?n) (venue_log tenant cursor d'))"
    by (simp add: take_add add.commute)
  ultimately show ?thesis using one two by (simp add: same)
qed

section \<open>A worked example\<close>

definition demo_level :: "rat \<Rightarrow> string \<Rightarrow> rat \<Rightarrow> string \<Rightarrow> paper_level" where
  "demo_level p ptext q qtext = \<lparr>lp_price = p, lp_price_text = ptext, lp_quantity = q, lp_quantity_text = qtext\<rparr>"

definition demo_asks :: "paper_level list" where
  "demo_asks = [demo_level 101 ''101'' (1 / 20) ''0.05'', demo_level 102 ''102'' 1 ''1'']"

definition demo_bids :: "paper_level list" where
  "demo_bids = [demo_level 100 ''100'' 1 ''1'']"

definition demo_book_hash :: string where
  "demo_book_hash = content_hash text_sha (JObj (book_content \<lparr>pb_market = market_at 1000, pb_instrument = btc,
     pb_fees = fees0, pb_bids = demo_bids, pb_asks = demo_asks, pb_hash = []\<rparr>))"

definition demo_depth_book :: paper_book where
  "demo_depth_book = \<lparr>pb_market = market_at 1000, pb_instrument = btc, pb_fees = fees0, pb_bids = demo_bids,
     pb_asks = demo_asks, pb_hash = demo_book_hash\<rparr>"

definition demo_order :: order_intent where
  "demo_order = (intent_of ''o1'' buy (1 / 10) 102)\<lparr>oi_time_in_force := FOK\<rparr>"

lemma demo_book_sel [simp]:
  "pb_market demo_depth_book = market_at 1000" "pb_instrument demo_depth_book = btc" "pb_fees demo_depth_book = fees0"
  "pb_bids demo_depth_book = demo_bids" "pb_asks demo_depth_book = demo_asks" "pb_hash demo_depth_book = demo_book_hash"
  by (simp_all add: demo_depth_book_def)

lemma demo_market_sel [simp]:
  "mk_bid (market_at t) = 100" "mk_ask (market_at t) = 101" "mk_asof_ns (market_at t) = t"
  "mk_book_valid (market_at t)" "mk_venue (market_at t) = ''sim''" "mk_instrument (market_at t) = ''BTCUSDT''"
  "mk_instrument_spec_hash (market_at t) = content_hash text_sha (instrument_json btc)"
  "mk_fee_schedule_hash (market_at t) = content_hash text_sha (fees_json fees0)"
  by (simp_all add: market_at_def btc_hash_def fees_hash_def)

lemma demo_btc_sel [simp]:
  "is_venue btc = ''sim''" "is_instrument btc = ''BTCUSDT''" "is_quantity_increment btc = 1 / 1000"
  "is_quote_asset btc = ''USDT''" "is_base_asset btc = ''BTC''" "is_instrument_type btc = spot"
  "fs_fee_asset fees0 = ''USDT''" "fs_fee_basis fees0 = notional"
  by (simp_all add: btc_def fees0_def)

lemma demo_order_sel [simp]:
  "oi_intent_id demo_order = ''o1''" "oi_side demo_order = buy" "oi_quantity demo_order = 1 / 10"
  "oi_limit_price demo_order = 102" "oi_time_in_force demo_order = FOK" "oi_account_id demo_order = ''acc''"
  "oi_venue demo_order = ''sim''" "oi_instrument demo_order = ''BTCUSDT''" "oi_valid_until_ns demo_order = 1000000000000"
  "oi_fee_schedule_hash demo_order = content_hash text_sha (fees_json fees0)"
  "oi_instrument_spec_hash demo_order = content_hash text_sha (instrument_json btc)"
  by (simp_all add: demo_order_def intent_of_def btc_hash_def fees_hash_def)

lemma demo_book_set: "set_book text_sha (market_at 1000) btc fees0 demo_bids demo_asks = Inr demo_depth_book"
  by (simp add: set_book_def paper_levels_def demo_bids_def demo_asks_def demo_level_def Let_def demo_depth_book_def
      demo_book_hash_def)

definition demo_fill :: "nat \<Rightarrow> rat \<Rightarrow> paper_fill" where
  "demo_fill n price = \<lparr>pl_intent_id = ''o1'', pl_venue_trade_id = trade_name ''o1'' n, pl_quantity = 1 / 20,
     pl_price = price, pl_fee = taker_fee btc fees0 (1 / 20) price, pl_fee_asset = ''USDT'', pl_base_asset = ''BTC'',
     pl_quote_asset = ''USDT''\<rparr>"

definition demo_record :: "int \<Rightarrow> paper_record" where
  "demo_record n = \<lparr>pr_intent = demo_order, pr_intent_hash = content_hash text_sha (intent_json demo_order),
     pr_book_hash = demo_book_hash, pr_fills = [demo_fill 0 101, demo_fill 1 102],
     pr_snapshot = \<lparr>os_identity = paper_identity text_sha demo_order, os_status = FILLED,
        os_settlement_status = NOT_REQUIRED, os_quantity = 1 / 10, os_filled_quantity = 1 / 10, os_asof_ns = 1000\<rparr>,
     pr_submit = \<lparr>sr_status = accepted, sr_identity = paper_identity text_sha demo_order, sr_received_at_ns = 1000,
        sr_reason = Some ''paper_depth_only''\<rparr>, pr_account_sequence = n\<rparr>"

lemma demo_depth:
  "available_depth demo_order (1 / 1000) (consumed demo_book_hash buy []) demo_asks = [(101, 1 / 20), (102, 1)]"
  by (simp add: available_depth_def demo_asks_def demo_level_def within_limit_def consumed_def dict_sum_def
      whole_increments_def)

lemma demo_match: "paper_match text_sha demo_depth_book demo_order [] 1000 = Inr (demo_record 0)"
  by (simp add: paper_match_def Let_def demo_depth match_status_def demo_record_def demo_fill_def
      whole_increments_def)


lemma demo_book_ok: "book_ok demo_depth_book"
  by (rule set_book_ok[OF demo_book_set]) simp

definition demo_artifacts :: "artifact_row list" where
  "demo_artifacts =
     [\<lparr>ar_tenant_id = ''t'', ar_kind = ''paper_account'', ar_entity_id = ''acc'',
       ar_payload = AJson (JObj [(''account_id'', JStr ''acc'')]),
       ar_sha256 = content_hash text_sha (JObj [(''account_id'', JStr ''acc'')]), ar_created_ns = 1000\<rparr>,
      \<lparr>ar_tenant_id = ''t'', ar_kind = ''paper_book'', ar_entity_id = demo_book_hash,
       ar_payload = AJson (paper_book_json demo_depth_book), ar_sha256 = content_hash text_sha (paper_book_json demo_depth_book),
       ar_created_ns = 1000\<rparr>,
      result_artifact text_sha ''t'' demo_order (demo_record 1) 1000]"

definition demo_paper_db :: db where
  "demo_paper_db = empty_db\<lparr>artifacts := demo_artifacts\<rparr>"

definition demo_reply :: submit_result where
  "demo_reply = \<lparr>sr_status = accepted, sr_identity = paper_identity text_sha demo_order, sr_received_at_ns = 1000,
     sr_reason = Some ''paper_depth_only''\<rparr>"

lemma demo_record_sel [simp]:
  "pr_intent_hash (demo_record n) = content_hash text_sha (intent_json demo_order)"
  "pr_intent (demo_record n) = demo_order" "pr_account_sequence (demo_record n) = n"
  "pr_book_hash (demo_record n) = demo_book_hash" "(demo_record n)\<lparr>pr_account_sequence := m\<rparr> = demo_record m"
  "os_identity (pr_snapshot (demo_record n)) = paper_identity text_sha demo_order"
  "os_status (pr_snapshot (demo_record n)) = FILLED" "pr_submit (demo_record n) = demo_reply"
  by (simp_all add: demo_record_def demo_reply_def)

lemma demo_submit:
  "paper_submit_tx text_sha ''t'' (Some demo_depth_book) demo_order 1000 empty_db = Inr (demo_reply, demo_paper_db)"
  by (simp add: paper_submit_tx_def paper_lookup_def first_where_def artifact_key_def empty_db_def lock_artifact_def
      insert_once_def artifact_clash_def Let_def store_match_def paper_records_def select_where_def result_row_def
      demo_match account_sequence_def insert_row_def submitted_reply_def demo_paper_db_def demo_artifacts_def
      result_artifact_def)

lemma demo_paper_reachable: "(paper_step text_sha ''t'' demo_depth_book)\<^sup>*\<^sup>* empty_db demo_paper_db"
  by (rule r_into_rtranclp, rule submitted[OF demo_submit]) (simp_all add: demo_book_ok)

theorem paper_fills_honest_witness:
  "(\<Sum>f\<leftarrow>pr_fills (demo_record 0). pl_quantity f) = os_filled_quantity (pr_snapshot (demo_record 0)) \<and>
   list_all (\<lambda>f. within_limit demo_order (pl_price f)) (pr_fills (demo_record 0))"
  using paper_fills_honest[OF demo_match demo_book_ok] by (auto simp: list_all_iff)

theorem fill_or_kill_all_or_nothing_witness: "os_filled_quantity (pr_snapshot (demo_record 0)) = 1 / 10"
proof -
  have "\<not> off_grid (oi_quantity demo_order) (is_quantity_increment (pb_instrument demo_depth_book))"
    by (simp add: off_grid_def)
  from fill_or_kill_all_or_nothing[OF demo_match demo_book_ok _ _ this] show ?thesis
    by (simp add: demo_record_def)
qed

theorem depth_never_sold_twice_witness:
  "(\<Sum>r\<leftarrow>book_records ''t'' demo_artifacts. if same_side demo_book_hash buy r then filled_at 101 r else 0) \<le> 1 / 20"
proof -
  have "demo_level 101 ''101'' (1 / 20) ''0.05'' \<in> set (book_side_of demo_depth_book buy)"
    by (simp add: book_side_of_def demo_asks_def)
  from depth_never_sold_twice[OF demo_book_set _ demo_paper_reachable this] show ?thesis
    by (simp add: demo_paper_db_def demo_level_def cong: if_cong)
qed

theorem paper_submit_idempotent_witness:
  "paper_submit_tx text_sha ''t'' None demo_order 2000 demo_paper_db = Inr (demo_reply, demo_paper_db)"
  by (rule paper_submit_idempotent[OF demo_submit])

definition demo_cursor :: "string option \<Rightarrow> reconcile_cursor" where
  "demo_cursor c = \<lparr>rc_venue = ''sim'', rc_account_id = ''acc'', rc_cursor = c\<rparr>"

lemma demo_log: "venue_log ''t'' (demo_cursor c) demo_paper_db = [demo_record 1]"
  by (simp add: venue_log_def account_log_def book_records_def List.map_filter_simps demo_paper_db_def demo_artifacts_def
      result_row_def paper_of_def result_artifact_def demo_cursor_def)

lemma demo_cursor_sel [simp]:
  "rc_venue (demo_cursor c) = ''sim''" "rc_account_id (demo_cursor c) = ''acc''" "rc_cursor (demo_cursor c) = c"
  by (simp_all add: demo_cursor_def)

lemma demo_offset: "cursor_offset (demo_cursor None) = Inr 0"
proof -
  have "int_of_text ''0'' = Some 0" by code_simp
  then show ?thesis by (simp add: cursor_offset_def)
qed

lemma demo_next_offset: "cursor_offset (demo_cursor (Some (int_text 1))) = Inr 1"
proof -
  have "int_text 1 \<noteq> []" by (simp add: int_text_def whole_text_def nat_text_nonempty)
  then show ?thesis using int_of_text_int_text[of 1] by (simp add: cursor_offset_def)
qed

lemmas demo_reconcile_simps = paper_reconcile_def paper_page_def select_where_def demo_paper_db_def demo_artifacts_def
  result_row_def for_account_def for_venue_def result_artifact_def paper_of_def verified_payload_def
  paper_query_def paper_lookup_def first_where_def artifact_key_def paper_identity_check_def Let_def

lemma demo_reconciled:
  "\<exists>snaps. paper_reconcile text_sha ''t'' (demo_cursor None) 2000 demo_paper_db =
     Inr (batch_of (demo_cursor None) 0 True [demo_record 1] snaps)"
  by (simp add: demo_reconcile_simps demo_offset paper_identity_def) blast

lemma demo_read_on:
  "paper_reconcile text_sha ''t'' (demo_cursor (Some (int_text 1))) 3000 demo_paper_db =
     Inr (batch_of (demo_cursor (Some (int_text 1))) 1 True [] [])"
  by (simp add: demo_reconcile_simps demo_next_offset)

theorem paper_reconcile_reads_on_witness:
  "\<exists>batch later. paper_reconcile text_sha ''t'' (demo_cursor None) 2000 demo_paper_db = Inr batch \<and>
     paper_reconcile text_sha ''t'' (bt_next_cursor batch) 3000 demo_paper_db = Inr later \<and>
     bt_fills batch @ bt_fills later = map paper_fill_json [demo_fill 0 101, demo_fill 1 102]"
proof -
  obtain snaps where one: "paper_reconcile text_sha ''t'' (demo_cursor None) 2000 demo_paper_db =
      Inr (batch_of (demo_cursor None) 0 True [demo_record 1] snaps)" (is "_ = Inr ?batch")
    using demo_reconciled by blast
  have onward: "bt_next_cursor ?batch = demo_cursor (Some (int_text 1))"
    by (simp add: batch_of_def demo_cursor_def)
  have two: "paper_reconcile text_sha ''t'' (bt_next_cursor ?batch) 3000 demo_paper_db =
      Inr (batch_of (demo_cursor (Some (int_text 1))) 1 True [] [])"
    unfolding onward by (rule demo_read_on)
  have "pr_fills (demo_record 1) = [demo_fill 0 101, demo_fill 1 102]" by (simp add: demo_record_def)
  moreover have "0 < length (bt_orders ?batch) + 200" by simp
  ultimately have "bt_fills ?batch @ bt_fills (batch_of (demo_cursor (Some (int_text 1))) 1 True [] []) =
      map paper_fill_json [demo_fill 0 101, demo_fill 1 102]"
    using paper_reconcile_reads_on[OF demo_paper_reachable rtranclp.rtrancl_refl demo_offset one two]
    by (simp add: demo_log)
  then show ?thesis using one two by blast
qed

end
