(* ===== verification/Venues.thy ===== *)
theory Venues
  imports OMS_Props Paper
begin

text \<open>
  Whole calls of the order management system against a venue: submission, cancellation, query and
  reconciliation (\<open>src/qt/execution/oms.py\<close>) are sequences of its transactions, with the venue's own
  work and other workers between them.  The locale states what this takes of an adapter; the paper and
  the shadow adapter provide it.
\<close>

section \<open>Calls made of steps\<close>

definition safe_call :: "hasher \<Rightarrow> oms_config \<Rightarrow> 'a call \<Rightarrow> bool" where
  "safe_call sha cf f \<longleftrightarrow> (\<forall>d. oms_inv d \<longrightarrow> (oms_step sha cf)\<^sup>*\<^sup>* d (snd (f d)))"

named_theorems safe_intros "calls that are sequences of steps"

lemma safe_callI: "(\<And>d. oms_inv d \<Longrightarrow> (oms_step sha cf)\<^sup>*\<^sup>* d (snd (f d))) \<Longrightarrow> safe_call sha cf f"
  by (simp add: safe_call_def)

lemma safe_return [safe_intros]: "safe_call sha cf (return_call x)"
  by (simp add: safe_call_def return_call_def)

lemma safe_raise [safe_intros]: "safe_call sha cf (raise_call e)"
  by (simp add: safe_call_def raise_call_def)

lemma safe_read [safe_intros]: "safe_call sha cf (\<lambda>d. (f d, d))"
  by (simp add: safe_call_def)

lemma safe_get_order [safe_intros]: "safe_call sha cf (get_order sha' tenant oid)"
  by (simp add: safe_call_def get_order_def)

lemma safe_steps: "safe_call sha cf f \<Longrightarrow> oms_inv d \<Longrightarrow> f d = (r, d') \<Longrightarrow> (oms_step sha cf)\<^sup>*\<^sup>* d d' \<and> oms_inv d'"
  unfolding safe_call_def using oms.inv_steps by (metis snd_conv)

lemma safe_bind [safe_intros]:
  assumes "safe_call sha cf m" and "\<And>x. safe_call sha cf (f x)"
  shows "safe_call sha cf (call_bind m f)"
proof (rule safe_callI)
  fix d assume inv: "oms_inv d"
  obtain r d1 where m: "m d = (r, d1)" by fastforce
  note one = safe_steps[OF assms(1) inv m]
  show "(oms_step sha cf)\<^sup>*\<^sup>* d (snd (call_bind m f d))"
  proof (cases r)
    case (Inl e)
    then show ?thesis using one m by (simp add: call_bind_def)
  next
    case (Inr x)
    then have "(oms_step sha cf)\<^sup>*\<^sup>* d1 (snd (call_bind m f d))"
      using one m assms(2)[of x] by (simp add: call_bind_def safe_call_def)
    then show ?thesis using one by (meson rtranclp_trans)
  qed
qed

lemma safe_transaction:
  assumes "\<And>d x d'. f d = Inr (x, d') \<Longrightarrow> oms_step sha cf d d'"
  shows "safe_call sha cf (transaction f)"
proof (rule safe_callI)
  fix d
  show "(oms_step sha cf)\<^sup>*\<^sup>* d (snd (transaction f d))"
    by (cases rule: transaction_cases[of f d]) (auto intro: assms)
qed

lemmas safe_transactions [safe_intros] =
  safe_transaction[OF step_check] safe_transaction[OF step_stop] safe_transaction[OF step_cancel]
  safe_transaction[OF step_fill] safe_transaction[OF step_snapshot] safe_transaction[OF step_uncertain]
  safe_transaction[OF step_reconciled] safe_transaction[OF step_begin]

lemma safe_if [safe_intros]: "(b \<Longrightarrow> safe_call sha cf f) \<Longrightarrow> (\<not> b \<Longrightarrow> safe_call sha cf g) \<Longrightarrow> safe_call sha cf (if b then f else g)"
  by simp

lemma safe_option [safe_intros]:
  "safe_call sha cf f \<Longrightarrow> (\<And>x. safe_call sha cf (g x)) \<Longrightarrow> safe_call sha cf (case v of None \<Rightarrow> f | Some x \<Rightarrow> g x)"
  by (cases v) simp_all

lemma safe_sum [safe_intros]:
  "(\<And>e. safe_call sha cf (f e)) \<Longrightarrow> (\<And>x. safe_call sha cf (g x)) \<Longrightarrow> safe_call sha cf (case v of Inl e \<Rightarrow> f e | Inr x \<Rightarrow> g x)"
  by (cases v) simp_all

lemma safe_each [safe_intros]: "(\<And>x. safe_call sha cf (f x)) \<Longrightarrow> safe_call sha cf (each_call f xs)"
  by (induction xs) (auto intro: safe_intros)

lemma safe_uncertain [safe_intros]: "safe_call sha cf (uncertain_call sha tenant oid reason expected t)"
  unfolding uncertain_call_def by (intro safe_intros)

lemma safe_transport [safe_intros]: "safe_call sha cf (transport_failure sha tenant oid cancelled expected e t)"
  unfolding transport_failure_def by (intro safe_intros)

lemma safe_stop_and_raise [safe_intros]: "safe_call sha cf (stop_and_raise tenant aid reason t)"
  unfolding stop_and_raise_def by (intro safe_intros)

lemma safe_stop_after_budget [safe_intros]:
  fixes body :: "'a call"
  assumes "safe_call sha cf body"
  shows "safe_call sha cf (stop_after_budget tenant aid t body)"
proof (rule safe_callI)
  fix d assume inv: "oms_inv d"
  obtain r d1 where body: "body d = (r, d1)" by fastforce
  note one = safe_steps[OF assms inv body]
  have stop: "safe_call sha cf (call_bind (transaction (stop_tx tenant aid [m] REDUCE_ONLY None t))
      (\<lambda>_. raise_call (RiskBudgetExceededError m) :: 'a call))" for m
    by (intro safe_intros)
  show "(oms_step sha cf)\<^sup>*\<^sup>* d (snd (stop_after_budget tenant aid t body d))"
  proof (cases "\<exists>m. r = Inl (RiskBudgetExceededError m)")
    case True
    then obtain m where r: "r = Inl (RiskBudgetExceededError m)" by blast
    have "(oms_step sha cf)\<^sup>*\<^sup>* d1 (snd (stop_after_budget tenant aid t body d))"
      using stop[of m] one body r by (simp add: stop_after_budget_def safe_call_def)
    then show ?thesis using one by (meson rtranclp_trans)
  next
    case False
    then show ?thesis using one body by (auto simp: stop_after_budget_def split: sum.splits error.splits)
  qed
qed

text \<open>A continuation that looks at the database first.\<close>

lemma safe_at: "safe_call sha cf f \<Longrightarrow> oms_inv d \<Longrightarrow> (oms_step sha cf)\<^sup>*\<^sup>* d (snd (f d))"
  by (simp add: safe_call_def)

lemma safe_submit_guard [safe_intros]: "safe_call sha cf (submit_guard sha tenant row now_ns t)"
proof (rule safe_callI)
  fix d assume inv: "oms_inv d"
  show "(oms_step sha cf)\<^sup>*\<^sup>* d (snd (submit_guard sha tenant row now_ns t d))"
    unfolding submit_guard_def Let_def
    by (cases "submission_market tenant row d"; cases "parse_market (the (submission_market tenant row d))")
       (simp_all, (rule safe_at[OF _ inv], intro safe_intros)+)
qed

lemma safe_snapshot_call [safe_intros]: "safe_call sha cf (snapshot_call sha tenant s t)"
  unfolding snapshot_call_def by (intro safe_intros)

lemma safe_reconcile_snapshot [safe_intros]: "safe_call sha cf (reconcile_snapshot sha tenant aid venue s t)"
  unfolding reconcile_snapshot_def by (intro safe_intros)

lemma safe_reconcile_fill [safe_intros]: "safe_call sha cf (reconcile_fill sha tenant aid venue item t)"
proof (rule safe_callI)
  fix d assume inv: "oms_inv d"
  have fill: "safe_call sha cf (call_bind (transaction (apply_fill_tx sha tenant oid args t)) (\<lambda>_. return_call ()))"
    for oid args by (intro safe_intros)
  show "(oms_step sha cf)\<^sup>*\<^sup>* d (snd (reconcile_fill sha tenant aid venue item t d))"
    unfolding reconcile_fill_def Let_def
    by (auto split: sum.splits intro: safe_at[OF fill inv])
qed

section \<open>The rows a call carries between its transactions\<close>

lemma row_read_steps: "(oms_step sha cf)\<^sup>*\<^sup>* d d' \<Longrightarrow> oms_inv d \<Longrightarrow> row_read r d \<Longrightarrow> row_read r d'"
proof (induction rule: rtranclp_induct)
  case (step y z)
  then show ?case using row_read_step[of sha cf y z r] oms.inv_steps[of sha cf d y] by blast
qed simp

lemma cancel_begin_effect:
  assumes "keyed d" and "cancel_begin_tx sha tenant oid token t d = Inr (BeginSend row, d')"
  shows "row_read row d'"
proof -
  obtain d1 where r: "fetch_order sha tenant oid d = Inr row"
    and u: "update_order oid (\<lambda>r. r\<lparr>od_status := CANCEL_PENDING, od_updated_ns := t\<rparr>) d = Inr d1"
    and d': "orders d' = orders d1"
    using assms(2) by (auto simp: cancel_begin_tx_def bind_eq_Inr add_event_def split: if_splits)
  note row = fetch_order_row[OF r]
  have "row\<lparr>od_status := CANCEL_PENDING, od_updated_ns := t\<rparr> \<in> set (orders d')"
    using u row d' by (force simp: update_order_def update_where_def raise_if_def split: if_splits)
  moreover have "frozen row (row\<lparr>od_status := CANCEL_PENDING, od_updated_ns := t\<rparr>)" by (simp add: frozen_def)
  ultimately show ?thesis by (auto simp: row_read_def)
qed


section \<open>Any venue that leaves the books alone\<close>

text \<open>
  What a call takes of an adapter: whatever it does, and whatever other workers do while it is
  awaited, is a sequence of steps.
\<close>

lemma call_bind_read: "f d = Inr x \<Longrightarrow> call_bind (\<lambda>d. (f d, d)) g d = g x d"
  by (simp add: call_bind_def)

definition looked_up :: "hasher \<Rightarrow> string \<Rightarrow> int \<Rightarrow> order_snapshot reply \<Rightarrow> order_view call" where
  "looked_up sha tenant t reply d = (case reply of
     Raised e \<Rightarrow> (Inl e, d)
   | Untyped \<Rightarrow> (Inl (ValueError ''adapter_query_result_must_be_typed''), d)
   | Returned s \<Rightarrow> snapshot_call sha tenant s t d)"

text \<open>The snapshot of a query, with its failures caught.\<close>

lemma safe_caught:
  assumes "safe_call sha cf f" and "\<And>e. safe_call sha cf (g e)"
  shows "safe_call sha cf (\<lambda>d. case f d of (Inl e, d3) \<Rightarrow> if b e then (Inl e, d3) else g e d3 | r \<Rightarrow> r)"
proof (rule safe_callI)
  fix d assume inv: "oms_inv d"
  obtain r d3 where f: "f d = (r, d3)" by fastforce
  note one = safe_steps[OF assms(1) inv f]
  have "(oms_step sha cf)\<^sup>*\<^sup>* d3 (snd (g e d3))" for e using one assms(2) by (auto intro: safe_at)
  then show "(oms_step sha cf)\<^sup>*\<^sup>* d (snd (case f d of (Inl e, d3) \<Rightarrow> if b e then (Inl e, d3) else g e d3 | r \<Rightarrow> r))"
    using one f by (auto split: sum.splits intro: rtranclp_trans)
qed

locale venue_adapter =
  fixes ad :: adapter and sha :: hasher and cf :: oms_config
  assumes submit_steps: "ad_submit ad intent d = (r, d') \<Longrightarrow> (oms_step sha cf)\<^sup>*\<^sup>* d d'"
    and cancel_steps: "ad_cancel ad identity d = (c, d') \<Longrightarrow> (oms_step sha cf)\<^sup>*\<^sup>* d d'"
    and query_steps: "ad_query ad identity d = (q, d') \<Longrightarrow> (oms_step sha cf)\<^sup>*\<^sup>* d d'"
    and reconcile_steps: "ad_reconcile ad cursor d = (b, d') \<Longrightarrow> (oms_step sha cf)\<^sup>*\<^sup>* d d'"
begin

lemma ack_steps:
  assumes inv: "oms_inv d" and row: "row_read row d"
  shows "(oms_step sha cf)\<^sup>*\<^sup>* d (snd (call_bind (transaction (submit_ack_tx sha tenant row token answer t))
           (\<lambda>_. get_order sha tenant oid) d))"
  by (cases rule: transaction_cases[of "submit_ack_tx sha tenant row token answer t" d])
     (auto simp: call_bind_def get_order_def intro: step_ack[OF row])

lemma sent_steps:
  assumes inv: "oms_inv d" and row: "row_read row d"
  shows "(oms_step sha cf)\<^sup>*\<^sup>* d (snd (case ad_submit ad intent d of (reply, d3) \<Rightarrow>
     (case checked_reply sr_identity row reply of
        Inl e \<Rightarrow> transport_failure sha tenant oid reason SUBMITTING e t d3
      | Inr answer \<Rightarrow> call_bind (transaction (submit_ack_tx sha tenant row token answer t))
                        (\<lambda>_. get_order sha tenant oid) d3)))"
proof -
  obtain reply d3 where sent: "ad_submit ad intent d = (reply, d3)" by fastforce
  note steps = submit_steps[OF sent]
  note inv3 = oms.inv_steps[OF steps inv] and row3 = row_read_steps[OF steps inv row]
  show ?thesis
    using ack_steps[OF inv3 row3] safe_at[OF safe_transport inv3] steps sent
    by (auto split: sum.splits intro: rtranclp_trans)
qed

lemma safe_submit_inner [safe_intros]:
  "safe_call sha cf (submit_inner sha cf tenant oid ad token now_ns m clk)"
proof (rule safe_callI)
  fix d assume inv: "oms_inv d"
  let ?entry = "submit_begin_tx sha cf tenant oid ad token now_ns m (clk 0)"
  show "(oms_step sha cf)\<^sup>*\<^sup>* d (snd (submit_inner sha cf tenant oid ad token now_ns m clk d))"
  proof (cases rule: transaction_cases[of ?entry d])
    case (rollback e)
    then show ?thesis by (simp add: submit_inner_def call_bind_def)
  next
    case (commit b d1)
    have one: "oms_step sha cf d d1" by (rule step_begin[OF commit(1)])
    note inv1 = oms_inv_step[OF one inv]
    show ?thesis
    proof (cases b)
      case (BeginDone v)
      then show ?thesis using commit one by (auto simp: submit_inner_def call_bind_def return_call_def)
    next
      case (BeginSend row)
      have row: "row_read row d1" using begin_effect[OF oms_invD(1)[OF inv]] commit(1) BeginSend by blast
      let ?check = "submit_recheck_tx sha tenant row token now_ns m (clk 1)"
      have "(oms_step sha cf)\<^sup>*\<^sup>* d1 (snd (submit_inner sha cf tenant oid ad token now_ns m clk d))"
      proof (cases rule: transaction_cases[of ?check d1])
        case (rollback e)
        then show ?thesis using commit(2) BeginSend safe_at[OF safe_transport inv1]
          by (simp add: submit_inner_def call_bind_def Let_def)
      next
        case checked: (commit c d2)
        have two: "oms_step sha cf d1 d2" by (rule step_recheck[OF row checked(1)])
        note inv2 = oms_inv_step[OF two inv1] and row2 = row_read_step[OF two inv1 row]
        have "(oms_step sha cf)\<^sup>*\<^sup>* d2 (snd (submit_inner sha cf tenant oid ad token now_ns m clk d))"
          using commit(2) BeginSend checked(2) sent_steps[OF inv2 row2]
          by (cases c) (simp_all add: submit_inner_def call_bind_def Let_def)
        with two show ?thesis by (rule converse_rtranclp_into_rtranclp)
      qed
      with one show ?thesis by (rule converse_rtranclp_into_rtranclp)
    qed
  qed
qed

lemma safe_submit: "safe_call sha cf (submit sha cf tenant oid ad token now_ns clk)"
  unfolding submit_def Let_def by (intro safe_intros)

lemma safe_cancel: "safe_call sha cf (cancel sha tenant oid ad token clk)"
proof (rule safe_callI)
  fix d assume inv: "oms_inv d"
  show "(oms_step sha cf)\<^sup>*\<^sup>* d (snd (cancel sha tenant oid ad token clk d))"
  proof (cases rule: transaction_cases[of "cancel_begin_tx sha tenant oid token (clk 0)" d])
    case (rollback e)
    then show ?thesis by (simp add: cancel_def call_bind_def)
  next
    case (commit b d1)
    have one: "oms_step sha cf d d1" by (rule step_cancel[OF commit(1)])
    show ?thesis
    proof (cases b)
      case (BeginDone v)
      then show ?thesis using commit one by (auto simp: cancel_def call_bind_def return_call_def)
    next
      case (BeginSend row)
      obtain reply d2 where asked: "ad_cancel ad (order_identity_of row) d1 = (reply, d2)" by fastforce
      have row: "row_read row d1" using cancel_begin_effect[OF oms_invD(1)[OF inv]] commit(1) BeginSend by blast
      note inv1 = oms_inv_step[OF one inv] and two = cancel_steps[OF asked]
      note inv2 = oms.inv_steps[OF two inv1] and row2 = row_read_steps[OF two inv1 row]
      have "(oms_step sha cf)\<^sup>*\<^sup>* d2 (snd (cancel sha tenant oid ad token clk d))"
      proof (cases "checked_reply cr_identity row reply")
        case (Inl e)
        then show ?thesis using commit(2) BeginSend asked safe_at[OF safe_transport inv2]
          by (simp add: cancel_def call_bind_def)
      next
        case (Inr answer)
        then show ?thesis using commit(2) BeginSend asked step_cancelled[OF row2]
          by (cases rule: transaction_cases[of "cancel_ack_tx sha tenant row token answer (clk 1)" d2])
             (auto simp: cancel_def call_bind_def get_order_def)
      qed
      with two have "(oms_step sha cf)\<^sup>*\<^sup>* d1 (snd (cancel sha tenant oid ad token clk d))"
        by (rule rtranclp_trans)
      with one show ?thesis by (rule converse_rtranclp_into_rtranclp)
    qed
  qed
qed

lemma safe_query: "safe_call sha cf (query sha tenant oid ad clk)"
proof (rule safe_callI)
  fix d assume inv: "oms_inv d"
  show "(oms_step sha cf)\<^sup>*\<^sup>* d (snd (query sha tenant oid ad clk d))"
  proof (cases "fetch_order sha tenant oid d")
    case (Inl e)
    then show ?thesis by (simp add: query_def call_bind_def get_order_def)
  next
    case (Inr row)
    obtain reply d2 where asked: "ad_query ad (order_identity_of row) d = (reply, d2)" by fastforce
    note steps = query_steps[OF asked]
    note inv2 = oms.inv_steps[OF steps inv]
    have "safe_call sha cf (looked_up sha tenant (clk 0) reply)"
      unfolding looked_up_def by (cases reply) (simp_all, (intro safe_intros safe_read)+)
    note caught = safe_at[OF safe_caught[OF this, of "\<lambda>e. uncertain_call sha tenant oid (''query:'' @ error_name e) None (clk 1)"
        "\<lambda>e. e = CancelledError", OF safe_uncertain] inv2]
    have "(oms_step sha cf)\<^sup>*\<^sup>* d2 (snd (query sha tenant oid ad clk d))"
      using caught Inr asked by (simp add: query_def call_bind_def get_order_def looked_up_def)
    with steps show ?thesis by (rule rtranclp_trans)
  qed
qed

lemma safe_reconcile: "safe_call sha cf (reconcile sha tenant aid ad venue cursor t)"
proof (rule safe_callI)
  fix d assume inv: "oms_inv d"
  obtain reply d2 where asked: "ad_reconcile ad \<lparr>rc_venue = venue, rc_account_id = aid, rc_cursor = cursor\<rparr> d = (reply, d2)"
    by fastforce
  note steps = reconcile_steps[OF asked]
  note inv2 = oms.inv_steps[OF steps inv]
  show "(oms_step sha cf)\<^sup>*\<^sup>* d (snd (reconcile sha tenant aid ad venue cursor t d))"
  proof (cases "fetch_account tenant aid d")
    case (Inl e)
    then show ?thesis by (simp add: reconcile_def call_bind_def)
  next
    case (Inr a)
    have "(oms_step sha cf)\<^sup>*\<^sup>* d2 (snd (reconcile sha tenant aid ad venue cursor t d))"
    proof (cases reply)
      case (Returned batch)
      show ?thesis
        unfolding reconcile_def call_bind_read[of "fetch_account tenant aid" d, OF Inr] asked Returned prod.case reply.case
        by (intro safe_at[OF _ inv2] safe_intros)
    qed (use Inr asked in \<open>simp_all add: reconcile_def call_bind_def\<close>)
    with steps show ?thesis by (rule rtranclp_trans)
  qed
qed

end

section \<open>The paper and the shadow adapter\<close>

text \<open>What the simulated venues write are artifacts.\<close>

lemma artifact_steps:
  assumes "d' = d\<lparr>artifacts := rows\<rparr>"
  shows "(oms_step sha cf)\<^sup>*\<^sup>* d d'"
  using assms by (auto simp: books_def intro!: r_into_rtranclp step_other)

lemma paper_submit_steps:
  assumes "paper_submit_tx sha' tenant supplied intent t d = Inr (reply, d')"
  shows "(oms_step sha cf)\<^sup>*\<^sup>* d d'"
  using assms by (cases rule: paper_submit_cases) (auto intro: artifact_steps)

lemma paper_cancel_steps:
  assumes "paper_cancel_tx sha' tenant identity t d = Inr (reply, d')"
  shows "(oms_step sha cf)\<^sup>*\<^sup>* d d'"
  using assms
  by (auto simp: paper_cancel_tx_def put_tx_def bind_eq_Inr Let_def raise_if_eq_Inr split: if_splits option.splits prod.splits sum.splits intro: artifact_steps)

interpretation paper: venue_adapter "paper_adapter sha' tenant supplied t" sha cf
proof
  fix intent :: order_intent and d d' r
  assume "ad_submit (paper_adapter sha' tenant supplied t) intent d = (r, d')"
  then show "(oms_step sha cf)\<^sup>*\<^sup>* d d'"
    by (cases rule: transaction_cases[of "paper_submit_tx sha' tenant supplied intent t" d])
       (auto simp: paper_adapter_def dest: paper_submit_steps)
next
  fix identity d d' r
  assume "ad_cancel (paper_adapter sha' tenant supplied t) identity d = (r, d')"
  then show "(oms_step sha cf)\<^sup>*\<^sup>* d d'"
    by (cases rule: transaction_cases[of "paper_cancel_tx sha' tenant identity t" d])
       (auto simp: paper_adapter_def dest: paper_cancel_steps)
qed (simp_all add: paper_adapter_def)

interpretation shadow: venue_adapter "shadow_adapter t" sha cf
  by unfold_locales (simp_all add: shadow_adapter_def)

section \<open>Calls against the paper venue\<close>

text \<open>
  C29: whole calls refine the transactions.  Whatever the arguments and clocks, a submission, a
  cancellation, a query or a reconciliation against the paper venue of any tenant, book and hash takes
  a reachable database to one that the atomic transactions reach as well, so everything proved of
  their histories (the sums of the holds, the explained fills, the balanced ledger) holds between calls,
  also when the venue raises and when the call ends in an error.
\<close>

theorem paper_calls_refine_transactions:
  assumes "(oms_step sha cf)\<^sup>*\<^sup>* empty_db d"
    and "ad = paper_adapter sha' venue_tenant supplied vt"
    and "d' \<in> {snd (submit sha cf tenant oid ad token now_ns clk d), snd (cancel sha tenant oid ad token clk d),
           snd (query sha tenant oid ad clk d), snd (reconcile sha tenant aid ad venue cursor t d)}"
  shows "(oms_step sha cf)\<^sup>*\<^sup>* empty_db d' \<and> holds_match d' \<and> fills_match d' \<and> ledger_balanced d'"
proof -
  have inv: "oms_inv d" by (rule oms.inv_reachable[OF assms(1)])
  note calls = paper.safe_submit[THEN safe_at, OF inv] paper.safe_cancel[THEN safe_at, OF inv]
    paper.safe_query[THEN safe_at, OF inv] paper.safe_reconcile[THEN safe_at, OF inv]
  have "(oms_step sha cf)\<^sup>*\<^sup>* d d'"
    using assms(3) unfolding assms(2) by (elim insertE emptyE) (simp_all add: calls)
  then have "(oms_step sha cf)\<^sup>*\<^sup>* empty_db d'" using assms(1) by (meson rtranclp_trans)
  then show ?thesis using oms.inv_reachable oms_invD by blast
qed

theorem paper_calls_refine_transactions_witness:
  "(oms_step text_sha plain_config)\<^sup>*\<^sup>* empty_db
     (snd (query text_sha ''t'' ''o'' (paper_adapter text_sha ''t'' None 5) (\<lambda>_. 6) (committed opened)))"
  using paper_calls_refine_transactions[OF opened_reachable refl insertI2[OF insertI2[OF insertI1]]] by blast

end
