(* ===== verification/Reading.thy ===== *)
theory Reading
  imports Fixtures
begin

text \<open>
  \<open>Contract.model_validate\<close> on decoded JSON, for the contracts the services read back from the registry:
  instruments, fee schedules, risk budgets, deployment manifests and order intents of
  \<open>src/qt/contracts/models.py\<close>.  Unknown members are refused, members with a default may be missing,
  scalars are strict, and arrays are taken as tuples (\<open>Contract.immutable_arrays\<close>).  A failed validation,
  a \<open>ValueError\<close>, is \<open>None\<close>.  What a contract dumps is read back unchanged.
\<close>

section \<open>Members\<close>

definition field_or :: "(json \<Rightarrow> 'a option) \<Rightarrow> 'a \<Rightarrow> json \<Rightarrow> string \<Rightarrow> 'a option" where
  "field_or f dflt v k = (case jget v k of None \<Rightarrow> Some dflt | Some x \<Rightarrow> f x)"

definition as_opt :: "(json \<Rightarrow> 'a option) \<Rightarrow> json \<Rightarrow> 'a option option" where
  "as_opt f v = (if v = JNull then Some None else map_option Some (f v))"

definition as_obj :: "json \<Rightarrow> (string \<times> json) list option" where
  "as_obj v = (case v of JObj kvs \<Rightarrow> Some kvs | _ \<Rightarrow> None)"

definition as_list :: "(json \<Rightarrow> 'a option) \<Rightarrow> json \<Rightarrow> 'a list option" where
  "as_list f v = (case v of JArr xs \<Rightarrow> those (map f xs) | _ \<Rightarrow> None)"

definition as_literal :: "(string \<times> 'a) list \<Rightarrow> json \<Rightarrow> 'a option" where
  "as_literal table v = Option.bind (as_str v) (map_of table)"

text \<open>\<open>extra="forbid"\<close> and the version literal.\<close>

definition admitted :: "string list \<Rightarrow> json \<Rightarrow> bool" where
  "admitted keys v =
     (case v of
        JObj kvs \<Rightarrow> list_all (\<lambda>(k, _). k \<in> set (''schema_version'' # keys)) kvs \<and>
          (case map_of kvs ''schema_version'' of None \<Rightarrow> True | Some sv \<Rightarrow> sv = JStr ''2.0'')
      | _ \<Rightarrow> False)"

definition checked :: "('a \<Rightarrow> bool) \<Rightarrow> 'a \<Rightarrow> 'a option" where
  "checked p x = (if p x then Some x else None)"

named_theorems reading "reading members back"

lemma those_map_Some: "those (map (\<lambda>x. Some (f x)) xs) = Some (map f xs)"
  by (induction xs) simp_all

lemma as_list_strings [reading]: "as_list as_str (JArr (map JStr xs)) = Some xs"
  using those_map_Some[of "\<lambda>x. x" xs] by (simp add: as_list_def comp_def as_str_def)

lemma as_dec_jdec [reading]: "fits_numeric x \<Longrightarrow> as_dec (jdec x) = Some x"
  by (simp add: as_dec_def parse_decimal_string)

lemma scalars_read_back [reading]:
  "as_str (JStr s) = Some s" "as_int (JInt i) = Some i" "as_bool (JBool b) = Some b" "as_obj (JObj kvs) = Some kvs"
  by (simp_all add: as_str_def as_int_def as_bool_def as_obj_def)

lemma as_opt_jopt [reading]: "as_opt as_int (jopt JInt x) = Some x"
  by (cases x) (simp_all add: as_opt_def jopt_def as_int_def)

lemma as_literal_text [reading]: "as_literal table (JStr s) = map_of table s"
  by (simp add: as_literal_def as_str_def)

lemma field_JObj [reading]: "field f (JObj kvs) k = Option.bind (map_of kvs k) f"
  by (simp add: field_def jget_def)

lemma field_or_JObj [reading]: "field_or f dflt (JObj kvs) k = (case map_of kvs k of None \<Rightarrow> Some dflt | Some x \<Rightarrow> f x)"
  by (simp add: field_or_def jget_def)

lemma admitted_JObj [reading]:
  "admitted keys (JObj kvs) \<longleftrightarrow> list_all (\<lambda>(k, _). k \<in> set (''schema_version'' # keys)) kvs \<and>
     (case map_of kvs ''schema_version'' of None \<Rightarrow> True | Some sv \<Rightarrow> sv = JStr ''2.0'')"
  by (simp add: admitted_def)

lemma checked_Some: "checked p x = Some y \<longleftrightarrow> p x \<and> y = x"
  by (auto simp: checked_def)

text \<open>What a reader gives satisfies the contract's check.\<close>

definition yields :: "('a \<Rightarrow> bool) \<Rightarrow> 'a option \<Rightarrow> bool" where
  "yields p r \<longleftrightarrow> (case r of None \<Rightarrow> True | Some x \<Rightarrow> p x)"

named_theorems yields_intros "readers end in the check of the contract"

lemma yields_None [yields_intros]: "yields p None" and yields_checked [yields_intros]: "yields p (checked p x)"
  by (simp_all add: yields_def checked_def)

lemma yields_bind [yields_intros]: "(\<And>x. yields p (f x)) \<Longrightarrow> yields p (Option.bind m f)"
  by (cases m) (simp_all add: yields_def)

lemma yields_if [yields_intros]: "yields p a \<Longrightarrow> yields p b \<Longrightarrow> yields p (if c then a else b)"
  by simp

lemma yields_Some: "yields p r \<Longrightarrow> r = Some x \<Longrightarrow> p x"
  by (simp add: yields_def)

section \<open>Instruments and fee schedules\<close>

text \<open>The literals of a field, with their text.\<close>

definition instrument_types :: "(string \<times> instrument_type) list" where
  "instrument_types = map (\<lambda>k. (instrument_type_text k, k)) [spot, perpetual, future, prediction]"

definition fee_bases :: "(string \<times> fee_basis) list" where
  "fee_bases = map (\<lambda>k. (fee_basis_text k, k)) [notional, shares, price_curve]"

definition deployment_modes :: "(string \<times> deployment_mode) list" where
  "deployment_modes = map (\<lambda>k. (deployment_mode_text k, k)) [paper, shadow, live_canary]"

definition sides :: "(string \<times> side) list" where
  "sides = map (\<lambda>k. (side_text k, k)) [buy, sell]"

definition times_in_force :: "(string \<times> time_in_force) list" where
  "times_in_force = map (\<lambda>k. (tif_text k, k)) [GTC, IOC, FOK, GTD]"

lemma instrument_type_read_back [reading]: "map_of instrument_types (instrument_type_text k) = Some k"
  by (cases k) (simp_all add: instrument_types_def)

lemma fee_basis_read_back [reading]: "map_of fee_bases (fee_basis_text b) = Some b"
  by (cases b) (simp_all add: fee_bases_def)

lemma deployment_mode_read_back [reading]: "map_of deployment_modes (deployment_mode_text m) = Some m"
  by (cases m) (simp_all add: deployment_modes_def)

lemma side_read_back [reading]: "map_of sides (side_text sd) = Some sd"
  by (cases sd) (simp_all add: sides_def)

lemma tif_read_back [reading]: "map_of times_in_force (tif_text f) = Some f"
  by (cases f) (simp_all add: times_in_force_def)

definition parse_instrument :: "json \<Rightarrow> instrument_spec option" where
  "parse_instrument v =
     (if \<not> admitted [''venue'', ''instrument'', ''base_asset'', ''quote_asset'', ''settlement_asset'',
           ''price_increment'', ''quantity_increment'', ''minimum_quantity'', ''minimum_notional'',
           ''contract_multiplier'', ''instrument_type'', ''trading_sessions'', ''effective_from_ns'',
           ''effective_to_ns'', ''native_identifiers'', ''source''] v then None
      else
        Option.bind (field as_str v ''venue'') (\<lambda>venue.
        Option.bind (field as_str v ''instrument'') (\<lambda>name.
        Option.bind (field as_str v ''base_asset'') (\<lambda>base.
        Option.bind (field as_str v ''quote_asset'') (\<lambda>quote_asset.
        Option.bind (field as_str v ''settlement_asset'') (\<lambda>settlement_asset.
        Option.bind (field as_dec v ''price_increment'') (\<lambda>price_increment.
        Option.bind (field as_dec v ''quantity_increment'') (\<lambda>quantity_increment.
        Option.bind (field as_dec v ''minimum_quantity'') (\<lambda>minimum_quantity.
        Option.bind (field as_dec v ''minimum_notional'') (\<lambda>minimum_notional.
        Option.bind (field_or as_dec 1 v ''contract_multiplier'') (\<lambda>multiplier.
        Option.bind (field_or (as_literal instrument_types) spot v ''instrument_type'') (\<lambda>kind.
        Option.bind (field_or (as_list as_str) [''24x7''] v ''trading_sessions'') (\<lambda>sessions.
        Option.bind (field as_int v ''effective_from_ns'') (\<lambda>effective_from.
        Option.bind (field_or (as_opt as_int) None v ''effective_to_ns'') (\<lambda>effective_to.
        Option.bind (field_or as_obj [] v ''native_identifiers'') (\<lambda>identifiers.
        Option.bind (field as_str v ''source'') (\<lambda>source.
        checked valid_instrument_spec
          \<lparr>is_venue = venue, is_instrument = name, is_base_asset = base, is_quote_asset = quote_asset,
           is_settlement_asset = settlement_asset, is_price_increment = price_increment,
           is_quantity_increment = quantity_increment, is_minimum_quantity = minimum_quantity,
           is_minimum_notional = minimum_notional, is_contract_multiplier = multiplier,
           is_instrument_type = kind, is_trading_sessions = sessions,
           is_effective_from_ns = effective_from, is_effective_to_ns = effective_to,
           is_native_identifiers = identifiers, is_source = source\<rparr>)))))))))))))))))"

lemma parse_instrument_json:
  assumes "valid_instrument_spec i"
  shows "parse_instrument (instrument_json i) = Some i"
proof -
  have "fits_numeric (is_price_increment i)" "fits_numeric (is_quantity_increment i)" "fits_numeric (is_minimum_quantity i)"
    "fits_numeric (is_minimum_notional i)" "fits_numeric (is_contract_multiplier i)"
    using assms by (simp_all add: valid_instrument_spec_def valid_positive_def valid_nonnegative_def)
  then show ?thesis
    using assms by (cases i) (simp add: parse_instrument_def instrument_json_def reading checked_Some)
qed

lemma parse_instrument_valid: "parse_instrument v = Some i \<Longrightarrow> valid_instrument_spec i"
  by (rule yields_Some[where r = "parse_instrument v"]) (unfold parse_instrument_def, intro yields_intros)

definition parse_fees :: "json \<Rightarrow> fee_schedule option" where
  "parse_fees v =
     (if \<not> admitted [''venue'', ''account_tier'', ''maker_rate'', ''taker_rate'', ''fee_basis'', ''fee_asset'',
           ''funding_rules'', ''fee_rules'', ''effective_from_ns'', ''effective_to_ns'', ''source'',
           ''source_hash''] v then None
      else
        Option.bind (field as_str v ''venue'') (\<lambda>venue.
        Option.bind (field as_str v ''account_tier'') (\<lambda>tier.
        Option.bind (field as_dec v ''maker_rate'') (\<lambda>maker.
        Option.bind (field as_dec v ''taker_rate'') (\<lambda>taker.
        Option.bind (field (as_literal fee_bases) v ''fee_basis'') (\<lambda>basis.
        Option.bind (field as_str v ''fee_asset'') (\<lambda>asset.
        Option.bind (field_or as_obj [] v ''funding_rules'') (\<lambda>funding.
        Option.bind (field_or as_obj [] v ''fee_rules'') (\<lambda>rules.
        Option.bind (field as_int v ''effective_from_ns'') (\<lambda>effective_from.
        Option.bind (field_or (as_opt as_int) None v ''effective_to_ns'') (\<lambda>effective_to.
        Option.bind (field as_str v ''source'') (\<lambda>source.
        Option.bind (field as_str v ''source_hash'') (\<lambda>source_hash.
        checked valid_fee_schedule
          \<lparr>fs_venue = venue, fs_account_tier = tier, fs_maker_rate = maker, fs_taker_rate = taker,
           fs_fee_basis = basis, fs_fee_asset = asset, fs_funding_rules = funding, fs_fee_rules = rules,
           fs_effective_from_ns = effective_from, fs_effective_to_ns = effective_to, fs_source = source,
           fs_source_hash = source_hash\<rparr>)))))))))))))"

lemma parse_fees_json:
  assumes "valid_fee_schedule f"
  shows "parse_fees (fees_json f) = Some f"
proof -
  have "fits_numeric (fs_maker_rate f)" "fits_numeric (fs_taker_rate f)"
    using assms by (simp_all add: valid_fee_schedule_def)
  then show ?thesis using assms by (cases f) (simp add: parse_fees_def fees_json_def reading checked_Some)
qed

lemma parse_fees_valid: "parse_fees v = Some f \<Longrightarrow> valid_fee_schedule f"
  by (rule yields_Some[where r = "parse_fees v"]) (unfold parse_fees_def, intro yields_intros)

section \<open>Budgets, deployments and intents\<close>

definition parse_budget :: "json \<Rightarrow> risk_budget option" where
  "parse_budget v =
     (if \<not> admitted [''capital'', ''currency'', ''maximum_position_fraction'', ''maximum_order_fraction'',
           ''planned_loss_fraction'', ''maximum_drawdown_fraction'', ''maximum_daily_loss_fraction'',
           ''maximum_leverage''] v then None
      else
        Option.bind (field as_dec v ''capital'') (\<lambda>capital.
        Option.bind (field as_str v ''currency'') (\<lambda>currency.
        Option.bind (field_or as_dec (30 / 100) v ''maximum_position_fraction'') (\<lambda>position.
        Option.bind (field_or as_dec (2 / 100) v ''maximum_order_fraction'') (\<lambda>order.
        Option.bind (field_or as_dec (1 / 1000) v ''planned_loss_fraction'') (\<lambda>planned.
        Option.bind (field_or as_dec (3 / 100) v ''maximum_drawdown_fraction'') (\<lambda>drawdown.
        Option.bind (field_or as_dec (5 / 1000) v ''maximum_daily_loss_fraction'') (\<lambda>daily.
        Option.bind (field_or as_dec 1 v ''maximum_leverage'') (\<lambda>leverage.
        checked valid_risk_budget
          \<lparr>rb_capital = capital, rb_currency = currency, rb_maximum_position_fraction = position,
           rb_maximum_order_fraction = order, rb_planned_loss_fraction = planned,
           rb_maximum_drawdown_fraction = drawdown, rb_maximum_daily_loss_fraction = daily,
           rb_maximum_leverage = leverage\<rparr>)))))))))"

lemma parse_budget_json:
  assumes "valid_risk_budget b"
  shows "parse_budget (risk_budget_json b) = Some b"
proof -
  have "fits_numeric (rb_capital b)" "fits_numeric (rb_maximum_position_fraction b)"
    "fits_numeric (rb_maximum_order_fraction b)" "fits_numeric (rb_planned_loss_fraction b)"
    "fits_numeric (rb_maximum_drawdown_fraction b)" "fits_numeric (rb_maximum_daily_loss_fraction b)"
    "fits_numeric (rb_maximum_leverage b)"
    using assms by (simp_all add: valid_risk_budget_def valid_positive_def valid_probability_def)
  then show ?thesis using assms by (cases b) (simp add: parse_budget_def risk_budget_json_def reading checked_Some)
qed

lemma parse_budget_valid: "parse_budget v = Some b \<Longrightarrow> valid_risk_budget b"
  by (rule yields_Some[where r = "parse_budget v"]) (unfold parse_budget_def, intro yields_intros)

definition parse_manifest :: "json \<Rightarrow> deployment_manifest option" where
  "parse_manifest v =
     (if \<not> admitted [''deployment_id'', ''strategy_hash'', ''provider'', ''model_id'', ''prompt_hash'',
           ''tools_hash'', ''risk_policy_hash'', ''fee_schedule_hashes'', ''validation_report_hash'', ''venue'',
           ''account_id'', ''mode'', ''risk_budget'', ''valid_from_ns'', ''valid_until_ns'', ''signature''] v then None
      else
        Option.bind (field as_str v ''deployment_id'') (\<lambda>identity.
        Option.bind (field as_str v ''strategy_hash'') (\<lambda>strategy.
        Option.bind (field as_str v ''provider'') (\<lambda>provider.
        Option.bind (field as_str v ''model_id'') (\<lambda>model.
        Option.bind (field as_str v ''prompt_hash'') (\<lambda>prompt.
        Option.bind (field as_str v ''tools_hash'') (\<lambda>tools.
        Option.bind (field as_str v ''risk_policy_hash'') (\<lambda>policy.
        Option.bind (field (as_list as_str) v ''fee_schedule_hashes'') (\<lambda>fees.
        Option.bind (field as_str v ''validation_report_hash'') (\<lambda>report.
        Option.bind (field as_str v ''venue'') (\<lambda>venue.
        Option.bind (field as_str v ''account_id'') (\<lambda>account.
        Option.bind (field (as_literal deployment_modes) v ''mode'') (\<lambda>mode.
        Option.bind (field parse_budget v ''risk_budget'') (\<lambda>budget.
        Option.bind (field as_int v ''valid_from_ns'') (\<lambda>valid_from.
        Option.bind (field as_int v ''valid_until_ns'') (\<lambda>valid_until.
        Option.bind (field as_str v ''signature'') (\<lambda>signature.
        checked valid_deployment_manifest
          \<lparr>dm_deployment_id = identity, dm_strategy_hash = strategy, dm_provider = provider,
           dm_model_id = model, dm_prompt_hash = prompt, dm_tools_hash = tools,
           dm_risk_policy_hash = policy, dm_fee_schedule_hashes = fees,
           dm_validation_report_hash = report, dm_venue = venue, dm_account_id = account,
           dm_mode = mode, dm_risk_budget = budget, dm_valid_from_ns = valid_from,
           dm_valid_until_ns = valid_until, dm_signature = signature\<rparr>)))))))))))))))))"

lemma parse_manifest_json:
  assumes "valid_deployment_manifest m"
  shows "parse_manifest (manifest_json m) = Some m"
proof -
  have "valid_risk_budget (dm_risk_budget m)" using assms by (simp add: valid_deployment_manifest_def)
  then show ?thesis
    using assms by (cases m) (simp add: parse_manifest_def manifest_json_def unsigned_fields_def reading
        parse_budget_json checked_Some)
qed

lemma parse_manifest_valid: "parse_manifest v = Some m \<Longrightarrow> valid_deployment_manifest m"
  by (rule yields_Some[where r = "parse_manifest v"]) (unfold parse_manifest_def, intro yields_intros)

definition parse_intent :: "json \<Rightarrow> order_intent option" where
  "parse_intent v =
     (if \<not> admitted [''intent_id'', ''account_id'', ''deployment_id'', ''signal_id'', ''leg_no'', ''venue'',
           ''instrument'', ''side'', ''quantity'', ''limit_price'', ''time_in_force'', ''strategy_hash'',
           ''policy_hash'', ''fee_schedule_hash'', ''instrument_spec_hash'', ''risk_reservation_id'',
           ''created_at_ns'', ''valid_until_ns'', ''reduce_only''] v then None
      else
        Option.bind (field as_str v ''intent_id'') (\<lambda>identity.
        Option.bind (field as_str v ''account_id'') (\<lambda>account.
        Option.bind (field as_str v ''deployment_id'') (\<lambda>deployment.
        Option.bind (field as_str v ''signal_id'') (\<lambda>signal.
        Option.bind (field_or as_int 0 v ''leg_no'') (\<lambda>leg.
        Option.bind (field as_str v ''venue'') (\<lambda>venue.
        Option.bind (field as_str v ''instrument'') (\<lambda>name.
        Option.bind (field (as_literal sides) v ''side'') (\<lambda>sd.
        Option.bind (field as_dec v ''quantity'') (\<lambda>quantity.
        Option.bind (field as_dec v ''limit_price'') (\<lambda>price.
        Option.bind (field (as_literal times_in_force) v ''time_in_force'') (\<lambda>tif.
        Option.bind (field as_str v ''strategy_hash'') (\<lambda>strategy.
        Option.bind (field as_str v ''policy_hash'') (\<lambda>policy.
        Option.bind (field as_str v ''fee_schedule_hash'') (\<lambda>fees.
        Option.bind (field as_str v ''instrument_spec_hash'') (\<lambda>spec.
        Option.bind (field as_str v ''risk_reservation_id'') (\<lambda>reservation.
        Option.bind (field as_int v ''created_at_ns'') (\<lambda>created.
        Option.bind (field as_int v ''valid_until_ns'') (\<lambda>valid_until.
        Option.bind (field_or as_bool False v ''reduce_only'') (\<lambda>reduce_only.
        checked valid_order_intent
          \<lparr>oi_intent_id = identity, oi_account_id = account, oi_deployment_id = deployment,
           oi_signal_id = signal, oi_leg_no = leg, oi_venue = venue, oi_instrument = name, oi_side = sd,
           oi_quantity = quantity, oi_limit_price = price, oi_time_in_force = tif,
           oi_strategy_hash = strategy, oi_policy_hash = policy, oi_fee_schedule_hash = fees,
           oi_instrument_spec_hash = spec, oi_risk_reservation_id = reservation,
           oi_created_at_ns = created, oi_valid_until_ns = valid_until,
           oi_reduce_only = reduce_only\<rparr>))))))))))))))))))))"

lemma parse_intent_json:
  assumes "valid_order_intent i"
  shows "parse_intent (intent_json i) = Some i"
proof -
  have "fits_numeric (oi_quantity i)" "fits_numeric (oi_limit_price i)"
    using assms by (simp_all add: valid_order_intent_def valid_positive_def)
  then show ?thesis using assms by (cases i) (simp add: parse_intent_def intent_json_def reading checked_Some)
qed

lemma parse_intent_valid: "parse_intent v = Some i \<Longrightarrow> valid_order_intent i"
  by (rule yields_Some[where r = "parse_intent v"]) (unfold parse_intent_def, intro yields_intros)

section \<open>Strategies and strategy states\<close>

definition parse_strategy :: "json \<Rightarrow> strategy_artifact option" where
  "parse_strategy v =
     (if \<not> admitted [''strategy_id'', ''version'', ''code_hash'', ''parameters'', ''feature_dependencies'',
           ''instruments'', ''signal_interval_ns'', ''signal_ttl_ns'', ''exit_rules'', ''risk_budget'',
           ''engine_compatibility''] v then None
      else
        Option.bind (field as_str v ''strategy_id'') (\<lambda>identity.
        Option.bind (field as_str v ''version'') (\<lambda>version.
        Option.bind (field as_str v ''code_hash'') (\<lambda>code.
        Option.bind (field_or as_obj [] v ''parameters'') (\<lambda>parameters.
        Option.bind (field (as_list as_str) v ''feature_dependencies'') (\<lambda>features.
        Option.bind (field (as_list as_str) v ''instruments'') (\<lambda>instruments.
        Option.bind (field as_int v ''signal_interval_ns'') (\<lambda>interval.
        Option.bind (field as_int v ''signal_ttl_ns'') (\<lambda>ttl.
        Option.bind (field as_obj v ''exit_rules'') (\<lambda>exits.
        Option.bind (field parse_budget v ''risk_budget'') (\<lambda>budget.
        Option.bind (field (as_list as_str) v ''engine_compatibility'') (\<lambda>engines.
        checked valid_strategy_artifact
          \<lparr>sa_strategy_id = identity, sa_version = version, sa_code_hash = code, sa_parameters = parameters,
           sa_feature_dependencies = features, sa_instruments = instruments, sa_signal_interval_ns = interval,
           sa_signal_ttl_ns = ttl, sa_exit_rules = exits, sa_risk_budget = budget,
           sa_engine_compatibility = engines\<rparr>))))))))))))"

lemma parse_strategy_valid: "parse_strategy v = Some a \<Longrightarrow> valid_strategy_artifact a"
  by (rule yields_Some[where r = "parse_strategy v"]) (unfold parse_strategy_def, intro yields_intros)

text \<open>\<open>StrategyState\<close>: its values.\<close>

definition parse_strategy_state :: "json \<Rightarrow> (string \<times> json) list option" where
  "parse_strategy_state v = (if admitted [''values''] v then field_or as_obj [] v ''values'' else None)"

definition strategy_state_json :: "(string \<times> json) list \<Rightarrow> json" where
  "strategy_state_json values = JObj [(''schema_version'', JStr ''2.0''), (''values'', JObj values)]"

lemma parse_strategy_state_json: "parse_strategy_state (strategy_state_json values) = Some values"
  by (simp add: parse_strategy_state_def strategy_state_json_def reading)

section \<open>Dumps of events and signals\<close>

fun event_type_text :: "market_event_type \<Rightarrow> string" where
  "event_type_text E_snapshot = ''snapshot''" | "event_type_text E_delta = ''delta''"
| "event_type_text E_trade = ''trade''" | "event_type_text E_quote = ''quote''"
| "event_type_text E_bar = ''bar''" | "event_type_text E_funding = ''funding''"
| "event_type_text E_liquidation = ''liquidation''" | "event_type_text E_news = ''news''"
| "event_type_text E_onchain = ''onchain''" | "event_type_text E_instrument = ''instrument''"
| "event_type_text E_heartbeat = ''heartbeat''"

definition event_json :: "market_event \<Rightarrow> json" where
  "event_json e = JObj
     [(''schema_version'', JStr ''2.0''), (''venue'', JStr (me_venue e)), (''instrument'', JStr (me_instrument e)),
      (''event_type'', JStr (event_type_text (me_event_type e))), (''exchange_ts_ns'', JInt (me_exchange_ts_ns e)),
      (''received_ts_ns'', JInt (me_received_ts_ns e)), (''timestamp_precision'', JStr ''ns''),
      (''sequence'', jopt JInt (me_sequence e)), (''payload'', JObj (me_payload e)),
      (''quality_flags'', JArr (map JStr (me_quality_flags e))),
      (''published_at_ns'', jopt JInt (me_published_at_ns e)), (''available_at_ns'', jopt JInt (me_available_at_ns e)),
      (''revision_id'', JStr (me_revision_id e)), (''source_hash'', jopt JStr (me_source_hash e))]"

definition signal_json :: "signal_intent \<Rightarrow> json" where
  "signal_json s = JObj
     [(''schema_version'', JStr ''2.0''), (''signal_id'', JStr (si_signal_id s)),
      (''deployment_id'', JStr (si_deployment_id s)), (''event_id'', JStr (si_event_id s)),
      (''instrument'', JStr (si_instrument s)), (''target_position'', jdec (si_target_position s)),
      (''produced_at_ns'', JInt (si_produced_at_ns s)), (''valid_until_ns'', JInt (si_valid_until_ns s)),
      (''reason_codes'', JArr (map JStr (si_reason_codes s)))]"

section \<open>The wire is faithful\<close>

text \<open>
  C30: what the services store of a contract is what they read back: for every valid instrument, fee
  schedule, deployment manifest and order intent, validating the dumped JSON gives the same value, to
  the last digit of every decimal.
\<close>

theorem contracts_read_back:
  assumes "valid_instrument_spec i" and "valid_fee_schedule f" and "valid_deployment_manifest m" and "valid_order_intent o1"
  shows "parse_instrument (instrument_json i) = Some i \<and> parse_fees (fees_json f) = Some f \<and>
    parse_manifest (manifest_json m) = Some m \<and> parse_intent (intent_json o1) = Some o1"
  using assms by (simp add: parse_instrument_json parse_fees_json parse_manifest_json parse_intent_json)

definition wire_manifest :: deployment_manifest where
  "wire_manifest = (canary paper)\<lparr>dm_fee_schedule_hashes := [hash_of 7]\<rparr>"

definition wire_intent :: order_intent where
  "wire_intent = (intent_of ''o'' buy (1 / 1000) 100)\<lparr>oi_fee_schedule_hash := hash_of 7, oi_instrument_spec_hash := hash_of 8\<rparr>"

lemma wire_valid:
  "valid_instrument_spec btc" "valid_fee_schedule fees0" "valid_deployment_manifest wire_manifest" "valid_order_intent wire_intent"
  by code_simp+

theorem contracts_read_back_witness:
  "parse_instrument (instrument_json btc) = Some btc \<and> parse_intent (intent_json wire_intent) = Some wire_intent"
  using contracts_read_back[OF wire_valid] by blast

end
