(* ===== verification/Sizing.thy ===== *)
theory Sizing
  imports OMS Fixtures
begin

text \<open>
  From signals to sized orders: \<open>TradingRuntime._position\<close> and \<open>_intents\<close> of
  \<open>src/qt/execution/runtime.py\<close>.  The actor's fields that never change are the record \<open>actor\<close>; the
  lease token it holds is an argument.  \<open>clk n\<close> are the readings of the actor's clock.  Quotients are
  rounded to the 80 digits of the decimal context; sums and products of NUMERIC(38,18) values are
  exact there.  An order that fails \<open>OrderIntent\<close>'s own validation is a \<open>ValueError\<close> whose message,
  pydantic's report, is abbreviated to the contract's name.
\<close>

section \<open>The actor and its position\<close>

record actor =
  ra_tenant :: string
  ra_deployment_id :: string
  ra_instrument :: instrument_spec
  ra_fees :: fee_schedule
  ra_owner :: string
  ra_maximum_data_age_ns :: int

text \<open>\<open>_lease\<close>\<close>

definition runtime_lease ::
  "actor \<Rightarrow> string option \<Rightarrow> deployment_manifest \<Rightarrow> int \<Rightarrow> db \<Rightarrow> account_row result" where
  "runtime_lease ra token m t d =
     (case first_where (\<lambda>a. ac_tenant_id a = ra_tenant ra \<and> ac_account_id a = dm_account_id m) (accounts d) of
        None \<Rightarrow> Inl (ConflictError ''runtime_execution_lease_lost'')
      | Some a \<Rightarrow>
          bind (raise_if (ac_lease_owner a \<noteq> Some (ra_owner ra) \<or> ac_lease_token a \<noteq> token \<or>
                          ac_lease_until_ns a \<le> t)
                 (ConflictError ''runtime_execution_lease_lost'')) (\<lambda>_. Inr a))"

record base_position =
  bp_available :: rat
  bp_projected :: rat
  bp_pending :: bool

definition remaining_quantity :: "order_row \<Rightarrow> rat" where
  "remaining_quantity r = od_quantity r - od_filled_quantity r"

definition base_position ::
  "actor \<Rightarrow> string option \<Rightarrow> deployment_manifest \<Rightarrow> int \<Rightarrow> db \<Rightarrow> base_position result" where
  "base_position ra token m t d =
     bind (runtime_lease ra token m t d) (\<lambda>_.
     let aid = dm_account_id m;
         held = (\<Sum>e\<leftarrow>select_where (\<lambda>e. le_account_id e = aid \<and> le_asset e = is_base_asset (ra_instrument ra) \<and>
                   le_bucket e = ''wallet'') (ledger_entries d). le_amount e);
         pending = select_where (\<lambda>r. od_account_id r = aid \<and> \<not> terminal (od_status r)) (orders d) in
     bind (raise_if (list_ex (\<lambda>r. uncertain (od_status r)) pending)
             (ValueError ''account_requires_reconciliation'')) (\<lambda>_.
     bind (raise_if (list_ex (\<lambda>r. od_instrument r \<noteq> is_instrument (ra_instrument ra)) pending)
             (ValueError ''runtime_multiinstrument_account_is_not_supported'')) (\<lambda>_.
     Inr \<lparr>bp_available = held - (\<Sum>r\<leftarrow>pending. if od_side r = sell then od_reserved_base r else 0),
          bp_projected = held + (\<Sum>r\<leftarrow>pending. if od_side r = buy then remaining_quantity r else - remaining_quantity r),
          bp_pending = (pending \<noteq> [])\<rparr>)))"

section \<open>Sizing one signal\<close>

definition signal_check ::
  "actor \<Rightarrow> market_event \<Rightarrow> int \<Rightarrow> int \<Rightarrow> signal_intent \<Rightarrow> unit result" where
  "signal_check ra event t t' s =
     bind (raise_if (si_deployment_id s \<noteq> ra_deployment_id ra \<or> si_instrument s \<noteq> is_instrument (ra_instrument ra) \<or>
                     si_produced_at_ns s > t \<or> si_valid_until_ns s \<le> t' \<or>
                     si_produced_at_ns s < me_received_ts_ns event)
             (ValueError ''strategy_signal_identity_or_time_invalid'')) (\<lambda>_.
     raise_if (si_target_position s < 0) (ValueError ''spot_shorting_is_not_supported''))"

text \<open>A sale is limited to the inventory that is not reserved, less the fee when it is charged in the base asset.\<close>

definition wanted_quantity :: "actor \<Rightarrow> side \<Rightarrow> rat \<Rightarrow> rat \<Rightarrow> rat" where
  "wanted_quantity ra sd delta available =
     (if sd = sell
      then let q = min \<bar>delta\<bar> available in
           if fs_fee_asset (ra_fees ra) = is_base_asset (ra_instrument ra)
           then prec80 (q / (1 + fee_rate (ra_fees ra))) else q
      else \<bar>delta\<bar>)"

definition grid_quantity :: "instrument_spec \<Rightarrow> rat \<Rightarrow> rat" where
  "grid_quantity i q = of_int \<lfloor>prec80 (q / is_quantity_increment i)\<rfloor> * is_quantity_increment i"

definition grid_price :: "instrument_spec \<Rightarrow> side \<Rightarrow> market_snapshot \<Rightarrow> rat" where
  "grid_price i sd market =
     (if sd = buy then of_int \<lceil>prec80 (mk_ask market / is_price_increment i)\<rceil> * is_price_increment i
      else of_int \<lfloor>prec80 (mk_bid market / is_price_increment i)\<rfloor> * is_price_increment i)"

definition planned_intent ::
  "hasher \<Rightarrow> actor \<Rightarrow> deployment_manifest \<Rightarrow> signal_intent \<Rightarrow> side \<Rightarrow> rat \<Rightarrow> rat \<Rightarrow> order_intent" where
  "planned_intent sha ra m s sd quantity price =
     (let identity = content_hash sha (JArr [JStr (ra_tenant ra), JStr (ra_deployment_id ra), JStr (si_signal_id s), JInt 0])
      in \<lparr>oi_intent_id = identity, oi_account_id = dm_account_id m, oi_deployment_id = ra_deployment_id ra,
          oi_signal_id = si_signal_id s, oi_leg_no = 0, oi_venue = dm_venue m,
          oi_instrument = is_instrument (ra_instrument ra), oi_side = sd, oi_quantity = quantity,
          oi_limit_price = price, oi_time_in_force = IOC, oi_strategy_hash = dm_strategy_hash m,
          oi_policy_hash = dm_risk_policy_hash m, oi_fee_schedule_hash = content_hash sha (fees_json (ra_fees ra)),
          oi_instrument_spec_hash = content_hash sha (instrument_json (ra_instrument ra)),
          oi_risk_reservation_id = content_hash sha (JArr [JStr identity, JStr ''risk_reservation'']),
          oi_created_at_ns = si_produced_at_ns s,
          oi_valid_until_ns = min (si_valid_until_ns s) (dm_valid_until_ns m),
          oi_reduce_only = (sd = sell)\<rparr>)"

text \<open>One round of the loop: the order for a signal, or none.\<close>

definition size_signal ::
  "hasher \<Rightarrow> actor \<Rightarrow> deployment_manifest \<Rightarrow> market_event \<Rightarrow> market_snapshot \<Rightarrow> bool \<Rightarrow> rat \<Rightarrow> rat \<Rightarrow>
   int \<Rightarrow> int \<Rightarrow> signal_intent \<Rightarrow> order_intent option result" where
  "size_signal sha ra m event market has_pending available projected t t' s =
     bind (signal_check ra event t t' s) (\<lambda>_.
     let i = ra_instrument ra; delta = si_target_position s - projected in
     if delta = 0 then Inr None
     else
       let sd = (if delta > 0 then buy else sell); wanted = wanted_quantity ra sd delta available in
       if wanted \<le> 0
       then bind (raise_if has_pending (ValueError ''opposing_pending_orders_require_cancellation'')) (\<lambda>_. Inr None)
       else
         let quantity = grid_quantity i wanted; price = grid_price i sd market in
         if quantity < is_minimum_quantity i \<or> quantity * price < is_minimum_notional i then Inr None
         else
           let intent = planned_intent sha ra m s sd quantity price in
           bind (raise_if (\<not> valid_order_intent intent) (ValueError ''OrderIntent'')) (\<lambda>_. Inr (Some intent)))"

section \<open>The plan of an event\<close>

definition signed_quantity :: "order_intent \<Rightarrow> rat" where
  "signed_quantity o1 = (if oi_side o1 = buy then oi_quantity o1 else - oi_quantity o1)"

definition sold_quantity :: "order_intent \<Rightarrow> rat" where
  "sold_quantity o1 = (if oi_side o1 = sell then oi_quantity o1 else 0)"

fun plan_signals ::
  "hasher \<Rightarrow> actor \<Rightarrow> deployment_manifest \<Rightarrow> market_event \<Rightarrow> market_snapshot \<Rightarrow> bool \<Rightarrow> rat \<Rightarrow> rat \<Rightarrow>
   (nat \<Rightarrow> int) \<Rightarrow> signal_intent list \<Rightarrow> order_intent list result" where
  "plan_signals sha ra m event market has_pending available projected clk [] = Inr []"
| "plan_signals sha ra m event market has_pending available projected clk (s # ss) =
     bind (size_signal sha ra m event market has_pending available projected (clk 0) (clk 1) s) (\<lambda>made.
     case made of
       None \<Rightarrow> plan_signals sha ra m event market has_pending available projected (\<lambda>n. clk (n + 2)) ss
     | Some o1 \<Rightarrow>
         bind (plan_signals sha ra m event market has_pending (available - sold_quantity o1)
                 (projected + signed_quantity o1) (\<lambda>n. clk (n + 2)) ss) (\<lambda>rest. Inr (o1 # rest)))"

definition plan_orders ::
  "hasher \<Rightarrow> actor \<Rightarrow> string option \<Rightarrow> deployment_manifest \<Rightarrow> signal_intent list \<Rightarrow> market_event \<Rightarrow>
   market_snapshot \<Rightarrow> (nat \<Rightarrow> int) \<Rightarrow> db \<Rightarrow> order_intent list result" where
  "plan_orders sha ra token m signals event market clk d =
     bind (base_position ra token m (clk 0) d) (\<lambda>p.
     plan_signals sha ra m event market (bp_pending p) (bp_available p) (bp_projected p) (\<lambda>n. clk (n + 1)) signals)"

section \<open>Rounding to 80 digits\<close>

lemma nat_text_length_least: "0 < n \<Longrightarrow> 10 ^ (length (nat_text n) - 1) \<le> n"
proof (induction n rule: nat_text.induct)
  case (1 n)
  show ?case
  proof (cases "n < 10")
    case True
    then show ?thesis using 1 by (simp add: nat_text.simps[of n])
  next
    case False
    then have "10 ^ (length (nat_text (n div 10)) - 1) \<le> n div 10" using 1 by simp
    then have "10 * 10 ^ (length (nat_text (n div 10)) - 1) \<le> n" by linarith
    moreover have "length (nat_text (n div 10)) \<noteq> 0" using nat_text_nonempty by simp
    ultimately show ?thesis using False
      by (simp add: nat_text.simps[of n] flip: power_Suc)
  qed
qed

lemma half_even_close: "\<bar>of_int (half_even y) - y\<bar> \<le> 1 / 2"
proof -
  have "of_int \<lfloor>y\<rfloor> \<le> y" "y < of_int \<lfloor>y\<rfloor> + 1" by linarith+
  then show ?thesis unfolding half_even_def Let_def by (auto simp: abs_le_iff)
qed

lemma pow10_pos: "0 < pow10 k"
  by (simp add: pow10_def)

lemma pow10_powi: "pow10 k = power_int 10 k"
  by (simp add: pow10_def power_int_def field_simps)

lemma pow10_add: "pow10 (a + b) = pow10 a * pow10 b"
  by (simp add: pow10_powi power_int_add)

lemma pow10_nat: "pow10 (int n) = 10 ^ n"
  by (simp add: pow10_def)

lemma leading_zeros_scale:
  assumes "0 < x" and "x < 1" and "1 / 10 ^ n \<le> x"
  shows "1 \<le> x * 10 ^ leading_zeros n x"
  using assms
proof (induction n arbitrary: x)
  case (Suc n)
  show ?case
  proof (cases "1 \<le> 10 * x")
    case True
    have "leading_zeros n (10 * x) = 0" using True by (cases n) simp_all
    then show ?thesis using True Suc.prems by simp
  next
    case False
    then have "1 \<le> 10 * x * 10 ^ leading_zeros n (10 * x)"
      using Suc.IH[of "10 * x"] Suc.prems by (simp add: field_simps)
    then show ?thesis using Suc.prems by (simp add: field_simps)
  qed
qed simp

text \<open>The scale \<open>prec80\<close> rounds at.\<close>

definition scale80 :: "rat \<Rightarrow> int" where
  "scale80 x = (if x \<ge> 1 then 80 - int (length (whole_text \<lfloor>x\<rfloor>)) else 79 + int (leading_zeros 200 x))"

lemma prec80_scaled: "0 < x \<Longrightarrow> prec80 x = of_int (half_even (x * pow10 (scale80 x))) / pow10 (scale80 x)"
  by (simp add: prec80_def scale80_def Let_def)

lemma scale80_large:
  assumes "1 / 10 ^ 200 \<le> x"
  shows "10 ^ 79 \<le> x * pow10 (scale80 x)"
proof (cases "1 \<le> x")
  case True
  define n where "n = nat \<lfloor>x\<rfloor>"
  have n: "0 < n" "of_nat n \<le> x" using True by (simp_all add: n_def)
  define l where "l = length (nat_text n)"
  have l: "1 \<le> l" using nat_text_nonempty[of n] by (cases "nat_text n") (simp_all add: l_def)
  have "of_nat (10 ^ (l - 1)) \<le> (of_nat n :: rat)"
    using nat_text_length_least[OF n(1)] unfolding l_def of_nat_le_iff .
  then have "(10::rat) ^ (l - 1) \<le> x" using n(2) unfolding of_nat_power of_nat_numeral by linarith
  then have "10 ^ (l - 1) * pow10 (80 - int l) \<le> x * pow10 (80 - int l)"
    using pow10_pos by (intro mult_right_mono) (auto intro: less_imp_le)
  moreover have "10 ^ (l - 1) * pow10 (80 - int l) = pow10 79"
    using l by (simp flip: pow10_nat pow10_add)
  moreover have "scale80 x = 80 - int l" using True by (simp add: scale80_def whole_text_def l_def n_def)
  ultimately show ?thesis by (simp add: pow10_def)
next
  case False
  have "0 < x" using assms by (rule less_le_trans[rotated]) simp
  then have "1 \<le> x * 10 ^ leading_zeros 200 x" using leading_zeros_scale[of x 200] False assms by simp
  moreover have "pow10 (scale80 x) = 10 ^ leading_zeros 200 x * 10 ^ 79"
    using False by (simp add: scale80_def pow10_add pow10_nat) (simp add: pow10_def)
  ultimately show ?thesis by (simp add: mult.assoc[symmetric])
qed

lemma prec80_close:
  assumes "1 / 10 ^ 200 \<le> x"
  shows "\<bar>prec80 x - x\<bar> \<le> x / 10 ^ 79"
proof -
  have x: "0 < x" using assms by (rule less_le_trans[rotated]) simp
  define s where "s = pow10 (scale80 x)"
  have s: "0 < s" "10 ^ 79 \<le> x * s" using pow10_pos scale80_large[OF assms] by (simp_all add: s_def)
  have "prec80 x - x = (of_int (half_even (x * s)) - x * s) / s"
    using s(1) prec80_scaled[OF x] by (simp add: s_def diff_divide_distrib)
  then have "\<bar>prec80 x - x\<bar> \<le> (1 / 2) / s"
    unfolding \<open>prec80 x - x = _\<close> abs_divide using half_even_close[of "x * s"] s(1)
    by (simp only: abs_of_pos) (rule divide_right_mono, simp_all)
  also have "\<dots> \<le> x / 10 ^ 79" using s by (simp add: field_simps)
  finally show ?thesis .
qed

lemma prec80_int:
  assumes "1 \<le> n" and "n < 10 ^ 80"
  shows "prec80 (of_int n) = of_int n"
proof -
  have "length (nat_text (nat n)) \<le> 80"
    by (rule nat_text_length) (use assms in simp_all)
  then obtain j where j: "scale80 (of_int n) = int j"
    using assms(1) by (intro that[of "80 - length (nat_text (nat n))"]) (simp add: scale80_def whole_text_def of_nat_diff)
  have "half_even (of_int (n * 10 ^ j)) = n * 10 ^ j" unfolding half_even_def Let_def floor_of_int by simp
  then show ?thesis using assms(1) by (simp add: prec80_scaled j pow10_nat)
qed

lemma floor_prec80:
  assumes "1 / 10 ^ 200 \<le> x" and "of_int n \<le> x - x / 10 ^ 79" and "x + x / 10 ^ 79 < of_int n + 1"
  shows "\<lfloor>prec80 x\<rfloor> = n"
  using prec80_close[OF assms(1)] assms(2,3) by (intro floor_unique) linarith+

lemma prec80_nonneg:
  assumes "0 \<le> x"
  shows "0 \<le> prec80 x"
proof (cases "x = 0")
  case False
  have "0 \<le> half_even y" if "0 \<le> y" for y
    using that zero_le_floor[of y] unfolding half_even_def Let_def by (simp add: add_nonneg_nonneg)
  then show ?thesis
    using False assms less_imp_le[OF pow10_pos] by (simp add: prec80_scaled zero_le_divide_iff zero_le_mult_iff)
qed (simp add: prec80_def)

lemma prec80_minus: "prec80 (- x) = - prec80 x"
  by (auto simp: prec80_def Let_def)

lemma prec80_pos_imp: "0 < prec80 x \<Longrightarrow> 0 < x"
  using prec80_nonneg[of "- x"] by (cases "0 < x") (simp_all add: prec80_minus)

section \<open>Decimals with finitely many places\<close>

definition decimals :: "nat \<Rightarrow> rat \<Rightarrow> bool" where
  "decimals k x \<longleftrightarrow> x * 10 ^ k \<in> \<int>"

lemma fits_decimals: "fits_numeric x \<Longrightarrow> decimals 18 x"
  unfolding fits_numeric_def decimals_def by (metis Ints_of_int)

lemma fits_bound: "fits_numeric x \<Longrightarrow> x < 10 ^ 20"
  unfolding fits_numeric_def by (simp only: abs_less_iff)

lemma decimals_add [intro]: "decimals k x \<Longrightarrow> decimals k y \<Longrightarrow> decimals k (x + y)"
  and decimals_diff [intro]: "decimals k x \<Longrightarrow> decimals k y \<Longrightarrow> decimals k (x - y)"
  by (simp_all add: decimals_def distrib_right left_diff_distrib)

lemma decimals_minus [intro]: "decimals k x \<Longrightarrow> decimals k (- x)"
  by (simp add: decimals_def)

lemma decimals_abs [intro]: "decimals k x \<Longrightarrow> decimals k \<bar>x\<bar>"
  by (cases "0 \<le> x") auto

lemma decimals_mult [intro]: "decimals j x \<Longrightarrow> decimals k y \<Longrightarrow> decimals (j + k) (x * y)"
  unfolding decimals_def power_add by (metis Ints_mult mult.assoc mult.left_commute)

lemma decimals_int_mult [intro]: "decimals k x \<Longrightarrow> decimals k (of_int n * x)"
  by (simp add: decimals_def mult.assoc)

lemma decimals_mono: "decimals j x \<Longrightarrow> j \<le> k \<Longrightarrow> decimals k x"
proof -
  assume x: "decimals j x" and jk: "j \<le> k"
  have "x * 10 ^ k = x * 10 ^ j * of_nat (10 ^ (k - j))" using jk by (simp add: mult.assoc flip: power_add)
  then show ?thesis using x unfolding decimals_def by (metis Ints_mult Ints_of_nat)
qed

lemma decimals_le:
  assumes "decimals k x" and "decimals k y" and "x < y + 1 / 10 ^ k"
  shows "x \<le> y"
proof -
  obtain m n where m: "x * 10 ^ k = of_int m" and n: "y * 10 ^ k = of_int n"
    using assms(1,2) unfolding decimals_def by (elim Ints_cases)
  have "x * 10 ^ k < (y + 1 / 10 ^ k) * 10 ^ k" using assms(3) by (intro mult_strict_right_mono) simp_all
  then have "of_int m < (of_int (n + 1) :: rat)" using m n by (simp add: distrib_right)
  then have "m \<le> n" unfolding of_int_less_iff by simp
  then have "x * 10 ^ k \<le> y * 10 ^ k" using m n by simp
  then show ?thesis by simp
qed

lemma decimals_pos: "decimals k x \<Longrightarrow> 0 < x \<Longrightarrow> 1 / 10 ^ k \<le> x"
proof -
  assume x: "decimals k x" "0 < x"
  obtain m where m: "x * 10 ^ k = of_int m" using x(1) unfolding decimals_def by (elim Ints_cases)
  then have "0 < (of_int m :: rat)" using x(2) by (metis mult_pos_pos zero_less_power zero_less_numeral)
  then have "1 \<le> (of_int m :: rat)" by simp
  then show ?thesis using m by (simp add: field_simps)
qed

lemma ceil18_le:
  assumes "x \<le> y" and "decimals 18 y"
  shows "ceil18 x \<le> y"
proof -
  obtain n where n: "y * 10 ^ 18 = of_int n" using assms(2) unfolding decimals_def by (elim Ints_cases)
  have "x * 10 ^ 18 \<le> of_int n" using assms(1) unfolding n[symmetric] by (intro mult_right_mono) simp_all
  then have "\<lceil>x * 10 ^ 18\<rceil> \<le> n" by (simp add: ceiling_le_iff)
  then have "of_int \<lceil>x * 10 ^ 18\<rceil> \<le> (of_int n :: rat)" by simp
  then have "of_int \<lceil>x * 10 ^ 18\<rceil> \<le> y * 10 ^ 18" using n by simp
  then show ?thesis unfolding ceil18_def by (simp add: field_simps)
qed

section \<open>A sized order is covered and priced on the safe side\<close>

lemma quotient_close:
  assumes "0 < inc" and "inc < 10 ^ 20" and "1 / 10 ^ 40 \<le> q"
  shows "\<bar>prec80 (q / inc) * inc - q\<bar> \<le> q / 10 ^ 79"
proof -
  have "1 / 10 ^ 40 / 10 ^ 20 \<le> q / inc" using assms by (intro frac_le) simp_all
  then have "1 / 10 ^ 200 \<le> q / inc" by (rule order_trans[rotated]) simp
  note close = prec80_close[OF this]
  have "\<bar>prec80 (q / inc) * inc - q\<bar> = \<bar>prec80 (q / inc) - q / inc\<bar> * inc"
    using assms(1) abs_mult[of "prec80 (q / inc) - q / inc" inc] by (simp add: left_diff_distrib)
  also have "\<dots> \<le> q / inc / 10 ^ 79 * inc" using close assms(1) by (intro mult_right_mono) simp_all
  also have "\<dots> = q / 10 ^ 79" using assms(1) by simp
  finally show ?thesis .
qed

lemma floor_times_le: "0 < inc \<Longrightarrow> of_int \<lfloor>x\<rfloor> * inc \<le> x * (inc :: rat)"
  by (intro mult_right_mono) simp_all

lemma grid_quantity_le:
  assumes "valid_instrument_spec i" and "1 / 10 ^ 40 \<le> q"
  shows "grid_quantity i q \<le> q + q / 10 ^ 79"
proof -
  have inc: "0 < is_quantity_increment i" "is_quantity_increment i < 10 ^ 20"
    using assms(1) by (simp_all add: valid_instrument_spec_def valid_positive_def fits_bound del: power_numeral)
  show ?thesis
    using quotient_close[OF inc assms(2)] floor_times_le[OF inc(1), of "prec80 (q / is_quantity_increment i)"]
    unfolding grid_quantity_def by linarith
qed

lemma decimals_grid: "valid_instrument_spec i \<Longrightarrow> decimals 18 (grid_quantity i q)"
  unfolding grid_quantity_def
  by (intro decimals_int_mult fits_decimals) (simp add: valid_instrument_spec_def valid_positive_def)

text \<open>What the fee adds to a sale, as \<open>reserve\<close> holds it.\<close>

definition base_factor :: "actor \<Rightarrow> rat" where
  "base_factor ra = (if fs_fee_asset (ra_fees ra) = is_base_asset (ra_instrument ra) then 1 + fee_rate (ra_fees ra) else 1)"

lemma base_factor_bounds:
  assumes "valid_fee_schedule (ra_fees ra)"
  shows "1 \<le> base_factor ra" "base_factor ra \<le> 2 * 10 ^ 20" "decimals 18 (base_factor ra)"
proof -
  have fits: "fits_numeric (fs_maker_rate (ra_fees ra))" "fits_numeric (fs_taker_rate (ra_fees ra))"
    using assms by (simp_all add: valid_fee_schedule_def)
  have "fits_numeric 0" by (simp add: fits_numeric_def)
  then have "fits_numeric (fee_rate (ra_fees ra))" using fits by (simp add: fee_rate_def max_def)
  then have rate: "fee_rate (ra_fees ra) < 10 ^ 20" "decimals 18 (fee_rate (ra_fees ra))"
    by (rule fits_bound, rule fits_decimals)
  have "0 \<le> fee_rate (ra_fees ra)" by (simp add: fee_rate_def)
  then show "1 \<le> base_factor ra" "base_factor ra \<le> 2 * 10 ^ 20" using rate(1) by (simp_all add: base_factor_def)
  have "decimals 18 1" by (simp add: decimals_def)
  then show "decimals 18 (base_factor ra)" using rate(2) by (auto simp: base_factor_def)
qed

lemma wanted_sale_close:
  assumes "valid_fee_schedule (ra_fees ra)" and "decimals 18 available" and "decimals 18 delta"
    and "0 < wanted_quantity ra sell delta available"
  shows "1 / 10 ^ 40 \<le> wanted_quantity ra sell delta available"
    and "wanted_quantity ra sell delta available * base_factor ra \<le> available + available / 10 ^ 79"
proof -
  define q where "q = min \<bar>delta\<bar> available"
  note factor = base_factor_bounds[OF assms(1)]
  have wanted: "wanted_quantity ra sell delta available = (if fs_fee_asset (ra_fees ra) = is_base_asset (ra_instrument ra)
      then prec80 (q / base_factor ra) else q)"
    by (simp add: wanted_quantity_def q_def Let_def base_factor_def)
  have "0 < q"
    using assms(4) factor(1) unfolding wanted by (auto split: if_splits dest: prec80_pos_imp simp: zero_less_divide_iff)
  have "decimals 18 q" using assms(2,3) by (auto simp: q_def min_def)
  then have small: "1 / 10 ^ 18 \<le> q" using \<open>0 < q\<close> by (rule decimals_pos)
  have le: "q \<le> available" by (simp add: q_def)
  have "1 / 10 ^ 18 / (2 * 10 ^ 20) \<le> q / base_factor ra" using small factor(1,2) by (intro frac_le) simp_all
  then have share: "2 / 10 ^ 40 \<le> q / base_factor ra" by (rule order_trans[rotated]) simp
  then have "1 / 10 ^ 200 \<le> q / base_factor ra" by (rule order_trans[rotated]) simp
  note close = prec80_close[OF this]
  have "q / base_factor ra - q / base_factor ra / 10 ^ 79 \<le> prec80 (q / base_factor ra)" using close by linarith
  moreover have "1 / 10 ^ 40 \<le> q / base_factor ra - q / base_factor ra / 10 ^ 79" using share by simp
  ultimately have "1 / 10 ^ 40 \<le> prec80 (q / base_factor ra)" by linarith
  moreover have "1 / 10 ^ 40 \<le> q" using small by (rule order_trans[rotated]) simp
  ultimately show "1 / 10 ^ 40 \<le> wanted_quantity ra sell delta available" by (simp add: wanted)
  have "prec80 (q / base_factor ra) * base_factor ra \<le> (q / base_factor ra + q / base_factor ra / 10 ^ 79) * base_factor ra"
    using close factor(1) by (intro mult_right_mono) simp_all
  also have "\<dots> = q + q / 10 ^ 79" using factor(1) by (simp add: distrib_right)
  finally have "prec80 (q / base_factor ra) * base_factor ra \<le> q + q / 10 ^ 79" .
  moreover have "q + q / 10 ^ 79 \<le> available + available / 10 ^ 79" using le by simp
  moreover have "q * base_factor ra \<le> q + q / 10 ^ 79"
    if "fs_fee_asset (ra_fees ra) \<noteq> is_base_asset (ra_instrument ra)" using that \<open>0 < q\<close> by (simp add: base_factor_def)
  ultimately show "wanted_quantity ra sell delta available * base_factor ra \<le> available + available / 10 ^ 79"
    unfolding wanted by (auto split: if_split intro: order_trans simp del: power_numeral)
qed

lemma sale_covered:
  assumes "valid_instrument_spec (ra_instrument ra)" and "valid_fee_schedule (ra_fees ra)"
    and "decimals 18 available" and "decimals 18 delta" and "available < 10 ^ 40"
    and "0 < wanted_quantity ra sell delta available"
  shows "grid_quantity (ra_instrument ra) (wanted_quantity ra sell delta available) * base_factor ra \<le> available"
proof -
  define w where "w = wanted_quantity ra sell delta available"
  define g where "g = grid_quantity (ra_instrument ra) w"
  note factor = base_factor_bounds[OF assms(2)]
  note close = wanted_sale_close[OF assms(2,3,4,6), folded w_def]
  have "g * base_factor ra \<le> (w + w / 10 ^ 79) * base_factor ra"
    using grid_quantity_le[OF assms(1) close(1)] factor(1) unfolding g_def by (intro mult_right_mono) simp_all
  also have "\<dots> = w * base_factor ra + w * base_factor ra / 10 ^ 79" by (simp add: distrib_right)
  also have "\<dots> \<le> (available + available / 10 ^ 79) + (available + available / 10 ^ 79) / 10 ^ 79"
    using close(2) by (intro add_mono divide_right_mono) simp_all
  also have "\<dots> < available + 1 / 10 ^ 36" using assms(5) by simp
  finally have less: "g * base_factor ra < available + 1 / 10 ^ 36" .
  have "decimals (18 + 18) (g * base_factor ra)"
    using decimals_grid[OF assms(1)] factor(3) unfolding g_def by (rule decimals_mult)
  then show ?thesis using less decimals_mono[OF assms(3), of 36] unfolding g_def w_def
    by (intro decimals_le[where k = 36]) (simp_all del: power_numeral)
qed

lemma rounded_quotient:
  assumes "0 < inc" and "fits_numeric inc" and "valid_positive p"
  shows "p \<le> of_int \<lceil>prec80 (p / inc)\<rceil> * inc" and "of_int \<lceil>prec80 (p / inc)\<rceil> * inc \<le> p + inc"
    and "of_int \<lfloor>prec80 (p / inc)\<rfloor> * inc \<le> p" and "p - inc \<le> of_int \<lfloor>prec80 (p / inc)\<rfloor> * inc"
proof -
  have p: "0 < p" "decimals 18 p" "p < 10 ^ 20"
    using assms(3) by (auto simp: valid_positive_def fits_decimals fits_bound simp del: power_numeral)
  have inc: "decimals 18 inc" using assms(2) by (rule fits_decimals)
  have "1 / 10 ^ 40 \<le> p" using decimals_pos[OF p(2,1)] by (rule order_trans[rotated]) simp
  note close = quotient_close[OF assms(1) fits_bound[OF assms(2)] this]
  have tiny: "p / 10 ^ 79 < 1 / 10 ^ 18" using p(3) by simp
  define r where "r = prec80 (p / inc)"
  have up: "r * inc \<le> of_int \<lceil>r\<rceil> * inc" "of_int \<lceil>r\<rceil> * inc \<le> (r + 1) * inc"
    and down: "of_int \<lfloor>r\<rfloor> * inc \<le> r * inc" "(r - 1) * inc \<le> of_int \<lfloor>r\<rfloor> * inc"
    using assms(1) by (auto intro!: mult_right_mono) linarith+
  have ends: "p - p / 10 ^ 79 \<le> r * inc" "r * inc \<le> p + p / 10 ^ 79" using close unfolding r_def by linarith+
  have up': "of_int \<lceil>r\<rceil> * inc \<le> r * inc + inc" and down': "r * inc - inc \<le> of_int \<lfloor>r\<rfloor> * inc"
    using up(2) down(2) by (simp_all add: distrib_right left_diff_distrib)
  have grid: "decimals 18 (of_int n * inc)" for n using inc by (rule decimals_int_mult)
  show "p \<le> of_int \<lceil>prec80 (p / inc)\<rceil> * inc" unfolding r_def[symmetric]
    by (rule decimals_le[OF p(2) grid]) (use up(1) ends(1) tiny in linarith)
  show "of_int \<lceil>prec80 (p / inc)\<rceil> * inc \<le> p + inc" unfolding r_def[symmetric]
    by (rule decimals_le[OF grid decimals_add[OF p(2) inc]]) (use up' ends(2) tiny in linarith)
  show "of_int \<lfloor>prec80 (p / inc)\<rfloor> * inc \<le> p" unfolding r_def[symmetric]
    by (rule decimals_le[OF grid p(2)]) (use down(1) ends(2) tiny in linarith)
  show "p - inc \<le> of_int \<lfloor>prec80 (p / inc)\<rfloor> * inc" unfolding r_def[symmetric]
    by (rule decimals_le[OF decimals_diff[OF p(2) inc] grid]) (use down' ends(1) tiny in linarith)
qed

text \<open>What the order management system will ask of an order, and the side of the book it is priced on.\<close>

definition well_sized :: "instrument_spec \<Rightarrow> market_snapshot \<Rightarrow> order_intent \<Rightarrow> bool" where
  "well_sized i market o1 \<longleftrightarrow> valid_order_intent o1 \<and>
     \<not> off_grid (oi_quantity o1) (is_quantity_increment i) \<and> \<not> off_grid (oi_limit_price o1) (is_price_increment i) \<and>
     is_minimum_quantity i \<le> oi_quantity o1 \<and> is_minimum_notional i \<le> oi_quantity o1 * oi_limit_price o1 \<and>
     (if oi_side o1 = buy
      then mk_ask market \<le> oi_limit_price o1 \<and> oi_limit_price o1 \<le> mk_ask market + is_price_increment i
      else oi_limit_price o1 \<le> mk_bid market \<and> mk_bid market - is_price_increment i \<le> oi_limit_price o1)"

lemma on_grid: "0 < inc \<Longrightarrow> \<not> off_grid (of_int n * inc) inc"
  by (simp add: off_grid_def)

lemma planned_fields [simp]:
  "oi_side (planned_intent sha ra m s sd q p) = sd" "oi_quantity (planned_intent sha ra m s sd q p) = q"
  "oi_limit_price (planned_intent sha ra m s sd q p) = p"
  by (simp_all add: planned_intent_def Let_def)

lemma size_signal_order:
  assumes "size_signal sha ra m event market pending available projected t t' s = Inr (Some o1)"
  obtains sd delta where "delta = si_target_position s - projected" "sd = (if delta > 0 then buy else sell)"
    "0 < wanted_quantity ra sd delta available"
    "o1 = planned_intent sha ra m s sd (grid_quantity (ra_instrument ra) (wanted_quantity ra sd delta available))
            (grid_price (ra_instrument ra) sd market)"
    "valid_order_intent o1" "is_minimum_quantity (ra_instrument ra) \<le> oi_quantity o1"
    "is_minimum_notional (ra_instrument ra) \<le> oi_quantity o1 * oi_limit_price o1"
  using assms unfolding size_signal_def Let_def
  by (auto simp: bind_eq_Inr raise_if_eq_Inr not_less not_le split: if_splits)

lemma size_signal_well_sized:
  assumes "size_signal sha ra m event market pending available projected t t' s = Inr (Some o1)"
    and "valid_instrument_spec (ra_instrument ra)" and "valid_market_snapshot market"
  shows "well_sized (ra_instrument ra) market o1"
  using assms(1)
proof (cases rule: size_signal_order)
  case (1 sd delta)
  have inc: "0 < is_price_increment (ra_instrument ra)" "0 < is_quantity_increment (ra_instrument ra)"
    "fits_numeric (is_price_increment (ra_instrument ra))"
    using assms(2) by (simp_all add: valid_instrument_spec_def valid_positive_def)
  have sides: "valid_positive (mk_bid market)" "valid_positive (mk_ask market)"
    using assms(3) by (simp_all add: valid_market_snapshot_def)
  show ?thesis
    using 1 rounded_quotient[OF inc(1,3) sides(1)] rounded_quotient[OF inc(1,3) sides(2)] on_grid inc(1,2)
    by (simp add: well_sized_def grid_price_def grid_quantity_def)
qed

lemma size_signal_hold:
  assumes "size_signal sha ra m event market pending available projected t t' s = Inr (Some o1)"
    and "valid_instrument_spec (ra_instrument ra)" and "valid_fee_schedule (ra_fees ra)"
    and "decimals 18 available" and "decimals 18 projected" and "valid_signal_intent s" and "available < 10 ^ 40"
    and "oi_side o1 = sell"
  shows "base_hold o1 (ra_instrument ra) (ra_fees ra) \<le> available"
  using assms(1)
proof (cases rule: size_signal_order)
  case (1 sd delta)
  have "decimals 18 delta" using assms(5,6) 1(1) by (auto simp: valid_signal_intent_def intro: fits_decimals)
  then show ?thesis
    using sale_covered[OF assms(2,3,4) _ assms(7)] 1 assms(8)
    by (auto simp: base_hold_def base_factor_def intro!: ceil18_le assms(4))
qed


text \<open>One step of the plan, as the induction over the signals takes it.\<close>

lemma plan_signals_ConsE:
  assumes "plan_signals sha ra m event market pending available projected clk (s # ss) = Inr plan"
  obtains (skip) "plan_signals sha ra m event market pending available projected (\<lambda>n. clk (n + 2)) ss = Inr plan"
  | (order) o1 rest where "plan = o1 # rest"
      "size_signal sha ra m event market pending available projected (clk 0) (clk 1) s = Inr (Some o1)"
      "plan_signals sha ra m event market pending (available - sold_quantity o1) (projected + signed_quantity o1)
         (\<lambda>n. clk (n + 2)) ss = Inr rest"
  using assms by (auto simp: bind_eq_Inr split: option.splits)

lemma plan_well_sized:
  assumes "plan_signals sha ra m event market pending available projected clk signals = Inr plan"
    and "valid_instrument_spec (ra_instrument ra)" and "valid_market_snapshot market"
  shows "list_all (well_sized (ra_instrument ra) market) plan"
  using assms(1)
proof (induction signals arbitrary: available projected clk plan)
  case (Cons s ss)
  show ?case using Cons.prems
  proof (cases rule: plan_signals_ConsE)
    case skip
    then show ?thesis by (rule Cons.IH)
  next
    case (order o1 rest)
    then show ?thesis using Cons.IH[OF order(3)] size_signal_well_sized[OF order(2) assms(2,3)] by simp
  qed
qed simp

lemma sold_decimals:
  assumes "size_signal sha ra m event market pending available projected t t' s = Inr (Some o1)"
  shows "decimals 18 (sold_quantity o1)" "decimals 18 (signed_quantity o1)" "0 \<le> sold_quantity o1"
proof -
  have "valid_order_intent o1" using assms by (rule size_signal_order)
  then have q: "fits_numeric (oi_quantity o1)" "0 < oi_quantity o1" by (simp_all add: valid_order_intent_def valid_positive_def)
  have "decimals 18 0" by (simp add: decimals_def)
  then show "decimals 18 (sold_quantity o1)" "decimals 18 (signed_quantity o1)" "0 \<le> sold_quantity o1"
    using q fits_decimals[OF q(1)] by (auto simp: sold_quantity_def signed_quantity_def)
qed

text \<open>Every sale, with its fee, is covered by the inventory the earlier sales leave.\<close>

lemma plan_covered:
  assumes "plan_signals sha ra m event market pending available projected clk signals = Inr plan"
    and "valid_instrument_spec (ra_instrument ra)" and "valid_fee_schedule (ra_fees ra)"
    and "list_all valid_signal_intent signals" and "decimals 18 available" and "decimals 18 projected"
    and "available < 10 ^ 40" and "plan = xs @ o1 # ys" and "oi_side o1 = sell"
  shows "base_hold o1 (ra_instrument ra) (ra_fees ra) + (\<Sum>x\<leftarrow>xs. sold_quantity x) \<le> available"
  using assms(1,4-8)
proof (induction signals arbitrary: available projected clk plan xs)
  case (Cons s ss)
  show ?case using Cons.prems(1)
  proof (cases rule: plan_signals_ConsE)
    case skip
    then show ?thesis using Cons.IH[OF skip] Cons.prems by simp
  next
    case (order o2 rest)
    note sold = sold_decimals[OF order(2)]
    show ?thesis
    proof (cases xs)
      case Nil
      then have "o2 = o1" using order(1) Cons.prems(6) by simp
      then show ?thesis
        using size_signal_hold[OF order(2) assms(2,3) Cons.prems(3,4) _ Cons.prems(5)] Cons.prems(2) Nil assms(9) by simp
    next
      case (Cons x xs')
      then have "x = o2" "rest = xs' @ o1 # ys" using order(1) Cons.prems(6) by simp_all
      then show ?thesis
        using Cons.IH[OF order(3), of xs'] Cons.prems(2-5) sold Cons by (auto simp: decimals_diff decimals_add)
    qed
  qed
qed simp

section \<open>The plan of an event\<close>

lemma decimals_sum_list: "list_all (decimals k) xs \<Longrightarrow> decimals k (sum_list xs)"
  by (induction xs) (auto simp: decimals_def distrib_right)

text \<open>
  C32: every order the runtime plans from an event is one the order management system accepts as to
  its form: a valid contract, on the price and quantity grids of the instrument, at least the minimum
  quantity and notional.  A purchase is priced at the ask or up to one tick above it, a sale at
  the bid or up to one tick below it, the 80 digit quotients notwithstanding.
\<close>

theorem planned_orders_meet_venue_rules:
  assumes "plan_orders sha ra token m signals event market clk d = Inr plan"
    and "valid_instrument_spec (ra_instrument ra)" and "valid_market_snapshot market"
  shows "list_all (well_sized (ra_instrument ra) market) plan"
  using assms(1) plan_well_sized[OF _ assms(2,3)] unfolding plan_orders_def by (auto simp: bind_eq_Inr)

lemma base_position_decimals:
  assumes "base_position ra token m t d = Inr p"
    and "list_all (\<lambda>e. fits_numeric (le_amount e)) (ledger_entries d)" and "list_all order_money (orders d)"
  shows "decimals 18 (bp_available p)" "decimals 18 (bp_projected p)"
proof -
  have zero: "decimals 18 0" by (simp add: decimals_def)
  have held: "decimals 18 (\<Sum>e\<leftarrow>select_where P (ledger_entries d). le_amount e)" for P
    using assms(2) by (intro decimals_sum_list) (auto simp: list_all_iff select_where_def fits_decimals)
  have sums: "decimals 18 (\<Sum>r\<leftarrow>select_where P (orders d). if od_side r = sell then od_reserved_base r else 0)"
    "decimals 18 (\<Sum>r\<leftarrow>select_where P (orders d). if od_side r = buy then remaining_quantity r else - remaining_quantity r)" for P
    using assms(3) zero
    by (auto intro!: decimals_sum_list
        simp: list_all_iff select_where_def order_money_def remaining_quantity_def fits_decimals decimals_minus decimals_diff)
  show "decimals 18 (bp_available p)" "decimals 18 (bp_projected p)"
    using assms(1) by (auto simp: base_position_def bind_eq_Inr Let_def
        intro!: decimals_diff[OF held sums(1)] decimals_add[OF held sums(2)])
qed

text \<open>
  C33: the runtime never plans to sell what it does not own.  Each planned sale, together with the
  fee when it is charged in the base asset (what \<open>reserve\<close> will hold for it), is covered exactly by the
  inventory that is neither reserved nor sold by an earlier order of the plan.
\<close>

theorem planned_sales_are_covered:
  assumes "plan_orders sha ra token m signals event market clk d = Inr (xs @ o1 # ys)"
    and "base_position ra token m (clk 0) d = Inr p" and "bp_available p < 10 ^ 40"
    and "valid_instrument_spec (ra_instrument ra)" and "valid_fee_schedule (ra_fees ra)"
    and "list_all valid_signal_intent signals"
    and "list_all (\<lambda>e. fits_numeric (le_amount e)) (ledger_entries d)" and "list_all order_money (orders d)"
    and "oi_side o1 = sell"
  shows "base_hold o1 (ra_instrument ra) (ra_fees ra) + (\<Sum>x\<leftarrow>xs. sold_quantity x) \<le> bp_available p"
  using assms(1,2) plan_covered[OF _ assms(4,5,6) base_position_decimals[OF assms(2,7,8)] assms(3) refl assms(9)]
  unfolding plan_orders_def by auto

section \<open>A worked plan\<close>

text \<open>An account that owns one BTC, a fee of ten per cent in BTC, and two signals: sell half, then the rest.\<close>

definition demo_actor :: actor where
  "demo_actor = \<lparr>ra_tenant = ''t'', ra_deployment_id = ''dep'', ra_instrument = btc,
     ra_fees = fees0\<lparr>fs_taker_rate := 1 / 10, fs_fee_asset := ''BTC''\<rparr>, ra_owner = ''runtime'',
     ra_maximum_data_age_ns = 1000000000\<rparr>"

definition demo_owner :: db where
  "demo_owner = empty_db\<lparr>
     accounts := [\<lparr>ac_account_id = ''acc'', ac_tenant_id = ''t'', ac_quote_asset = ''USDT'', ac_capital = 1000,
       ac_mode = ACTIVE, ac_reserved_quote = 0, ac_daily_new_risk = 0, ac_day_utc = 0,
       ac_lease_token = Some ''k'', ac_lease_owner = Some ''runtime'', ac_lease_until_ns = 100, ac_reconciled_ns = 0\<rparr>],
     ledger_entries := [\<lparr>le_entry_id = ''e'', le_transaction_id = ''x'', le_account_id = ''acc'', le_asset = ''BTC'',
       le_bucket = ''wallet'', le_amount = 1\<rparr>]\<rparr>"

definition demo_signal :: "string \<Rightarrow> rat \<Rightarrow> signal_intent" where
  "demo_signal name target = \<lparr>si_signal_id = name, si_deployment_id = ''dep'', si_event_id = ''ev'',
     si_instrument = ''BTCUSDT'', si_target_position = target, si_produced_at_ns = 5, si_valid_until_ns = 50,
     si_reason_codes = [''exit'']\<rparr>"

definition demo_event :: market_event where
  "demo_event = \<lparr>me_venue = ''sim'', me_instrument = ''BTCUSDT'', me_event_type = E_bar, me_exchange_ts_ns = 4,
     me_received_ts_ns = 5, me_sequence = None, me_payload = [], me_quality_flags = [], me_published_at_ns = None,
     me_available_at_ns = None, me_revision_id = ''initial'', me_source_hash = None\<rparr>"

definition demo_market :: market_snapshot where
  "demo_market = (market_at 5)\<lparr>mk_instrument_spec_hash := hash_of 7, mk_fee_schedule_hash := hash_of 7\<rparr>"

definition short_sha :: hasher where
  "short_sha s = hash_of 7"

lemma demo_share:
  assumes "of_int n / 1000 + 1 / 10 ^ 10 \<le> x" and "x + 1 / 10 ^ 10 \<le> of_int (n + 1) / 1000" and "0 \<le> n" and "n < 1000"
  shows "grid_quantity btc (prec80 x) = of_int n / 1000"
proof -
  have x: "1 / 10 ^ 10 \<le> x" "x \<le> 1" using assms by auto
  have "1 / 10 ^ 200 \<le> x" using x(1) by (rule order_trans[rotated]) simp
  note close = prec80_close[OF this]
  have "\<bar>prec80 x - x\<bar> \<le> 1 / 10 ^ 20" using x(2) by (intro order_trans[OF close]) simp
  define w where "w = prec80 x"
  have w: "of_int n / 1000 + 1 / 10 ^ 11 \<le> w" "w + 1 / 10 ^ 11 \<le> of_int (n + 1) / 1000"
    using \<open>\<bar>prec80 x - x\<bar> \<le> 1 / 10 ^ 20\<close> assms(1,2) unfolding w_def abs_le_iff by simp_all
  then have large: "1 / 10 ^ 200 \<le> w * 1000" using assms(3) by simp
  have "\<lfloor>prec80 (w * 1000)\<rfloor> = n" by (rule floor_prec80[OF large]) (use w assms(4) in simp_all)
  then show ?thesis by (simp add: grid_quantity_def btc_def w_def)
qed

lemma demo_numbers:
  "grid_quantity btc (prec80 (5 / 11)) = 227 / 500" "grid_quantity btc (prec80 (273 / 550)) = 62 / 125"
  "grid_price btc sell demo_market = 100"
proof -
  show "grid_price btc sell demo_market = 100"
    using prec80_int[of 10000] by (simp add: grid_price_def btc_def demo_market_def market_at_def)
qed (use demo_share[of 454 "5 / 11"] demo_share[of 496 "273 / 550"] in simp_all)

lemma demo_fields [simp]:
  "ra_instrument demo_actor = btc" "fs_fee_asset (ra_fees demo_actor) = ''BTC''" "is_base_asset btc = ''BTC''"
  "fee_rate (ra_fees demo_actor) = 1 / 10" "ra_tenant demo_actor = ''t''" "ra_deployment_id demo_actor = ''dep''"
  "ra_owner demo_actor = ''runtime''" "is_instrument btc = ''BTCUSDT''" "is_minimum_quantity btc = 1 / 1000"
  "is_minimum_notional btc = 1" "dm_account_id (canary paper) = ''acc''" "dm_valid_until_ns (canary paper) = 10 ^ 15"
  "me_received_ts_ns demo_event = 5" "si_target_position (demo_signal n x) = x"
  by (simp_all add: demo_actor_def btc_def fees0_def fee_rate_def canary_def demo_event_def demo_signal_def)

lemma demo_position:
  "base_position demo_actor (Some ''k'') (canary paper) 6 demo_owner =
     Inr \<lparr>bp_available = 1, bp_projected = 1, bp_pending = False\<rparr>"
  by (simp add: base_position_def runtime_lease_def demo_owner_def empty_db_def first_where_def select_where_def)

lemma short_hash [simp]: "content_hash short_sha v = hash_of 7"
  by (simp add: content_hash_def short_sha_def)

lemma hash_of_valid: "valid_sha256 (hash_of 7)" "valid_sha256 (hash_of 2)" "valid_sha256 (hash_of 5)"
  "valid_nonempty (hash_of 7)"
  by code_simp+

lemma demo_valid_order:
  assumes "valid_positive q" and "n \<in> {''s1'', ''s2''}"
  shows "valid_order_intent (planned_intent short_sha demo_actor (canary paper) (demo_signal n x) sell q 100)"
proof -
  have "valid_positive 100" by code_simp
  then show ?thesis
    using assms by (auto simp: planned_intent_def Let_def valid_order_intent_def hash_of_valid demo_signal_def
        valid_nonempty_def[of "''acc''"] valid_nonempty_def[of "''dep''"] valid_nonempty_def[of "''s1''"]
        valid_nonempty_def[of "''s2''"] valid_nonempty_def[of "''sim''"] valid_nonempty_def[of "''BTCUSDT''"]
        canary_def valid_timestamp_def)
qed

lemma demo_sized:
  "size_signal short_sha demo_actor (canary paper) demo_event demo_market False 1 1 6 6 (demo_signal ''s1'' (1 / 2)) =
     Inr (Some (planned_intent short_sha demo_actor (canary paper) (demo_signal ''s1'' (1 / 2)) sell (227 / 500) 100))"
  "size_signal short_sha demo_actor (canary paper) demo_event demo_market False (273 / 500) (273 / 500) 6 6 (demo_signal ''s2'' 0) =
     Inr (Some (planned_intent short_sha demo_actor (canary paper) (demo_signal ''s2'' 0) sell (62 / 125) 100))"
proof -
  have q: "valid_positive (227 / 500)" "valid_positive (62 / 125)" by code_simp+
  have s: "si_deployment_id (demo_signal n x) = ''dep''" "si_instrument (demo_signal n x) = ''BTCUSDT''"
    "si_produced_at_ns (demo_signal n x) = 5" "si_valid_until_ns (demo_signal n x) = 50" for n x
    by (simp_all add: demo_signal_def)
  have w: "wanted_quantity demo_actor sell (- (1 / 2)) 1 = prec80 (5 / 11)"
    "wanted_quantity demo_actor sell (- (273 / 500)) (273 / 500) = prec80 (273 / 550)"
    by (simp_all add: wanted_quantity_def)
  have "\<bar>prec80 (5 / 11) - 5 / 11\<bar> \<le> 1 / 10 ^ 20" "\<bar>prec80 (273 / 550) - 273 / 550\<bar> \<le> 1 / 10 ^ 20"
    by (rule order_trans[OF prec80_close]; simp)+
  then have pos: "0 < prec80 (5 / 11)" "0 < prec80 (273 / 550)" unfolding abs_le_iff by simp_all
  show "size_signal short_sha demo_actor (canary paper) demo_event demo_market False 1 1 6 6 (demo_signal ''s1'' (1 / 2)) =
     Inr (Some (planned_intent short_sha demo_actor (canary paper) (demo_signal ''s1'' (1 / 2)) sell (227 / 500) 100))"
    using pos by (simp add: size_signal_def Let_def signal_check_def s w demo_numbers demo_valid_order[OF q(1)])
  show "size_signal short_sha demo_actor (canary paper) demo_event demo_market False (273 / 500) (273 / 500) 6 6 (demo_signal ''s2'' 0) =
     Inr (Some (planned_intent short_sha demo_actor (canary paper) (demo_signal ''s2'' 0) sell (62 / 125) 100))"
    using pos by (simp add: size_signal_def Let_def signal_check_def s w demo_numbers demo_valid_order[OF q(2)])
qed

definition demo_orders :: "order_intent list" where
  "demo_orders = [planned_intent short_sha demo_actor (canary paper) (demo_signal ''s1'' (1 / 2)) sell (227 / 500) 100,
     planned_intent short_sha demo_actor (canary paper) (demo_signal ''s2'' 0) sell (62 / 125) 100]"

lemma demo_planned:
  "plan_orders short_sha demo_actor (Some ''k'') (canary paper) [demo_signal ''s1'' (1 / 2), demo_signal ''s2'' 0]
     demo_event demo_market (\<lambda>_. 6) demo_owner = Inr demo_orders"
  by (simp add: plan_orders_def demo_position demo_sized sold_quantity_def signed_quantity_def demo_orders_def)

text \<open>
  The inventory an earlier sale of the plan leaves is counted without its fee: the holds of these two
  orders together exceed what is available.
\<close>

lemma second_sale_not_covered:
  "(\<Sum>o1\<leftarrow>demo_orders. base_hold o1 (ra_instrument demo_actor) (ra_fees demo_actor)) > 1"
proof -
  have "ceil18 (2497 / 5000) = 2497 / 5000" "ceil18 (341 / 625) = 341 / 625" by code_simp+
  then show ?thesis by (simp add: demo_orders_def base_hold_def)
qed

theorem planned_orders_meet_venue_rules_witness:
  "list_all (well_sized btc demo_market) demo_orders"
proof -
  have "valid_instrument_spec btc" "valid_market_snapshot demo_market" by code_simp+
  then show ?thesis using planned_orders_meet_venue_rules[OF demo_planned] by simp
qed

theorem planned_sales_are_covered_witness:
  "base_hold (demo_orders ! 1) btc (ra_fees demo_actor) + 227 / 500 \<le> (1 :: rat)"
proof -
  have valid: "valid_instrument_spec btc" "valid_fee_schedule (ra_fees demo_actor)"
    "list_all valid_signal_intent [demo_signal ''s1'' (1 / 2), demo_signal ''s2'' 0]"
    "list_all (\<lambda>e. fits_numeric (le_amount e)) (ledger_entries demo_owner)" "list_all order_money (orders demo_owner)"
    by code_simp+
  have plan: "plan_orders short_sha demo_actor (Some ''k'') (canary paper) [demo_signal ''s1'' (1 / 2), demo_signal ''s2'' 0]
     demo_event demo_market (\<lambda>_. 6) demo_owner = Inr ([demo_orders ! 0] @ demo_orders ! 1 # [])"
    by (simp add: demo_planned) (simp add: demo_orders_def)
  show ?thesis
    using planned_sales_are_covered[OF plan demo_position] valid by (simp add: demo_orders_def sold_quantity_def)
qed

end
