(* ===== verification/Runtime.thy ===== *)
theory Runtime
  imports Sizing Reading Releases Venues
begin

text \<open>
  The event loop of one deployment, \<open>TradingRuntime\<close> of \<open>src/qt/execution/runtime.py\<close>.  A method is an
  \<open>act\<close>: from the object's mutable fields and the database to a result, the fields and the database
  afterwards, also when it raises.  The strategy and the venue are parameters.  Every reading of a clock
  has a place, a list of numbers, in the call tree: \<open>clk p\<close> is what the clock says there.  The
  asyncio lock of the object makes its calls follow one another; other processes act inside the
  venue's part.  A dictionary returned or stored is its list of members.  An event loop's JSON
  documents that are read back (the stored step, the head row) hold what the loop wrote; a missing
  member is the \<open>KeyError\<close> of the subscription, a member of another type a \<open>TypeError\<close>.
\<close>

section \<open>State and parameters\<close>

type_synonym places = "nat list \<Rightarrow> int"
type_synonym reply_fields = "(string \<times> json) list"

text \<open>What the loop asks of a strategy; \<open>None\<close> from \<open>on_event\<close> is a value that is not a list of signals.\<close>

record 'st strategy =
  sg_native :: bool
  sg_verify_artifact :: "strategy_artifact \<Rightarrow> unit result"
  sg_instrument :: instrument_spec
  sg_fees :: fee_schedule
  sg_deployment_id :: string
  sg_accepts :: "market_event_type \<Rightarrow> bool"
  sg_set_portfolio :: "rat \<Rightarrow> rat \<Rightarrow> int \<Rightarrow> 'st \<Rightarrow> unit result \<times> 'st"
  sg_on_event :: "market_event \<Rightarrow> 'st \<Rightarrow> signal_intent list option result \<times> 'st"
  sg_snapshot :: "'st \<Rightarrow> (string \<times> json) list"
  sg_restore :: "(string \<times> json) list \<Rightarrow> 'st \<Rightarrow> unit result \<times> 'st"

text \<open>A depth view whose decimals carry their text, as the paper venue's book does.\<close>

record depth_view =
  dv_last_update_id :: int
  dv_bids :: "paper_level list"
  dv_asks :: "paper_level list"
  dv_exchange_ts_ns :: int
  dv_received_ts_ns :: int

definition depth_level_json :: "paper_level \<Rightarrow> json" where
  "depth_level_json l = JObj [(''schema_version'', JStr ''2.0''), (''price'', jdec (lp_price l)), (''quantity'', jdec (lp_quantity l))]"

definition depth_view_json :: "depth_view \<Rightarrow> json" where
  "depth_view_json b = JObj
     [(''schema_version'', JStr ''2.0''), (''last_update_id'', JInt (dv_last_update_id b)),
      (''bids'', JArr (map depth_level_json (dv_bids b))), (''asks'', JArr (map depth_level_json (dv_asks b))),
      (''exchange_ts_ns'', JInt (dv_exchange_ts_ns b)), (''received_ts_ns'', JInt (dv_received_ts_ns b))]"

text \<open>The object: what never changes, and what does (with the order manager's lease tokens and the venue's book).\<close>

record 'st trading_runtime =
  tr_actor :: actor
  tr_sha :: hasher
  tr_mac :: mac
  tr_releases :: deployment_registry
  tr_oms :: oms_config
  tr_venue :: "paper_book option \<Rightarrow> adapter"
  tr_strategy :: "'st strategy"

record 'st loop_state =
  lo_lease_token :: "string option"
  lo_head_id :: "string option"
  lo_restored :: bool
  lo_verified :: "string option"
  lo_halt_reason :: "string option"
  lo_tokens :: lease_tokens
  lo_book :: "paper_book option"
  lo_strategy :: 'st

type_synonym ('st, 'a) act = "'st loop_state \<Rightarrow> db \<Rightarrow> 'a result \<times> 'st loop_state \<times> db"

definition fresh_loop :: "'st \<Rightarrow> 'st loop_state" where
  "fresh_loop st = \<lparr>lo_lease_token = None, lo_head_id = None, lo_restored = False, lo_verified = None,
     lo_halt_reason = None, lo_tokens = [], lo_book = None, lo_strategy = st\<rparr>"

definition make_actor ::
  "string \<Rightarrow> string \<Rightarrow> instrument_spec \<Rightarrow> fee_schedule \<Rightarrow> string \<Rightarrow> int \<Rightarrow> actor result" where
  "make_actor tenant deployment_id instrument fees owner maximum_age =
     bind (raise_if (maximum_age \<le> 0) (ValueError ''maximum_data_age_must_be_positive'')) (\<lambda>_.
     Inr \<lparr>ra_tenant = tenant, ra_deployment_id = deployment_id, ra_instrument = instrument, ra_fees = fees,
          ra_owner = owner, ra_maximum_data_age_ns = maximum_age\<rparr>)"

definition act_bind :: "('st, 'a) act \<Rightarrow> ('a \<Rightarrow> ('st, 'b) act) \<Rightarrow> ('st, 'b) act" where
  "act_bind m f s d = (case m s d of (Inl e, s', d') \<Rightarrow> (Inl e, s', d') | (Inr x, s', d') \<Rightarrow> f x s' d')"

definition act_return :: "'a \<Rightarrow> ('st, 'a) act" where
  "act_return x s d = (Inr x, s, d)"

definition act_raise :: "error \<Rightarrow> ('st, 'a) act" where
  "act_raise e s d = (Inl e, s, d)"

definition from_call :: "'a call \<Rightarrow> ('st, 'a) act" where
  "from_call c s d = (case c d of (r, d') \<Rightarrow> (r, s, d'))"

definition from_read :: "(db \<Rightarrow> 'a result) \<Rightarrow> ('st, 'a) act" where
  "from_read f s d = (f d, s, d)"

definition act_get :: "('st loop_state \<Rightarrow> 'a) \<Rightarrow> ('st, 'a) act" where
  "act_get f s d = (Inr (f s), s, d)"

definition act_put :: "('st loop_state \<Rightarrow> 'st loop_state) \<Rightarrow> ('st, unit) act" where
  "act_put f s d = (Inr (), f s, d)"

text \<open>\<open>try: m except ..: h\<close>\<close>

definition act_try :: "('st, 'a) act \<Rightarrow> (error \<Rightarrow> ('st, 'a) act) \<Rightarrow> ('st, 'a) act" where
  "act_try m h s d = (case m s d of (Inl e, s', d') \<Rightarrow> h e s' d' | (Inr x, s', d') \<Rightarrow> (Inr x, s', d'))"

definition act_strategy :: "('st \<Rightarrow> 'a result \<times> 'st) \<Rightarrow> ('st, 'a) act" where
  "act_strategy f s d = (case f (lo_strategy s) of (r, st) \<Rightarrow> (r, s\<lparr>lo_strategy := st\<rparr>, d))"

fun is_key_error :: "error \<Rightarrow> bool" where
  "is_key_error (KeyError _) = True" | "is_key_error _ = False"

fun is_conflict :: "error \<Rightarrow> bool" where
  "is_conflict (ConflictError _) = True" | "is_conflict _ = False"

fun is_budget_stop :: "error \<Rightarrow> bool" where
  "is_budget_stop (RiskBudgetExceededError _) = True" | "is_budget_stop _ = False"

text \<open>\<open>SQLAlchemyError\<close> and its subclasses the modelled code can raise.\<close>

fun is_database_error :: "error \<Rightarrow> bool" where
  "is_database_error (IntegrityError _) = True"
| "is_database_error (StatementError _) = True"
| "is_database_error NoResultFound = True"
| "is_database_error _ = False"

definition act_if_key_missing :: "('st, 'a) act \<Rightarrow> ('st, 'a option) act" where
  "act_if_key_missing m = act_try (act_bind m (\<lambda>x. act_return (Some x)))
     (\<lambda>e. if is_key_error e then act_return None else act_raise e)"

text \<open>\<open>value[key]\<close> on a stored document.\<close>

definition json_member :: "json \<Rightarrow> string \<Rightarrow> json result" where
  "json_member v k = or_raise (jget v k) (KeyError k)"

definition text_at :: "json \<Rightarrow> string \<Rightarrow> string result" where
  "text_at v k = bind (json_member v k) (\<lambda>x. or_raise (as_str x) (TypeError k))"

definition int_at :: "json \<Rightarrow> string \<Rightarrow> int result" where
  "int_at v k = bind (json_member v k) (\<lambda>x. or_raise (as_int x) (TypeError k))"

definition artifact_document :: "hasher \<Rightarrow> string \<Rightarrow> string \<Rightarrow> string \<Rightarrow> db \<Rightarrow> json result" where
  "artifact_document sha tenant kind identity d =
     bind (get_artifact sha tenant kind identity d) (\<lambda>row. Inr (payload_json (ar_payload row)))"

definition from_result :: "'a result \<Rightarrow> ('st, 'a) act" where
  "from_result r s d = (r, s, d)"

section \<open>Checkpoints\<close>

definition insert_document ::
  "hasher \<Rightarrow> string \<Rightarrow> string \<Rightarrow> string \<Rightarrow> json \<Rightarrow> int \<Rightarrow> db \<Rightarrow> db" where
  "insert_document sha tenant kind identity payload t d =
     d\<lparr>artifacts := insert_once artifact_clash
        \<lparr>ar_tenant_id = tenant, ar_kind = kind, ar_entity_id = identity, ar_payload = AJson payload,
         ar_sha256 = content_hash sha payload, ar_created_ns = t\<rparr> (artifacts d)\<rparr>"

definition same_document ::
  "hasher \<Rightarrow> string \<Rightarrow> string \<Rightarrow> string \<Rightarrow> json \<Rightarrow> error \<Rightarrow> db \<Rightarrow> unit result" where
  "same_document sha tenant kind identity payload e d =
     bind (or_raise (first_where (artifact_key tenant kind identity) (artifacts d)) NoResultFound) (\<lambda>row.
     raise_if (ar_sha256 row \<noteq> content_hash sha payload) e)"

text \<open>\<open>_put_fenced\<close>\<close>

definition put_fenced_tx ::
  "hasher \<Rightarrow> actor \<Rightarrow> string option \<Rightarrow> deployment_manifest \<Rightarrow> string \<Rightarrow> string \<Rightarrow> json \<Rightarrow> places \<Rightarrow>
   unit transaction" where
  "put_fenced_tx sha ra token m kind identity payload clk d =
     bind (runtime_lease ra token m (clk [0]) d) (\<lambda>_.
     let d1 = insert_document sha (ra_tenant ra) kind identity payload (clk [1]) d in
     bind (same_document sha (ra_tenant ra) kind identity payload
             (ConflictError ''runtime_checkpoint_identity_conflict'') d1) (\<lambda>_. Inr ((), d1)))"

definition state_name :: "actor \<Rightarrow> string" where
  "state_name ra = ''state:'' @ ra_deployment_id ra"

definition state_row :: "actor \<Rightarrow> health_row \<Rightarrow> bool" where
  "state_row ra h \<longleftrightarrow> hl_tenant_id h = ra_tenant ra \<and> hl_name h = state_name ra"

text \<open>\<open>_head\<close>\<close>

definition runtime_head :: "actor \<Rightarrow> db \<Rightarrow> json option" where
  "runtime_head ra d = map_option hl_payload (first_where (state_row ra) (runtime_health d))"

definition head_step :: "json option \<Rightarrow> string option result" where
  "head_step head = (case head of None \<Rightarrow> Inr None | Some h \<Rightarrow> bind (text_at h ''step_id'') (\<lambda>i. Inr (Some i)))"

text \<open>\<open>_restore\<close>\<close>

definition restore :: "'st trading_runtime \<Rightarrow> ('st, json option) act" where
  "restore tr =
     (let ra = tr_actor tr in
      act_bind (from_read (\<lambda>d. Inr (runtime_head ra d))) (\<lambda>head.
      act_bind (from_result (head_step head)) (\<lambda>step_id.
      act_bind (act_put (\<lambda>s. s\<lparr>lo_head_id := step_id\<rparr>)) (\<lambda>_.
      act_bind (case step_id of
          None \<Rightarrow> act_return ()
        | Some identity \<Rightarrow>
            act_bind (from_read (artifact_document (tr_sha tr) (ra_tenant ra) ''trading_step'' identity)) (\<lambda>step.
            act_bind (from_result (json_member step ''deployment_id'')) (\<lambda>deployment.
            act_bind (from_result (raise_if (deployment \<noteq> JStr (ra_deployment_id ra))
                        (ConflictError ''runtime_checkpoint_deployment_mismatch''))) (\<lambda>_.
            act_bind (from_result (json_member step ''state'')) (\<lambda>state.
            act_bind (from_result (or_raise (parse_strategy_state state) (ValueError ''StrategyState''))) (\<lambda>values.
            act_strategy (sg_restore (tr_strategy tr) values))))))) (\<lambda>_.
      act_bind (act_put (\<lambda>s. s\<lparr>lo_restored := True\<rparr>)) (\<lambda>_. act_return head))))))"

text \<open>\<open>_checkpoint\<close>: the step and the new head in one transaction; \<open>known\<close> is the head this object saw.\<close>

definition head_document :: "actor \<Rightarrow> string \<Rightarrow> int \<Rightarrow> json" where
  "head_document ra identity receipt =
     JObj [(''step_id'', JStr identity), (''received_ts_ns'', JInt receipt), (''owner'', JStr (ra_owner ra)),
           (''ready'', JBool True), (''healthy'', JBool True)]"

definition checkpoint_tx ::
  "hasher \<Rightarrow> actor \<Rightarrow> string option \<Rightarrow> string option \<Rightarrow> deployment_manifest \<Rightarrow> string \<Rightarrow> int \<Rightarrow> json \<Rightarrow>
   places \<Rightarrow> unit transaction" where
  "checkpoint_tx sha ra token known m identity receipt payload clk d =
     bind (runtime_lease ra token m (clk [0]) d) (\<lambda>_.
     bind (head_step (runtime_head ra d)) (\<lambda>current.
     bind (raise_if (current \<noteq> known) (ConflictError ''runtime_checkpoint_head_changed'')) (\<lambda>_.
     let d1 = insert_document sha (ra_tenant ra) ''trading_step'' identity payload (clk [1]) d in
     bind (same_document sha (ra_tenant ra) ''trading_step'' identity payload
             (ConflictError ''runtime_event_checkpoint_conflict'') d1) (\<lambda>_.
     let head = head_document ra identity receipt;
         rows = insert_once health_clash
           \<lparr>hl_name = state_name ra, hl_tenant_id = ra_tenant ra, hl_observed_ns = clk [2], hl_payload = head\<rparr>
           (runtime_health d1);
         d2 = d1\<lparr>runtime_health := update_where (state_row ra)
           (\<lambda>h. h\<lparr>hl_observed_ns := clk [3], hl_payload := head\<rparr>) rows\<rparr> in
     Inr ((), add_event (ra_tenant ra) (ra_deployment_id ra) ''trading_event_checkpointed''
                [(''step_id'', JStr identity)] (clk [4]) d2)))))"

definition checkpoint ::
  "'st trading_runtime \<Rightarrow> deployment_manifest \<Rightarrow> string \<Rightarrow> int \<Rightarrow> json \<Rightarrow> places \<Rightarrow> ('st, unit) act" where
  "checkpoint tr m identity receipt payload clk =
     act_bind (act_get lo_lease_token) (\<lambda>token. act_bind (act_get lo_head_id) (\<lambda>known.
     act_bind (from_call (transaction (checkpoint_tx (tr_sha tr) (tr_actor tr) token known m identity receipt payload clk))) (\<lambda>_.
     act_put (\<lambda>s. s\<lparr>lo_head_id := Some identity\<rparr>))))"

section \<open>Halting\<close>

definition reply_status :: "reply_fields \<Rightarrow> string" where
  "reply_status r = (case map_of r ''status'' of Some (JStr s) \<Rightarrow> s | _ \<Rightarrow> [])"

definition no_intents :: "reply_fields" where
  "no_intents = [(''intent_ids'', JArr []), (''execution_authorized'', JBool False)]"

definition stopped_reply :: "string \<Rightarrow> string \<Rightarrow> reply_fields" where
  "stopped_reply status reason = [(''status'', JStr status), (''reason'', JStr reason)] @ no_intents"

text \<open>\<open>_halt\<close>: the object stops at once, whether or not the database takes the mode (\<open>set_mode\<close> is not awaited, so every failure of it is an \<open>Exception\<close>).\<close>

definition halt_loop :: "'st trading_runtime \<Rightarrow> string \<Rightarrow> string \<Rightarrow> int \<Rightarrow> ('st, reply_fields) act" where
  "halt_loop tr aid reason t =
     act_bind (act_put (\<lambda>s. s\<lparr>lo_halt_reason := Some reason\<rparr>)) (\<lambda>_.
     act_bind (act_try
         (act_bind (from_call (transaction (set_mode_tx (ra_tenant (tr_actor tr)) aid HALTED reason None t)))
           (\<lambda>_. act_return True))
         (\<lambda>_. act_return False)) (\<lambda>persisted.
     act_return (stopped_reply ''halted'' reason @ [(''halt_persisted'', JBool persisted)])))"

section \<open>The strategy of the deployment\<close>

text \<open>
  The binding of the validated experiment: \<open>spec.get("engine", {}).get("name")\<close> and the other members.
  An \<open>engine\<close> member that is not an object raises \<open>AttributeError\<close>.
\<close>

definition bound_engine :: "json \<Rightarrow> json option result" where
  "bound_engine spec =
     (case jget spec ''engine'' of
        None \<Rightarrow> Inr None
      | Some (JObj kvs) \<Rightarrow> Inr (map_of kvs ''name'')
      | Some _ \<Rightarrow> Inl (OtherError ''AttributeError''))"

definition strategy_binding ::
  "hasher \<Rightarrow> 'st strategy \<Rightarrow> actor \<Rightarrow> deployment_manifest \<Rightarrow> json \<Rightarrow> unit result" where
  "strategy_binding sha sg ra m spec =
     bind (bound_engine spec) (\<lambda>engine.
     raise_if (engine \<noteq> Some (JStr ''nautilus'') \<or> jget spec ''strategy_version'' \<noteq> Some (JStr (dm_strategy_hash m)) \<or>
         jget spec ''instrument_spec_hashes'' \<noteq>
           Some (JArr [JStr (content_hash sha (instrument_json (ra_instrument ra)))]) \<or>
         content_hash sha (instrument_json (sg_instrument sg)) \<noteq> content_hash sha (instrument_json (ra_instrument ra)) \<or>
         content_hash sha (fees_json (sg_fees sg)) \<noteq> content_hash sha (fees_json (ra_fees ra)) \<or>
         sg_deployment_id sg \<noteq> ra_deployment_id ra)
       (ValueError ''runtime_validated_strategy_or_instrument_binding_mismatch''))"

text \<open>What \<open>_verify_strategy\<close> reads and checks.\<close>

definition strategy_evidence ::
  "'st trading_runtime \<Rightarrow> deployment_manifest \<Rightarrow> db \<Rightarrow> unit result" where
  "strategy_evidence tr m d =
     (let sha = tr_sha tr; ra = tr_actor tr; sg = tr_strategy tr; tenant = ra_tenant ra in
      bind (raise_if (\<not> sg_native sg) (ValueError ''runtime_requires_registered_shared_native_strategy'')) (\<lambda>_.
      bind (artifact_document sha tenant ''strategy'' (dm_strategy_hash m) d) (\<lambda>stored.
      bind (or_raise (parse_strategy stored) (ValueError ''StrategyArtifact'')) (\<lambda>artifact.
      bind (sg_verify_artifact sg artifact) (\<lambda>_.
      bind (artifact_document sha tenant ''validation'' (dm_validation_report_hash m) d) (\<lambda>report.
      bind (text_at report ''experiment_hash'') (\<lambda>experiment.
      bind (artifact_document sha tenant ''experiment_spec'' experiment d) (\<lambda>spec.
      strategy_binding sha sg ra m spec))))))))"

definition verify_strategy :: "'st trading_runtime \<Rightarrow> deployment_manifest \<Rightarrow> ('st, unit) act" where
  "verify_strategy tr m =
     (let digest = content_hash (tr_sha tr) (manifest_json m) in
      act_bind (act_get lo_verified) (\<lambda>verified.
      if verified = Some digest then act_return ()
      else act_bind (from_read (strategy_evidence tr m)) (\<lambda>_.
           act_put (\<lambda>s. s\<lparr>lo_verified := Some digest\<rparr>))))"

section \<open>Executing a step\<close>

type_synonym outcomes = "(string \<times> string) list"

definition outcome_json :: "string \<times> string \<Rightarrow> json" where
  "outcome_json oc = JObj [(''intent_id'', JStr (fst oc)), (''status'', JStr (snd oc))]"

definition step_reply :: "string \<Rightarrow> string \<Rightarrow> outcomes \<Rightarrow> deployment_manifest \<Rightarrow> bool \<Rightarrow> reply_fields" where
  "step_reply status identity outs m authorized =
     [(''status'', JStr status), (''step_id'', JStr identity),
      (''intent_ids'', JArr (map (\<lambda>oc. JStr (fst oc)) outs)), (''orders'', JArr (map outcome_json outs)),
      (''mode'', JStr (deployment_mode_text (dm_mode m))), (''execution_authorized'', JBool authorized)]"

definition put_fenced ::
  "'st trading_runtime \<Rightarrow> deployment_manifest \<Rightarrow> string \<Rightarrow> string \<Rightarrow> reply_fields \<Rightarrow> places \<Rightarrow>
   ('st, reply_fields) act" where
  "put_fenced tr m kind identity reply clk =
     act_bind (act_get lo_lease_token) (\<lambda>token.
     act_bind (from_call (transaction (put_fenced_tx (tr_sha tr) (tr_actor tr) token m kind identity (JObj reply) clk))) (\<lambda>_.
     act_return reply))"

text \<open>How one intent of the step ends: with an outcome, or with the reply of the whole step.\<close>

datatype intent_end = Outcome "string \<times> string" | Stopped reply_fields | Blocked string

definition current_adapter :: "'st trading_runtime \<Rightarrow> ('st, adapter) act" where
  "current_adapter tr = act_get (\<lambda>s. tr_venue tr (lo_book s))"

text \<open>\<open>oms.submit\<close> of a reserved intent and, on paper, the reconciliation that books its fills.\<close>

definition send_intent ::
  "'st trading_runtime \<Rightarrow> deployment_manifest \<Rightarrow> order_intent \<Rightarrow> places \<Rightarrow> ('st, intent_end) act" where
  "send_intent tr m intent clk =
     (let ra = tr_actor tr; sha = tr_sha tr; oid = oi_intent_id intent in
      act_bind (act_get lo_lease_token) (\<lambda>token.
      act_bind (current_adapter tr) (\<lambda>adapter.
      act_bind (from_call (submit sha (tr_oms tr) (ra_tenant ra) oid adapter (case token of None \<Rightarrow> [] | Some k \<Rightarrow> k)
                  None (\<lambda>n. clk [0, n]))) (\<lambda>view.
      let status = od_status (ov_row view) in
      if uncertain status
      then act_bind (halt_loop tr (dm_account_id m) ''runtime_order_outcome_unknown'' (clk [1])) (\<lambda>r. act_return (Stopped r))
      else if dm_mode m = paper \<and> status \<notin> {REJECTED, EXPIRED}
      then
        act_bind (from_call (reconcile sha (ra_tenant ra) (dm_account_id m) adapter (dm_venue m) None (clk [2]))) (\<lambda>_.
        act_bind (from_call (get_order sha (ra_tenant ra) oid)) (\<lambda>after.
        act_return (Outcome (oid, status_text (od_status (ov_row after))))))
      else act_return (Outcome (oid, status_text status))))))"

definition execute_intent ::
  "'st trading_runtime \<Rightarrow> deployment_manifest \<Rightarrow> market_snapshot \<Rightarrow> places \<Rightarrow> json \<Rightarrow> ('st, intent_end) act" where
  "execute_intent tr m market clk raw =
     (let ra = tr_actor tr; sha = tr_sha tr in
      act_bind (from_result (or_raise (parse_intent raw) (ValueError ''OrderIntent''))) (\<lambda>intent.
      act_bind (act_if_key_missing (from_call (get_order sha (ra_tenant ra) (oi_intent_id intent)))) (\<lambda>existing.
      if existing = None \<and> clk [0] \<ge> oi_valid_until_ns intent
      then act_return (Outcome (oi_intent_id intent, ''EXPIRED_UNSENT''))
      else
        act_bind (act_try
            (act_bind (from_call (reserve sha (tr_oms tr) (ra_tenant ra) intent (ra_instrument ra) (ra_fees ra) m market
                         None (\<lambda>n. clk [1, n]))) (\<lambda>_. act_return None))
            (\<lambda>e. if is_budget_stop e then act_return (Some (error_text e)) else act_raise e)) (\<lambda>refused.
        case refused of
          Some reason \<Rightarrow> act_return (Blocked reason)
        | None \<Rightarrow> send_intent tr m intent (\<lambda>p. clk (2 # p))))))"

text \<open>The loop over the intents: the outcomes, or the reply the step ends with.\<close>

fun execute_intents ::
  "'st trading_runtime \<Rightarrow> deployment_manifest \<Rightarrow> string \<Rightarrow> market_snapshot \<Rightarrow> places \<Rightarrow> outcomes \<Rightarrow> json list \<Rightarrow>
   ('st, outcomes + reply_fields) act" where
  "execute_intents tr m identity market clk outs [] = act_return (Inl outs)"
| "execute_intents tr m identity market clk outs (raw # raws) =
     act_bind (execute_intent tr m market (\<lambda>p. clk (0 # p)) raw) (\<lambda>ended.
     case ended of
       Outcome oc \<Rightarrow> execute_intents tr m identity market (\<lambda>p. clk (1 # p)) (outs @ [oc]) raws
     | Stopped reply \<Rightarrow> act_return (Inr reply)
     | Blocked reason \<Rightarrow>
         act_bind (put_fenced tr m ''trading_step_complete'' identity
             (step_reply ''blocked'' identity outs m False @ [(''reason'', JStr reason)]) (\<lambda>p. clk (2 # p)))
           (\<lambda>reply. act_return (Inr reply)))"

definition duplicate_reply :: "json \<Rightarrow> reply_fields result" where
  "duplicate_reply document =
     (case document of
        JObj kvs \<Rightarrow> Inr ((''status'', JStr ''duplicate'') # filter (\<lambda>(k, _). k \<noteq> ''status'') kvs)
      | _ \<Rightarrow> Inl (TypeError ''mapping''))"

text \<open>\<open>_execute\<close>\<close>

definition execute_step ::
  "'st trading_runtime \<Rightarrow> deployment_manifest \<Rightarrow> string \<Rightarrow> json \<Rightarrow> market_snapshot \<Rightarrow> places \<Rightarrow>
   ('st, reply_fields) act" where
  "execute_step tr m identity payload market clk =
     (let tenant = ra_tenant (tr_actor tr) in
      act_bind (act_if_key_missing (from_read (artifact_document (tr_sha tr) tenant ''trading_step_complete'' identity))) (\<lambda>finished.
      case finished of
        Some document \<Rightarrow> from_result (duplicate_reply document)
      | None \<Rightarrow>
          act_bind (from_result (json_member payload ''intents'')) (\<lambda>listed.
          act_bind (from_result (case listed of JArr raws \<Rightarrow> Inr raws | _ \<Rightarrow> Inl (TypeError ''intents''))) (\<lambda>raws.
          act_bind (execute_intents tr m identity market (\<lambda>p. clk (0 # p)) [] raws) (\<lambda>ended.
          case ended of
            Inr reply \<Rightarrow> act_return reply
          | Inl outs \<Rightarrow>
              put_fenced tr m ''trading_step_complete'' identity
                (step_reply (if outs = [] then ''no_signal'' else ''processed'') identity outs m (dm_mode m = paper))
                (\<lambda>p. clk (1 # p)))))))"

section \<open>Processing an event\<close>

definition bad_data :: "string list" where
  "bad_data = [''BOOK_INVALID'', ''SEQUENCE_GAP'', ''STALE'', ''CLOCK_INVALID'', ''RECONSTRUCTED_RECEIPT'']"

definition untrusted_data ::
  "hasher \<Rightarrow> actor \<Rightarrow> deployment_manifest \<Rightarrow> market_event \<Rightarrow> market_snapshot \<Rightarrow> int \<Rightarrow> bool" where
  "untrusted_data sha ra m event market now \<longleftrightarrow>
     me_venue event \<noteq> dm_venue m \<or> me_instrument event \<noteq> is_instrument (ra_instrument ra) \<or>
     mk_venue market \<noteq> dm_venue m \<or> mk_instrument market \<noteq> is_instrument (ra_instrument ra) \<or>
     mk_instrument_spec_hash market \<noteq> content_hash sha (instrument_json (ra_instrument ra)) \<or>
     mk_fee_schedule_hash market \<noteq> content_hash sha (fees_json (ra_fees ra)) \<or>
     \<not> mk_book_valid market \<or> \<not> (0 \<le> now - mk_asof_ns market \<and> now - mk_asof_ns market \<le> ra_maximum_data_age_ns ra) \<or>
     \<not> (0 \<le> now - me_received_ts_ns event \<and> now - me_received_ts_ns event \<le> ra_maximum_data_age_ns ra) \<or>
     me_exchange_ts_ns event > me_received_ts_ns event \<or>
     list_ex (\<lambda>f. f \<in> set bad_data) (me_quality_flags event)"

text \<open>Claiming the lease; \<open>fresh\<close> is the new token's text.\<close>

definition claim_lease :: "'st trading_runtime \<Rightarrow> deployment_manifest \<Rightarrow> string \<Rightarrow> int \<Rightarrow> ('st, unit) act" where
  "claim_lease tr m fresh t s d =
     (let ra = tr_actor tr in
      case claim_account (lo_tokens s) (ra_tenant ra) (dm_account_id m) (ra_owner ra) 300 None fresh t d of
        (Inl e, tokens, d') \<Rightarrow> (Inl e, s\<lparr>lo_tokens := tokens\<rparr>, d')
      | (Inr token, tokens, d') \<Rightarrow>
          if lo_lease_token s \<noteq> None \<and> token \<noteq> lo_lease_token s
          then (Inl (ConflictError ''runtime_execution_lease_changed_requires_restart''), s\<lparr>lo_tokens := tokens\<rparr>, d')
          else (Inr (), s\<lparr>lo_tokens := tokens, lo_lease_token := token\<rparr>, d'))"

definition update_book ::
  "'st trading_runtime \<Rightarrow> market_snapshot \<Rightarrow> depth_view \<Rightarrow> ('st, unit) act" where
  "update_book tr market book =
     (let ra = tr_actor tr in
      act_bind (from_result (set_book (tr_sha tr) market (ra_instrument ra) (ra_fees ra) (dv_bids book) (dv_asks book)))
        (\<lambda>b. act_put (\<lambda>s. s\<lparr>lo_book := Some b\<rparr>)))"

definition publish_health ::
  "'st trading_runtime \<Rightarrow> deployment_manifest \<Rightarrow> market_event \<Rightarrow> market_snapshot \<Rightarrow> places \<Rightarrow> ('st, unit) act" where
  "publish_health tr m event market clk =
     (let ra = tr_actor tr in
      act_bind (from_call (transaction (health_tx (ra_tenant ra) (''market:'' @ mk_venue market @ '':'' @ mk_instrument market)
                  (market_json market) (clk [0])))) (\<lambda>_.
      from_call (transaction (health_tx (ra_tenant ra) (''trading:'' @ ra_deployment_id ra)
        (JObj [(''healthy'', JBool True), (''owner'', JStr (ra_owner ra)),
               (''received_ts_ns'', JInt (me_received_ts_ns event)),
               (''mode'', JStr (deployment_mode_text (dm_mode m)))]) (clk [1])))))"

text \<open>The reconciliation pages at the start of an event: at most 1000 of them.\<close>

fun reconcile_pages ::
  "'st trading_runtime \<Rightarrow> deployment_manifest \<Rightarrow> places \<Rightarrow> nat \<Rightarrow> string option \<Rightarrow> ('st, unit) act" where
  "reconcile_pages tr m clk 0 cursor = act_raise (ValueError ''paper_reconciliation_page_limit_exceeded'')"
| "reconcile_pages tr m clk (Suc n) cursor =
     act_bind (current_adapter tr) (\<lambda>adapter.
     act_bind (from_call (reconcile (tr_sha tr) (ra_tenant (tr_actor tr)) (dm_account_id m) adapter (dm_venue m) cursor (clk [0])))
       (\<lambda>(complete, following).
     if complete then act_return () else reconcile_pages tr m (\<lambda>p. clk (1 # p)) n (rc_cursor following)))"

definition step_document ::
  "actor \<Rightarrow> market_event \<Rightarrow> market_snapshot \<Rightarrow> signal_intent list \<Rightarrow> order_intent list \<Rightarrow> depth_view option \<Rightarrow>
   (string \<times> json) list \<Rightarrow> json" where
  "step_document ra event market signals intents book state =
     JObj [(''deployment_id'', JStr (ra_deployment_id ra)), (''event'', event_json event), (''market'', market_json market),
           (''signals'', JArr (map signal_json signals)), (''intents'', JArr (map intent_json intents)),
           (''book'', jopt depth_view_json book), (''state'', strategy_state_json state)]"

text \<open>A new event: the strategy's signals, sized, checkpointed and executed.\<close>

definition decide ::
  "'st trading_runtime \<Rightarrow> deployment_manifest \<Rightarrow> string \<Rightarrow> market_event \<Rightarrow> market_snapshot \<Rightarrow> depth_view option \<Rightarrow>
   int \<Rightarrow> places \<Rightarrow> ('st, reply_fields) act" where
  "decide tr m identity event market book now clk =
     (let ra = tr_actor tr; sg = tr_strategy tr in
      act_bind (from_read (balances (ra_tenant ra) (dm_account_id m))) (\<lambda>view.
      act_bind (act_strategy (sg_set_portfolio sg (dict_get (bv_wallet view) (is_quote_asset (ra_instrument ra)))
                  (dict_get (bv_wallet view) (is_base_asset (ra_instrument ra))) now)) (\<lambda>_.
      act_bind (act_strategy (sg_on_event sg event)) (\<lambda>returned.
      act_bind (from_result (or_raise returned (ValueError ''strategy_must_return_typed_signal_intents''))) (\<lambda>signals.
      act_bind (act_get lo_lease_token) (\<lambda>token.
      act_bind (if signals = [] then act_return []
                else from_read (plan_orders (tr_sha tr) ra token m signals event market (\<lambda>n. clk [0, n]))) (\<lambda>intents.
      act_bind (act_get (\<lambda>s. sg_snapshot sg (lo_strategy s))) (\<lambda>state.
      let payload = step_document ra event market signals intents book state in
      act_bind (checkpoint tr m identity (me_received_ts_ns event) payload (\<lambda>p. clk (1 # p))) (\<lambda>_.
      execute_step tr m identity payload market (\<lambda>p. clk (2 # p)))))))))))"

text \<open>After recovery: the event is a known step, late, or new.\<close>

definition advance ::
  "'st trading_runtime \<Rightarrow> deployment_manifest \<Rightarrow> json option \<Rightarrow> market_event \<Rightarrow> market_snapshot \<Rightarrow> depth_view option \<Rightarrow>
   int \<Rightarrow> places \<Rightarrow> ('st, reply_fields) act" where
  "advance tr m head event market book now clk =
     (let ra = tr_actor tr; sha = tr_sha tr;
          identity = content_hash sha (JArr [JStr (ra_tenant ra), JStr (ra_deployment_id ra),
            JStr (content_hash sha (event_json event))]) in
      act_bind (act_if_key_missing (from_read (artifact_document sha (ra_tenant ra) ''trading_step'' identity))) (\<lambda>previous.
      case previous of
        Some payload \<Rightarrow> execute_step tr m identity payload market (\<lambda>p. clk (0 # p))
      | None \<Rightarrow>
          act_bind (case head of None \<Rightarrow> act_return False
                    | Some h \<Rightarrow> act_bind (from_result (int_at h ''received_ts_ns''))
                                  (\<lambda>seen. act_return (me_received_ts_ns event < seen))) (\<lambda>late.
          if late then halt_loop tr (dm_account_id m) ''runtime_event_receipt_order_regression'' (clk [1])
          else decide tr m identity event market book now (\<lambda>p. clk (2 # p)))))"

text \<open>Recovery: the last checkpointed step is executed first, with its own orders.\<close>

definition recover ::
  "'st trading_runtime \<Rightarrow> deployment_manifest \<Rightarrow> market_event \<Rightarrow> market_snapshot \<Rightarrow> depth_view option \<Rightarrow> int \<Rightarrow>
   places \<Rightarrow> ('st, reply_fields) act" where
  "recover tr m event market book now clk =
     (let ra = tr_actor tr in
      act_bind (act_get lo_restored) (\<lambda>restored.
      act_bind (if restored then from_read (\<lambda>d. Inr (runtime_head ra d)) else restore tr) (\<lambda>head.
      act_bind (case head of
          None \<Rightarrow> act_return None
        | Some h \<Rightarrow>
            act_bind (from_result (text_at h ''step_id'')) (\<lambda>last.
            act_bind (from_read (artifact_document (tr_sha tr) (ra_tenant ra) ''trading_step'' last)) (\<lambda>prior.
            act_bind (execute_step tr m last prior market (\<lambda>p. clk (0 # p))) (\<lambda>reply.
            act_return (if reply_status reply = ''halted'' then Some reply else None))))) (\<lambda>halted.
      case halted of
        Some reply \<Rightarrow> act_return reply
      | None \<Rightarrow> advance tr m head event market book now (\<lambda>p. clk (1 # p))))))"

text \<open>The body of the \<open>try\<close>.\<close>

definition handle_event ::
  "'st trading_runtime \<Rightarrow> deployment_manifest \<Rightarrow> market_event \<Rightarrow> market_snapshot \<Rightarrow> depth_view option \<Rightarrow> string \<Rightarrow>
   int \<Rightarrow> places \<Rightarrow> ('st, reply_fields) act" where
  "handle_event tr m event market book fresh now clk =
     act_bind (claim_lease tr m fresh (clk [0])) (\<lambda>_.
     act_bind (case book of
         Some b \<Rightarrow> if dm_mode m = paper then update_book tr market b else act_return ()
       | None \<Rightarrow> act_return ()) (\<lambda>_.
     act_bind (publish_health tr m event market (\<lambda>p. clk (1 # p))) (\<lambda>_.
     if \<not> sg_accepts (tr_strategy tr) (me_event_type event)
     then act_return [(''status'', JStr ''market_updated''), (''intent_ids'', JArr []),
                      (''mode'', JStr (deployment_mode_text (dm_mode m)))]
     else
       act_bind (if dm_mode m = paper then reconcile_pages tr m (\<lambda>p. clk (2 # p)) 1000 None else act_return ()) (\<lambda>_.
       recover tr m event market book now (\<lambda>p. clk (3 # p))))))"

fun contains_text :: "string \<Rightarrow> string \<Rightarrow> bool" where
  "contains_text p [] = (p = [])"
| "contains_text p (c # s) = (take (length p) (c # s) = p \<or> contains_text p s)"

text \<open>The \<open>except\<close> clauses, in their order.\<close>

definition handle_failure ::
  "'st trading_runtime \<Rightarrow> deployment_manifest \<Rightarrow> int \<Rightarrow> error \<Rightarrow> ('st, reply_fields) act" where
  "handle_failure tr m t e =
     (let aid = dm_account_id m in
      if is_conflict e
      then if contains_text ''lease'' (error_text e) \<or> contains_text ''checkpoint_head'' (error_text e)
           then act_return [(''status'', JStr ''blocked''), (''reason'', JStr (error_text e)), (''intent_ids'', JArr [])]
           else halt_loop tr aid (error_text e) t
      else if is_value_error e \<or> is_key_error e
      then act_bind (act_put (\<lambda>s. s\<lparr>lo_restored := False\<rparr>)) (\<lambda>_. halt_loop tr aid (error_text e) t)
      else if is_database_error e
      then halt_loop tr aid (''runtime_database_unavailable:'' @ error_name e) t
      else act_raise e)"

text \<open>\<open>verify_deployment\<close> and \<open>_verify_strategy\<close> at the start: the manifest, or the reason it is refused.\<close>

definition authorize ::
  "'st trading_runtime \<Rightarrow> int \<Rightarrow> ('st, string + deployment_manifest) act" where
  "authorize tr t =
     (let ra = tr_actor tr in
      act_try
        (act_bind (from_read (verify_deployment (tr_sha tr) (tr_mac tr) (tr_releases tr) (ra_tenant ra) (ra_deployment_id ra) t)) (\<lambda>m.
         act_bind (verify_strategy tr m) (\<lambda>_. act_return (Inr m))))
        (\<lambda>e. if is_value_error e \<or> is_key_error e then act_return (Inl (error_text e)) else act_raise e))"

text \<open>What \<open>process\<close> does with the manifest it was given, or with the reason there is none.\<close>

definition dispatch ::
  "'st trading_runtime \<Rightarrow> market_event \<Rightarrow> market_snapshot \<Rightarrow> depth_view option \<Rightarrow> string \<Rightarrow> places \<Rightarrow>
   string + deployment_manifest \<Rightarrow> ('st, reply_fields) act" where
  "dispatch tr event market book fresh clk verdict =
     (case verdict of
        Inl reason \<Rightarrow> act_return (stopped_reply ''blocked'' reason)
      | Inr m \<Rightarrow>
          if dm_mode m \<notin> {paper, shadow}
          then halt_loop tr (dm_account_id m) ''runtime_funded_execution_not_enabled'' (clk [1])
          else
            act_bind (current_adapter tr) (\<lambda>adapter.
            if dm_mode m = paper \<and> ad_execution_mode adapter \<noteq> Some ''paper''
            then halt_loop tr (dm_account_id m) ''runtime_requires_paper_adapter'' (clk [1])
            else
              let now = clk [2] in
              if untrusted_data (tr_sha tr) (tr_actor tr) m event market now
              then halt_loop tr (dm_account_id m) ''runtime_market_data_untrusted_or_stale'' (clk [1])
              else act_try (handle_event tr m event market book fresh now (\<lambda>p. clk (3 # p)))
                     (handle_failure tr m (clk [1]))))"

text \<open>\<open>process\<close>\<close>

definition process ::
  "'st trading_runtime \<Rightarrow> market_event \<Rightarrow> market_snapshot \<Rightarrow> depth_view option \<Rightarrow> string \<Rightarrow> places \<Rightarrow>
   ('st, reply_fields) act" where
  "process tr event market book fresh clk =
     act_bind (act_get lo_halt_reason) (\<lambda>halted.
     case halted of
       Some reason \<Rightarrow> act_return (stopped_reply ''halted'' reason)
     | None \<Rightarrow> act_bind (authorize tr (clk [0])) (dispatch tr event market book fresh clk))"

section \<open>Building the object\<close>

text \<open>
  \<open>runtime_for_deployment\<close>: \<open>factory\<close> stands for \<open>strategy_for_deployment\<close>, \<open>owner\<close> is the fresh worker
  name, and \<open>vt\<close> what the venue's clock reads.
\<close>

definition runtime_for_deployment ::
  "hasher \<Rightarrow> mac \<Rightarrow> deployment_registry \<Rightarrow> oms_config \<Rightarrow> string \<Rightarrow>
   (deployment_manifest \<Rightarrow> db \<Rightarrow> ('st strategy \<times> instrument_spec \<times> fee_schedule) result) \<Rightarrow> string \<Rightarrow> int \<Rightarrow>
   string \<Rightarrow> (nat \<Rightarrow> int) \<Rightarrow> 'st trading_runtime call" where
  "runtime_for_deployment sha mac reg cf tenant factory owner vt deployment_id clk =
     call_bind (\<lambda>d. (verify_deployment sha mac reg tenant deployment_id (clk 0) d, d)) (\<lambda>m.
     if dm_mode m \<notin> {paper, shadow} then raise_call (ValueError ''runtime_factory_funded_execution_not_enabled'')
     else
       call_bind (\<lambda>d. (factory m d, d)) (\<lambda>(strategy, instrument, fees).
       call_bind (if dm_mode m = paper
                  then call_bind (transaction (create_account_tx sha tenant (dm_account_id m) (rb_capital (dm_risk_budget m))
                         (is_quote_asset instrument) (clk 1))) (\<lambda>_. return_call ())
                  else call_bind (\<lambda>d. (balances tenant (dm_account_id m) d, d)) (\<lambda>_. return_call ())) (\<lambda>_.
       call_bind (\<lambda>d. (make_actor tenant deployment_id instrument fees owner 1000000000, d)) (\<lambda>ra.
       return_call \<lparr>tr_actor = ra, tr_sha = sha, tr_mac = mac, tr_releases = reg, tr_oms = cf,
         tr_venue = (\<lambda>b. paper_adapter sha tenant b vt), tr_strategy = strategy\<rparr>))))"

end
