(* ===== verification/Runtime_Props.thy ===== *)
theory Runtime_Props
  imports Runtime
begin

text \<open>
  What the event loop promises: it is a client of the order management system (its database effects
  are sequences of that system's transactions), it stops and stays stopped, it answers every expected
  failure with a reply, and a restart replays the orders that were checkpointed.
\<close>

section \<open>Acts made of steps\<close>

definition safe_act :: "hasher \<Rightarrow> oms_config \<Rightarrow> ('st, 'a) act \<Rightarrow> bool" where
  "safe_act sha cf m \<longleftrightarrow> (\<forall>s d. oms_inv d \<longrightarrow> (oms_step sha cf)\<^sup>*\<^sup>* d (snd (snd (m s d))))"

named_theorems act_intros "acts that are sequences of steps"

lemma safe_actI: "(\<And>s d. oms_inv d \<Longrightarrow> (oms_step sha cf)\<^sup>*\<^sup>* d (snd (snd (m s d)))) \<Longrightarrow> safe_act sha cf m"
  by (simp add: safe_act_def)

lemma safe_act_steps:
  assumes "safe_act sha cf m" and "oms_inv d" and "m s d = (r, s', d')"
  shows "(oms_step sha cf)\<^sup>*\<^sup>* d d'" and "oms_inv d'"
  using assms oms.inv_steps[of sha cf d d'] unfolding safe_act_def by (metis snd_conv)+

lemma safe_act_pure [act_intros]:
  "safe_act sha cf (act_return x)" "safe_act sha cf (act_raise e)" "safe_act sha cf (from_read f)"
  "safe_act sha cf (from_result r)" "safe_act sha cf (act_get g)" "safe_act sha cf (act_put p)"
  "safe_act sha cf (act_strategy h)"
  by (simp_all add: safe_act_def act_return_def act_raise_def from_read_def from_result_def act_get_def act_put_def
      act_strategy_def split: prod.splits)

lemma safe_act_call [act_intros]: "safe_call sha cf c \<Longrightarrow> safe_act sha cf (from_call c)"
  by (auto simp: safe_call_def safe_act_def from_call_def split: prod.splits)

lemma safe_act_bind [act_intros]:
  assumes "safe_act sha cf m" and "\<And>x. safe_act sha cf (f x)"
  shows "safe_act sha cf (act_bind m f)"
proof (rule safe_actI)
  fix s d assume inv: "oms_inv d"
  obtain r s1 d1 where m: "m s d = (r, s1, d1)" by (metis prod_cases3)
  note one = safe_act_steps[OF assms(1) inv m]
  show "(oms_step sha cf)\<^sup>*\<^sup>* d (snd (snd (act_bind m f s d)))"
  proof (cases r)
    case (Inr x)
    have "(oms_step sha cf)\<^sup>*\<^sup>* d1 (snd (snd (f x s1 d1)))" using assms(2) one(2) by (simp add: safe_act_def)
    with one(1) show ?thesis using m Inr by (simp add: act_bind_def)
  qed (use one m in \<open>simp add: act_bind_def\<close>)
qed

lemma safe_act_try [act_intros]:
  assumes "safe_act sha cf m" and "\<And>e. safe_act sha cf (h e)"
  shows "safe_act sha cf (act_try m h)"
proof (rule safe_actI)
  fix s d assume inv: "oms_inv d"
  obtain r s1 d1 where m: "m s d = (r, s1, d1)" by (metis prod_cases3)
  note one = safe_act_steps[OF assms(1) inv m]
  show "(oms_step sha cf)\<^sup>*\<^sup>* d (snd (snd (act_try m h s d)))"
  proof (cases r)
    case (Inl e)
    have "(oms_step sha cf)\<^sup>*\<^sup>* d1 (snd (snd (h e s1 d1)))" using assms(2) one(2) by (simp add: safe_act_def)
    with one(1) show ?thesis using m Inl by (simp add: act_try_def)
  qed (use one m in \<open>simp add: act_try_def\<close>)
qed

lemma safe_act_branches [act_intros]:
  "\<lbrakk>b \<Longrightarrow> safe_act sha cf f; \<not> b \<Longrightarrow> safe_act sha cf g\<rbrakk> \<Longrightarrow> safe_act sha cf (if b then f else g)"
  "\<lbrakk>safe_act sha cf f; \<And>x. safe_act sha cf (k x)\<rbrakk> \<Longrightarrow> safe_act sha cf (case v of None \<Rightarrow> f | Some x \<Rightarrow> k x)"
  "\<lbrakk>\<And>e. safe_act sha cf (l e); \<And>x. safe_act sha cf (k' x)\<rbrakk> \<Longrightarrow> safe_act sha cf (case w of Inl e \<Rightarrow> l e | Inr x \<Rightarrow> k' x)"
  "\<lbrakk>\<And>x y. safe_act sha cf (q x y)\<rbrakk> \<Longrightarrow> safe_act sha cf (case pr of (x, y) \<Rightarrow> q x y)"
  by (auto split: option.split sum.split prod.split)

lemma safe_act_key [act_intros]: "safe_act sha cf m \<Longrightarrow> safe_act sha cf (act_if_key_missing m)"
  unfolding act_if_key_missing_def by (intro act_intros)

text \<open>Transactions that touch neither accounts nor orders nor books, and the other transactions of the loop.\<close>

lemma step_quiet: "f d = Inr (x, d') \<Longrightarrow> (\<And>y e. f d = Inr (y, e) \<Longrightarrow> accounts e = accounts d \<and> orders e = orders d \<and> books e = books d) \<Longrightarrow>
    oms_step sha cf d d'"
  by (rule step_other) simp_all

lemma quiet_transactions [safe_intros]:
  "safe_call sha cf (transaction (put_fenced_tx sha' ra token m kind identity payload clk))"
  "safe_call sha cf (transaction (checkpoint_tx sha' ra token known m identity received' payload clk))"
  "safe_call sha cf (transaction (health_tx tenant name document t))"
  by (rule safe_transaction, erule step_quiet,
      force simp: put_fenced_tx_def checkpoint_tx_def health_tx_def insert_document_def bind_eq_Inr Let_def books_def add_event_def)+

lemma loop_transactions [safe_intros]:
  "safe_call sha cf (transaction (set_mode_tx tenant aid mode reason dep t))"
  "safe_call sha cf (transaction (reserve_tx sha cf tenant intent instrument fees deployment market now_ns t))"
  by (rule safe_transaction, erule step_mode) (rule safe_transaction, erule step_reserve)

lemma safe_reserve [safe_intros]:
  "safe_call sha cf (reserve sha cf tenant intent instrument fees deployment market now_ns clk)"
  unfolding reserve_def Let_def by (intro safe_intros)

lemma claim_account_db:
  "snd (snd (claim_account tokens tenant aid owner ttl k fresh t d)) =
     snd (transaction (claim_account_tx tenant aid owner ttl k
       (case map_of tokens (tenant, aid, owner) of None \<Rightarrow> None | Some known \<Rightarrow> known) fresh t) d)"
  by (simp add: claim_account_def Let_def split: prod.split sum.split)

lemma claim_lease_db:
  "snd (snd (claim_lease tr m fresh t s d)) = snd (snd (claim_account (lo_tokens s) (ra_tenant (tr_actor tr)) (dm_account_id m)
     (ra_owner (tr_actor tr)) 300 None fresh t d))"
  by (simp add: claim_lease_def Let_def split: prod.split sum.split)

lemma safe_claim_lease [act_intros]: "safe_act sha cf (claim_lease tr m fresh t)"
proof (rule safe_actI)
  fix s :: "'a loop_state" and d assume inv: "oms_inv d"
  show "(oms_step sha cf)\<^sup>*\<^sup>* d (snd (snd (claim_lease tr m fresh t s d)))"
    unfolding claim_lease_db claim_account_db by (rule safe_at[OF safe_transaction inv]) (erule step_claim)
qed

lemma safe_halt [act_intros]: "safe_act sha cf (halt_loop tr aid reason t)"
  unfolding halt_loop_def by (intro act_intros safe_intros)

lemma safe_put_fenced [act_intros]: "safe_act sha cf (put_fenced tr m kind identity reply clk)"
  unfolding put_fenced_def by (intro act_intros safe_intros)

section \<open>The event loop against any venue\<close>

locale runtime_venue =
  fixes tr :: "'st trading_runtime"
  assumes venue_steps: "venue_adapter (tr_venue tr b) (tr_sha tr) (tr_oms tr)"
begin

abbreviation safe :: "('st, 'a) act \<Rightarrow> bool" where
  "safe \<equiv> safe_act (tr_sha tr) (tr_oms tr)"

lemma safe_with_adapter: "(\<And>b. safe (f (tr_venue tr b))) \<Longrightarrow> safe (act_bind (current_adapter tr) f)"
  by (simp add: safe_act_def act_bind_def current_adapter_def act_get_def)

lemma safe_send: "safe (send_intent tr m intent clk)"
  unfolding send_intent_def Let_def
  by (intro safe_act_bind[OF safe_act_pure(5)] safe_with_adapter)
     (intro act_intros safe_intros venue_adapter.safe_submit[OF venue_steps] venue_adapter.safe_reconcile[OF venue_steps])

lemma safe_pages: "safe (reconcile_pages tr m clk n cursor)"
proof (induction n arbitrary: clk cursor)
  case (Suc n)
  then show ?case unfolding reconcile_pages.simps
    by (intro safe_with_adapter act_intros venue_adapter.safe_reconcile[OF venue_steps])
qed (simp add: act_intros)

lemma safe_execute_intent: "safe (execute_intent tr m market clk raw)"
  unfolding execute_intent_def Let_def by (intro act_intros safe_intros safe_send)

lemma safe_execute_intents: "safe (execute_intents tr m identity market clk outs raws)"
proof (induction raws arbitrary: clk outs)
  case (Cons raw raws)
  show ?case unfolding execute_intents.simps
  proof (rule safe_act_bind[OF safe_execute_intent])
    fix ended
    show "safe (case ended of Outcome oc \<Rightarrow> execute_intents tr m identity market (\<lambda>p. clk (1 # p)) (outs @ [oc]) raws
       | Stopped reply \<Rightarrow> act_return (Inr reply)
       | Blocked reason \<Rightarrow> act_bind (put_fenced tr m ''trading_step_complete'' identity
           (step_reply ''blocked'' identity outs m False @ [(''reason'', JStr reason)]) (\<lambda>p. clk (2 # p)))
           (\<lambda>reply. act_return (Inr reply)))"
      by (cases ended) (simp_all add: Cons.IH, (intro act_intros)+)
  qed
qed (simp add: act_intros)

lemma safe_execute_step: "safe (execute_step tr m identity payload market clk)"
  unfolding execute_step_def Let_def by (intro act_intros safe_execute_intents)

lemma safe_handle: "safe (handle_event tr m event market book fresh now clk)"
  unfolding handle_event_def recover_def advance_def decide_def restore_def checkpoint_def update_book_def publish_health_def Let_def
  by (intro act_intros safe_intros safe_execute_step safe_pages)

lemma safe_process: "safe (process tr event market book fresh clk)"
  unfolding process_def dispatch_def authorize_def verify_strategy_def handle_failure_def Let_def
  by (intro safe_act_bind[OF safe_act_pure(5)] safe_with_adapter act_intros safe_handle)

end

interpretation paper_loop: runtime_venue "tr\<lparr>tr_venue := \<lambda>b. paper_adapter sha' tenant b t\<rparr>"
  for tr :: "'st trading_runtime" and sha' tenant t
  by (intro runtime_venue.intro) (simp add: paper.venue_adapter_axioms)

text \<open>
  C34: the event loop is a client of the order management system.  Whatever the event, the strategy, the
  checkpoints it finds and the clocks, processing an event on the paper venue takes a reachable
  database to a reachable one: leases, checkpoints, sizing, reservations, submissions, reconciliations
  and halts compose to a sequence of atomic transactions, so the holds, fills and ledger stay
  consistent also when the loop ends in an error or a halt.
\<close>

theorem event_loop_refines_transactions:
  assumes "(oms_step (tr_sha tr) (tr_oms tr))\<^sup>*\<^sup>* empty_db d"
    and "tr_venue tr = (\<lambda>b. paper_adapter sha' venue_tenant b vt)"
    and "process tr event market book fresh clk s d = (r, s', d')"
  shows "(oms_step (tr_sha tr) (tr_oms tr))\<^sup>*\<^sup>* empty_db d' \<and> holds_match d' \<and> fills_match d' \<and> ledger_balanced d'"
proof -
  have same: "tr\<lparr>tr_venue := \<lambda>b. paper_adapter sha' venue_tenant b vt\<rparr> = tr" using assms(2) by simp
  have safe: "safe_act (tr_sha tr) (tr_oms tr) (process tr event market book fresh clk)"
    using paper_loop.safe_process[where tr = tr and sha' = sha' and tenant = venue_tenant and t = vt] unfolding same by blast
  note inv = oms.inv_reachable[OF assms(1)]
  have "(oms_step (tr_sha tr) (tr_oms tr))\<^sup>*\<^sup>* empty_db d'"
    using assms(1) safe_act_steps(1)[OF safe inv assms(3)] by (meson rtranclp_trans)
  then show ?thesis using oms.inv_reachable oms_invD by blast
qed

section \<open>The loop answers and stops\<close>

lemma act_bind_cases:
  assumes "act_bind m f s d = (r, s', d')"
  obtains (raises) e where "m s d = (Inl e, s', d')" "r = Inl e"
  | (goes_on) x s1 d1 where "m s d = (Inr x, s1, d1)" "f x s1 d1 = (r, s', d')"
  using assms by (auto simp: act_bind_def split: prod.splits sum.splits)

lemma halt_loop_result:
  "\<exists>persisted d'. halt_loop tr aid reason t s d =
     (Inr (stopped_reply ''halted'' reason @ [(''halt_persisted'', JBool persisted)]), s\<lparr>lo_halt_reason := Some reason\<rparr>, d') \<and>
     orders d' = orders d \<and> fills d' = fills d \<and> artifacts d' = artifacts d"
proof (cases rule: transaction_cases[of "set_mode_tx (ra_tenant (tr_actor tr)) aid HALTED reason None t" d])
  case (rollback e)
  then show ?thesis
    by (auto simp: halt_loop_def act_bind_def act_put_def act_try_def from_call_def act_return_def intro: exI[of _ False])
next
  case (commit x d')
  have "orders d' = orders d \<and> fills d' = fills d \<and> artifacts d' = artifacts d"
    using commit(1) by (auto simp: set_mode_tx_def bind_eq_Inr update_account_def add_event_def raise_if_eq_Inr split: if_splits)
  then show ?thesis using commit(2)
    by (auto simp: halt_loop_def act_bind_def act_put_def act_try_def from_call_def act_return_def intro: exI[of _ True])
qed

text \<open>What holds of the value and the fields when an act returns, from fields that satisfy \<open>P\<close>.\<close>

definition returns :: "('st loop_state \<Rightarrow> bool) \<Rightarrow> ('st, 'a) act \<Rightarrow> ('a \<Rightarrow> 'st loop_state \<Rightarrow> bool) \<Rightarrow> bool" where
  "returns P m Q \<longleftrightarrow> (\<forall>s d x s' d'. P s \<longrightarrow> m s d = (Inr x, s', d') \<longrightarrow> Q x s')"

lemma returnsD: "returns P m Q \<Longrightarrow> P s \<Longrightarrow> m s d = (Inr x, s', d') \<Longrightarrow> Q x s'"
  unfolding returns_def by blast

lemma returns_any: "returns P m (\<lambda>_ _. True)"
  by (simp add: returns_def)

lemma returns_bind:
  assumes "returns P m Q" and "\<And>x. returns (Q x) (f x) R"
  shows "returns P (act_bind m f) R"
  unfolding returns_def
proof (intro allI impI)
  fix s d y s' d' assume "P s" and run: "act_bind m f s d = (Inr y, s', d')"
  show "R y s'" using run
  proof (cases rule: act_bind_cases)
    case (goes_on x s1 d1)
    then show ?thesis using returnsD[OF assms(1) \<open>P s\<close>] returnsD[OF assms(2)] by blast
  qed simp
qed

lemma returns_then: "(\<And>x. returns (\<lambda>_. True) (f x) R) \<Longrightarrow> returns P (act_bind m f) R"
  using returns_bind[OF returns_any] by blast

lemma returns_return: "(\<And>s. P s \<Longrightarrow> Q x s) \<Longrightarrow> returns P (act_return x) Q"
  by (simp add: returns_def act_return_def)

lemma returns_raise: "returns P (act_raise e) Q" and returns_result: "returns P (from_result r) Q" if "\<And>x s. r = Inr x \<Longrightarrow> Q x s"
  using that by (simp_all add: returns_def act_raise_def from_result_def)

lemma returns_try: "returns P m R \<Longrightarrow> (\<And>e. returns (\<lambda>_. True) (h e) R) \<Longrightarrow> returns P (act_try m h) R"
  unfolding returns_def act_try_def by (auto split: prod.splits sum.splits) blast+

lemma returns_if: "returns P a R \<Longrightarrow> returns P b R \<Longrightarrow> returns P (if c then a else b) R"
  by simp

text \<open>Every reply has one of six statuses, and one that says \<open>halted\<close> leaves the object halted.\<close>

definition loop_statuses :: "string list" where
  "loop_statuses = [''halted'', ''blocked'', ''market_updated'', ''duplicate'', ''processed'', ''no_signal'']"

definition latched :: "reply_fields \<Rightarrow> 'st loop_state \<Rightarrow> bool" where
  "latched reply s \<longleftrightarrow> reply_status reply \<in> set loop_statuses \<and>
     (reply_status reply = ''halted'' \<longrightarrow> lo_halt_reason s \<noteq> None)"

definition halted_with :: "reply_fields \<Rightarrow> 'st loop_state \<Rightarrow> bool" where
  "halted_with reply s \<longleftrightarrow> reply_status reply = ''halted'' \<and> lo_halt_reason s \<noteq> None"

lemma halted_with_latched: "halted_with reply s \<Longrightarrow> latched reply s"
  by (simp add: halted_with_def latched_def loop_statuses_def)

definition end_latched :: "intent_end \<Rightarrow> 'st loop_state \<Rightarrow> bool" where
  "end_latched ended s \<longleftrightarrow> (case ended of Stopped r \<Rightarrow> halted_with r s | _ \<Rightarrow> True)"

definition run_latched :: "outcomes + reply_fields \<Rightarrow> 'st loop_state \<Rightarrow> bool" where
  "run_latched ended s \<longleftrightarrow> (case ended of Inr r \<Rightarrow> latched r s | Inl _ \<Rightarrow> True)"

lemma stopped_reply_status [simp]: "reply_status (stopped_reply status reason @ rest) = status"
  "reply_status (stopped_reply status reason) = status"
  by (simp_all add: reply_status_def stopped_reply_def)

lemma halt_loop_halted: "returns P (halt_loop tr aid reason t) halted_with"
  unfolding returns_def
proof (intro allI impI)
  fix s d x s' d' assume "halt_loop tr aid reason t s d = (Inr x, s', d')"
  then show "halted_with x s'" using halt_loop_result[of tr aid reason t s d] by (auto simp: halted_with_def)
qed

lemma halted_latched: "returns P m halted_with \<Longrightarrow> returns P m latched"
  unfolding returns_def using halted_with_latched by blast

lemma send_latched: "returns P (send_intent tr m intent clk) end_latched"
  unfolding send_intent_def Let_def
  by (intro returns_then returns_if returns_bind[OF halt_loop_halted] returns_return) (simp_all add: end_latched_def)

lemma execute_intent_latched: "returns P (execute_intent tr m market clk raw) end_latched"
proof -
  have refused: "returns (\<lambda>_. True) (case refused of Some reason \<Rightarrow> act_return (Blocked reason)
      | None \<Rightarrow> send_intent tr m intent clk') end_latched" for refused intent clk'
    by (cases refused) (auto intro!: returns_return send_latched simp: end_latched_def)
  show ?thesis
    unfolding execute_intent_def Let_def
    by (intro returns_then returns_if returns_return refused) (simp add: end_latched_def)
qed

lemma put_fenced_reply: "returns P (put_fenced tr m kind identity reply clk) (\<lambda>x s. x = reply)"
  unfolding put_fenced_def by (intro returns_then returns_return) simp

lemma step_reply_status [simp]: "reply_status (step_reply status identity outs m a @ rest) = status"
  "reply_status (step_reply status identity outs m a) = status"
  by (simp_all add: reply_status_def step_reply_def)

lemma execute_intents_latched: "returns P (execute_intents tr m identity market clk outs raws) run_latched"
proof (induction raws arbitrary: P clk outs)
  case Nil
  show ?case by (auto intro!: returns_return simp: run_latched_def)
next
  case (Cons raw raws)
  show ?case unfolding execute_intents.simps
  proof (rule returns_bind[OF execute_intent_latched])
    fix ended
    show "returns (end_latched ended) (case ended of
         Outcome oc \<Rightarrow> execute_intents tr m identity market (\<lambda>p. clk (1 # p)) (outs @ [oc]) raws
       | Stopped reply \<Rightarrow> act_return (Inr reply)
       | Blocked reason \<Rightarrow> act_bind (put_fenced tr m ''trading_step_complete'' identity
           (step_reply ''blocked'' identity outs m False @ [(''reason'', JStr reason)]) (\<lambda>p. clk (2 # p)))
           (\<lambda>reply. act_return (Inr reply))) run_latched"
    proof (cases ended)
      case (Blocked reason)
      then show ?thesis
        by (auto intro!: returns_bind[OF put_fenced_reply] returns_return simp: run_latched_def latched_def loop_statuses_def)
    qed (auto intro!: Cons.IH returns_return halted_with_latched simp: end_latched_def run_latched_def)
  qed
qed

lemma put_fenced_latched: "reply_status reply \<in> set (tl loop_statuses) \<Longrightarrow> returns P (put_fenced tr m kind identity reply clk) latched"
  by (auto simp: latched_def returns_def loop_statuses_def dest: returnsD[OF put_fenced_reply, rotated])

lemma duplicate_status: "duplicate_reply document = Inr reply \<Longrightarrow> reply_status reply = ''duplicate''"
  by (auto simp: duplicate_reply_def reply_status_def split: json.splits)

lemma execute_step_latched: "returns P (execute_step tr m identity payload market clk) latched"
proof -
  have ended: "returns (run_latched ended) (case ended of
        Inr reply \<Rightarrow> act_return reply
      | Inl outs \<Rightarrow> put_fenced tr m ''trading_step_complete'' identity
          (step_reply (if outs = [] then ''no_signal'' else ''processed'') identity outs m (dm_mode m = paper)) clk') latched"
    for ended clk'
  proof (cases ended)
    case (Inl outs)
    then show ?thesis by (simp add: put_fenced_latched loop_statuses_def)
  next
    case (Inr reply)
    then show ?thesis by (auto intro!: returns_return simp: run_latched_def)
  qed
  have "returns (\<lambda>_. True) (case finished of
        Some document \<Rightarrow> from_result (duplicate_reply document)
      | None \<Rightarrow>
          act_bind (from_result (json_member payload ''intents'')) (\<lambda>listed.
          act_bind (from_result (case listed of JArr raws \<Rightarrow> Inr raws | _ \<Rightarrow> Inl (TypeError ''intents''))) (\<lambda>raws.
          act_bind (execute_intents tr m identity market (\<lambda>p. clk (0 # p)) [] raws) (\<lambda>ended.
          case ended of
            Inr reply \<Rightarrow> act_return reply
          | Inl outs \<Rightarrow>
              put_fenced tr m ''trading_step_complete'' identity
                (step_reply (if outs = [] then ''no_signal'' else ''processed'') identity outs m (dm_mode m = paper))
                (\<lambda>p. clk (1 # p)))))) latched" for finished
  proof (cases finished)
    case None
    then show ?thesis by (simp only: option.case) (intro returns_then returns_bind[OF execute_intents_latched] ended)
  next
    case (Some document)
    then show ?thesis by (auto simp: returns_def from_result_def latched_def loop_statuses_def dest: duplicate_status)
  qed
  then show ?thesis unfolding execute_step_def Let_def by (rule returns_then)
qed

lemma advance_latched: "returns P (advance tr m head event market book now clk) latched"
proof -
  have "returns Q (decide tr m identity event market book now clk') latched" for Q identity clk'
    unfolding decide_def Let_def by (intro returns_then execute_step_latched)
  then have rest: "returns Q (if late then halt_loop tr aid reason t else decide tr m identity event market book now clk') latched"
    for Q late aid reason t identity clk' by (intro returns_if halted_latched[OF halt_loop_halted])
  show ?thesis unfolding advance_def Let_def
    by (intro returns_then) (simp split: option.split, intro conjI allI impI execute_step_latched returns_then rest)
qed

lemma recover_latched: "returns P (recover tr m event market book now clk) latched"
proof -
  define Q :: "reply_fields option \<Rightarrow> 'a loop_state \<Rightarrow> bool"
    where "Q halted s = (case halted of None \<Rightarrow> True | Some r \<Rightarrow> halted_with r s)" for halted s
  have prior: "returns Q' (case head of
          None \<Rightarrow> act_return None
        | Some h \<Rightarrow>
            act_bind (from_result (text_at h ''step_id'')) (\<lambda>last.
            act_bind (from_read (artifact_document (tr_sha tr) (ra_tenant (tr_actor tr)) ''trading_step'' last)) (\<lambda>prior.
            act_bind (execute_step tr m last prior market (\<lambda>p. clk (0 # p))) (\<lambda>reply.
            act_return (if reply_status reply = ''halted'' then Some reply else None))))) Q" for head Q'
    by (cases head) (auto simp: Q_def latched_def halted_with_def intro!: returns_return returns_then returns_bind[OF execute_step_latched])
  have rest: "returns (Q halted) (case halted of Some reply \<Rightarrow> act_return reply
      | None \<Rightarrow> advance tr m head event market book now (\<lambda>p. clk (1 # p))) latched" for halted head
    by (cases halted) (auto simp: Q_def intro!: returns_return advance_latched halted_with_latched)
  show ?thesis unfolding recover_def Let_def by (intro returns_then returns_bind[OF prior] rest)
qed

lemma handle_latched: "returns P (handle_event tr m event market book fresh now clk) latched"
  unfolding handle_event_def
  by (intro returns_then returns_if recover_latched returns_return) (simp add: latched_def reply_status_def loop_statuses_def)

lemma failure_latched: "returns P (handle_failure tr m t e) latched"
  unfolding handle_failure_def Let_def
  by (intro returns_if returns_then halted_latched[OF halt_loop_halted] returns_return)
     (auto simp: latched_def loop_statuses_def reply_status_def returns_def act_raise_def)

lemma dispatch_latched: "returns P (dispatch tr event market book fresh clk verdict) latched"
proof (cases verdict)
  case (Inl reason)
  then show ?thesis by (auto intro!: returns_return simp: dispatch_def latched_def loop_statuses_def)
next
  case (Inr m)
  then show ?thesis unfolding dispatch_def Let_def
    by (simp only: sum.case) (intro returns_if returns_then returns_try halted_latched[OF halt_loop_halted] handle_latched failure_latched)
qed

text \<open>A process call of an object that is not halted.\<close>

lemma process_running:
  "lo_halt_reason s = None \<Longrightarrow> process tr event market book fresh clk s d =
     act_bind (authorize tr (clk [0])) (dispatch tr event market book fresh clk) s d"
  and process_halted: "lo_halt_reason s = Some reason \<Longrightarrow> process tr event market book fresh clk s d =
     (Inr (stopped_reply ''halted'' reason), s, d)"
  by (simp_all add: process_def act_bind_def act_get_def act_return_def)

text \<open>
  C35: a halt is final for the object.  Once processing an event has answered \<open>halted\<close>, for whatever
  reason and whether or not the database took the mode, every later event is answered \<open>halted\<close> without
  reading or writing the database and without asking the strategy or the venue.
\<close>

theorem halted_loop_sends_nothing:
  assumes "process tr event market book fresh clk s d = (Inr reply, s', d')" and "reply_status reply = ''halted''"
  shows "\<exists>reason. lo_halt_reason s' = Some reason \<and>
    (\<forall>event2 market2 book2 fresh2 clk2 d2. process tr event2 market2 book2 fresh2 clk2 s' d2 =
       (Inr (stopped_reply ''halted'' reason), s', d2))"
proof -
  have "lo_halt_reason s' \<noteq> None"
  proof (cases "lo_halt_reason s")
    case None
    have "returns (\<lambda>_. True) (act_bind (authorize tr (clk [0])) (dispatch tr event market book fresh clk)) latched"
      by (intro returns_then dispatch_latched)
    then show ?thesis using assms process_running[OF None, of tr event market book fresh clk d]
      by (auto simp: latched_def dest: returnsD)
  next
    case (Some reason)
    then show ?thesis using assms(1) process_halted[OF Some, of tr event market book fresh clk d] by simp
  qed
  then show ?thesis using process_halted by blast
qed

end
