(* ===== verification/Recovery.thy ===== *)
theory Recovery
  imports Runtime_Props "HOL-Library.Sublist"
begin

text \<open>
  The failure side of the event loop of \<open>src/qt/execution/runtime.py\<close>: which errors it answers, what it
  does with data it cannot trust, and what its checkpoints guarantee to the process that restarts it.
\<close>

section \<open>Errors that leave an act\<close>

definition raises_only :: "(error \<Rightarrow> bool) \<Rightarrow> ('st, 'a) act \<Rightarrow> bool" where
  "raises_only E m \<longleftrightarrow> (\<forall>s d e s' d'. m s d = (Inl e, s', d') \<longrightarrow> E e)"

lemma raises_onlyD: "raises_only E m \<Longrightarrow> m s d = (Inl e, s', d') \<Longrightarrow> E e"
  unfolding raises_only_def by blast

lemma raises_never: "raises_only E (act_return x)" "raises_only E (act_get g)" "raises_only E (act_put p)"
  by (simp_all add: raises_only_def act_return_def act_get_def act_put_def)

lemma raises_raise: "E e \<Longrightarrow> raises_only E (act_raise e)"
  by (simp add: raises_only_def act_raise_def)

lemma raises_bind: "raises_only E m \<Longrightarrow> (\<And>x. raises_only E (f x)) \<Longrightarrow> raises_only E (act_bind m f)"
  unfolding raises_only_def by (metis act_bind_cases sum.inject(1))

lemma raises_try: "(\<And>e. raises_only E (h e)) \<Longrightarrow> raises_only E (act_try m h)"
  unfolding raises_only_def act_try_def by (auto split: prod.splits sum.splits)

lemma raises_if: "(c \<Longrightarrow> raises_only E a) \<Longrightarrow> (\<not> c \<Longrightarrow> raises_only E b) \<Longrightarrow> raises_only E (if c then a else b)"
  by simp

lemma raises_halt: "raises_only E (halt_loop tr aid reason t)"
  unfolding raises_only_def using halt_loop_result[of tr aid reason t] by (metis Inl_Inr_False prod.inject)

definition unexpected :: "error \<Rightarrow> bool" where
  "unexpected e \<longleftrightarrow> \<not> is_value_error e \<and> \<not> is_key_error e"

lemma conflict_is_value_error: "is_conflict e \<Longrightarrow> is_value_error e"
  by (cases e) auto

lemma authorize_raises: "raises_only unexpected (authorize tr t)"
  unfolding authorize_def Let_def
  by (intro raises_try raises_if raises_never raises_raise) (simp add: unexpected_def)

lemma failure_raises: "raises_only (\<lambda>e. unexpected e \<and> \<not> is_database_error e) (handle_failure tr m t e)"
  unfolding handle_failure_def Let_def
  by (intro raises_if raises_bind raises_halt raises_never raises_raise) (auto simp: unexpected_def)

lemma dispatch_raises:
  "raises_only (\<lambda>e. unexpected e \<and> \<not> is_database_error e) (dispatch tr event market book fresh clk verdict)"
proof (cases verdict)
  case (Inr m)
  show ?thesis unfolding dispatch_def current_adapter_def Let_def Inr sum.case
    by (intro raises_if raises_bind raises_halt raises_never raises_try failure_raises)
qed (simp add: dispatch_def raises_never)

lemma process_status: "returns P (process tr event market book fresh clk) (\<lambda>reply s. reply_status reply \<in> set loop_statuses)"
proof -
  have *: "returns Q (case halted of Some reason \<Rightarrow> act_return (stopped_reply ''halted'' reason)
     | None \<Rightarrow> act_bind (authorize tr (clk [0])) (dispatch tr event market book fresh clk))
     (\<lambda>reply s. reply_status reply \<in> set loop_statuses)" for halted Q
  proof (cases halted)
    case None
    have "returns Q (act_bind (authorize tr (clk [0])) (dispatch tr event market book fresh clk)) latched"
      by (intro returns_then dispatch_latched)
    then show ?thesis unfolding None option.case by (auto simp: returns_def latched_def)
  next
    case (Some reason)
    then show ?thesis by (auto intro!: returns_return simp: loop_statuses_def)
  qed
  show ?thesis unfolding process_def by (rule returns_then) (rule *)
qed

text \<open>Whether the halt reached the database: then the account is \<open>HALTED\<close> there, else nothing was written.\<close>

definition halt_written :: "string \<Rightarrow> bool \<Rightarrow> db \<Rightarrow> db \<Rightarrow> bool" where
  "halt_written aid persisted d d' \<longleftrightarrow> orders d' = orders d \<and> fills d' = fills d \<and> artifacts d' = artifacts d \<and>
     (if persisted then \<forall>a \<in> set (accounts d'). ac_account_id a = aid \<longrightarrow> ac_mode a = HALTED else d' = d)"

lemma halt_loop_writes:
  "\<exists>persisted d'. halt_loop tr aid reason t s d =
     (Inr (stopped_reply ''halted'' reason @ [(''halt_persisted'', JBool persisted)]), s\<lparr>lo_halt_reason := Some reason\<rparr>, d') \<and>
     halt_written aid persisted d d'"
proof (cases rule: transaction_cases[of "set_mode_tx (ra_tenant (tr_actor tr)) aid HALTED reason None t" d])
  case (rollback e)
  then have "halt_loop tr aid reason t s d =
     (Inr (stopped_reply ''halted'' reason @ [(''halt_persisted'', JBool False)]), s\<lparr>lo_halt_reason := Some reason\<rparr>, d)"
    by (simp add: halt_loop_def act_bind_def act_put_def act_try_def from_call_def act_return_def)
  moreover have "halt_written aid False d d" by (simp add: halt_written_def)
  ultimately show ?thesis by blast
next
  case (commit x d')
  then have run: "halt_loop tr aid reason t s d =
     (Inr (stopped_reply ''halted'' reason @ [(''halt_persisted'', JBool True)]), s\<lparr>lo_halt_reason := Some reason\<rparr>, d')"
    by (simp add: halt_loop_def act_bind_def act_put_def act_try_def from_call_def act_return_def)
  from commit(1) have "\<exists>d1 ev. update_account aid (\<lambda>a. a\<lparr>ac_mode := HALTED\<rparr>) d = Inr d1 \<and> d1\<lparr>events := ev\<rparr> = d'"
    unfolding set_mode_tx_def bind_eq_Inr add_event_def sum.inject prod.inject
    by (elim exE conjE) (intro exI conjI, assumption+)
  then obtain d1 ev where u: "update_account aid (\<lambda>a. a\<lparr>ac_mode := HALTED\<rparr>) d = Inr d1" and d': "d' = d1\<lparr>events := ev\<rparr>"
    by blast
  from u have d1: "d1 = d\<lparr>accounts := update_where (\<lambda>a. ac_account_id a = aid) (\<lambda>a. a\<lparr>ac_mode := HALTED\<rparr>) (accounts d)\<rparr>"
    by (simp add: update_account_eq_Inr)
  have "halt_written aid True d d'"
    by (simp add: halt_written_def d' d1 set_update_where ball_Un)
  then show ?thesis using run by blast
qed

text \<open>
  The answer to an error \<open>e\<close> that left the fields \<open>s\<close> and the database \<open>d\<close>.  A conflict about the lease or
  the checkpoint head only blocks this event: another worker has the account.  Any other expected error
  stops the object and asks the database to stop the account, and a later event would first read the
  checkpoint again unless the error was a conflict or of the database.
\<close>

definition lost_race :: "error \<Rightarrow> bool" where
  "lost_race e \<longleftrightarrow> is_conflict e \<and> (contains_text ''lease'' (error_text e) \<or> contains_text ''checkpoint_head'' (error_text e))"

definition halting_reason :: "error \<Rightarrow> string option" where
  "halting_reason e =
     (if is_database_error e then Some (''runtime_database_unavailable:'' @ error_name e)
      else if \<not> lost_race e \<and> (is_value_error e \<or> is_key_error e) then Some (error_text e) else None)"

definition answers_failure ::
  "string \<Rightarrow> error \<Rightarrow> 'st loop_state \<Rightarrow> db \<Rightarrow> reply_fields result \<times> 'st loop_state \<times> db \<Rightarrow> bool" where
  "answers_failure aid e s d answer \<longleftrightarrow>
     (case halting_reason e of
        Some reason \<Rightarrow>
          (\<exists>persisted d'. halt_written aid persisted d d' \<and>
             answer = (Inr (stopped_reply ''halted'' reason @ [(''halt_persisted'', JBool persisted)]),
               s\<lparr>lo_halt_reason := Some reason,
                 lo_restored := lo_restored s \<and> (is_conflict e \<or> is_database_error e)\<rparr>, d'))
      | None \<Rightarrow>
          answer = (if lost_race e
                    then Inr [(''status'', JStr ''blocked''), (''reason'', JStr (error_text e)), (''intent_ids'', JArr [])]
                    else Inl e, s, d))"

lemma database_error_kind: "is_database_error e \<Longrightarrow> \<not> is_conflict e \<and> \<not> is_value_error e \<and> \<not> is_key_error e"
  by (cases e) auto

lemma failure_answered: "answers_failure (dm_account_id m) e s d (handle_failure tr m t e s d)"
proof -
  have kept: "s\<lparr>lo_halt_reason := r\<rparr> = s\<lparr>lo_halt_reason := r, lo_restored := lo_restored s\<rparr>" for r by simp
  show ?thesis
    using halt_loop_writes[of tr "dm_account_id m" "error_text e" t s d]
      halt_loop_writes[of tr "dm_account_id m" "error_text e" t "s\<lparr>lo_restored := False\<rparr>" d]
      halt_loop_writes[of tr "dm_account_id m" "''runtime_database_unavailable:'' @ error_name e" t s d]
      database_error_kind[of e] conflict_is_value_error[of e]
    by (cases "is_database_error e"; cases "is_conflict e"; cases "is_value_error e \<or> is_key_error e")
       (auto simp: handle_failure_def answers_failure_def halting_reason_def lost_race_def Let_def act_return_def act_raise_def
          act_bind_def act_put_def)
qed

text \<open>The object runs, the deployment is verified for paper or shadow trading, and the data can be trusted.\<close>

definition trusted_event ::
  "'st trading_runtime \<Rightarrow> market_event \<Rightarrow> market_snapshot \<Rightarrow> places \<Rightarrow> 'st loop_state \<Rightarrow> db \<Rightarrow>
   deployment_manifest \<Rightarrow> 'st loop_state \<Rightarrow> db \<Rightarrow> bool" where
  "trusted_event tr event market clk s d m s1 d1 \<longleftrightarrow>
     lo_halt_reason s = None \<and> authorize tr (clk [0]) s d = (Inr (Inr m), s1, d1) \<and> dm_mode m \<in> {paper, shadow} \<and>
     (dm_mode m = paper \<longrightarrow> ad_execution_mode (tr_venue tr (lo_book s1)) = Some ''paper'') \<and>
     \<not> untrusted_data (tr_sha tr) (tr_actor tr) m event market (clk [2])"

lemma trusted_process:
  assumes "trusted_event tr event market clk s d m s1 d1"
  shows "process tr event market book fresh clk s d =
    act_try (handle_event tr m event market book fresh (clk [2]) (\<lambda>p. clk (3 # p))) (handle_failure tr m (clk [1])) s1 d1"
proof -
  have "process tr event market book fresh clk s d = dispatch tr event market book fresh clk (Inr m) s1 d1"
    using process_running[of s] assms by (simp add: trusted_event_def act_bind_def)
  also have "\<dots> = act_try (handle_event tr m event market book fresh (clk [2]) (\<lambda>p. clk (3 # p))) (handle_failure tr m (clk [1])) s1 d1"
    using assms by (auto simp: trusted_event_def dispatch_def current_adapter_def act_bind_def act_get_def Let_def simp del: One_nat_def)
  finally show ?thesis .
qed

lemma refused_process:
  assumes "lo_halt_reason s = None" and "authorize tr (clk [0]) s d = (Inr (Inl reason), s1, d1)"
  shows "process tr event market book fresh clk s d = (Inr (stopped_reply ''blocked'' reason), s1, d1)"
  using process_running[OF assms(1)] assms(2) by (simp add: act_bind_def dispatch_def act_return_def)

lemma passed_on:
  assumes "process tr event market book fresh clk s d = (Inl e, s', d')"
  shows "unexpected e \<and> (is_database_error e \<longrightarrow> fst (authorize tr (clk [0]) s d) = Inl e)"
proof -
  have "lo_halt_reason s = None"
    using process_halted assms by (metis Inl_Inr_False option.exhaust prod.inject)
  then have "act_bind (authorize tr (clk [0])) (dispatch tr event market book fresh clk) s d = (Inl e, s', d')"
    using assms process_running by metis
  then show ?thesis
  proof (cases rule: act_bind_cases)
    case (raises e')
    then show ?thesis using raises_onlyD[OF authorize_raises raises(1)] by simp
  next
    case (goes_on x s1 d1)
    then show ?thesis using raises_onlyD[OF dispatch_raises goes_on(2)] by blast
  qed
qed

text \<open>
  C36: the loop answers instead of failing, and the answer to a failure is a stop.  Whatever the event, the
  data and the database, a call of \<open>process\<close> either returns a reply with one of its six statuses or passes
  on an error that is neither a \<open>ValueError\<close> (conflicts, stale data, exceeded budgets and failed validations
  included) nor a \<open>KeyError\<close>; a database error is passed on only when the deployment could not be verified
  at all.  A refused deployment is answered \<open>blocked\<close> with the reason.  Once the deployment is verified
  and the data is trusted, an error of the rest of the call is answered by its kind: every database error
  halts the object under \<open>runtime_database_unavailable\<close>, every other \<open>ValueError\<close> or \<open>KeyError\<close> halts it under
  its own text and (but for a conflict) makes it read its checkpoint again, and only a conflict about the
  lease or the checkpoint head answers \<open>blocked\<close> and leaves object and database alone.  A halt sets the
  latch whether or not the database takes it; when it does, the account is \<open>HALTED\<close>, and the
  orders, fills and checkpoints stay what the failed call left.
\<close>

theorem expected_failures_are_answered:
  "\<exists>outcome s' d'. process tr event market book fresh clk s d = (outcome, s', d') \<and>
    (case outcome of
       Inr reply \<Rightarrow> reply_status reply \<in> set loop_statuses
     | Inl e \<Rightarrow> \<not> is_value_error e \<and> \<not> is_key_error e \<and>
         (if is_database_error e then fst (authorize tr (clk [0]) s d) = Inl e else True)) \<and>
    (\<forall>reason s1 d1. lo_halt_reason s = None \<and> authorize tr (clk [0]) s d = (Inr (Inl reason), s1, d1) \<longrightarrow>
       (outcome, s', d') = (Inr (stopped_reply ''blocked'' reason), s1, d1)) \<and>
    (\<forall>m s1 d1 e s2 d2. trusted_event tr event market clk s d m s1 d1 \<and>
       handle_event tr m event market book fresh (clk [2]) (\<lambda>p. clk (3 # p)) s1 d1 = (Inl e, s2, d2) \<longrightarrow>
       answers_failure (dm_account_id m) e s2 d2 (outcome, s', d'))"
proof -
  obtain outcome s' d' where run: "process tr event market book fresh clk s d = (outcome, s', d')" by (metis prod_cases3)
  have "case outcome of Inr reply \<Rightarrow> reply_status reply \<in> set loop_statuses
     | Inl e \<Rightarrow> \<not> is_value_error e \<and> \<not> is_key_error e \<and>
         (if is_database_error e then fst (authorize tr (clk [0]) s d) = Inl e else True)"
  proof (cases outcome)
    case (Inr reply)
    then show ?thesis using run returnsD[OF process_status, of "\<lambda>_. True"] by fastforce
  next
    case (Inl e)
    then show ?thesis using passed_on run by (fastforce simp: unexpected_def)
  qed
  moreover have "answers_failure (dm_account_id m) e s2 d2 (outcome, s', d')"
    if "trusted_event tr event market clk s d m s1 d1"
      and "handle_event tr m event market book fresh (clk [2]) (\<lambda>p. clk (3 # p)) s1 d1 = (Inl e, s2, d2)" for m s1 d1 e s2 d2
    using failure_answered[of m e s2 d2 tr "clk [1]"] trusted_process[OF that(1)] that(2) run by (simp add: act_try_def)
  moreover have "(outcome, s', d') = (Inr (stopped_reply ''blocked'' reason), s1, d1)"
    if "lo_halt_reason s = None" and "authorize tr (clk [0]) s d = (Inr (Inl reason), s1, d1)" for reason s1 d1
    using refused_process[of s tr clk d reason s1 d1 event market book fresh] that run by simp
  ultimately show ?thesis using run by blast
qed

section \<open>Data that cannot be trusted\<close>

lemma guarded_process:
  assumes "lo_halt_reason s = None" and "authorize tr (clk [0]) s d = (Inr (Inr m), s1, d1)"
    and "dm_mode m \<notin> {paper, shadow} \<or> (dm_mode m = paper \<and> ad_execution_mode (tr_venue tr (lo_book s1)) \<noteq> Some ''paper'') \<or>
         untrusted_data (tr_sha tr) (tr_actor tr) m event market (clk [2])"
  obtains reason where "process tr event market book fresh clk s d = halt_loop tr (dm_account_id m) reason (clk [1]) s1 d1"
proof -
  have run: "process tr event market book fresh clk s d = dispatch tr event market book fresh clk (Inr m) s1 d1"
    using process_running[OF assms(1)] assms(2) by (simp add: act_bind_def)
  have "\<exists>reason. dispatch tr event market book fresh clk (Inr m) s1 d1 = halt_loop tr (dm_account_id m) reason (clk [1]) s1 d1"
    using assms(3)
    by (elim disjE) (auto simp: dispatch_def current_adapter_def act_bind_def act_get_def Let_def simp del: One_nat_def)
  then show thesis using that run by auto
qed

text \<open>
  No order leaves on untrusted ground.  When the verified deployment is not a paper or shadow one,
  when a paper deployment has no paper adapter, or when the event or the market is of another venue or
  instrument, of other instrument terms or fees, stale, from the future, flagged or without a valid
  book, \<open>process\<close> answers \<open>halted\<close>, the object is halted, and no order, fill or checkpoint changes.
\<close>

theorem untrusted_data_halts:
  assumes "lo_halt_reason s = None" and "authorize tr (clk [0]) s d = (Inr (Inr m), s1, d1)"
    and "dm_mode m \<notin> {paper, shadow} \<or> (dm_mode m = paper \<and> ad_execution_mode (tr_venue tr (lo_book s1)) \<noteq> Some ''paper'') \<or>
         untrusted_data (tr_sha tr) (tr_actor tr) m event market (clk [2])"
  shows "\<exists>reply s' d'. process tr event market book fresh clk s d = (Inr reply, s', d') \<and>
    reply_status reply = ''halted'' \<and> lo_halt_reason s' \<noteq> None \<and>
    orders d' = orders d1 \<and> fills d' = fills d1 \<and> artifacts d' = artifacts d1"
proof -
  obtain reason where "process tr event market book fresh clk s d = halt_loop tr (dm_account_id m) reason (clk [1]) s1 d1"
    using guarded_process[OF assms] .
  then show ?thesis using halt_loop_result[of tr "dm_account_id m" reason "clk [1]" s1 d1] by auto
qed

section \<open>Completed steps\<close>

lemma artifact_document_eq_Inr: "artifact_document sha tenant kind identity d = Inr v \<longleftrightarrow>
   (\<exists>row. first_where (artifact_key tenant kind identity) (artifacts d) = Some row \<and>
      content_hash sha (payload_json (ar_payload row)) = ar_sha256 row \<and> v = payload_json (ar_payload row))"
  by (auto simp: artifact_document_def get_artifact_def result_simps)

lemma artifact_document_KeyError: "artifact_document sha tenant kind identity d = Inl (KeyError k) \<Longrightarrow>
   first_where (artifact_key tenant kind identity) (artifacts d) = None"
  by (auto simp: artifact_document_def get_artifact_def bind_def or_raise_def raise_if_def split: option.splits if_splits)

lemma key_missing_cases:
  "act_if_key_missing (from_read f) s d = (r, s', d') \<Longrightarrow> s' = s \<and> d' = d \<and>
     (r = Inr None \<and> (\<exists>k. f d = Inl (KeyError k)) \<or> (\<exists>x. r = Inr (Some x) \<and> f d = Inr x) \<or>
      (\<exists>e. r = Inl e \<and> f d = Inl e \<and> \<not> is_key_error e))"
  by (cases "f d")
     (auto simp: act_if_key_missing_def act_try_def act_bind_def from_read_def act_return_def act_raise_def
       elim!: is_key_error.elims split: if_splits)

text \<open>The row a document insertion leaves under its key.\<close>

lemma inserted_document:
  assumes "same_document sha tenant kind identity payload e (insert_document sha tenant kind identity payload t d) = Inr ()"
  shows "\<exists>row. first_where (artifact_key tenant kind identity) (artifacts (insert_document sha tenant kind identity payload t d)) = Some row \<and>
     ar_sha256 row = content_hash sha payload"
  using assms by (auto simp: same_document_def result_simps)

lemma inserted_fresh:
  assumes "first_where (artifact_key tenant kind identity) (artifacts d) = None"
  shows "artifact_document sha tenant kind identity (insert_document sha tenant kind identity payload t d) = Inr payload"
proof -
  have "\<not> list_ex (artifact_clash \<lparr>ar_tenant_id = tenant, ar_kind = kind, ar_entity_id = identity, ar_payload = AJson payload,
         ar_sha256 = content_hash sha payload, ar_created_ns = t\<rparr>) (artifacts d)"
    using assms by (auto simp: list_ex_iff first_where_None artifact_key_def artifact_clash_def)
  then show ?thesis using assms
    by (auto simp: artifact_document_eq_Inr insert_document_def insert_once_def first_where_def find_snoc artifact_key_def)
qed

lemma put_fenced_leaves:
  assumes "put_fenced tr m kind identity reply clk s d = (Inr r, s', d')"
  shows "r = reply \<and> (\<exists>row. first_where (artifact_key (ra_tenant (tr_actor tr)) kind identity) (artifacts d') = Some row \<and>
     ar_sha256 row = content_hash (tr_sha tr) (JObj reply))"
proof -
  have "put_fenced_tx (tr_sha tr) (tr_actor tr) (lo_lease_token s) m kind identity (JObj reply) clk d = Inr ((), d')" and "r = reply"
    using assms
    by (auto simp: put_fenced_def act_bind_def act_get_def from_call_def act_return_def transaction_def split: sum.splits prod.splits)
  then show ?thesis using inserted_document by (auto simp: put_fenced_tx_def bind_eq_Inr Let_def)
qed

text \<open>What a stored record of a completed step answers: its members, but for the status.\<close>

definition repeated_answer :: "hasher \<Rightarrow> artifact_row \<Rightarrow> reply_fields result" where
  "repeated_answer sha row =
     (if content_hash sha (payload_json (ar_payload row)) \<noteq> ar_sha256 row
      then Inl (ConflictError ''artifact_integrity_failure'')
      else case payload_json (ar_payload row) of
             JObj kvs \<Rightarrow> Inr ((''status'', JStr ''duplicate'') # filter (\<lambda>(k, v). k \<noteq> ''status'') kvs)
           | _ \<Rightarrow> Inl (TypeError ''mapping''))"

lemma completed_step_again:
  assumes "first_where (artifact_key (ra_tenant (tr_actor tr)) ''trading_step_complete'' identity) (artifacts d) = Some row"
  shows "execute_step tr m identity payload market clk s d = (repeated_answer (tr_sha tr) row, s, d)"
  using assms
  by (auto simp: execute_step_def act_if_key_missing_def act_try_def act_bind_def from_read_def artifact_document_def get_artifact_def
      or_raise_def raise_if_def act_return_def act_raise_def from_result_def repeated_answer_def duplicate_reply_def Let_def)

lemma first_where_prefix:
  "first_where P xs = Some x \<Longrightarrow> prefix xs ys \<Longrightarrow> first_where P ys = Some x"
  by (induction xs arbitrary: ys) (auto simp: first_where_def prefix_def)

text \<open>What the loop over the intents leaves when the step is over.\<close>

definition step_recorded :: "'st trading_runtime \<Rightarrow> string \<Rightarrow> reply_fields \<Rightarrow> db \<Rightarrow> bool" where
  "step_recorded tr identity reply d \<longleftrightarrow>
     (\<exists>row. first_where (artifact_key (ra_tenant (tr_actor tr)) ''trading_step_complete'' identity) (artifacts d) = Some row \<and>
        ar_sha256 row = content_hash (tr_sha tr) (JObj reply))"

lemma put_fenced_recorded: "put_fenced tr m ''trading_step_complete'' identity reply clk s d = (Inr r, s', d') \<Longrightarrow>
    r = reply \<and> step_recorded tr identity reply d'"
  using put_fenced_leaves unfolding step_recorded_def by blast

lemma stopped_is_halted:
  "execute_intent tr m market clk raw s d = (Inr (Stopped reply), s', d') \<Longrightarrow> reply_status reply = ''halted''"
  using returnsD[OF execute_intent_latched, of "\<lambda>_. True"] by (fastforce simp: end_latched_def halted_with_def)

lemma execute_intents_recorded:
  "execute_intents tr m identity market clk outs raws s d = (Inr (Inr reply), s', d') \<Longrightarrow>
     reply_status reply = ''halted'' \<or> step_recorded tr identity reply d'"
proof (induction raws arbitrary: clk outs s d)
  case (Cons raw raws)
  from Cons.prems show ?case unfolding execute_intents.simps
  proof (cases rule: act_bind_cases)
    case (goes_on ended s1 d1)
    show ?thesis
    proof (cases ended)
      case (Outcome oc)
      then show ?thesis using goes_on(2) Cons.IH by simp
    next
      case (Stopped r)
      then show ?thesis using goes_on stopped_is_halted by (auto simp: act_return_def)
    next
      case (Blocked reason)
      show ?thesis using goes_on(2) unfolding Blocked intent_end.case
        by (cases rule: act_bind_cases) (auto simp: act_return_def dest: put_fenced_recorded)
    qed
  qed simp
qed (simp add: act_return_def)

lemma step_leaves_record:
  assumes "execute_step tr m identity payload market clk s d = (Inr reply, s', d')" and "reply_status reply \<noteq> ''halted''"
  shows "\<exists>row. first_where (artifact_key (ra_tenant (tr_actor tr)) ''trading_step_complete'' identity) (artifacts d') = Some row \<and>
    (ar_sha256 row = content_hash (tr_sha tr) (JObj reply) \<or>
     first_where (artifact_key (ra_tenant (tr_actor tr)) ''trading_step_complete'' identity) (artifacts d) = Some row \<and>
     repeated_answer (tr_sha tr) row = Inr reply \<and> s' = s \<and> d' = d)"
proof (cases "first_where (artifact_key (ra_tenant (tr_actor tr)) ''trading_step_complete'' identity) (artifacts d)")
  case (Some row)
  then show ?thesis using completed_step_again[OF Some, of m payload market clk s] assms(1) by auto
next
  case None
  let ?read = "artifact_document (tr_sha tr) (ra_tenant (tr_actor tr)) ''trading_step_complete'' identity"
  have "act_if_key_missing (from_read ?read) s d = (Inr None, s, d)"
    using None by (simp add: act_if_key_missing_def act_try_def act_bind_def from_read_def artifact_document_def get_artifact_def
        or_raise_def act_return_def)
  then obtain raws ended s2 d2 where "execute_intents tr m identity market (\<lambda>p. clk (0 # p)) [] raws s d = (Inr ended, s2, d2)"
    and "(case ended of
        Inr reply \<Rightarrow> act_return reply
      | Inl outs \<Rightarrow> put_fenced tr m ''trading_step_complete'' identity
          (step_reply (if outs = [] then ''no_signal'' else ''processed'') identity outs m (dm_mode m = paper))
          (\<lambda>p. clk (1 # p))) s2 d2 = (Inr reply, s', d')"
    using assms(1) unfolding execute_step_def Let_def
    by (auto elim!: act_bind_cases simp: from_result_def simp del: One_nat_def)
  then have "step_recorded tr identity reply d'" using assms(2)
    by (cases ended) (auto simp: act_return_def dest!: put_fenced_recorded execute_intents_recorded)
  then show ?thesis unfolding step_recorded_def by blast
qed

text \<open>
  C37: an answered step is never sent again.  Once \<open>_execute\<close> has returned anything but a halt for a
  step (its orders were sent, refused or expired, or it was already complete), the database holds the
  record of the step under its identity: the digest of this very reply, or the record this reply repeats.
  Artifacts are only appended, so it is still there in every later database; and there every execution of
  the step, by this object or by the one that replaces it, with any market, payload and clock, changes
  neither the database nor the object and asks no venue.  It answers the recorded reply under the status
  \<open>duplicate\<close>, and raises only when the record does not match its digest or is not a JSON object.
\<close>

theorem answered_step_never_resent:
  assumes "execute_step tr m identity payload market clk s d = (Inr reply, s', d')" and "reply_status reply \<noteq> ''halted''"
    and "tr_sha tr2 = tr_sha tr" and "ra_tenant (tr_actor tr2) = ra_tenant (tr_actor tr)"
    and "prefix (artifacts d') (artifacts d2)"
  shows "\<exists>row. first_where (artifact_key (ra_tenant (tr_actor tr)) ''trading_step_complete'' identity) (artifacts d') = Some row \<and>
    (ar_sha256 row = content_hash (tr_sha tr) (JObj reply) \<or>
     first_where (artifact_key (ra_tenant (tr_actor tr)) ''trading_step_complete'' identity) (artifacts d) = Some row \<and>
     repeated_answer (tr_sha tr) row = Inr reply \<and> s' = s \<and> d' = d) \<and>
    execute_step tr2 m2 identity payload2 market2 clk2 s2 d2 = (repeated_answer (tr_sha tr) row, s2, d2)"
  using step_leaves_record[OF assms(1,2)] first_where_prefix[OF _ assms(5)] completed_step_again[of tr2 identity d2 _ m2 payload2 market2 clk2 s2]
    assms(3,4) by fastforce

section \<open>Checkpoints\<close>

text \<open>
  C38: a checkpoint is what the restarted process executes.  When \<open>_checkpoint\<close> commits a new step, the
  writer held the account's lease and had seen the current head; afterwards the head names the step and
  its receipt time, the stored document is exactly the one written, and reading its intents back gives
  the sized orders unchanged: recovery replays the same identities, quantities and prices, never resized.
\<close>

theorem checkpoint_reads_back:
  assumes "checkpoint_tx sha ra token known m identity receipt (step_document ra event market signals intents book state) clk d = Inr ((), d')"
    and "list_all valid_order_intent intents"
    and "first_where (artifact_key (ra_tenant ra) ''trading_step'' identity) (artifacts d) = None"
  shows "(\<exists>a. runtime_lease ra token m (clk [0]) d = Inr a) \<and> head_step (runtime_head ra d) = Inr known \<and>
    (\<exists>head raws. runtime_head ra d' = Some head \<and> head_step (Some head) = Inr (Some identity) \<and>
      int_at head ''received_ts_ns'' = Inr receipt \<and>
      artifact_document sha (ra_tenant ra) ''trading_step'' identity d' =
        Inr (step_document ra event market signals intents book state) \<and>
      json_member (step_document ra event market signals intents book state) ''intents'' = Inr (JArr raws) \<and>
      map parse_intent raws = map Some intents)"
proof -
  let ?doc = "step_document ra event market signals intents book state" and ?head = "head_document ra identity receipt"
  let ?d1 = "insert_document sha (ra_tenant ra) ''trading_step'' identity ?doc (clk [1]) d"
  let ?row = "\<lparr>hl_name = state_name ra, hl_tenant_id = ra_tenant ra, hl_observed_ns = clk [2], hl_payload = ?head\<rparr>"
  let ?rows = "insert_once health_clash ?row (runtime_health ?d1)"
  let ?f = "\<lambda>h. h\<lparr>hl_observed_ns := clk [3], hl_payload := ?head\<rparr>"
  from assms(1) have lease: "\<exists>a. runtime_lease ra token m (clk [0]) d = Inr a" "head_step (runtime_head ra d) = Inr known"
    and d': "artifacts d' = artifacts ?d1" "runtime_health d' = update_where (state_row ra) ?f ?rows"
    by (auto simp: checkpoint_tx_def result_simps Let_def add_event_def)
  have "\<exists>h \<in> set ?rows. state_row ra h"
    by (auto simp: insert_once_def list_ex_iff state_row_def health_clash_def)
  then obtain g where g: "g \<in> set ?rows" "state_row ra g" by blast
  then have "?f g \<in> set (runtime_health d') \<and> state_row ra (?f g)"
    unfolding d'(2) set_update_where by (auto simp: state_row_def intro!: image_eqI[of _ _ g])
  then obtain h where h: "first_where (state_row ra) (runtime_health d') = Some h" by (metis first_where_None not_None_eq)
  then have "hl_payload h = ?head" using first_where_Some[OF h] unfolding d'(2) set_update_where
    by (auto split: if_splits)
  then have head: "runtime_head ra d' = Some ?head" using h by (simp add: runtime_head_def)
  have "artifact_document sha (ra_tenant ra) ''trading_step'' identity d' = Inr ?doc"
    using inserted_fresh[OF assms(3)] d'(1) by (simp add: artifact_document_def get_artifact_def)
  moreover have "json_member ?doc ''intents'' = Inr (JArr (map intent_json intents))"
    by (simp add: json_member_def step_document_def or_raise_def jget_def)
  moreover have "map parse_intent (map intent_json intents) = map Some intents"
    using assms(2) parse_intent_json by (simp add: list_all_iff)
  moreover have "head_step (Some ?head) = Inr (Some identity)" "int_at ?head ''received_ts_ns'' = Inr receipt"
    by (simp_all add: head_step_def head_document_def text_at_def int_at_def json_member_def or_raise_def bind_def jget_def as_str_def as_int_def)
  ultimately show ?thesis using lease head by blast
qed

section \<open>A worked example\<close>

text \<open>The activated paper deployment of the release examples, a strategy that never trades, and an object that runs it.\<close>

definition idle_strategy :: "unit strategy" where
  "idle_strategy = \<lparr>sg_native = True, sg_verify_artifact = (\<lambda>_. Inr ()), sg_instrument = btc, sg_fees = fees0,
     sg_deployment_id = ''dep'', sg_accepts = (\<lambda>t. t = E_bar), sg_set_portfolio = (\<lambda>_ _ _ st. (Inr (), st)),
     sg_on_event = (\<lambda>_ st. (Inr (Some []), st)), sg_snapshot = (\<lambda>_. []), sg_restore = (\<lambda>_ st. (Inr (), st))\<rparr>"

definition worker_actor :: actor where
  "worker_actor = \<lparr>ra_tenant = ''t'', ra_deployment_id = ''dep'', ra_instrument = btc, ra_fees = fees0,
     ra_owner = ''worker'', ra_maximum_data_age_ns = 10\<rparr>"

definition demo_loop :: "unit trading_runtime" where
  "demo_loop = \<lparr>tr_actor = worker_actor, tr_sha = text_sha, tr_mac = demo_mac, tr_releases = demo_registry,
     tr_oms = plain_config, tr_venue = (\<lambda>b. paper_adapter text_sha ''t'' b 5), tr_strategy = idle_strategy\<rparr>"

definition verified_loop :: "unit loop_state" where
  "verified_loop = (fresh_loop ())\<lparr>lo_verified := Some (content_hash text_sha (manifest_json (canary paper)))\<rparr>"

definition bar_event :: market_event where
  "bar_event = \<lparr>me_venue = ''other'', me_instrument = ''BTCUSDT'', me_event_type = E_bar, me_exchange_ts_ns = 4,
     me_received_ts_ns = 5, me_sequence = None, me_payload = [], me_quality_flags = [], me_published_at_ns = None,
     me_available_at_ns = None, me_revision_id = ''0'', me_source_hash = None\<rparr>"

definition demo_clock :: places where
  "demo_clock p = 5"

lemma demo_verified:
  "verify_deployment text_sha demo_mac demo_registry ''t'' ''dep'' 5 (committed demo_activation) = Inr (canary paper)"
  by (simp add: verify_deployment_def stored_manifest_def payload_manifest_def demo_activation_def committed_def
      release_simps Let_def)

lemma demo_authorized:
  "authorize demo_loop (demo_clock [0]) verified_loop (committed demo_activation) =
     (Inr (Inr (canary paper)), verified_loop, committed demo_activation)"
  using demo_verified
  by (simp add: authorize_def demo_loop_def worker_actor_def demo_clock_def act_try_def act_bind_def from_read_def
      verify_strategy_def act_get_def act_return_def verified_loop_def Let_def)

lemma demo_running: "lo_halt_reason verified_loop = None"
  by (simp add: verified_loop_def fresh_loop_def)

lemma demo_untrusted:
  "untrusted_data (tr_sha demo_loop) (tr_actor demo_loop) (canary paper) bar_event (market_at 5) (demo_clock [2])"
  by (simp add: untrusted_data_def bar_event_def canary_def)

lemma demo_halts:
  "\<exists>reply s' d'. process demo_loop bar_event (market_at 5) None ''k'' demo_clock verified_loop (committed demo_activation) =
     (Inr reply, s', d') \<and> reply_status reply = ''halted''"
proof -
  obtain reason where "process demo_loop bar_event (market_at 5) None ''k'' demo_clock verified_loop (committed demo_activation) =
      halt_loop demo_loop (dm_account_id (canary paper)) reason (demo_clock [1]) verified_loop (committed demo_activation)"
    using guarded_process[OF demo_running demo_authorized disjI2[OF disjI2[OF demo_untrusted]]] .
  then show ?thesis
    using halt_loop_result[of demo_loop "dm_account_id (canary paper)" reason "demo_clock [1]" verified_loop "committed demo_activation"]
    by auto
qed

text \<open>An event that can be trusted, for an account that does not exist: the lease cannot be claimed.\<close>

definition good_event :: market_event where
  "good_event = bar_event\<lparr>me_venue := ''sim''\<rparr>"

lemma demo_trusted:
  "trusted_event demo_loop good_event (market_at 5) demo_clock verified_loop (committed demo_activation) (canary paper)
     verified_loop (committed demo_activation)"
  using demo_authorized demo_running
  by (simp add: trusted_event_def untrusted_data_def good_event_def bar_event_def canary_def demo_loop_def worker_actor_def
      paper_adapter_def demo_clock_def market_at_def bad_data_def btc_hash_def fees_hash_def)

lemma demo_accounts: "accounts (committed demo_activation) = []"
  by (simp_all add: demo_activation_def committed_def release_simps Let_def)

lemma demo_unclaimed:
  "handle_event demo_loop (canary paper) good_event (market_at 5) None ''k'' (demo_clock [2]) (\<lambda>p. demo_clock (3 # p)) verified_loop
     (committed demo_activation) = (Inl (KeyError ''account_not_found''), verified_loop, committed demo_activation)"
  by (simp add: handle_event_def act_bind_def claim_lease_def claim_account_def claim_account_tx_def transaction_def fetch_account_def
      text_check_def is_space_def demo_loop_def worker_actor_def raise_if_def or_raise_def first_where_def demo_accounts Let_def
      verified_loop_def fresh_loop_def canary_def)

lemma loop_reachable: "(oms_step text_sha plain_config)\<^sup>*\<^sup>* empty_db (committed demo_activation)"
proof -
  have "accounts (committed demo_activation) = accounts empty_db" "orders (committed demo_activation) = orders empty_db"
    "books (committed demo_activation) = books empty_db"
    by (simp_all add: demo_activation_def committed_def release_simps Let_def books_def)
  then show ?thesis by (blast intro: step_other r_into_rtranclp)
qed

theorem event_loop_refines_transactions_witness:
  "\<exists>r s' d'. process demo_loop bar_event (market_at 5) None ''k'' demo_clock verified_loop (committed demo_activation) = (r, s', d') \<and>
     (oms_step text_sha plain_config)\<^sup>*\<^sup>* empty_db d' \<and> ledger_balanced d'"
proof -
  obtain r s' d' where run: "process demo_loop bar_event (market_at 5) None ''k'' demo_clock verified_loop
      (committed demo_activation) = (r, s', d')" by (metis prod_cases3)
  moreover have "tr_venue demo_loop = (\<lambda>b. paper_adapter text_sha ''t'' b 5)" by (simp add: demo_loop_def)
  moreover have "(oms_step (tr_sha demo_loop) (tr_oms demo_loop))\<^sup>*\<^sup>* empty_db (committed demo_activation)"
    using loop_reachable by (simp add: demo_loop_def)
  ultimately have "(oms_step (tr_sha demo_loop) (tr_oms demo_loop))\<^sup>*\<^sup>* empty_db d' \<and> ledger_balanced d'"
    using event_loop_refines_transactions by blast
  then show ?thesis using run by (simp add: demo_loop_def)
qed

theorem expected_failures_are_answered_witness:
  "\<exists>persisted d'. process demo_loop good_event (market_at 5) None ''k'' demo_clock verified_loop (committed demo_activation) =
     (Inr (stopped_reply ''halted'' (error_text (KeyError ''account_not_found'')) @ [(''halt_persisted'', JBool persisted)]),
      verified_loop\<lparr>lo_halt_reason := Some (error_text (KeyError ''account_not_found'')), lo_restored := False\<rparr>, d')"
proof -
  obtain answer where run: "process demo_loop good_event (market_at 5) None ''k'' demo_clock verified_loop (committed demo_activation) = answer"
    and "answers_failure (dm_account_id (canary paper)) (KeyError ''account_not_found'') verified_loop (committed demo_activation) answer"
    using expected_failures_are_answered[of demo_loop good_event "market_at 5" None "''k''" demo_clock verified_loop
        "committed demo_activation"] demo_trusted demo_unclaimed by blast
  then show ?thesis by (auto simp: answers_failure_def halting_reason_def lost_race_def)
qed

theorem halted_loop_sends_nothing_witness:
  "\<exists>reason s'. lo_halt_reason s' = Some reason \<and>
     process demo_loop bar_event (market_at 7) None ''k'' demo_clock s' empty_db =
       (Inr (stopped_reply ''halted'' reason), s', empty_db)"
proof -
  obtain reply s' d' where "process demo_loop bar_event (market_at 5) None ''k'' demo_clock verified_loop (committed demo_activation) =
      (Inr reply, s', d')" "reply_status reply = ''halted''" using demo_halts by blast
  from halted_loop_sends_nothing[OF this] show ?thesis by blast
qed

theorem untrusted_data_halts_witness:
  "\<exists>reply s' d'. process demo_loop bar_event (market_at 5) None ''k'' demo_clock verified_loop (committed demo_activation) =
     (Inr reply, s', d') \<and> reply_status reply = ''halted'' \<and> orders d' = orders (committed demo_activation)"
  using untrusted_data_halts[OF demo_running demo_authorized disjI2[OF disjI2[OF demo_untrusted]]] by blast

text \<open>A step without orders, in an account leased to the worker.\<close>

definition leased :: "account_row \<Rightarrow> account_row" where
  "leased a = a\<lparr>ac_lease_owner := Some ''worker'', ac_lease_token := Some ''k'', ac_lease_until_ns := 100\<rparr>"

definition leased_db :: db where
  "leased_db = (committed opened)\<lparr>accounts := map leased (accounts (committed opened))\<rparr>"

definition holding_loop :: "unit loop_state" where
  "holding_loop = verified_loop\<lparr>lo_lease_token := Some ''k''\<rparr>"

definition idle_step :: json where
  "idle_step = step_document worker_actor bar_event (market_at 5) [] [] None []"

lemma leased_db_facts:
  "\<exists>acc. accounts leased_db = [acc] \<and> ac_tenant_id acc = ''t'' \<and> ac_account_id acc = ''acc'' \<and>
      ac_lease_owner acc = Some ''worker'' \<and> ac_lease_token acc = Some ''k'' \<and> ac_lease_until_ns acc = 100"
  "artifacts leased_db = []" "runtime_health leased_db = []"
  by (simp_all add: leased_db_def leased_def opened_def committed_def open_simps add_event_def Let_def)

definition idle_reply :: reply_fields where
  "idle_reply = step_reply ''no_signal'' ''step'' [] (canary paper) True"

lemma idle_step_runs:
  "\<exists>d' row. execute_step demo_loop (canary paper) ''step'' idle_step (market_at 5) demo_clock holding_loop leased_db =
     (Inr idle_reply, holding_loop, d') \<and>
     first_where (artifact_key ''t'' ''trading_step_complete'' ''step'') (artifacts d') = Some row \<and>
     ar_payload row = AJson (JObj idle_reply) \<and> ar_sha256 row = content_hash text_sha (JObj idle_reply)"
  using leased_db_facts
  by (auto simp: execute_step_def act_if_key_missing_def act_try_def act_bind_def from_read_def artifact_document_def
      get_artifact_def first_where_def or_raise_def bind_def demo_loop_def idle_step_def step_document_def json_member_def jget_def
      from_result_def act_return_def put_fenced_def act_get_def from_call_def transaction_def put_fenced_tx_def
      runtime_lease_def worker_actor_def canary_def holding_loop_def demo_clock_def raise_if_def Let_def insert_document_def
      same_document_def insert_once_def artifact_key_def idle_reply_def)

text \<open>The idle step is executed twice: the second time it answers the recorded reply as a duplicate.\<close>

theorem answered_step_never_resent_witness:
  "\<exists>d'. execute_step demo_loop (canary paper) ''step'' idle_step (market_at 5) demo_clock holding_loop leased_db =
       (Inr idle_reply, holding_loop, d') \<and>
     execute_step demo_loop (canary paper) ''step'' idle_step (market_at 9) demo_clock verified_loop d' =
       (Inr ((''status'', JStr ''duplicate'') # filter (\<lambda>(k, v). k \<noteq> ''status'') idle_reply), verified_loop, d')"
proof -
  obtain d' row where run: "execute_step demo_loop (canary paper) ''step'' idle_step (market_at 5) demo_clock holding_loop leased_db =
     (Inr idle_reply, holding_loop, d')"
    and row: "first_where (artifact_key ''t'' ''trading_step_complete'' ''step'') (artifacts d') = Some row"
      "ar_payload row = AJson (JObj idle_reply)" "ar_sha256 row = content_hash text_sha (JObj idle_reply)"
    using idle_step_runs by blast
  have parts: "tr_sha demo_loop = text_sha" "ra_tenant (tr_actor demo_loop) = ''t''" by (simp_all add: demo_loop_def worker_actor_def)
  have "reply_status idle_reply \<noteq> ''halted''" by (simp add: idle_reply_def)
  then obtain found where "first_where (artifact_key ''t'' ''trading_step_complete'' ''step'') (artifacts d') = Some found"
    and "execute_step demo_loop (canary paper) ''step'' idle_step (market_at 9) demo_clock verified_loop d' =
      (repeated_answer text_sha found, verified_loop, d')"
    using answered_step_never_resent[OF run _ refl refl prefix_order.refl] unfolding parts by blast
  then show ?thesis using run row by (auto simp: repeated_answer_def)
qed

theorem checkpoint_reads_back_witness:
  "\<exists>d'. checkpoint_tx text_sha worker_actor (Some ''k'') None (canary paper) ''step'' 5
       (step_document worker_actor bar_event (market_at 5) [] [wire_intent] None []) demo_clock leased_db = Inr ((), d') \<and>
     head_step (runtime_head worker_actor d') = Inr (Some ''step'')"
proof -
  note e = leased_db_facts
  then obtain d' where r: "checkpoint_tx text_sha worker_actor (Some ''k'') None (canary paper) ''step'' 5
       (step_document worker_actor bar_event (market_at 5) [] [wire_intent] None []) demo_clock leased_db = Inr ((), d')"
    by (auto simp: checkpoint_tx_def runtime_lease_def runtime_head_def head_step_def first_where_def worker_actor_def canary_def
        demo_clock_def raise_if_def bind_def or_raise_def insert_document_def same_document_def insert_once_def artifact_key_def Let_def)
  have "first_where (artifact_key (ra_tenant worker_actor) ''trading_step'' ''step'') (artifacts leased_db) = None"
    using e by (simp add: first_where_def)
  then show ?thesis using checkpoint_reads_back[OF r] r wire_valid(4) by auto
qed

end
