(* ===== verification/Watchdog.thy ===== *)
theory Watchdog
  imports Runtime "HOL-Library.Sublist"
begin

text \<open>
  The independent watchdog of \<open>src/qt/operations/watchdog.py\<close>: it reads what the other processes
  published about a deployment and latches a stop of the account when something is missing.  A report is
  the dictionary it returns, one constructor per kind, with \<open>watch_status\<close> its \<open>status\<close> member after
  the merge of the risk guard's members.  \<open>clk n\<close> are the clock readings of one check.  Every exception
  is caught, so a member of an unexpected type only matters through the name of its exception.
\<close>

section \<open>Reports\<close>

record watchdog =
  wd_sha :: hasher
  wd_mac :: mac
  wd_releases :: deployment_registry
  wd_tenant :: string
  wd_injected_clock :: bool

datatype watch_report =
    NotActive string
  | Latched string stop_report
  | NotInitialized string
  | AwaitingRuntime string risk_mode
  | Checked string check_report
  | Unavailable string error

fun watch_status :: "watch_report \<Rightarrow> string" where
  "watch_status (NotActive dep) = ''inactive''"
| "watch_status (Latched dep (StopInactive aid)) = ''inactive''"
| "watch_status (Latched dep (StopLatched aid mode reasons)) = ''stopped''"
| "watch_status (NotInitialized dep) = ''blocked''"
| "watch_status (AwaitingRuntime dep mode) = ''awaiting_runtime''"
| "watch_status (Checked dep c) =
     (if rr_observation_discarded (ck_report c) then ''held''
      else if rr_safe_new_risk (ck_report c) then ''healthy'' else ''stopped'')"
| "watch_status (Unavailable dep e) = ''unavailable''"

text \<open>\<open>_stop\<close>\<close>

definition watch_stop :: "watchdog \<Rightarrow> string \<Rightarrow> string \<Rightarrow> string list \<Rightarrow> int \<Rightarrow> watch_report call" where
  "watch_stop w aid dep reasons t =
     call_bind (transaction (stop_tx (wd_tenant w) aid reasons HALTED (Some dep) t)) (\<lambda>r. return_call (Latched dep r))"

text \<open>\<open>_active_ids\<close>\<close>

definition active_ids :: "watchdog \<Rightarrow> db \<Rightarrow> string list result" where
  "active_ids w d =
     bind (active_list (wd_sha w) (wd_tenant w) d) (\<lambda>rows. Inr (List.map_filter ae_deployment_id rows))"

section \<open>Members of stored documents\<close>

text \<open>\<open>payload.get(key)\<close>\<close>

definition payload_get :: "json \<Rightarrow> string \<Rightarrow> json option result" where
  "payload_get v k = (case v of JObj kvs \<Rightarrow> Inr (map_of kvs k) | _ \<Rightarrow> Inl (OtherError ''AttributeError''))"

definition lower_char :: "char \<Rightarrow> char" where
  "lower_char c = (if CHR ''A'' \<le> c \<and> c \<le> CHR ''Z'' then char_of (of_char c + 32 :: nat) else c)"

text \<open>The decimal texts that are not finite: infinities and NaNs.\<close>

definition special_decimal :: "string \<Rightarrow> bool" where
  "special_decimal s =
     (let r = map lower_char (snd (split_sign s));
          body = (if take 1 r = ''s'' then drop 1 r else r) in
      r = ''inf'' \<or> r = ''infinity'' \<or> (take 3 body = ''nan'' \<and> list_all is_digit (drop 3 body)))"

text \<open>\<open>Decimal(text)\<close> is not finite or satisfies \<open>P\<close>.\<close>

definition decimal_bad :: "(rat \<Rightarrow> bool) \<Rightarrow> string \<Rightarrow> bool result" where
  "decimal_bad P s =
     (if special_decimal s then Inr True else bind (or_raise (decimal_value s) InvalidOperation) (\<lambda>v. Inr (P v)))"

text \<open>\<open>any(..)\<close> over the values of \<open>differences\<close>\<close>

fun differences_bad :: "json list \<Rightarrow> bool result" where
  "differences_bad [] = Inr False"
| "differences_bad (JStr s # vs) =
     bind (decimal_bad (\<lambda>v. v \<noteq> 0) s) (\<lambda>bad. if bad then Inr True else differences_bad vs)"
| "differences_bad (_ # vs) = Inr True"

text \<open>\<open>_instrument\<close>: the one instrument of the validated experiment that the manifest's venue lists.\<close>

fun read_instruments :: "watchdog \<Rightarrow> db \<Rightarrow> json list \<Rightarrow> instrument_spec list result" where
  "read_instruments w d [] = Inr []"
| "read_instruments w d (v # vs) =
     bind (or_raise (as_str v) (TypeError ''identity'')) (\<lambda>identity.
     bind (artifact_document (wd_sha w) (wd_tenant w) ''instrument'' identity d) (\<lambda>document.
     bind (or_raise (parse_instrument document) (ValueError ''InstrumentSpec'')) (\<lambda>i.
     bind (read_instruments w d vs) (\<lambda>rest. Inr (i # rest)))))"

definition watch_instrument :: "watchdog \<Rightarrow> deployment_manifest \<Rightarrow> db \<Rightarrow> instrument_spec result" where
  "watch_instrument w m d =
     bind (artifact_document (wd_sha w) (wd_tenant w) ''validation'' (dm_validation_report_hash m) d) (\<lambda>validation.
     bind (text_at validation ''experiment_hash'') (\<lambda>experiment.
     bind (artifact_document (wd_sha w) (wd_tenant w) ''experiment_spec'' experiment d) (\<lambda>spec.
     bind (json_member spec ''instrument_spec_hashes'') (\<lambda>hashes.
     bind (case hashes of JArr vs \<Rightarrow> Inr vs | _ \<Rightarrow> Inl (TypeError ''instrument_spec_hashes'')) (\<lambda>identities.
     bind (read_instruments w d identities) (\<lambda>found.
     case filter (\<lambda>i. is_venue i = dm_venue m) found of
       [i] \<Rightarrow> Inr i
     | _ \<Rightarrow> Inl (ValueError ''single_verified_instrument_required_for_spot_valuation'')))))))"

section \<open>The evidence about a deployment\<close>

text \<open>The rows one check reads in its transaction.\<close>

record evidence =
  ev_account :: "account_row option"
  ev_heartbeat :: "health_row option"
  ev_market :: "health_row option"
  ev_clock :: "health_row option"
  ev_account_health :: "health_row option"
  ev_uncertain :: bool
  ev_pending :: bool
  ev_wallet :: "(string \<times> rat) list"

definition health_of :: "string \<Rightarrow> string \<Rightarrow> db \<Rightarrow> health_row option" where
  "health_of tenant name d = first_where (\<lambda>h. hl_tenant_id h = tenant \<and> hl_name h = name) (runtime_health d)"

definition unanswered :: "int \<Rightarrow> order_row \<Rightarrow> bool" where
  "unanswered now r \<longleftrightarrow> od_status r = UNKNOWN \<or>
     (od_status r \<in> {SUBMITTING, CANCEL_PENDING} \<and> od_updated_ns r \<le> now - 5000000000)"

definition read_evidence :: "watchdog \<Rightarrow> deployment_manifest \<Rightarrow> instrument_spec \<Rightarrow> string \<Rightarrow> int \<Rightarrow> db \<Rightarrow> evidence" where
  "read_evidence w m i dep now d =
     (let tenant = wd_tenant w; aid = dm_account_id m;
          mine = select_where (\<lambda>r. od_account_id r = aid) (orders d) in
      \<lparr>ev_account = first_where (\<lambda>a. ac_account_id a = aid \<and> ac_tenant_id a = tenant) (accounts d),
       ev_heartbeat = health_of tenant (''trading:'' @ dep) d,
       ev_market = health_of tenant (''market:'' @ dm_venue m @ '':'' @ is_instrument i) d,
       ev_clock = health_of tenant ''clock'' d,
       ev_account_health = health_of tenant (''account:'' @ aid) d,
       ev_uncertain = list_ex (unanswered now) mine,
       ev_pending = list_ex (\<lambda>r. \<not> terminal (od_status r)) mine,
       ev_wallet = wallet aid d\<rparr>)"

definition fresh_row :: "int \<Rightarrow> int \<Rightarrow> health_row \<Rightarrow> bool" where
  "fresh_row now limit h \<longleftrightarrow> 0 \<le> now - hl_observed_ns h \<and> now - hl_observed_ns h \<le> limit"

definition heartbeat_bad :: "int \<Rightarrow> health_row option \<Rightarrow> bool result" where
  "heartbeat_bad now row =
     (case row of
        None \<Rightarrow> Inr True
      | Some h \<Rightarrow>
          if \<not> fresh_row now 5000000000 h then Inr True
          else bind (payload_get (hl_payload h) ''healthy'') (\<lambda>v. Inr (v \<noteq> Some (JBool True))))"

definition market_bad :: "int \<Rightarrow> health_row option \<Rightarrow> bool" where
  "market_bad now row = (case row of None \<Rightarrow> True | Some h \<Rightarrow> \<not> fresh_row now 1000000000 h)"

definition clock_bad :: "int \<Rightarrow> health_row option \<Rightarrow> bool result" where
  "clock_bad now row =
     (case row of
        None \<Rightarrow> Inr False
      | Some h \<Rightarrow>
          bind (payload_get (hl_payload h) ''offset_ms'') (\<lambda>offset.
          bind (case offset of Some (JStr s) \<Rightarrow> decimal_bad (\<lambda>v. 50 < \<bar>v\<bar>) s | _ \<Rightarrow> Inr True) (\<lambda>bad.
          if bad then Inr True
          else bind (payload_get (hl_payload h) ''healthy'') (\<lambda>v.
               Inr (v \<noteq> Some (JBool True) \<or> \<not> fresh_row now 60000000000 h)))))"

definition reconciliation_bad :: "health_row option \<Rightarrow> bool result" where
  "reconciliation_bad row =
     (case row of
        None \<Rightarrow> Inr False
      | Some h \<Rightarrow>
          bind (payload_get (hl_payload h) ''differences'') (\<lambda>differences.
          bind (payload_get (hl_payload h) ''reconciled'') (\<lambda>reconciled.
          if reconciled \<noteq> Some (JBool True) then Inr True
          else case differences of
              None \<Rightarrow> Inr False
            | Some (JObj kvs) \<Rightarrow> differences_bad (map snd kvs)
            | Some _ \<Rightarrow> Inr True)))"

definition lease_lost :: "int \<Rightarrow> account_row \<Rightarrow> bool" where
  "lease_lost now a \<longleftrightarrow> ac_lease_until_ns a \<le> now \<or> ac_lease_token a = None \<or> ac_lease_token a = Some []"

definition watch_reasons :: "int \<Rightarrow> account_row \<Rightarrow> evidence \<Rightarrow> string list result" where
  "watch_reasons now a ev =
     bind (heartbeat_bad now (ev_heartbeat ev)) (\<lambda>heartbeat.
     bind (clock_bad now (ev_clock ev)) (\<lambda>clock.
     bind (reconciliation_bad (ev_account_health ev)) (\<lambda>difference.
     Inr (reason_if (lease_lost now a) ''execution_lease_lost'' @
          reason_if (ev_uncertain ev) ''execution_requires_reconciliation'' @
          reason_if heartbeat ''trading_runtime_heartbeat_missing_or_unhealthy'' @
          reason_if (market_bad now (ev_market ev)) ''market_health_missing_or_stale'' @
          reason_if clock ''clock_untrusted'' @
          reason_if difference ''account_reconciliation_difference''))))"

text \<open>A deployment whose runtime has never reported, and that has nothing at stake.\<close>

definition never_started :: "account_row \<Rightarrow> evidence \<Rightarrow> bool" where
  "never_started a ev \<longleftrightarrow> ev_heartbeat ev = None \<and> \<not> ev_pending ev \<and>
     \<not> list_ex (\<lambda>(asset, amount). asset \<noteq> ac_quote_asset a \<and> amount \<noteq> 0) (ev_wallet ev)"

section \<open>One deployment\<close>

text \<open>The valuation by the risk guard, once nothing else is wrong.\<close>

definition watch_valuation ::
  "watchdog \<Rightarrow> deployment_manifest \<Rightarrow> instrument_spec \<Rightarrow> string \<Rightarrow> int \<Rightarrow> health_row \<Rightarrow> (nat \<Rightarrow> int) \<Rightarrow> watch_report call" where
  "watch_valuation w m i dep now row clk =
     (case parse_market (hl_payload row) of
        None \<Rightarrow> watch_stop w (dm_account_id m) dep [''market_payload_invalid''] (clk 3)
      | Some market \<Rightarrow>
          call_bind (transaction (check_tx (wd_sha w) (wd_tenant w) m i market
              (if wd_injected_clock w then Some now else None) (clk 4)))
            (\<lambda>c. return_call (Checked dep c)))"

text \<open>What follows the reading of the evidence; \<open>now\<close> is sampled after it.\<close>

definition judge_evidence ::
  "watchdog \<Rightarrow> deployment_manifest \<Rightarrow> instrument_spec \<Rightarrow> string \<Rightarrow> evidence \<Rightarrow> (nat \<Rightarrow> int) \<Rightarrow> watch_report call" where
  "judge_evidence w m i dep ev clk =
     (let now = clk 2 in
      case ev_account ev of
        None \<Rightarrow> return_call (NotInitialized dep)
      | Some a \<Rightarrow>
          if never_started a ev then return_call (AwaitingRuntime dep (ac_mode a))
          else case watch_reasons now a ev of
              Inl e \<Rightarrow> raise_call e
            | Inr reasons \<Rightarrow>
                if reasons \<noteq> [] then watch_stop w (dm_account_id m) dep reasons (clk 3)
                else case ev_market ev of
                    None \<Rightarrow> raise_call (TypeError ''NoneType'')
                  | Some row \<Rightarrow> watch_valuation w m i dep now row clk)"

text \<open>The body of the outer \<open>try\<close> after the account is known.\<close>

definition watch_account :: "watchdog \<Rightarrow> string \<Rightarrow> string option \<Rightarrow> (nat \<Rightarrow> int) \<Rightarrow> watch_report call" where
  "watch_account w dep aid clk d =
     (case bind (verify_deployment (wd_sha w) (wd_mac w) (wd_releases w) (wd_tenant w) dep (clk 1) d) (\<lambda>m.
           bind (watch_instrument w m d) (\<lambda>i. Inr (m, i))) of
        Inl _ \<Rightarrow>
          (case aid of
             None \<Rightarrow> raise_call (KeyError ''account_not_found'') d
           | Some a \<Rightarrow> watch_stop w a dep [''deployment_or_instrument_verification_failed''] (clk 3) d)
      | Inr (m, i) \<Rightarrow> judge_evidence w m i dep (read_evidence w m i dep (clk 0) d) clk d)"

text \<open>\<open>raw.get("account_id")\<close> of the stored manifest; a value that is not text names no account.\<close>

definition raw_account :: "json \<Rightarrow> string option result" where
  "raw_account raw = bind (payload_get raw ''account_id'') (\<lambda>v. Inr (Option.bind v as_str))"

text \<open>The outer \<open>except\<close>: stop the account when it is known, else report that nothing is known.\<close>

definition watch_failed :: "watchdog \<Rightarrow> string \<Rightarrow> string option \<Rightarrow> error \<Rightarrow> int \<Rightarrow> db \<Rightarrow> watch_report \<times> db" where
  "watch_failed w dep aid e t d =
     (case aid of
        None \<Rightarrow> (Unavailable dep e, d)
      | Some a \<Rightarrow>
          (case watch_stop w a dep [''watchdog_check_failed:'' @ error_name e] t d of
             (Inr r, d') \<Rightarrow> (r, d')
           | (Inl _, d') \<Rightarrow> (Unavailable dep e, d')))"

definition check_deployment :: "watchdog \<Rightarrow> string \<Rightarrow> (nat \<Rightarrow> int) \<Rightarrow> db \<Rightarrow> watch_report \<times> db" where
  "check_deployment w dep clk d =
     (case active_ids w d of
        Inl e \<Rightarrow> watch_failed w dep None e (clk 5) d
      | Inr ids \<Rightarrow>
          if dep \<notin> set ids then (NotActive dep, d)
          else
            case bind (artifact_document (wd_sha w) (wd_tenant w) ''deployment'' dep d) raw_account of
              Inl e \<Rightarrow> watch_failed w dep None e (clk 5) d
            | Inr aid \<Rightarrow>
                (case watch_account w dep aid clk d of
                   (Inr r, d') \<Rightarrow> (r, d')
                 | (Inl e, d') \<Rightarrow> watch_failed w dep aid e (clk 5) d'))"

section \<open>Every active deployment\<close>

fun check_each :: "watchdog \<Rightarrow> string list \<Rightarrow> (nat \<Rightarrow> nat \<Rightarrow> int) \<Rightarrow> db \<Rightarrow> watch_report list \<times> db" where
  "check_each w [] clk d = ([], d)"
| "check_each w (dep # deps) clk d =
     (case check_deployment w dep (clk 0) d of
        (r, d1) \<Rightarrow> case check_each w deps (\<lambda>n. clk (Suc n)) d1 of (rs, d2) \<Rightarrow> (r # rs, d2))"

definition overall_status :: "watch_report list \<Rightarrow> string" where
  "overall_status rs =
     (let every = (\<lambda>wanted. list_all (\<lambda>r. watch_status r \<in> wanted) rs) in
      if list_ex (\<lambda>r. watch_status r = ''unavailable'') rs then ''unavailable''
      else if rs \<noteq> [] \<and> every {''healthy''} then ''healthy''
      else if rs = [] then ''idle''
      else if every {''awaiting_runtime''} then ''awaiting_runtime''
      else if every {''healthy'', ''held''} then ''held''
      else ''stopped'')"

text \<open>\<open>check\<close>\<close>

definition watchdog_check :: "watchdog \<Rightarrow> (nat \<Rightarrow> nat \<Rightarrow> int) \<Rightarrow> db \<Rightarrow> (string \<times> watch_report list) \<times> db" where
  "watchdog_check w clk d =
     (case active_ids w d of
        Inl e \<Rightarrow> ((''unavailable'', []), d)
      | Inr ids \<Rightarrow> case check_each w ids clk d of (rs, d') \<Rightarrow> ((overall_status rs, rs), d'))"

section \<open>The watchdog can only stop\<close>

text \<open>An account that changed in nothing but its mode, and there only towards a stop.\<close>

definition stricter :: "account_row \<Rightarrow> account_row \<Rightarrow> bool" where
  "stricter a b \<longleftrightarrow> (\<exists>mode. b = a\<lparr>ac_mode := mode\<rparr> \<and> (mode = ACTIVE \<longrightarrow> ac_mode a = ACTIVE) \<and>
     (ac_mode a = HALTED \<longrightarrow> mode = HALTED))"

definition only_stops :: "db \<Rightarrow> db \<Rightarrow> bool" where
  "only_stops d d' \<longleftrightarrow> list_all2 stricter (accounts d) (accounts d') \<and> orders d' = orders d \<and> fills d' = fills d \<and>
     ledger_transactions d' = ledger_transactions d \<and> ledger_entries d' = ledger_entries d \<and>
     artifacts d' = artifacts d \<and> deployment_heads d' = deployment_heads d \<and> jobs d' = jobs d \<and>
     runtime_health d' = runtime_health d \<and> usage_budgets d' = usage_budgets d \<and> model_calls d' = model_calls d"

text \<open>What a valuation writes down: the risk state of its account and a new portfolio snapshot, nothing else.\<close>

definition marks_only :: "string \<Rightarrow> db \<Rightarrow> db \<Rightarrow> bool" where
  "marks_only aid d d' \<longleftrightarrow> d' = d\<lparr>risk_state := risk_state d', portfolio_snapshots := portfolio_snapshots d'\<rparr> \<and>
     filter (\<lambda>r. rs_account_id r \<noteq> aid) (risk_state d') = filter (\<lambda>r. rs_account_id r \<noteq> aid) (risk_state d) \<and>
     prefix (portfolio_snapshots d) (portfolio_snapshots d')"

lemma stricter_mode: "(mode = ACTIVE \<longrightarrow> ac_mode a = ACTIVE) \<Longrightarrow> (ac_mode a = HALTED \<longrightarrow> mode = HALTED) \<Longrightarrow>
    stricter a (a\<lparr>ac_mode := mode\<rparr>)"
  by (auto simp: stricter_def)

lemma stricter_refl: "stricter a a"
  using stricter_mode[of "ac_mode a" a] by simp

lemma stricter_trans: "stricter a b \<Longrightarrow> stricter b c \<Longrightarrow> stricter a c"
  by (fastforce simp: stricter_def)

lemma stricter_lists: "list_all2 stricter xs ys \<Longrightarrow> list_all2 stricter ys zs \<Longrightarrow> list_all2 stricter xs zs"
  by (rule list_all2_trans[where ?P1.0 = stricter and ?P2.0 = stricter], rule stricter_trans)

lemma stricter_id: "stricter a b \<Longrightarrow> ac_account_id b = ac_account_id a"
  by (auto simp: stricter_def)

lemma only_stops_refl: "only_stops d d"
  by (simp add: only_stops_def list.rel_refl stricter_refl)

lemma only_stops_trans: "only_stops d d1 \<Longrightarrow> only_stops d1 d2 \<Longrightarrow> only_stops d d2"
  unfolding only_stops_def using stricter_lists[of "accounts d" "accounts d1" "accounts d2"] by simp

lemma only_stops_ids: "only_stops d d' \<Longrightarrow> map ac_account_id (accounts d') = map ac_account_id (accounts d)"
  unfolding only_stops_def
  by (auto simp: list_all2_conv_all_nth stricter_id intro!: nth_equalityI)

lemma only_stops_mode:
  assumes "\<And>a. a \<in> set rows \<Longrightarrow> P a \<Longrightarrow> stricter a (a\<lparr>ac_mode := mode\<rparr>)"
  shows "list_all2 stricter rows (update_where P (\<lambda>a. a\<lparr>ac_mode := mode\<rparr>) rows)"
  using assms by (induction rows) (simp_all add: update_where_def stricter_refl)



lemma filter_update_where:
  "(\<And>x. P x \<Longrightarrow> \<not> Q x) \<Longrightarrow> (\<And>x. P x \<Longrightarrow> \<not> Q (f x)) \<Longrightarrow> filter Q (update_where P f rows) = filter Q rows"
  by (induction rows) (auto simp: update_where_def)

lemma record_marks_only:
  assumes "record_marks sha tenant m market now report latched d = Inr d'"
  shows "marks_only (dm_account_id m) d d'"
proof -
  have once: "prefix rows (insert_once clash r rows)" for clash and r :: 'r and rows
    by (simp add: insert_once_def)
  have other: "filter (\<lambda>r. rs_account_id r \<noteq> aid) (insert_once risk_state_clash v rows) =
      filter (\<lambda>r. rs_account_id r \<noteq> aid) rows" if "rs_account_id v = aid" for v aid rows
    using that by (simp add: insert_once_def)
  have same: "filter (\<lambda>r. rs_account_id r \<noteq> aid) (update_where (\<lambda>r. rs_account_id r = aid) f rows) =
      filter (\<lambda>r. rs_account_id r \<noteq> aid) rows" if "\<And>r. rs_account_id r = aid \<Longrightarrow> rs_account_id (f r) = aid" for f aid rows
    using that by (intro filter_update_where) auto
  show ?thesis using assms
    by (auto simp: marks_only_def record_marks_def upsert_risk_state_def Let_def result_simps once other same
        split: option.splits if_splits)
qed

lemma record_marks_quiet:
  assumes "record_marks sha tenant deployment market now report latched d = Inr d'"
  shows "accounts d' = accounts d \<and> orders d' = orders d \<and> fills d' = fills d \<and>
     ledger_transactions d' = ledger_transactions d \<and> ledger_entries d' = ledger_entries d \<and>
     artifacts d' = artifacts d \<and> deployment_heads d' = deployment_heads d \<and> jobs d' = jobs d \<and>
     runtime_health d' = runtime_health d \<and> usage_budgets d' = usage_budgets d \<and> model_calls d' = model_calls d"
proof -
  have "d' = d\<lparr>risk_state := risk_state d', portfolio_snapshots := portfolio_snapshots d'\<rparr>"
    using record_marks_only[OF assms] by (simp add: marks_only_def)
  then show ?thesis by (cases d; cases d') simp
qed

lemma evaluated_stricter: "evaluated_mode a reasons = ACTIVE \<Longrightarrow> ac_mode a = ACTIVE"
  "ac_mode a = HALTED \<Longrightarrow> evaluated_mode a reasons = HALTED"
  by (auto simp: evaluated_mode_def split: if_splits)

lemma evaluate_mode:
  assumes "report = evaluate_locked sha a m i market now d" and "\<not> rr_observation_discarded report"
  shows "(rr_mode report = ACTIVE \<longrightarrow> ac_mode a = ACTIVE) \<and> (ac_mode a = HALTED \<longrightarrow> rr_mode report = HALTED) \<and>
    (rr_safe_new_risk report \<longleftrightarrow> rr_mode report = ACTIVE)"
  using assms by (auto simp: evaluate_locked_def Let_def blocked_report_def evaluated_stricter split: if_splits)

lemma check_only_stops:
  assumes "check_tx sha tenant m i market now_ns t d = Inr (c, d')" and "distinct (map ac_account_id (accounts d))"
  shows "only_stops d d' \<and> (\<exists>a \<in> set (accounts d). ac_tenant_id a = tenant \<and> ac_account_id a = dm_account_id m \<and>
    (if rr_observation_discarded (ck_report c) then d' = d
     else (rr_safe_new_risk (ck_report c) \<longrightarrow> ac_mode a = ACTIVE \<and> accounts d' = accounts d \<and> marks_only (dm_account_id m) d d') \<and>
          (\<not> rr_safe_new_risk (ck_report c) \<longrightarrow>
             (\<forall>b \<in> set (accounts d'). ac_account_id b = dm_account_id m \<longrightarrow> ac_mode b \<noteq> ACTIVE))))"
proof -
  let ?now = "case now_ns of None \<Rightarrow> t | Some n \<Rightarrow> n"
  obtain a where a: "first_where (\<lambda>a. ac_tenant_id a = tenant \<and> ac_account_id a = dm_account_id m) (accounts d) = Some a"
    and e: "(let report = evaluate_locked sha a m i market ?now d;
        old = (case rr_state report of None \<Rightarrow> [] | Some s \<Rightarrow> rs_latched_reasons s) in
    if rr_observation_discarded report
    then Inr (\<lparr>ck_report = report, ck_latched_reasons = old, ck_persisted = False\<rparr>, d)
    else
      let latched = dedupe (old @ rr_reasons report) in
      bind (record_marks sha tenant m market ?now report latched d) (\<lambda>d2.
      bind (if rr_mode report \<noteq> ac_mode a
            then bind (update_account (dm_account_id m) (\<lambda>a. a\<lparr>ac_mode := rr_mode report\<rparr>) d2) (\<lambda>d3.
                   Inr (add_event tenant (dm_account_id m) ''risk_stop''
                     [(''mode'', JStr (mode_text (rr_mode report))),
                      (''reasons'', JArr (map JStr (rr_reasons report)))] t d3))
            else Inr d2) (\<lambda>d4.
      Inr (\<lparr>ck_report = report, ck_latched_reasons = latched, ck_persisted = True\<rparr>, d4)))) = Inr (c, d')"
    using assms(1) by (auto simp: check_tx_def result_simps Let_def)
  define report where "report = evaluate_locked sha a m i market ?now d"
  note in_a = first_where_Some[OF a]
  have only: "b = a" if "b \<in> set (accounts d)" "ac_account_id b = dm_account_id m" for b
    using unique_row[OF assms(2), of b a] that in_a by auto
  show ?thesis
  proof (cases "rr_observation_discarded report")
    case True
    then have "d' = d" "ck_report c = report" using e by (auto simp: report_def[symmetric])
    then show ?thesis using in_a True by (auto intro: only_stops_refl)
  next
    case False
    note mode = evaluate_mode[OF report_def False]
    let ?latched = "dedupe ((case rr_state report of None \<Rightarrow> [] | Some s \<Rightarrow> rs_latched_reasons s) @ rr_reasons report)"
    obtain d2 where d2: "record_marks sha tenant m market ?now report ?latched d = Inr d2"
      and d': "bind (if rr_mode report \<noteq> ac_mode a
            then bind (update_account (dm_account_id m) (\<lambda>a. a\<lparr>ac_mode := rr_mode report\<rparr>) d2) (\<lambda>d3.
                   Inr (add_event tenant (dm_account_id m) ''risk_stop''
                     [(''mode'', JStr (mode_text (rr_mode report))),
                      (''reasons'', JArr (map JStr (rr_reasons report)))] t d3))
            else Inr d2) (\<lambda>d4.
            Inr (\<lparr>ck_report = report, ck_latched_reasons = ?latched, ck_persisted = True\<rparr>, d4)) = Inr (c, d')"
      using e unfolding Let_def report_def[symmetric] if_not_P[OF False] bind_eq_Inr[of "record_marks _ _ _ _ _ _ _ _"] by blast
    note quiet = record_marks_quiet[OF d2]
    have moved: "list_all2 stricter (accounts d) (update_where (\<lambda>a. ac_account_id a = dm_account_id m)
        (\<lambda>a. a\<lparr>ac_mode := rr_mode report\<rparr>) (accounts d))"
      by (rule only_stops_mode) (use only mode in \<open>auto intro!: stricter_mode\<close>)
    have same: "accounts d' = (if rr_mode report = ac_mode a then accounts d else update_where (\<lambda>a. ac_account_id a = dm_account_id m)
        (\<lambda>a. a\<lparr>ac_mode := rr_mode report\<rparr>) (accounts d)) \<and> orders d' = orders d \<and> fills d' = fills d \<and>
        ledger_transactions d' = ledger_transactions d \<and> ledger_entries d' = ledger_entries d \<and> artifacts d' = artifacts d \<and>
        deployment_heads d' = deployment_heads d \<and> jobs d' = jobs d \<and> runtime_health d' = runtime_health d \<and>
        usage_budgets d' = usage_budgets d \<and> model_calls d' = model_calls d \<and> ck_report c = report \<and>
        (rr_mode report = ac_mode a \<longrightarrow> d' = d2)"
      using d' quiet by (cases "rr_mode report = ac_mode a") (auto simp: bind_eq_Inr update_account_eq_Inr add_event_def)
    then have "only_stops d d'" using moved by (simp add: only_stops_def list.rel_refl stricter_refl)
    moreover have "rr_safe_new_risk report \<Longrightarrow> ac_mode a = ACTIVE \<and> accounts d' = accounts d \<and> marks_only (dm_account_id m) d d'"
      using mode same record_marks_only[OF d2] by auto
    moreover have "ac_mode b \<noteq> ACTIVE" if "\<not> rr_safe_new_risk report" "b \<in> set (accounts d')" "ac_account_id b = dm_account_id m" for b
      using that mode same only by (cases "rr_mode report = ac_mode a") (auto simp: set_update_where split: if_splits)
    moreover have "ck_report c = report" using same by blast
    ultimately show ?thesis using in_a False by (intro conjI bexI[of _ a]) auto
  qed
qed

section \<open>What a report means\<close>










lemma heartbeat_good: "heartbeat_bad now row = Inr False \<Longrightarrow>
    \<exists>h. row = Some h \<and> fresh_row now 5000000000 h \<and> jget (hl_payload h) ''healthy'' = Some (JBool True)"
  by (auto simp: heartbeat_bad_def payload_get_def jget_def bind_eq_Inr split: option.splits if_splits json.splits)

lemma no_reasons:
  assumes "watch_reasons now a ev = Inr []"
  shows "\<not> lease_lost now a \<and> \<not> ev_uncertain ev \<and> heartbeat_bad now (ev_heartbeat ev) = Inr False \<and>
    \<not> market_bad now (ev_market ev) \<and> clock_bad now (ev_clock ev) = Inr False \<and>
    reconciliation_bad (ev_account_health ev) = Inr False"
  using assms by (auto simp: watch_reasons_def bind_eq_Inr reason_if_def split: if_splits)

lemma stop_not_checked [simp]: "watch_stop w aid dep reasons t d \<noteq> (Inr (Checked dep' c), d')"
  by (auto simp: watch_stop_def call_bind_def return_call_def split: prod.splits sum.splits)

lemma failed_not_checked [simp]: "watch_failed w dep aid e t d \<noteq> (Checked dep' c, d')"
  by (auto simp: watch_failed_def split: option.splits prod.splits sum.splits)

lemma valuation_checked:
  assumes "watch_valuation w m i dep now row clk d = (Inr (Checked dep' c), d')"
  shows "\<exists>market. parse_market (hl_payload row) = Some market \<and> check_tx (wd_sha w) (wd_tenant w) m i market
    (if wd_injected_clock w then Some now else None) (clk 4) d = Inr (c, d')"
  using assms
  by (auto simp: watch_valuation_def call_bind_def return_call_def transaction_def split: option.splits sum.splits prod.splits)

lemma judge_checked:
  assumes "judge_evidence w m i dep ev clk d = (Inr (Checked dep' c), d')"
  shows "\<exists>a row. ev_account ev = Some a \<and> watch_reasons (clk 2) a ev = Inr [] \<and> ev_market ev = Some row \<and>
    watch_valuation w m i dep (clk 2) row clk d = (Inr (Checked dep' c), d')"
  using assms
  by (auto simp: judge_evidence_def Let_def return_call_def raise_call_def split: option.splits sum.splits if_splits)

lemma account_checked:
  assumes "watch_account w dep aid clk d = (Inr (Checked dep' c), d')"
  shows "\<exists>m i. verify_deployment (wd_sha w) (wd_mac w) (wd_releases w) (wd_tenant w) dep (clk 1) d = Inr m \<and>
    watch_instrument w m d = Inr i \<and>
    judge_evidence w m i dep (read_evidence w m i dep (clk 0) d) clk d = (Inr (Checked dep' c), d')"
  using assms
  by (auto simp: watch_account_def raise_call_def bind_eq_Inr split: option.splits sum.splits)

lemma deployment_checked:
  assumes "check_deployment w dep clk d = (Checked dep' c, d')"
  shows "\<exists>aid. watch_account w dep aid clk d = (Inr (Checked dep' c), d')"
  using assms
  by (auto simp: check_deployment_def split: sum.splits if_splits prod.splits)

lemma healthy_checked: "watch_status r = ''healthy'' \<Longrightarrow>
    \<exists>dep c. r = Checked dep c \<and> \<not> rr_observation_discarded (ck_report c) \<and> rr_safe_new_risk (ck_report c)"
  by (cases r rule: watch_status.cases) (auto split: if_splits)

text \<open>
  C40: green is earned.  A check that answers \<open>healthy\<close> has verified the signed, active manifest and its
  single instrument, found its account \<open>ACTIVE\<close> with a lease that is still running, no order of the
  account without an answer, a heartbeat of the runtime no older than 5 s that says it is healthy and a
  market observation no older than 1 s, and changed no account: a missing row, an old row or a failed
  reading is never reported as healthy.
\<close>

theorem healthy_is_earned:
  assumes "check_deployment w dep clk d = (r, d')" and "watch_status r = ''healthy''"
    and "distinct (map ac_account_id (accounts d))"
  shows "\<exists>m i a h k. verify_deployment (wd_sha w) (wd_mac w) (wd_releases w) (wd_tenant w) dep (clk 1) d = Inr m \<and>
    watch_instrument w m d = Inr i \<and>
    a \<in> set (accounts d) \<and> ac_account_id a = dm_account_id m \<and> ac_mode a = ACTIVE \<and> \<not> lease_lost (clk 2) a \<and>
    list_all (\<lambda>q. od_account_id q = dm_account_id m \<longrightarrow> \<not> unanswered (clk 0) q) (orders d) \<and>
    health_of (wd_tenant w) (''trading:'' @ dep) d = Some h \<and> fresh_row (clk 2) 5000000000 h \<and>
    jget (hl_payload h) ''healthy'' = Some (JBool True) \<and>
    health_of (wd_tenant w) (''market:'' @ dm_venue m @ '':'' @ is_instrument i) d = Some k \<and>
    fresh_row (clk 2) 1000000000 k \<and> parse_market (hl_payload k) \<noteq> None \<and> accounts d' = accounts d"
proof -
  obtain dep' c where r: "r = Checked dep' c" and safe: "\<not> rr_observation_discarded (ck_report c)" "rr_safe_new_risk (ck_report c)"
    using healthy_checked[OF assms(2)] by blast
  obtain aid where "watch_account w dep aid clk d = (Inr (Checked dep' c), d')"
    using deployment_checked assms(1) unfolding r by blast
  then obtain m i where m: "verify_deployment (wd_sha w) (wd_mac w) (wd_releases w) (wd_tenant w) dep (clk 1) d = Inr m"
      "watch_instrument w m d = Inr i"
    and j: "judge_evidence w m i dep (read_evidence w m i dep (clk 0) d) clk d = (Inr (Checked dep' c), d')"
    using account_checked by blast
  let ?ev = "read_evidence w m i dep (clk 0) d"
  obtain a k where a: "ev_account ?ev = Some a" "watch_reasons (clk 2) a ?ev = Inr []" and k: "ev_market ?ev = Some k"
    and v: "watch_valuation w m i dep (clk 2) k clk d = (Inr (Checked dep' c), d')"
    using judge_checked[OF j] by blast
  note good = no_reasons[OF a(2)]
  obtain h where h: "ev_heartbeat ?ev = Some h" "fresh_row (clk 2) 5000000000 h" "jget (hl_payload h) ''healthy'' = Some (JBool True)"
    using heartbeat_good good by blast
  obtain market where market: "parse_market (hl_payload k) = Some market" and tx: "check_tx (wd_sha w) (wd_tenant w) m i market
    (if wd_injected_clock w then Some (clk 2) else None) (clk 4) d = Inr (c, d')" using valuation_checked[OF v] by blast
  obtain b where b: "b \<in> set (accounts d)" "ac_account_id b = dm_account_id m" "ac_mode b = ACTIVE" and same: "accounts d' = accounts d"
    using check_only_stops[OF tx assms(3)] safe by auto
  have found: "first_where (\<lambda>a. ac_account_id a = dm_account_id m \<and> ac_tenant_id a = wd_tenant w) (accounts d) = Some a"
    using a(1) by (simp add: read_evidence_def Let_def)
  have "a = b" using unique_row[OF assms(3) _ b(1), of a] first_where_Some[OF found] b(2) by simp
  moreover have "list_all (\<lambda>q. od_account_id q = dm_account_id m \<longrightarrow> \<not> unanswered (clk 0) q) (orders d)"
    using good by (auto simp: read_evidence_def list_all_iff list_ex_iff select_where_def Let_def)
  moreover have "fresh_row (clk 2) 1000000000 k" using good k by (simp add: market_bad_def)
  ultimately show ?thesis using m b same good h market k by (auto simp: read_evidence_def Let_def)
qed

section \<open>A worked example\<close>

text \<open>A small healthy deployment; a constant hash function keeps the stored hashes short.\<close>

definition same_sha :: hasher where
  "same_sha s = hash_of 9"

definition watched_manifest :: deployment_manifest where
  "watched_manifest = (canary paper)\<lparr>dm_fee_schedule_hashes := [hash_of 9]\<rparr>"

definition watched_market :: market_snapshot where
  "watched_market = (market_at 900)\<lparr>mk_instrument_spec_hash := hash_of 9, mk_fee_schedule_hash := hash_of 9\<rparr>"

definition stored_row :: "string \<Rightarrow> string \<Rightarrow> artifact_payload \<Rightarrow> artifact_row" where
  "stored_row kind identity payload = \<lparr>ar_tenant_id = ''t'', ar_kind = kind, ar_entity_id = identity, ar_payload = payload,
     ar_sha256 = hash_of 9, ar_created_ns = 0\<rparr>"

definition watched_db :: db where
  "watched_db = empty_db\<lparr>
     artifacts := [stored_row ''deployment'' ''dep'' (ADeployment watched_manifest),
       stored_row ''validation'' (dm_validation_report_hash watched_manifest) (AJson (JObj [(''experiment_hash'', JStr ''e'')])),
       stored_row ''experiment_spec'' ''e'' (AJson (JObj [(''instrument_spec_hashes'', JArr [JStr ''i''])])),
       stored_row ''instrument'' ''i'' (AJson (instrument_json btc))],
     deployment_heads := [\<lparr>hd_tenant_id = ''t'', hd_account_id = ''acc'', hd_deployment_id = Some ''dep'', hd_status = HEAD_ACTIVE,
       hd_generation = 1, hd_updated_ns = 0, hd_reason = ''start''\<rparr>],
     accounts := [\<lparr>ac_account_id = ''acc'', ac_tenant_id = ''t'', ac_quote_asset = ''USDT'', ac_capital = 1000, ac_mode = ACTIVE,
       ac_reserved_quote = 0, ac_daily_new_risk = 0, ac_day_utc = 0, ac_lease_token = Some ''k'', ac_lease_owner = Some ''worker'',
       ac_lease_until_ns = 10 ^ 12, ac_reconciled_ns = 0\<rparr>],
     ledger_entries := [\<lparr>le_entry_id = ''f'', le_transaction_id = ''f'', le_account_id = ''acc'', le_asset = ''USDT'',
       le_bucket = ''wallet'', le_amount = 1000\<rparr>],
     runtime_health := [\<lparr>hl_name = ''trading:dep'', hl_tenant_id = ''t'', hl_observed_ns = 900,
         hl_payload = JObj [(''healthy'', JBool True)]\<rparr>,
       \<lparr>hl_name = ''market:sim:BTCUSDT'', hl_tenant_id = ''t'', hl_observed_ns = 900, hl_payload = market_json watched_market\<rparr>]\<rparr>"

definition watcher :: watchdog where
  "watcher = \<lparr>wd_sha = same_sha, wd_mac = demo_mac, wd_releases = demo_registry, wd_tenant = ''t'', wd_injected_clock = True\<rparr>"

lemma same_hash [simp]: "content_hash same_sha v = hash_of 9"
  by (simp add: content_hash_def same_sha_def)

lemma watched_valid: "valid_market_snapshot watched_market"
  by code_simp

lemma watched_ids: "distinct (map ac_account_id (accounts watched_db))"
  by (simp add: watched_db_def)

lemma btc_at: "is_venue btc = ''sim''" "is_instrument btc = ''BTCUSDT''" "is_base_asset btc = ''BTC''" "is_quote_asset btc = ''USDT''"
  "is_effective_from_ns btc = 0" "is_effective_to_ns btc = None"
  by (simp_all add: btc_def)

lemma watched_reads:
  "active_ids watcher watched_db = Inr [''dep'']"
  "artifact_document same_sha ''t'' ''deployment'' ''dep'' watched_db = Inr (manifest_json watched_manifest)"
  "raw_account (manifest_json watched_manifest) = Inr (Some ''acc'')"
  "verify_deployment same_sha demo_mac demo_registry ''t'' ''dep'' 1000 watched_db = Inr watched_manifest"
  "watch_instrument watcher watched_manifest watched_db = Inr btc"
proof -
  show "active_ids watcher watched_db = Inr [''dep'']"
    by (simp add: active_ids_def active_list_def watcher_def watched_db_def select_where_def stored_deployment_def first_where_def
        artifact_key_def stored_row_def raise_if_def or_raise_def empty_db_def List.map_filter_def)
  show "artifact_document same_sha ''t'' ''deployment'' ''dep'' watched_db = Inr (manifest_json watched_manifest)"
    by (simp add: artifact_document_def get_artifact_def watched_db_def first_where_def artifact_key_def stored_row_def raise_if_def or_raise_def)
  show "raw_account (manifest_json watched_manifest) = Inr (Some ''acc'')"
    by (simp add: raw_account_def payload_get_def manifest_json_def unsigned_fields_def as_str_def watched_manifest_def canary_def)
  show "verify_deployment same_sha demo_mac demo_registry ''t'' ''dep'' 1000 watched_db = Inr watched_manifest"
    by (simp add: verify_deployment_def stored_manifest_def stored_deployment_def payload_manifest_def watched_db_def first_where_def
        artifact_key_def stored_row_def raise_if_def or_raise_def signature_check_def demo_registry_def demo_mac_def head_of_def
        watched_manifest_def canary_def)
  show "watch_instrument watcher watched_manifest watched_db = Inr btc"
    by (simp add: watch_instrument_def watcher_def artifact_document_def get_artifact_def watched_db_def first_where_def artifact_key_def
        stored_row_def raise_if_def or_raise_def text_at_def json_member_def jget_def as_str_def parse_instrument_json wire_valid(1)
        btc_at watched_manifest_def canary_def)
qed

definition watch_clock :: "nat \<Rightarrow> int" where
  "watch_clock n = 1000"

definition watched_account :: account_row where
  "watched_account = hd (accounts watched_db)"

definition funds :: "(string \<times> rat) list" where
  "funds = [(''USDT'', 1000)]"

lemma watched_wallet: "wallet ''acc'' watched_db = funds"
  by (simp add: wallet_def wallet_entries_def watched_db_def empty_db_def select_where_def funds_def dict_sum_def)

lemma watched_risk: "risk_reasons same_sha watched_account None funds watched_manifest btc watched_market 1000 = []"
  by (simp add: risk_reasons_def reason_if_def watched_account_def watched_db_def watched_manifest_def canary_def btc_at
      watched_market_def market_at_def budget0_def funds_def)

lemma watched_marks: "valued_reasons watched_account funds watched_manifest btc watched_market 1000
    (mark_equity watched_account None watched_manifest 1000 1000) watched_db = []"
  by (simp add: valued_reasons_def mark_equity_def reason_if_def watched_account_def watched_db_def watched_manifest_def canary_def
      btc_at watched_market_def market_at_def budget0_def funds_def dict_get_def pending_exposure_def exists_where_def empty_db_def
      select_where_def Let_def)

lemma watched_evaluation:
  "evaluate_locked same_sha watched_account watched_manifest btc watched_market 1000 watched_db =
     \<lparr>rr_safe_new_risk = True, rr_mode = ACTIVE, rr_reasons = [], rr_equity = Some 1000, rr_wallet = funds, rr_state = None,
      rr_observation_discarded = False, rr_marks = Some (mark_equity watched_account None watched_manifest 1000 1000)\<rparr>"
proof -
  have a: "ac_account_id watched_account = ''acc''" "ac_tenant_id watched_account = ''t''" "ac_mode watched_account = ACTIVE"
    and s: "risk_state watched_db = []" by (simp_all add: watched_account_def watched_db_def empty_db_def)
  have f: "floor18 1000 = 1000" "dict_get funds ''USDT'' = 1000" "dict_get funds ''BTC'' = 0"
    by (simp_all add: floor18_def funds_def dict_get_def)
  show ?thesis
    by (simp add: evaluate_locked_def a s f first_where_def watched_wallet watched_risk watched_marks btc_at evaluated_mode_def
        halting_reasons_def Let_def)
qed

lemma fits_thousand: "fits_numeric 1000"
  by code_simp

lemma watched_check:
  "\<exists>c d'. check_tx same_sha ''t'' watched_manifest btc watched_market (Some 1000) 1000 watched_db = Inr (c, d') \<and>
     \<not> rr_observation_discarded (ck_report c) \<and> rr_safe_new_risk (ck_report c)"
proof -
  have a: "first_where (\<lambda>a. ac_tenant_id a = ''t'' \<and> ac_account_id a = ''acc'') (accounts watched_db) = Some watched_account"
    and "ac_mode watched_account = ACTIVE" and m: "dm_account_id watched_manifest = ''acc''" "dm_deployment_id watched_manifest = ''dep''"
    by (simp_all add: watched_account_def watched_db_def first_where_def watched_manifest_def canary_def)
  moreover have "ensure_active_deployment ''t'' ''acc'' ''dep'' watched_db = Inr ()"
    by (simp add: ensure_active_deployment_def watched_db_def first_where_def)
  moreover obtain d2 where "record_marks same_sha ''t'' watched_manifest watched_market 1000
      (evaluate_locked same_sha watched_account watched_manifest btc watched_market 1000 watched_db) (dedupe []) watched_db = Inr d2"
    unfolding watched_evaluation
    by (simp add: record_marks_def upsert_risk_state_def bind_eq_Inr Let_def risk_state_money_def mark_equity_def watched_account_def watched_db_def
        fits_thousand)
  ultimately show ?thesis by (auto simp: check_tx_def raise_if_def or_raise_def watched_evaluation Let_def)
qed

lemma watched_evidence:
  "ev_account (read_evidence watcher watched_manifest btc ''dep'' 1000 watched_db) = Some watched_account"
  "ev_heartbeat (read_evidence watcher watched_manifest btc ''dep'' 1000 watched_db) =
     Some \<lparr>hl_name = ''trading:dep'', hl_tenant_id = ''t'', hl_observed_ns = 900, hl_payload = JObj [(''healthy'', JBool True)]\<rparr>"
  "ev_market (read_evidence watcher watched_manifest btc ''dep'' 1000 watched_db) =
     Some \<lparr>hl_name = ''market:sim:BTCUSDT'', hl_tenant_id = ''t'', hl_observed_ns = 900, hl_payload = market_json watched_market\<rparr>"
  "ev_clock (read_evidence watcher watched_manifest btc ''dep'' 1000 watched_db) = None"
  "ev_account_health (read_evidence watcher watched_manifest btc ''dep'' 1000 watched_db) = None"
  "\<not> ev_uncertain (read_evidence watcher watched_manifest btc ''dep'' 1000 watched_db)"
  by (simp_all add: read_evidence_def Let_def watcher_def health_of_def watched_db_def first_where_def watched_account_def btc_at
      watched_manifest_def canary_def select_where_def empty_db_def)

lemma watched_no_reasons:
  "watch_reasons 1000 watched_account (read_evidence watcher watched_manifest btc ''dep'' 1000 watched_db) = Inr []"
proof -
  have "\<not> lease_lost 1000 watched_account" by (simp add: lease_lost_def watched_account_def watched_db_def)
  then show ?thesis
    by (simp add: watch_reasons_def watched_evidence heartbeat_bad_def clock_bad_def reconciliation_bad_def market_bad_def fresh_row_def
        payload_get_def reason_if_def)
qed

lemma watched_healthy:
  "\<exists>r d'. check_deployment watcher ''dep'' watch_clock watched_db = (r, d') \<and> watch_status r = ''healthy''"
proof -
  obtain c d' where c: "check_tx same_sha ''t'' watched_manifest btc watched_market (Some 1000) 1000 watched_db = Inr (c, d')"
    "\<not> rr_observation_discarded (ck_report c)" "rr_safe_new_risk (ck_report c)" using watched_check by blast
  have w: "wd_sha watcher = same_sha" "wd_mac watcher = demo_mac" "wd_releases watcher = demo_registry" "wd_tenant watcher = ''t''"
    "wd_injected_clock watcher" by (simp_all add: watcher_def)
  have "judge_evidence watcher watched_manifest btc ''dep'' (read_evidence watcher watched_manifest btc ''dep'' 1000 watched_db)
      watch_clock watched_db = (Inr (Checked ''dep'' c), d')"
    by (simp add: judge_evidence_def watch_clock_def watched_evidence never_started_def watched_no_reasons watch_valuation_def
        parse_market_json watched_valid w c transaction_def call_bind_def return_call_def Let_def)
  then have "watch_account watcher ''dep'' (Some ''acc'') watch_clock watched_db = (Inr (Checked ''dep'' c), d')"
    using watched_reads by (simp add: watch_account_def w watch_clock_def)
  then have "check_deployment watcher ''dep'' watch_clock watched_db = (Checked ''dep'' c, d')"
    using watched_reads by (simp add: check_deployment_def w)
  then show ?thesis using c by simp
qed


theorem healthy_is_earned_witness:
  "\<exists>a. a \<in> set (accounts watched_db) \<and> ac_mode a = ACTIVE \<and> \<not> lease_lost 1000 a"
proof -
  obtain r d' where run: "check_deployment watcher ''dep'' watch_clock watched_db = (r, d')" "watch_status r = ''healthy''"
    using watched_healthy by blast
  from healthy_is_earned[OF run watched_ids] show ?thesis by (auto simp: watch_clock_def)
qed

end
