(* ===== verification/Json_Numbers.thy ===== *)
theory Json_Numbers
  imports Wire OMS "HOL-Library.Log_Nat"
begin

text \<open>
  Numbers in decoded JSON.  A \<open>JFloat\<close> carries the decimal text of a float; its value is the double that
  text is read as.  Python's \<open>==\<close> on decoded documents compares integers, Booleans and floats by value.
\<close>

section \<open>Numbers\<close>

text \<open>The double a decimal text is read as: 53 significant bits, ties to even, none when it overflows.\<close>

definition power2 :: "int \<Rightarrow> rat" where
  "power2 e = (if 0 \<le> e then 2 ^ nat e else 1 / 2 ^ nat (- e))"

definition binary_exponent :: "rat \<Rightarrow> int" where
  "binary_exponent x =
     (let (n, d) = quotient_of x; e = int (floorlog 2 (nat n)) - int (floorlog 2 (nat d)) in
      if x < power2 e then e - 1 else e)"

definition nearest_double :: "rat \<Rightarrow> rat option" where
  "nearest_double x =
     (if x = 0 then Some 0
      else let q = max (binary_exponent \<bar>x\<bar> - 52) (- 1074);
               y = of_int (half_even (\<bar>x\<bar> / power2 q)) * power2 q in
           if 2 ^ 1024 \<le> y then None else Some (if x < 0 then - y else y))"

text \<open>The number a JSON value is to \<open>==\<close>.\<close>

fun number_of :: "json \<Rightarrow> rat option" where
  "number_of (JInt i) = Some (of_int i)"
| "number_of (JBool b) = Some (if b then 1 else 0)"
| "number_of (JFloat s) = Option.bind (decimal_value s) nearest_double"
| "number_of _ = None"

fun equal_to :: "json \<Rightarrow> json \<Rightarrow> bool" where
  "equal_to JNull = (\<lambda>b. b = JNull)"
| "equal_to (JStr s) = (\<lambda>b. b = JStr s)"
| "equal_to (JArr xs) =
     (\<lambda>b. case b of JArr ys \<Rightarrow> length xs = length ys \<and> list_all (\<lambda>(same, y). same y) (zip (map equal_to xs) ys) | _ \<Rightarrow> False)"
| "equal_to (JObj kvs) =
     (\<lambda>b. case b of
          JObj kws \<Rightarrow> length kvs = length kws \<and>
            list_all (\<lambda>(k, same). case map_of kws k of None \<Rightarrow> False | Some w \<Rightarrow> same w)
              (map (\<lambda>(k, v). (k, equal_to v)) kvs)
        | _ \<Rightarrow> False)"
| "equal_to (JInt i) = (\<lambda>b. number_of b = Some (of_int i))"
| "equal_to (JBool x) = (\<lambda>b. number_of b = Some (if x then 1 else 0))"
| "equal_to (JFloat t) = (\<lambda>b. number_of (JFloat t) \<noteq> None \<and> number_of b = number_of (JFloat t))"

section \<open>Equality\<close>

text \<open>Values that are equal to themselves: no object repeats a key and every float is finite.\<close>

fun readable :: "json \<Rightarrow> bool" where
  "readable (JFloat t) = (number_of (JFloat t) \<noteq> None)"
| "readable (JArr xs) = list_all readable xs"
| "readable (JObj kvs) = (distinct (map fst kvs) \<and> list_all (\<lambda>(k, v). readable v) kvs)"
| "readable _ = True"

lemma equal_to_self: "readable v \<Longrightarrow> equal_to v v"
proof (induction v)
  case (JArr xs)
  have "equal_to x x" if "x \<in> set xs" for x using JArr that by (auto simp: list_all_iff)
  then show ?case by (auto simp: list_all_iff set_zip)
next
  case (JObj kvs)
  have same: "equal_to v v" if "(k, v) \<in> set kvs" for k v using JObj that by (fastforce simp: list_all_iff)
  have found: "map_of kvs k = Some v" if "(k, v) \<in> set kvs" for k v using JObj.prems that by simp
  show ?case by (auto simp: list_all_iff found same)
qed auto

end
