(* ===== verification/Control.thy ===== *)
theory Control
  imports Watchdog Gates Json_Numbers
begin

text \<open>
  The release authority of \<open>src/qt/control/service.py\<close>: the verdict about a validated experiment, the
  creation of a signed deployment from it and the rollback to the rules of an earlier one.  A request is
  the list of members of its JSON object.  Stored documents are compared by Python's \<open>==\<close>, to which
  \<open>1\<close>, \<open>1.0\<close> and \<open>True\<close> are equal.  The clocks \<open>clk n\<close> are the successive readings of one call.  A member
  of an experiment result that should be an object and is not raises, as does a missing one.
\<close>

section \<open>The verdict about an experiment\<close>

fun evidence_of :: "json \<Rightarrow> evidence" where
  "evidence_of (JInt i) = EInt i"
| "evidence_of (JBool b) = EBool b"
| "evidence_of (JFloat s) =
     (case Option.bind (decimal_value s) nearest_double of None \<Rightarrow> ENonfinite | Some x \<Rightarrow> EFloat x)"
| "evidence_of _ = EOther"

definition rule_fields :: "rule \<Rightarrow> (string \<times> json) list" where
  "rule_fields r = (case rule_json r of JObj kvs \<Rightarrow> kvs | _ \<Rightarrow> [])"

definition check_json :: "(string \<times> json) list \<Rightarrow> check \<Rightarrow> json" where
  "check_json observed c = JObj (rule_fields (gk_rule c) @
     [(''status'', JStr (case gk_status c of check_pass \<Rightarrow> ''pass'' | check_fail \<Rightarrow> ''fail'' | check_insufficient \<Rightarrow> ''insufficient'')),
      (''observed'', if gk_observed c = None then JNull
                     else case map_of observed (ru_name (gk_rule c)) of None \<Rightarrow> JNull | Some v \<Rightarrow> v),
      (''reason'', JStr (gk_reason c))])"

text \<open>\<open>GatePolicy.evaluate\<close> on a JSON dictionary: the members of its result.\<close>

definition policy_verdict ::
  "hasher \<Rightarrow> string \<Rightarrow> (string \<times> json) list \<Rightarrow> bool \<Rightarrow> bool \<Rightarrow> (decision \<times> (string \<times> json) list) result" where
  "policy_verdict sha stage observed low_frequency predicted =
     bind (evaluate_stage sha stage (map (\<lambda>(k, v). (k, evidence_of v)) observed) low_frequency predicted) (\<lambda>dec.
     Inr (dec, [(''policy_version'', JStr ''qt-production-v1''), (''policy_hash'', JStr (dc_policy_hash dec)),
       (''stage'', JStr (dc_stage dec)), (''eligible'', JBool (dc_eligible dec)),
       (''checks'', JArr (map (check_json observed) (dc_checks dec))),
       (''limits'', JStr ''Thresholds are admission rules, not profit or loss guarantees.'')]))"

definition members_of :: "json \<Rightarrow> error \<Rightarrow> (string \<times> json) list result" where
  "members_of v e = (case v of JObj kvs \<Rightarrow> Inr kvs | _ \<Rightarrow> Inl e)"

text \<open>\<open>value.get(key, {})\<close>, read as a dictionary\<close>

definition members_at :: "json \<Rightarrow> string \<Rightarrow> error \<Rightarrow> (string \<times> json) list result" where
  "members_at v k e =
     bind (members_of v (OtherError ''AttributeError'')) (\<lambda>kvs.
     case map_of kvs k of None \<Rightarrow> Inr [] | Some w \<Rightarrow> members_of w e)"

text \<open>Acceptance observations of this very experiment extend the evidence, but never the integrity checks.\<close>

definition accepted_evidence ::
  "string \<Rightarrow> json \<Rightarrow> (string \<times> json) list \<Rightarrow> (string \<times> json) list result" where
  "accepted_evidence experiment acceptance known =
     bind (members_of acceptance (OtherError ''AttributeError'')) (\<lambda>kvs.
     if map_of kvs ''experiment_hash'' \<noteq> Some (JStr experiment) then Inr known
     else bind (members_at acceptance ''observations'' (OtherError ''AttributeError'')) (\<lambda>observations.
          Inr (filter (\<lambda>(k, v). k \<notin> ru_name ` set integrity_rules) observations @ known)))"

definition if_key_missing :: "'a result \<Rightarrow> 'a result \<Rightarrow> 'a result" where
  "if_key_missing r alternative = (case r of Inl (KeyError k) \<Rightarrow> alternative | _ \<Rightarrow> r)"

fun strings_of :: "json list \<Rightarrow> string list result" where
  "strings_of [] = Inr []"
| "strings_of (v # vs) = bind (or_raise (as_str v) (TypeError ''str'')) (\<lambda>s. bind (strings_of vs) (\<lambda>rest. Inr (s # rest)))"

fun ints_of :: "json list \<Rightarrow> int list result" where
  "ints_of [] = Inr []"
| "ints_of (v # vs) = bind (or_raise (as_int v) (TypeError ''int'')) (\<lambda>i. bind (ints_of vs) (\<lambda>rest. Inr (i # rest)))"

definition list_at :: "json \<Rightarrow> string \<Rightarrow> json list result" where
  "list_at v k = bind (json_member v k) (\<lambda>w. case w of JArr vs \<Rightarrow> Inr vs | _ \<Rightarrow> Inl (TypeError k))"

fun documents :: "hasher \<Rightarrow> string \<Rightarrow> string \<Rightarrow> string list \<Rightarrow> db \<Rightarrow> json list result" where
  "documents sha tenant kind [] d = Inr []"
| "documents sha tenant kind (i # ids) d =
     bind (artifact_document sha tenant kind i d) (\<lambda>v. bind (documents sha tenant kind ids d) (\<lambda>vs. Inr (v # vs)))"

fun any_prediction :: "json list \<Rightarrow> bool result" where
  "any_prediction [] = Inr False"
| "any_prediction (v # vs) =
     bind (json_member v ''instrument_type'') (\<lambda>kind.
     if kind = JStr ''prediction'' then Inr True
     else bind (json_member v ''venue'') (\<lambda>venue.
          if venue = JStr ''polymarket'' then Inr True else any_prediction vs))"

text \<open>
  The observations the verdict judges: the evidence of the stored result, extended by the acceptance
  record of the experiment when there is one.
\<close>

definition gate_observations ::
  "hasher \<Rightarrow> string \<Rightarrow> string \<Rightarrow> json \<Rightarrow> db \<Rightarrow> (string \<times> json) list result" where
  "gate_observations sha tenant experiment result d =
     bind (members_at result ''gate_evidence'' (TypeError ''dict'')) (\<lambda>known.
     if_key_missing
       (bind (artifact_document sha tenant ''acceptance'' experiment d) (\<lambda>acceptance.
        accepted_evidence experiment acceptance known)) (Inr known))"

text \<open>
  Frequency and venue are read off the frozen specification: whether its largest timeframe is at least an
  hour, and whether one of its instruments is a prediction market.
\<close>

definition gate_context :: "hasher \<Rightarrow> string \<Rightarrow> json \<Rightarrow> db \<Rightarrow> (bool \<times> bool) result" where
  "gate_context sha tenant spec d =
     bind (list_at spec ''instrument_spec_hashes'') (\<lambda>listed. bind (strings_of listed) (\<lambda>identities.
     bind (documents sha tenant ''instrument'' identities d) (\<lambda>instruments.
     bind (any_prediction instruments) (\<lambda>predicted.
     bind (list_at spec ''timeframes_ns'') (\<lambda>frames. bind (ints_of frames) (\<lambda>timeframes.
     bind (raise_if (timeframes = []) (ValueError ''max() iterable argument is empty'')) (\<lambda>_.
     Inr (3600000000000 \<le> Max (set timeframes), predicted))))))))"

text \<open>\<open>validation\<close>: the decision and the members of the verdict.\<close>

definition validation ::
  "hasher \<Rightarrow> string \<Rightarrow> string \<Rightarrow> string \<Rightarrow> db \<Rightarrow> (decision \<times> (string \<times> json) list) result" where
  "validation sha tenant experiment stage d =
     bind (get_artifact sha tenant ''experiment_result'' experiment d) (\<lambda>result.
     bind (artifact_document sha tenant ''experiment_spec'' experiment d) (\<lambda>spec.
     bind (gate_observations sha tenant experiment (payload_json (ar_payload result)) d) (\<lambda>observed.
     bind (gate_context sha tenant spec d) (\<lambda>(low_frequency, predicted).
     bind (policy_verdict sha stage observed low_frequency predicted) (\<lambda>(dec, verdict).
     bind (json_member spec ''strategy_version'') (\<lambda>version.
     Inr (dec, [(''experiment_hash'', JStr experiment), (''result_hash'', JStr (ar_sha256 result)),
                (''strategy_hash'', version)] @ verdict)))))))"

text \<open>\<open>save_validation\<close>\<close>

definition save_validation_tx ::
  "hasher \<Rightarrow> string \<Rightarrow> string \<Rightarrow> string \<Rightarrow> int \<Rightarrow> artifact_row transaction" where
  "save_validation_tx sha tenant experiment stage t d =
     bind (validation sha tenant experiment stage d) (\<lambda>(dec, verdict).
     put_tx sha tenant ''validation'' (AJson (JObj verdict)) None None t d)"

section \<open>Creating a deployment\<close>

record control =
  ct_sha :: hasher
  ct_mac :: mac
  ct_tenant :: string
  ct_signing_key :: "string option"

definition control_registry :: "control \<Rightarrow> deployment_registry" where
  "control_registry c = \<lparr>dr_signing_key = ct_signing_key c, dr_policy_hash = fingerprint (ct_sha c)\<rparr>"

text \<open>\<open>{**payload, key: value, ..}\<close>\<close>

definition with_members :: "(string \<times> json) list \<Rightarrow> (string \<times> json) list \<Rightarrow> (string \<times> json) list" where
  "with_members kvs news = filter (\<lambda>(k, v). k \<notin> fst ` set news) kvs @ news"

definition binding_fields :: "string list" where
  "binding_fields = [''strategy_hash'', ''provider'', ''model_id'', ''prompt_hash'', ''tools_hash'', ''risk_policy_hash'',
     ''fee_schedule_hashes'', ''venue'', ''account_id'', ''risk_budget'']"

definition deployment_binding_hash :: "hasher \<Rightarrow> deployment_manifest \<Rightarrow> string" where
  "deployment_binding_hash sha m =
     content_hash sha (JObj (filter (\<lambda>(k, v). k \<in> set binding_fields) (unsigned_fields m)))"

text \<open>The evidence must be current, and the manifest must repeat it.\<close>

definition verdict_check ::
  "control \<Rightarrow> deployment_manifest \<Rightarrow> json \<Rightarrow> db \<Rightarrow> string result" where
  "verdict_check c m report d =
     bind (text_at report ''experiment_hash'') (\<lambda>experiment.
     bind (validation (ct_sha c) (ct_tenant c) experiment (deployment_mode_text (dm_mode m)) d) (\<lambda>(dec, verdict).
     bind (raise_if (\<not> dc_eligible dec \<or> \<not> equal_to report (JObj verdict) \<or>
                     dc_policy_hash dec \<noteq> dm_risk_policy_hash m \<or>
                     map_of verdict ''strategy_hash'' \<noteq> Some (JStr (dm_strategy_hash m)))
             (ValueError ''deployment_acceptance_missing_stale_or_mismatched'')) (\<lambda>_. Inr experiment)))"

definition budget_matches :: "deployment_manifest \<Rightarrow> json \<Rightarrow> unit result" where
  "budget_matches m strategy =
     bind (json_member strategy ''risk_budget'') (\<lambda>budget.
     raise_if (\<not> equal_to (risk_budget_json (dm_risk_budget m)) budget)
       (ValueError ''deployment_risk_budget_must_match_validated_strategy''))"

definition fees_match :: "deployment_manifest \<Rightarrow> json \<Rightarrow> unit result" where
  "fees_match m spec =
     bind (json_member spec ''cost_model'') (\<lambda>cost. bind (list_at cost ''fee_schedule_hashes'') (\<lambda>listed.
     bind (strings_of listed) (\<lambda>tested.
     raise_if (set (dm_fee_schedule_hashes m) \<noteq> set tested) (ValueError ''deployment_fee_schedule_changed''))))"

text \<open>A funded deployment needs forward evidence bound to its exact account and configuration.\<close>

definition forward_check :: "control \<Rightarrow> deployment_manifest \<Rightarrow> string \<Rightarrow> db \<Rightarrow> unit result" where
  "forward_check c m experiment d =
     (if dm_mode m \<noteq> live_canary then Inr ()
      else
        bind (if_key_missing (artifact_document (ct_sha c) (ct_tenant c) ''acceptance'' experiment d)
                (Inl (ValueError ''live_forward_acceptance_required''))) (\<lambda>acceptance.
        bind (members_of acceptance (OtherError ''AttributeError'')) (\<lambda>kvs.
        raise_if (map_of kvs ''deployment_binding_hash'' \<noteq> Some (JStr (deployment_binding_hash (ct_sha c) m)))
          (ValueError ''live_account_model_or_configuration_not_forward_tested''))))"

fun fee_venues :: "control \<Rightarrow> deployment_manifest \<Rightarrow> string list \<Rightarrow> db \<Rightarrow> unit result" where
  "fee_venues c m [] d = Inr ()"
| "fee_venues c m (h # hs) d =
     bind (artifact_document (ct_sha c) (ct_tenant c) ''fees'' h d) (\<lambda>fee.
     bind (json_member fee ''venue'') (\<lambda>venue.
     bind (raise_if (venue \<noteq> JStr (dm_venue m)) (ValueError ''deployment_fee_venue_mismatch'')) (\<lambda>_.
     fee_venues c m hs d)))"

text \<open>All the checks before the signature: the manifest that may be signed.\<close>

definition release_check ::
  "control \<Rightarrow> (string \<times> json) list \<Rightarrow> string \<Rightarrow> int \<Rightarrow> db \<Rightarrow> (string \<times> deployment_manifest) result" where
  "release_check c payload key now d =
     (let sha = ct_sha c; tenant = ct_tenant c;
          identity = content_hash sha (JArr [JStr tenant, JStr ''deployment'', JStr key]) in
      bind (or_raise (parse_manifest (JObj (with_members payload [(''deployment_id'', JStr identity), (''signature'', JStr ''pending'')])))
              (ValueError ''DeploymentManifest'')) (\<lambda>m.
      bind (artifact_document sha tenant ''strategy'' (dm_strategy_hash m) d) (\<lambda>strategy.
      bind (artifact_document sha tenant ''validation'' (dm_validation_report_hash m) d) (\<lambda>report.
      bind (verdict_check c m report d) (\<lambda>experiment.
      bind (budget_matches m strategy) (\<lambda>_.
      bind (raise_if (dm_valid_until_ns m \<le> now) (ValueError ''deployment_already_expired'')) (\<lambda>_.
      bind (artifact_document sha tenant ''experiment_spec'' experiment d) (\<lambda>spec.
      bind (fees_match m spec) (\<lambda>_.
      bind (forward_check c m experiment d) (\<lambda>_.
      bind (fee_venues c m (dm_fee_schedule_hashes m) d) (\<lambda>_.
      Inr (identity, m))))))))))))"

text \<open>\<open>create_deployment\<close>\<close>

definition create_deployment ::
  "control \<Rightarrow> (string \<times> json) list \<Rightarrow> string \<Rightarrow> (nat \<Rightarrow> int) \<Rightarrow> artifact_row call" where
  "create_deployment c payload key clk d =
     (case ct_signing_key c of
        None \<Rightarrow> (Inl (ValueError ''deployment_signing_key_not_configured''), d)
      | Some secret \<Rightarrow>
          if length secret < 32 then (Inl (ValueError ''deployment_signing_key_not_configured''), d)
          else
            case release_check c payload key (clk 0) d of
              Inl e \<Rightarrow> (Inl e, d)
            | Inr (identity, m) \<Rightarrow>
                if dm_deployment_id m \<noteq> identity then (Inl (ValueError ''deployment_id_must_match_idempotency_identity''), d)
                else
                  case parse_manifest (manifest_json (m\<lparr>dm_signature := ct_mac c secret (signed_text m)\<rparr>)) of
                    None \<Rightarrow> (Inl (ValueError ''DeploymentManifest''), d)
                  | Some signed \<Rightarrow>
                      transaction (activate_tx (ct_sha c) (ct_mac c) (control_registry c) (ct_tenant c) signed
                        ''deployment_create'' (\<lambda>n. clk (n + 1))) d)"

text \<open>\<open>rollback_deployment\<close>: a new release with the rules of an old one; \<open>reason\<close> is text.\<close>

definition rollback_deployment ::
  "control \<Rightarrow> string \<Rightarrow> string \<Rightarrow> string \<Rightarrow> int \<Rightarrow> (nat \<Rightarrow> int) \<Rightarrow> artifact_row call" where
  "rollback_deployment c deployment_id key reason valid_until clk =
     (if list_all is_space reason then raise_call (ValueError ''rollback_reason_required'')
      else
        call_bind (\<lambda>d. (read_signed (ct_sha c) (ct_mac c) (control_registry c) (ct_tenant c) deployment_id d, d)) (\<lambda>historical.
        let body = filter (\<lambda>(k, v). k \<noteq> ''deployment_id'') (unsigned_fields historical) in
        call_bind (create_deployment c (with_members body [(''valid_from_ns'', JInt (clk 0)), (''valid_until_ns'', JInt valid_until)])
                     key (\<lambda>n. clk (n + 1))) (\<lambda>row.
        call_bind (transaction (\<lambda>d. Inr ((), add_event (ct_tenant c) (ar_entity_id row) ''deployment_rollback''
                     [(''source_deployment_id'', JStr deployment_id), (''reason'', JStr reason)] (clk 6) d))) (\<lambda>_.
        return_call row))))"

section \<open>Deployments are earned\<close>

text \<open>What the verdict about an experiment was judged on.\<close>

definition judged_on ::
  "hasher \<Rightarrow> string \<Rightarrow> string \<Rightarrow> json \<Rightarrow> db \<Rightarrow> (string \<times> json) list \<Rightarrow> (string \<times> json) list \<Rightarrow> bool \<Rightarrow> bool \<Rightarrow> bool" where
  "judged_on sha tenant experiment spec d known observed lf predicted \<longleftrightarrow>
     (\<exists>result. get_artifact sha tenant ''experiment_result'' experiment d = Inr result \<and>
        members_at (payload_json (ar_payload result)) ''gate_evidence'' (TypeError ''dict'') = Inr known \<and>
        gate_observations sha tenant experiment (payload_json (ar_payload result)) d = Inr observed) \<and>
     gate_context sha tenant spec d = Inr (lf, predicted)"

lemma gate_observations_known:
  "gate_observations sha tenant experiment result d = Inr observed \<Longrightarrow>
   \<exists>known. members_at result ''gate_evidence'' (TypeError ''dict'') = Inr known"
  by (auto simp: gate_observations_def bind_eq_Inr)

lemma accepted_integrity:
  assumes "accepted_evidence experiment acceptance known = Inr observed" and "k \<in> ru_name ` set integrity_rules"
  shows "map_of observed k = map_of known k"
proof -
  have "map_of (filter (\<lambda>(k, v). k \<notin> ru_name ` set integrity_rules) kvs @ known) k = map_of known k" for kvs
    using assms(2) by (induction kvs) auto
  then show ?thesis using assms(1) by (auto simp: accepted_evidence_def bind_eq_Inr split: if_splits)
qed

lemma gate_integrity:
  assumes "gate_observations sha tenant experiment result d = Inr observed"
    and "members_at result ''gate_evidence'' (TypeError ''dict'') = Inr known" and "k \<in> ru_name ` set integrity_rules"
  shows "map_of observed k = map_of known k"
  using assms by (auto simp: gate_observations_def if_key_missing_def bind_eq_Inr bind_eq_Inl accepted_integrity
      split: sum.splits error.splits)

lemma validation_judged:
  assumes "validation sha tenant experiment stage d = Inr (dec, verdict)"
    and "artifact_document sha tenant ''experiment_spec'' experiment d = Inr spec"
  obtains known observed lf predicted where "judged_on sha tenant experiment spec d known observed lf predicted"
    and "evaluate_stage sha stage (map (\<lambda>(k, v). (k, evidence_of v)) observed) lf predicted = Inr dec"
    and "list_all (\<lambda>r. map_of observed (ru_name r) = map_of known (ru_name r)) integrity_rules"
proof -
  obtain result observed lf predicted where r: "get_artifact sha tenant ''experiment_result'' experiment d = Inr result"
    and o1: "gate_observations sha tenant experiment (payload_json (ar_payload result)) d = Inr observed"
    and c: "gate_context sha tenant spec d = Inr (lf, predicted)"
    and e: "evaluate_stage sha stage (map (\<lambda>(k, v). (k, evidence_of v)) observed) lf predicted = Inr dec"
    using assms by (auto simp: validation_def policy_verdict_def bind_eq_Inr)
  obtain known where k: "members_at (payload_json (ar_payload result)) ''gate_evidence'' (TypeError ''dict'') = Inr known"
    using gate_observations_known[OF o1] by blast
  have "list_all (\<lambda>r. map_of observed (ru_name r) = map_of known (ru_name r)) integrity_rules"
    using gate_integrity[OF o1 k] by (simp add: list_all_iff)
  then show thesis using that r o1 c e k by (auto simp: judged_on_def)
qed

lemma release_check_eq:
  assumes "release_check c payload key now d = Inr (identity, m)"
  shows "\<exists>strategy report experiment spec. parse_manifest (JObj (with_members payload
        [(''deployment_id'', JStr identity), (''signature'', JStr ''pending'')])) = Some m \<and>
    identity = content_hash (ct_sha c) (JArr [JStr (ct_tenant c), JStr ''deployment'', JStr key]) \<and>
    artifact_document (ct_sha c) (ct_tenant c) ''strategy'' (dm_strategy_hash m) d = Inr strategy \<and>
    artifact_document (ct_sha c) (ct_tenant c) ''validation'' (dm_validation_report_hash m) d = Inr report \<and>
    verdict_check c m report d = Inr experiment \<and> budget_matches m strategy = Inr () \<and> now < dm_valid_until_ns m \<and>
    artifact_document (ct_sha c) (ct_tenant c) ''experiment_spec'' experiment d = Inr spec \<and> fees_match m spec = Inr () \<and>
    forward_check c m experiment d = Inr () \<and> fee_venues c m (dm_fee_schedule_hashes m) d = Inr ()"
  using assms by (auto simp: release_check_def Let_def bind_eq_Inr or_raise_eq_Inr raise_if_eq_Inr not_le)

text \<open>Reading back a signed manifest cannot change it.\<close>

lemma parse_signed:
  assumes "valid_deployment_manifest m" and "parse_manifest (manifest_json (m\<lparr>dm_signature := s\<rparr>)) = Some signed"
  shows "signed = m\<lparr>dm_signature := s\<rparr>"
proof -
  have "valid_risk_budget (dm_risk_budget m)" using assms(1) by (simp add: valid_deployment_manifest_def)
  then show ?thesis using assms(2)
    by (cases m) (simp add: parse_manifest_def manifest_json_def unsigned_fields_def reading parse_budget_json checked_def
        split: if_splits)
qed

lemma signed_text_signature [simp]: "signed_text (m\<lparr>dm_signature := s\<rparr>) = signed_text m"
  by (simp add: signed_text_def unsigned_fields_def)

lemma create_cases:
  assumes "create_deployment c payload key clk d = (Inr row, d')"
  obtains secret m where "ct_signing_key c = Some secret" and "32 \<le> length secret"
    and "release_check c payload key (clk 0) d = Inr (dm_deployment_id m, m)"
    and "activate_tx (ct_sha c) (ct_mac c) (control_registry c) (ct_tenant c) (m\<lparr>dm_signature := ct_mac c secret (signed_text m)\<rparr>)
      ''deployment_create'' (\<lambda>n. clk (n + 1)) d = Inr (row, d')"
proof -
  obtain secret where s: "ct_signing_key c = Some secret" "32 \<le> length secret"
    using assms by (auto simp: create_deployment_def split: option.splits if_splits)
  then obtain m signed where m: "release_check c payload key (clk 0) d = Inr (dm_deployment_id m, m)"
    and p: "parse_manifest (manifest_json (m\<lparr>dm_signature := ct_mac c secret (signed_text m)\<rparr>)) = Some signed"
    and a: "activate_tx (ct_sha c) (ct_mac c) (control_registry c) (ct_tenant c) signed ''deployment_create'' (\<lambda>n. clk (n + 1)) d = Inr (row, d')"
    using assms
    by (auto simp: create_deployment_def transaction_def split: option.splits if_splits sum.splits prod.splits)
  have "valid_deployment_manifest m" using release_check_eq[OF m] parse_manifest_valid by blast
  from a[unfolded parse_signed[OF this p]] that[OF s m] show thesis by blast
qed

lemma activated_row:
  assumes "activate_tx sha mac reg tenant m reason clk d = Inr (row, d')"
  shows "authentic mac reg m \<and> artifact_key tenant ''deployment'' (dm_deployment_id m) row \<and> is_active tenant (dm_deployment_id m) d' \<and>
    untouched d d'"
proof -
  have a: "authentic mac reg m" using assms signature_check_eq(1) by (auto simp: activate_tx_def bind_eq_Inr)
  from assms show ?thesis
  proof (cases rule: activate_cases)
    case again
    let ?rows = "insert_once head_clash (blank_head tenant (dm_account_id m) (clk 1)) (deployment_heads d)"
    have "first_where (head_of tenant (dm_account_id m)) ?rows = Some (head_before tenant (dm_account_id m) (clk 1) d)"
      by (simp add: insert_head head_before_def)
    from first_where_Some[OF this] again show ?thesis using a
      by (auto simp: is_active_def exists_where_iff head_of_def untouched_def)
  next
    case (fresh head d1 account)
    note e = install_effect[OF fresh(9)]
    have "first_where (head_of tenant (dm_account_id m)) (deployment_heads d1) = Some head"
      by (simp add: fresh(1,2) insert_head head_before_def)
    from first_where_Some[OF this] have h: "head \<in> set (deployment_heads d1)" "head_of tenant (dm_account_id m) head" by auto
    let ?h = "head\<lparr>hd_deployment_id := Some (dm_deployment_id m), hd_status := HEAD_ACTIVE,
              hd_generation := hd_generation head + 1, hd_updated_ns := clk 1, hd_reason := reason\<rparr>"
    have "?h \<in> set (deployment_heads d')" unfolding e(2) set_update_where using h by (intro image_eqI[of _ _ head]) simp_all
    then have "is_active tenant (dm_deployment_id m) d'" unfolding is_active_def exists_where_iff
      using h(2) by (intro bexI[of _ ?h]) (simp_all add: head_of_def)
    moreover have "artifact_key tenant ''deployment'' (dm_deployment_id m) row"
      using fresh(9) by (auto simp: install_deployment_def stored_deployment_def Let_def result_simps dest: first_where_Some)
    ultimately show ?thesis using a e(3) by (simp add: untouched_def fresh(2))
  qed
qed

text \<open>
  C10: a deployment is signed only on current evidence.  When \<open>create_deployment\<close> succeeds, the stored
  validation report the manifest names equals the verdict recomputed now from the experiment's result,
  specification and acceptance record, and it is eligible: the observations of this experiment's result
  and acceptance record satisfy every rule of the stage of the manifest's mode, with the frequency and
  venue read off the frozen specification, and the integrity observations are those of the result itself,
  whatever the acceptance record says.  The verdict is of the current policy, and the manifest repeats the
  strategy, risk budget and fee schedules that were tested; a live deployment is also bound to the forward
  evidence of its own account and configuration.  The row is the deployment of this idempotency key, signed
  with the configured key, and active; no account, order, fill or ledger row changes.
\<close>

theorem deployments_are_earned:
  assumes "create_deployment c payload key clk d = (Inr row, d')"
  shows "\<exists>m strategy report experiment spec dec verdict.
    dm_deployment_id m = content_hash (ct_sha c) (JArr [JStr (ct_tenant c), JStr ''deployment'', JStr key]) \<and>
    artifact_key (ct_tenant c) ''deployment'' (dm_deployment_id m) row \<and>
    authentic (ct_mac c) (control_registry c) m \<and> is_active (ct_tenant c) (dm_deployment_id m) d' \<and> untouched d d' \<and>
    artifact_document (ct_sha c) (ct_tenant c) ''validation'' (dm_validation_report_hash m) d = Inr report \<and>
    validation (ct_sha c) (ct_tenant c) experiment (deployment_mode_text (dm_mode m)) d = Inr (dec, verdict) \<and>
    equal_to report (JObj verdict) \<and> map_of verdict ''strategy_hash'' = Some (JStr (dm_strategy_hash m)) \<and>
    dc_eligible dec \<and>
    (\<exists>known observed lf predicted. judged_on (ct_sha c) (ct_tenant c) experiment spec d known observed lf predicted \<and>
       list_all (\<lambda>r. map_of observed (ru_name r) = map_of known (ru_name r)) integrity_rules \<and>
       list_all (satisfied (map (\<lambda>(k, v). (k, evidence_of v)) observed)) (stage_rules (deployment_mode_text (dm_mode m)) lf predicted)) \<and>
    dm_risk_policy_hash m = fingerprint (ct_sha c) \<and> clk 0 < dm_valid_until_ns m \<and>
    artifact_document (ct_sha c) (ct_tenant c) ''strategy'' (dm_strategy_hash m) d = Inr strategy \<and> budget_matches m strategy = Inr () \<and>
    artifact_document (ct_sha c) (ct_tenant c) ''experiment_spec'' experiment d = Inr spec \<and> fees_match m spec = Inr () \<and>
    (dm_mode m = live_canary \<longrightarrow> (\<exists>acceptance. artifact_document (ct_sha c) (ct_tenant c) ''acceptance'' experiment d = Inr acceptance \<and>
       jget acceptance ''deployment_binding_hash'' = Some (JStr (deployment_binding_hash (ct_sha c) m))))"
proof -
  obtain secret m where k: "ct_signing_key c = Some secret" "32 \<le> length secret"
    and r: "release_check c payload key (clk 0) d = Inr (dm_deployment_id m, m)"
    and a: "activate_tx (ct_sha c) (ct_mac c) (control_registry c) (ct_tenant c) (m\<lparr>dm_signature := ct_mac c secret (signed_text m)\<rparr>)
      ''deployment_create'' (\<lambda>n. clk (n + 1)) d = Inr (row, d')"
    by (rule create_cases[OF assms])
  let ?m = "m\<lparr>dm_signature := ct_mac c secret (signed_text m)\<rparr>"
  obtain strategy report tested spec where e: "dm_deployment_id m = content_hash (ct_sha c) (JArr [JStr (ct_tenant c), JStr ''deployment'', JStr key])"
    "artifact_document (ct_sha c) (ct_tenant c) ''strategy'' (dm_strategy_hash m) d = Inr strategy"
    "artifact_document (ct_sha c) (ct_tenant c) ''validation'' (dm_validation_report_hash m) d = Inr report"
    "budget_matches m strategy = Inr ()" "clk 0 < dm_valid_until_ns m"
    "artifact_document (ct_sha c) (ct_tenant c) ''experiment_spec'' tested d = Inr spec" "fees_match m spec = Inr ()"
    and v: "verdict_check c m report d = Inr tested" and f: "forward_check c m tested d = Inr ()"
    using release_check_eq[OF r] by blast
  obtain dec verdict where w: "validation (ct_sha c) (ct_tenant c) tested (deployment_mode_text (dm_mode m)) d = Inr (dec, verdict)"
    "dc_eligible dec" "equal_to report (JObj verdict)" "dc_policy_hash dec = dm_risk_policy_hash m"
    "map_of verdict ''strategy_hash'' = Some (JStr (dm_strategy_hash m))"
    using v by (auto simp: verdict_check_def bind_eq_Inr raise_if_eq_Inr)
  obtain known observed lf predicted where j: "judged_on (ct_sha c) (ct_tenant c) tested spec d known observed lf predicted"
    and ev: "evaluate_stage (ct_sha c) (deployment_mode_text (dm_mode m)) (map (\<lambda>(k, v). (k, evidence_of v)) observed) lf predicted = Inr dec"
    and own: "list_all (\<lambda>r. map_of observed (ru_name r) = map_of known (ru_name r)) integrity_rules"
    by (rule validation_judged[OF w(1) e(6)])
  have "dm_risk_policy_hash m = fingerprint (ct_sha c)"
    using ev w(4) by (auto simp: evaluate_stage_def bind_eq_Inr)
  moreover have "dm_mode m = live_canary \<longrightarrow> (\<exists>acceptance. artifact_document (ct_sha c) (ct_tenant c) ''acceptance'' tested d = Inr acceptance \<and>
       jget acceptance ''deployment_binding_hash'' = Some (JStr (deployment_binding_hash (ct_sha c) m)))"
    using f by (auto simp: forward_check_def if_key_missing_def bind_eq_Inr raise_if_eq_Inr members_of_def jget_def
        split: sum.splits error.splits json.splits)
  moreover have "budget_matches ?m strategy = Inr ()" "fees_match ?m spec = Inr ()"
    "deployment_binding_hash (ct_sha c) ?m = deployment_binding_hash (ct_sha c) m"
    using e(4,7) by (simp_all add: budget_matches_def fees_match_def deployment_binding_hash_def unsigned_fields_def)
  moreover note activated_row[OF a]
  moreover have "list_all (satisfied (map (\<lambda>(k, v). (k, evidence_of v)) observed))
      (stage_rules (deployment_mode_text (dm_mode m)) lf predicted)"
    using evaluate_stage_eligible[OF ev] w(2) by blast
  then have "\<exists>known observed lf predicted. judged_on (ct_sha c) (ct_tenant c) tested spec d known observed lf predicted \<and>
      list_all (\<lambda>r. map_of observed (ru_name r) = map_of known (ru_name r)) integrity_rules \<and>
      list_all (satisfied (map (\<lambda>(k, v). (k, evidence_of v)) observed)) (stage_rules (deployment_mode_text (dm_mode m)) lf predicted)"
    using j own by blast
  ultimately show ?thesis using e w
    by - (rule exI[where x = ?m], rule exI[where x = strategy], rule exI[where x = report], rule exI[where x = tested],
        rule exI[where x = spec], rule exI[where x = dec], rule exI[where x = verdict], simp)
qed

section \<open>A worked example\<close>

definition releaser :: control where
  "releaser = \<lparr>ct_sha = same_sha, ct_mac = demo_mac, ct_tenant = ''t'', ct_signing_key = Some (replicate 32 (CHR ''k''))\<rparr>"

definition asked_manifest :: deployment_manifest where
  "asked_manifest = (canary paper)\<lparr>dm_deployment_id := hash_of 9, dm_risk_policy_hash := hash_of 9,
     dm_fee_schedule_hashes := [hash_of 9], dm_signature := ''pending''\<rparr>"

definition request :: "(string \<times> json) list" where
  "request = filter (\<lambda>(k, v). k \<noteq> ''deployment_id'') (unsigned_fields asked_manifest)"

definition seen_evidence :: "(string \<times> json) list" where
  "seen_evidence = map (\<lambda>r. (ru_name r, JBool True)) integrity_rules"

definition seen_checks :: "check list" where
  "seen_checks = map (\<lambda>r. \<lparr>gk_rule = r, gk_status = check_pass, gk_observed = Some 1, gk_reason = ''threshold_satisfied''\<rparr>) integrity_rules"

definition seen_decision :: decision where
  "seen_decision = \<lparr>dc_policy_hash = hash_of 9, dc_stage = ''paper'', dc_eligible = True, dc_checks = seen_checks\<rparr>"

definition seen_verdict :: "(string \<times> json) list" where
  "seen_verdict = [(''experiment_hash'', JStr ''e''), (''result_hash'', JStr (hash_of 9)), (''strategy_hash'', JStr (hash_of 2)),
     (''policy_version'', JStr ''qt-production-v1''), (''policy_hash'', JStr (hash_of 9)), (''stage'', JStr ''paper''),
     (''eligible'', JBool True), (''checks'', JArr (map (check_json seen_evidence) seen_checks)),
     (''limits'', JStr ''Thresholds are admission rules, not profit or loss guarantees.'')]"

definition release_db :: db where
  "release_db = empty_db\<lparr>artifacts :=
     [stored_row ''strategy'' (hash_of 2) (AJson (JObj [(''risk_budget'', risk_budget_json budget0)])),
      stored_row ''validation'' (hash_of 6) (AJson (JObj seen_verdict)),
      stored_row ''experiment_result'' ''e'' (AJson (JObj [(''gate_evidence'', JObj seen_evidence)])),
      stored_row ''experiment_spec'' ''e'' (AJson (JObj [(''instrument_spec_hashes'', JArr [JStr ''i'']), (''timeframes_ns'', JArr [JInt 60]),
        (''strategy_version'', JStr (hash_of 2)), (''cost_model'', JObj [(''fee_schedule_hashes'', JArr [JStr (hash_of 9)])])])),
      stored_row ''instrument'' ''i'' (AJson (JObj [(''instrument_type'', JStr ''spot''), (''venue'', JStr ''sim'')])),
      stored_row ''fees'' (hash_of 9) (AJson (JObj [(''venue'', JStr ''sim'')]))]\<rparr>"

lemma readable_verdict: "readable (JObj seen_verdict)"
  by (simp add: seen_verdict_def seen_checks_def seen_evidence_def check_json_def rule_fields_def rule_json_def threshold_json_def
      integrity_rules_def rule_of_def double_1_1_def double_1e_12_def double_0_05_def double_0_999_def)

lemma seen_policy: "policy_verdict same_sha ''paper'' seen_evidence False False = Inr (seen_decision, drop 3 seen_verdict)"
  by (simp add: policy_verdict_def evaluate_stage_def stages_def stage_rules_simps seen_evidence_def integrity_rules_def rule_of_def
      evaluate_rule_def finite_number_def outside_domain_def probability_names_def signed_names_def is_flag_def flag_names_def ends_with_def
      fingerprint_def seen_decision_def seen_checks_def seen_verdict_def raise_if_def)

lemma release_lookups [simp]:
  "get_artifact same_sha ''t'' ''experiment_result'' ''e'' release_db =
     Inr (stored_row ''experiment_result'' ''e'' (AJson (JObj [(''gate_evidence'', JObj seen_evidence)])))"
  "artifact_document same_sha ''t'' ''strategy'' (hash_of 2) release_db = Inr (JObj [(''risk_budget'', risk_budget_json budget0)])"
  "artifact_document same_sha ''t'' ''validation'' (hash_of 6) release_db = Inr (JObj seen_verdict)"
  "artifact_document same_sha ''t'' ''experiment_spec'' ''e'' release_db = Inr (JObj [(''instrument_spec_hashes'', JArr [JStr ''i'']),
     (''timeframes_ns'', JArr [JInt 60]), (''strategy_version'', JStr (hash_of 2)),
     (''cost_model'', JObj [(''fee_schedule_hashes'', JArr [JStr (hash_of 9)])])])"
  "artifact_document same_sha ''t'' ''instrument'' ''i'' release_db =
     Inr (JObj [(''instrument_type'', JStr ''spot''), (''venue'', JStr ''sim'')])"
  "artifact_document same_sha ''t'' ''fees'' (hash_of 9) release_db = Inr (JObj [(''venue'', JStr ''sim'')])"
  "artifact_document same_sha ''t'' ''acceptance'' ''e'' release_db = Inl (KeyError ''artifact_not_found'')"
  by (simp_all add: artifact_document_def get_artifact_def release_db_def first_where_def artifact_key_def stored_row_def raise_if_def
      or_raise_def)

lemma seen_validation: "validation same_sha ''t'' ''e'' ''paper'' release_db = Inr (seen_decision, seen_verdict)"
  by (simp add: validation_def gate_observations_def gate_context_def members_at_def members_of_def if_key_missing_def list_at_def json_member_def jget_def or_raise_def
      as_str_def as_int_def raise_if_def seen_policy stored_row_def)
    (simp add: seen_verdict_def)

lemma valid_asked: "valid_deployment_manifest asked_manifest" "valid_deployment_manifest (asked_manifest\<lparr>dm_signature := ''sig''\<rparr>)"
  by code_simp+

lemma asked_parts [simp]: "dm_deployment_id asked_manifest = hash_of 9" "dm_mode asked_manifest = paper"
  "dm_risk_policy_hash asked_manifest = hash_of 9" "dm_strategy_hash asked_manifest = hash_of 2" "dm_risk_budget asked_manifest = budget0"
  "dm_validation_report_hash asked_manifest = hash_of 6" "dm_fee_schedule_hashes asked_manifest = [hash_of 9]"
  "dm_venue asked_manifest = ''sim''" "dm_account_id asked_manifest = ''acc''" "dm_valid_until_ns asked_manifest = 10 ^ 15"
  "dm_valid_from_ns asked_manifest = 0" "dm_signature asked_manifest = ''pending''"
  by (simp_all add: asked_manifest_def canary_def)

lemma parse_request: "parse_manifest (JObj (with_members request [(''deployment_id'', JStr (hash_of 9)), (''signature'', JStr ''pending'')])) =
  Some asked_manifest"
proof -
  have "valid_risk_budget budget0" using valid_asked(1) by (simp add: valid_deployment_manifest_def)
  then show ?thesis using valid_asked(1)
    by (simp add: request_def with_members_def unsigned_fields_def parse_manifest_def reading parse_budget_json checked_def as_list_def as_str_def
        deployment_modes_def)
      (simp add: asked_manifest_def canary_def)
qed

lemma seen_members [simp]: "map_of seen_verdict ''experiment_hash'' = Some (JStr ''e'')"
  "map_of seen_verdict ''strategy_hash'' = Some (JStr (hash_of 2))" "dc_eligible seen_decision" "dc_policy_hash seen_decision = hash_of 9"
  by (simp_all add: seen_verdict_def seen_decision_def)

lemma releaser_parts [simp]: "ct_sha releaser = same_sha" "ct_mac releaser = demo_mac" "ct_tenant releaser = ''t''"
  "ct_signing_key releaser = Some (replicate 32 (CHR ''k''))"
  by (simp_all add: releaser_def)

lemma request_verdict: "verdict_check releaser asked_manifest (JObj seen_verdict) release_db = Inr ''e''"
  using equal_to_self[OF readable_verdict]
  by (simp add: verdict_check_def text_at_def json_member_def jget_def or_raise_def as_str_def seen_validation raise_if_def
      del: equal_to.simps)

lemma readable_budget: "readable (risk_budget_json budget0)"
  by (simp add: risk_budget_json_def)

lemma request_released: "release_check releaser request ''k'' 5 release_db = Inr (hash_of 9, asked_manifest)"
  using equal_to_self[OF readable_budget]
  by (simp add: release_check_def Let_def parse_request or_raise_def request_verdict budget_matches_def json_member_def jget_def
      raise_if_def fees_match_def list_at_def as_str_def forward_check_def del: equal_to.simps)

lemma first_nothing: "first_where P [] = None" "first_where P [x] = (if P x then Some x else None)"
  by (simp_all add: first_where_def)

lemma first_release:
  assumes "list_all (\<lambda>r. ar_kind r \<noteq> ''deployment'') (artifacts d)" and [simp]: "deployment_heads d = []" "accounts d = []"
    and [simp]: "dm_mode m = paper" "signature_check mac reg m (Some (clk 0)) = Inr ()" "signature_check mac reg m (Some (clk 2)) = Inr ()"
  shows "commits (activate_tx sha mac reg tenant m ''deployment_create'' clk d)"
proof -
  let ?r = "activation_artifact sha tenant m (clk (Suc 0))"
  have a: "artifact_key tenant ''deployment'' (dm_deployment_id m) ?r" "content_hash sha (payload_json (ar_payload ?r)) = ar_sha256 ?r"
    by (simp_all add: activation_artifact_def artifact_key_def)
  have none: "first_where (artifact_key tenant ''deployment'' (dm_deployment_id m)) (artifacts d) = None"
    "\<not> list_ex (artifact_clash ?r) (artifacts d)"
    using assms(1) by (auto simp: first_where_None artifact_key_def list_all_iff list_ex_iff artifact_clash_def activation_artifact_def)
  then show ?thesis
    by (simp add: activate_tx_def reason_check_def is_space_def raise_if_def Let_def insert_once_def or_raise_def head_of_def blank_head_def
        first_nothing successor_check_def flat_account_def capital_check_def install_deployment_def exists_where_def
        stored_deployment_def add_event_def commits_def first_where_snoc a)
qed

lemma request_created: "\<exists>row d'. create_deployment releaser request ''k'' (\<lambda>n. int n + 5) release_db = (Inr row, d')"
proof -
  have s: "signature_check demo_mac (control_registry releaser) (asked_manifest\<lparr>dm_signature := ''sig''\<rparr>) (Some t) = Inr ()"
    if "0 \<le> t" "t < 10 ^ 15" for t
    using that by (simp add: signature_check_def control_registry_def raise_if_def demo_mac_def fingerprint_def)
  have "commits (activate_tx same_sha demo_mac (control_registry releaser) ''t'' (asked_manifest\<lparr>dm_signature := ''sig''\<rparr>)
      ''deployment_create'' (\<lambda>n. int (n + 1) + 5) release_db)"
    by (rule first_release) (simp_all add: s, simp_all add: release_db_def stored_row_def empty_db_def)
  then show ?thesis using parse_manifest_json[OF valid_asked(2)]
    by (auto simp: create_deployment_def request_released demo_mac_def transaction_def commits_def add_ac split: sum.splits)
qed

theorem deployments_are_earned_witness:
  "\<exists>row d' report dec verdict. create_deployment releaser request ''k'' (\<lambda>n. int n + 5) release_db = (Inr row, d') \<and>
     is_active ''t'' (hash_of 9) d' \<and> equal_to report (JObj verdict) \<and>
     validation same_sha ''t'' ''e'' ''paper'' release_db = Inr (dec, verdict)"
proof -
  obtain row d' where c: "create_deployment releaser request ''k'' (\<lambda>n. int n + 5) release_db = (Inr row, d')"
    using request_created by blast
  have "is_active ''t'' (hash_of 9) d'" using deployments_are_earned[OF c] by auto
  then show ?thesis using c equal_to_self[OF readable_verdict] seen_validation by blast
qed

lemma float_of_decimal_text: "nearest_double (11 / 10) = Some double_1_1"
  by code_simp

end
