(* ===== verification/Datasets.thy ===== *)
theory Datasets
  imports Reading Json_Numbers "HOL-Library.AList"
begin

text \<open>
  The dataset registry of \<open>src/qt/datasets/registry.py\<close>: reading and dumping of the dataset manifest, the
  inspection of a Parquet object, verification of a whole dataset, its registration, and the replay of its
  rows as market events.  Reading Parquet and decoding JSON text are parameters: an object is its length, its
  digest and, when it is Parquet, its columns with their kinds and its rows in the reader's batches.  Cells are
  JSON values; a timestamp cell is its nanoseconds, also where \<open>_inspect\<close> compares stored events with cells
  it did not cast.  A \<open>DatasetIntegrityError\<close> is a \<open>ValueError\<close>.
\<close>

section \<open>Manifests\<close>

definition parse_dataset_file :: "json \<Rightarrow> dataset_file option" where
  "parse_dataset_file v =
     (if \<not> admitted [''relative_path'', ''sha256'', ''bytes'', ''rows'', ''start_ns'', ''end_ns''] v then None
      else
        Option.bind (field as_str v ''relative_path'') (\<lambda>path.
        Option.bind (field as_str v ''sha256'') (\<lambda>digest.
        Option.bind (field as_int v ''bytes'') (\<lambda>size.
        Option.bind (field as_int v ''rows'') (\<lambda>rows.
        Option.bind (field as_int v ''start_ns'') (\<lambda>start.
        Option.bind (field as_int v ''end_ns'') (\<lambda>stop.
        checked valid_dataset_file
          \<lparr>df_relative_path = path, df_sha256 = digest, df_bytes = size, df_rows = rows, df_start_ns = start,
           df_end_ns = stop\<rparr>)))))))"

definition dataset_file_json :: "dataset_file \<Rightarrow> json" where
  "dataset_file_json f = JObj [(''schema_version'', JStr ''2.0''), (''relative_path'', JStr (df_relative_path f)),
     (''sha256'', JStr (df_sha256 f)), (''bytes'', JInt (df_bytes f)), (''rows'', JInt (df_rows f)),
     (''start_ns'', JInt (df_start_ns f)), (''end_ns'', JInt (df_end_ns f))]"

definition parse_data_gap :: "json \<Rightarrow> data_gap option" where
  "parse_data_gap v =
     (if \<not> admitted [''start_ns'', ''end_ns'', ''missing_count'', ''reason''] v then None
      else
        Option.bind (field as_int v ''start_ns'') (\<lambda>start.
        Option.bind (field as_int v ''end_ns'') (\<lambda>stop.
        Option.bind (field as_int v ''missing_count'') (\<lambda>missing.
        Option.bind (field as_str v ''reason'') (\<lambda>reason.
        checked valid_data_gap
          \<lparr>dg_start_ns = start, dg_end_ns = stop, dg_missing_count = missing, dg_reason = reason\<rparr>)))))"

definition data_gap_json :: "data_gap \<Rightarrow> json" where
  "data_gap_json g = JObj [(''schema_version'', JStr ''2.0''), (''start_ns'', JInt (dg_start_ns g)),
     (''end_ns'', JInt (dg_end_ns g)), (''missing_count'', JInt (dg_missing_count g)), (''reason'', JStr (dg_reason g))]"

fun availability_text :: "availability \<Rightarrow> string" where
  "availability_text received = ''received''"
| "availability_text reconstructed_available = ''reconstructed_available''"

definition availabilities :: "(string \<times> availability) list" where
  "availabilities = map (\<lambda>k. (availability_text k, k)) [received, reconstructed_available]"

definition parse_dataset :: "json \<Rightarrow> dataset_manifest option" where
  "parse_dataset v =
     (if \<not> admitted [''dataset_id'', ''files'', ''venue'', ''instrument'', ''data_type'', ''timestamp_column'',
           ''timestamp_precision'', ''rows'', ''start_ns'', ''end_ns'', ''expected_interval_ns'', ''gaps'', ''revision_id'',
           ''availability'', ''rights'', ''provenance'', ''columns'', ''arrow_schema''] v then None
      else
        Option.bind (field as_str v ''dataset_id'') (\<lambda>identity.
        Option.bind (field (as_list parse_dataset_file) v ''files'') (\<lambda>files.
        Option.bind (field as_str v ''venue'') (\<lambda>venue.
        Option.bind (field as_str v ''instrument'') (\<lambda>instrument.
        Option.bind (field as_str v ''data_type'') (\<lambda>data_type.
        Option.bind (field as_str v ''timestamp_column'') (\<lambda>column.
        Option.bind (field_or (as_literal [(''ns'', ())]) () v ''timestamp_precision'') (\<lambda>_.
        Option.bind (field as_int v ''rows'') (\<lambda>rows.
        Option.bind (field as_int v ''start_ns'') (\<lambda>start.
        Option.bind (field as_int v ''end_ns'') (\<lambda>stop.
        Option.bind (field_or (as_opt as_int) None v ''expected_interval_ns'') (\<lambda>interval.
        Option.bind (field_or (as_list parse_data_gap) [] v ''gaps'') (\<lambda>gaps.
        Option.bind (field as_str v ''revision_id'') (\<lambda>revision.
        Option.bind (field (as_literal availabilities) v ''availability'') (\<lambda>available.
        Option.bind (field as_str v ''rights'') (\<lambda>rights.
        Option.bind (field as_obj v ''provenance'') (\<lambda>provenance.
        Option.bind (field (as_list as_str) v ''columns'') (\<lambda>columns.
        Option.bind (field as_str v ''arrow_schema'') (\<lambda>schema.
        checked valid_dataset_manifest
          \<lparr>dsm_dataset_id = identity, dsm_files = files, dsm_venue = venue, dsm_instrument = instrument,
           dsm_data_type = data_type, dsm_timestamp_column = column, dsm_rows = rows, dsm_start_ns = start,
           dsm_end_ns = stop, dsm_expected_interval_ns = interval, dsm_gaps = gaps, dsm_revision_id = revision,
           dsm_availability = available, dsm_rights = rights, dsm_provenance = provenance, dsm_columns = columns,
           dsm_arrow_schema = schema\<rparr>)))))))))))))))))))"

definition dataset_json :: "dataset_manifest \<Rightarrow> json" where
  "dataset_json m = JObj [(''schema_version'', JStr ''2.0''), (''dataset_id'', JStr (dsm_dataset_id m)),
     (''files'', JArr (map dataset_file_json (dsm_files m))), (''venue'', JStr (dsm_venue m)),
     (''instrument'', JStr (dsm_instrument m)), (''data_type'', JStr (dsm_data_type m)),
     (''timestamp_column'', JStr (dsm_timestamp_column m)), (''timestamp_precision'', JStr ''ns''),
     (''rows'', JInt (dsm_rows m)), (''start_ns'', JInt (dsm_start_ns m)), (''end_ns'', JInt (dsm_end_ns m)),
     (''expected_interval_ns'', jopt JInt (dsm_expected_interval_ns m)), (''gaps'', JArr (map data_gap_json (dsm_gaps m))),
     (''revision_id'', JStr (dsm_revision_id m)), (''availability'', JStr (availability_text (dsm_availability m))),
     (''rights'', JStr (dsm_rights m)), (''provenance'', JObj (dsm_provenance m)),
     (''columns'', JArr (map JStr (dsm_columns m))), (''arrow_schema'', JStr (dsm_arrow_schema m))]"

lemma availability_read_back [reading]: "map_of availabilities (availability_text a) = Some a"
  by (cases a) (simp_all add: availabilities_def)

lemma as_list_ints [reading]: "as_list as_int (JArr (map JInt xs)) = Some xs"
  using those_map_Some[of "\<lambda>x. x" xs] by (simp add: as_list_def comp_def as_int_def)

lemma as_list_read_back: "(\<And>x. x \<in> set xs \<Longrightarrow> f (g x) = Some x) \<Longrightarrow> as_list f (JArr (map g xs)) = Some xs"
  by (induction xs) (simp_all add: as_list_def)

lemma parse_dataset_json:
  assumes "valid_dataset_manifest m"
  shows "parse_dataset (dataset_json m) = Some m"
proof -
  have "parse_dataset_file (dataset_file_json f) = Some f" if "f \<in> set (dsm_files m)" for f
    using assms that by (cases f) (auto simp: valid_dataset_manifest_def list_all_iff parse_dataset_file_def dataset_file_json_def
        reading checked_Some)
  moreover have "parse_data_gap (data_gap_json g) = Some g" if "g \<in> set (dsm_gaps m)" for g
    using assms that by (cases g) (auto simp: valid_dataset_manifest_def list_all_iff parse_data_gap_def data_gap_json_def
        reading checked_Some)
  ultimately show ?thesis using assms
    by (cases m) (simp add: parse_dataset_def dataset_json_def reading as_list_read_back checked_Some)
qed

lemma parse_dataset_valid: "parse_dataset v = Some m \<Longrightarrow> valid_dataset_manifest m"
  by (rule yields_Some[where r = "parse_dataset v"]) (unfold parse_dataset_def, intro yields_intros)

section \<open>Objects\<close>

datatype arrow_type = arrow_integer | arrow_timestamp | arrow_floating | arrow_other

type_synonym cells = "(string \<times> json) list"

record parquet_file =
  pf_columns :: "(string \<times> arrow_type) list"
  pf_schema :: string
  pf_batches :: "nat \<Rightarrow> cells list list"

record stored_object =
  so_bytes :: int
  so_sha256 :: string
  so_table :: "parquet_file option"

text \<open>Paths that leave the root are refused; a path without an object is a missing file.\<close>

record dataset_store =
  ds_escapes :: "string \<Rightarrow> bool"
  ds_objects :: "string \<Rightarrow> stored_object option"
  ds_manifests :: "string \<Rightarrow> json option"

type_synonym decoder = "string \<Rightarrow> json option"

definition invalid_parquet :: error where
  "invalid_parquet = ValueError ''Parquet contents or timestamp schema are invalid''"

section \<open>The steps between timestamps\<close>

text \<open>\<open>_gap\<close>\<close>

definition gap_between :: "int \<Rightarrow> int \<Rightarrow> int option \<Rightarrow> data_gap list result" where
  "gap_between previous current interval =
     (if current < previous then Inl (ValueError ''timestamps are out of order; sorting would hide a gap'')
      else
        case interval of
          None \<Rightarrow> Inr []
        | Some i \<Rightarrow>
            let delta = current - previous in
            if delta \<le> 0 \<or> delta mod i \<noteq> 0 then Inl (ValueError ''regular-grid timestamps are duplicate or off-grid'')
            else if i < delta
            then bind (or_raise (checked valid_data_gap
                   \<lparr>dg_start_ns = previous + i, dg_end_ns = current - i, dg_missing_count = delta div i - 1,
                    dg_reason = ''missing_expected_timestamp''\<rparr>) (ValueError ''DataGap'')) (\<lambda>g. Inr [g])
            else Inr [])"

section \<open>Inspecting an object\<close>

record scan =
  sc_rows :: int
  sc_first :: "int option"
  sc_previous :: "int option"
  sc_first_received :: "int option"
  sc_previous_received :: "int option"
  sc_gaps :: "data_gap list"

definition empty_scan :: scan where
  "empty_scan = \<lparr>sc_rows = 0, sc_first = None, sc_previous = None, sc_first_received = None, sc_previous_received = None,
     sc_gaps = []\<rparr>"

text \<open>The integers of a column; a null or a value outside 64 bits is refused.\<close>

definition int64 :: "json \<Rightarrow> int option" where
  "int64 v = (case v of JInt i \<Rightarrow> if - (2 ^ 63) \<le> i \<and> i < 2 ^ 63 then Some i else None | _ \<Rightarrow> None)"

definition column_of :: "string \<Rightarrow> cells list \<Rightarrow> json list result" where
  "column_of name rows = or_raise (those (map (\<lambda>row. map_of row name) rows)) invalid_parquet"

fun scan_times :: "int option \<Rightarrow> int list \<Rightarrow> scan \<Rightarrow> scan result" where
  "scan_times interval [] s = Inr s"
| "scan_times interval (current # ts) s =
     bind (raise_if (current < 0) (ValueError ''timestamps precede the Unix epoch'')) (\<lambda>_.
     bind (case sc_previous s of
             None \<Rightarrow> Inr (s\<lparr>sc_first := Some current\<rparr>)
           | Some previous \<Rightarrow> bind (gap_between previous current interval) (\<lambda>gs. Inr (s\<lparr>sc_gaps := sc_gaps s @ gs\<rparr>))) (\<lambda>s1.
     scan_times interval ts (s1\<lparr>sc_previous := Some current, sc_rows := sc_rows s1 + 1\<rparr>)))"

fun scan_received :: "int list \<Rightarrow> scan \<Rightarrow> scan result" where
  "scan_received [] s = Inr s"
| "scan_received (t # ts) s =
     bind (raise_if (t < 0 \<or> (case sc_previous_received s of None \<Rightarrow> False | Some p \<Rightarrow> t < p))
             (ValueError ''actual receipt history is out of order'')) (\<lambda>_.
     scan_received ts (s\<lparr>sc_previous_received := Some t,
       sc_first_received := (case sc_first_received s of None \<Rightarrow> Some t | f \<Rightarrow> f)\<rparr>))"

text \<open>\<open>MarketEvent.model_validate_json\<close>, after decoding\<close>

definition event_types :: "(string \<times> market_event_type) list" where
  "event_types = map (\<lambda>k. (event_type_text k, k)) [E_snapshot, E_delta, E_trade, E_quote, E_bar, E_funding, E_liquidation,
     E_news, E_onchain, E_instrument, E_heartbeat]"

definition parse_event :: "json \<Rightarrow> market_event option" where
  "parse_event v =
     (if \<not> admitted [''venue'', ''instrument'', ''event_type'', ''exchange_ts_ns'', ''received_ts_ns'', ''timestamp_precision'',
           ''sequence'', ''payload'', ''quality_flags'', ''published_at_ns'', ''available_at_ns'', ''revision_id'', ''source_hash''] v
      then None
      else
        Option.bind (field as_str v ''venue'') (\<lambda>venue.
        Option.bind (field as_str v ''instrument'') (\<lambda>instrument.
        Option.bind (field (as_literal event_types) v ''event_type'') (\<lambda>kind.
        Option.bind (field as_int v ''exchange_ts_ns'') (\<lambda>exchange.
        Option.bind (field as_int v ''received_ts_ns'') (\<lambda>received_at.
        Option.bind (field_or (as_literal [(''ns'', ())]) () v ''timestamp_precision'') (\<lambda>_.
        Option.bind (field_or (as_opt as_int) None v ''sequence'') (\<lambda>sequence.
        Option.bind (field_or as_obj [] v ''payload'') (\<lambda>payload.
        Option.bind (field_or (as_list as_str) [] v ''quality_flags'') (\<lambda>flags.
        Option.bind (field_or (as_opt as_int) None v ''published_at_ns'') (\<lambda>published.
        Option.bind (field_or (as_opt as_int) None v ''available_at_ns'') (\<lambda>available.
        Option.bind (field_or as_str ''initial'' v ''revision_id'') (\<lambda>revision.
        Option.bind (field_or (as_opt as_str) None v ''source_hash'') (\<lambda>source.
        checked valid_market_event
          \<lparr>me_venue = venue, me_instrument = instrument, me_event_type = kind, me_exchange_ts_ns = exchange,
           me_received_ts_ns = received_at, me_sequence = sequence, me_payload = payload, me_quality_flags = flags,
           me_published_at_ns = published, me_available_at_ns = available, me_revision_id = revision,
           me_source_hash = source\<rparr>))))))))))))))"

text \<open>\<open>_event_envelope\<close>: the stored event must repeat its row.\<close>

definition cell_equals :: "json \<Rightarrow> cells \<Rightarrow> string \<Rightarrow> bool" where
  "cell_equals v row k = (case map_of row k of None \<Rightarrow> False | Some w \<Rightarrow> equal_to v w)"

definition event_envelope :: "decoder \<Rightarrow> string \<times> string \<Rightarrow> cells \<Rightarrow> market_event result" where
  "event_envelope decode identity row =
     or_raise
       (Option.bind (Option.bind (map_of row ''event_json'') as_str) (\<lambda>text.
        if 4 * 1024 * 1024 < length text then None
        else Option.bind (Option.bind (decode text) parse_event) (\<lambda>event.
          if me_venue event = fst identity \<and> me_instrument event = snd identity \<and>
             cell_equals (JInt (me_received_ts_ns event)) row ''received_ts_ns'' \<and>
             cell_equals (JInt (me_exchange_ts_ns event)) row ''exchange_ts_ns'' \<and>
             cell_equals (JStr (event_type_text (me_event_type event))) row ''event_type'' \<and>
             cell_equals (jopt JInt (me_sequence event)) row ''sequence''
          then Some event else None)))
       (ValueError ''event envelope is malformed or disagrees with its immutable row'')"

fun envelopes_of :: "decoder \<Rightarrow> string \<times> string \<Rightarrow> cells list \<Rightarrow> unit result" where
  "envelopes_of decode identity [] = Inr ()"
| "envelopes_of decode identity (row # rows) =
     bind (event_envelope decode identity row) (\<lambda>_. envelopes_of decode identity rows)"

definition finite_cell :: "json \<Rightarrow> bool" where
  "finite_cell v \<longleftrightarrow> v = JNull \<or> number_of v \<noteq> None"

definition floats_finite :: "parquet_file \<Rightarrow> cells list \<Rightarrow> bool" where
  "floats_finite pf rows =
     list_all (\<lambda>(name, kind). kind \<noteq> arrow_floating \<or>
       list_all (\<lambda>row. case map_of row name of None \<Rightarrow> False | Some v \<Rightarrow> finite_cell v) rows) (pf_columns pf)"

record survey =
  ms_rows :: int
  ms_start_ns :: int
  ms_end_ns :: int
  ms_gaps :: "data_gap list"
  ms_columns :: "string list"
  ms_schema :: string
  ms_received_start :: "int option"
  ms_received_end :: "int option"

definition times_of :: "string \<Rightarrow> cells list \<Rightarrow> int list result" where
  "times_of column rows =
     bind (column_of column rows) (\<lambda>cells.
     bind (raise_if (JNull \<in> set cells) (ValueError ''timestamps contain nulls'')) (\<lambda>_.
     or_raise (those (map int64 cells)) invalid_parquet))"

definition receipts_of :: "parquet_file \<Rightarrow> cells list \<Rightarrow> int list result" where
  "receipts_of pf rows =
     bind (column_of ''received_ts_ns'' rows) (\<lambda>cells.
     bind (raise_if (JNull \<in> set cells \<or> map_of (pf_columns pf) ''received_ts_ns'' \<noteq> Some arrow_integer)
             (ValueError ''actual receipt timestamps require nonnull integer ns'')) (\<lambda>_.
     or_raise (those (map int64 cells)) invalid_parquet))"

definition scan_batch ::
  "decoder \<Rightarrow> parquet_file \<Rightarrow> string \<Rightarrow> int option \<Rightarrow> availability \<Rightarrow> (string \<times> string) option \<Rightarrow> cells list \<Rightarrow>
   scan \<Rightarrow> scan result" where
  "scan_batch decode pf column interval available identity rows s =
     bind (times_of column rows) (\<lambda>times.
     bind (scan_times interval times s) (\<lambda>s1.
     bind (if available = received then bind (receipts_of pf rows) (\<lambda>ts. scan_received ts s1) else Inr s1) (\<lambda>s2.
     bind (case identity of None \<Rightarrow> Inr () | Some who \<Rightarrow> envelopes_of decode who rows) (\<lambda>_.
     bind (raise_if (\<not> floats_finite pf rows) (ValueError ''numeric data contains NaN or Infinity'')) (\<lambda>_.
     Inr s2)))))"

fun scan_batches ::
  "decoder \<Rightarrow> parquet_file \<Rightarrow> string \<Rightarrow> int option \<Rightarrow> availability \<Rightarrow> (string \<times> string) option \<Rightarrow> cells list list \<Rightarrow>
   scan \<Rightarrow> scan result" where
  "scan_batches decode pf column interval available identity [] s = Inr s"
| "scan_batches decode pf column interval available identity (rows # batches) s =
     bind (scan_batch decode pf column interval available identity rows s) (\<lambda>s1.
     scan_batches decode pf column interval available identity batches s1)"

definition batch_size :: "(string \<times> string) option \<Rightarrow> nat" where
  "batch_size identity = (if identity = None then 65536 else 64)"

definition survey_of :: "parquet_file \<Rightarrow> scan \<Rightarrow> survey result" where
  "survey_of pf s =
     (case (sc_first s, sc_previous s) of
        (Some first, Some last_seen) \<Rightarrow>
          bind (raise_if (sc_rows s = 0) (ValueError ''empty datasets cannot be registered'')) (\<lambda>_.
          Inr \<lparr>ms_rows = sc_rows s, ms_start_ns = first, ms_end_ns = last_seen, ms_gaps = sc_gaps s,
               ms_columns = map fst (pf_columns pf), ms_schema = pf_schema pf, ms_received_start = sc_first_received s,
               ms_received_end = sc_previous_received s\<rparr>)
      | _ \<Rightarrow> Inl (ValueError ''empty datasets cannot be registered''))"

text \<open>\<open>_inspect\<close>\<close>

definition inspect ::
  "decoder \<Rightarrow> stored_object \<Rightarrow> string \<Rightarrow> int option \<Rightarrow> availability \<Rightarrow> (string \<times> string) option \<Rightarrow> survey result" where
  "inspect decode obj column interval available identity =
     bind (raise_if (case interval of None \<Rightarrow> False | Some i \<Rightarrow> i \<le> 0)
             (ValueError ''expected interval must be positive integer nanoseconds'')) (\<lambda>_.
     bind (or_raise (so_table obj) invalid_parquet) (\<lambda>pf.
     let names = map fst (pf_columns pf) in
     bind (raise_if (\<not> distinct names) (ValueError ''duplicate parquet column names'')) (\<lambda>_.
     bind (or_raise (map_of (pf_columns pf) column) invalid_parquet) (\<lambda>kind.
     bind (raise_if (kind \<notin> {arrow_integer, arrow_timestamp})
             (ValueError ''timestamp column must be integer ns or Arrow timestamp'')) (\<lambda>_.
     bind (raise_if (available = received \<and> ''received_ts_ns'' \<notin> set names)
             (ValueError ''actual-receipt dataset lacks received_ts_ns'')) (\<lambda>_.
     bind (raise_if (identity \<noteq> None \<and>
               \<not> {''event_json'', ''received_ts_ns'', ''exchange_ts_ns'', ''event_type'', ''sequence''} \<subseteq> set names)
             (ValueError ''market event envelopes require all identity and timestamp columns'')) (\<lambda>_.
     bind (scan_batches decode pf column interval available identity (pf_batches pf (batch_size identity)) empty_scan) (\<lambda>s.
     survey_of pf s))))))))"

section \<open>Verifying a dataset\<close>

definition manifest_identity :: "hasher \<Rightarrow> dataset_manifest \<Rightarrow> string" where
  "manifest_identity sha m =
     (case dataset_json m of
        JObj kvs \<Rightarrow> content_hash sha (JObj (filter (\<lambda>(k, v). k \<noteq> ''dataset_id'') kvs))
      | v \<Rightarrow> content_hash sha v)"

definition event_identity :: "dataset_manifest \<Rightarrow> (string \<times> string) option" where
  "event_identity m = (if dsm_data_type m = ''market_events'' then Some (dsm_venue m, dsm_instrument m) else None)"

record progress =
  pg_rows :: int
  pg_gaps :: "data_gap list"
  pg_end :: "int option"
  pg_received :: "int option"

definition stored_file :: "dataset_store \<Rightarrow> string \<Rightarrow> stored_object result" where
  "stored_file store path =
     bind (raise_if (ds_escapes store path) (ValueError ''dataset path escapes the registry root'')) (\<lambda>_.
     or_raise (ds_objects store path) (ValueError ''dataset object is missing or unreadable''))"

definition verify_part ::
  "decoder \<Rightarrow> dataset_store \<Rightarrow> dataset_manifest \<Rightarrow> dataset_file \<Rightarrow> progress \<Rightarrow> progress result" where
  "verify_part decode store m part p =
     bind (stored_file store (df_relative_path part)) (\<lambda>obj.
     bind (raise_if (so_bytes obj \<noteq> df_bytes part \<or> so_sha256 obj \<noteq> df_sha256 part)
             (ValueError ''dataset object content hash mismatch'')) (\<lambda>_.
     bind (inspect decode obj (dsm_timestamp_column m) (dsm_expected_interval_ns m) (dsm_availability m) (event_identity m)) (\<lambda>seen.
     bind (raise_if (ms_rows seen \<noteq> df_rows part) (ValueError ''dataset object measured rows mismatch'')) (\<lambda>_.
     bind (raise_if (ms_start_ns seen \<noteq> df_start_ns part) (ValueError ''dataset object measured start_ns mismatch'')) (\<lambda>_.
     bind (raise_if (ms_end_ns seen \<noteq> df_end_ns part) (ValueError ''dataset object measured end_ns mismatch'')) (\<lambda>_.
     bind (raise_if (ms_columns seen \<noteq> dsm_columns m \<or> ms_schema seen \<noteq> dsm_arrow_schema m)
             (ValueError ''dataset object schema mismatch'')) (\<lambda>_.
     bind (case pg_end p of None \<Rightarrow> Inr []
           | Some previous \<Rightarrow> gap_between previous (ms_start_ns seen) (dsm_expected_interval_ns m)) (\<lambda>between.
     bind (if dsm_availability m = received
           then case (pg_received p, ms_received_start seen) of
                  (Some previous, Some start) \<Rightarrow>
                    bind (raise_if (start < previous) (ValueError ''actual receipt history is out of order across parts'')) (\<lambda>_.
                    Inr (ms_received_end seen))
                | (Some previous, None) \<Rightarrow> Inl (TypeError ''received_start_ns'')
                | _ \<Rightarrow> Inr (ms_received_end seen)
           else Inr (pg_received p)) (\<lambda>receipt.
     Inr \<lparr>pg_rows = pg_rows p + ms_rows seen, pg_gaps = pg_gaps p @ between @ ms_gaps seen,
          pg_end = Some (ms_end_ns seen), pg_received = receipt\<rparr>)))))))))"

fun verify_parts ::
  "decoder \<Rightarrow> dataset_store \<Rightarrow> dataset_manifest \<Rightarrow> dataset_file list \<Rightarrow> progress \<Rightarrow> progress result" where
  "verify_parts decode store m [] p = Inr p"
| "verify_parts decode store m (part # parts) p =
     bind (verify_part decode store m part p) (\<lambda>p1. verify_parts decode store m parts p1)"

definition verify_dataset :: "hasher \<Rightarrow> decoder \<Rightarrow> dataset_store \<Rightarrow> dataset_manifest \<Rightarrow> dataset_manifest result" where
  "verify_dataset sha decode store m =
     bind (raise_if (manifest_identity sha m \<noteq> dsm_dataset_id m) (ValueError ''dataset manifest content hash mismatch'')) (\<lambda>_.
     bind (verify_parts decode store m (dsm_files m) \<lparr>pg_rows = 0, pg_gaps = [], pg_end = None, pg_received = None\<rparr>) (\<lambda>p.
     bind (raise_if (pg_rows p \<noteq> dsm_rows m \<or> pg_gaps p \<noteq> dsm_gaps m)
             (ValueError ''dataset measured rows or gaps mismatch'')) (\<lambda>_.
     Inr m)))"

definition object_path :: "string \<Rightarrow> string" where
  "object_path digest = ''objects/'' @ digest @ ''.parquet''"

definition manifest_path :: "string \<Rightarrow> string" where
  "manifest_path identity = ''manifests/'' @ identity @ ''.json''"

text \<open>\<open>load\<close>\<close>

definition load_dataset :: "hasher \<Rightarrow> decoder \<Rightarrow> dataset_store \<Rightarrow> string \<Rightarrow> dataset_manifest result" where
  "load_dataset sha decode store identity =
     bind (raise_if (\<not> valid_sha256 identity) (ValueError ''dataset ID must be a SHA-256 identity'')) (\<lambda>_.
     let path = manifest_path identity in
     bind (raise_if (ds_escapes store path) (ValueError ''dataset path escapes the registry root'')) (\<lambda>_.
     bind (or_raise (Option.bind (ds_manifests store path) parse_dataset)
             (ValueError ''dataset manifest is missing or invalid'')) (\<lambda>m.
     bind (raise_if (dsm_dataset_id m \<noteq> identity) (ValueError ''manifest does not match the requested dataset'')) (\<lambda>_.
     verify_dataset sha decode store m))))"

section \<open>Registration\<close>

record metadata =
  md_venue :: string
  md_instrument :: string
  md_data_type :: string
  md_timestamp_column :: string
  md_rights :: string
  md_provenance :: "(string \<times> json) list"
  md_revision_id :: string
  md_availability :: availability
  md_expected_interval_ns :: "int option"

definition draft_manifest :: "metadata \<Rightarrow> stored_object \<Rightarrow> survey \<Rightarrow> dataset_manifest result" where
  "draft_manifest md obj seen =
     bind (or_raise (checked valid_dataset_file
        \<lparr>df_relative_path = object_path (so_sha256 obj), df_sha256 = so_sha256 obj, df_bytes = so_bytes obj,
         df_rows = ms_rows seen, df_start_ns = ms_start_ns seen, df_end_ns = ms_end_ns seen\<rparr>) (ValueError ''DatasetFile'')) (\<lambda>part.
     or_raise (checked valid_dataset_manifest
       \<lparr>dsm_dataset_id = replicate 64 (CHR ''0''), dsm_files = [part], dsm_venue = md_venue md, dsm_instrument = md_instrument md,
        dsm_data_type = md_data_type md, dsm_timestamp_column = md_timestamp_column md, dsm_rows = ms_rows seen,
        dsm_start_ns = ms_start_ns seen, dsm_end_ns = ms_end_ns seen, dsm_expected_interval_ns = md_expected_interval_ns md,
        dsm_gaps = ms_gaps seen, dsm_revision_id = md_revision_id md, dsm_availability = md_availability md,
        dsm_rights = md_rights md, dsm_provenance = md_provenance md, dsm_columns = ms_columns seen,
        dsm_arrow_schema = ms_schema seen\<rparr>) (ValueError ''DatasetManifest''))"

text \<open>\<open>_publish\<close>: a file is linked once; a file already there must have the expected digest.\<close>

definition publish_object :: "stored_object \<Rightarrow> dataset_store \<Rightarrow> dataset_store result" where
  "publish_object obj store =
     (let path = object_path (so_sha256 obj) in
      bind (raise_if (ds_escapes store path) (ValueError ''dataset path escapes the registry root'')) (\<lambda>_.
      case ds_objects store path of
        None \<Rightarrow> Inr (store\<lparr>ds_objects := (ds_objects store)(path \<mapsto> obj)\<rparr>)
      | Some existing \<Rightarrow>
          bind (raise_if (so_sha256 existing \<noteq> so_sha256 obj) (ValueError ''existing immutable object is corrupted'')) (\<lambda>_.
          Inr store)))"

definition publish_manifest :: "hasher \<Rightarrow> dataset_manifest \<Rightarrow> dataset_store \<Rightarrow> dataset_store result" where
  "publish_manifest sha m store =
     (let path = manifest_path (dsm_dataset_id m) in
      bind (raise_if (ds_escapes store path) (ValueError ''dataset path escapes the registry root'')) (\<lambda>_.
      case ds_manifests store path of
        None \<Rightarrow> Inr (store\<lparr>ds_manifests := (ds_manifests store)(path \<mapsto> dataset_json m)\<rparr>)
      | Some existing \<Rightarrow>
          bind (raise_if (sha (canonical_json existing) \<noteq> sha (canonical_json (dataset_json m)))
                  (ValueError ''existing immutable object is corrupted'')) (\<lambda>_.
          Inr store)))"

text \<open>\<open>_register\<close>: the object stays published when the manifest cannot be.\<close>

definition registered_manifest :: "hasher \<Rightarrow> decoder \<Rightarrow> metadata \<Rightarrow> stored_object \<Rightarrow> dataset_manifest result" where
  "registered_manifest sha decode md obj =
     bind (inspect decode obj (md_timestamp_column md) (md_expected_interval_ns md) (md_availability md)
             (if md_data_type md = ''market_events'' then Some (md_venue md, md_instrument md) else None)) (\<lambda>seen.
     bind (draft_manifest md obj seen) (\<lambda>draft.
     or_raise (checked valid_dataset_manifest (draft\<lparr>dsm_dataset_id := manifest_identity sha draft\<rparr>))
       (ValueError ''DatasetManifest'')))"

definition register_dataset ::
  "hasher \<Rightarrow> decoder \<Rightarrow> metadata \<Rightarrow> stored_object \<Rightarrow> dataset_store \<Rightarrow> dataset_manifest result \<times> dataset_store" where
  "register_dataset sha decode md obj store =
     (case registered_manifest sha decode md obj of
        Inl e \<Rightarrow> (Inl e, store)
      | Inr m \<Rightarrow>
          case publish_object obj store of
            Inl e \<Rightarrow> (Inl e, store)
          | Inr store1 \<Rightarrow>
              case publish_manifest sha m store1 of Inl e \<Rightarrow> (Inl e, store1) | Inr store2 \<Rightarrow> (Inr m, store2))"

section \<open>Replay\<close>

definition replay_kinds :: "(string \<times> market_event_type) list" where
  "replay_kinds = [(''ohlcv'', E_bar), (''bars'', E_bar), (''bar'', E_bar), (''trades'', E_trade), (''trade'', E_trade),
     (''snapshot'', E_snapshot), (''delta'', E_delta), (''quote'', E_quote), (''funding'', E_funding),
     (''liquidation'', E_liquidation)]"

text \<open>\<open>_timestamp\<close>\<close>

definition stamp_of :: "json \<Rightarrow> string \<Rightarrow> int result" where
  "stamp_of v name = or_raise (Option.bind (as_int v) (checked valid_timestamp))
     (ValueError (''invalid integer nanosecond timestamp: '' @ name))"

definition stamp_or :: "cells \<Rightarrow> string \<Rightarrow> int \<Rightarrow> int result" where
  "stamp_or row name dflt = (case map_of row name of None \<Rightarrow> Inr dflt | Some v \<Rightarrow> stamp_of v name)"

definition cell_at :: "cells \<Rightarrow> string \<Rightarrow> json result" where
  "cell_at row name = or_raise (map_of row name) (KeyError name)"

text \<open>A financial column: numbers become text, text must be a decimal of the exact money type.\<close>

definition money_text :: "json \<Rightarrow> json" where
  "money_text v = (case v of JInt i \<Rightarrow> JStr (decimal_string (of_int i)) | JFloat t \<Rightarrow> JStr t | _ \<Rightarrow> v)"

fun money_columns :: "(rat \<Rightarrow> bool) \<Rightarrow> string \<Rightarrow> string list \<Rightarrow> cells \<Rightarrow> cells result" where
  "money_columns valid msg [] payload = Inr payload"
| "money_columns valid msg (name # names) payload =
     (case map_of payload name of
        None \<Rightarrow> money_columns valid msg names payload
      | Some v \<Rightarrow>
          bind (or_raise (Option.bind (as_dec (money_text v)) (checked valid)) (ValueError (msg @ name))) (\<lambda>x.
          money_columns valid msg names (AList.update name (jdec x) payload)))"

text \<open>When a bar becomes observable: its close.\<close>

definition bar_close ::
  "dataset_manifest \<Rightarrow> cells \<Rightarrow> int \<Rightarrow> cells \<Rightarrow> (int \<times> cells) result" where
  "bar_close m row t payload =
     (let semantics = map_of (dsm_provenance m) ''timestamp_semantics'' in
      bind (case map_of row ''close_ts_ns'' of
              Some v \<Rightarrow> bind (stamp_of v ''close_ts_ns'') (\<lambda>close. Inr (close, payload))
            | None \<Rightarrow>
                case (semantics = Some (JStr ''open''), dsm_expected_interval_ns m) of
                  (True, Some i) \<Rightarrow>
                    Inr (t + i, AList.update ''close_ts_ns'' (JInt (t + i)) (AList.update ''open_ts_ns'' (JInt t) payload))
                | _ \<Rightarrow>
                    if semantics = Some (JStr ''close'') \<or> dsm_timestamp_column m = ''close_ts_ns''
                    then Inr (t, AList.update ''close_ts_ns'' (JInt t) payload)
                    else Inl (ValueError ''bar close-time semantics are required'')) (\<lambda>(close, payload1).
      bind (raise_if (\<not> {''open'', ''high'', ''low'', ''close'', ''volume''} \<subseteq> fst ` set row)
              (ValueError ''bar dataset requires OHLCV columns'')) (\<lambda>_.
      Inr (close,
        case (map_of payload1 ''open_ts_ns'', dsm_expected_interval_ns m) of
          (None, Some i) \<Rightarrow> AList.update ''open_ts_ns'' (JInt (close - i)) payload1
        | _ \<Rightarrow> payload1))))"

definition put_aside :: "dataset_manifest \<Rightarrow> string set" where
  "put_aside m = {dsm_timestamp_column m, ''exchange_ts_ns'', ''received_ts_ns'', ''available_at_ns'', ''sequence''}"

fun prices_at :: "cells \<Rightarrow> string list \<Rightarrow> rat list result" where
  "prices_at payload [] = Inr []"
| "prices_at payload (name # names) =
     bind (cell_at payload name) (\<lambda>v.
     bind (or_raise (Option.bind (as_dec v) (checked valid_positive)) (ValueError name)) (\<lambda>x.
     bind (prices_at payload names) (\<lambda>xs. Inr (x # xs))))"

text \<open>The checks of a bar after its columns were normalised: prices in order, opened before it closed.\<close>

definition bar_check :: "int \<Rightarrow> cells \<Rightarrow> unit result" where
  "bar_check close payload =
     bind (prices_at payload [''low'', ''open'', ''close'', ''high'']) (\<lambda>prices.
     let low = prices ! 0; between = [prices ! 1, prices ! 2]; high = prices ! 3 in
     bind (raise_if (\<not> (low \<le> Min (set between) \<and> Max (set between) \<le> high))
             (ValueError ''bar OHLC prices are inconsistent'')) (\<lambda>_.
     raise_if (case map_of payload ''open_ts_ns'' of
                 None \<Rightarrow> False
               | Some v \<Rightarrow> (case v of JInt opened \<Rightarrow> \<not> (0 \<le> opened \<and> opened < close) | _ \<Rightarrow> True))
       (ValueError ''bar open must precede its close'')))"

text \<open>The event of a row whose columns are normalised; \<open>digest\<close> is the hash of its object.\<close>

definition dated_event ::
  "dataset_manifest \<Rightarrow> market_event_type \<Rightarrow> string \<Rightarrow> cells \<Rightarrow> int \<Rightarrow> cells \<Rightarrow> market_event result" where
  "dated_event m kind digest row exchange payload =
     bind (stamp_or row ''available_at_ns'' exchange) (\<lambda>available.
     bind (stamp_or row ''received_ts_ns'' available) (\<lambda>receipt.
     bind (raise_if (receipt < available) (ValueError ''event version is received before its availability'')) (\<lambda>_.
     bind (if kind = E_bar
           then bind (raise_if (available < exchange) (ValueError ''bar is available before its close'')) (\<lambda>_.
                bar_check exchange payload)
           else Inr ()) (\<lambda>_.
     let reconstructed = (map_of row ''received_ts_ns'' = None) in
     bind (raise_if (dsm_availability m = received \<and> reconstructed)
             (ValueError ''actual-receipt dataset lacks received_ts_ns'')) (\<lambda>_.
     bind (case map_of row ''sequence'' of None \<Rightarrow> Inr None
           | Some v \<Rightarrow> or_raise (as_opt as_int v) (ValueError ''MarketEvent'')) (\<lambda>sequence.
     or_raise (checked valid_market_event
       \<lparr>me_venue = dsm_venue m, me_instrument = dsm_instrument m, me_event_type = kind, me_exchange_ts_ns = exchange,
        me_received_ts_ns = receipt, me_sequence = sequence, me_payload = payload,
        me_quality_flags = (if reconstructed then [''RECONSTRUCTED_RECEIPT''] else []), me_published_at_ns = None,
        me_available_at_ns = Some available, me_revision_id = dsm_revision_id m, me_source_hash = Some digest\<rparr>)
       (ValueError ''MarketEvent'')))))))"

text \<open>One row as an event.\<close>

definition event_of_row :: "dataset_manifest \<Rightarrow> market_event_type \<Rightarrow> string \<Rightarrow> cells \<Rightarrow> market_event result" where
  "event_of_row m kind digest row =
     bind (bind (cell_at row (dsm_timestamp_column m)) (\<lambda>v. stamp_of v (dsm_timestamp_column m))) (\<lambda>t.
     bind (stamp_or row ''exchange_ts_ns'' t) (\<lambda>exchanged.
     let payload = filter (\<lambda>(k, v). k \<notin> put_aside m) row in
     bind (if kind = E_bar then bar_close m row t payload else Inr (exchanged, payload)) (\<lambda>(exchange, payload1).
     bind (money_columns valid_positive ''invalid positive financial column: ''
             [''open'', ''high'', ''low'', ''close'', ''price'', ''bid'', ''ask''] payload1) (\<lambda>payload2.
     bind (money_columns valid_nonnegative ''invalid nonnegative financial column: ''
             [''volume'', ''quantity'', ''size'', ''buy_volume'', ''sell_volume''] payload2) (\<lambda>payload3.
     dated_event m kind digest row exchange payload3)))))"

text \<open>The generator: what it yields, and the error it stops with.\<close>

fun emit :: "('a \<Rightarrow> 'b result) \<Rightarrow> 'a list \<Rightarrow> 'b list \<times> error option" where
  "emit f [] = ([], None)"
| "emit f (x # xs) = (case f x of Inl e \<Rightarrow> ([], Some e) | Inr y \<Rightarrow> (let (ys, e) = emit f xs in (y # ys, e)))"

definition row_reader :: "decoder \<Rightarrow> dataset_manifest \<Rightarrow> (string \<times> cells) \<Rightarrow> market_event result" where
  "row_reader decode m = (\<lambda>(digest, row).
     case event_identity m of
       Some who \<Rightarrow> event_envelope decode who row
     | None \<Rightarrow>
         case map_of replay_kinds (dsm_data_type m) of
           None \<Rightarrow> Inl (ValueError ''dataset type has no approved MarketEvent mapping'')
         | Some kind \<Rightarrow> event_of_row m kind digest row)"

definition part_rows :: "dataset_store \<Rightarrow> dataset_manifest \<Rightarrow> dataset_file \<Rightarrow> (string \<times> cells) list result" where
  "part_rows store m part =
     bind (stored_file store (df_relative_path part)) (\<lambda>obj.
     bind (or_raise (so_table obj) invalid_parquet) (\<lambda>pf.
     Inr (map (\<lambda>row. (df_sha256 part, row)) (concat (pf_batches pf (batch_size (event_identity m)))))))"

fun emit_parts :: "decoder \<Rightarrow> dataset_store \<Rightarrow> dataset_manifest \<Rightarrow> dataset_file list \<Rightarrow> market_event list \<times> error option" where
  "emit_parts decode store m [] = ([], None)"
| "emit_parts decode store m (part # parts) =
     (case part_rows store m part of
        Inl e \<Rightarrow> ([], Some e)
      | Inr rows \<Rightarrow>
          case emit (row_reader decode m) rows of
            (es, Some e) \<Rightarrow> (es, Some e)
          | (es, None) \<Rightarrow> (let (more_events, e) = emit_parts decode store m parts in (es @ more_events, e)))"

text \<open>\<open>events\<close>\<close>

definition replay :: "hasher \<Rightarrow> decoder \<Rightarrow> dataset_store \<Rightarrow> string \<Rightarrow> market_event list \<times> error option" where
  "replay sha decode store identity =
     (case load_dataset sha decode store identity of
        Inl e \<Rightarrow> ([], Some e)
      | Inr m \<Rightarrow>
          if map_of replay_kinds (dsm_data_type m) = None \<and> dsm_data_type m \<noteq> ''market_events''
          then ([], Some (ValueError ''dataset type has no approved MarketEvent mapping''))
          else emit_parts decode store m (dsm_files m))"

end
