(* ===== verification/Dataset_Props.thy ===== *)
theory Dataset_Props
  imports Datasets
begin

text \<open>
  What the dataset registry promises: a verified dataset is one pass over all its timestamps, whatever its
  objects and batches; on a regular grid its gaps are exactly the missing instants; a replay yields causal
  events; and what was registered is loaded again.
\<close>

section \<open>One pass over the timestamps\<close>

text \<open>The reference: the gaps between neighbours of one list.\<close>

fun gaps_along :: "int option \<Rightarrow> int list \<Rightarrow> data_gap list result" where
  "gaps_along interval (a # b # ts) =
     bind (gap_between a b interval) (\<lambda>g. bind (gaps_along interval (b # ts)) (\<lambda>gs. Inr (g @ gs)))"
| "gaps_along interval _ = Inr []"

definition row_time :: "string \<Rightarrow> cells \<Rightarrow> int" where
  "row_time column row = (case map_of row column of Some (JInt i) \<Rightarrow> i | _ \<Rightarrow> 0)"

definition table_rows :: "(string \<times> string) option \<Rightarrow> stored_object \<Rightarrow> cells list" where
  "table_rows identity obj = (case so_table obj of None \<Rightarrow> [] | Some pf \<Rightarrow> concat (pf_batches pf (batch_size identity)))"

definition file_rows :: "dataset_store \<Rightarrow> dataset_manifest \<Rightarrow> dataset_file \<Rightarrow> cells list" where
  "file_rows store m part = (case ds_objects store (df_relative_path part) of
     None \<Rightarrow> [] | Some obj \<Rightarrow> table_rows (event_identity m) obj)"

definition part_times :: "dataset_store \<Rightarrow> dataset_manifest \<Rightarrow> dataset_file \<Rightarrow> int list" where
  "part_times store m part = map (row_time (dsm_timestamp_column m)) (file_rows store m part)"

definition stored_times :: "dataset_store \<Rightarrow> dataset_manifest \<Rightarrow> int list" where
  "stored_times store m = concat (map (part_times store m) (dsm_files m))"

lemma result_assoc: "bind (bind m f) g = bind m (\<lambda>x. bind (f x) g)"
  by (cases m) simp_all

lemma gaps_along_append:
  assumes "xs \<noteq> []" and "ys \<noteq> []"
  shows "gaps_along interval (xs @ ys) =
    bind (gaps_along interval xs) (\<lambda>g. bind (gap_between (last xs) (hd ys) interval) (\<lambda>h.
    bind (gaps_along interval ys) (\<lambda>k. Inr (g @ h @ k))))"
  using assms
proof (induction interval xs rule: gaps_along.induct)
  case (1 interval a b ts)
  then show ?case by (cases "gap_between a b interval") (simp_all add: result_assoc)
next
  case "2_2"
  then show ?case by (cases ys) simp_all
qed simp

text \<open>What a scan knows of the timestamps it has seen.\<close>

definition seen_times :: "int option \<Rightarrow> int list \<Rightarrow> scan \<Rightarrow> bool" where
  "seen_times interval ts s \<longleftrightarrow> sc_rows s = int (length ts) \<and> gaps_along interval ts = Inr (sc_gaps s) \<and>
     list_all (\<lambda>t. 0 \<le> t) ts \<and>
     sc_first s = (if ts = [] then None else Some (hd ts)) \<and> sc_previous s = (if ts = [] then None else Some (last ts))"

lemma seen_none [simp]: "seen_times interval [] empty_scan"
  by (simp add: seen_times_def empty_scan_def)

lemma scan_times_seen:
  assumes "scan_times interval ts s = Inr s'" and "seen_times interval xs s"
  shows "seen_times interval (xs @ ts) s'"
  using assms
proof (induction interval ts s arbitrary: xs rule: scan_times.induct)
  case (2 interval current ts s)
  obtain s1 where c: "0 \<le> current"
    and s1: "(case sc_previous s of None \<Rightarrow> Inr (s\<lparr>sc_first := Some current\<rparr>)
      | Some previous \<Rightarrow> bind (gap_between previous current interval) (\<lambda>gs. Inr (s\<lparr>sc_gaps := sc_gaps s @ gs\<rparr>))) = Inr s1"
    and r: "scan_times interval ts (s1\<lparr>sc_previous := Some current, sc_rows := sc_rows s1 + 1\<rparr>) = Inr s'"
    using "2.prems"(1) by (auto simp: bind_eq_Inr raise_if_eq_Inr)
  have "seen_times interval (xs @ [current]) (s1\<lparr>sc_previous := Some current, sc_rows := sc_rows s1 + 1\<rparr>)"
    using s1 c "2.prems"(2)
    by (cases "xs = []") (auto simp: seen_times_def gaps_along_append bind_eq_Inr)
  from "2.IH"[OF _ s1 r this] c show ?case by (simp add: raise_if_def)
qed simp

lemma scan_received_keeps:
  assumes "scan_received ts s = Inr s'" and "seen_times interval xs s"
  shows "seen_times interval xs s'"
  using assms
proof (induction ts s rule: scan_received.induct)
  case (2 t ts s)
  then show ?case by (auto simp: bind_eq_Inr raise_if_eq_Inr seen_times_def)
qed simp

lemma times_of_rows:
  assumes "times_of column rows = Inr ts"
  shows "ts = map (row_time column) rows"
proof -
  have *: "those (map int64 cells) = Some ts \<Longrightarrow> those (map (\<lambda>row. map_of row column) rows) = Some cells \<Longrightarrow>
      ts = map (row_time column) rows" for cells ts
  proof (induction rows arbitrary: cells ts)
    case (Cons row rows)
    then show ?case
      by (auto simp: row_time_def int64_def split: option.splits json.splits if_splits)
  qed simp
  from assms show ?thesis
    by (auto simp: times_of_def column_of_def bind_eq_Inr or_raise_eq_Inr intro: *)
qed

lemma scan_batches_seen:
  assumes "scan_batches decode pf column interval available identity batches s = Inr s'" and "seen_times interval xs s"
  shows "seen_times interval (xs @ map (row_time column) (concat batches)) s'"
  using assms
proof (induction batches arbitrary: s xs)
  case (Cons rows batches)
  obtain s1 where b: "scan_batch decode pf column interval available identity rows s = Inr s1"
    and r: "scan_batches decode pf column interval available identity batches s1 = Inr s'"
    using Cons.prems(1) by (auto simp: bind_eq_Inr)
  obtain ts s0 where t: "times_of column rows = Inr ts" "scan_times interval ts s = Inr s0"
    "s1 = s0 \<or> (\<exists>receipts. scan_received receipts s0 = Inr s1)"
    using b by (auto simp: scan_batch_def bind_eq_Inr split: if_splits)
  have "seen_times interval (xs @ map (row_time column) rows) s1"
    using scan_times_seen[OF t(2) Cons.prems(2)] times_of_rows[OF t(1)] t(3) scan_received_keeps by auto
  from Cons.IH[OF r this] show ?case by simp
qed simp

lemma inspect_seen:
  assumes "inspect decode obj column interval available identity = Inr seen"
  defines "ts \<equiv> map (row_time column) (table_rows identity obj)"
  shows "ts \<noteq> [] \<and> ms_rows seen = int (length ts) \<and> ms_start_ns seen = hd ts \<and> ms_end_ns seen = last ts \<and>
    gaps_along interval ts = Inr (ms_gaps seen) \<and> list_all (\<lambda>t. 0 \<le> t) ts \<and> opt_all (\<lambda>i. 0 < i) interval"
proof -
  obtain pf s where p: "so_table obj = Some pf"
    and s: "scan_batches decode pf column interval available identity (pf_batches pf (batch_size identity)) empty_scan = Inr s"
    and o: "survey_of pf s = Inr seen"
    using assms(1) unfolding inspect_def Let_def bind_eq_Inr or_raise_eq_Inr by blast
  have r: "sc_first s = Some (ms_start_ns seen)" "sc_previous s = Some (ms_end_ns seen)" "ms_rows seen = sc_rows s"
    "ms_gaps seen = sc_gaps s"
    using o by (auto simp: survey_of_def bind_eq_Inr split: option.splits)
  have i: "opt_all (\<lambda>i. 0 < i) interval"
    using assms(1) by (cases interval) (auto simp: inspect_def bind_eq_Inr raise_if_eq_Inr)
  have "seen_times interval ts s" using scan_batches_seen[OF s seen_none] p by (simp add: ts_def table_rows_def)
  then show ?thesis using r i by (auto simp: seen_times_def split: if_splits)
qed

text \<open>Across the parts of a dataset.\<close>

definition walked :: "int option \<Rightarrow> int list \<Rightarrow> progress \<Rightarrow> bool" where
  "walked interval ts p \<longleftrightarrow> pg_rows p = int (length ts) \<and> gaps_along interval ts = Inr (pg_gaps p) \<and>
     list_all (\<lambda>t. 0 \<le> t) ts \<and> pg_end p = (if ts = [] then None else Some (last ts))"

definition part_agrees :: "dataset_store \<Rightarrow> dataset_manifest \<Rightarrow> dataset_file \<Rightarrow> bool" where
  "part_agrees store m part \<longleftrightarrow> part_times store m part \<noteq> [] \<and> df_start_ns part = hd (part_times store m part) \<and>
     df_end_ns part = last (part_times store m part)"

lemma verify_part_walked:
  assumes "verify_part decode store m part p = Inr p'" and "walked (dsm_expected_interval_ns m) ts p"
  shows "walked (dsm_expected_interval_ns m) (ts @ part_times store m part) p' \<and> part_agrees store m part"
proof -
  obtain obj seen between where o: "stored_file store (df_relative_path part) = Inr obj"
    and i: "inspect decode obj (dsm_timestamp_column m) (dsm_expected_interval_ns m) (dsm_availability m) (event_identity m) = Inr seen"
    and e: "ms_start_ns seen = df_start_ns part" "ms_end_ns seen = df_end_ns part"
    and b: "(case pg_end p of None \<Rightarrow> Inr []
           | Some previous \<Rightarrow> gap_between previous (ms_start_ns seen) (dsm_expected_interval_ns m)) = Inr between"
    and p': "pg_rows p' = pg_rows p + ms_rows seen" "pg_gaps p' = pg_gaps p @ between @ ms_gaps seen" "pg_end p' = Some (ms_end_ns seen)"
    using assms(1) by (auto simp: verify_part_def bind_eq_Inr raise_if_eq_Inr)
  have t: "map (row_time (dsm_timestamp_column m)) (table_rows (event_identity m) obj) = part_times store m part"
    using o by (simp add: part_times_def file_rows_def stored_file_def bind_eq_Inr or_raise_eq_Inr raise_if_eq_Inr)
  note s = inspect_seen[OF i, unfolded t]
  then show ?thesis using assms(2) b e p'
    by (cases "ts = []") (auto simp: walked_def part_agrees_def gaps_along_append)
qed

lemma verify_parts_walked:
  assumes "verify_parts decode store m parts p = Inr p'" and "walked (dsm_expected_interval_ns m) ts p"
  shows "walked (dsm_expected_interval_ns m) (ts @ concat (map (part_times store m) parts)) p' \<and> list_all (part_agrees store m) parts"
  using assms
proof (induction parts arbitrary: p ts)
  case (Cons part parts)
  obtain p1 where s: "verify_part decode store m part p = Inr p1" and r: "verify_parts decode store m parts p1 = Inr p'"
    using Cons.prems(1) by (auto simp: bind_eq_Inr)
  from verify_part_walked[OF s Cons.prems(2)] Cons.IH[OF r] show ?case by fastforce
qed simp

lemma verified_walk:
  assumes "verify_dataset sha decode store m = Inr m'"
  shows "m' = m \<and> manifest_identity sha m = dsm_dataset_id m \<and> int (length (stored_times store m)) = dsm_rows m \<and>
    gaps_along (dsm_expected_interval_ns m) (stored_times store m) = Inr (dsm_gaps m) \<and>
    list_all (\<lambda>t. 0 \<le> t) (stored_times store m) \<and> list_all (part_agrees store m) (dsm_files m)"
proof -
  let ?p = "\<lparr>pg_rows = 0, pg_gaps = [], pg_end = None, pg_received = None\<rparr>"
  obtain p where v: "verify_parts decode store m (dsm_files m) ?p = Inr p"
    and r: "pg_rows p = dsm_rows m" "pg_gaps p = dsm_gaps m" "m' = m" "manifest_identity sha m = dsm_dataset_id m"
    using assms by (auto simp: verify_dataset_def bind_eq_Inr raise_if_eq_Inr)
  have "walked (dsm_expected_interval_ns m) [] ?p" by (simp add: walked_def)
  from verify_parts_walked[OF v this] r show ?thesis
    by (simp add: walked_def stored_times_def)
qed

section \<open>Gaps on a regular grid\<close>

lemma gap_between_order: "gap_between a b interval = Inr g \<Longrightarrow> a \<le> b"
  by (simp add: gap_between_def split: if_splits)

lemma gaps_along_sorted: "gaps_along interval ts = Inr gs \<Longrightarrow> sorted ts"
proof (induction interval ts arbitrary: gs rule: gaps_along.induct)
  case (1 interval a b ts)
  then have "a \<le> b" and "sorted (b # ts)" by (auto simp: bind_eq_Inr dest: gap_between_order)
  then show ?case by auto
qed simp_all

lemma gap_between_grid:
  assumes "gap_between a b (Some i) = Inr g" and "0 < i"
  obtains (step) "b = a + i" "g = []"
  | (jump) k x where "1 < k" "b = a + k * i" "g = [x]" "dg_start_ns x = a + i" "dg_end_ns x = b - i" "dg_missing_count x = k - 1"
proof -
  let ?k = "(b - a) div i"
  have k: "b - a = ?k * i" "0 < b - a"
    using assms by (auto simp: gap_between_def Let_def split: if_splits)
  have more: "i < b - a \<longleftrightarrow> 1 < ?k" using mult_less_cancel_right_pos[OF assms(2), of 1 ?k] k(1) by simp
  show ?thesis
  proof (cases "i < b - a")
    case True
    then obtain x where "g = [x]" "dg_start_ns x = a + i" "dg_end_ns x = b - i" "dg_missing_count x = ?k - 1"
      using k(2) assms(1) by (auto simp: gap_between_def Let_def bind_eq_Inr or_raise_eq_Inr checked_Some split: if_splits)
    then show ?thesis using jump[of ?k x] True more k(1) by simp
  next
    case False
    have "0 < ?k" using k assms(2) zero_less_mult_pos2[of ?k i] by simp
    then have "?k = 1" using False more by simp
    then show ?thesis using step False k assms(1) by (auto simp: gap_between_def Let_def split: if_splits)
  qed
qed

definition in_gap :: "data_gap list \<Rightarrow> int \<Rightarrow> bool" where
  "in_gap gs t \<longleftrightarrow> list_ex (\<lambda>g. dg_start_ns g \<le> t \<and> t \<le> dg_end_ns g) gs"

lemma in_gap_simps [simp]: "\<not> in_gap [] t" "in_gap (g # gs) t \<longleftrightarrow> dg_start_ns g \<le> t \<and> t \<le> dg_end_ns g \<or> in_gap gs t"
  by (simp_all add: in_gap_def)

text \<open>From one timestamp to the next: between \<open>a\<close> and \<open>b\<close> the instants of the grid are the gap.\<close>

lemma gap_fills:
  assumes "gap_between a b (Some i) = Inr g" and "0 < i"
  shows "a < b" and "i dvd b - a" and "1 + (\<Sum>x\<leftarrow>g. dg_missing_count x) = (b - a) div i"
    and "i dvd t - a \<Longrightarrow> in_gap g t \<longleftrightarrow> a < t \<and> t < b"
proof -
  have fill: "(a + i \<le> t \<longleftrightarrow> a < t) \<and> (t \<le> b - i \<longleftrightarrow> t < b)" if d: "i dvd t - a" and k: "b = a + k * i" for k
  proof -
    obtain j where t: "t = a + j * i" using d by (auto simp: dvd_def algebra_simps)
    have "t < b \<longleftrightarrow> j < k" "a < t \<longleftrightarrow> 0 < j" using assms(2) by (simp_all add: t k zero_less_mult_iff)
    moreover have "a + i \<le> t \<longleftrightarrow> 1 * i \<le> j * i" "t \<le> b - i \<longleftrightarrow> (j + 1) * i \<le> k * i" by (auto simp: t k algebra_simps)
    ultimately show ?thesis using assms(2) by (simp only: mult_le_cancel_right_pos) linarith
  qed
  from assms show "a < b"
    by (cases rule: gap_between_grid) (simp_all add: zero_less_mult_iff assms(2))
  from assms show "i dvd b - a" by (cases rule: gap_between_grid) simp_all
  from assms show "1 + (\<Sum>x\<leftarrow>g. dg_missing_count x) = (b - a) div i"
    by (cases rule: gap_between_grid) (use assms(2) in simp_all)
  assume d: "i dvd t - a"
  from assms show "in_gap g t \<longleftrightarrow> a < t \<and> t < b"
  proof (cases rule: gap_between_grid)
    case step
    then show ?thesis using fill[OF d, of 1] by auto
  next
    case (jump k x)
    then show ?thesis using fill[OF d jump(2)] by simp
  qed
qed

lemma sorted_le_last: "sorted xs \<Longrightarrow> x \<in> set xs \<Longrightarrow> x \<le> last xs"
  by (induction xs) auto

lemma in_gap_append [simp]: "in_gap (gs @ hs) t \<longleftrightarrow> in_gap gs t \<or> in_gap hs t"
  by (simp add: in_gap_def)

lemma grid_walk:
  assumes "gaps_along (Some i) ts = Inr gs" and "ts \<noteq> []" and "0 < i"
  shows "list_all (\<lambda>t. i dvd t - hd ts) ts \<and> sorted_wrt (<) ts \<and>
    int (length ts) + (\<Sum>g\<leftarrow>gs. dg_missing_count g) = (last ts - hd ts) div i + 1 \<and>
    (\<forall>t. i dvd t - hd ts \<longrightarrow> (in_gap gs t \<longleftrightarrow> hd ts \<le> t \<and> t \<le> last ts \<and> t \<notin> set ts))"
  using assms(1,2)
proof (induction "Some i" ts arbitrary: gs rule: gaps_along.induct)
  case (1 a b ts)
  obtain g hs where g: "gap_between a b (Some i) = Inr g" and h: "gaps_along (Some i) (b # ts) = Inr hs" and gs: "gs = g @ hs"
    using 1(2) by (auto simp: bind_eq_Inr)
  let ?l = "last (b # ts)"
  have IH: "list_all (\<lambda>t. i dvd t - b) (b # ts)" "sorted_wrt (<) (b # ts)"
    "int (length (b # ts)) + (\<Sum>g\<leftarrow>hs. dg_missing_count g) = (?l - b) div i + 1"
    "\<And>t. i dvd t - b \<Longrightarrow> in_gap hs t \<longleftrightarrow> b \<le> t \<and> t \<le> ?l \<and> t \<notin> set (b # ts)"
    using 1(1)[OF g h] by auto
  note f = gap_fills[OF g assms(3)]
  have shift: "i dvd t - a \<longleftrightarrow> i dvd t - b" for t
    using dvd_add_left_iff[OF f(2), of "t - b"] by simp
  have "sorted (b # ts)" using IH(2) unfolding strict_sorted_iff by blast
  then have l: "b \<le> ?l" "\<forall>t \<in> set (b # ts). b \<le> t \<and> t \<le> ?l"
    using sorted_le_last[of "b # ts"] by fastforce+
  have "i dvd ?l - b" using IH(1) by (auto simp: list_all_iff)
  then have "(?l - a) div i = (?l - b) div i + (b - a) div i" using f(2) div_plus_div_distrib_dvd_left[of i "?l - b" "b - a"] by simp
  moreover have "in_gap gs t \<longleftrightarrow> a \<le> t \<and> t \<le> ?l \<and> t \<notin> set (a # b # ts)" if "i dvd t - a" for t
  proof -
    have "in_gap gs t \<longleftrightarrow> (a < t \<and> t < b) \<or> (b \<le> t \<and> t \<le> ?l \<and> t \<notin> set (b # ts))"
      using f(4)[OF that] IH(4)[of t] that shift by (simp add: gs)
    then show ?thesis using f(1) l by (auto simp del: last.simps)
  qed
  moreover have "last (a # b # ts) = ?l" "i dvd a - b" using f(2) by (simp_all add: dvd_diff_commute)
  ultimately show ?case using IH f(1-3) l shift by (auto simp: gs list_all_iff simp del: last.simps)
next
  case "2_2"
  then show ?case using assms(3) by auto
qed simp

section \<open>Verified datasets\<close>

lemma part_ends:
  assumes "list_all (part_agrees store m) parts" and "parts \<noteq> []" and "sorted (concat (map (part_times store m) parts))"
  defines "ts \<equiv> concat (map (part_times store m) parts)"
  shows "ts \<noteq> []" and "Min (set (map df_start_ns parts)) = hd ts" and "Max (set (map df_end_ns parts)) = last ts"
proof -
  obtain p ps where P: "parts = p # ps" using assms(2) by (cases parts) auto
  obtain q qs where Q: "parts = qs @ [q]" using assms(2) by (cases parts rule: rev_cases) auto
  have p: "part_times store m p \<noteq> []" "df_start_ns p = hd (part_times store m p)" and q: "part_times store m q \<noteq> []"
    "df_end_ns q = last (part_times store m q)"
    using assms(1) by (simp_all add: P, simp_all add: Q P[symmetric] part_agrees_def)
  show n: "ts \<noteq> []" using p(1) by (simp add: ts_def P)
  have h: "hd ts = df_start_ns p" using p by (simp add: ts_def P)
  have l: "last ts = df_end_ns q" using q by (simp add: ts_def Q)
  have mem: "df_start_ns r \<in> set ts \<and> df_end_ns r \<in> set ts" if "r \<in> set parts" for r
    using assms(1) that by (force simp: list_all_iff part_agrees_def ts_def)
  have lo: "hd ts \<le> t" "t \<le> last ts" if "t \<in> set ts" for t
    using assms(3) that n sorted_le_last[of ts t] by (cases ts; force simp: ts_def[symmetric])+
  show "Min (set (map df_start_ns parts)) = hd ts" unfolding h
    by (rule Min_eqI) (use mem lo h P in auto)
  show "Max (set (map df_end_ns parts)) = last ts" unfolding l
    by (rule Max_eqI) (use mem lo l Q in auto)
qed

text \<open>
  C13: verification is one pass over the data.  When \<open>verify\<close> accepts a manifest, its gaps and its number of
  rows are those the reference finds in the single list of all stored timestamps, in order and not
  negative, however the rows are split into objects and batches; and the manifest is the one of its
  identity.
\<close>

theorem verification_is_one_pass:
  assumes "verify_dataset sha decode store m = Inr m'"
  shows "m' = m \<and> manifest_identity sha m = dsm_dataset_id m \<and>
    gaps_along (dsm_expected_interval_ns m) (stored_times store m) = Inr (dsm_gaps m) \<and>
    int (length (stored_times store m)) = dsm_rows m \<and> sorted (stored_times store m) \<and>
    list_all (\<lambda>t. 0 \<le> t) (stored_times store m)"
  using verified_walk[OF assms] gaps_along_sorted by blast

text \<open>
  C12: the gaps of a verified dataset are exact.  On a regular grid the stored timestamps are strictly
  increasing points of the grid that begin and end where the manifest says; a point between the ends is
  in a listed gap exactly when no row is stored for it; and the rows and the missing counts together
  fill the grid.
\<close>

theorem verified_gaps_are_exact:
  assumes "verify_dataset sha decode store m = Inr m'" and "valid_dataset_manifest m"
    and "dsm_expected_interval_ns m = Some i"
  shows "sorted_wrt (<) (stored_times store m) \<and> list_all (\<lambda>t. i dvd t - dsm_start_ns m) (stored_times store m) \<and>
    hd (stored_times store m) = dsm_start_ns m \<and> last (stored_times store m) = dsm_end_ns m \<and>
    dsm_rows m + (\<Sum>g\<leftarrow>dsm_gaps m. dg_missing_count g) = (dsm_end_ns m - dsm_start_ns m) div i + 1 \<and>
    (\<forall>t. i dvd t - dsm_start_ns m \<longrightarrow>
       (in_gap (dsm_gaps m) t \<longleftrightarrow> dsm_start_ns m \<le> t \<and> t \<le> dsm_end_ns m \<and> t \<notin> set (stored_times store m)))"
proof -
  note w = verified_walk[OF assms(1)]
  have v: "dsm_files m \<noteq> []" "0 < i" "Min (set (map df_start_ns (dsm_files m))) = dsm_start_ns m"
    "Max (set (map df_end_ns (dsm_files m))) = dsm_end_ns m"
    using assms(2,3) by (auto simp: valid_dataset_manifest_def)
  have "sorted (concat (map (part_times store m) (dsm_files m)))"
    using w gaps_along_sorted unfolding stored_times_def by blast
  with w v(1) have e: "stored_times store m \<noteq> []" "dsm_start_ns m = hd (stored_times store m)" "dsm_end_ns m = last (stored_times store m)"
    using part_ends[of store m "dsm_files m"] v(3,4) by (simp_all add: stored_times_def)
  show ?thesis using grid_walk[OF _ e(1) v(2)] w assms(3) unfolding e(2,3) by simp
qed

section \<open>Replay\<close>

text \<open>The yielded events answer the first inputs, one each and in order.\<close>

lemma emit_in_order:
  assumes "emit f xs = (ys, e)"
  shows "list_all2 (\<lambda>x y. f x = Inr y) (take (length ys) xs) ys \<and> length ys \<le> length xs \<and> (e = None \<longrightarrow> length ys = length xs)"
  using assms
proof (induction xs arbitrary: ys)
  case (Cons x xs)
  show ?case
  proof (cases "f x")
    case (Inl err)
    then show ?thesis using Cons.prems by auto
  next
    case (Inr y)
    then obtain zs where z: "emit f xs = (zs, e)" "ys = y # zs" using Cons.prems by (auto split: prod.splits)
    from Cons.IH[OF z(1)] show ?thesis using z(2) Inr by simp
  qed
qed simp

text \<open>A bar with its prices in order, opened before its close.\<close>

definition sound_bar :: "int \<Rightarrow> cells \<Rightarrow> bool" where
  "sound_bar close payload \<longleftrightarrow>
     (\<exists>low opening closing high. map_of payload ''low'' = Some low \<and> map_of payload ''open'' = Some opening \<and>
        map_of payload ''close'' = Some closing \<and> map_of payload ''high'' = Some high \<and>
        (\<exists>lo op cl hi. as_dec low = Some lo \<and> as_dec opening = Some op \<and> as_dec closing = Some cl \<and> as_dec high = Some hi \<and>
           0 < lo \<and> lo \<le> op \<and> lo \<le> cl \<and> op \<le> hi \<and> cl \<le> hi)) \<and>
     (case map_of payload ''open_ts_ns'' of None \<Rightarrow> True | Some v \<Rightarrow> (\<exists>opened. v = JInt opened \<and> 0 \<le> opened \<and> opened < close))"

text \<open>The rows of a dataset in their stored order, each with the hash of its object.\<close>

definition stored_rows :: "dataset_store \<Rightarrow> dataset_manifest \<Rightarrow> (string \<times> cells) list" where
  "stored_rows store m = concat (map (\<lambda>part. map (\<lambda>row. (df_sha256 part, row)) (file_rows store m part)) (dsm_files m))"

definition stamp_in :: "cells \<Rightarrow> string \<Rightarrow> int \<Rightarrow> int" where
  "stamp_in row name dflt = (case map_of row name of Some (JInt i) \<Rightarrow> i | _ \<Rightarrow> dflt)"

text \<open>
  When a row can be observed at the exchange: a bar at its close, which is its own close time if it has one,
  one interval after an opening time, and otherwise its timestamp.
\<close>

definition exchange_time :: "dataset_manifest \<Rightarrow> market_event_type \<Rightarrow> cells \<Rightarrow> int" where
  "exchange_time m kind row =
     (let t = row_time (dsm_timestamp_column m) row in
      if kind \<noteq> E_bar then stamp_in row ''exchange_ts_ns'' t
      else case map_of row ''close_ts_ns'' of
             Some v \<Rightarrow> stamp_in row ''close_ts_ns'' t
           | None \<Rightarrow>
               (case dsm_expected_interval_ns m of
                  Some i \<Rightarrow> if map_of (dsm_provenance m) ''timestamp_semantics'' = Some (JStr ''open'') then t + i else t
                | None \<Rightarrow> t))"

definition price_names :: "string list" where
  "price_names = [''open'', ''high'', ''low'', ''close'', ''price'', ''bid'', ''ask'']"

definition size_names :: "string list" where
  "size_names = [''volume'', ''quantity'', ''size'', ''buy_volume'', ''sell_volume'']"

text \<open>The payload repeats the cells of the row, money as exact decimal text.\<close>

definition carries :: "dataset_manifest \<Rightarrow> cells \<Rightarrow> cells \<Rightarrow> bool" where
  "carries m row payload \<longleftrightarrow>
     (\<forall>k v. map_of row k = Some v \<and> k \<notin> put_aside m \<union> {''open_ts_ns'', ''close_ts_ns''} \<longrightarrow>
        (if k \<in> set price_names \<union> set size_names then \<exists>x. as_dec (money_text v) = Some x \<and> map_of payload k = Some (jdec x)
         else map_of payload k = Some v))"

text \<open>The event of a row of a dataset that stores columns, and the event of a row that stores an event.\<close>

definition dates_row :: "dataset_manifest \<Rightarrow> market_event_type \<Rightarrow> string \<Rightarrow> cells \<Rightarrow> market_event \<Rightarrow> bool" where
  "dates_row m kind digest row e \<longleftrightarrow>
     me_event_type e = kind \<and> me_revision_id e = dsm_revision_id m \<and> me_source_hash e = Some digest \<and>
     me_exchange_ts_ns e = exchange_time m kind row \<and>
     (\<exists>a. me_available_at_ns e = Some a \<and> a = stamp_in row ''available_at_ns'' (me_exchange_ts_ns e) \<and>
        me_received_ts_ns e = stamp_in row ''received_ts_ns'' a \<and> a \<le> me_received_ts_ns e \<and>
        (kind = E_bar \<longrightarrow> me_exchange_ts_ns e \<le> a \<and> sound_bar (me_exchange_ts_ns e) (me_payload e))) \<and>
     me_quality_flags e = (if map_of row ''received_ts_ns'' = None then [''RECONSTRUCTED_RECEIPT''] else []) \<and>
     (dsm_availability m = received \<longrightarrow> map_of row ''received_ts_ns'' \<noteq> None) \<and> carries m row (me_payload e)"

definition repeats_row :: "decoder \<Rightarrow> cells \<Rightarrow> market_event \<Rightarrow> bool" where
  "repeats_row decode row e \<longleftrightarrow>
     (\<exists>text v. map_of row ''event_json'' = Some (JStr text) \<and> decode text = Some v \<and> parse_event v = Some e) \<and>
     cell_equals (JInt (me_received_ts_ns e)) row ''received_ts_ns'' \<and>
     cell_equals (JInt (me_exchange_ts_ns e)) row ''exchange_ts_ns'' \<and>
     cell_equals (JStr (event_type_text (me_event_type e))) row ''event_type'' \<and>
     cell_equals (jopt JInt (me_sequence e)) row ''sequence''"

definition fair_event :: "decoder \<Rightarrow> dataset_manifest \<Rightarrow> string \<times> cells \<Rightarrow> market_event \<Rightarrow> bool" where
  "fair_event decode m = (\<lambda>(digest, row) e.
     valid_market_event e \<and> me_venue e = dsm_venue m \<and> me_instrument e = dsm_instrument m \<and>
     (if event_identity m = None
      then \<exists>kind. map_of replay_kinds (dsm_data_type m) = Some kind \<and> dates_row m kind digest row e
      else repeats_row decode row e))"

lemma stamp_of_eq: "stamp_of v name = Inr t \<Longrightarrow> v = JInt t"
  by (cases v) (auto simp: stamp_of_def or_raise_eq_Inr as_int_def checked_Some)

lemma stamp_or_eq: "stamp_or row name dflt = Inr t \<Longrightarrow> t = stamp_in row name dflt"
  by (auto simp: stamp_or_def stamp_in_def dest: stamp_of_eq split: option.splits)

lemma money_columns_value:
  assumes "money_columns valid msg names payload = Inr p" and "distinct names"
  shows "map_of p k = (if k \<in> set names then map_option (\<lambda>v. jdec (the (as_dec (money_text v)))) (map_of payload k) else map_of payload k) \<and>
    (\<forall>v. k \<in> set names \<and> map_of payload k = Some v \<longrightarrow> as_dec (money_text v) \<noteq> None)"
  using assms
proof (induction names arbitrary: payload)
  case (Cons name names)
  show ?case
  proof (cases "map_of payload name")
    case None
    then show ?thesis using Cons.IH[of payload] Cons.prems by auto
  next
    case (Some v)
    then obtain x where x: "as_dec (money_text v) = Some x" "money_columns valid msg names (AList.update name (jdec x) payload) = Inr p"
      using Cons.prems(1) by (auto simp: bind_eq_Inr or_raise_eq_Inr checked_Some bind_eq_Some_conv)
    from Cons.IH[OF x(2)] Cons.prems(2) Some x(1) show ?thesis by (auto simp: update_conv')
  qed
qed simp

lemma bar_close_time:
  assumes "bar_close m row t payload = Inr (close, p)" and "t = row_time (dsm_timestamp_column m) row"
  shows "close = exchange_time m E_bar row" and "k \<notin> {''open_ts_ns'', ''close_ts_ns''} \<Longrightarrow> map_of p k = map_of payload k"
  using assms
  by (auto simp: bar_close_def exchange_time_def Let_def bind_eq_Inr raise_if_eq_Inr stamp_in_def update_conv' dest: stamp_of_eq
      split: option.splits if_splits bool.splits prod.splits)

lemma bar_check_sound: "bar_check close payload = Inr u \<Longrightarrow> sound_bar close payload"
  by (auto simp: bar_check_def sound_bar_def Let_def bind_eq_Inr raise_if_eq_Inr or_raise_eq_Inr cell_at_def checked_Some
      valid_positive_def bind_eq_Some_conv split: option.splits json.splits)

lemma dated_event_dates:
  assumes "dated_event m kind digest row exchange payload = Inr e" and "exchange = exchange_time m kind row" and "carries m row payload"
  shows "dates_row m kind digest row e \<and> valid_market_event e \<and> me_venue e = dsm_venue m \<and> me_instrument e = dsm_instrument m"
proof -
  obtain available receipt sequence where p: "available \<le> receipt"
    and a: "stamp_or row ''available_at_ns'' exchange = Inr available" "stamp_or row ''received_ts_ns'' available = Inr receipt"
    and b: "(if kind = E_bar then bind (raise_if (available < exchange) (ValueError ''bar is available before its close'')) (\<lambda>_.
                bar_check exchange payload) else Inr ()) = Inr ()"
    and r: "\<not> (dsm_availability m = received \<and> map_of row ''received_ts_ns'' = None)"
    and e: "checked valid_market_event
       \<lparr>me_venue = dsm_venue m, me_instrument = dsm_instrument m, me_event_type = kind, me_exchange_ts_ns = exchange,
        me_received_ts_ns = receipt, me_sequence = sequence, me_payload = payload,
        me_quality_flags = (if map_of row ''received_ts_ns'' = None then [''RECONSTRUCTED_RECEIPT''] else []),
        me_published_at_ns = None, me_available_at_ns = Some available, me_revision_id = dsm_revision_id m,
        me_source_hash = Some digest\<rparr> = Some e"
    using assms(1) unfolding dated_event_def Let_def bind_eq_Inr raise_if_eq_Inr or_raise_eq_Inr not_less by auto
  have bar: "exchange \<le> available \<and> sound_bar exchange payload" if "kind = E_bar"
    using b that bar_check_sound[of exchange payload] by (auto simp: bind_eq_Inr raise_if_eq_Inr)
  show ?thesis using e p r bar assms(2,3) stamp_or_eq[OF a(1)] stamp_or_eq[OF a(2)]
    by (auto simp: dates_row_def checked_Some)
qed

lemma money_name_lists: "distinct price_names" "distinct size_names" "k \<in> set price_names \<Longrightarrow> k \<notin> set size_names"
  by (auto simp: price_names_def size_names_def)

lemma money_carried:
  assumes "money_columns valid_positive msg1 price_names p1 = Inr p2" and "money_columns valid_nonnegative msg2 size_names p2 = Inr p3"
    and "map_of p1 k = Some w"
  shows "if k \<in> set price_names \<union> set size_names then \<exists>x. as_dec (money_text w) = Some x \<and> map_of p3 k = Some (jdec x)
    else map_of p3 k = Some w"
  using money_columns_value[OF assms(1) money_name_lists(1), of k] money_columns_value[OF assms(2) money_name_lists(2), of k] assms(3)
    money_name_lists(3)[of k]
  by (cases "k \<in> set price_names"; cases "k \<in> set size_names") auto

lemma map_of_filter_keys: "k \<notin> A \<Longrightarrow> map_of (filter (\<lambda>(k, v). k \<notin> A) kvs) k = map_of kvs k"
  by (induction kvs) auto

lemma event_of_row_steps:
  assumes "event_of_row m kind digest row = Inr e"
  obtains v t exchanged exchange p1 p2 p3 where "map_of row (dsm_timestamp_column m) = Some v" "stamp_of v (dsm_timestamp_column m) = Inr t"
    and "stamp_or row ''exchange_ts_ns'' t = Inr exchanged"
    and "(if kind = E_bar then bar_close m row t (filter (\<lambda>(k, v). k \<notin> put_aside m) row)
          else Inr (exchanged, filter (\<lambda>(k, v). k \<notin> put_aside m) row)) = Inr (exchange, p1)"
    and "money_columns valid_positive ''invalid positive financial column: '' price_names p1 = Inr p2"
    and "money_columns valid_nonnegative ''invalid nonnegative financial column: '' size_names p2 = Inr p3"
    and "dated_event m kind digest row exchange p3 = Inr e"
  using assms unfolding event_of_row_def Let_def price_names_def[symmetric] size_names_def[symmetric] bind_eq_Inr cell_at_def or_raise_eq_Inr
    split_paired_Ex prod.case by blast

lemma event_of_row_dates:
  assumes "event_of_row m kind digest row = Inr e"
  shows "dates_row m kind digest row e \<and> valid_market_event e \<and> me_venue e = dsm_venue m \<and> me_instrument e = dsm_instrument m"
proof -
  let ?payload = "filter (\<lambda>(k, v). k \<notin> put_aside m) row"
  from assms obtain v t exchanged exchange p1 p2 p3 where t: "map_of row (dsm_timestamp_column m) = Some v" "stamp_of v (dsm_timestamp_column m) = Inr t"
    and x: "stamp_or row ''exchange_ts_ns'' t = Inr exchanged"
    and c: "(if kind = E_bar then bar_close m row t ?payload else Inr (exchanged, ?payload)) = Inr (exchange, p1)"
    and m2: "money_columns valid_positive ''invalid positive financial column: '' price_names p1 = Inr p2"
    and m3: "money_columns valid_nonnegative ''invalid nonnegative financial column: '' size_names p2 = Inr p3"
    and e: "dated_event m kind digest row exchange p3 = Inr e"
    by (rule event_of_row_steps)
  have time: "t = row_time (dsm_timestamp_column m) row" using stamp_of_eq[OF t(2)] t(1) by (simp add: row_time_def)
  have x1: "exchange = exchange_time m kind row"
  proof (cases "kind = E_bar")
    case True
    then show ?thesis using c bar_close_time(1)[OF _ time] by simp
  next
    case False
    then show ?thesis using c stamp_or_eq[OF x] time by (simp add: exchange_time_def Let_def)
  qed
  have kept: "map_of p1 k = map_of row k" if "k \<notin> put_aside m \<union> {''open_ts_ns'', ''close_ts_ns''}" for k
  proof (cases "kind = E_bar")
    case True
    then have "map_of p1 k = map_of ?payload k" using c bar_close_time(2)[OF _ time, of ?payload exchange p1 k] that by simp
    then show ?thesis using map_of_filter_keys[of k "put_aside m" row] that by simp
  next
    case False
    then show ?thesis using c map_of_filter_keys[of k "put_aside m" row] that by simp
  qed
  have "carries m row p3" unfolding carries_def
  proof (intro allI impI, elim conjE)
    fix k w assume w: "map_of row k = Some w" "k \<notin> put_aside m \<union> {''open_ts_ns'', ''close_ts_ns''}"
    from kept[OF w(2)] w(1) show "if k \<in> set price_names \<union> set size_names
        then \<exists>x. as_dec (money_text w) = Some x \<and> map_of p3 k = Some (jdec x) else map_of p3 k = Some w"
      by (intro money_carried[OF m2 m3]) simp
  qed
  from dated_event_dates[OF e x1 this] show ?thesis .
qed

lemma envelope_repeats:
  assumes "event_envelope decode (dsm_venue m, dsm_instrument m) row = Inr e"
  shows "repeats_row decode row e \<and> valid_market_event e \<and> me_venue e = dsm_venue m \<and> me_instrument e = dsm_instrument m"
proof -
  have "valid_market_event e" if "parse_event v = Some e" for v e
    by (rule yields_Some[OF _ that]) (unfold parse_event_def, intro yields_intros)
  moreover have "v = JStr t" if "as_str v = Some t" for v t using that by (cases v) (auto simp: as_str_def)
  ultimately show ?thesis using assms
    by (fastforce simp: event_envelope_def or_raise_eq_Inr bind_eq_Some_conv repeats_row_def split: if_splits)
qed

lemma part_rows_file:
  assumes "part_rows store m part = Inr rows"
  shows "rows = map (\<lambda>row. (df_sha256 part, row)) (file_rows store m part)"
  using assms by (auto simp: part_rows_def stored_file_def file_rows_def table_rows_def bind_eq_Inr or_raise_eq_Inr raise_if_eq_Inr)

lemma reader_fair:
  assumes "row_reader decode m keyed = Inr e"
  shows "fair_event decode m keyed e"
proof (cases "event_identity m")
  case None
  then obtain kind where "map_of replay_kinds (dsm_data_type m) = Some kind" "event_of_row m kind (fst keyed) (snd keyed) = Inr e"
    using assms by (auto simp: row_reader_def split: option.splits prod.splits)
  then show ?thesis using event_of_row_dates[of m kind "fst keyed" "snd keyed" e] None by (auto simp: fair_event_def split: prod.splits)
next
  case (Some who)
  then have "who = (dsm_venue m, dsm_instrument m)" by (simp add: event_identity_def split: if_splits)
  then show ?thesis using assms Some envelope_repeats by (auto simp: row_reader_def fair_event_def split: prod.splits)
qed

lemma emit_fair:
  assumes "emit (row_reader decode m) rows = (es, err)"
  shows "list_all2 (fair_event decode m) (take (length es) rows) es \<and> length es \<le> length rows \<and> (err = None \<longrightarrow> length es = length rows)"
  using emit_in_order[OF assms] list_all2_mono[of "\<lambda>x y. row_reader decode m x = Inr y" _ es "fair_event decode m"] reader_fair by blast

lemma emit_parts_fair:
  assumes "emit_parts decode store m parts = (es, err)"
  shows "list_all2 (fair_event decode m)
      (take (length es) (concat (map (\<lambda>part. map (\<lambda>row. (df_sha256 part, row)) (file_rows store m part)) parts))) es \<and>
    length es \<le> length (concat (map (file_rows store m) parts)) \<and>
    (err = None \<longrightarrow> length es = length (concat (map (file_rows store m) parts)))"
  using assms
proof (induction parts arbitrary: es)
  case (Cons part parts)
  show ?case
  proof (cases "part_rows store m part")
    case (Inr rows)
    obtain xs e where x: "emit (row_reader decode m) rows = (xs, e)" by fastforce
    have rows: "map (\<lambda>row. (df_sha256 part, row)) (file_rows store m part) = rows" "length (file_rows store m part) = length rows"
      using part_rows_file[OF Inr] by simp_all
    note f = emit_fair[OF x]
    show ?thesis
    proof (cases e)
      case None
      obtain ys where y: "emit_parts decode store m parts = (ys, err)" "es = xs @ ys"
        using Cons.prems Inr x None by (auto split: prod.splits)
      from Cons.IH[OF y(1)] f None rows show ?thesis using y(2) by (auto intro!: list_all2_appendI)
    qed (use Cons.prems Inr x f rows in auto)
  qed (use Cons.prems in auto)
qed simp

text \<open>
  C14: a replay cannot show the future.  Whatever a replay yields, to its end or up to an error, its events
  are those of the first stored rows of the verified dataset, one each, in their stored order, and of all
  of them when no error stops it; each is a valid event of the dataset's venue and instrument.  The event
  of a row of columns carries the row's cells (money as exact decimal text), its revision and the hash of
  its object, and its times are the row's: a bar is observed at its close, which is its own close time or
  one interval after its opening time; it is available when the row says so or else when it was
  observed, received when the row says so or else when available, and never received before it is
  available; a bar is not available before its close, its prices are positive and in order and it opened
  before it closed.  A reconstructed receipt time is always flagged, and never occurs in an actual-receipt
  dataset.  The event of a row of a \<open>market_events\<close> dataset is exactly the event stored in the row, and
  agrees with the row's receipt and exchange times, type and sequence; no bar check is made there.
\<close>

theorem replay_is_causal:
  assumes "replay sha decode store identity = (es, err)"
  shows "(load_dataset sha decode store identity = Inl (the err) \<and> es = [] \<and> err \<noteq> None) \<or>
    (\<exists>m. load_dataset sha decode store identity = Inr m \<and> dsm_dataset_id m = identity \<and> int (length es) \<le> dsm_rows m \<and>
       (err = None \<longrightarrow> int (length es) = dsm_rows m) \<and>
       list_all2 (fair_event decode m) (take (length es) (stored_rows store m)) es)"
proof (cases "load_dataset sha decode store identity")
  case (Inl e)
  then show ?thesis using assms by (auto simp: replay_def)
next
  case (Inr m)
  then obtain m' where v: "verify_dataset sha decode store m' = Inr m" "dsm_dataset_id m' = identity"
    by (auto simp: load_dataset_def Let_def bind_eq_Inr raise_if_eq_Inr)
  note w = verified_walk[OF v(1)]
  have count_rows: "length (stored_times store m) = length (concat (map (file_rows store m) (dsm_files m)))"
    by (simp add: stored_times_def part_times_def length_concat comp_def)
  show ?thesis
  proof (cases "map_of replay_kinds (dsm_data_type m) = None \<and> dsm_data_type m \<noteq> ''market_events''")
    case True
    then show ?thesis using assms Inr w v(2) by (auto simp: replay_def)
  next
    case False
    then have "emit_parts decode store m (dsm_files m) = (es, err)" using assms Inr by (auto simp: replay_def)
    note f = emit_parts_fair[OF this]
    have "int (length (concat (map (file_rows store m) (dsm_files m)))) = dsm_rows m" "m' = m"
      using w count_rows by simp_all
    then show ?thesis using f v(2) Inr unfolding stored_rows_def by auto
  qed
qed

section \<open>Registration\<close>

lemma identity_ignores_id [simp]: "manifest_identity sha (m\<lparr>dsm_dataset_id := i\<rparr>) = manifest_identity sha m"
  by (simp add: manifest_identity_def dataset_json_def)

lemma published_object:
  assumes "publish_object obj store = Inr store'"
  shows "\<not> ds_escapes store (object_path (so_sha256 obj)) \<and> ds_escapes store' = ds_escapes store \<and>
    ds_manifests store' = ds_manifests store \<and> ds_objects store \<subseteq>\<^sub>m ds_objects store' \<and>
    (\<exists>existing. ds_objects store' (object_path (so_sha256 obj)) = Some existing \<and>
       (existing = obj \<or> ds_objects store (object_path (so_sha256 obj)) = Some existing))"
  using assms
  by (auto simp: publish_object_def Let_def bind_eq_Inr raise_if_eq_Inr map_le_def split: option.splits)

lemma published_manifest:
  assumes "publish_manifest sha m store = Inr store'"
  shows "\<not> ds_escapes store (manifest_path (dsm_dataset_id m)) \<and> ds_escapes store' = ds_escapes store \<and>
    ds_objects store' = ds_objects store \<and> ds_manifests store \<subseteq>\<^sub>m ds_manifests store' \<and>
    (\<exists>v. ds_manifests store' (manifest_path (dsm_dataset_id m)) = Some v \<and>
       (v = dataset_json m \<or> ds_manifests store (manifest_path (dsm_dataset_id m)) = Some v))"
  using assms
  by (auto simp: publish_manifest_def Let_def bind_eq_Inr raise_if_eq_Inr map_le_def split: option.splits)

lemma registered_manifest_cases:
  assumes "registered_manifest sha decode md obj = Inr m"
  obtains seen part where "inspect decode obj (dsm_timestamp_column m) (dsm_expected_interval_ns m) (dsm_availability m) (event_identity m) = Inr seen"
    and "dsm_files m = [part]" "df_relative_path part = object_path (so_sha256 obj)" "df_sha256 part = so_sha256 obj"
      "df_bytes part = so_bytes obj" "df_rows part = ms_rows seen" "df_start_ns part = ms_start_ns seen" "df_end_ns part = ms_end_ns seen"
    and "dsm_rows m = ms_rows seen" "dsm_gaps m = ms_gaps seen" "dsm_columns m = ms_columns seen" "dsm_arrow_schema m = ms_schema seen"
    and "manifest_identity sha m = dsm_dataset_id m" "valid_dataset_manifest m"
proof -
  obtain seen draft where i: "inspect decode obj (md_timestamp_column md) (md_expected_interval_ns md) (md_availability md)
             (if md_data_type md = ''market_events'' then Some (md_venue md, md_instrument md) else None) = Inr seen"
    and d: "draft_manifest md obj seen = Inr draft"
    and m: "m = draft\<lparr>dsm_dataset_id := manifest_identity sha draft\<rparr>" "valid_dataset_manifest m"
    using assms by (auto simp: registered_manifest_def bind_eq_Inr or_raise_eq_Inr checked_Some)
  have "manifest_identity sha m = dsm_dataset_id m" by (simp add: m(1))
  moreover have "event_identity m = (if md_data_type md = ''market_events'' then Some (md_venue md, md_instrument md) else None)"
    "dsm_timestamp_column m = md_timestamp_column md" "dsm_expected_interval_ns m = md_expected_interval_ns md"
    "dsm_availability m = md_availability md" "dsm_rows m = ms_rows seen" "dsm_gaps m = ms_gaps seen"
    "dsm_columns m = ms_columns seen" "dsm_arrow_schema m = ms_schema seen"
    "dsm_files m = [\<lparr>df_relative_path = object_path (so_sha256 obj), df_sha256 = so_sha256 obj, df_bytes = so_bytes obj,
       df_rows = ms_rows seen, df_start_ns = ms_start_ns seen, df_end_ns = ms_end_ns seen\<rparr>]"
    using d by (auto simp: m(1) draft_manifest_def bind_eq_Inr or_raise_eq_Inr checked_Some event_identity_def)
  ultimately show ?thesis using i m(2) that[of seen "hd (dsm_files m)"] by simp
qed

text \<open>
  C15: what was registered is loaded again.  When \<open>register\<close> returns a manifest, loading its identity
  verifies the stored bytes and gives back that very manifest, provided that an object or a manifest
  already stored under the same content address is the same content; and no stored object or manifest
  is changed.
\<close>

theorem registered_datasets_load:
  assumes "register_dataset sha decode md obj store = (Inr m, store')"
    and "ds_objects store (object_path (so_sha256 obj)) \<in> {None, Some obj}"
    and "ds_manifests store (manifest_path (dsm_dataset_id m)) \<in> {None, Some (dataset_json m)}"
  shows "load_dataset sha decode store' (dsm_dataset_id m) = Inr m \<and> valid_dataset_manifest m \<and>
    ds_objects store \<subseteq>\<^sub>m ds_objects store' \<and> ds_manifests store \<subseteq>\<^sub>m ds_manifests store'"
proof -
  obtain store1 where r: "registered_manifest sha decode md obj = Inr m" and o: "publish_object obj store = Inr store1"
    and p: "publish_manifest sha m store1 = Inr store'"
    using assms(1) by (auto simp: register_dataset_def split: sum.splits)
  note o = published_object[OF o] and p = published_manifest[OF p]
  have s: "stored_file store' (object_path (so_sha256 obj)) = Inr obj"
    using o p assms(2) by (auto simp: stored_file_def raise_if_def or_raise_def)
  have d: "ds_manifests store' (manifest_path (dsm_dataset_id m)) = Some (dataset_json m)" "\<not> ds_escapes store' (manifest_path (dsm_dataset_id m))"
    using o p assms(3) by auto
  from r show ?thesis
  proof (cases rule: registered_manifest_cases)
    case (1 seen part)
    then have "verify_dataset sha decode store' m = Inr m" using s
      by (auto simp: verify_dataset_def verify_part_def raise_if_def split: option.splits)
    moreover have "valid_sha256 (dsm_dataset_id m)" using 1 by (simp add: valid_dataset_manifest_def)
    ultimately show ?thesis using d parse_dataset_json 1 o p
      by (auto simp: load_dataset_def Let_def raise_if_def or_raise_def)
  qed
qed

section \<open>A worked example\<close>

text \<open>Minute bars stamped at their open; the bar of instant 180 is missing.\<close>

definition plain_sha :: hasher where
  "plain_sha s = hash_of 9"

definition no_text :: decoder where
  "no_text s = None"

definition minute_bar :: "int \<Rightarrow> cells" where
  "minute_bar t = [(''ts'', JInt t), (''open'', JStr ''10''), (''high'', JStr ''12.5''), (''low'', JStr ''9''),
     (''close'', JStr ''11''), (''volume'', JInt 5)]"

definition minute_table :: parquet_file where
  "minute_table = \<lparr>pf_columns = [(''ts'', arrow_integer), (''open'', arrow_other), (''high'', arrow_other), (''low'', arrow_other),
     (''close'', arrow_other), (''volume'', arrow_integer)], pf_schema = ''minutes'',
     pf_batches = (\<lambda>_. [[minute_bar 60, minute_bar 120], [minute_bar 240]])\<rparr>"

definition minute_object :: stored_object where
  "minute_object = \<lparr>so_bytes = 100, so_sha256 = hash_of 4, so_table = Some minute_table\<rparr>"

definition minute_metadata :: metadata where
  "minute_metadata = \<lparr>md_venue = ''sim'', md_instrument = ''BTCUSDT'', md_data_type = ''bars'', md_timestamp_column = ''ts'',
     md_rights = ''fixture'', md_provenance = [(''timestamp_semantics'', JStr ''open'')], md_revision_id = ''initial'',
     md_availability = reconstructed_available, md_expected_interval_ns = Some 60\<rparr>"

definition no_datasets :: dataset_store where
  "no_datasets = \<lparr>ds_escapes = (\<lambda>_. False), ds_objects = Map.empty, ds_manifests = Map.empty\<rparr>"

definition minute_gap :: data_gap where
  "minute_gap = \<lparr>dg_start_ns = 180, dg_end_ns = 180, dg_missing_count = 1, dg_reason = ''missing_expected_timestamp''\<rparr>"

definition minute_manifest :: dataset_manifest where
  "minute_manifest = \<lparr>dsm_dataset_id = hash_of 9, dsm_files = [\<lparr>df_relative_path = object_path (hash_of 4), df_sha256 = hash_of 4,
       df_bytes = 100, df_rows = 3, df_start_ns = 60, df_end_ns = 240\<rparr>],
     dsm_venue = ''sim'', dsm_instrument = ''BTCUSDT'', dsm_data_type = ''bars'', dsm_timestamp_column = ''ts'', dsm_rows = 3,
     dsm_start_ns = 60, dsm_end_ns = 240, dsm_expected_interval_ns = Some 60, dsm_gaps = [minute_gap],
     dsm_revision_id = ''initial'', dsm_availability = reconstructed_available, dsm_rights = ''fixture'',
     dsm_provenance = [(''timestamp_semantics'', JStr ''open'')],
     dsm_columns = [''ts'', ''open'', ''high'', ''low'', ''close'', ''volume''], dsm_arrow_schema = ''minutes''\<rparr>"

definition minute_store :: dataset_store where
  "minute_store = \<lparr>ds_escapes = (\<lambda>_. False), ds_objects = [object_path (hash_of 4) \<mapsto> minute_object],
     ds_manifests = [manifest_path (hash_of 9) \<mapsto> dataset_json minute_manifest]\<rparr>"

lemma minutes_valid: "valid_dataset_manifest minute_manifest" "valid_dataset_manifest (minute_manifest\<lparr>dsm_dataset_id := replicate 64 (CHR ''0'')\<rparr>)"
  "valid_data_gap minute_gap"
  by code_simp+

lemma minutes_inspected:
  "inspect no_text minute_object ''ts'' (Some 60) reconstructed_available None =
     Inr \<lparr>ms_rows = 3, ms_start_ns = 60, ms_end_ns = 240, ms_gaps = [minute_gap],
       ms_columns = [''ts'', ''open'', ''high'', ''low'', ''close'', ''volume''], ms_schema = ''minutes'',
       ms_received_start = None, ms_received_end = None\<rparr>"
  using minutes_valid(3)
  by (simp add: inspect_def minute_object_def minute_table_def minute_bar_def raise_if_def or_raise_def scan_batch_def times_of_def
      column_of_def int64_def empty_scan_def gap_between_def checked_def minute_gap_def floats_finite_def survey_of_def batch_size_def
      Let_def)

lemma minutes_identity [simp]: "manifest_identity plain_sha m = hash_of 9"
  by (simp add: manifest_identity_def dataset_json_def content_hash_def plain_sha_def)

lemma minutes_registered: "register_dataset plain_sha no_text minute_metadata minute_object no_datasets = (Inr minute_manifest, minute_store)"
proof -
  have "valid_dataset_file \<lparr>df_relative_path = object_path (hash_of 4), df_sha256 = hash_of 4,
       df_bytes = 100, df_rows = 3, df_start_ns = 60, df_end_ns = 240\<rparr>"
    using minutes_valid(1) by (simp add: valid_dataset_manifest_def minute_manifest_def)
  moreover have "draft_manifest minute_metadata minute_object seen = Inr (minute_manifest\<lparr>dsm_dataset_id := replicate 64 (CHR ''0'')\<rparr>)"
    if "valid_dataset_file \<lparr>df_relative_path = object_path (hash_of 4), df_sha256 = hash_of 4,
       df_bytes = 100, df_rows = 3, df_start_ns = 60, df_end_ns = 240\<rparr>"
      "seen = \<lparr>ms_rows = 3, ms_start_ns = 60, ms_end_ns = 240, ms_gaps = [minute_gap],
       ms_columns = [''ts'', ''open'', ''high'', ''low'', ''close'', ''volume''], ms_schema = ''minutes'',
       ms_received_start = None, ms_received_end = None\<rparr>" for seen
    using that minutes_valid(2)
    by (simp add: draft_manifest_def or_raise_def checked_def minute_metadata_def minute_object_def minute_manifest_def)
  ultimately have "registered_manifest plain_sha no_text minute_metadata minute_object = Inr minute_manifest"
    using minutes_inspected minutes_valid(1)
    by (simp add: registered_manifest_def minute_metadata_def or_raise_def checked_def)
      (simp add: minute_manifest_def)
  then show ?thesis
    by (simp add: register_dataset_def publish_object_def publish_manifest_def no_datasets_def raise_if_def minute_store_def Let_def)
      (simp add: minute_object_def minute_manifest_def)
qed

lemma minutes_verified: "verify_dataset plain_sha no_text minute_store minute_manifest = Inr minute_manifest"
proof -
  have "inspect no_text minute_object ''ts'' (Some 60) reconstructed_available None =
     Inr \<lparr>ms_rows = 3, ms_start_ns = 60, ms_end_ns = 240, ms_gaps = [minute_gap],
       ms_columns = [''ts'', ''open'', ''high'', ''low'', ''close'', ''volume''], ms_schema = ''minutes'',
       ms_received_start = None, ms_received_end = None\<rparr>" by (rule minutes_inspected)
  then show ?thesis
    by (simp add: verify_dataset_def verify_part_def stored_file_def minute_store_def minute_manifest_def event_identity_def
        raise_if_def or_raise_def minute_object_def)
qed

lemma minutes_loaded: "load_dataset plain_sha no_text minute_store (hash_of 9) = Inr minute_manifest"
proof -
  have "valid_sha256 (hash_of 9)" using minutes_valid(1) by (simp add: valid_dataset_manifest_def minute_manifest_def)
  moreover have "ds_manifests minute_store (manifest_path (hash_of 9)) = Some (dataset_json minute_manifest)"
    "\<not> ds_escapes minute_store (manifest_path (hash_of 9))" "dsm_dataset_id minute_manifest = hash_of 9"
    by (simp_all add: minute_store_def) (simp add: minute_manifest_def)
  ultimately show ?thesis using minutes_verified parse_dataset_json[OF minutes_valid(1)]
    by (simp add: load_dataset_def Let_def raise_if_def or_raise_def)
qed

theorem registered_datasets_load_witness:
  "load_dataset plain_sha no_text minute_store (hash_of 9) = Inr minute_manifest \<and> dsm_rows minute_manifest = 3"
  using registered_datasets_load[OF minutes_registered] by (simp add: no_datasets_def minute_manifest_def)

lemma minute_times: "stored_times minute_store minute_manifest = [60, 120, 240]"
  by (simp add: stored_times_def part_times_def file_rows_def table_rows_def minute_store_def minute_manifest_def minute_object_def
      minute_table_def row_time_def minute_bar_def)

theorem verification_is_one_pass_witness:
  "gaps_along (Some 60) [60, 120, 240] = Inr (dsm_gaps minute_manifest) \<and> dsm_gaps minute_manifest = [minute_gap]"
  using verification_is_one_pass[OF minutes_verified] by (simp add: minute_times) (simp add: minute_manifest_def)

theorem verified_gaps_are_exact_witness:
  "in_gap (dsm_gaps minute_manifest) 180 \<and> \<not> in_gap (dsm_gaps minute_manifest) 120 \<and> \<not> in_gap (dsm_gaps minute_manifest) 300"
proof -
  have i: "dsm_expected_interval_ns minute_manifest = Some 60" "dsm_start_ns minute_manifest = 60" "dsm_end_ns minute_manifest = 240"
    by (simp_all add: minute_manifest_def)
  from verified_gaps_are_exact[OF minutes_verified minutes_valid(1) i(1)] show ?thesis
    unfolding minute_times i(2,3) by simp
qed

lemma bar_numbers:
  "as_dec (JStr ''10'') = Some 10" "as_dec (JStr ''12.5'') = Some (25 / 2)" "as_dec (JStr ''9'') = Some 9" "as_dec (JStr ''11'') = Some 11"
  "valid_positive 10" "valid_positive (25 / 2)" "valid_positive 9" "valid_positive 11" "valid_nonnegative 5"
  "fits_numeric 5" "fits_numeric 10" "fits_numeric (25 / 2)" "fits_numeric 9" "fits_numeric 11"
  by code_simp+

lemma minute_event:
  assumes "0 \<le> t" and "t < 1000"
  shows "\<exists>e. event_of_row minute_manifest E_bar (hash_of 4) (minute_bar t) = Inr e"
proof -
  have m: "dsm_timestamp_column minute_manifest = ''ts''" "dsm_provenance minute_manifest = [(''timestamp_semantics'', JStr ''open'')]"
    "dsm_expected_interval_ns minute_manifest = Some 60" "dsm_availability minute_manifest = reconstructed_available"
    "dsm_venue minute_manifest = ''sim''" "dsm_instrument minute_manifest = ''BTCUSDT''" "dsm_revision_id minute_manifest = ''initial''"
    by (simp_all add: minute_manifest_def)
  have "valid_sha256 (hash_of 4)" using minutes_valid(1) by (simp add: valid_dataset_manifest_def minute_manifest_def valid_dataset_file_def)
  then show ?thesis using assms
    by (simp add: event_of_row_def dated_event_def minute_bar_def m cell_at_def stamp_of_def stamp_or_def or_raise_def raise_if_def checked_def
        as_int_def valid_timestamp_def put_aside_def bar_close_def Let_def bar_numbers bar_check_def as_dec_jdec money_text_def
        valid_market_event_def valid_nonempty_def)
qed

lemma minutes_replayed: "\<exists>es. replay plain_sha no_text minute_store (hash_of 9) = (es, None)"
proof -
  have id: "event_identity minute_manifest = None" "map_of replay_kinds (dsm_data_type minute_manifest) = Some E_bar"
    by (simp_all add: event_identity_def minute_manifest_def replay_kinds_def)
  obtain e1 e2 e3 where e: "event_of_row minute_manifest E_bar (hash_of 4) (minute_bar 60) = Inr e1"
    "event_of_row minute_manifest E_bar (hash_of 4) (minute_bar 120) = Inr e2"
    "event_of_row minute_manifest E_bar (hash_of 4) (minute_bar 240) = Inr e3"
    using minute_event[of 60] minute_event[of 120] minute_event[of 240] by auto
  have rows: "map (part_rows minute_store minute_manifest) (dsm_files minute_manifest) =
      [Inr [(hash_of 4, minute_bar 60), (hash_of 4, minute_bar 120), (hash_of 4, minute_bar 240)]]"
    unfolding part_rows_def id(1)
    by (simp add: stored_file_def minute_store_def minute_manifest_def raise_if_def or_raise_def minute_object_def minute_table_def)
  have "\<exists>es. emit_parts no_text minute_store minute_manifest (dsm_files minute_manifest) = (es, None)"
    using rows by (auto simp: row_reader_def id e)
  then show ?thesis using minutes_loaded id(2) by (auto simp: replay_def)
qed

lemma minute_rows: "stored_rows minute_store minute_manifest = [(hash_of 4, minute_bar 60), (hash_of 4, minute_bar 120), (hash_of 4, minute_bar 240)]"
  by (simp add: stored_rows_def file_rows_def table_rows_def minute_store_def minute_manifest_def minute_object_def minute_table_def)

lemma minute_close: "exchange_time minute_manifest E_bar (minute_bar t) = t + 60"
  by (simp add: exchange_time_def row_time_def minute_bar_def minute_manifest_def)

lemma fair_exchange:
  "fair_event decode m (digest, row) e \<Longrightarrow> event_identity m = None \<Longrightarrow> map_of replay_kinds (dsm_data_type m) = Some kind \<Longrightarrow>
   me_exchange_ts_ns e = exchange_time m kind row"
  by (auto simp: fair_event_def dates_row_def)

text \<open>Three bars stamped at their opening minute are observed one minute later.\<close>

theorem replay_is_causal_witness:
  "\<exists>es. replay plain_sha no_text minute_store (hash_of 9) = (es, None) \<and> map me_exchange_ts_ns es = [120, 180, 300] \<and>
     list_all2 (fair_event no_text minute_manifest) (stored_rows minute_store minute_manifest) es"
proof -
  obtain es where e: "replay plain_sha no_text minute_store (hash_of 9) = (es, None)" using minutes_replayed by blast
  have m: "dsm_rows minute_manifest = 3" "event_identity minute_manifest = None"
      "map_of replay_kinds (dsm_data_type minute_manifest) = Some E_bar"
    by (simp_all add: minute_manifest_def event_identity_def replay_kinds_def)
  obtain m' where "load_dataset plain_sha no_text minute_store (hash_of 9) = Inr m'" "int (length es) = dsm_rows m'"
      "list_all2 (fair_event no_text m') (take (length es) (stored_rows minute_store m')) es"
    using replay_is_causal[OF e] by blast
  moreover from this(1) have "m' = minute_manifest" unfolding minutes_loaded by (rule sum.inject(2)[THEN iffD1, symmetric])
  ultimately have "int (length es) = 3" and
      taken: "list_all2 (fair_event no_text minute_manifest) (take (length es) (stored_rows minute_store minute_manifest)) es"
    by (simp_all only: m(1))
  then have "length es = 3" by simp
  then have "take (length es) (stored_rows minute_store minute_manifest) = stored_rows minute_store minute_manifest"
    unfolding minute_rows by simp
  with taken have fair: "list_all2 (fair_event no_text minute_manifest) (stored_rows minute_store minute_manifest) es"
    by (simp only:)
  then obtain x y z where es: "es = [x, y, z]" and f: "fair_event no_text minute_manifest (hash_of 4, minute_bar 60) x"
    "fair_event no_text minute_manifest (hash_of 4, minute_bar 120) y" "fair_event no_text minute_manifest (hash_of 4, minute_bar 240) z"
    unfolding minute_rows list_all2_Cons1 list_all2_Nil by blast
  have "map me_exchange_ts_ns es = [120, 180, 300]"
    unfolding es list.map fair_exchange[OF f(1) m(2,3)] fair_exchange[OF f(2) m(2,3)] fair_exchange[OF f(3) m(2,3)] minute_close by simp
  then show ?thesis by (intro exI[of _ es] conjI e fair)
qed

end
