(* ===== verification/Experiments.thy ===== *)
theory Experiments
  imports Control Registry Datasets
begin

text \<open>
  Registration of contracts and creation of experiments: \<open>ControlService.register\<close> and
  \<open>create_experiment\<close> of \<open>src/qt/control/service.py\<close>, with the reading and the dump of the contracts they
  need (\<open>StrategyArtifact\<close> and \<open>ExperimentSpecV2\<close> of \<open>src/qt/contracts/models.py\<close>).
  The clocks \<open>clk n\<close> are the successive readings of one call.
\<close>

section \<open>Strategies\<close>

definition strategy_json :: "strategy_artifact \<Rightarrow> json" where
  "strategy_json a = JObj [(''schema_version'', JStr ''2.0''), (''strategy_id'', JStr (sa_strategy_id a)),
     (''version'', JStr (sa_version a)), (''code_hash'', JStr (sa_code_hash a)), (''parameters'', JObj (sa_parameters a)),
     (''feature_dependencies'', JArr (map JStr (sa_feature_dependencies a))), (''instruments'', JArr (map JStr (sa_instruments a))),
     (''signal_interval_ns'', JInt (sa_signal_interval_ns a)), (''signal_ttl_ns'', JInt (sa_signal_ttl_ns a)),
     (''exit_rules'', JObj (sa_exit_rules a)), (''risk_budget'', risk_budget_json (sa_risk_budget a)),
     (''engine_compatibility'', JArr (map JStr (sa_engine_compatibility a)))]"

section \<open>Experiment specifications\<close>

fun split_method_text :: "split_method \<Rightarrow> string" where
  "split_method_text walk_forward = ''walk_forward''"
| "split_method_text holdout = ''holdout''"
| "split_method_text cpcv = ''cpcv''"

definition split_methods :: "(string \<times> split_method) list" where
  "split_methods = map (\<lambda>k. (split_method_text k, k)) [walk_forward, holdout, cpcv]"

fun engine_text :: "engine_name \<Rightarrow> string" where
  "engine_text nautilus = ''nautilus''"
| "engine_text hftbacktest = ''hftbacktest''"
| "engine_text fixture_engine = ''fixture''"

definition engine_names :: "(string \<times> engine_name) list" where
  "engine_names = map (\<lambda>k. (engine_text k, k)) [nautilus, hftbacktest, fixture_engine]"

definition parse_split :: "json \<Rightarrow> split_spec option" where
  "parse_split v =
     (if \<not> admitted [''method'', ''training_start_ns'', ''training_end_ns'', ''validation_end_ns'', ''test_end_ns'', ''folds'',
           ''purge_ns'', ''embargo_ns'', ''label_information_interval'', ''final_holdout''] v then None
      else
        Option.bind (field (as_literal split_methods) v ''method'') (\<lambda>kind.
        Option.bind (field as_int v ''training_start_ns'') (\<lambda>start.
        Option.bind (field as_int v ''training_end_ns'') (\<lambda>training.
        Option.bind (field as_int v ''validation_end_ns'') (\<lambda>validated.
        Option.bind (field as_int v ''test_end_ns'') (\<lambda>tested.
        Option.bind (field_or as_int 1 v ''folds'') (\<lambda>folds.
        Option.bind (field_or as_int 0 v ''purge_ns'') (\<lambda>purge.
        Option.bind (field_or as_int 0 v ''embargo_ns'') (\<lambda>embargo.
        Option.bind (field as_str v ''label_information_interval'') (\<lambda>label.
        Option.bind (field_or as_bool False v ''final_holdout'') (\<lambda>final.
        checked valid_split_spec
          \<lparr>ss_method = kind, ss_training_start_ns = start, ss_training_end_ns = training,
           ss_validation_end_ns = validated, ss_test_end_ns = tested, ss_folds = folds, ss_purge_ns = purge,
           ss_embargo_ns = embargo, ss_label_information_interval = label, ss_final_holdout = final\<rparr>)))))))))))"

definition split_json :: "split_spec \<Rightarrow> json" where
  "split_json s = JObj [(''schema_version'', JStr ''2.0''), (''method'', JStr (split_method_text (ss_method s))),
     (''training_start_ns'', JInt (ss_training_start_ns s)), (''training_end_ns'', JInt (ss_training_end_ns s)),
     (''validation_end_ns'', JInt (ss_validation_end_ns s)), (''test_end_ns'', JInt (ss_test_end_ns s)),
     (''folds'', JInt (ss_folds s)), (''purge_ns'', JInt (ss_purge_ns s)), (''embargo_ns'', JInt (ss_embargo_ns s)),
     (''label_information_interval'', JStr (ss_label_information_interval s)), (''final_holdout'', JBool (ss_final_holdout s))]"

definition parse_cost :: "json \<Rightarrow> cost_model option" where
  "parse_cost v =
     (if \<not> admitted [''version'', ''fee_schedule_hashes'', ''slippage_bps'', ''funding_enabled'', ''borrow_enabled'',
           ''capital_cost_bps_per_day''] v then None
      else
        Option.bind (field as_str v ''version'') (\<lambda>version.
        Option.bind (field (as_list as_str) v ''fee_schedule_hashes'') (\<lambda>fees.
        Option.bind (field as_dec v ''slippage_bps'') (\<lambda>slippage.
        Option.bind (field_or as_bool False v ''funding_enabled'') (\<lambda>funding.
        Option.bind (field_or as_bool False v ''borrow_enabled'') (\<lambda>borrow.
        Option.bind (field_or as_dec 0 v ''capital_cost_bps_per_day'') (\<lambda>capital.
        checked valid_cost_model
          \<lparr>cm_version = version, cm_fee_schedule_hashes = fees, cm_slippage_bps = slippage, cm_funding_enabled = funding,
           cm_borrow_enabled = borrow, cm_capital_cost_bps_per_day = capital\<rparr>)))))))"

definition cost_json :: "cost_model \<Rightarrow> json" where
  "cost_json c = JObj [(''schema_version'', JStr ''2.0''), (''version'', JStr (cm_version c)),
     (''fee_schedule_hashes'', JArr (map JStr (cm_fee_schedule_hashes c))), (''slippage_bps'', jdec (cm_slippage_bps c)),
     (''funding_enabled'', JBool (cm_funding_enabled c)), (''borrow_enabled'', JBool (cm_borrow_enabled c)),
     (''capital_cost_bps_per_day'', jdec (cm_capital_cost_bps_per_day c))]"

definition parse_model_spec :: "json \<Rightarrow> model_spec option" where
  "parse_model_spec v =
     (if \<not> admitted [''name'', ''version'', ''parameters''] v then None
      else
        Option.bind (field as_str v ''name'') (\<lambda>name.
        Option.bind (field as_str v ''version'') (\<lambda>version.
        Option.bind (field_or as_obj [] v ''parameters'') (\<lambda>parameters.
        checked valid_model_spec \<lparr>msp_name = name, msp_version = version, msp_parameters = parameters\<rparr>))))"

definition model_spec_json :: "model_spec \<Rightarrow> json" where
  "model_spec_json m = JObj [(''schema_version'', JStr ''2.0''), (''name'', JStr (msp_name m)), (''version'', JStr (msp_version m)),
     (''parameters'', JObj (msp_parameters m))]"

definition parse_latency :: "json \<Rightarrow> latency_model option" where
  "parse_latency v =
     (if \<not> admitted [''version'', ''feed_ns'', ''decision_ns'', ''submission_ns'', ''exchange_ns'', ''parameters''] v then None
      else
        Option.bind (field as_str v ''version'') (\<lambda>version.
        Option.bind (field as_int v ''feed_ns'') (\<lambda>feed.
        Option.bind (field as_int v ''decision_ns'') (\<lambda>decision.
        Option.bind (field as_int v ''submission_ns'') (\<lambda>submission.
        Option.bind (field as_int v ''exchange_ns'') (\<lambda>exchange.
        Option.bind (field_or as_obj [] v ''parameters'') (\<lambda>parameters.
        checked valid_latency_model
          \<lparr>lm_version = version, lm_feed_ns = feed, lm_decision_ns = decision, lm_submission_ns = submission,
           lm_exchange_ns = exchange, lm_parameters = parameters\<rparr>)))))))"

definition latency_json :: "latency_model \<Rightarrow> json" where
  "latency_json l = JObj [(''schema_version'', JStr ''2.0''), (''version'', JStr (lm_version l)), (''feed_ns'', JInt (lm_feed_ns l)),
     (''decision_ns'', JInt (lm_decision_ns l)), (''submission_ns'', JInt (lm_submission_ns l)),
     (''exchange_ns'', JInt (lm_exchange_ns l)), (''parameters'', JObj (lm_parameters l))]"

definition parse_engine :: "json \<Rightarrow> engine_spec option" where
  "parse_engine v =
     (if \<not> admitted [''name'', ''version'', ''image_digest''] v then None
      else
        Option.bind (field (as_literal engine_names) v ''name'') (\<lambda>name.
        Option.bind (field as_str v ''version'') (\<lambda>version.
        Option.bind (field as_str v ''image_digest'') (\<lambda>image.
        checked valid_engine_spec \<lparr>es_name = name, es_version = version, es_image_digest = image\<rparr>))))"

definition engine_json :: "engine_spec \<Rightarrow> json" where
  "engine_json e = JObj [(''schema_version'', JStr ''2.0''), (''name'', JStr (engine_text (es_name e))),
     (''version'', JStr (es_version e)), (''image_digest'', JStr (es_image_digest e))]"

definition parse_experiment :: "json \<Rightarrow> experiment_spec option" where
  "parse_experiment v =
     (if \<not> admitted [''campaign_id'', ''strategy_version'', ''dataset_ids'', ''instruments'', ''timeframes_ns'',
           ''instrument_spec_hashes'', ''split'', ''cost_model'', ''fill_model'', ''latency_model'', ''benchmarks'', ''seed'',
           ''engine'', ''policy_version''] v then None
      else
        Option.bind (field as_str v ''campaign_id'') (\<lambda>campaign.
        Option.bind (field as_str v ''strategy_version'') (\<lambda>strategy.
        Option.bind (field (as_list as_str) v ''dataset_ids'') (\<lambda>datasets.
        Option.bind (field (as_list as_str) v ''instruments'') (\<lambda>instruments.
        Option.bind (field (as_list as_int) v ''timeframes_ns'') (\<lambda>timeframes.
        Option.bind (field_or (as_list as_str) [] v ''instrument_spec_hashes'') (\<lambda>hashes.
        Option.bind (field parse_split v ''split'') (\<lambda>splits.
        Option.bind (field parse_cost v ''cost_model'') (\<lambda>cost.
        Option.bind (field parse_model_spec v ''fill_model'') (\<lambda>fill.
        Option.bind (field parse_latency v ''latency_model'') (\<lambda>latency.
        Option.bind (field (as_list as_str) v ''benchmarks'') (\<lambda>benchmarks.
        Option.bind (field as_int v ''seed'') (\<lambda>seed.
        Option.bind (field parse_engine v ''engine'') (\<lambda>engine.
        Option.bind (field as_str v ''policy_version'') (\<lambda>policy.
        checked valid_experiment_spec
          \<lparr>xs_campaign_id = campaign, xs_strategy_version = strategy, xs_dataset_ids = datasets, xs_instruments = instruments,
           xs_timeframes_ns = timeframes, xs_instrument_spec_hashes = hashes, xs_split = splits, xs_cost_model = cost,
           xs_fill_model = fill, xs_latency_model = latency, xs_benchmarks = benchmarks, xs_seed = seed, xs_engine = engine,
           xs_policy_version = policy\<rparr>)))))))))))))))"

definition experiment_json :: "experiment_spec \<Rightarrow> json" where
  "experiment_json x = JObj [(''schema_version'', JStr ''2.0''), (''campaign_id'', JStr (xs_campaign_id x)),
     (''strategy_version'', JStr (xs_strategy_version x)), (''dataset_ids'', JArr (map JStr (xs_dataset_ids x))),
     (''instruments'', JArr (map JStr (xs_instruments x))), (''timeframes_ns'', JArr (map JInt (xs_timeframes_ns x))),
     (''instrument_spec_hashes'', JArr (map JStr (xs_instrument_spec_hashes x))), (''split'', split_json (xs_split x)),
     (''cost_model'', cost_json (xs_cost_model x)), (''fill_model'', model_spec_json (xs_fill_model x)),
     (''latency_model'', latency_json (xs_latency_model x)), (''benchmarks'', JArr (map JStr (xs_benchmarks x))),
     (''seed'', JInt (xs_seed x)), (''engine'', engine_json (xs_engine x)), (''policy_version'', JStr (xs_policy_version x))]"

section \<open>What is dumped is read back\<close>

lemma split_method_read_back [reading]: "map_of split_methods (split_method_text k) = Some k"
  by (cases k) (simp_all add: split_methods_def)

lemma engine_read_back [reading]: "map_of engine_names (engine_text e) = Some e"
  by (cases e) (simp_all add: engine_names_def)

lemma parse_strategy_json:
  assumes "valid_strategy_artifact a"
  shows "parse_strategy (strategy_json a) = Some a"
proof -
  have "valid_risk_budget (sa_risk_budget a)" using assms by (simp add: valid_strategy_artifact_def)
  then show ?thesis using assms
    by (cases a) (simp add: parse_strategy_def strategy_json_def reading parse_budget_json checked_Some)
qed

lemma parse_cost_json:
  assumes "valid_cost_model c"
  shows "parse_cost (cost_json c) = Some c"
proof -
  have "fits_numeric (cm_slippage_bps c)" "fits_numeric (cm_capital_cost_bps_per_day c)"
    using assms by (simp_all add: valid_cost_model_def valid_nonnegative_def)
  then show ?thesis using assms by (cases c) (simp add: parse_cost_def cost_json_def reading checked_Some)
qed

lemma experiment_parts_json:
  "valid_split_spec s \<Longrightarrow> parse_split (split_json s) = Some s"
  "valid_model_spec m \<Longrightarrow> parse_model_spec (model_spec_json m) = Some m"
  "valid_latency_model l \<Longrightarrow> parse_latency (latency_json l) = Some l"
  "valid_engine_spec e \<Longrightarrow> parse_engine (engine_json e) = Some e"
  by (cases s, simp add: parse_split_def split_json_def reading checked_Some)
    (cases m, simp add: parse_model_spec_def model_spec_json_def reading checked_Some,
     cases l, simp add: parse_latency_def latency_json_def reading checked_Some,
     cases e, simp add: parse_engine_def engine_json_def reading checked_Some)

lemma parse_experiment_json:
  assumes "valid_experiment_spec x"
  shows "parse_experiment (experiment_json x) = Some x"
  using assms
  by (cases x) (simp add: parse_experiment_def experiment_json_def reading parse_cost_json experiment_parts_json checked_Some
      valid_experiment_spec_def)

lemma parse_experiment_valid: "parse_experiment v = Some x \<Longrightarrow> valid_experiment_spec x"
  by (rule yields_Some[where r = "parse_experiment v"]) (unfold parse_experiment_def, intro yields_intros)

section \<open>The service\<close>

record experiment_service =
  xv_control :: control
  xv_timeout_seconds :: int
  xv_decode :: decoder
  xv_datasets :: dataset_store

definition open_service :: "control \<Rightarrow> decoder \<Rightarrow> dataset_store \<Rightarrow> int \<Rightarrow> experiment_service result" where
  "open_service c decode store timeout =
     bind (raise_if (\<not> (60 \<le> timeout \<and> timeout \<le> 86400))
             (ValueError ''experiment_timeout_must_be_between_60_and_86400_seconds'')) (\<lambda>_.
     Inr \<lparr>xv_control = c, xv_timeout_seconds = timeout, xv_decode = decode, xv_datasets = store\<rparr>)"

abbreviation xv_sha :: "experiment_service \<Rightarrow> hasher" where
  "xv_sha sv \<equiv> ct_sha (xv_control sv)"

abbreviation xv_tenant :: "experiment_service \<Rightarrow> string" where
  "xv_tenant sv \<equiv> ct_tenant (xv_control sv)"

section \<open>Registering contracts\<close>

definition dumped :: "hasher \<Rightarrow> (json \<Rightarrow> 'a option) \<Rightarrow> ('a \<Rightarrow> json) \<Rightarrow> json \<Rightarrow> string \<Rightarrow> (json \<times> string) result" where
  "dumped sha parse dump payload what =
     bind (or_raise (parse payload) (ValueError what)) (\<lambda>x. Inr (dump x, content_hash sha (dump x)))"

text \<open>The dump of the contract to store, and its identity\<close>

definition registration :: "experiment_service \<Rightarrow> string \<Rightarrow> json \<Rightarrow> (json \<times> string) result" where
  "registration sv kind payload =
     (let sha = xv_sha sv in
      if kind = ''strategy'' then dumped sha parse_strategy strategy_json payload ''StrategyArtifact''
      else if kind = ''instrument'' then dumped sha parse_instrument instrument_json payload ''InstrumentSpec''
      else if kind = ''fees'' then dumped sha parse_fees fees_json payload ''FeeSchedule''
      else if kind = ''dataset'' then
        bind (or_raise (parse_dataset payload) (ValueError ''DatasetManifest'')) (\<lambda>m.
        bind (verify_dataset sha (xv_decode sv) (xv_datasets sv) m) (\<lambda>_. Inr (dataset_json m, dsm_dataset_id m)))
      else Inl (ValueError ''unsupported_registration_kind''))"

definition register_contract_tx :: "experiment_service \<Rightarrow> string \<Rightarrow> json \<Rightarrow> int \<Rightarrow> artifact_row transaction" where
  "register_contract_tx sv kind payload t d =
     bind (registration sv kind payload) (\<lambda>(body, identity).
     put_tx (xv_sha sv) (xv_tenant sv) kind (AJson body) (Some identity) None t d)"

section \<open>Creating experiments\<close>

fun all_pass :: "('a \<Rightarrow> unit result) \<Rightarrow> 'a list \<Rightarrow> unit result" where
  "all_pass f [] = Inr ()"
| "all_pass f (x # xs) = bind (f x) (\<lambda>_. all_pass f xs)"

definition stored :: "experiment_service \<Rightarrow> string \<Rightarrow> db \<Rightarrow> string \<Rightarrow> unit result" where
  "stored sv kind d identity = bind (artifact_document (xv_sha sv) (xv_tenant sv) kind identity d) (\<lambda>_. Inr ())"

text \<open>The last instant the folds of the split reach\<close>

definition last_end :: "split_spec \<Rightarrow> int" where
  "last_end s = ss_test_end_ns s + (ss_folds s - 1) * (ss_test_end_ns s - ss_validation_end_ns s)"

definition usable_dataset :: "experiment_service \<Rightarrow> split_spec \<Rightarrow> registry \<Rightarrow> string \<Rightarrow> unit result" where
  "usable_dataset sv split s dataset =
     bind (artifact_document (xv_sha sv) (xv_tenant sv) ''dataset'' dataset (rg_db s)) (\<lambda>v.
     bind (or_raise (parse_dataset v) (ValueError ''DatasetManifest'')) (\<lambda>m.
     bind (verify_dataset (xv_sha sv) (xv_decode sv) (xv_datasets sv) m) (\<lambda>_.
     guard_development_read (xv_tenant sv) dataset (ss_training_start_ns split) (last_end split + 1) s)))"

definition experiment_check :: "experiment_service \<Rightarrow> json \<Rightarrow> string \<Rightarrow> registry \<Rightarrow> experiment_spec result" where
  "experiment_check sv payload key s =
     bind (or_raise (parse_experiment payload) (ValueError ''ExperimentSpecV2'')) (\<lambda>x.
     bind (raise_if (key = [] \<or> 200 < length key) (ValueError ''invalid_idempotency_key'')) (\<lambda>_.
     bind (artifact_document (xv_sha sv) (xv_tenant sv) ''strategy'' (xs_strategy_version x) (rg_db s)) (\<lambda>strategy.
     bind (list_at strategy ''instruments'') (\<lambda>declared.
     bind (raise_if (\<not> list_all (\<lambda>symbol. JStr symbol \<in> set declared) (xs_instruments x))
             (ValueError ''experiment_instrument_not_in_strategy'')) (\<lambda>_.
     bind (raise_if (length (xs_instrument_spec_hashes x) \<noteq> length (xs_instruments x))
             (ValueError ''explicit_instrument_version_hashes_required'')) (\<lambda>_.
     bind (get_campaign (xv_tenant sv) (xs_campaign_id x) s) (\<lambda>campaign.
     bind (raise_if (xs_dataset_ids x \<noteq> [cp_dataset_id campaign])
             (ValueError ''experiment_dataset_must_match_registered_campaign'')) (\<lambda>_.
     bind (all_pass (stored sv ''instrument'' (rg_db s)) (xs_instrument_spec_hashes x)) (\<lambda>_.
     bind (all_pass (usable_dataset sv (xs_split x) s) (xs_dataset_ids x)) (\<lambda>_.
     bind (all_pass (stored sv ''fees'' (rg_db s)) (cm_fee_schedule_hashes (xs_cost_model x))) (\<lambda>_.
     Inr x)))))))))))"

definition experiment_members :: "experiment_spec \<Rightarrow> (string \<times> json) list" where
  "experiment_members x = (case experiment_json x of JObj kvs \<Rightarrow> kvs | _ \<Rightarrow> [])"

definition experiment_identity :: "hasher \<Rightarrow> experiment_spec \<Rightarrow> string" where
  "experiment_identity sha x = content_hash sha (experiment_json x)"

definition experiment_request :: "hasher \<Rightarrow> experiment_spec \<Rightarrow> json" where
  "experiment_request sha x = JObj [(''experiment_hash'', JStr (experiment_identity sha x))]"

definition requested_job :: "string \<Rightarrow> string \<Rightarrow> db \<Rightarrow> job_row option" where
  "requested_job tenant key d =
     first_where (\<lambda>j. jb_tenant_id j = tenant \<and> jb_kind j = ''experiment'' \<and> jb_idempotency_key j = key) (jobs d)"

definition same_request :: "string \<Rightarrow> string \<Rightarrow> job_row \<Rightarrow> bool" where
  "same_request tenant digest j \<longleftrightarrow> jb_tenant_id j = tenant \<and> jb_kind j = ''experiment'' \<and> jb_sha256 j = digest"

definition earliest_job :: "string \<Rightarrow> string \<Rightarrow> db \<Rightarrow> job_row option" where
  "earliest_job tenant digest d =
     (case sort_key (\<lambda>j. (jb_created_ns j, jb_job_id j)) (select_where (same_request tenant digest) (jobs d)) of
        [] \<Rightarrow> None | j # _ \<Rightarrow> Some j)"

text \<open>The job of the request: the one of this key, the earliest of this experiment, or a new one.\<close>

definition place_job ::
  "experiment_service \<Rightarrow> json \<Rightarrow> string \<Rightarrow> (string \<times> string) option \<Rightarrow> int \<Rightarrow> int \<Rightarrow> job_row option \<Rightarrow> job_row transaction" where
  "place_job sv body key fence deadline t requested d =
     (case (case requested of Some j \<Rightarrow> Some j
            | None \<Rightarrow> earliest_job (xv_tenant sv) (content_hash (xv_sha sv) body) d) of
        Some j \<Rightarrow> Inr (j, d)
      | None \<Rightarrow> enqueue_tx (xv_sha sv) (xv_tenant sv) ''experiment'' body key (Some deadline) fence t d)"

definition queue_experiment ::
  "experiment_service \<Rightarrow> experiment_spec \<Rightarrow> string \<Rightarrow> (string \<times> string) option \<Rightarrow> (nat \<Rightarrow> int) \<Rightarrow> registry \<Rightarrow>
   (job_row \<times> registry) result" where
  "queue_experiment sv x key fence clk s =
     (let sha = xv_sha sv; tenant = xv_tenant sv; identity = experiment_identity sha x; body = experiment_request sha x in
      bind (register_trial sha tenant (xs_campaign_id x) identity (experiment_members x) fence (clk 0) s) (\<lambda>(_, s1).
      bind (put_tx sha tenant ''experiment_spec'' (AJson (experiment_json x)) (Some identity) fence (clk 1) (rg_db s1)) (\<lambda>(_, d1).
      let requested = requested_job tenant key d1 in
      bind (raise_if (case requested of None \<Rightarrow> False | Some j \<Rightarrow> jb_sha256 j \<noteq> content_hash sha body)
              (ConflictError ''idempotency_key_payload_conflict'')) (\<lambda>_.
      bind (put_tx sha tenant ''experiment_request'' (AJson body)
              (Some (content_hash sha (JArr [JStr tenant, JStr ''experiment'', JStr key]))) fence (clk 2) d1) (\<lambda>(_, d2).
      bind (place_job sv body key fence (clk 3 + xv_timeout_seconds sv * 1000000000) (clk 4) requested d2) (\<lambda>(job, d3).
      Inr (job, s1\<lparr>rg_db := d3\<rparr>)))))))"

text \<open>\<open>create_experiment\<close>: one transaction after the checks\<close>

definition create_experiment ::
  "experiment_service \<Rightarrow> json \<Rightarrow> string \<Rightarrow> (string \<times> string) option \<Rightarrow> (nat \<Rightarrow> int) \<Rightarrow> registry \<Rightarrow>
   job_row result \<times> registry" where
  "create_experiment sv payload key fence clk s =
     (case bind (experiment_check sv payload key s) (\<lambda>x. queue_experiment sv x key fence clk s) of
        Inl e \<Rightarrow> (Inl e, s) | Inr (job, s') \<Rightarrow> (Inr job, s'))"

section \<open>Readiness\<close>

record readiness =
  rd_engineering :: "(decision \<times> (string \<times> json) list) list"
  rd_strategy :: "(decision \<times> (string \<times> json) list) list"
  rd_engineering_status :: string
  rd_strategy_status :: string
  rd_live_ready :: bool

fun verdicts :: "hasher \<Rightarrow> string \<Rightarrow> artifact_row list \<Rightarrow> db \<Rightarrow>
    ((decision \<times> (string \<times> json) list) list \<times> (decision \<times> (string \<times> json) list) list) result" where
  "verdicts sha tenant [] d = Inr ([], [])"
| "verdicts sha tenant (r # rows) d =
     bind (validation sha tenant (ar_entity_id r) ''paper'' d) (\<lambda>a.
     bind (validation sha tenant (ar_entity_id r) ''live_canary'' d) (\<lambda>b.
     bind (verdicts sha tenant rows d) (\<lambda>(xs, ys). Inr (a # xs, b # ys))))"

definition readiness_report :: "control \<Rightarrow> db \<Rightarrow> readiness result" where
  "readiness_report c d =
     bind (list_artifacts (ct_tenant c) ''experiment_result'' 100 d) (\<lambda>rows.
     bind (verdicts (ct_sha c) (ct_tenant c) rows d) (\<lambda>(engineering, strategy).
     let live = list_ex (\<lambda>(dec, _). dc_eligible dec) strategy in
     Inr \<lparr>rd_engineering = engineering, rd_strategy = strategy,
          rd_engineering_status = (if list_ex (\<lambda>(dec, _). dc_eligible dec) engineering then ''partial'' else ''unverified''),
          rd_strategy_status = (if live then ''verified'' else ''unverified''), rd_live_ready = live\<rparr>))"

end
