(* ===== verification/Experiment_Props.thy ===== *)
theory Experiment_Props
  imports Experiments Dataset_Props
begin

text \<open>
  What the creation of experiments promises: one job for one frozen experiment, however often and under
  whatever keys it is asked for, on verified data outside every protected holdout window.
\<close>

section \<open>Tables that grow\<close>

lemma first_where_append:
  "first_where P (xs @ ys) = (case first_where P xs of None \<Rightarrow> first_where P ys | Some x \<Rightarrow> Some x)"
  by (induction xs) (auto simp: first_where_def)

lemma document_grows:
  assumes "artifact_document sha tenant kind identity d = Inr v" and "artifacts d' = artifacts d @ rest"
  shows "artifact_document sha tenant kind identity d' = Inr v"
  using assms by (auto simp: artifact_document_def get_artifact_def bind_eq_Inr or_raise_eq_Inr first_where_append)

lemma all_pass_iff: "all_pass f xs = Inr () \<longleftrightarrow> (\<forall>x \<in> set xs. f x = Inr ())"
  by (induction xs) (auto simp: bind_eq_Inr)

definition grown :: "registry \<Rightarrow> registry \<Rightarrow> bool" where
  "grown s s' \<longleftrightarrow> (\<exists>rest. artifacts (rg_db s') = artifacts (rg_db s) @ rest) \<and> rg_campaigns s' = rg_campaigns s"

lemma document_kept: "artifact_document sha tenant kind i (rg_db s) = Inr v \<Longrightarrow> grown s s' \<Longrightarrow>
    artifact_document sha tenant kind i (rg_db s') = Inr v"
  using document_grows unfolding grown_def by blast

lemma stored_grows: "stored sv kind (rg_db s) i = Inr () \<Longrightarrow> grown s s' \<Longrightarrow> stored sv kind (rg_db s') i = Inr ()"
  by (auto simp: stored_def bind_eq_Inr dest: document_kept)

lemma usable_dataset_grows:
  assumes "usable_dataset sv split s i = Inr ()" and "grown s s'"
  shows "usable_dataset sv split s' i = Inr ()"
proof -
  obtain v where v: "artifact_document (xv_sha sv) (xv_tenant sv) ''dataset'' i (rg_db s) = Inr v"
    using assms(1) unfolding usable_dataset_def bind_eq_Inr by blast
  have v': "artifact_document (xv_sha sv) (xv_tenant sv) ''dataset'' i (rg_db s') = Inr v"
    by (rule document_kept[OF v assms(2)])
  have "guard_development_read tenant i lo hi s' = guard_development_read tenant i lo hi s" for tenant lo hi
    using assms(2) by (simp add: guard_development_read_def grown_def)
  then show ?thesis using assms(1) by (simp add: usable_dataset_def v v')
qed

lemma experiment_check_grows:
  assumes "experiment_check sv payload key s = Inr x" and "grown s s'"
  shows "experiment_check sv payload key s' = Inr x"
proof -
  obtain strategy where d: "artifact_document (xv_sha sv) (xv_tenant sv) ''strategy'' (xs_strategy_version x) (rg_db s) = Inr strategy"
    and p: "parse_experiment payload = Some x"
    using assms(1) unfolding experiment_check_def bind_eq_Inr or_raise_eq_Inr by blast
  have d': "artifact_document (xv_sha sv) (xv_tenant sv) ''strategy'' (xs_strategy_version x) (rg_db s') = Inr strategy"
    by (rule document_kept[OF d assms(2)])
  have c: "get_campaign (xv_tenant sv) (xs_campaign_id x) s' = get_campaign (xv_tenant sv) (xs_campaign_id x) s"
    using assms(2) by (simp add: get_campaign_def grown_def)
  from assms(1) obtain declared campaign where o: "key \<noteq> []" "length key \<le> 200" "list_at strategy ''instruments'' = Inr declared"
      "list_all (\<lambda>symbol. JStr symbol \<in> set declared) (xs_instruments x)"
      "length (xs_instrument_spec_hashes x) = length (xs_instruments x)"
      "get_campaign (xv_tenant sv) (xs_campaign_id x) s = Inr campaign" "xs_dataset_ids x = [cp_dataset_id campaign]"
    and q: "all_pass (stored sv ''instrument'' (rg_db s)) (xs_instrument_spec_hashes x) = Inr ()"
      "all_pass (usable_dataset sv (xs_split x) s) (xs_dataset_ids x) = Inr ()"
      "all_pass (stored sv ''fees'' (rg_db s)) (cm_fee_schedule_hashes (xs_cost_model x)) = Inr ()"
    unfolding experiment_check_def bind_eq_Inr or_raise_eq_Inr raise_if_eq_Inr p using d by auto
  have "all_pass (stored sv ''instrument'' (rg_db s')) (xs_instrument_spec_hashes x) = Inr ()"
      "all_pass (usable_dataset sv (xs_split x) s') (xs_dataset_ids x) = Inr ()"
      "all_pass (stored sv ''fees'' (rg_db s')) (cm_fee_schedule_hashes (xs_cost_model x)) = Inr ()"
    using q stored_grows[OF _ assms(2)] usable_dataset_grows[OF _ assms(2)] by (simp_all add: all_pass_iff)
  then show ?thesis using o by (simp add: experiment_check_def p d' c or_raise_def raise_if_def)
qed

section \<open>Doing it again\<close>

lemma put_effect:
  assumes "put_tx sha tenant kind payload (Some identity) fence t d = Inr (row, d')"
  shows "jobs d' = jobs d \<and> (\<exists>rest. artifacts d' = artifacts d @ rest) \<and> row \<in> set (artifacts d') \<and>
    artifact_key tenant kind (if identity = [] then content_hash sha (payload_json payload) else identity) row \<and> ar_sha256 row = content_hash sha (payload_json payload) \<and>
    (\<forall>d'' t' rest. artifacts d'' = artifacts d' @ rest \<longrightarrow>
       put_tx sha tenant kind payload (Some identity) None t' d'' = Inr (row, d''))"
proof -
  let ?id = "if identity = [] then content_hash sha (payload_json payload) else identity"
  let ?new = "\<lambda>t. \<lparr>ar_tenant_id = tenant, ar_kind = kind, ar_entity_id = ?id, ar_payload = payload,
             ar_sha256 = content_hash sha (payload_json payload), ar_created_ns = t\<rparr>"
  have d': "d' = d\<lparr>artifacts := insert_once artifact_clash (?new t) (artifacts d)\<rparr>"
    and row: "first_where (artifact_key tenant kind ?id) (artifacts d') = Some row"
    and h: "ar_sha256 row = content_hash sha (payload_json payload)"
    using assms by (auto simp: put_tx_def Let_def bind_eq_Inr or_raise_eq_Inr raise_if_eq_Inr)
  have k: "row \<in> set (artifacts d')" "artifact_key tenant kind ?id row" using first_where_Some[OF row] by auto
  have again: "put_tx sha tenant kind payload (Some identity) None t' d'' = Inr (row, d'')"
    if "artifacts d'' = artifacts d' @ rest" for d'' t' rest
  proof -
    have "list_ex (artifact_clash (?new t')) (artifacts d'')"
      using k that by (auto simp: list_ex_iff artifact_clash_def artifact_key_def)
    then have "insert_once artifact_clash (?new t') (artifacts d'') = artifacts d''" by (simp add: insert_once_def)
    then show ?thesis using row that h
      by (simp add: put_tx_def Let_def check_fence_def first_where_append or_raise_def raise_if_def)
  qed
  show ?thesis using k h again by (auto simp: d' insert_once_def)
qed

lemma trial_effect:
  assumes "register_trial sha tenant cid tid proposal fence t s = Inr (r, s')"
  shows "rg_campaigns s' = rg_campaigns s \<and> jobs (rg_db s') = jobs (rg_db s) \<and> artifacts (rg_db s') = artifacts (rg_db s) \<and>
    exists_where (trial_at tenant tid) (rg_trials s') \<and>
    (\<forall>s'' t'. rg_campaigns s'' = rg_campaigns s' \<longrightarrow> rg_trials s'' = rg_trials s' \<longrightarrow>
       register_trial sha tenant cid tid proposal None t' s'' = Inr (r, s''))"
proof (cases "first_where (trial_at tenant tid) (rg_trials s)")
  case None
  then have "first_where (trial_at tenant tid) (rg_trials s') = Some r" "rg_campaigns s' = rg_campaigns s"
    "jobs (rg_db s') = jobs (rg_db s) \<and> artifacts (rg_db s') = artifacts (rg_db s)"
    "tr_sha256 r = content_hash sha (JObj [(''campaign_id'', JStr cid), (''proposal'', JObj proposal)])"
    using assms by (auto simp: register_trial_def result_simps Let_def first_where_append trial_at_def first_nothing add_event_def)
  moreover from this(1) have "exists_where (trial_at tenant tid) (rg_trials s')"
    using first_where_Some by (force simp: exists_where_iff)
  ultimately show ?thesis using assms
    by (auto simp: register_trial_def Let_def check_fence_def bind_eq_Inr raise_if_eq_Inr get_campaign_def raise_if_def)
next
  case (Some e)
  then have "s' = s" "r = e" using assms by (auto simp: register_trial_def result_simps Let_def)
  moreover have "exists_where (trial_at tenant tid) (rg_trials s)" using first_where_Some[OF Some] by (auto simp: exists_where_iff)
  ultimately show ?thesis using assms Some
    by (auto simp: register_trial_def Let_def check_fence_def bind_eq_Inr raise_if_eq_Inr get_campaign_def raise_if_def)
qed

lemma earliest_Some:
  assumes "earliest_job tenant digest d = Some j"
  shows "j \<in> set (jobs d) \<and> same_request tenant digest j"
proof -
  obtain js where "sort_key (\<lambda>j. (jb_created_ns j, jb_job_id j)) (select_where (same_request tenant digest) (jobs d)) = j # js"
    using assms by (auto simp: earliest_job_def split: list.splits)
  then have "j \<in> set (select_where (same_request tenant digest) (jobs d))" by (metis list.set_intros(1) set_sort)
  then show ?thesis by (simp add: select_where_def)
qed

lemma earliest_None: "earliest_job tenant digest d = None \<longleftrightarrow> (\<forall>j \<in> set (jobs d). \<not> same_request tenant digest j)"
proof -
  have "earliest_job tenant digest d = None \<longleftrightarrow> select_where (same_request tenant digest) (jobs d) = []"
    by (auto simp: earliest_job_def split: list.splits) (metis length_0_conv length_sort)
  then show ?thesis by (simp add: select_where_def filter_empty_conv)
qed

text \<open>A new job: the row is the last of the table, or its identity is already taken.\<close>

lemma enqueue_again:
  assumes "enqueue_tx sha tenant kind payload key deadline fence t d = Inr (job, d')"
  shows "artifacts d' = artifacts d \<and> job \<in> set (jobs d') \<and> jb_sha256 job = content_hash sha payload \<and>
    (d' = d \<and> (\<forall>deadline' t' d''. jobs d'' = jobs d \<longrightarrow>
        enqueue_tx sha tenant kind payload key deadline' None t' d'' = Inr (job, d'')) \<or>
     jobs d' = jobs d @ [job] \<and> jb_tenant_id job = tenant \<and> jb_kind job = kind \<and> jb_idempotency_key job = key \<and>
     (\<forall>j \<in> set (jobs d). \<not> (jb_tenant_id j = tenant \<and> jb_kind j = kind \<and> jb_idempotency_key j = key)))"
proof -
  let ?id = "content_hash sha (JArr [JStr tenant, JStr kind, JStr key])"
  obtain new where new: "jb_job_id new = ?id" "jb_tenant_id new = tenant" "jb_kind new = kind" "jb_idempotency_key new = key"
    and x: "new = \<lparr>jb_job_id = ?id, jb_tenant_id = tenant, jb_kind = kind, jb_idempotency_key = key,
            jb_payload = payload, jb_sha256 = content_hash sha payload, jb_status = QUEUED, jb_created_ns = t,
            jb_deadline_ns = (case deadline of None \<Rightarrow> t + 900000000000
                              | Some n \<Rightarrow> if n = 0 then t + 900000000000 else n),
            jb_lease_until_ns = 0, jb_lease_token = None, jb_attempts = 0, jb_cancel_requested = False,
            jb_result = None\<rparr>" by simp
  have d': "d' = d\<lparr>jobs := insert_once job_clash new (jobs d)\<rparr>" and f: "first_where (\<lambda>j. jb_job_id j = ?id) (jobs d') = Some job"
    and h: "jb_sha256 job = content_hash sha payload" and k: "key \<noteq> []" "length key \<le> 200"
    using assms unfolding enqueue_tx_def Let_def bind_eq_Inr or_raise_eq_Inr raise_if_eq_Inr x[symmetric] by auto
  show ?thesis
  proof (cases "list_ex (job_clash new) (jobs d)")
    case True
    have e: "d' = d" using True by (simp add: d' insert_once_def)
    have clash: "list_ex (job_clash r) (jobs d)" if "jb_job_id r = ?id" "jb_tenant_id r = tenant" "jb_kind r = kind" "jb_idempotency_key r = key"
      for r using True that new by (auto simp: list_ex_iff job_clash_def)
    have "enqueue_tx sha tenant kind payload key deadline' None t' d'' = Inr (job, d'')" if "jobs d'' = jobs d" for deadline' t' d''
      using f h k that by (simp add: enqueue_tx_def Let_def check_fence_def insert_once_def clash or_raise_def raise_if_def e)
    then show ?thesis using e h first_where_Some[OF f] by auto
  next
    case False
    then have j: "jobs d' = jobs d @ [new]" by (simp add: d' insert_once_def)
    have "first_where (\<lambda>j. jb_job_id j = ?id) (jobs d) = None"
      using False new(1) by (auto simp: first_where_None list_ex_iff job_clash_def)
    then have "job = new" using f by (simp add: j first_where_append first_nothing new)
    then show ?thesis using False new h j by (auto simp: list_ex_iff job_clash_def d')
  qed
qed

lemma place_again:
  assumes "place_job sv body key fence deadline t (requested_job (xv_tenant sv) key d) d = Inr (job, d')"
    and "\<And>j. requested_job (xv_tenant sv) key d = Some j \<Longrightarrow> jb_sha256 j = content_hash (xv_sha sv) body"
  shows "artifacts d' = artifacts d \<and> job \<in> set (jobs d') \<and> jb_sha256 job = content_hash (xv_sha sv) body \<and>
    (jobs d' = jobs d \<or> jobs d' = jobs d @ [job] \<and> (\<forall>j \<in> set (jobs d). \<not> same_request (xv_tenant sv) (jb_sha256 job) j)) \<and>
    (case requested_job (xv_tenant sv) key d' of None \<Rightarrow> True | Some j \<Rightarrow> jb_sha256 j = content_hash (xv_sha sv) body) \<and>
    (\<forall>deadline' t' d''. jobs d'' = jobs d' \<longrightarrow>
       place_job sv body key None deadline' t' (requested_job (xv_tenant sv) key d'') d'' = Inr (job, d''))"
proof (cases "requested_job (xv_tenant sv) key d")
  case (Some j)
  then have "d' = d" "job = j" using assms(1) by (simp_all add: place_job_def)
  moreover have "j \<in> set (jobs d)" using first_where_Some[OF Some[unfolded requested_job_def]] by simp
  ultimately show ?thesis using Some assms(2) by (auto simp: place_job_def requested_job_def)
next
  case None
  note r = this
  show ?thesis
  proof (cases "earliest_job (xv_tenant sv) (content_hash (xv_sha sv) body) d")
    case (Some j)
    then have "d' = d" "job = j" using assms(1) r by (simp_all add: place_job_def)
    then show ?thesis using Some r earliest_Some[OF Some]
      by (auto simp: place_job_def requested_job_def earliest_job_def same_request_def)
  next
    case None
    have e: "enqueue_tx (xv_sha sv) (xv_tenant sv) ''experiment'' body key (Some deadline) fence t d = Inr (job, d')"
      using assms(1) r None by (simp add: place_job_def)
    have fresh: "\<forall>j \<in> set (jobs d). \<not> same_request (xv_tenant sv) (jb_sha256 job) j"
      using None enqueue_again[OF e] by (auto simp: earliest_None)
    from enqueue_again[OF e] show ?thesis
    proof (elim conjE disjE)
      assume "d' = d" and again: "\<forall>deadline' t' d''. jobs d'' = jobs d \<longrightarrow>
        enqueue_tx (xv_sha sv) (xv_tenant sv) ''experiment'' body key deadline' None t' d'' = Inr (job, d'')"
      then show ?thesis using r None enqueue_again[OF e] by (auto simp: place_job_def requested_job_def earliest_job_def)
    next
      assume j: "jobs d' = jobs d @ [job]" and k: "jb_tenant_id job = xv_tenant sv" "jb_kind job = ''experiment''"
        "jb_idempotency_key job = key"
      have "requested_job (xv_tenant sv) key d' = Some job"
        using r k by (simp add: requested_job_def j first_where_append first_nothing)
      then show ?thesis using j fresh enqueue_again[OF e] by (auto simp: place_job_def requested_job_def)
    qed
  qed
qed

lemma queue_again:
  assumes "queue_experiment sv x key fence clk s = Inr (job, s')"
  shows "queue_experiment sv x key None clk' s' = Inr (job, s') \<and> grown s s' \<and>
    exists_where (trial_at (xv_tenant sv) (experiment_identity (xv_sha sv) x)) (rg_trials s') \<and>
    (\<exists>row. row \<in> set (artifacts (rg_db s')) \<and> ar_sha256 row = experiment_identity (xv_sha sv) x \<and>
       artifact_key (xv_tenant sv) ''experiment_spec'' (experiment_identity (xv_sha sv) x) row) \<and>
    job \<in> set (jobs (rg_db s')) \<and> jb_sha256 job = content_hash (xv_sha sv) (experiment_request (xv_sha sv) x) \<and>
    (jobs (rg_db s') = jobs (rg_db s) \<or> jobs (rg_db s') = jobs (rg_db s) @ [job] \<and>
       (\<forall>j \<in> set (jobs (rg_db s)). \<not> same_request (xv_tenant sv) (jb_sha256 job) j))"
proof -
  let ?sha = "xv_sha sv" and ?tn = "xv_tenant sv" and ?id = "experiment_identity (xv_sha sv) x"
    and ?body = "experiment_request (xv_sha sv) x"
  obtain r s1 row d1 row2 d2 d3 where t: "register_trial ?sha ?tn (xs_campaign_id x) ?id (experiment_members x) fence (clk 0) s = Inr (r, s1)"
    and p1: "put_tx ?sha ?tn ''experiment_spec'' (AJson (experiment_json x)) (Some ?id) fence (clk 1) (rg_db s1) = Inr (row, d1)"
    and k: "\<And>j. requested_job ?tn key d1 = Some j \<Longrightarrow> jb_sha256 j = content_hash ?sha ?body"
    and p2: "put_tx ?sha ?tn ''experiment_request'' (AJson ?body)
              (Some (content_hash ?sha (JArr [JStr ?tn, JStr ''experiment'', JStr key]))) fence (clk 2) d1 = Inr (row2, d2)"
    and pl: "place_job sv ?body key fence (clk 3 + xv_timeout_seconds sv * 1000000000) (clk 4) (requested_job ?tn key d1) d2 = Inr (job, d3)"
    and s': "s' = s1\<lparr>rg_db := d3\<rparr>"
    using assms by (auto simp: queue_experiment_def Let_def bind_eq_Inr raise_if_eq_Inr split: prod.splits option.splits)
  note t = trial_effect[OF t] and p1 = put_effect[OF p1] and p2 = put_effect[OF p2]
  have same: "requested_job ?tn key d1 = requested_job ?tn key d2" using p2 by (simp add: requested_job_def)
  have pl: "place_job sv ?body key fence (clk 3 + xv_timeout_seconds sv * 1000000000) (clk 4) (requested_job ?tn key d2) d2 = Inr (job, d3)"
    and k: "\<And>j. requested_job ?tn key d2 = Some j \<Longrightarrow> jb_sha256 j = content_hash ?sha ?body"
    using pl k same by simp_all
  note pl = place_again[OF pl k]
  obtain rest rest1 rest2 where a: "artifacts d1 = artifacts (rg_db s) @ rest1" "artifacts d2 = artifacts d1 @ rest2"
      "artifacts d3 = artifacts d2" "rest = rest1 @ rest2"
    using t p1 p2 pl by auto
  have 1: "register_trial ?sha ?tn (xs_campaign_id x) ?id (experiment_members x) None (clk' 0) s' = Inr (r, s')"
    using t by (simp add: s')
  have 2: "put_tx ?sha ?tn ''experiment_spec'' (AJson (experiment_json x)) (Some ?id) None (clk' 1) d3 = Inr (row, d3)"
    using p1 a by simp
  have 3: "put_tx ?sha ?tn ''experiment_request'' (AJson ?body)
            (Some (content_hash ?sha (JArr [JStr ?tn, JStr ''experiment'', JStr key]))) None (clk' 2) d3 = Inr (row2, d3)"
    using p2 a(3) by simp
  have "queue_experiment sv x key None clk' s' = Inr (job, s')"
    unfolding queue_experiment_def Let_def 1 using 2 3 pl by (auto simp: s' raise_if_def split: option.splits)
  moreover have "grown s s'" using a t by (simp add: grown_def s')
  moreover have "artifact_key ?tn ''experiment_spec'' ?id row \<and> ar_sha256 row = ?id \<and> row \<in> set (artifacts d3)"
    using p1 a by (auto simp: experiment_identity_def split: if_splits)
  moreover have j: "jobs d2 = jobs (rg_db s)" and "exists_where (trial_at ?tn ?id) (rg_trials s1)" using t p1 p2 by simp_all
  moreover have "job \<in> set (jobs d3)" "jb_sha256 job = content_hash ?sha ?body"
    "jobs d3 = jobs (rg_db s) \<or> jobs d3 = jobs (rg_db s) @ [job] \<and> (\<forall>j \<in> set (jobs (rg_db s)). \<not> same_request ?tn (jb_sha256 job) j)"
    using pl unfolding j by blast+
  ultimately show ?thesis by (intro conjI exI[of _ row]) (simp_all add: s' del: disj_not1)
qed

text \<open>
  C11: one job for one experiment.  When \<open>create_experiment\<close> succeeds, the payload is a valid specification
  whose trial is registered and whose frozen text is stored under its own hash; the job asks for exactly
  that hash, and either no job was added, or it is the only one added and no job of the tenant asked for
  this experiment before; every dataset was verified and the whole range of the folds is free of
  protected holdout windows; and asking again with the same key gives the same job and changes nothing,
  at whatever time.
\<close>

theorem experiments_queue_once:
  assumes "create_experiment sv payload key fence clk s = (Inr job, s')"
  shows "\<exists>x row. parse_experiment payload = Some x \<and> valid_experiment_spec x \<and>
    exists_where (trial_at (xv_tenant sv) (experiment_identity (xv_sha sv) x)) (rg_trials s') \<and>
    row \<in> set (artifacts (rg_db s')) \<and> ar_sha256 row = experiment_identity (xv_sha sv) x \<and>
    artifact_key (xv_tenant sv) ''experiment_spec'' (experiment_identity (xv_sha sv) x) row \<and>
    job \<in> set (jobs (rg_db s')) \<and> jb_sha256 job = content_hash (xv_sha sv) (experiment_request (xv_sha sv) x) \<and>
    (jobs (rg_db s') = jobs (rg_db s) \<or> jobs (rg_db s') = jobs (rg_db s) @ [job] \<and>
       (\<forall>j \<in> set (jobs (rg_db s)). \<not> same_request (xv_tenant sv) (jb_sha256 job) j)) \<and>
    (\<forall>i \<in> set (xs_dataset_ids x). usable_dataset sv (xs_split x) s' i = Inr ()) \<and>
    create_experiment sv payload key None clk' s' = (Inr job, s')"
proof -
  obtain x where c: "experiment_check sv payload key s = Inr x" and q: "queue_experiment sv x key fence clk s = Inr (job, s')"
    using assms by (auto simp: create_experiment_def bind_eq_Inr split: sum.splits)
  note q = queue_again[OF q, of clk']
  then have g: "grown s s'" by simp
  have u: "\<forall>i \<in> set (xs_dataset_ids x). usable_dataset sv (xs_split x) s' i = Inr ()"
    and p: "parse_experiment payload = Some x"
    using experiment_check_grows[OF c g] by (auto simp: experiment_check_def bind_eq_Inr or_raise_eq_Inr all_pass_iff)
  have "create_experiment sv payload key None clk' s' = (Inr job, s')"
    using experiment_check_grows[OF c g] q by (simp add: create_experiment_def)
  then show ?thesis using q p parse_experiment_valid[OF p] u by blast
qed

section \<open>A worked example\<close>

definition trial_service :: experiment_service where
  "trial_service = \<lparr>xv_control = releaser\<lparr>ct_sha := plain_sha\<rparr>, xv_timeout_seconds = 600, xv_decode = no_text,
     xv_datasets = minute_store\<rparr>"

definition asked_experiment :: experiment_spec where
  "asked_experiment = \<lparr>xs_campaign_id = ''c'', xs_strategy_version = hash_of 2, xs_dataset_ids = [hash_of 9],
     xs_instruments = [''BTCUSDT''], xs_timeframes_ns = [60], xs_instrument_spec_hashes = [hash_of 9],
     xs_split = \<lparr>ss_method = walk_forward, ss_training_start_ns = 0, ss_training_end_ns = 10, ss_validation_end_ns = 20,
       ss_test_end_ns = 30, ss_folds = 2, ss_purge_ns = 0, ss_embargo_ns = 0, ss_label_information_interval = ''1m'',
       ss_final_holdout = False\<rparr>,
     xs_cost_model = \<lparr>cm_version = ''1'', cm_fee_schedule_hashes = [hash_of 9], cm_slippage_bps = 1, cm_funding_enabled = False,
       cm_borrow_enabled = False, cm_capital_cost_bps_per_day = 0\<rparr>,
     xs_fill_model = \<lparr>msp_name = ''next'', msp_version = ''1'', msp_parameters = []\<rparr>,
     xs_latency_model = \<lparr>lm_version = ''1'', lm_feed_ns = 0, lm_decision_ns = 0, lm_submission_ns = 0, lm_exchange_ns = 0,
       lm_parameters = []\<rparr>,
     xs_benchmarks = [''hold''], xs_seed = 1, xs_engine = \<lparr>es_name = nautilus, es_version = ''1'', es_image_digest = ''d''\<rparr>,
     xs_policy_version = ''qt-production-v1''\<rparr>"

definition trial_store :: registry where
  "trial_store = empty_registry\<lparr>
     rg_db := empty_db\<lparr>artifacts :=
       [stored_row ''strategy'' (hash_of 2) (AJson (JObj [(''instruments'', JArr [JStr ''BTCUSDT''])])),
        stored_row ''instrument'' (hash_of 9) (AJson (JObj [])), stored_row ''fees'' (hash_of 9) (AJson (JObj [])),
        stored_row ''dataset'' (hash_of 9) (AJson (dataset_json minute_manifest))]\<rparr>,
     rg_campaigns := [\<lparr>cp_tenant_id = ''t'', cp_campaign_id = ''c'', cp_dataset_id = hash_of 9, cp_holdout_start_ns = 1000,
       cp_holdout_end_ns = 2000, cp_candidate_limit = 5, cp_payload = JNull, cp_sha256 = hash_of 9, cp_created_ns = 1\<rparr>]\<rparr>"

lemma plain_hash [simp]: "content_hash plain_sha v = hash_of 9"
  by (simp add: content_hash_def plain_sha_def)

lemma hash_nonempty [simp]: "hash_of 9 \<noteq> []"
  by code_simp

lemma asked_valid: "valid_experiment_spec asked_experiment"
  by code_simp

lemma trial_parts [simp]: "ct_sha (xv_control trial_service) = plain_sha" "ct_tenant (xv_control trial_service) = ''t''"
  "xv_decode trial_service = no_text" "xv_datasets trial_service = minute_store"
  by (simp_all add: trial_service_def releaser_def)

lemma trial_documents [simp]:
  "artifact_document plain_sha ''t'' ''strategy'' (hash_of 2) (rg_db trial_store) = Inr (JObj [(''instruments'', JArr [JStr ''BTCUSDT''])])"
  "artifact_document plain_sha ''t'' ''instrument'' (hash_of 9) (rg_db trial_store) = Inr (JObj [])"
  "artifact_document plain_sha ''t'' ''fees'' (hash_of 9) (rg_db trial_store) = Inr (JObj [])"
  "artifact_document plain_sha ''t'' ''dataset'' (hash_of 9) (rg_db trial_store) = Inr (dataset_json minute_manifest)"
  by (simp_all add: artifact_document_def get_artifact_def trial_store_def first_where_def artifact_key_def stored_row_def raise_if_def
      or_raise_def)

lemma asked_checked: "experiment_check trial_service (experiment_json asked_experiment) ''k'' trial_store = Inr asked_experiment"
proof -
  have x: "xs_strategy_version asked_experiment = hash_of 2" "xs_instruments asked_experiment = [''BTCUSDT'']"
    "xs_instrument_spec_hashes asked_experiment = [hash_of 9]" "xs_dataset_ids asked_experiment = [hash_of 9]"
    "xs_campaign_id asked_experiment = ''c''" "cm_fee_schedule_hashes (xs_cost_model asked_experiment) = [hash_of 9]"
    "ss_training_start_ns (xs_split asked_experiment) = 0" "last_end (xs_split asked_experiment) = 40"
    by (simp_all add: asked_experiment_def last_end_def)
  have c: "\<exists>c. get_campaign ''t'' ''c'' trial_store = Inr c \<and> cp_dataset_id c = hash_of 9"
    "guard_development_read ''t'' (hash_of 9) 0 41 trial_store = Inr ()"
    by (simp_all add: get_campaign_def trial_store_def first_nothing campaign_at_def or_raise_def guard_development_read_def raise_if_def
        exists_where_def owns_window_def)
  then have "usable_dataset trial_service (xs_split asked_experiment) trial_store (hash_of 9) = Inr ()"
    by (simp add: usable_dataset_def parse_dataset_json minutes_valid(1) minutes_verified or_raise_def x)
  then show ?thesis using c(1) parse_experiment_json[OF asked_valid]
    by (auto simp: experiment_check_def or_raise_def raise_if_def x list_at_def json_member_def jget_def stored_def)
qed

lemma asked_created: "\<exists>job s'. create_experiment trial_service (experiment_json asked_experiment) ''k'' None (\<lambda>n. int n) trial_store = (Inr job, s')"
proof -
  have "\<exists>job s'. queue_experiment trial_service asked_experiment ''k'' None (\<lambda>n. int n) trial_store = Inr (job, s')"
    by (simp add: queue_experiment_def Let_def register_trial_def check_fence_def get_campaign_def trial_store_def first_nothing
        campaign_at_def or_raise_def raise_if_def exists_where_def empty_registry_def add_event_def empty_db_def select_where_def
        put_tx_def insert_once_def artifact_clash_def artifact_key_def first_where_def stored_row_def requested_job_def place_job_def
        earliest_job_def enqueue_tx_def experiment_members_def experiment_json_def asked_experiment_def experiment_identity_def)
  then show ?thesis using asked_checked by (auto simp: create_experiment_def)
qed

theorem experiments_queue_once_witness:
  "\<exists>job s'. create_experiment trial_service (experiment_json asked_experiment) ''k'' None (\<lambda>n. int n) trial_store = (Inr job, s') \<and>
     create_experiment trial_service (experiment_json asked_experiment) ''k'' None (\<lambda>n. int n + 100) s' = (Inr job, s') \<and>
     job \<in> set (jobs (rg_db s'))"
proof -
  obtain job s' where c: "create_experiment trial_service (experiment_json asked_experiment) ''k'' None (\<lambda>n. int n) trial_store = (Inr job, s')"
    using asked_created by blast
  from experiments_queue_once[OF c, of "\<lambda>n. int n + 100"] c show ?thesis by blast
qed

end
