(* ===== verification/Leases.thy ===== *)
theory Leases
  imports Prelude
begin

text \<open>
  Runtime leases with fencing tokens: \<open>LeaseRepository\<close> of \<open>src/qt/platform/leases.py\<close> and the
  \<open>RuntimeLease\<close> and \<open>LeaseGrant\<close> of \<open>platform/models.py\<close> and \<open>platform/schemas.py\<close>.  Times
  are microseconds, a UUID is a number, \<open>None\<close> of a clock is a naive datetime.  A call works while other
  sessions do: \<open>ln_others k\<close> is what they commit at the \<open>k\<close>-th point of the call where no row is locked
  (before a lookup and, when it found nothing, before the commit of the new row).  Column widths and the
  end of the datetime range are not modelled.
\<close>

section \<open>The table\<close>

record lease_row =
  rl_id :: nat
  rl_resource_type :: string
  rl_resource_id :: string
  rl_owner_id :: string
  rl_fencing_token :: int
  rl_expires_at :: int
  rl_version :: int
  rl_created_at :: int
  rl_updated_at :: int

record lease_grant =
  lg_resource_type :: string
  lg_resource_id :: string
  lg_owner_id :: string
  lg_fencing_token :: int
  lg_expires_at :: int

text \<open>The primary key and \<open>uq_runtime_lease_resource\<close>.\<close>

definition lease_clash :: "lease_row \<Rightarrow> lease_row \<Rightarrow> bool" where
  "lease_clash r s \<longleftrightarrow> rl_id r = rl_id s \<or>
     rl_resource_type r = rl_resource_type s \<and> rl_resource_id r = rl_resource_id s"

text \<open>\<open>_to_grant\<close>\<close>

definition to_grant :: "lease_row \<Rightarrow> lease_grant" where
  "to_grant r = \<lparr>lg_resource_type = rl_resource_type r, lg_resource_id = rl_resource_id r,
     lg_owner_id = rl_owner_id r, lg_fencing_token = rl_fencing_token r, lg_expires_at = rl_expires_at r\<rparr>"

definition timedelta_seconds :: "int \<Rightarrow> int" where
  "timedelta_seconds s = s * 1000000"

text \<open>\<open>_now\<close>: the clock has to return an aware datetime.\<close>

definition aware :: "string \<Rightarrow> int option \<Rightarrow> int result" where
  "aware owner t = or_raise t (ValueError (owner @ '' clock must return an aware datetime''))"

text \<open>\<open>_lock_resource\<close>\<close>

definition lock_resource :: "string \<Rightarrow> string \<Rightarrow> lease_row list \<Rightarrow> lease_row option" where
  "lock_resource ty i rows = first_where (\<lambda>r. rl_resource_type r = ty \<and> rl_resource_id r = i) rows"

text \<open>\<open>_active_owner\<close>\<close>

definition active_owner :: "lease_row option \<Rightarrow> string \<Rightarrow> int \<Rightarrow> int \<Rightarrow> lease_row option" where
  "active_owner lease owner token now =
     (case lease of
        None \<Rightarrow> None
      | Some r \<Rightarrow> if rl_owner_id r = owner \<and> rl_fencing_token r = token \<and> rl_expires_at r > now then Some r else None)"

definition save_lease :: "lease_row \<Rightarrow> lease_row list \<Rightarrow> lease_row list" where
  "save_lease r rows = update_where (\<lambda>x. rl_id x = rl_id r) (\<lambda>_. r) rows"

text \<open>\<open>_require_positive_ttl\<close>\<close>

definition positive_ttl :: "int \<Rightarrow> unit result" where
  "positive_ttl ttl = raise_if (ttl \<le> 0) (ValueError ''ttl_seconds must be positive'')"

section \<open>Acquisition\<close>

record lease_ask =
  lq_resource_type :: string
  lq_resource_id :: string
  lq_owner_id :: string
  lq_ttl_seconds :: int

record lease_world =
  ln_ids :: "nat \<Rightarrow> nat"
  ln_clock :: "nat \<Rightarrow> int option"
  ln_others :: "nat \<Rightarrow> lease_row list \<Rightarrow> lease_row list"

definition new_lease :: "lease_ask \<Rightarrow> nat \<Rightarrow> int \<Rightarrow> lease_row" where
  "new_lease q uuid now = \<lparr>rl_id = uuid, rl_resource_type = lq_resource_type q, rl_resource_id = lq_resource_id q,
     rl_owner_id = lq_owner_id q, rl_fencing_token = 1,
     rl_expires_at = now + timedelta_seconds (lq_ttl_seconds q), rl_version = 1,
     rl_created_at = now, rl_updated_at = now\<rparr>"

text \<open>A lease that has run out changes hands under the next token; an unexpired one only gets longer.\<close>

definition take_lease :: "lease_ask \<Rightarrow> int \<Rightarrow> lease_row \<Rightarrow> lease_row" where
  "take_lease q now r =
     (let r1 = (if rl_expires_at r > now then r
                else r\<lparr>rl_owner_id := lq_owner_id q, rl_fencing_token := rl_fencing_token r + 1\<rparr>) in
      r1\<lparr>rl_expires_at := now + timedelta_seconds (lq_ttl_seconds q), rl_version := rl_version r1 + 1,
         rl_updated_at := now\<rparr>)"

text \<open>
  One round of the loop, at most one commit: \<open>Inl\<close> when another session has created the row first.
\<close>

definition lease_round ::
  "lease_ask \<Rightarrow> nat \<Rightarrow> int \<Rightarrow> (lease_row list \<Rightarrow> lease_row list) \<Rightarrow> lease_row list \<Rightarrow>
     lease_row list + (lease_grant option \<times> lease_row list)" where
  "lease_round q uuid now others rows =
     (case lock_resource (lq_resource_type q) (lq_resource_id q) rows of
        None \<Rightarrow>
          (let lease = new_lease q uuid now in
           case insert_row lease_clash ''runtime_leases'' lease (others rows) of
             Inl _ \<Rightarrow> Inl (others rows)
           | Inr rows' \<Rightarrow> Inr (Some (to_grant lease), rows'))
      | Some r \<Rightarrow>
          if rl_expires_at r > now \<and> rl_owner_id r \<noteq> lq_owner_id q then Inr (None, rows)
          else Inr (Some (to_grant (take_lease q now r)), save_lease (take_lease q now r) rows))"

text \<open>The loop of \<open>acquire\<close> from round \<open>n\<close> on; the clock is read before anything is written.\<close>

partial_function (option) acquire_from ::
  "lease_ask \<Rightarrow> lease_world \<Rightarrow> nat \<Rightarrow> lease_row list \<Rightarrow> (lease_grant option result \<times> lease_row list) option" where
  "acquire_from q w n rows0 =
     (let rows = ln_others w (2 * n) rows0 in
      case aware ''lease repository'' (ln_clock w n) of
        Inl e \<Rightarrow> Some (Inl e, rows)
      | Inr now \<Rightarrow>
          (case lease_round q (ln_ids w n) now (ln_others w (2 * n + 1)) rows of
             Inl rows1 \<Rightarrow> acquire_from q w (Suc n) rows1
           | Inr res \<Rightarrow> Some (Inr (fst res), snd res)))"

definition acquire ::
  "lease_ask \<Rightarrow> lease_world \<Rightarrow> lease_row list \<Rightarrow> (lease_grant option result \<times> lease_row list) option" where
  "acquire q w rows =
     (case positive_ttl (lq_ttl_seconds q) of Inl e \<Rightarrow> Some (Inl e, rows) | Inr _ \<Rightarrow> acquire_from q w 0 rows)"

section \<open>Renewal and release\<close>

definition renew ::
  "string \<Rightarrow> string \<Rightarrow> string \<Rightarrow> int \<Rightarrow> int \<Rightarrow> int option \<Rightarrow> lease_row list \<Rightarrow>
     (lease_grant option \<times> lease_row list) result" where
  "renew ty i owner token ttl clk rows =
     bind (positive_ttl ttl) (\<lambda>_.
     bind (aware ''lease repository'' clk) (\<lambda>now.
     case active_owner (lock_resource ty i rows) owner token now of
       None \<Rightarrow> Inr (None, rows)
     | Some r \<Rightarrow>
         (let r' = r\<lparr>rl_expires_at := now + timedelta_seconds ttl, rl_version := rl_version r + 1, rl_updated_at := now\<rparr> in
          Inr (Some (to_grant r'), save_lease r' rows))))"

definition release_lease ::
  "string \<Rightarrow> string \<Rightarrow> string \<Rightarrow> int \<Rightarrow> int option \<Rightarrow> lease_row list \<Rightarrow> (bool \<times> lease_row list) result" where
  "release_lease ty i owner token clk rows =
     bind (aware ''lease repository'' clk) (\<lambda>now.
     case active_owner (lock_resource ty i rows) owner token now of
       None \<Rightarrow> Inr (False, rows)
     | Some r \<Rightarrow>
         Inr (True, save_lease (r\<lparr>rl_expires_at := now, rl_version := rl_version r + 1, rl_updated_at := now\<rparr>) rows))"

section \<open>Sessions\<close>

text \<open>What one commit of one session does to the table.\<close>

inductive lease_step :: "lease_row list \<Rightarrow> lease_row list \<Rightarrow> bool" where
  created: "insert_row lease_clash name (new_lease q uuid now) rows = Inr rows' \<Longrightarrow> lease_step rows rows'"
| taken: "lock_resource (lq_resource_type q) (lq_resource_id q) rows = Some r \<Longrightarrow>
    \<not> (rl_expires_at r > now \<and> rl_owner_id r \<noteq> lq_owner_id q) \<Longrightarrow>
    lease_step rows (save_lease (take_lease q now r) rows)"
| renewed: "renew ty i owner token ttl clk rows = Inr (g, rows') \<Longrightarrow> lease_step rows rows'"
| released: "release_lease ty i owner token clk rows = Inr (b, rows') \<Longrightarrow> lease_step rows rows'"

text \<open>The other sessions run the same code.\<close>

definition lease_sessions :: "lease_world \<Rightarrow> bool" where
  "lease_sessions w \<longleftrightarrow> (\<forall>n rows. lease_step\<^sup>*\<^sup>* rows (ln_others w n rows))"

definition rl_resource :: "lease_row \<Rightarrow> string \<times> string" where
  "rl_resource r = (rl_resource_type r, rl_resource_id r)"

definition leases_inv :: "lease_row list \<Rightarrow> bool" where
  "leases_inv rows \<longleftrightarrow> distinct (map rl_id rows) \<and> distinct (map rl_resource rows) \<and>
     list_all (\<lambda>r. 1 \<le> rl_fencing_token r \<and> 1 \<le> rl_version r) rows"

text \<open>Rows stay, tokens do not fall, and a token belongs to one owner.\<close>

definition lease_evolves :: "lease_row list \<Rightarrow> lease_row list \<Rightarrow> bool" where
  "lease_evolves rows rows' \<longleftrightarrow>
     (\<forall>r \<in> set rows. \<exists>r' \<in> set rows'. rl_resource r' = rl_resource r \<and>
        rl_fencing_token r \<le> rl_fencing_token r' \<and>
        (rl_fencing_token r' = rl_fencing_token r \<longrightarrow> rl_owner_id r' = rl_owner_id r))"

interpretation lease_ids: keyed_table rl_id lease_clash
  by unfold_locales (simp add: lease_clash_def)

interpretation lease_resources: keyed_table rl_resource lease_clash
  by unfold_locales (simp add: lease_clash_def rl_resource_def)

lemma lock_resource_eq: "lock_resource ty i rows = first_where (\<lambda>r. rl_resource r = (ty, i)) rows"
  by (simp add: lock_resource_def rl_resource_def)

lemma lock_resource_Some:
  "lock_resource ty i rows = Some r \<Longrightarrow> r \<in> set rows \<and> rl_resource r = (ty, i)"
  unfolding lock_resource_eq by (auto dest: first_where_Some)

lemma lock_resource_unique:
  "leases_inv rows \<Longrightarrow> r \<in> set rows \<Longrightarrow> rl_resource r = (ty, i) \<Longrightarrow> lock_resource ty i rows = Some r"
  unfolding lock_resource_eq leases_inv_def using first_where_unique[of rl_resource rows r] by simp

lemma set_save_lease: "set (save_lease r' rows) = (\<lambda>x. if rl_id x = rl_id r' then r' else x) ` set rows"
  by (simp add: save_lease_def set_update_where)

text \<open>A row whose resource stays the same, whose token grows or whose owner stays, may replace its old version.\<close>

definition lease_successor :: "lease_row \<Rightarrow> lease_row \<Rightarrow> bool" where
  "lease_successor r r' \<longleftrightarrow> rl_id r' = rl_id r \<and> rl_resource r' = rl_resource r \<and>
     rl_fencing_token r \<le> rl_fencing_token r' \<and>
     (rl_fencing_token r' = rl_fencing_token r \<longrightarrow> rl_owner_id r' = rl_owner_id r) \<and> rl_version r \<le> rl_version r'"

lemma save_lease_sound:
  assumes inv: "leases_inv rows" and r: "r \<in> set rows" and s: "lease_successor r r'"
  shows "leases_inv (save_lease r' rows)" and "lease_evolves rows (save_lease r' rows)" and "r' \<in> set (save_lease r' rows)"
proof -
  have one: "x = r" if "x \<in> set rows" "rl_id x = rl_id r" for x
    using that inv r unique_row[of rl_id rows x r] by (simp add: leases_inv_def)
  have "map rl_resource (save_lease r' rows) = map rl_resource rows" "map rl_id (save_lease r' rows) = map rl_id rows"
    using s one by (auto simp: save_lease_def update_where_def lease_successor_def)
  moreover have "1 \<le> rl_fencing_token x \<and> 1 \<le> rl_version x" if "x \<in> set (save_lease r' rows)" for x
    using that inv s r by (auto simp: set_save_lease leases_inv_def lease_successor_def list_all_iff split: if_splits)
  ultimately show "leases_inv (save_lease r' rows)" using inv by (simp add: leases_inv_def list_all_iff)
  show k: "r' \<in> set (save_lease r' rows)" using r s by (auto simp: set_save_lease lease_successor_def image_iff)
  show "lease_evolves rows (save_lease r' rows)"
    unfolding lease_evolves_def
  proof
    fix x assume x: "x \<in> set rows"
    show "\<exists>y \<in> set (save_lease r' rows). rl_resource y = rl_resource x \<and> rl_fencing_token x \<le> rl_fencing_token y \<and>
        (rl_fencing_token y = rl_fencing_token x \<longrightarrow> rl_owner_id y = rl_owner_id x)"
    proof (cases "rl_id x = rl_id r'")
      case True
      with x s one have "x = r" by (simp add: lease_successor_def)
      with s k show ?thesis by (intro bexI[of _ r']) (simp_all add: lease_successor_def)
    next
      case False
      with x have "x \<in> set (save_lease r' rows)" by (auto simp: set_save_lease)
      then show ?thesis by (intro bexI[of _ x]) simp_all
    qed
  qed
qed

lemma take_lease_successor:
  "\<not> (rl_expires_at r > now \<and> rl_owner_id r \<noteq> lq_owner_id q) \<Longrightarrow> lease_successor r (take_lease q now r)"
  by (auto simp: lease_successor_def take_lease_def rl_resource_def Let_def)

lemma take_lease_owner:
  "\<not> (rl_expires_at r > now \<and> rl_owner_id r \<noteq> lq_owner_id q) \<Longrightarrow> rl_owner_id (take_lease q now r) = lq_owner_id q"
  by (auto simp: take_lease_def Let_def)

lemma lease_evolves_refl [simp]: "lease_evolves rows rows"
  by (auto simp: lease_evolves_def)

lemma lease_evolvesE:
  assumes "lease_evolves rows rows'" and "r \<in> set rows"
  obtains r' where "r' \<in> set rows'" and "rl_resource r' = rl_resource r" and "rl_fencing_token r \<le> rl_fencing_token r'"
    and "rl_fencing_token r' = rl_fencing_token r \<Longrightarrow> rl_owner_id r' = rl_owner_id r"
  using assms unfolding lease_evolves_def by blast

lemma lease_evolves_trans:
  assumes "lease_evolves a b" and "lease_evolves b c"
  shows "lease_evolves a c"
  unfolding lease_evolves_def
proof
  fix r assume "r \<in> set a"
  with assms(1) obtain s where s: "s \<in> set b" "rl_resource s = rl_resource r" "rl_fencing_token r \<le> rl_fencing_token s"
    "rl_fencing_token s = rl_fencing_token r \<longrightarrow> rl_owner_id s = rl_owner_id r" by (auto elim: lease_evolvesE)
  with assms(2) obtain t where t: "t \<in> set c" "rl_resource t = rl_resource s" "rl_fencing_token s \<le> rl_fencing_token t"
    "rl_fencing_token t = rl_fencing_token s \<longrightarrow> rl_owner_id t = rl_owner_id s" by (auto elim: lease_evolvesE)
  show "\<exists>r' \<in> set c. rl_resource r' = rl_resource r \<and> rl_fencing_token r \<le> rl_fencing_token r' \<and>
      (rl_fencing_token r' = rl_fencing_token r \<longrightarrow> rl_owner_id r' = rl_owner_id r)"
    using s t by (intro bexI[of _ t]) auto
qed

lemma insert_lease_sound:
  assumes "leases_inv rows" and "insert_row lease_clash name (new_lease q uuid now) rows = Inr rows'"
  shows "leases_inv rows' \<and> lease_evolves rows rows' \<and> new_lease q uuid now \<in> set rows'"
proof -
  have "distinct (map rl_id rows')" "distinct (map rl_resource rows')"
    using lease_ids.insert_row_distinct[OF _ assms(2)] lease_resources.insert_row_distinct[OF _ assms(2)] assms(1)
    by (simp_all add: leases_inv_def del: distinct_map)
  moreover have "rows' = rows @ [new_lease q uuid now]" using assms(2) by (simp add: insert_row_eq_Inr)
  ultimately show ?thesis using assms(1)
    by (auto simp: leases_inv_def list_all_iff new_lease_def lease_evolves_def)
qed

lemma active_owner_Some:
  "active_owner lease owner token now = Some r \<longleftrightarrow>
     lease = Some r \<and> rl_owner_id r = owner \<and> rl_fencing_token r = token \<and> now < rl_expires_at r"
  by (auto simp: active_owner_def split: option.splits)

lemma renew_cases:
  assumes "renew ty i owner token ttl clk rows = Inr (g, rows')"
  shows "g = None \<and> rows' = rows \<or> (\<exists>r r'. r \<in> set rows \<and> lease_successor r r' \<and> rows' = save_lease r' rows)"
proof -
  obtain now where now: "aware ''lease repository'' clk = Inr now" and "0 < ttl"
    using assms by (auto simp: renew_def bind_eq_Inr positive_ttl_def raise_if_eq_Inr)
  show ?thesis
  proof (cases "active_owner (lock_resource ty i rows) owner token now")
    case None
    then show ?thesis using assms now by (simp add: renew_def bind_eq_Inr)
  next
    case (Some r)
    then have "r \<in> set rows" by (auto simp: active_owner_Some dest: lock_resource_Some)
    moreover have "rows' = save_lease (r\<lparr>rl_expires_at := now + timedelta_seconds ttl, rl_version := rl_version r + 1,
        rl_updated_at := now\<rparr>) rows"
      using assms now Some by (simp add: renew_def bind_eq_Inr Let_def)
    moreover have "lease_successor r (r\<lparr>rl_expires_at := now + timedelta_seconds ttl, rl_version := rl_version r + 1, rl_updated_at := now\<rparr>)" by (simp add: lease_successor_def rl_resource_def)
    ultimately show ?thesis by blast
  qed
qed

lemma release_cases:
  assumes "release_lease ty i owner token clk rows = Inr (b, rows')"
  shows "\<not> b \<and> rows' = rows \<or> (\<exists>r r'. r \<in> set rows \<and> lease_successor r r' \<and> rows' = save_lease r' rows)"
proof -
  obtain now where now: "aware ''lease repository'' clk = Inr now"
    using assms by (auto simp: release_lease_def bind_eq_Inr)
  show ?thesis
  proof (cases "active_owner (lock_resource ty i rows) owner token now")
    case None
    then show ?thesis using assms now by (simp add: release_lease_def)
  next
    case (Some r)
    then have "r \<in> set rows" by (auto simp: active_owner_Some dest: lock_resource_Some)
    moreover have "rows' = save_lease (r\<lparr>rl_expires_at := now, rl_version := rl_version r + 1, rl_updated_at := now\<rparr>) rows"
      using assms now Some by (simp add: release_lease_def)
    moreover have "lease_successor r (r\<lparr>rl_expires_at := now, rl_version := rl_version r + 1, rl_updated_at := now\<rparr>)" by (simp add: lease_successor_def rl_resource_def)
    ultimately show ?thesis by blast
  qed
qed

lemma lease_step_sound:
  assumes "lease_step rows rows'" and "leases_inv rows"
  shows "leases_inv rows' \<and> lease_evolves rows rows'"
  using assms
proof (induction rule: lease_step.induct)
  case (created name q uuid now rows rows')
  then show ?case using insert_lease_sound by blast
next
  case (taken q rows r now)
  then show ?case using save_lease_sound take_lease_successor lock_resource_Some by blast
next
  case (renewed ty i owner token ttl clk rows g rows')
  then show ?case using renew_cases[OF renewed.hyps] save_lease_sound by auto
next
  case (released ty i owner token clk rows b rows')
  then show ?case using release_cases[OF released.hyps] save_lease_sound by auto
qed

interpretation leases: transition_system lease_step leases_inv "[]"
  by unfold_locales (simp add: leases_inv_def, simp add: lease_step_sound)

lemma lease_steps_sound:
  assumes "lease_step\<^sup>*\<^sup>* rows rows'" and "leases_inv rows"
  shows "leases_inv rows' \<and> lease_evolves rows rows'"
  using leases.inv_steps[OF assms] leases.related_steps[OF assms, of lease_evolves]
    lease_evolves_trans lease_step_sound by auto

section \<open>What acquisition gives\<close>

lemma grant_of_resource: "lg_resource_type (to_grant r) = rl_resource_type r" "lg_resource_id (to_grant r) = rl_resource_id r"
  "lg_owner_id (to_grant r) = rl_owner_id r" "lg_fencing_token (to_grant r) = rl_fencing_token r"
  "lg_expires_at (to_grant r) = rl_expires_at r"
  by (simp_all add: to_grant_def)

lemma take_lease_resource: "rl_resource (take_lease q now r) = rl_resource r" "rl_id (take_lease q now r) = rl_id r"
  by (simp_all add: take_lease_def Let_def rl_resource_def)

text \<open>A grant is the row of its resource, held by the one who asked.\<close>

definition grant_stored :: "lease_ask \<Rightarrow> lease_grant option result \<Rightarrow> lease_row list \<Rightarrow> bool" where
  "grant_stored q res rows \<longleftrightarrow> (\<forall>g. res = Inr (Some g) \<longrightarrow>
     (\<exists>r \<in> set rows. rl_resource r = (lq_resource_type q, lq_resource_id q) \<and> rl_owner_id r = lq_owner_id q \<and> g = to_grant r))"

lemma lease_round_steps:
  assumes "lease_step\<^sup>*\<^sup>* rows (others rows)" and inv: "leases_inv rows"
  shows "case lease_round q uuid now others rows of
      Inl rows1 \<Rightarrow> lease_step\<^sup>*\<^sup>* rows rows1
    | Inr res \<Rightarrow> lease_step\<^sup>*\<^sup>* rows (snd res) \<and> grant_stored q (Inr (fst res)) (snd res)"
proof (cases "lock_resource (lq_resource_type q) (lq_resource_id q) rows")
  case None
  have i: "leases_inv (others rows)" using assms lease_steps_sound by blast
  show ?thesis
  proof (cases "insert_row lease_clash ''runtime_leases'' (new_lease q uuid now) (others rows)")
    case (Inl e)
    with None assms show ?thesis by (simp add: lease_round_def)
  next
    case (Inr rows')
    have "grant_stored q (Inr (Some (to_grant (new_lease q uuid now)))) rows'"
      using insert_lease_sound[OF i Inr] unfolding grant_stored_def
      by (auto simp: rl_resource_def new_lease_def intro!: bexI[of _ "new_lease q uuid now"])
    then show ?thesis using None Inr rtranclp.rtrancl_into_rtrancl[OF assms(1) lease_step.created[OF Inr]]
      by (simp add: lease_round_def)
  qed
next
  case (Some r)
  show ?thesis
  proof (cases "rl_expires_at r > now \<and> rl_owner_id r \<noteq> lq_owner_id q")
    case True
    with Some show ?thesis by (simp add: lease_round_def grant_stored_def)
  next
    case False
    let ?r = "take_lease q now r"
    have "?r \<in> set (save_lease ?r rows)"
      using save_lease_sound(3)[OF inv _ take_lease_successor[OF False]] lock_resource_Some[OF Some] by simp
    moreover have "rl_resource ?r = (lq_resource_type q, lq_resource_id q)" "rl_owner_id ?r = lq_owner_id q"
      using lock_resource_Some[OF Some] take_lease_owner[OF False] by (simp_all add: take_lease_resource)
    ultimately have "grant_stored q (Inr (Some (to_grant ?r))) (save_lease ?r rows)"
      unfolding grant_stored_def by blast
    then show ?thesis using Some False r_into_rtranclp[of lease_step, OF lease_step.taken[OF Some False]]
      by (auto simp: lease_round_def)
  qed
qed

lemma acquire_from_steps:
  assumes "acquire_from q w n rows = Some res" and w: "lease_sessions w" and "leases_inv rows"
  shows "lease_step\<^sup>*\<^sup>* rows (snd res) \<and> grant_stored q (fst res) (snd res)"
proof -
  define P where "P = (\<lambda>q' w' (n::nat) rows res. q' = q \<longrightarrow> w' = w \<longrightarrow> leases_inv rows \<longrightarrow>
    lease_step\<^sup>*\<^sup>* rows (snd res) \<and> grant_stored q (fst res) (snd res))"
  have "P q w n rows res"
  proof (rule acquire_from.raw_induct[where P = P, OF _ assms(1)])
    fix f q' w' n rows0 res
    assume IH: "\<And>q w n rows res. f q w n rows = Some res \<Longrightarrow> P q w n rows res"
      and eq: "(let rows = ln_others w' (2 * n) rows0 in
        case aware ''lease repository'' (ln_clock w' n) of Inl e \<Rightarrow> Some (Inl e, rows)
        | Inr now \<Rightarrow> (case lease_round q' (ln_ids w' n) now (ln_others w' (2 * n + 1)) rows of
             Inl rows1 \<Rightarrow> f q' w' (Suc n) rows1 | Inr res \<Rightarrow> Some (Inr (fst res), snd res))) = Some res"
    show "P q' w' n rows0 res"
      unfolding P_def
    proof (intro impI)
      assume q: "q' = q" "w' = w" and inv: "leases_inv rows0"
      let ?rows = "ln_others w (2 * n) rows0"
      have s: "lease_step\<^sup>*\<^sup>* rows0 ?rows" "lease_step\<^sup>*\<^sup>* ?rows (ln_others w (2 * n + 1) ?rows)"
        using w by (simp_all add: lease_sessions_def)
      have i: "leases_inv ?rows" using s inv lease_steps_sound by blast
      show "lease_step\<^sup>*\<^sup>* rows0 (snd res) \<and> grant_stored q (fst res) (snd res)"
      proof (cases "aware ''lease repository'' (ln_clock w n)")
        case (Inl e)
        with eq q s show ?thesis by (auto simp: Let_def grant_stored_def)
      next
        case (Inr now)
        note round = lease_round_steps[where others = "ln_others w (2 * n + 1)", OF s(2) i, of q "ln_ids w n" now]
        show ?thesis
        proof (cases "lease_round q (ln_ids w n) now (ln_others w (2 * n + 1)) ?rows")
          case (Inl rows1)
          have "f q w (Suc n) rows1 = Some res" using eq Inr Inl q by (simp add: Let_def)
          moreover have "lease_step\<^sup>*\<^sup>* rows0 rows1" using round Inl s(1) by (auto intro: rtranclp_trans)
          ultimately show ?thesis using IH[of q w "Suc n" rows1 res] lease_steps_sound[OF _ inv]
            by (auto simp: P_def intro: rtranclp_trans)
        next
          case last: (Inr r)
          then show ?thesis using round eq Inr q s(1) by (auto simp: Let_def intro: rtranclp_trans)
        qed
      qed
    qed
  qed
  with assms(3) show ?thesis by (simp add: P_def)
qed

lemma acquire_steps:
  assumes "acquire q w rows = Some (res, rows')" and "lease_sessions w" and "leases_inv rows"
  shows "lease_step\<^sup>*\<^sup>* rows rows' \<and> grant_stored q res rows'"
proof (cases "positive_ttl (lq_ttl_seconds q)")
  case (Inl e)
  with assms(1) show ?thesis by (auto simp: acquire_def grant_stored_def)
next
  case (Inr u)
  with assms(1) have "acquire_from q w 0 rows = Some (res, rows')" by (simp add: acquire_def)
  from acquire_from_steps[OF this assms(2,3)] show ?thesis by simp
qed

text \<open>A round starts over only when the resource has a row, and then the next round finds it.\<close>

lemma lease_round_again:
  assumes "lease_round q uuid now others rows = Inl rows1" and "uuid \<notin> rl_id ` set (others rows)"
  shows "rows1 = others rows \<and> (\<exists>r \<in> set rows1. rl_resource r = (lq_resource_type q, lq_resource_id q))"
proof -
  obtain e where "insert_row lease_clash ''runtime_leases'' (new_lease q uuid now) (others rows) = Inl e" and r: "rows1 = others rows"
    using assms(1) by (auto simp: lease_round_def Let_def split: option.splits sum.splits if_splits)
  then obtain s where "s \<in> set rows1" "lease_clash (new_lease q uuid now) s"
    by (auto simp: insert_row_def list_ex_iff split: if_splits)
  with assms(2) r show ?thesis by (auto simp: lease_clash_def new_lease_def rl_resource_def)
qed

lemma lease_round_found:
  assumes "\<exists>r \<in> set rows. rl_resource r = (lq_resource_type q, lq_resource_id q)"
  shows "\<exists>res. lease_round q uuid now others rows = Inr res"
proof (cases "lock_resource (lq_resource_type q) (lq_resource_id q) rows")
  case None
  with assms show ?thesis by (auto simp: lock_resource_eq first_where_None)
next
  case (Some r)
  then show ?thesis by (simp add: lease_round_def)
qed

text \<open>The three ways a round ends.\<close>

lemma acquire_from_naive:
  "ln_clock w n = None \<Longrightarrow> acquire_from q w n rows =
     Some (Inl (ValueError ''lease repository clock must return an aware datetime''), ln_others w (2 * n) rows)"
  by (subst acquire_from.simps) (simp add: aware_def Let_def)

lemma acquire_from_last:
  "ln_clock w n = Some now \<Longrightarrow>
     lease_round q (ln_ids w n) now (ln_others w (2 * n + 1)) (ln_others w (2 * n) rows) = Inr res \<Longrightarrow>
     acquire_from q w n rows = Some (Inr (fst res), snd res)"
  by (subst acquire_from.simps) (simp add: aware_def Let_def)

lemma acquire_from_again:
  "ln_clock w n = Some now \<Longrightarrow>
     lease_round q (ln_ids w n) now (ln_others w (2 * n + 1)) (ln_others w (2 * n) rows) = Inl rows1 \<Longrightarrow>
     acquire_from q w n rows = acquire_from q w (Suc n) rows1"
  by (subst acquire_from.simps) (simp add: aware_def Let_def)

text \<open>
  \<open>acquire\<close> always returns, whatever the other sessions commit meanwhile: its \<open>while True\<close> loop runs at
  most twice, because a lost race leaves a row that the second lookup finds and nobody deletes.  With a
  positive lifetime and an aware clock it returns a value and does not raise.  The new row's random UUID is
  supposed not to be in the table.
\<close>

theorem acquire_returns:
  assumes "lease_sessions w" and "leases_inv rows"
    and "ln_ids w 0 \<notin> rl_id ` set (ln_others w 1 (ln_others w 0 rows))"
  shows "\<exists>res rows'. acquire q w rows = Some (res, rows') \<and>
    (0 < lq_ttl_seconds q \<and> ln_clock w 0 \<noteq> None \<and> ln_clock w 1 \<noteq> None \<longrightarrow> (\<exists>g. res = Inr g))"
proof (cases "positive_ttl (lq_ttl_seconds q)")
  case (Inl e)
  then show ?thesis by (auto simp: acquire_def positive_ttl_def raise_if_def split: if_splits)
next
  case (Inr u)
  have "\<exists>res rows'. acquire_from q w 0 rows = Some (res, rows') \<and>
      (ln_clock w 0 \<noteq> None \<and> ln_clock w 1 \<noteq> None \<longrightarrow> (\<exists>g. res = Inr g))"
  proof (cases "ln_clock w 0")
    case None
    then show ?thesis by (simp add: acquire_from_naive)
  next
    case c0: (Some now)
    show ?thesis
    proof (cases "lease_round q (ln_ids w 0) now (ln_others w 1) (ln_others w 0 rows)")
      case (Inr res)
      then show ?thesis using acquire_from_last[of w 0 now q rows res] c0 by simp
    next
      case (Inl rows1)
      from lease_round_again[OF this assms(3)] have r: "rows1 = ln_others w 1 (ln_others w 0 rows)"
        and ex: "\<exists>r \<in> set rows1. rl_resource r = (lq_resource_type q, lq_resource_id q)" by blast+
      have "lease_step\<^sup>*\<^sup>* rows rows1" "lease_step\<^sup>*\<^sup>* rows1 (ln_others w 2 rows1)"
        using assms(1) unfolding r lease_sessions_def by (blast intro: rtranclp_trans)+
      then have "lease_evolves rows1 (ln_others w 2 rows1)" using assms(2) lease_steps_sound by blast
      with ex have "\<exists>r \<in> set (ln_others w 2 rows1). rl_resource r = (lq_resource_type q, lq_resource_id q)"
        by (metis lease_evolvesE)
      note found = lease_round_found[OF this]
      have "\<exists>res rows'. acquire_from q w 1 rows1 = Some (res, rows') \<and> (ln_clock w 1 \<noteq> None \<longrightarrow> (\<exists>g. res = Inr g))"
      proof (cases "ln_clock w 1")
        case None
        then show ?thesis by (simp add: acquire_from_naive)
      next
        case (Some t)
        obtain res where "lease_round q (ln_ids w 1) t (ln_others w 3) (ln_others w 2 rows1) = Inr res"
          using found by blast
        then show ?thesis using acquire_from_last[of w 1 t q rows1 res] Some by simp
      qed
      then show ?thesis using acquire_from_again[of w 0 now q rows rows1] c0 Inl by auto
    qed
  qed
  then show ?thesis using Inr by (auto simp: acquire_def positive_ttl_def)
qed

text \<open>
  C16: fencing.  When a resource is granted twice, whatever any sessions commit before, between and after,
  the later grant has no smaller token; the same token means the same owner; and once another owner has it,
  the earlier holder, presenting his own token, can neither renew nor release at any later time: both calls
  refuse and change nothing.
\<close>

theorem leases_are_fenced:
  assumes "lease_step\<^sup>*\<^sup>* [] rows0" and "lease_sessions w1" and "lease_sessions w2"
    and "acquire q1 w1 rows0 = Some (Inr (Some g), rows1)" and "lease_step\<^sup>*\<^sup>* rows1 rows2"
    and "acquire q2 w2 rows2 = Some (Inr (Some h), rows3)" and "lease_step\<^sup>*\<^sup>* rows3 rows4"
    and "lq_resource_type q1 = lq_resource_type q2" and "lq_resource_id q1 = lq_resource_id q2"
  shows "lg_fencing_token g \<le> lg_fencing_token h \<and>
    (lq_owner_id q1 \<noteq> lq_owner_id q2 \<longrightarrow>
       lg_fencing_token g < lg_fencing_token h \<and>
       (\<forall>ttl t. 0 < ttl \<longrightarrow> renew (lq_resource_type q1) (lq_resource_id q1) (lq_owner_id q1) (lg_fencing_token g) ttl (Some t) rows4 =
          Inr (None, rows4)) \<and>
       (\<forall>t. release_lease (lq_resource_type q1) (lq_resource_id q1) (lq_owner_id q1) (lg_fencing_token g) (Some t) rows4 =
          Inr (False, rows4)))"
proof -
  let ?key = "(lq_resource_type q1, lq_resource_id q1)"
  have i0: "leases_inv rows0" using assms(1) by (rule leases.inv_reachable)
  note a1 = acquire_steps[OF assms(4,2) i0]
  then have i1: "leases_inv rows1" using lease_steps_sound[OF _ i0] by blast
  then have i2: "leases_inv rows2" using lease_steps_sound[OF assms(5)] by blast
  note a2 = acquire_steps[OF assms(6,3) i2]
  then have i3: "leases_inv rows3" using lease_steps_sound[OF _ i2] by blast
  have i4: "leases_inv rows4" and e: "lease_evolves rows1 rows3" "lease_evolves rows3 rows4"
    using lease_steps_sound[OF assms(7) i3] lease_steps_sound[OF rtranclp_trans[OF assms(5)] i1] a2 by blast+
  obtain r where r: "r \<in> set rows1" "rl_resource r = ?key" "rl_owner_id r = lq_owner_id q1" "g = to_grant r"
    using a1 by (auto simp: grant_stored_def)
  obtain s where s: "s \<in> set rows3" "rl_resource s = ?key" "rl_owner_id s = lq_owner_id q2" "h = to_grant s"
    using a2 assms(8,9) by (auto simp: grant_stored_def)
  obtain r' where r': "r' \<in> set rows3" "rl_resource r' = ?key" "rl_fencing_token r \<le> rl_fencing_token r'"
      "rl_fencing_token r' = rl_fencing_token r \<Longrightarrow> rl_owner_id r' = rl_owner_id r"
    using e(1) r(1,2) by (auto elim: lease_evolvesE)
  have [simp]: "r' = s" using unique_row[of rl_resource rows3 r' s] i3 r' s by (simp add: leases_inv_def)
  obtain s' where s': "s' \<in> set rows4" "rl_resource s' = ?key" "rl_fencing_token s \<le> rl_fencing_token s'"
    using e(2) s(1,2) by (auto elim: lease_evolvesE)
  have lock: "lock_resource (lq_resource_type q1) (lq_resource_id q1) rows4 = Some s'"
    using lock_resource_unique[OF i4 s'(1,2)] .
  have "lg_fencing_token g \<le> lg_fencing_token h" using r' r(4) s(4) by (simp add: grant_of_resource)
  moreover have "lg_fencing_token g < lg_fencing_token h" if "lq_owner_id q1 \<noteq> lq_owner_id q2"
    using that r' r s by (auto simp: grant_of_resource order.order_iff_strict)
  moreover have "active_owner (lock_resource (lq_resource_type q1) (lq_resource_id q1) rows4) (lq_owner_id q1) (lg_fencing_token g) t = None"
    if "lg_fencing_token g < lg_fencing_token h" for t
    using that s'(3) s(4) by (simp add: lock active_owner_def grant_of_resource)
  ultimately show ?thesis by (simp add: renew_def release_lease_def aware_def positive_ttl_def)
qed

section \<open>Worked examples\<close>

text \<open>Two owners want the resource \<open>x\<close>; in \<open>racing\<close> the second one creates the row while the first one looks.\<close>

definition ask_by :: "string \<Rightarrow> lease_ask" where
  "ask_by owner = \<lparr>lq_resource_type = ''deployment'', lq_resource_id = ''x'', lq_owner_id = owner, lq_ttl_seconds = 5\<rparr>"

definition rival_insert :: "lease_row list \<Rightarrow> lease_row list" where
  "rival_insert rows = (case insert_row lease_clash ''runtime_leases'' (new_lease (ask_by ''b'') 7 0) rows of
     Inl _ \<Rightarrow> rows | Inr rows' \<Rightarrow> rows')"

definition racing :: lease_world where
  "racing = \<lparr>ln_ids = (\<lambda>n. n), ln_clock = (\<lambda>n. Some (int n)), ln_others = (\<lambda>n rows. if n = 1 then rival_insert rows else rows)\<rparr>"

definition alone :: "int \<Rightarrow> lease_world" where
  "alone t = \<lparr>ln_ids = (\<lambda>n. n), ln_clock = (\<lambda>n. Some t), ln_others = (\<lambda>n rows. rows)\<rparr>"

lemma alone_sessions [simp]: "lease_sessions (alone t)"
  by (simp add: lease_sessions_def alone_def)

lemma racing_sessions [simp]: "lease_sessions racing"
  by (auto simp: lease_sessions_def racing_def rival_insert_def split: sum.splits intro!: r_into_rtranclp lease_step.created)

lemma racing_clock: "ln_clock racing 0 \<noteq> None" "ln_clock racing 1 \<noteq> None" "0 < lq_ttl_seconds (ask_by owner)"
  by (simp_all add: racing_def ask_by_def)

theorem acquire_returns_witness:
  "lease_sessions racing \<and> (\<exists>g rows'. acquire (ask_by ''a'') racing [] = Some (Inr g, rows'))"
proof -
  have "ln_ids racing 0 \<notin> rl_id ` set (ln_others racing 1 (ln_others racing 0 []))"
    by (simp add: racing_def rival_insert_def insert_row_def new_lease_def)
  moreover have "leases_inv []" by (simp add: leases_inv_def)
  ultimately have "\<exists>res rows'. acquire (ask_by ''a'') racing [] = Some (res, rows') \<and> (\<exists>g. res = Inr g)"
    using acquire_returns[OF racing_sessions, of "[]" "ask_by ''a''"] racing_clock by simp
  then show ?thesis by auto
qed

lemma acquire_alone:
  "0 < lq_ttl_seconds q \<Longrightarrow> lease_round q 0 t (\<lambda>r. r) rows = Inr res \<Longrightarrow>
     acquire q (alone t) rows = Some (Inr (fst res), snd res)"
  using acquire_from_last[of "alone t" 0 t q rows res] by (simp add: acquire_def positive_ttl_def alone_def)

definition held_by_b :: lease_row where
  "held_by_b = new_lease (ask_by ''b'') 0 0"

definition held_by_a :: lease_row where
  "held_by_a = take_lease (ask_by ''a'') 6000000 held_by_b"

lemma first_grant: "acquire (ask_by ''b'') (alone 0) [] = Some (Inr (Some (to_grant held_by_b)), [held_by_b])"
  using acquire_alone[of "ask_by ''b''" 0 "[]" "(Some (to_grant held_by_b), [held_by_b])"]
  by (simp add: lease_round_def lock_resource_def first_where_def insert_row_def held_by_b_def ask_by_def Let_def)

lemma second_grant:
  "acquire (ask_by ''a'') (alone 6000000) [held_by_b] = Some (Inr (Some (to_grant held_by_a)), [held_by_a])"
  using acquire_alone[of "ask_by ''a''" 6000000 "[held_by_b]" "(Some (to_grant held_by_a), [held_by_a])"]
  by (simp add: lease_round_def lock_resource_def first_where_def held_by_b_def held_by_a_def ask_by_def new_lease_def
      take_lease_def save_lease_def update_where_def timedelta_seconds_def)

theorem leases_are_fenced_witness:
  "lg_fencing_token (to_grant held_by_b) < lg_fencing_token (to_grant held_by_a) \<and>
    renew ''deployment'' ''x'' ''b'' (lg_fencing_token (to_grant held_by_b)) 5 (Some 1000000) [held_by_a] = Inr (None, [held_by_a])"
  using leases_are_fenced[OF rtranclp.rtrancl_refl alone_sessions alone_sessions first_grant rtranclp.rtrancl_refl
      second_grant rtranclp.rtrancl_refl]
  by (simp add: ask_by_def)

end
