(* ===== verification/Commands.thy ===== *)
theory Commands
  imports Canonical Leases
begin

text \<open>
  The durable command queue: \<open>CommandRepository\<close> of \<open>src/qt/platform/commands.py\<close> over the table
  \<open>PlatformCommand\<close> of \<open>platform/models.py\<close>.  The view a call returns has the fields of the stored row, so
  rows are used for views too.  As in \<open>Leases\<close>, times are microseconds, UUIDs numbers, and a call works
  beside other sessions, whose commits between the points where it holds a row lock are functions on
  the table.  Rows with equal \<open>available_at\<close> and \<open>created_at\<close> are claimed in the order they were
  stored, which the code leaves to the database.
\<close>

section \<open>The table\<close>

datatype command_status =
    CMD_PENDING
  | CMD_PROCESSING
  | CMD_RETRY_WAIT
  | CMD_SUCCEEDED
  | CMD_FAILED
  | CMD_CANCELLED

datatype command_type = CMD_START | CMD_STOP | CMD_RESTART | CMD_RECONCILE | CMD_NOOP

fun command_type_text :: "command_type \<Rightarrow> string" where
  "command_type_text CMD_START = ''start''"
| "command_type_text CMD_STOP = ''stop''"
| "command_type_text CMD_RESTART = ''restart''"
| "command_type_text CMD_RECONCILE = ''reconcile''"
| "command_type_text CMD_NOOP = ''noop''"

type_synonym members = "(string \<times> json) list"

record command_row =
  cm_id :: nat
  cm_owner_id :: string
  cm_command_type :: command_type
  cm_target :: string
  cm_payload :: members
  cm_idempotency_key :: string
  cm_status :: command_status
  cm_attempts :: int
  cm_max_attempts :: int
  cm_available_at :: int
  cm_claim_owner :: "string option"
  cm_claim_token :: "nat option"
  cm_claim_expires_at :: "int option"
  cm_result :: "members option"
  cm_error :: "string option"
  cm_version :: int
  cm_created_at :: int
  cm_updated_at :: int
  cm_completed_at :: "int option"

text \<open>The primary key and \<open>uq_command_owner_idempotency\<close>.\<close>

definition command_clash :: "command_row \<Rightarrow> command_row \<Rightarrow> bool" where
  "command_clash r s \<longleftrightarrow> cm_id r = cm_id s \<or>
     cm_owner_id r = cm_owner_id s \<and> cm_idempotency_key r = cm_idempotency_key s"

definition command_clock :: "int option \<Rightarrow> int result" where
  "command_clock t = aware ''command repository'' t"

definition save_command :: "command_row \<Rightarrow> command_row list \<Rightarrow> command_row list" where
  "save_command r rows = update_where (\<lambda>x. cm_id x = cm_id r) (\<lambda>_. r) rows"

section \<open>Enqueueing\<close>

text \<open>\<open>_find_idempotent\<close>\<close>

definition find_idempotent :: "string \<Rightarrow> string \<Rightarrow> command_row list \<Rightarrow> command_row option" where
  "find_idempotent owner key rows = first_where (\<lambda>r. cm_owner_id r = owner \<and> cm_idempotency_key r = key) rows"

record command_ask =
  cq_owner_id :: string
  cq_command_type :: command_type
  cq_target :: string
  cq_payload :: members
  cq_idempotency_key :: string
  cq_max_attempts :: int

definition new_command :: "command_ask \<Rightarrow> nat \<Rightarrow> int \<Rightarrow> command_row" where
  "new_command q uuid now = \<lparr>cm_id = uuid, cm_owner_id = cq_owner_id q, cm_command_type = cq_command_type q,
     cm_target = cq_target q, cm_payload = cq_payload q, cm_idempotency_key = cq_idempotency_key q,
     cm_status = CMD_PENDING, cm_attempts = 0, cm_max_attempts = cq_max_attempts q, cm_available_at = now,
     cm_claim_owner = None, cm_claim_token = None, cm_claim_expires_at = None, cm_result = None, cm_error = None,
     cm_version = 1, cm_created_at = now, cm_updated_at = now, cm_completed_at = None\<rparr>"

text \<open>\<open>enqueue\<close>; \<open>others\<close> is what other sessions commit between the lookup and the commit.\<close>

definition enqueue_command ::
  "command_ask \<Rightarrow> nat \<Rightarrow> int option \<Rightarrow> (command_row list \<Rightarrow> command_row list) \<Rightarrow> command_row list \<Rightarrow>
     command_row result \<times> command_row list" where
  "enqueue_command q uuid clk others rows =
     (case bind (raise_if (cq_max_attempts q < 1) (ValueError ''max_attempts must be at least 1''))
             (\<lambda>_. command_clock clk) of
        Inl e \<Rightarrow> (Inl e, rows)
      | Inr now \<Rightarrow>
          (case find_idempotent (cq_owner_id q) (cq_idempotency_key q) rows of
             Some r \<Rightarrow> (Inr r, rows)
           | None \<Rightarrow>
               (case insert_row command_clash ''platform_commands'' (new_command q uuid now) (others rows) of
                  Inr rows' \<Rightarrow> (Inr (new_command q uuid now), rows')
                | Inl e \<Rightarrow>
                    (case find_idempotent (cq_owner_id q) (cq_idempotency_key q) (others rows) of
                       None \<Rightarrow> (Inl e, others rows)
                     | Some r \<Rightarrow> (Inr r, others rows)))))"

section \<open>Claiming\<close>

text \<open>\<open>NULL <= candidate_time\<close> is not true.\<close>

definition claim_expired :: "int \<Rightarrow> command_row \<Rightarrow> bool" where
  "claim_expired t r \<longleftrightarrow> (case cm_claim_expires_at r of None \<Rightarrow> False | Some e \<Rightarrow> e \<le> t)"

definition command_claimable :: "int \<Rightarrow> command_row \<Rightarrow> bool" where
  "command_claimable t r \<longleftrightarrow>
     cm_status r \<in> {CMD_PENDING, CMD_RETRY_WAIT} \<and> cm_available_at r \<le> t \<and> cm_attempts r < cm_max_attempts r \<or>
     cm_status r = CMD_PROCESSING \<and> claim_expired t r"

text \<open>The first claimable row; \<open>busy\<close> are the rows other sessions have locked, which are skipped.\<close>

definition claim_candidate :: "int \<Rightarrow> (nat \<Rightarrow> bool) \<Rightarrow> command_row list \<Rightarrow> command_row option" where
  "claim_candidate t busy rows =
     (case sort_key (\<lambda>r. (cm_available_at r, cm_created_at r))
             (select_where (\<lambda>r. command_claimable t r \<and> \<not> busy (cm_id r)) rows) of
        [] \<Rightarrow> None | r # _ \<Rightarrow> Some r)"

text \<open>\<open>_clear_claim\<close>\<close>

definition clear_claim :: "command_row \<Rightarrow> command_row" where
  "clear_claim r = r\<lparr>cm_claim_owner := None, cm_claim_token := None, cm_claim_expires_at := None\<rparr>"

definition exhausted :: "command_row \<Rightarrow> bool" where
  "exhausted r \<longleftrightarrow> cm_status r = CMD_PROCESSING \<and> cm_attempts r \<ge> cm_max_attempts r"

definition retire_claim :: "int \<Rightarrow> command_row \<Rightarrow> command_row" where
  "retire_claim now r = (clear_claim r)\<lparr>cm_status := CMD_FAILED, cm_result := None,
     cm_error := Some ''command claim expired after maximum attempts'', cm_completed_at := Some now,
     cm_version := cm_version r + 1, cm_updated_at := now\<rparr>"

definition take_claim :: "string \<Rightarrow> nat \<Rightarrow> int \<Rightarrow> int \<Rightarrow> command_row \<Rightarrow> command_row" where
  "take_claim worker token lease_seconds now r = r\<lparr>cm_status := CMD_PROCESSING, cm_attempts := cm_attempts r + 1,
     cm_claim_owner := Some worker, cm_claim_token := Some token,
     cm_claim_expires_at := Some (now + timedelta_seconds lease_seconds), cm_result := None, cm_error := None,
     cm_completed_at := None, cm_version := cm_version r + 1, cm_updated_at := now\<rparr>"

record claim_world =
  cw_tokens :: "nat \<Rightarrow> nat"
  cw_clock :: "nat \<Rightarrow> int option"
  cw_busy :: "nat \<Rightarrow> nat \<Rightarrow> bool"
  cw_others :: "nat \<Rightarrow> command_row list \<Rightarrow> command_row list"

text \<open>The loop of \<open>claim_next\<close> from round \<open>n\<close> on; each round commits at most once.\<close>

partial_function (option) claim_from ::
  "string \<Rightarrow> int \<Rightarrow> claim_world \<Rightarrow> nat \<Rightarrow> command_row list \<Rightarrow>
     (command_row option result \<times> command_row list) option" where
  "claim_from worker lease_seconds w n rows0 =
     (let rows = cw_others w n rows0 in
      case command_clock (cw_clock w (2 * n)) of
        Inl e \<Rightarrow> Some (Inl e, rows)
      | Inr t \<Rightarrow>
          (case claim_candidate t (cw_busy w n) rows of
             None \<Rightarrow> Some (Inr None, rows)
           | Some r \<Rightarrow>
               (case command_clock (cw_clock w (2 * n + 1)) of
                  Inl e \<Rightarrow> Some (Inl e, rows)
                | Inr now \<Rightarrow>
                    if exhausted r then claim_from worker lease_seconds w (Suc n) (save_command (retire_claim now r) rows)
                    else Some (Inr (Some (take_claim worker (cw_tokens w n) lease_seconds now r)),
                           save_command (take_claim worker (cw_tokens w n) lease_seconds now r) rows))))"

definition claim_next ::
  "string \<Rightarrow> int \<Rightarrow> claim_world \<Rightarrow> command_row list \<Rightarrow>
     (command_row option result \<times> command_row list) option" where
  "claim_next worker lease_seconds w rows =
     (if lease_seconds \<le> 0 then Some (Inl (ValueError ''lease_seconds must be positive''), rows)
      else claim_from worker lease_seconds w 0 rows)"

section \<open>Finishing\<close>

definition stale_claim :: error where
  "stale_claim = OtherError ''StaleCommandClaimError''"

text \<open>\<open>_lock_claim\<close> and \<open>_require_active_claim\<close>\<close>

definition lock_command :: "nat \<Rightarrow> command_row list \<Rightarrow> command_row option" where
  "lock_command i rows = first_where (\<lambda>r. cm_id r = i) rows"

definition require_active_claim :: "command_row option \<Rightarrow> nat \<Rightarrow> int \<Rightarrow> command_row result" where
  "require_active_claim row token now =
     (case row of
        None \<Rightarrow> Inl stale_claim
      | Some r \<Rightarrow>
          if cm_status r \<noteq> CMD_PROCESSING \<or> cm_claim_token r \<noteq> Some token \<or>
             (case cm_claim_expires_at r of None \<Rightarrow> True | Some e \<Rightarrow> e \<le> now)
          then Inl stale_claim else Inr r)"

definition completed_command :: "members \<Rightarrow> int \<Rightarrow> command_row \<Rightarrow> command_row" where
  "completed_command answer now r = (clear_claim r)\<lparr>cm_status := CMD_SUCCEEDED, cm_result := Some answer, cm_error := None,
     cm_completed_at := Some now, cm_version := cm_version r + 1, cm_updated_at := now\<rparr>"

definition complete_command ::
  "nat \<Rightarrow> nat \<Rightarrow> members \<Rightarrow> int option \<Rightarrow> command_row list \<Rightarrow> (command_row \<times> command_row list) result" where
  "complete_command i token answer clk rows =
     bind (command_clock clk) (\<lambda>now.
     bind (require_active_claim (lock_command i rows) token now) (\<lambda>r.
     Inr (completed_command answer now r, save_command (completed_command answer now r) rows)))"

definition failed_command :: "string \<Rightarrow> int option \<Rightarrow> int \<Rightarrow> command_row \<Rightarrow> command_row" where
  "failed_command err delay now r =
     (let r1 = (clear_claim r)\<lparr>cm_result := None, cm_error := Some err\<rparr>;
          r2 = (case delay of
                  Some s \<Rightarrow>
                    if cm_attempts r < cm_max_attempts r
                    then r1\<lparr>cm_status := CMD_RETRY_WAIT, cm_available_at := now + timedelta_seconds s, cm_completed_at := None\<rparr>
                    else r1\<lparr>cm_status := CMD_FAILED, cm_completed_at := Some now\<rparr>
                | None \<Rightarrow> r1\<lparr>cm_status := CMD_FAILED, cm_completed_at := Some now\<rparr>)
      in r2\<lparr>cm_version := cm_version r + 1, cm_updated_at := now\<rparr>)"

definition fail_command ::
  "nat \<Rightarrow> nat \<Rightarrow> string \<Rightarrow> int option \<Rightarrow> int option \<Rightarrow> command_row list \<Rightarrow> (command_row \<times> command_row list) result" where
  "fail_command i token err delay clk rows =
     bind (raise_if (case delay of None \<Rightarrow> False | Some s \<Rightarrow> s < 0)
             (ValueError ''retry_delay_seconds cannot be negative'')) (\<lambda>_.
     bind (command_clock clk) (\<lambda>now.
     bind (require_active_claim (lock_command i rows) token now) (\<lambda>r.
     Inr (failed_command err delay now r, save_command (failed_command err delay now r) rows))))"

section \<open>Reading\<close>

definition get_command :: "nat \<Rightarrow> command_row list \<Rightarrow> command_row option" where
  "get_command i rows = first_where (\<lambda>r. cm_id r = i) rows"

text \<open>Newest first, by \<open>created_at\<close> and then by id.\<close>

definition list_recent :: "string option \<Rightarrow> int \<Rightarrow> command_row list \<Rightarrow> command_row list result" where
  "list_recent owner limit rows =
     bind (raise_if (limit < 1) (ValueError ''limit must be positive'')) (\<lambda>_.
     Inr (take (nat limit) (rev (sort_key (\<lambda>r. (cm_created_at r, cm_id r))
       (select_where (\<lambda>r. case owner of None \<Rightarrow> True | Some ow \<Rightarrow> cm_owner_id r = ow) rows)))))"

section \<open>Sessions\<close>

text \<open>What one commit of one session does to the queue.\<close>

datatype command_event = Enqueued nat | Retired nat | Claimed nat nat | Finished nat

inductive command_step :: "command_event \<Rightarrow> command_row list \<Rightarrow> command_row list \<Rightarrow> bool" where
  enqueued: "1 \<le> cq_max_attempts q \<Longrightarrow> insert_row command_clash name (new_command q uuid now) rows = Inr rows' \<Longrightarrow>
    command_step (Enqueued uuid) rows rows'"
| retired: "claim_candidate t busy rows = Some r \<Longrightarrow> exhausted r \<Longrightarrow>
    command_step (Retired (cm_id r)) rows (save_command (retire_claim now r) rows)"
| claimed: "claim_candidate t busy rows = Some r \<Longrightarrow> \<not> exhausted r \<Longrightarrow>
    command_step (Claimed (cm_id r) token) rows (save_command (take_claim worker token lease_seconds now r) rows)"
| completed: "complete_command i token answer clk rows = Inr (v, rows') \<Longrightarrow> command_step (Finished i) rows rows'"
| failed: "fail_command i token err delay clk rows = Inr (v, rows') \<Longrightarrow> command_step (Finished i) rows rows'"

definition command_runs :: "(command_event \<Rightarrow> bool) \<Rightarrow> command_row list \<Rightarrow> command_row list \<Rightarrow> bool" where
  "command_runs P = (\<lambda>rows rows'. \<exists>e. P e \<and> command_step e rows rows')\<^sup>*\<^sup>*"

definition any_event :: "command_event \<Rightarrow> bool" where
  "any_event e = True"

fun no_enqueue :: "command_event \<Rightarrow> bool" where
  "no_enqueue (Enqueued _) = False"
| "no_enqueue _ = True"

fun draws :: "nat \<Rightarrow> command_event \<Rightarrow> bool" where
  "draws token (Claimed _ t) = (t = token)"
| "draws token _ = False"

section \<open>The life of a command\<close>

definition command_closed :: "command_row \<Rightarrow> bool" where
  "command_closed r \<longleftrightarrow> cm_status r \<in> {CMD_SUCCEEDED, CMD_FAILED, CMD_CANCELLED}"

text \<open>How often a command can still be written; its version counts how often it was.\<close>

definition command_work :: "command_row \<Rightarrow> int" where
  "command_work r = 2 * (cm_max_attempts r - cm_attempts r) + (if cm_status r = CMD_PROCESSING then 1 else 0)"

definition command_sound :: "command_row \<Rightarrow> bool" where
  "command_sound r \<longleftrightarrow> 0 \<le> cm_attempts r \<and> cm_attempts r \<le> cm_max_attempts r \<and> 1 \<le> cm_max_attempts r \<and>
     (cm_status r = CMD_PROCESSING \<longleftrightarrow> cm_claim_token r \<noteq> None) \<and>
     (cm_status r = CMD_PROCESSING \<longleftrightarrow> cm_claim_owner r \<noteq> None) \<and>
     (cm_status r = CMD_PROCESSING \<longleftrightarrow> cm_claim_expires_at r \<noteq> None) \<and>
     (cm_status r = CMD_PENDING \<longrightarrow> cm_attempts r = 0) \<and> (cm_status r = CMD_PROCESSING \<longrightarrow> 1 \<le> cm_attempts r) \<and>
     (cm_status r = CMD_SUCCEEDED \<longleftrightarrow> cm_result r \<noteq> None) \<and>
     (cm_status r = CMD_FAILED \<longrightarrow> cm_error r \<noteq> None) \<and>
     (command_closed r \<longleftrightarrow> cm_completed_at r \<noteq> None) \<and>
     cm_version r + command_work r \<le> 1 + 2 * cm_max_attempts r"

definition commands_inv :: "command_row list \<Rightarrow> bool" where
  "commands_inv rows \<longleftrightarrow> distinct (map cm_id rows) \<and> distinct (map (\<lambda>r. (cm_owner_id r, cm_idempotency_key r)) rows) \<and>
     list_all command_sound rows"

definition command_kept :: "command_row \<Rightarrow> command_row \<Rightarrow> bool" where
  "command_kept r s \<longleftrightarrow> cm_id s = cm_id r \<and> cm_owner_id s = cm_owner_id r \<and> cm_command_type s = cm_command_type r \<and>
     cm_target s = cm_target r \<and> cm_payload s = cm_payload r \<and> cm_idempotency_key s = cm_idempotency_key r \<and>
     cm_max_attempts s = cm_max_attempts r \<and> cm_created_at s = cm_created_at r \<and> cm_attempts r \<le> cm_attempts s \<and>
     (s = r \<or> \<not> command_closed r \<and> cm_version r < cm_version s)"

text \<open>One write of a row: it is open before, and there is less to do after.\<close>

definition command_moves :: "command_row \<Rightarrow> command_row \<Rightarrow> bool" where
  "command_moves r s \<longleftrightarrow> command_kept r s \<and> \<not> command_closed r \<and> cm_version s = cm_version r + 1 \<and>
     (command_sound r \<longrightarrow> command_sound s \<and> command_work s < command_work r)"

interpretation command_ids: keyed_table cm_id command_clash
  by unfold_locales (simp add: command_clash_def)

interpretation command_keys: keyed_table "\<lambda>r. (cm_owner_id r, cm_idempotency_key r)" command_clash
  by unfold_locales (simp add: command_clash_def)

lemma command_kept_refl [simp]: "command_kept r r"
  by (simp add: command_kept_def)

lemma command_kept_trans:
  assumes "command_kept a b" and "command_kept b c"
  shows "command_kept a c"
proof (cases "b = a \<or> c = b")
  case True
  with assms show ?thesis by blast
next
  case False
  with assms show ?thesis by (simp add: command_kept_def)
qed

lemma claim_candidate_Some:
  assumes "claim_candidate t busy rows = Some r"
  shows "r \<in> set rows \<and> command_claimable t r \<and> \<not> busy (cm_id r)"
proof -
  let ?xs = "sort_key (\<lambda>r. (cm_available_at r, cm_created_at r)) (select_where (\<lambda>r. command_claimable t r \<and> \<not> busy (cm_id r)) rows)"
  obtain ys where "?xs = r # ys" using assms by (auto simp: claim_candidate_def split: list.splits)
  then have "r \<in> set ?xs" by simp
  then show ?thesis by (auto simp: select_where_def)
qed

lemma claim_candidate_None:
  "claim_candidate t busy rows = None \<longleftrightarrow> (\<forall>r \<in> set rows. command_claimable t r \<longrightarrow> busy (cm_id r))"
proof -
  have "claim_candidate t busy rows = None \<longleftrightarrow>
      sort_key (\<lambda>r. (cm_available_at r, cm_created_at r)) (select_where (\<lambda>r. command_claimable t r \<and> \<not> busy (cm_id r)) rows) = []"
    by (simp add: claim_candidate_def split: list.splits)
  also have "\<dots> \<longleftrightarrow> select_where (\<lambda>r. command_claimable t r \<and> \<not> busy (cm_id r)) rows = []"
    by (metis set_empty2 set_sort)
  also have "\<dots> \<longleftrightarrow> (\<forall>r \<in> set rows. command_claimable t r \<longrightarrow> busy (cm_id r))"
    by (auto simp: select_where_def filter_empty_conv)
  finally show ?thesis .
qed

lemma command_movesI:
  assumes "command_kept r s" and "\<not> command_closed r" and "cm_version s = cm_version r + 1"
    and "command_sound r \<Longrightarrow> command_sound s" and "command_sound r \<Longrightarrow> command_work s < command_work r"
  shows "command_moves r s"
  using assms by (simp add: command_moves_def)

lemma retire_moves:
  assumes "exhausted r"
  shows "command_moves r (retire_claim now r)"
proof (rule command_movesI)
  show "command_kept r (retire_claim now r)" "\<not> command_closed r" "cm_version (retire_claim now r) = cm_version r + 1"
    using assms by (simp_all add: command_kept_def command_closed_def exhausted_def retire_claim_def clear_claim_def)
  show "command_work (retire_claim now r) < command_work r"
    using assms by (simp add: command_work_def exhausted_def retire_claim_def clear_claim_def)
  show "command_sound (retire_claim now r)" if "command_sound r"
    using assms that by (simp add: command_sound_def command_work_def exhausted_def retire_claim_def clear_claim_def command_closed_def)
qed

lemma take_moves:
  assumes "command_claimable t r" and "\<not> exhausted r"
  shows "command_moves r (take_claim worker token lease_seconds now r)"
proof (rule command_movesI)
  let ?s = "take_claim worker token lease_seconds now r"
  have open_row: "\<not> command_closed r" and less: "cm_attempts r < cm_max_attempts r"
    using assms by (auto simp: command_claimable_def exhausted_def command_closed_def)
  show "\<not> command_closed r" by (rule open_row)
  show "command_kept r ?s" "cm_version ?s = cm_version r + 1"
    using open_row by (simp_all add: command_kept_def take_claim_def)
  show "command_work ?s < command_work r" by (simp add: command_work_def take_claim_def)
  show "command_sound ?s" if "command_sound r"
    using that less by (simp add: command_sound_def command_work_def take_claim_def command_closed_def split: if_splits)
qed

lemma require_active_claim_Inr:
  "require_active_claim row token now = Inr r \<longleftrightarrow> row = Some r \<and> cm_status r = CMD_PROCESSING \<and>
     cm_claim_token r = Some token \<and> (\<exists>e. cm_claim_expires_at r = Some e \<and> now < e)"
  by (auto simp: require_active_claim_def split: option.splits)

lemma failed_moves:
  assumes "cm_status r = CMD_PROCESSING"
  shows "command_moves r (failed_command err delay now r)"
proof (rule command_movesI)
  let ?s = "failed_command err delay now r"
  show open_row: "\<not> command_closed r" using assms by (simp add: command_closed_def)
  have s: "cm_attempts ?s = cm_attempts r" "cm_max_attempts ?s = cm_max_attempts r" "cm_version ?s = cm_version r + 1"
      "cm_status ?s = CMD_FAILED \<and> cm_completed_at ?s = Some now \<or> cm_status ?s = CMD_RETRY_WAIT \<and> cm_completed_at ?s = None"
      "cm_claim_token ?s = None" "cm_claim_owner ?s = None" "cm_claim_expires_at ?s = None" "cm_result ?s = None"
      "cm_error ?s = Some err"
    by (simp_all add: failed_command_def clear_claim_def Let_def split: option.splits)
  show "cm_version ?s = cm_version r + 1" by (rule s)
  show "command_kept r ?s" using open_row
    by (simp add: command_kept_def failed_command_def clear_claim_def Let_def split: option.splits)
  show work: "command_work ?s < command_work r" using s assms by (auto simp: command_work_def)
  show "command_sound ?s" if "command_sound r"
    using that work s assms by (auto simp: command_sound_def command_closed_def)
qed

lemma complete_cases:
  assumes "complete_command i token answer clk rows = Inr (v, rows')"
  shows "\<exists>r. lock_command i rows = Some r \<and> cm_claim_token r = Some token \<and> cm_claim_token v = None \<and>
    command_moves r v \<and> rows' = save_command v rows"
proof -
  obtain now r where "require_active_claim (lock_command i rows) token now = Inr r"
    and v: "v = completed_command answer now r" "rows' = save_command v rows"
    using assms by (auto simp: complete_command_def bind_eq_Inr)
  then have r: "lock_command i rows = Some r" "cm_status r = CMD_PROCESSING" "cm_claim_token r = Some token"
    by (simp_all add: require_active_claim_Inr)
  have "command_moves r v"
  proof (rule command_movesI)
    show "command_kept r v" "\<not> command_closed r" "cm_version v = cm_version r + 1"
      using r by (simp_all add: command_kept_def command_closed_def v completed_command_def clear_claim_def)
    show "command_work v < command_work r" using r by (simp add: command_work_def v completed_command_def clear_claim_def)
    show "command_sound v" if "command_sound r"
      using that r by (simp add: command_sound_def command_work_def v completed_command_def clear_claim_def command_closed_def)
  qed
  with r v show ?thesis by (simp add: completed_command_def clear_claim_def)
qed

lemma fail_cases:
  assumes "fail_command i token err delay clk rows = Inr (v, rows')"
  shows "\<exists>r. lock_command i rows = Some r \<and> cm_claim_token r = Some token \<and> cm_claim_token v = None \<and>
    command_moves r v \<and> rows' = save_command v rows"
proof -
  obtain now r where "require_active_claim (lock_command i rows) token now = Inr r"
    and v: "v = failed_command err delay now r" "rows' = save_command v rows"
    using assms by (auto simp: fail_command_def bind_eq_Inr)
  then have "lock_command i rows = Some r" "cm_status r = CMD_PROCESSING" "cm_claim_token r = Some token"
    by (simp_all add: require_active_claim_Inr)
  then show ?thesis using failed_moves v by (auto simp: failed_command_def clear_claim_def Let_def split: option.splits)
qed

lemma set_save_command: "set (save_command s rows) = (\<lambda>x. if cm_id x = cm_id s then s else x) ` set rows"
  by (simp add: save_command_def set_update_where)

definition queue_work :: "command_row list \<Rightarrow> int" where
  "queue_work rows = (\<Sum>r\<leftarrow>rows. command_work r)"

lemma save_command_sound:
  assumes inv: "commands_inv rows" and r: "r \<in> set rows" and m: "command_moves r s"
  shows "commands_inv (save_command s rows)" and "s \<in> set (save_command s rows)"
    and "\<forall>x \<in> set rows. \<exists>y \<in> set (save_command s rows). command_kept x y"
    and "queue_work (save_command s rows) < queue_work rows"
proof -
  have one: "x = r" if "x \<in> set rows" "cm_id x = cm_id r" for x
    using that inv r unique_row[of cm_id rows x r] by (simp add: commands_inv_def)
  have k: "command_kept r s" and i: "cm_id s = cm_id r" using m by (simp_all add: command_moves_def command_kept_def)
  have sound: "command_sound s" "command_work s < command_work r"
    using m inv r by (simp_all add: command_moves_def commands_inv_def list_all_iff)
  have "map cm_id (save_command s rows) = map cm_id rows"
    "map (\<lambda>r. (cm_owner_id r, cm_idempotency_key r)) (save_command s rows) = map (\<lambda>r. (cm_owner_id r, cm_idempotency_key r)) rows"
    using k one by (auto simp: save_command_def update_where_def command_kept_def)
  moreover have "command_sound x" if "x \<in> set (save_command s rows)" for x
    using that inv sound by (auto simp: set_save_command commands_inv_def list_all_iff split: if_splits)
  ultimately show "commands_inv (save_command s rows)" using inv by (simp add: commands_inv_def list_all_iff)
  show s: "s \<in> set (save_command s rows)" using r i by (auto simp: set_save_command image_iff)
  show "\<forall>x \<in> set rows. \<exists>y \<in> set (save_command s rows). command_kept x y"
  proof
    fix x assume x: "x \<in> set rows"
    show "\<exists>y \<in> set (save_command s rows). command_kept x y"
    proof (cases "cm_id x = cm_id s")
      case True
      then have "x = r" using one x i by simp
      then show ?thesis using s k by blast
    next
      case False
      with x have "x \<in> set (save_command s rows)" by (auto simp: set_save_command)
      then show ?thesis by (intro bexI[of _ x]) simp_all
    qed
  qed
  have "queue_work (save_command s rows) = queue_work rows - command_work r + command_work s"
    using sum_update_where[of cm_id rows r command_work "\<lambda>_. s"] inv r i
    by (simp add: queue_work_def save_command_def commands_inv_def)
  then show "queue_work (save_command s rows) < queue_work rows" using sound by simp
qed

text \<open>Every commit is a new row or one move of one row.\<close>

lemma command_step_cases:
  assumes "command_step e rows rows'"
  shows "(\<exists>uuid q now. e = Enqueued uuid \<and> 1 \<le> cq_max_attempts q \<and>
      (\<forall>s \<in> set rows. \<not> command_clash (new_command q uuid now) s) \<and> rows' = rows @ [new_command q uuid now]) \<or>
    (\<exists>r s. no_enqueue e \<and> r \<in> set rows \<and> command_moves r s \<and> rows' = save_command s rows \<and>
      (cm_claim_token s = None \<or> (\<exists>token. e = Claimed (cm_id r) token \<and> cm_claim_token s = Some token)))"
  using assms
proof cases
  case (enqueued q name uuid now)
  then show ?thesis by (auto simp: insert_row_eq_Inr)
next
  case (retired t busy r now)
  then show ?thesis using claim_candidate_Some[OF retired(3)] retire_moves[OF retired(4)]
    by (intro disjI2 exI[of _ r] exI[of _ "retire_claim now r"]) (simp add: retire_claim_def clear_claim_def)
next
  case (claimed t busy r token worker lease_seconds now)
  then show ?thesis using claim_candidate_Some[OF claimed(3)] take_moves[OF _ claimed(4), of t worker token lease_seconds now]
    by (intro disjI2 exI[of _ r] exI[of _ "take_claim worker token lease_seconds now r"]) (simp add: take_claim_def)
next
  case (completed i token answer clk v)
  then obtain r where "lock_command i rows = Some r" "cm_claim_token v = None" "command_moves r v" "rows' = save_command v rows"
    using complete_cases by blast
  with completed(1) show ?thesis by (intro disjI2 exI[of _ r] exI[of _ v]) (auto simp: lock_command_def dest: first_where_Some)
next
  case (failed i token err delay clk v)
  then obtain r where "lock_command i rows = Some r" "cm_claim_token v = None" "command_moves r v" "rows' = save_command v rows"
    using fail_cases by blast
  with failed(1) show ?thesis by (intro disjI2 exI[of _ r] exI[of _ v]) (auto simp: lock_command_def dest: first_where_Some)
qed

lemma new_command_sound: "1 \<le> cq_max_attempts q \<Longrightarrow> command_sound (new_command q uuid now)"
  by (simp add: command_sound_def new_command_def command_closed_def command_work_def)

lemma command_step_sound:
  assumes "command_step e rows rows'" and "commands_inv rows"
  shows "commands_inv rows' \<and> (\<forall>r \<in> set rows. \<exists>s \<in> set rows'. command_kept r s) \<and>
    (no_enqueue e \<longrightarrow> queue_work rows' < queue_work rows)"
proof -
  from command_step_cases[OF assms(1)] consider
      (new) uuid q now where "e = Enqueued uuid" "1 \<le> cq_max_attempts q"
        "\<forall>s \<in> set rows. \<not> command_clash (new_command q uuid now) s" "rows' = rows @ [new_command q uuid now]"
    | (move) r s where "r \<in> set rows" "command_moves r s" "rows' = save_command s rows" by blast
  then show ?thesis
  proof cases
    case new
    then have "insert_row command_clash [] (new_command q uuid now) rows = Inr rows'" by (simp add: insert_row_eq_Inr)
    then have "distinct (map cm_id rows')" "distinct (map (\<lambda>r. (cm_owner_id r, cm_idempotency_key r)) rows')"
      using command_ids.insert_row_distinct command_keys.insert_row_distinct assms(2) unfolding commands_inv_def by blast+
    then have "commands_inv rows'"
      using assms(2) new new_command_sound by (simp add: commands_inv_def del: distinct_map)
    moreover have "\<forall>r \<in> set rows. \<exists>s \<in> set rows'. command_kept r s"
      using new(4) by (metis command_kept_refl UnI1 set_append)
    ultimately show ?thesis using new(1) by simp
  next
    case move
    then show ?thesis using save_command_sound[OF assms(2) move(1,2)] by simp
  qed
qed

lemma commands_inv_empty: "commands_inv []"
  by (simp add: commands_inv_def)

interpretation queue: transition_system "\<lambda>rows rows'. \<exists>e. P e \<and> command_step e rows rows'" commands_inv "[]"
  for P
  by unfold_locales (simp add: commands_inv_empty, use command_step_sound in blast)

definition commands_kept :: "command_row list \<Rightarrow> command_row list \<Rightarrow> bool" where
  "commands_kept rows rows' \<longleftrightarrow> (\<forall>r \<in> set rows. \<exists>s \<in> set rows'. command_kept r s)"

lemma commands_kept_trans: "commands_kept a b \<Longrightarrow> commands_kept b c \<Longrightarrow> commands_kept a c"
  unfolding commands_kept_def by (meson command_kept_trans)

lemma commands_kept_refl [simp]: "commands_kept a a"
  unfolding commands_kept_def by (metis command_kept_refl)

lemma command_runs_sound:
  assumes "command_runs P rows rows'" and "commands_inv rows"
  shows "commands_inv rows' \<and> commands_kept rows rows'"
proof -
  note runs = assms(1)[unfolded command_runs_def]
  have "commands_kept rows rows'"
  proof (rule queue.related_steps[OF runs assms(2)])
    show "commands_kept a a" for a by simp
    show "commands_kept a b \<Longrightarrow> commands_kept b c \<Longrightarrow> commands_kept a c" for a b c by (rule commands_kept_trans)
    show "commands_inv a \<Longrightarrow> \<exists>e. P e \<and> command_step e a b \<Longrightarrow> commands_kept a b" for a b
      using command_step_sound by (auto simp: commands_kept_def)
  qed
  then show ?thesis using queue.inv_steps[OF runs assms(2)] by simp
qed

lemma command_runs_work:
  assumes "command_runs P rows rows'" and "commands_inv rows" and "\<And>e. P e \<Longrightarrow> no_enqueue e"
  shows "queue_work rows' \<le> queue_work rows"
proof (rule queue.related_steps[OF assms(1)[unfolded command_runs_def] assms(2), where R = "\<lambda>a b. queue_work b \<le> queue_work a"])
  show "commands_inv a \<Longrightarrow> \<exists>e. P e \<and> command_step e a b \<Longrightarrow> queue_work b \<le> queue_work a" for a b
    using command_step_sound[of _ a b] assms(3) by fastforce
qed simp_all

lemma command_runs_refl [simp]: "command_runs P rows rows"
  by (simp add: command_runs_def)

lemma command_runs_trans: "command_runs P a b \<Longrightarrow> command_runs P b c \<Longrightarrow> command_runs P a c"
  by (simp add: command_runs_def)

lemma command_runs_step: "command_step e a b \<Longrightarrow> P e \<Longrightarrow> command_runs P a b"
  unfolding command_runs_def by (rule r_into_rtranclp) blast

lemma command_runs_mono:
  assumes "command_runs P a b" and "\<And>e. P e \<Longrightarrow> Q e"
  shows "command_runs Q a b"
proof -
  have "(\<lambda>rows rows'. \<exists>e. P e \<and> command_step e rows rows')\<^sup>*\<^sup>* \<le> (\<lambda>rows rows'. \<exists>e. Q e \<and> command_step e rows rows')\<^sup>*\<^sup>*"
    by (rule rtranclp_mono) (use assms(2) in blast)
  with assms(1) show ?thesis by (auto simp: command_runs_def)
qed

lemma queue_work_nonneg: "commands_inv rows \<Longrightarrow> 0 \<le> queue_work rows"
  unfolding queue_work_def
  by (rule sum_list_nonneg) (auto simp: commands_inv_def list_all_iff command_sound_def command_work_def)

section \<open>The claim loop returns\<close>

text \<open>The other sessions run the same code; from the \<open>N\<close>-th round on they enqueue nothing new.\<close>

definition claim_sessions :: "nat \<Rightarrow> claim_world \<Rightarrow> bool" where
  "claim_sessions N w \<longleftrightarrow> (\<forall>n rows. command_runs (\<lambda>e. n < N \<or> no_enqueue e) rows (cw_others w n rows))"

text \<open>A claimed command is in the table, held by the worker under a token of the call.\<close>

definition claim_answer ::
  "string \<Rightarrow> int \<Rightarrow> claim_world \<Rightarrow> command_row option result \<Rightarrow> command_row list \<Rightarrow> bool" where
  "claim_answer worker lease_seconds w res rows \<longleftrightarrow>
     (\<forall>v. res = Inr (Some v) \<longrightarrow> v \<in> set rows \<and> cm_status v = CMD_PROCESSING \<and> cm_claim_owner v = Some worker \<and>
        (\<exists>k now. cm_claim_token v = Some (cw_tokens w k) \<and> cw_clock w (2 * k + 1) = Some now \<and>
           cm_claim_expires_at v = Some (now + timedelta_seconds lease_seconds))) \<and>
     (\<forall>e. res = Inl e \<longrightarrow> (\<exists>k. cw_clock w k = None))"

lemma command_clock_Some: "command_clock c = Inr t \<longleftrightarrow> c = Some t"
  by (simp add: command_clock_def aware_def or_raise_eq_Inr)

lemma command_clock_None: "command_clock c = Inl e \<Longrightarrow> c = None"
  by (cases c) (simp_all add: command_clock_def aware_def)

lemma claim_from_returns:
  assumes w: "claim_sessions N w" and "commands_inv rows"
  shows "\<exists>res rows'. claim_from worker lease_seconds w n rows = Some (res, rows') \<and>
    command_runs any_event rows rows' \<and> claim_answer worker lease_seconds w res rows'"
  using assms(2)
proof (induction "(N - n, nat (queue_work rows))" arbitrary: n rows rule: less_induct)
  case less
  let ?rows = "cw_others w n rows"
  have o: "command_runs (\<lambda>e. n < N \<or> no_enqueue e) rows ?rows" using w by (simp add: claim_sessions_def)
  then have runs: "command_runs any_event rows ?rows" by (rule command_runs_mono) (simp add: any_event_def)
  have inv: "commands_inv ?rows" using command_runs_sound[OF o less.prems] by simp
  show ?case
  proof (cases "command_clock (cw_clock w (2 * n))")
    case (Inl e)
    then show ?thesis using runs command_clock_None[OF Inl]
      by (subst claim_from.simps) (auto simp: Let_def claim_answer_def)
  next
    case t: (Inr t)
    show ?thesis
    proof (cases "claim_candidate t (cw_busy w n) ?rows")
      case None
      then show ?thesis using runs t by (subst claim_from.simps) (simp add: Let_def claim_answer_def)
    next
      case r: (Some r)
      show ?thesis
      proof (cases "command_clock (cw_clock w (2 * n + 1))")
        case (Inl e)
        then show ?thesis using runs t r command_clock_None[OF Inl]
          by (subst claim_from.simps) (auto simp: Let_def claim_answer_def)
      next
        case now: (Inr now)
        show ?thesis
        proof (cases "exhausted r")
          case False
          let ?s = "take_claim worker (cw_tokens w n) lease_seconds now r"
          have "?s \<in> set (save_command ?s ?rows)"
            using save_command_sound(2)[OF inv] claim_candidate_Some[OF r] take_moves[OF _ False] by blast
          moreover have "command_runs any_event rows (save_command ?s ?rows)"
            using runs command_runs_step[OF command_step.claimed[OF r False]] by (rule command_runs_trans) (simp add: any_event_def)
          moreover have "claim_answer worker lease_seconds w (Inr (Some ?s)) (save_command ?s ?rows)"
            using calculation(1) now unfolding claim_answer_def command_clock_Some by (auto simp: take_claim_def)
          ultimately show ?thesis using t r now False by (subst claim_from.simps) (simp add: Let_def)
        next
          case True
          let ?next = "save_command (retire_claim now r) ?rows"
          note s = save_command_sound[OF inv _ retire_moves[OF True], of now]
          have inv': "commands_inv ?next" and work: "queue_work ?next < queue_work ?rows"
            using s(1,4) claim_candidate_Some[OF r] by blast+
          have step: "command_runs any_event rows ?next"
            using runs command_runs_step[OF command_step.retired[OF r True]] by (rule command_runs_trans) (simp add: any_event_def)
          have "(N - Suc n, nat (queue_work ?next)) < (N - n, nat (queue_work rows))"
          proof (cases "n < N")
            case True
            then have "N - Suc n < N - n" by simp
            then show ?thesis by (simp add: less_prod_def)
          next
            case False
            then have "queue_work ?rows \<le> queue_work rows" using command_runs_work[OF o less.prems] by simp
            then show ?thesis using False work queue_work_nonneg[OF inv'] by (simp add: less_prod_def)
          qed
          from less.hyps[OF this inv'] obtain res rows' where
            "claim_from worker lease_seconds w (Suc n) ?next = Some (res, rows')" "command_runs any_event ?next rows'"
            "claim_answer worker lease_seconds w res rows'" by blast
          then show ?thesis using t r now True command_runs_trans[OF step]
            by (subst claim_from.simps) (simp add: Let_def)
        qed
      qed
    qed
  qed
qed

text \<open>
  C18: \<open>claim_next\<close> always returns.  Its \<open>while True\<close> loop retires one exhausted claim per round and starts
  over; while other sessions enqueue, claim, finish and retire commands, and as long as new commands stop
  coming at some point, some round is the last.  The answer is a command of the table, processing, with
  the worker as its owner, a token of the call and a claim that runs for the asked time; no command is
  claimed more than \<open>max_attempts\<close> times; and only a clock without time zone makes the call raise.
\<close>

theorem claim_next_returns:
  assumes "claim_sessions N w" and "commands_inv rows" and "0 < lease_seconds"
  shows "\<exists>res rows'. claim_next worker lease_seconds w rows = Some (res, rows') \<and>
    commands_inv rows' \<and> commands_kept rows rows' \<and>
    (\<forall>v. res = Inr (Some v) \<longrightarrow> v \<in> set rows' \<and> cm_status v = CMD_PROCESSING \<and> cm_claim_owner v = Some worker \<and>
       1 \<le> cm_attempts v \<and> cm_attempts v \<le> cm_max_attempts v \<and>
       (\<exists>k now. cm_claim_token v = Some (cw_tokens w k) \<and> cw_clock w (2 * k + 1) = Some now \<and>
          cm_claim_expires_at v = Some (now + timedelta_seconds lease_seconds))) \<and>
    ((\<forall>k. cw_clock w k \<noteq> None) \<longrightarrow> (\<exists>g. res = Inr g))"
proof -
  obtain res rows' where r: "claim_from worker lease_seconds w 0 rows = Some (res, rows')" "command_runs any_event rows rows'"
      "claim_answer worker lease_seconds w res rows'"
    using claim_from_returns[OF assms(1,2)] by blast
  have sound: "commands_inv rows'" "commands_kept rows rows'" using command_runs_sound[OF r(2) assms(2)] by simp_all
  then have "command_sound v" if "v \<in> set rows'" for v using that by (simp add: commands_inv_def list_all_iff)
  moreover have "\<exists>g. res = Inr g" if "\<forall>k. cw_clock w k \<noteq> None"
    using that r(3) unfolding claim_answer_def by (metis sum.exhaust)
  ultimately show ?thesis using r sound assms(3)
    by (intro exI[of _ res] exI[of _ rows']) (simp add: claim_next_def claim_answer_def command_sound_def)
qed

section \<open>Exclusive claims\<close>

definition others_draw :: "nat \<Rightarrow> command_event \<Rightarrow> bool" where
  "others_draw token e \<longleftrightarrow> \<not> draws token e"

text \<open>After a claim, its row carries the claim's token or is not the claimed row any more.\<close>

definition claim_stands :: "command_row \<Rightarrow> nat \<Rightarrow> command_row list \<Rightarrow> bool" where
  "claim_stands v token rows \<longleftrightarrow> (\<forall>r \<in> set rows. cm_id r = cm_id v \<longrightarrow> r = v \<or> cm_claim_token r \<noteq> Some token)"

lemma claim_stands_runs:
  assumes "command_runs (others_draw token) rows rows'" and "claim_stands v token rows"
  shows "claim_stands v token rows'"
proof -
  have step: "claim_stands v token b" if ex: "\<exists>e. others_draw token e \<and> command_step e a b" and a: "claim_stands v token a" for a b
  proof -
    obtain e where e: "\<not> draws token e" "command_step e a b" using ex unfolding others_draw_def by blast
    from command_step_cases[OF e(2)] consider
        (new) uuid q now where "b = a @ [new_command q uuid now]"
      | (move) s where "b = save_command s a" "cm_claim_token s \<noteq> Some token" using e(1) by fastforce
    then show ?thesis
    proof cases
      case new
      then show ?thesis using a by (auto simp: claim_stands_def new_command_def)
    next
      case move
      then show ?thesis using a by (auto simp: claim_stands_def set_save_command)
    qed
  qed
  show ?thesis using assms(1)[unfolded command_runs_def]
    by (induction rule: rtranclp_induct) (use assms(2) step in blast)+
qed

lemma claim_checked:
  assumes "commands_inv rows0" and "claim_sessions N w"
    and "claim_next worker lease_seconds w rows0 = Some (Inr (Some v), rows1)"
    and "cm_claim_token v = Some token" and "command_runs (others_draw token) rows1 rows2"
  shows "require_active_claim (lock_command (cm_id v) rows2) token t =
    (if v \<in> set rows2 \<and> \<not> claim_expired t v then Inr v else Inl stale_claim)"
proof -
  have "0 < lease_seconds" using assms(3) by (auto simp: claim_next_def split: if_splits)
  with assms(3) have "claim_from worker lease_seconds w 0 rows0 = Some (Inr (Some v), rows1)" by (simp add: claim_next_def)
  then have r: "command_runs any_event rows0 rows1" "claim_answer worker lease_seconds w (Inr (Some v)) rows1"
    using claim_from_returns[OF assms(2,1), of worker lease_seconds 0] by auto
  have inv1: "commands_inv rows1" using command_runs_sound[OF r(1) assms(1)] by simp
  have v: "v \<in> set rows1" "cm_status v = CMD_PROCESSING" "cm_claim_expires_at v \<noteq> None"
    using r(2) by (auto simp: claim_answer_def)
  have "claim_stands v token rows1"
    unfolding claim_stands_def using inv1 v unique_row[of cm_id rows1] by (auto simp: commands_inv_def)
  then have stands: "claim_stands v token rows2" by (rule claim_stands_runs[OF assms(5)])
  have inv2: "commands_inv rows2" using command_runs_sound[OF assms(5) inv1] by simp
  show ?thesis
  proof (cases "v \<in> set rows2")
    case True
    then have "lock_command (cm_id v) rows2 = Some v"
      using first_where_unique[of cm_id rows2 v] inv2 by (simp add: lock_command_def commands_inv_def)
    then show ?thesis using True v assms(4) by (auto simp: require_active_claim_def claim_expired_def split: option.splits)
  next
    case False
    have "cm_claim_token r \<noteq> Some token" if "lock_command (cm_id v) rows2 = Some r" for r
      using that stands False by (auto simp: lock_command_def claim_stands_def dest: first_where_Some)
    then show ?thesis using False by (simp add: require_active_claim_def split: option.splits)
  qed
qed

text \<open>
  C17: a claim is exclusive.  Take the command \<open>v\<close> a worker got from \<open>claim_next\<close>, and let any sessions
  run meanwhile; the only thing assumed of them is that no \<open>uuid4\<close> of theirs is the token of \<open>v\<close>.  Then
  completing or failing with that token works exactly when the row is still \<open>v\<close>, untouched by anyone, and
  the claim has not run out: the outcome is then the new state of \<open>v\<close>.  In every other case the call
  raises \<open>StaleCommandClaimError\<close> and nothing is written, so a slow worker never overwrites the outcome
  of the one that took over.
\<close>

theorem claims_are_exclusive:
  assumes "commands_inv rows0" and "claim_sessions N w"
    and "claim_next worker lease_seconds w rows0 = Some (Inr (Some v), rows1)"
    and "cm_claim_token v = Some token" and "command_runs (others_draw token) rows1 rows2"
  shows "complete_command (cm_id v) token answer (Some t) rows2 =
      (if v \<in> set rows2 \<and> \<not> claim_expired t v
       then Inr (completed_command answer t v, save_command (completed_command answer t v) rows2)
       else Inl stale_claim) \<and>
    fail_command (cm_id v) token err (map_option int delay) (Some t) rows2 =
      (if v \<in> set rows2 \<and> \<not> claim_expired t v
       then Inr (failed_command err (map_option int delay) t v, save_command (failed_command err (map_option int delay) t v) rows2)
       else Inl stale_claim)"
proof -
  have "\<not> (case map_option int delay of None \<Rightarrow> False | Some s \<Rightarrow> s < 0)" by (cases delay) simp_all
  then show ?thesis
    using claim_checked[OF assms, of t]
    by (simp add: complete_command_def fail_command_def completed_command_def command_clock_Some[THEN iffD2] Let_def)
qed

text \<open>
  C19: a command runs to one end.  In every table any sessions can produce, commands have unique ids and are
  unique per owner and idempotency key, their states are coherent (claims only while processing, attempts
  within \<open>max_attempts\<close>, a result exactly when succeeded, an error when failed, an end time exactly at the end),
  a command is written at most \<open>2 * max_attempts\<close> times, and what was asked for never changes; and once it
  has succeeded, failed or been cancelled no session changes it again.
\<close>

theorem commands_finish_once:
  assumes "command_runs any_event [] rows" and "command_runs any_event rows rows'"
  shows "commands_inv rows \<and> (\<forall>r \<in> set rows. cm_version r \<le> 1 + 2 * cm_max_attempts r \<and>
    (\<exists>s \<in> set rows'. command_kept r s \<and> (command_closed r \<longrightarrow> s = r)))"
proof -
  have inv: "commands_inv rows" using command_runs_sound[OF assms(1)] by (simp add: commands_inv_def)
  have "\<exists>s \<in> set rows'. command_kept r s \<and> (command_closed r \<longrightarrow> s = r)" if "r \<in> set rows" for r
    using command_runs_sound[OF assms(2) inv] that unfolding commands_kept_def command_kept_def by blast
  moreover have "cm_version r \<le> 1 + 2 * cm_max_attempts r" if "r \<in> set rows" for r
    using inv that by (force simp: commands_inv_def list_all_iff command_sound_def command_work_def)
  ultimately show ?thesis using inv by blast
qed

text \<open>
  C20: asking twice is asking once.  When \<open>enqueue\<close> has returned a command, then after anything any sessions
  did, another \<open>enqueue\<close> of the same owner under the same key, whatever else it asks for, returns the same
  command in its present state and stores nothing.
\<close>

theorem enqueue_is_idempotent:
  assumes "commands_inv rows" and "\<And>r. command_runs any_event r (others r)"
    and "enqueue_command q uuid clk others rows = (Inr v, rows1)" and "command_runs any_event rows1 rows2"
    and "cq_owner_id q2 = cq_owner_id q" and "cq_idempotency_key q2 = cq_idempotency_key q" and "1 \<le> cq_max_attempts q2"
  shows "\<exists>v2 \<in> set rows2. enqueue_command q2 uuid2 (Some t) others2 rows2 = (Inr v2, rows2) \<and> command_kept v v2"
proof -
  let ?key = "(cq_owner_id q, cq_idempotency_key q)"
  have max: "1 \<le> cq_max_attempts q" using assms(3)
    by (auto simp: enqueue_command_def raise_if_def split: if_splits)
  have o: "commands_inv (others rows)" using command_runs_sound[OF assms(2,1)] by simp
  have found: "r \<in> set xs \<and> (cm_owner_id r, cm_idempotency_key r) = ?key" if "find_idempotent (fst ?key) (snd ?key) xs = Some r" for xs r
    using first_where_Some[OF that[unfolded find_idempotent_def]] by simp
  have "commands_inv rows1 \<and> v \<in> set rows1 \<and> (cm_owner_id v, cm_idempotency_key v) = ?key"
  proof (cases "find_idempotent (cq_owner_id q) (cq_idempotency_key q) rows")
    case (Some r)
    then show ?thesis using assms(1,3) found[of rows r] max
      by (auto simp: enqueue_command_def split: sum.splits)
  next
    case None
    show ?thesis
    proof (cases "find_idempotent (cq_owner_id q) (cq_idempotency_key q) (others rows)")
      case (Some r)
      then have "list_ex (command_clash (new_command q uuid now)) (others rows)" for now
        using found[of "others rows" r] by (auto simp: list_ex_iff command_clash_def new_command_def intro!: bexI[of _ r])
      then show ?thesis using assms(3) None Some o found[of "others rows" r] max
        by (auto simp: enqueue_command_def insert_row_def split: sum.splits)
    next
      case none: None
      then obtain now where ins: "insert_row command_clash ''platform_commands'' (new_command q uuid now) (others rows) = Inr rows1"
        and v: "v = new_command q uuid now"
        using assms(3) None max by (auto simp: enqueue_command_def split: sum.splits)
      have "commands_inv rows1" using command_step_sound[OF command_step.enqueued[OF max ins] o] by simp
      moreover have "v \<in> set rows1" using ins v by (simp add: insert_row_eq_Inr)
      ultimately show ?thesis using v by (simp add: new_command_def)
    qed
  qed
  then obtain v2 where inv2: "commands_inv rows2" and v2: "v2 \<in> set rows2" "command_kept v v2" "(cm_owner_id v2, cm_idempotency_key v2) = ?key"
    using command_runs_sound[OF assms(4)] unfolding commands_kept_def by (fastforce simp: command_kept_def)
  then have "find_idempotent (cq_owner_id q2) (cq_idempotency_key q2) rows2 = Some v2"
    using first_where_unique[of "\<lambda>r. (cm_owner_id r, cm_idempotency_key r)" rows2 v2] assms(5,6)
    by (simp add: find_idempotent_def commands_inv_def)
  then show ?thesis using v2 assms(7) by (auto simp: enqueue_command_def command_clock_def aware_def intro!: bexI[of _ v2])
qed

section \<open>Worked examples\<close>

definition sample_ask :: "string \<Rightarrow> command_ask" where
  "sample_ask key = \<lparr>cq_owner_id = ''o'', cq_command_type = CMD_NOOP, cq_target = ''t'', cq_payload = [],
     cq_idempotency_key = key, cq_max_attempts = 1\<rparr>"

definition waiting_command :: command_row where
  "waiting_command = new_command (sample_ask ''b'') 2 0"

text \<open>A worker took the first command and never came back.\<close>

definition lost_command :: command_row where
  "lost_command = take_claim ''dead'' 90 10 0 (new_command (sample_ask ''a'') 1 0)"

definition sample_queue :: "command_row list" where
  "sample_queue = [lost_command, waiting_command]"

definition sample_world :: claim_world where
  "sample_world = \<lparr>cw_tokens = (\<lambda>n. 100 + n), cw_clock = (\<lambda>n. Some (20000000 + int n)), cw_busy = (\<lambda>n i. False),
     cw_others = (\<lambda>n rows. rows)\<rparr>"

definition claimed_command :: command_row where
  "claimed_command = take_claim ''w'' 101 30 20000003 waiting_command"

definition claimed_queue :: "command_row list" where
  "claimed_queue = [retire_claim 20000001 lost_command, claimed_command]"

lemma sample_sessions: "claim_sessions N sample_world"
  by (simp add: claim_sessions_def sample_world_def)

lemma sample_queue_inv: "commands_inv sample_queue"
  by (simp add: commands_inv_def sample_queue_def lost_command_def waiting_command_def take_claim_def new_command_def
      sample_ask_def command_sound_def command_closed_def command_work_def)

lemma sample_claim: "claim_next ''w'' 30 sample_world sample_queue = Some (Inr (Some claimed_command), claimed_queue)"
proof -
  have 1: "claim_from ''w'' 30 sample_world 0 sample_queue =
      claim_from ''w'' 30 sample_world (Suc 0) [retire_claim 20000001 lost_command, waiting_command]"
    by (subst claim_from.simps) code_simp
  have 2: "claim_from ''w'' 30 sample_world (Suc 0) [retire_claim 20000001 lost_command, waiting_command] =
      Some (Inr (Some claimed_command), claimed_queue)"
    by (subst claim_from.simps) code_simp
  show ?thesis by (simp add: claim_next_def 1 2)
qed

theorem claim_next_returns_witness:
  "\<exists>res rows'. claim_next ''w'' 30 sample_world sample_queue = Some (res, rows') \<and> (\<exists>g. res = Inr g) \<and> commands_inv rows'"
proof -
  have "\<forall>k. cw_clock sample_world k \<noteq> None" by (simp add: sample_world_def)
  then show ?thesis using claim_next_returns[OF sample_sessions[of 0] sample_queue_inv, of 30 "''w''"] by auto
qed

theorem claims_are_exclusive_witness:
  "\<exists>s rows. complete_command 2 101 [] (Some 25000000) claimed_queue = Inr (s, rows) \<and> cm_status s = CMD_SUCCEEDED"
proof -
  have "cm_claim_token claimed_command = Some 101" "cm_id claimed_command = 2" "claimed_command \<in> set claimed_queue"
    "\<not> claim_expired 25000000 claimed_command"
    by (simp_all add: claimed_command_def take_claim_def waiting_command_def new_command_def claimed_queue_def
        claim_expired_def timedelta_seconds_def)
  then show ?thesis
    using claims_are_exclusive[OF sample_queue_inv sample_sessions[of 0] sample_claim, of 101 claimed_queue "[]" 25000000]
    by (simp add: completed_command_def)
qed

lemma sample_runs: "command_runs any_event [] [waiting_command]" "command_runs any_event [waiting_command] [claimed_command]"
proof -
  have "insert_row command_clash [] (new_command (sample_ask ''b'') 2 0) [] = Inr [waiting_command]"
    by (simp add: insert_row_def waiting_command_def)
  then show "command_runs any_event [] [waiting_command]"
    by (intro command_runs_step[OF command_step.enqueued]) (simp_all add: sample_ask_def any_event_def)
  have "claim_candidate 20000002 (\<lambda>i. False) [waiting_command] = Some waiting_command" "\<not> exhausted waiting_command"
    "save_command claimed_command [waiting_command] = [claimed_command]"
    by code_simp+
  then show "command_runs any_event [waiting_command] [claimed_command]"
    using command_runs_step[OF command_step.claimed, of 20000002 "\<lambda>i. False" "[waiting_command]" waiting_command any_event 101 "''w''" 30 20000003]
    by (simp add: claimed_command_def any_event_def)
qed

theorem commands_finish_once_witness:
  "commands_inv [waiting_command] \<and> command_kept waiting_command claimed_command"
  using commands_finish_once[OF sample_runs] by simp

theorem enqueue_is_idempotent_witness:
  "enqueue_command (sample_ask ''b'') 9 (Some 5) (\<lambda>r. r) [claimed_command] = (Inr claimed_command, [claimed_command])"
proof -
  have first: "enqueue_command (sample_ask ''b'') 2 (Some 0) (\<lambda>r. r) [] = (Inr waiting_command, [waiting_command])"
    by (simp add: enqueue_command_def sample_ask_def command_clock_def aware_def find_idempotent_def first_where_def
        insert_row_def waiting_command_def)
  have "\<exists>v2 \<in> set [claimed_command]. enqueue_command (sample_ask ''b'') 9 (Some 5) (\<lambda>r. r) [claimed_command] =
      (Inr v2, [claimed_command]) \<and> command_kept waiting_command v2"
    by (rule enqueue_is_idempotent[OF _ _ first sample_runs(2)]) (simp_all add: commands_inv_def sample_ask_def)
  then show ?thesis by simp
qed

end
