(* ===== verification/Operations.thy ===== *)
theory Operations
  imports Commands
begin

text \<open>
  Worker heartbeats, the audit trail and worker health: \<open>OperationsRepository\<close> of
  \<open>src/qt/platform/operations.py\<close> over \<open>WorkerHeartbeat\<close> and \<open>AuditEvent\<close> of \<open>platform/models.py\<close>, and
  \<open>HealthService\<close> of \<open>src/qt/platform/health.py\<close>.  Details are JSON members, which the frozen views carry
  unchanged.
\<close>

section \<open>Heartbeats\<close>

datatype worker_status =
    WORKER_STARTING
  | WORKER_HEALTHY
  | WORKER_DEGRADED
  | WORKER_STOPPING
  | WORKER_STOPPED
  | WORKER_FAILED

record beat_row =
  wh_id :: nat
  wh_role :: string
  wh_instance_id :: string
  wh_status :: worker_status
  wh_version :: string
  wh_details :: members
  wh_last_seen_at :: int
  wh_created_at :: int
  wh_updated_at :: int

text \<open>The primary key and \<open>uq_worker_heartbeat_identity\<close>.\<close>

definition beat_clash :: "beat_row \<Rightarrow> beat_row \<Rightarrow> bool" where
  "beat_clash r s \<longleftrightarrow> wh_id r = wh_id s \<or> wh_role r = wh_role s \<and> wh_instance_id r = wh_instance_id s"

record beat_ask =
  bq_role :: string
  bq_instance_id :: string
  bq_status :: worker_status
  bq_version :: string
  bq_details :: members

record beat_world =
  bw_ids :: "nat \<Rightarrow> nat"
  bw_clock :: "nat \<Rightarrow> int option"
  bw_others :: "nat \<Rightarrow> beat_row list \<Rightarrow> beat_row list"

definition new_beat :: "beat_ask \<Rightarrow> nat \<Rightarrow> int \<Rightarrow> beat_row" where
  "new_beat q uuid now = \<lparr>wh_id = uuid, wh_role = bq_role q, wh_instance_id = bq_instance_id q, wh_status = bq_status q,
     wh_version = bq_version q, wh_details = bq_details q, wh_last_seen_at = now, wh_created_at = now, wh_updated_at = now\<rparr>"

definition next_beat :: "beat_ask \<Rightarrow> int \<Rightarrow> beat_row \<Rightarrow> beat_row" where
  "next_beat q now h = h\<lparr>wh_status := bq_status q, wh_version := bq_version q, wh_details := bq_details q,
     wh_last_seen_at := now, wh_updated_at := now\<rparr>"

text \<open>\<open>_lock_heartbeat\<close>\<close>

definition lock_beat :: "string \<Rightarrow> string \<Rightarrow> beat_row list \<Rightarrow> beat_row option" where
  "lock_beat role inst rows = first_where (\<lambda>r. wh_role r = role \<and> wh_instance_id r = inst) rows"

definition beat_round ::
  "beat_ask \<Rightarrow> nat \<Rightarrow> int \<Rightarrow> (beat_row list \<Rightarrow> beat_row list) \<Rightarrow> beat_row list \<Rightarrow> beat_row list + (beat_row \<times> beat_row list)" where
  "beat_round q uuid now others rows =
     (case lock_beat (bq_role q) (bq_instance_id q) rows of
        None \<Rightarrow>
          (case insert_row beat_clash ''worker_heartbeats'' (new_beat q uuid now) (others rows) of
             Inl _ \<Rightarrow> Inl (others rows)
           | Inr rows' \<Rightarrow> Inr (new_beat q uuid now, rows'))
      | Some h \<Rightarrow> Inr (next_beat q now h, update_where (\<lambda>x. wh_id x = wh_id h) (\<lambda>_. next_beat q now h) rows))"

text \<open>The loop of \<open>record_heartbeat\<close> from round \<open>n\<close> on.\<close>

partial_function (option) beat_from ::
  "beat_ask \<Rightarrow> beat_world \<Rightarrow> nat \<Rightarrow> beat_row list \<Rightarrow> (beat_row result \<times> beat_row list) option" where
  "beat_from q w n rows0 =
     (let rows = bw_others w (2 * n) rows0 in
      case aware ''operations repository'' (bw_clock w n) of
        Inl e \<Rightarrow> Some (Inl e, rows)
      | Inr now \<Rightarrow>
          (case beat_round q (bw_ids w n) now (bw_others w (2 * n + 1)) rows of
             Inl rows1 \<Rightarrow> beat_from q w (Suc n) rows1
           | Inr res \<Rightarrow> Some (Inr (fst res), snd res)))"

definition record_heartbeat :: "beat_ask \<Rightarrow> beat_world \<Rightarrow> beat_row list \<Rightarrow> (beat_row result \<times> beat_row list) option" where
  "record_heartbeat q w rows = beat_from q w 0 rows"

definition list_heartbeats :: "string option \<Rightarrow> beat_row list \<Rightarrow> beat_row list" where
  "list_heartbeats role rows =
     sort_key (\<lambda>h. (wh_role h, wh_instance_id h))
       (select_where (\<lambda>h. case role of None \<Rightarrow> True | Some r \<Rightarrow> wh_role h = r) rows)"

section \<open>The audit trail\<close>

record audit_row =
  au_id :: nat
  au_actor_id :: string
  au_action :: string
  au_target_type :: string
  au_target_id :: string
  au_correlation_id :: string
  au_details :: members
  au_created_at :: int

text \<open>\<open>append_audit\<close>: \<open>body\<close> is the event, its id and its time are set here.\<close>

definition append_audit :: "audit_row \<Rightarrow> nat \<Rightarrow> int option \<Rightarrow> audit_row list \<Rightarrow> (audit_row \<times> audit_row list) result" where
  "append_audit body uuid clk rows =
     bind (aware ''operations repository'' clk) (\<lambda>now.
     let event = body\<lparr>au_id := uuid, au_created_at := now\<rparr> in
     bind (insert_row (\<lambda>r s. au_id r = au_id s) ''audit_events'' event rows) (\<lambda>rows'. Inr (event, rows')))"

definition list_audit :: "string option \<Rightarrow> string option \<Rightarrow> int \<Rightarrow> audit_row list \<Rightarrow> audit_row list result" where
  "list_audit target_type target_id limit rows =
     bind (raise_if (limit < 1) (ValueError ''limit must be positive'')) (\<lambda>_.
     Inr (take (nat limit) (rev (sort_key (\<lambda>r. (au_created_at r, au_id r))
       (select_where (\<lambda>r. (case target_type of None \<Rightarrow> True | Some v \<Rightarrow> au_target_type r = v) \<and>
          (case target_id of None \<Rightarrow> True | Some v \<Rightarrow> au_target_id r = v)) rows)))))"

section \<open>Health\<close>

datatype health_status = WORKER_OK | WORKER_UNHEALTHY | WORKER_STALE | WORKER_MISSING

record worker_view =
  wv_role :: string
  wv_instance_id :: string
  wv_status :: health_status
  wv_reported_status :: "worker_status option"
  wv_version :: "string option"
  wv_last_seen_at :: "int option"

text \<open>\<open>ExpectedWorker\<close> as its two fields; the constructor keeps one of each, sorted.\<close>

definition expected_workers :: "(string \<times> string) list \<Rightarrow> (string \<times> string) list" where
  "expected_workers ws = sort_key (\<lambda>w. w) (remdups ws)"

definition health_service :: "(string \<times> string) list \<Rightarrow> int \<Rightarrow> ((string \<times> string) list \<times> int) result" where
  "health_service ws stale_after_seconds =
     bind (raise_if (stale_after_seconds \<le> 0) (ValueError ''stale_after_seconds must be positive'')) (\<lambda>_.
     Inr (expected_workers ws, timedelta_seconds stale_after_seconds))"

text \<open>\<open>_evaluate_worker\<close>\<close>

definition evaluate_worker :: "int \<Rightarrow> int \<Rightarrow> string \<times> string \<Rightarrow> beat_row option \<Rightarrow> worker_view" where
  "evaluate_worker stale_after now expected heartbeat =
     (case heartbeat of
        None \<Rightarrow> \<lparr>wv_role = fst expected, wv_instance_id = snd expected, wv_status = WORKER_MISSING,
                  wv_reported_status = None, wv_version = None, wv_last_seen_at = None\<rparr>
      | Some h \<Rightarrow>
          \<lparr>wv_role = fst expected, wv_instance_id = snd expected,
             wv_status = (if now - wh_last_seen_at h > stale_after then WORKER_STALE
                          else if wh_status h = WORKER_HEALTHY then WORKER_OK else WORKER_UNHEALTHY),
             wv_reported_status = Some (wh_status h), wv_version = Some (wh_version h),
             wv_last_seen_at = Some (wh_last_seen_at h)\<rparr>)"

definition worker_health :: "(string \<times> string) list \<times> int \<Rightarrow> int option \<Rightarrow> beat_row list \<Rightarrow> (bool \<times> worker_view list) result" where
  "worker_health service clk rows =
     bind (aware ''health service'' clk) (\<lambda>now.
     let heartbeats = map_of (rev (map (\<lambda>h. ((wh_role h, wh_instance_id h), h)) (list_heartbeats None rows)));
         workers = map (\<lambda>e. evaluate_worker (snd service) now e (heartbeats e)) (fst service) in
     Inr (workers \<noteq> [] \<and> list_all (\<lambda>v. wv_status v = WORKER_OK) workers, workers))"

section \<open>What they promise\<close>

definition beat_key :: "beat_row \<Rightarrow> string \<times> string" where
  "beat_key h = (wh_role h, wh_instance_id h)"

text \<open>The other sessions never delete a heartbeat.\<close>

definition beat_sessions :: "beat_world \<Rightarrow> bool" where
  "beat_sessions w \<longleftrightarrow> (\<forall>n rows. beat_key ` set rows \<subseteq> beat_key ` set (bw_others w n rows))"

lemma lock_beat_None: "lock_beat role inst rows = None \<longleftrightarrow> (role, inst) \<notin> beat_key ` set rows"
  by (auto simp: lock_beat_def first_where_None beat_key_def)

lemma beat_from_naive:
  "bw_clock w n = None \<Longrightarrow> beat_from q w n rows =
     Some (Inl (ValueError ''operations repository clock must return an aware datetime''), bw_others w (2 * n) rows)"
  by (subst beat_from.simps) (simp add: aware_def Let_def)

lemma beat_from_last:
  "bw_clock w n = Some now \<Longrightarrow>
     beat_round q (bw_ids w n) now (bw_others w (2 * n + 1)) (bw_others w (2 * n) rows) = Inr res \<Longrightarrow>
     beat_from q w n rows = Some (Inr (fst res), snd res)"
  by (subst beat_from.simps) (simp add: aware_def Let_def)

lemma beat_from_again:
  "bw_clock w n = Some now \<Longrightarrow>
     beat_round q (bw_ids w n) now (bw_others w (2 * n + 1)) (bw_others w (2 * n) rows) = Inl rows1 \<Longrightarrow>
     beat_from q w n rows = beat_from q w (Suc n) rows1"
  by (subst beat_from.simps) (simp add: aware_def Let_def)

lemma beat_round_key:
  assumes "beat_round q uuid now others rows = Inr (h, rows')"
  shows "(bq_role q, bq_instance_id q) \<in> beat_key ` set rows'"
proof (cases "lock_beat (bq_role q) (bq_instance_id q) rows")
  case None
  then have "rows' = others rows @ [new_beat q uuid now]"
    using assms by (auto simp: beat_round_def insert_row_def split: sum.splits if_splits)
  then show ?thesis by (simp add: beat_key_def new_beat_def)
next
  case (Some h0)
  then have r: "h0 \<in> set rows" "beat_key h0 = (bq_role q, bq_instance_id q)"
    by (auto simp: lock_beat_def beat_key_def dest: first_where_Some)
  have "rows' = update_where (\<lambda>x. wh_id x = wh_id h0) (\<lambda>_. next_beat q now h0) rows"
    using assms Some by (auto simp: beat_round_def)
  then have "next_beat q now h0 \<in> set rows'" using r(1) by (auto simp: set_update_where image_iff)
  moreover have "beat_key (next_beat q now h0) = beat_key h0" by (simp add: beat_key_def next_beat_def)
  ultimately show ?thesis using r(2) by (metis image_eqI)
qed

text \<open>A call that comes back: aware clocks give a heartbeat, and its row is in the table.\<close>

definition beat_answer :: "beat_ask \<Rightarrow> beat_world \<Rightarrow> (beat_row result \<times> beat_row list) option \<Rightarrow> bool" where
  "beat_answer q w res \<longleftrightarrow> (\<exists>r rows. res = Some (r, rows) \<and> ((\<forall>n. bw_clock w n \<noteq> None) \<longrightarrow>
     (\<exists>h. r = Inr h) \<and> (bq_role q, bq_instance_id q) \<in> beat_key ` set rows))"

lemma beat_from_found:
  assumes "beat_sessions w" and "(bq_role q, bq_instance_id q) \<in> beat_key ` set rows"
  shows "beat_answer q w (beat_from q w n rows)"
proof (cases "bw_clock w n")
  case None
  then show ?thesis by (auto simp: beat_answer_def beat_from_naive)
next
  case (Some t)
  have "(bq_role q, bq_instance_id q) \<in> beat_key ` set (bw_others w (2 * n) rows)"
    using assms unfolding beat_sessions_def by blast
  then obtain h where "lock_beat (bq_role q) (bq_instance_id q) (bw_others w (2 * n) rows) = Some h"
    by (cases "lock_beat (bq_role q) (bq_instance_id q) (bw_others w (2 * n) rows)") (simp_all add: lock_beat_None)
  then obtain res where r: "beat_round q (bw_ids w n) t (bw_others w (2 * n + 1)) (bw_others w (2 * n) rows) = Inr res"
    by (simp add: beat_round_def)
  then show ?thesis using beat_round_key[of q "bw_ids w n" t _ _ "fst res" "snd res"] beat_from_last[OF Some r]
    by (auto simp: beat_answer_def)
qed

lemma record_heartbeat_returns:
  assumes "beat_sessions w" and "bw_ids w 0 \<notin> wh_id ` set (bw_others w 1 (bw_others w 0 rows))"
  shows "beat_answer q w (record_heartbeat q w rows)"
proof (cases "bw_clock w 0")
  case None
  then show ?thesis by (auto simp: record_heartbeat_def beat_from_naive beat_answer_def)
next
  case c0: (Some now)
  show ?thesis
  proof (cases "beat_round q (bw_ids w 0) now (bw_others w 1) (bw_others w 0 rows)")
    case (Inr res)
    then show ?thesis using beat_from_last[of w 0 now q rows res] c0
        beat_round_key[of q "bw_ids w 0" now _ _ "fst res" "snd res"]
      by (auto simp: record_heartbeat_def beat_answer_def)
  next
    case (Inl rows1)
    then have "rows1 = bw_others w 1 (bw_others w 0 rows)" and "list_ex (beat_clash (new_beat q (bw_ids w 0) now)) rows1"
      by (auto simp: beat_round_def insert_row_def split: option.splits sum.splits if_splits)
    then have "(bq_role q, bq_instance_id q) \<in> beat_key ` set rows1"
      using assms(2) by (auto simp: list_ex_iff beat_clash_def new_beat_def beat_key_def)
    then show ?thesis using beat_from_found[OF assms(1), of q rows1 1] beat_from_again[of w 0 now q rows rows1] c0 Inl
      by (simp add: record_heartbeat_def)
  qed
qed

lemma listed_heartbeats:
  assumes "distinct (map beat_key rows)"
  shows "map_of (rev (map (\<lambda>h. ((wh_role h, wh_instance_id h), h)) (list_heartbeats None rows))) k = Some h \<longleftrightarrow>
    h \<in> set rows \<and> beat_key h = k"
proof -
  let ?xs = "list_heartbeats None rows"
  have s: "set ?xs = set rows" by (simp add: list_heartbeats_def select_where_def)
  have "mset ?xs = mset rows" by (simp add: list_heartbeats_def select_where_def)
  then have "mset (map beat_key ?xs) = mset (map beat_key rows)" by simp
  then have "distinct (map beat_key ?xs)" using assms by (metis mset_eq_imp_distinct_iff)
  then have d: "distinct (map fst (rev (map (\<lambda>h. ((wh_role h, wh_instance_id h), h)) ?xs)))"
    by (simp add: rev_map[symmetric] comp_def beat_key_def[abs_def] del: distinct_map)
  show ?thesis unfolding map_of_eq_Some_iff[OF d] using s by (auto simp: beat_key_def)
qed

text \<open>
  C23: the health report says healthy exactly when at least one worker is expected and every expected worker
  has a heartbeat of status healthy that is not older than the limit; a worker without a row, with a stale
  one or in any other state makes it degraded, whatever workers nobody expects have written.
\<close>

theorem worker_health_exact:
  assumes "distinct (map beat_key rows)" and "health_service ws stale = Inr service"
    and "worker_health service (Some now) rows = Inr (healthy, views)"
  shows "healthy \<longleftrightarrow> ws \<noteq> [] \<and> (\<forall>w \<in> set ws. \<exists>h \<in> set rows. beat_key h = w \<and>
    wh_status h = WORKER_HEALTHY \<and> now - wh_last_seen_at h \<le> timedelta_seconds stale)"
proof -
  let ?m = "map_of (rev (map (\<lambda>h. ((wh_role h, wh_instance_id h), h)) (list_heartbeats None rows)))"
  have s: "set (fst service) = set ws" "snd service = timedelta_seconds stale"
    using assms(2) by (auto simp: health_service_def bind_eq_Inr expected_workers_def)
  then have e: "fst service \<noteq> [] \<longleftrightarrow> ws \<noteq> []" by (metis set_empty2)
  have ok: "wv_status (evaluate_worker (snd service) now w (?m w)) = WORKER_OK \<longleftrightarrow>
      (\<exists>h \<in> set rows. beat_key h = w \<and> wh_status h = WORKER_HEALTHY \<and> now - wh_last_seen_at h \<le> timedelta_seconds stale)" for w
  proof (cases "?m w")
    case None
    then have "\<not> (\<exists>h \<in> set rows. beat_key h = w)" using listed_heartbeats[OF assms(1), of w] by auto
    with None show ?thesis by (auto simp: evaluate_worker_def)
  next
    case (Some h)
    then have h: "h \<in> set rows" "beat_key h = w" using listed_heartbeats[OF assms(1), of w h] by auto
    have one: "x = h" if "x \<in> set rows" "beat_key x = w" for x
      using that h unique_row[OF assms(1), of x h] by simp
    have "wv_status (evaluate_worker (snd service) now w (?m w)) = WORKER_OK \<longleftrightarrow>
        wh_status h = WORKER_HEALTHY \<and> now - wh_last_seen_at h \<le> timedelta_seconds stale"
      unfolding Some s(2) by (simp add: evaluate_worker_def)
    then show ?thesis using h one by blast
  qed
  define workers where "workers = map (\<lambda>w. evaluate_worker (snd service) now w (?m w)) (fst service)"
  have "worker_health service (Some now) rows = Inr (workers \<noteq> [] \<and> list_all (\<lambda>v. wv_status v = WORKER_OK) workers, workers)"
    by (simp only: worker_health_def aware_def or_raise_Some bind_Inr Let_def workers_def)
  with assms(3) have "healthy \<longleftrightarrow> workers \<noteq> [] \<and> list_all (\<lambda>v. wv_status v = WORKER_OK) workers" by auto
  also have "\<dots> \<longleftrightarrow> fst service \<noteq> [] \<and>
      (\<forall>w \<in> set (fst service). wv_status (evaluate_worker (snd service) now w (?m w)) = WORKER_OK)"
    unfolding workers_def by (simp only: map_is_Nil_conv list_all_iff set_map ball_simps)
  finally show ?thesis unfolding ok e s(1) .
qed

definition sample_beat :: beat_row where
  "sample_beat = \<lparr>wh_id = 1, wh_role = ''trading'', wh_instance_id = ''w'', wh_status = WORKER_HEALTHY, wh_version = ''1'',
     wh_details = [], wh_last_seen_at = 10000000, wh_created_at = 0, wh_updated_at = 10000000\<rparr>"

theorem worker_health_exact_witness:
  "\<exists>service views. health_service [(''trading'', ''w'')] 30 = Inr service \<and>
    worker_health service (Some 30000000) [sample_beat] = Inr (True, views)"
proof -
  obtain service healthy views where s: "health_service [(''trading'', ''w'')] 30 = Inr service"
      and h: "worker_health service (Some 30000000) [sample_beat] = Inr (healthy, views)"
    by (auto simp: health_service_def worker_health_def aware_def Let_def)
  have "healthy" using worker_health_exact[OF _ s h] by (simp add: sample_beat_def beat_key_def timedelta_seconds_def)
  with s h show ?thesis by auto
qed

end
