(* ===== verification/Trading_Worker.thy ===== *)
theory Trading_Worker
  imports Operations Paper
begin

text \<open>
  The worker process of \<open>src/qt/platform/worker.py\<close>: \<open>TradingWorker\<close> claims at most one command per cycle,
  runs its handler, and completes, retries or fails it.  The state is the command queue and the heartbeat
  table.  A handler is a function from the command to its result or the exception it raises; what
  \<open>json.dumps\<close> refuses of a result is such an exception.  While a handler runs, other sessions
  commit \<open>ww_others\<close>.
\<close>

section \<open>The worker\<close>

type_synonym command_handler = "command_row \<Rightarrow> members result"

record trading_worker =
  tw_worker_id :: string
  tw_version :: string
  tw_command_lease_seconds :: int
  tw_poll_seconds :: rat
  tw_retry_base_seconds :: int
  tw_retry_max_seconds :: int
  tw_handlers :: "command_type \<Rightarrow> command_handler option"

text \<open>\<open>_required_text\<close>\<close>

definition required_text :: "string \<Rightarrow> string \<Rightarrow> nat \<Rightarrow> string result" where
  "required_text value_text name maximum =
     (let normalized = strip value_text in
      if normalized = [] then Inl (ValueError (name @ '' must not be blank''))
      else if length normalized > maximum
      then Inl (ValueError (name @ '' must be at most '' @ whole_text (int maximum) @ '' characters''))
      else Inr normalized)"

definition handle_noop :: command_handler where
  "handle_noop command = Inr [(''handled'', JBool True)]"

text \<open>The constructor; \<open>None\<close> is a poll interval that is not finite.\<close>

definition make_worker ::
  "string \<Rightarrow> string \<Rightarrow> int \<Rightarrow> rat option \<Rightarrow> int \<Rightarrow> int \<Rightarrow> (command_type \<Rightarrow> command_handler option) \<Rightarrow> trading_worker result" where
  "make_worker worker_id version lease poll base most handlers =
     bind (required_text worker_id ''worker_id'' 128) (\<lambda>wid.
     bind (required_text version ''version'' 64) (\<lambda>ver.
     bind (raise_if (\<not> (5 \<le> lease \<and> lease \<le> 3600)) (ValueError ''command_lease_seconds must be between 5 and 3600'')) (\<lambda>_.
     bind (or_raise poll (ValueError ''poll_seconds must be greater than 0 and at most 300'')) (\<lambda>p.
     bind (raise_if (\<not> (0 < p \<and> p \<le> 300)) (ValueError ''poll_seconds must be greater than 0 and at most 300'')) (\<lambda>_.
     bind (raise_if (\<not> (1 \<le> base \<and> base \<le> 3600)) (ValueError ''retry_base_seconds must be between 1 and 3600'')) (\<lambda>_.
     bind (raise_if (\<not> (base \<le> most \<and> most \<le> 3600))
             (ValueError ''retry_max_seconds must be at least retry_base_seconds and at most 3600'')) (\<lambda>_.
     Inr \<lparr>tw_worker_id = wid, tw_version = ver, tw_command_lease_seconds = lease, tw_poll_seconds = p,
          tw_retry_base_seconds = base, tw_retry_max_seconds = most,
          tw_handlers = (\<lambda>k. case handlers k of Some h \<Rightarrow> Some h
                              | None \<Rightarrow> if k = CMD_NOOP then Some handle_noop else None)\<rparr>)))))))"

text \<open>The loop of \<open>_retry_delay\<close>, \<open>k\<close> rounds from \<open>delay\<close> on.\<close>

fun delay_loop :: "int \<Rightarrow> nat \<Rightarrow> int \<Rightarrow> int" where
  "delay_loop most 0 delay = delay"
| "delay_loop most (Suc k) delay = (if delay \<ge> most then most else delay_loop most k (min (delay * 2) most))"

definition retry_delay :: "trading_worker \<Rightarrow> int \<Rightarrow> int" where
  "retry_delay tw attempt = delay_loop (tw_retry_max_seconds tw) (nat (max 0 (attempt - 1))) (tw_retry_base_seconds tw)"

text \<open>\<open>_format_error\<close>\<close>

definition format_error :: "error \<Rightarrow> string" where
  "format_error e =
     (let message = strip (error_text e) in
      if message = [] then error_name e else error_name e @ '': '' @ message)"

text \<open>\<open>_json_compatible_result\<close>: through the text with sorted keys and back.\<close>

fun sorted_json :: "json \<Rightarrow> json" where
  "sorted_json (JObj kvs) = JObj (sort_key fst (map (\<lambda>(k, v). (k, sorted_json v)) kvs))"
| "sorted_json (JArr vs) = JArr (map sorted_json vs)"
| "sorted_json v = v"

definition json_compatible_result :: "members \<Rightarrow> members" where
  "json_compatible_result kvs = sort_key fst (map (\<lambda>(k, v). (k, sorted_json v)) kvs)"

section \<open>A cycle\<close>

record worker_world =
  ww_beats :: "nat \<Rightarrow> beat_world"
  ww_claim :: claim_world
  ww_clock :: "int option"
  ww_others :: "command_row list \<Rightarrow> command_row list"

type_synonym worker_state = "command_row list \<times> beat_row list"

text \<open>\<open>_record_heartbeat\<close>\<close>

definition worker_beat ::
  "trading_worker \<Rightarrow> beat_world \<Rightarrow> worker_status \<Rightarrow> members \<Rightarrow> worker_state \<Rightarrow> (unit result \<times> worker_state) option" where
  "worker_beat tw bw status details s =
     map_option (\<lambda>(res, beats). (bind res (\<lambda>_. Inr ()), fst s, beats))
       (record_heartbeat \<lparr>bq_role = ''trading'', bq_instance_id = tw_worker_id tw, bq_status = status,
          bq_version = tw_version tw, bq_details = details\<rparr> bw (snd s))"

text \<open>\<open>str(command_id)\<close>: the text of a UUID is a parameter.\<close>

definition record_claim_lost ::
  "(nat \<Rightarrow> string) \<Rightarrow> trading_worker \<Rightarrow> worker_world \<Rightarrow> nat \<Rightarrow> worker_state \<Rightarrow> (unit result \<times> worker_state) option" where
  "record_claim_lost uuid_text tw w i s =
     worker_beat tw (ww_beats w 1) WORKER_DEGRADED [(''state'', JStr ''claim_lost''), (''command_id'', JStr (uuid_text i))] s"

text \<open>\<open>except StaleCommandClaimError: self._record_claim_lost(command.id)\<close>\<close>

definition unless_stale ::
  "(nat \<Rightarrow> string) \<Rightarrow> trading_worker \<Rightarrow> worker_world \<Rightarrow> nat \<Rightarrow> (command_row \<times> command_row list) result \<Rightarrow> worker_state \<Rightarrow>
     (unit result \<times> worker_state) option" where
  "unless_stale uuid_text tw w i res s =
     (case res of
        Inr (v, rows) \<Rightarrow> Some (Inr (), rows, snd s)
      | Inl e \<Rightarrow> if e = stale_claim then record_claim_lost uuid_text tw w i s else Some (Inl e, s))"

definition transition_failure ::
  "(nat \<Rightarrow> string) \<Rightarrow> trading_worker \<Rightarrow> worker_world \<Rightarrow> command_row \<Rightarrow> nat \<Rightarrow> string \<Rightarrow> int option \<Rightarrow> worker_state \<Rightarrow>
     (unit result \<times> worker_state) option" where
  "transition_failure uuid_text tw w command token err delay s =
     unless_stale uuid_text tw w (cm_id command)
       (fail_command (cm_id command) token err delay (ww_clock w) (fst s)) s"

definition phase_two_error :: "command_type \<Rightarrow> string" where
  "phase_two_error k = ''Phase 2 lifecycle command '' @ [CHR 0x27] @ command_type_text k @ [CHR 0x27] @ '' is not enabled''"

text \<open>\<open>_execute\<close>: an \<open>Exception\<close> of the handler is a failed attempt; a cancellation is not an \<open>Exception\<close>.\<close>

definition execute_command ::
  "(nat \<Rightarrow> string) \<Rightarrow> trading_worker \<Rightarrow> worker_world \<Rightarrow> command_row \<Rightarrow> worker_state \<Rightarrow> (unit result \<times> worker_state) option" where
  "execute_command uuid_text tw w command s =
     (case cm_claim_token command of
        None \<Rightarrow> record_claim_lost uuid_text tw w (cm_id command) s
      | Some token \<Rightarrow>
          (let s' = (ww_others w (fst s), snd s) in
           case tw_handlers tw (cm_command_type command) of
             None \<Rightarrow> transition_failure uuid_text tw w command token (phase_two_error (cm_command_type command)) None s'
           | Some handler \<Rightarrow>
               (case handler command of
                  Inl e \<Rightarrow>
                    if e = CancelledError then Some (Inl e, s')
                    else transition_failure uuid_text tw w command token (format_error e)
                           (Some (retry_delay tw (cm_attempts command))) s'
                | Inr answer \<Rightarrow>
                    unless_stale uuid_text tw w (cm_id command)
                      (complete_command (cm_id command) token (json_compatible_result answer) (ww_clock w) (fst s')) s')))"

definition run_once ::
  "(nat \<Rightarrow> string) \<Rightarrow> trading_worker \<Rightarrow> worker_world \<Rightarrow> worker_state \<Rightarrow> (bool result \<times> worker_state) option" where
  "run_once uuid_text tw w s =
     Option.bind (worker_beat tw (ww_beats w 0) WORKER_HEALTHY [(''state'', JStr ''idle'')] s) (\<lambda>(r, s1).
     case r of
       Inl e \<Rightarrow> Some (Inl e, s1)
     | Inr _ \<Rightarrow>
         Option.bind (claim_next (tw_worker_id tw) (tw_command_lease_seconds tw) (ww_claim w) (fst s1)) (\<lambda>(c, cmds).
         case c of
           Inl e \<Rightarrow> Some (Inl e, cmds, snd s1)
         | Inr None \<Rightarrow> Some (Inr False, cmds, snd s1)
         | Inr (Some command) \<Rightarrow>
             map_option (\<lambda>(r, s2). (bind r (\<lambda>_. Inr True), s2)) (execute_command uuid_text tw w command (cmds, snd s1))))"

section \<open>The process\<close>

text \<open>\<open>_record_heartbeat_best_effort\<close>: what \<open>record_heartbeat\<close> raises is dropped.\<close>

definition best_effort_beat ::
  "trading_worker \<Rightarrow> beat_world \<Rightarrow> worker_status \<Rightarrow> members \<Rightarrow> worker_state \<Rightarrow> worker_state option" where
  "best_effort_beat tw bw status details s = map_option snd (worker_beat tw bw status details s)"

text \<open>
  The loop of \<open>run_forever\<close>: one world for every time \<open>is_set\<close> answers no.  A cycle that raises leaves a
  \<open>DEGRADED\<close> heartbeat and the loop goes on; \<open>None\<close> is a cycle that does not return, \<open>Some (Some e, s)\<close> a
  cancellation that ends the loop.
\<close>

fun worker_cycles ::
  "(nat \<Rightarrow> string) \<Rightarrow> trading_worker \<Rightarrow> worker_world list \<Rightarrow> worker_state \<Rightarrow> (error option \<times> worker_state) option" where
  "worker_cycles uuid_text tw [] s = Some (None, s)"
| "worker_cycles uuid_text tw (w # ws) s =
     Option.bind (run_once uuid_text tw w s) (\<lambda>(r, s1).
     case r of
       Inr _ \<Rightarrow> worker_cycles uuid_text tw ws s1
     | Inl e \<Rightarrow>
         if e = CancelledError then Some (Some e, s1)
         else Option.bind (best_effort_beat tw (ww_beats w 2) WORKER_DEGRADED
                [(''state'', JStr ''loop_error''), (''error'', JStr (format_error e))] s1)
                (worker_cycles uuid_text tw ws))"

text \<open>\<open>run_forever\<close>; the worlds \<open>b\<close> are those of the heartbeats at the start and the two at the end.\<close>

definition run_forever ::
  "(nat \<Rightarrow> string) \<Rightarrow> trading_worker \<Rightarrow> (nat \<Rightarrow> beat_world) \<Rightarrow> worker_world list \<Rightarrow> worker_state \<Rightarrow>
     (error option \<times> worker_state) option" where
  "run_forever uuid_text tw b ws s =
     Option.bind (best_effort_beat tw (b 0) WORKER_STARTING [(''state'', JStr ''starting'')] s) (\<lambda>s1.
     Option.bind (worker_cycles uuid_text tw ws s1) (\<lambda>(e, s2).
     Option.bind (best_effort_beat tw (b 1) WORKER_STOPPING [(''state'', JStr ''stopping'')] s2) (\<lambda>s3.
     map_option (Pair e) (best_effort_beat tw (b 2) WORKER_STOPPED [(''state'', JStr ''stopped'')] s3))))"

section \<open>The delay before another attempt\<close>

lemma retry_delay_formula:
  assumes "make_worker worker_id version lease poll base most handlers = Inr tw"
  shows "retry_delay tw attempt = min (base * 2 ^ nat (attempt - 1)) most \<and>
    1 \<le> retry_delay tw attempt \<and> retry_delay tw attempt \<le> 3600"
proof -
  have s: "1 \<le> base" "base \<le> most" "most \<le> 3600" "tw_retry_base_seconds tw = base" "tw_retry_max_seconds tw = most"
    using assms by (auto simp: make_worker_def bind_eq_Inr raise_if_eq_Inr)
  have loop: "delay_loop m k d = min (d * 2 ^ k) m" if "1 \<le> d" "d \<le> m" for m k d
    using that
  proof (induction m k d rule: delay_loop.induct)
    case (2 m k d)
    have "d * 2 * 1 \<le> d * 2 * 2 ^ k" using 2(2) by (intro mult_left_mono one_le_power) simp_all
    then have big: "d * 2 \<le> d * 2 ^ Suc k" by (simp only: power_Suc mult.assoc mult_1_right)
    then have "d \<le> d * 2 ^ Suc k" using 2(2) by linarith
    note big = big this
    show ?case
    proof (cases "m \<le> d")
      case True
      then show ?thesis using big by simp
    next
      case False
      have "delay_loop m k (min (d * 2) m) = min (min (d * 2) m * 2 ^ k) m" using 2 False by simp
      also have "\<dots> = min (d * 2 ^ Suc k) m"
      proof (cases "d * 2 \<le> m")
        case True
        then show ?thesis by (simp add: min_def mult.assoc)
      next
        case False
        have "m * 1 \<le> m * 2 ^ k" using 2(2,3) by (intro mult_left_mono) simp_all
        with False big show ?thesis by simp
      qed
      finally show ?thesis using False by simp
    qed
  qed simp
  have "retry_delay tw attempt = min (base * 2 ^ nat (max 0 (attempt - 1))) most"
    using loop s by (simp add: retry_delay_def)
  moreover have "nat (max 0 (attempt - 1)) = nat (attempt - 1)" by simp
  moreover have "1 * 1 \<le> base * 2 ^ nat (attempt - 1)" using s by (intro mult_mono) simp_all
  ultimately show ?thesis using s by simp
qed

text \<open>
  The delay loop is exponential back-off with a cap: for the settings the constructor admits it gives
  \<open>min(base * 2^(attempt - 1), max)\<close>, at least a second and at most an hour.
\<close>

theorem retry_delay_is_capped_backoff:
  assumes "make_worker worker_id version lease poll base most handlers = Inr tw"
  shows "retry_delay tw attempt = min (base * 2 ^ nat (attempt - 1)) most \<and>
    1 \<le> retry_delay tw attempt \<and> retry_delay tw attempt \<le> 3600"
  using assms by (rule retry_delay_formula)

definition plain_worker :: "command_handler \<Rightarrow> trading_worker" where
  "plain_worker h = \<lparr>tw_worker_id = ''w'', tw_version = ''1'', tw_command_lease_seconds = 30, tw_poll_seconds = 1,
     tw_retry_base_seconds = 1, tw_retry_max_seconds = 60,
     tw_handlers = (\<lambda>k. case (if k = CMD_NOOP then Some h else None) of Some g \<Rightarrow> Some g
        | None \<Rightarrow> if k = CMD_NOOP then Some handle_noop else None)\<rparr>"

lemma plain_worker_made:
  "make_worker ''w'' ''1'' 30 (Some 1) 1 60 (\<lambda>k. if k = CMD_NOOP then Some h else None) = Inr (plain_worker h)"
  by (simp add: make_worker_def required_text_def strip_def is_space_def plain_worker_def raise_if_def)

theorem retry_delay_is_capped_backoff_witness: "retry_delay (plain_worker handle_noop) 4 = 8"
  using retry_delay_is_capped_backoff[OF plain_worker_made, of handle_noop 4] by simp

section \<open>A cycle settles its claim\<close>

text \<open>What becomes of the claimed command \<open>v\<close>.\<close>

definition settled :: "trading_worker \<Rightarrow> int \<Rightarrow> command_row \<Rightarrow> command_row \<Rightarrow> bool" where
  "settled tw t v s \<longleftrightarrow> cm_id s = cm_id v \<and> cm_claim_token s = None \<and> cm_attempts s = cm_attempts v \<and>
     (case tw_handlers tw (cm_command_type v) of
        None \<Rightarrow> cm_status s = CMD_FAILED \<and> cm_error s = Some (phase_two_error (cm_command_type v))
      | Some h \<Rightarrow>
          (case h v of
             Inr answer \<Rightarrow> cm_status s = CMD_SUCCEEDED \<and> cm_result s = Some (json_compatible_result answer)
           | Inl e \<Rightarrow> cm_error s = Some (format_error e) \<and>
               (if cm_attempts v < cm_max_attempts v
                then cm_status s = CMD_RETRY_WAIT \<and>
                  cm_available_at s = t + timedelta_seconds (retry_delay tw (cm_attempts v))
                else cm_status s = CMD_FAILED)))"

lemma failed_settled:
  "cm_id (failed_command err delay t v) = cm_id v" "cm_claim_token (failed_command err delay t v) = None"
  "cm_attempts (failed_command err delay t v) = cm_attempts v" "cm_error (failed_command err delay t v) = Some err"
  "delay = None \<Longrightarrow> cm_status (failed_command err delay t v) = CMD_FAILED"
  "delay = Some k \<Longrightarrow> cm_attempts v < cm_max_attempts v \<Longrightarrow> cm_status (failed_command err delay t v) = CMD_RETRY_WAIT \<and>
     cm_available_at (failed_command err delay t v) = t + timedelta_seconds k"
  "delay = Some k \<Longrightarrow> \<not> cm_attempts v < cm_max_attempts v \<Longrightarrow> cm_status (failed_command err delay t v) = CMD_FAILED"
  by (simp_all add: failed_command_def clear_claim_def Let_def split: option.splits)

lemma completed_settled:
  "cm_id (completed_command answer t v) = cm_id v" "cm_claim_token (completed_command answer t v) = None"
  "cm_attempts (completed_command answer t v) = cm_attempts v" "cm_status (completed_command answer t v) = CMD_SUCCEEDED"
  "cm_result (completed_command answer t v) = Some answer"
  by (simp_all add: completed_command_def clear_claim_def)

text \<open>A heartbeat does not touch the queue.\<close>

lemma worker_beat_queue: "worker_beat tw bw status details s = Some (r, s') \<Longrightarrow> fst s' = fst s"
  by (auto simp: worker_beat_def)

lemma unless_stale_cases:
  assumes "unless_stale uuid_text tw w i res s = Some (Inr (), s')"
  shows "res = Inl stale_claim \<and> fst s' = fst s \<or> (\<exists>v. res = Inr (v, fst s'))"
  using assms worker_beat_queue[of tw "ww_beats w 1"]
  by (auto simp: unless_stale_def record_claim_lost_def split: sum.splits prod.splits if_splits)

lemma fail_answer:
  assumes "require_active_claim (lock_command i rows) token t = (if c then Inr v else Inl stale_claim)"
    and "case delay of None \<Rightarrow> True | Some k \<Rightarrow> 0 \<le> k"
  shows "fail_command i token err delay (Some t) rows =
    (if c then Inr (failed_command err delay t v, save_command (failed_command err delay t v) rows) else Inl stale_claim)"
  using assms by (simp add: fail_command_def command_clock_Some[THEN iffD2] raise_if_def split: option.splits)

lemma complete_answer:
  assumes "require_active_claim (lock_command i rows) token t = (if c then Inr v else Inl stale_claim)"
  shows "complete_command i token answer (Some t) rows =
    (if c then Inr (completed_command answer t v, save_command (completed_command answer t v) rows) else Inl stale_claim)"
  using assms by (simp add: complete_command_def command_clock_Some[THEN iffD2])

lemma execute_settles:
  assumes token: "cm_claim_token v = Some token" and clk: "ww_clock w = Some t"
    and claim: "require_active_claim (lock_command (cm_id v) (ww_others w rows)) token t = (if c then Inr v else Inl stale_claim)"
    and delay: "0 \<le> retry_delay tw (cm_attempts v)"
    and run: "execute_command uuid_text tw w v (rows, beats) = Some (Inr (), s')"
  shows "if c then \<exists>s. fst s' = save_command s (ww_others w rows) \<and> settled tw t v s else fst s' = ww_others w rows"
proof -
  have stale: "unless_stale uuid_text tw w (cm_id v) res (ww_others w rows, beats) = Some (Inr (), s') \<Longrightarrow>
      res = (if c then Inr (x, save_command x (ww_others w rows)) else Inl stale_claim) \<Longrightarrow>
      (c \<Longrightarrow> settled tw t v x) \<Longrightarrow> ?thesis" for res x
    using unless_stale_cases[of uuid_text tw w "cm_id v" res "(ww_others w rows, beats)" s']
    by (cases c) (auto intro!: exI[of _ x])
  show ?thesis
  proof (cases "tw_handlers tw (cm_command_type v)")
    case None
    let ?x = "failed_command (phase_two_error (cm_command_type v)) None t v"
    show ?thesis
    proof (rule stale[where x = ?x])
      show "unless_stale uuid_text tw w (cm_id v) (fail_command (cm_id v) token (phase_two_error (cm_command_type v)) None
          (ww_clock w) (ww_others w rows)) (ww_others w rows, beats) = Some (Inr (), s')"
        using run None token by (simp add: execute_command_def transition_failure_def Let_def)
      show "fail_command (cm_id v) token (phase_two_error (cm_command_type v)) None (ww_clock w) (ww_others w rows) =
          (if c then Inr (?x, save_command ?x (ww_others w rows)) else Inl stale_claim)"
        unfolding clk by (rule fail_answer[OF claim]) simp
      show "settled tw t v ?x" using None by (simp add: settled_def failed_settled)
    qed
  next
    case h: (Some h)
    show ?thesis
    proof (cases "h v")
      case (Inl e)
      have e: "e \<noteq> CancelledError" using run token h Inl by (auto simp: execute_command_def Let_def)
      let ?d = "retry_delay tw (cm_attempts v)" and ?x = "failed_command (format_error e) (Some (retry_delay tw (cm_attempts v))) t v"
      show ?thesis
      proof (rule stale[where x = ?x])
        show "unless_stale uuid_text tw w (cm_id v) (fail_command (cm_id v) token (format_error e) (Some ?d)
            (ww_clock w) (ww_others w rows)) (ww_others w rows, beats) = Some (Inr (), s')"
          using run h Inl e token by (simp add: execute_command_def transition_failure_def Let_def)
        show "fail_command (cm_id v) token (format_error e) (Some ?d) (ww_clock w) (ww_others w rows) =
            (if c then Inr (?x, save_command ?x (ww_others w rows)) else Inl stale_claim)"
          unfolding clk by (rule fail_answer[OF claim]) (simp add: delay)
        show "settled tw t v ?x" using h Inl by (simp add: settled_def failed_settled)
      qed
    next
      case (Inr answer)
      let ?x = "completed_command (json_compatible_result answer) t v"
      show ?thesis
      proof (rule stale[where x = ?x])
        show "unless_stale uuid_text tw w (cm_id v) (complete_command (cm_id v) token (json_compatible_result answer)
            (ww_clock w) (ww_others w rows)) (ww_others w rows, beats) = Some (Inr (), s')"
          using run h Inr token by (simp add: execute_command_def Let_def)
        show "complete_command (cm_id v) token (json_compatible_result answer) (ww_clock w) (ww_others w rows) =
            (if c then Inr (?x, save_command ?x (ww_others w rows)) else Inl stale_claim)"
          unfolding clk by (rule complete_answer[OF claim])
        show "settled tw t v ?x" using h Inr by (simp add: settled_def completed_settled)
      qed
    qed
  qed
qed

text \<open>What the worker relies on: the other sessions run the repository's code and no token is drawn twice.\<close>

definition worker_sessions :: "nat \<Rightarrow> worker_world \<Rightarrow> bool" where
  "worker_sessions N w \<longleftrightarrow> claim_sessions N (ww_claim w) \<and>
     (\<forall>k rows. command_runs (others_draw (cw_tokens (ww_claim w) k)) rows (ww_others w rows))"

lemma run_once_True:
  assumes "run_once uuid_text tw w s = Some (Inr True, s')"
  shows "\<exists>s1 v rows1. worker_beat tw (ww_beats w 0) WORKER_HEALTHY [(''state'', JStr ''idle'')] s = Some (Inr (), s1) \<and>
    claim_next (tw_worker_id tw) (tw_command_lease_seconds tw) (ww_claim w) (fst s1) = Some (Inr (Some v), rows1) \<and>
    execute_command uuid_text tw w v (rows1, snd s1) = Some (Inr (), s')"
proof -
  obtain r s1 where beat: "worker_beat tw (ww_beats w 0) WORKER_HEALTHY [(''state'', JStr ''idle'')] s = Some (r, s1)"
    using assms by (auto simp: run_once_def Option.bind_eq_Some_conv)
  show ?thesis
  proof (cases r)
    case (Inl e)
    with beat assms show ?thesis by (simp add: run_once_def)
  next
    case (Inr u)
    then obtain c rows1 where claim: "claim_next (tw_worker_id tw) (tw_command_lease_seconds tw) (ww_claim w) (fst s1) = Some (c, rows1)"
      using beat assms by (auto simp: run_once_def Option.bind_eq_Some_conv)
    show ?thesis
    proof (cases c)
      case (Inl e)
      with Inr beat claim assms show ?thesis by (simp add: run_once_def)
    next
      case found: (Inr v)
      show ?thesis
      proof (cases v)
        case None
        with found Inr beat claim assms show ?thesis by (simp add: run_once_def)
      next
        case (Some x)
        then have "execute_command uuid_text tw w x (rows1, snd s1) = Some (Inr (), s')"
          using found Inr beat claim assms by (auto simp: run_once_def bind_eq_Inr)
        then show ?thesis using beat claim Inr found Some by simp
      qed
    qed
  qed
qed

text \<open>
  C21: a cycle settles what it claims.  When \<open>run_once\<close> reports that it handled a command, it had claimed
  one, \<open>v\<close>, and after the handler ran, with any sessions beside it: if the row is still \<open>v\<close> and the claim still
  runs, the row has the one outcome the handler decides (the result, a retry after the capped back-off,
  the failure when no attempts are left, or the refusal of a type without handler), and no other row is
  written; otherwise the queue is left as the other sessions made it.
\<close>

theorem worker_settles_its_claim:
  assumes "make_worker worker_id version lease poll base most handlers = Inr tw"
    and "commands_inv rows" and "worker_sessions N w" and "ww_clock w = Some t"
    and "run_once uuid_text tw w (rows, beats) = Some (Inr True, rows', beats')"
  shows "\<exists>v rows1. claim_next (tw_worker_id tw) lease (ww_claim w) rows = Some (Inr (Some v), rows1) \<and>
    (if v \<in> set (ww_others w rows1) \<and> \<not> claim_expired t v
     then \<exists>s. rows' = save_command s (ww_others w rows1) \<and> settled tw t v s
     else rows' = ww_others w rows1)"
proof -
  have lease: "tw_command_lease_seconds tw = lease" "5 \<le> lease"
    using assms(1) by (auto simp: make_worker_def bind_eq_Inr raise_if_eq_Inr)
  obtain s1 v rows1 where beat: "worker_beat tw (ww_beats w 0) WORKER_HEALTHY [(''state'', JStr ''idle'')] (rows, beats) = Some (Inr (), s1)"
    and claim: "claim_next (tw_worker_id tw) lease (ww_claim w) (fst s1) = Some (Inr (Some v), rows1)"
    and run: "execute_command uuid_text tw w v (rows1, snd s1) = Some (Inr (), rows', beats')"
    using run_once_True[OF assms(5)] unfolding lease(1) by blast
  have claim: "claim_next (tw_worker_id tw) lease (ww_claim w) rows = Some (Inr (Some v), rows1)"
    using claim worker_beat_queue[OF beat] by simp
  have sessions: "claim_sessions N (ww_claim w)" using assms(3) by (simp add: worker_sessions_def)
  have "claim_from (tw_worker_id tw) lease (ww_claim w) 0 rows = Some (Inr (Some v), rows1)"
    using claim lease(2) by (simp add: claim_next_def)
  then obtain k where token: "cm_claim_token v = Some (cw_tokens (ww_claim w) k)"
    using claim_from_returns[OF sessions assms(2), of "tw_worker_id tw" lease 0] by (auto simp: claim_answer_def)
  have "command_runs (others_draw (cw_tokens (ww_claim w) k)) rows1 (ww_others w rows1)"
    using assms(3) by (simp add: worker_sessions_def)
  note check = claim_checked[OF assms(2) sessions claim token this, of t]
  have "0 \<le> retry_delay tw (cm_attempts v)" using retry_delay_formula[OF assms(1), of "cm_attempts v"] by linarith
  from execute_settles[OF token assms(4) check this run] claim show ?thesis by auto
qed

lemma stale_only:
  "require_active_claim row token now = Inl e \<Longrightarrow> e = stale_claim"
  by (auto simp: require_active_claim_def split: option.splits if_splits)

lemma fail_stale:
  assumes "fail_command i token err d (Some t) rows = Inl e" and "case d of None \<Rightarrow> True | Some k \<Rightarrow> 0 \<le> k"
  shows "e = stale_claim"
  using assms stale_only
  by (auto simp: fail_command_def bind_eq_Inl command_clock_Some[THEN iffD2] raise_if_def split: option.splits if_splits)

lemma complete_stale: "complete_command i token answer (Some t) rows = Inl e \<Longrightarrow> e = stale_claim"
  using stale_only by (auto simp: complete_command_def bind_eq_Inl command_clock_Some[THEN iffD2])

lemma execute_returns:
  assumes beat: "\<And>details rows. \<exists>s'. worker_beat tw (ww_beats w 1) WORKER_DEGRADED details (rows, beats) = Some (Inr (), s')"
    and clk: "ww_clock w = Some t" and delay: "0 \<le> retry_delay tw (cm_attempts v)"
  shows "\<exists>r s'. execute_command uuid_text tw w v (rows, beats) = Some (r, s') \<and> (r = Inl CancelledError \<or> r = Inr ())"
proof (cases "cm_claim_token v")
  case None
  obtain s' where "worker_beat tw (ww_beats w 1) WORKER_DEGRADED
      [(''state'', JStr ''claim_lost''), (''command_id'', JStr (uuid_text (cm_id v)))] (rows, beats) = Some (Inr (), s')"
    using beat by blast
  with None show ?thesis by (intro exI[of _ "Inr ()"] exI[of _ s']) (simp add: execute_command_def record_claim_lost_def)
next
  case token: (Some token)
  let ?s = "(ww_others w rows, beats)"
  have unless: "\<exists>s'. unless_stale uuid_text tw w i res ?s = Some (Inr (), s')" if "\<And>e. res = Inl e \<Longrightarrow> e = stale_claim" for i res
    using that beat by (cases res) (auto simp: unless_stale_def record_claim_lost_def split: prod.splits)
  have fail: "\<exists>s'. transition_failure uuid_text tw w v token err d ?s = Some (Inr (), s')"
    if "case d of None \<Rightarrow> True | Some k \<Rightarrow> 0 \<le> k" for err d
    unfolding transition_failure_def clk using unless fail_stale that by blast
  have comp: "\<exists>s'. unless_stale uuid_text tw w (cm_id v)
      (complete_command (cm_id v) token ans (ww_clock w) (ww_others w rows)) ?s = Some (Inr (), s')" for ans
    unfolding clk using unless complete_stale by blast
  show ?thesis
  proof (cases "tw_handlers tw (cm_command_type v)")
    case None
    then show ?thesis using token fail[of None "phase_two_error (cm_command_type v)"] by (auto simp: execute_command_def Let_def)
  next
    case h: (Some h)
    show ?thesis
    proof (cases "h v")
      case (Inl e)
      then show ?thesis using token h fail[of "Some (retry_delay tw (cm_attempts v))" "format_error e"] delay
        by (cases "e = CancelledError") (auto simp: execute_command_def Let_def)
    next
      case (Inr answer)
      then show ?thesis using token h comp[of "json_compatible_result answer"] by (auto simp: execute_command_def Let_def)
    qed
  qed
qed

lemma worker_beat_answers:
  assumes "beat_answer \<lparr>bq_role = ''trading'', bq_instance_id = tw_worker_id tw, bq_status = status, bq_version = tw_version tw,
      bq_details = details\<rparr> bw (record_heartbeat \<lparr>bq_role = ''trading'', bq_instance_id = tw_worker_id tw, bq_status = status,
      bq_version = tw_version tw, bq_details = details\<rparr> bw beats)" and "\<forall>n. bw_clock bw n \<noteq> None"
  shows "\<exists>beats'. worker_beat tw bw status details (rows, beats) = Some (Inr (), rows, beats') \<and>
    (''trading'', tw_worker_id tw) \<in> beat_key ` set beats'"
  using assms by (auto simp: worker_beat_def beat_answer_def)

text \<open>
  C22: a cycle ends.  Heartbeat rows are never deleted, new commands stop coming at some point, and the row
  id of a first heartbeat is new: then \<open>run_once\<close> returns from every state, both \<open>while True\<close> loops under it
  included, and with aware clocks it raises only what a handler cancels with.
\<close>

theorem worker_cycle_returns:
  assumes "make_worker worker_id version lease poll base most handlers = Inr tw"
    and "commands_inv rows" and "worker_sessions N w"
    and "beat_sessions (ww_beats w 0)" and "beat_sessions (ww_beats w 1)"
    and "bw_ids (ww_beats w 0) 0 \<notin> wh_id ` set (bw_others (ww_beats w 0) 1 (bw_others (ww_beats w 0) 0 beats))"
    and "\<forall>k n. bw_clock (ww_beats w k) n \<noteq> None" and "\<forall>n. cw_clock (ww_claim w) n \<noteq> None" and "ww_clock w \<noteq> None"
  shows "\<exists>r s. run_once uuid_text tw w (rows, beats) = Some (r, s) \<and> (r = Inl CancelledError \<or> (\<exists>b. r = Inr b))"
proof -
  have lease: "tw_command_lease_seconds tw = lease" "5 \<le> lease"
    using assms(1) by (auto simp: make_worker_def bind_eq_Inr raise_if_eq_Inr)
  obtain t where t: "ww_clock w = Some t" using assms(9) by blast
  have delay: "0 \<le> retry_delay tw a" for a using retry_delay_formula[OF assms(1), of a] by linarith
  obtain beats1 where s1: "worker_beat tw (ww_beats w 0) WORKER_HEALTHY [(''state'', JStr ''idle'')] (rows, beats) =
      Some (Inr (), rows, beats1)" "(''trading'', tw_worker_id tw) \<in> beat_key ` set beats1"
    using worker_beat_answers[OF record_heartbeat_returns[OF assms(4,6)]] assms(7) by blast
  have beat1: "\<exists>s'. worker_beat tw (ww_beats w 1) WORKER_DEGRADED details (cmds, beats1) = Some (Inr (), s')" for details cmds
    using worker_beat_answers[of tw WORKER_DEGRADED details "ww_beats w 1" beats1 cmds] beat_from_found[OF assms(5)] s1(2) assms(7)
    by (auto simp: record_heartbeat_def)
  obtain res cmds where f: "claim_from (tw_worker_id tw) lease (ww_claim w) 0 rows = Some (res, cmds)"
      "claim_answer (tw_worker_id tw) lease (ww_claim w) res cmds"
    using claim_from_returns[of N "ww_claim w" rows "tw_worker_id tw" lease 0] assms(2,3) by (auto simp: worker_sessions_def)
  have c: "claim_next (tw_worker_id tw) lease (ww_claim w) rows = Some (res, cmds)" using f(1) lease(2) by (simp add: claim_next_def)
  obtain found where found: "res = Inr found" using f(2) assms(8) unfolding claim_answer_def by (metis sum.exhaust)
  show ?thesis
  proof (cases found)
    case None
    then show ?thesis using s1 c found lease by (auto simp: run_once_def)
  next
    case (Some v)
    obtain r s' where "execute_command uuid_text tw w v (cmds, beats1) = Some (r, s')" "r = Inl CancelledError \<or> r = Inr ()"
      using execute_returns[OF beat1 t delay] by blast
    then show ?thesis using s1 c found lease Some by (auto simp: run_once_def)
  qed
qed

section \<open>Worked examples\<close>

definition quiet_beats :: beat_world where
  "quiet_beats = \<lparr>bw_ids = (\<lambda>n. n), bw_clock = (\<lambda>n. Some 20000000), bw_others = (\<lambda>n rows. rows)\<rparr>"

definition quiet_world :: worker_world where
  "quiet_world = \<lparr>ww_beats = (\<lambda>k. quiet_beats), ww_claim = sample_world, ww_clock = Some 25000000, ww_others = (\<lambda>rows. rows)\<rparr>"

lemma quiet_parts [simp]: "ww_beats quiet_world k = quiet_beats" "ww_claim quiet_world = sample_world"
  "ww_clock quiet_world = Some 25000000" "ww_others quiet_world rows = rows"
  "bw_ids quiet_beats n = n" "bw_clock quiet_beats n = Some 20000000" "bw_others quiet_beats n beats = beats"
  by (simp_all add: quiet_world_def quiet_beats_def)

lemma quiet_sessions: "worker_sessions N quiet_world" "beat_sessions quiet_beats"
  by (simp_all add: worker_sessions_def sample_sessions beat_sessions_def)

lemma plain_parts [simp]: "tw_worker_id (plain_worker h) = ''w''" "tw_command_lease_seconds (plain_worker h) = 30"
  "tw_handlers (plain_worker h) CMD_NOOP = Some h"
  by (simp_all add: plain_worker_def)

lemma first_beat: "record_heartbeat q quiet_beats [] = Some (Inr (new_beat q 0 20000000), [new_beat q 0 20000000])"
  using beat_from_last[of quiet_beats 0 20000000 q "[]" "(new_beat q 0 20000000, [new_beat q 0 20000000])"]
  by (simp add: record_heartbeat_def beat_round_def lock_beat_def first_where_def insert_row_def)

lemma quiet_cycle:
  "\<exists>s beats. run_once uuid_text (plain_worker handle_noop) quiet_world (sample_queue, []) =
     Some (Inr True, save_command s claimed_queue, beats)"
proof -
  have token: "cm_claim_token claimed_command = Some 101" "cm_command_type claimed_command = CMD_NOOP" "cm_id claimed_command = 2"
    by (simp_all add: claimed_command_def take_claim_def waiting_command_def new_command_def sample_ask_def)
  have "require_active_claim (lock_command 2 claimed_queue) 101 25000000 = Inr claimed_command" by code_simp
  then have done1: "complete_command 2 101 answer (Some 25000000) claimed_queue =
      Inr (completed_command answer 25000000 claimed_command, save_command (completed_command answer 25000000 claimed_command) claimed_queue)"
    for answer by (simp add: complete_command_def command_clock_Some[THEN iffD2])
  show ?thesis
    by (simp add: run_once_def worker_beat_def first_beat sample_claim execute_command_def token handle_noop_def done1
        unless_stale_def Let_def) blast
qed

theorem worker_settles_its_claim_witness:
  "\<exists>v s. v \<in> set claimed_queue \<and> settled (plain_worker handle_noop) 25000000 v s"
proof -
  obtain s beats where run: "run_once (\<lambda>i. []) (plain_worker handle_noop) quiet_world (sample_queue, []) =
      Some (Inr True, save_command s claimed_queue, beats)" using quiet_cycle by blast
  have "claimed_command \<in> set claimed_queue \<and> \<not> claim_expired 25000000 claimed_command"
    by (simp add: claimed_queue_def claimed_command_def take_claim_def claim_expired_def timedelta_seconds_def)
  then show ?thesis
    using worker_settles_its_claim[OF plain_worker_made sample_queue_inv quiet_sessions(1)[of 0] quiet_parts(3) run]
    by (auto simp: sample_claim)
qed

theorem worker_cycle_returns_witness:
  "\<exists>r s. run_once (\<lambda>i. []) (plain_worker handle_noop) quiet_world (sample_queue, []) = Some (r, s)"
proof -
  have "\<forall>n. cw_clock sample_world n \<noteq> None" by (simp add: sample_world_def)
  then show ?thesis
    using worker_cycle_returns[OF plain_worker_made sample_queue_inv quiet_sessions(1)[of 0], of "[]" "\<lambda>i. []" handle_noop]
      quiet_sessions(2) by auto
qed

end
