(* ===== verification/Spec2Isabelle.thy ===== *)
theory Spec2Isabelle
  imports OMS_Props Repository Budgets Gates Orderbook Causal Splits Releases Forecasts Registry Paper Venues
    Reading Sizing Runtime Runtime_Props Recovery Watchdog Control Dataset_Props Experiment_Props
    Leases Commands Operations Trading_Worker
begin

text \<open>
  A verification library for the production trading stack under \<open>src/qt/\<close>.

  \<^bold>\<open>The program.\<close>  Research is frozen as experiments on verified datasets; an experiment that
  passes the gates becomes a signed deployment; a deployment is activated on one account; its event loop
  turns market events into order intents, the order management system reserves, sends and books the orders, and
  a watchdog stops what it cannot vouch for.  All of them share one database.  Beside it runs the
  platform: a durable command queue, resource leases and worker processes with their own tables.

  \<^bold>\<open>Theories and code.\<close>
  \<^item> \<open>Prelude\<close>: errors as values, results, tables as lists of rows, the locales \<open>keyed_table\<close> (a table and
    its uniqueness constraint) and \<open>transition_system\<close> (steps and an invariant), which the
    component theories interpret on their own rows and steps.
  \<^item> \<open>Canonical\<close>, \<open>Contracts\<close>, \<open>Wire\<close>, \<open>Reading\<close>, \<open>Json_Numbers\<close>: \<open>contracts/base.py\<close> and
    \<open>contracts/models.py\<close>: canonical text, content hashes, the contract records with their validators, the reading
    of JSON back into contracts, and the doubles that JSON numbers denote.
  \<^item> \<open>Schema\<close>, \<open>Repository\<close>: \<open>persistence/schema.py\<close> and \<open>persistence/repository.py\<close>: rows, artifacts, jobs,
    events and health rows.
  \<^item> \<open>Risk\<close>, \<open>Budgets\<close>, \<open>Gates\<close>, \<open>Releases\<close>, \<open>Watchdog\<close>: the modules of \<open>operations/\<close>.
  \<^item> \<open>OMS\<close>, \<open>OMS_Inv\<close>, \<open>OMS_Props\<close>, \<open>Venues\<close>: \<open>execution/oms.py\<close>.  A \<open>with transaction()\<close> block is a function
    named \<open>.._tx\<close>; a call is a sequence of them around the venue's answers.  \<open>OMS_Inv\<close> has the step relation
    \<open>oms_step\<close> and its invariant, \<open>Venues\<close> shows that whole calls refine sequences of steps.
  \<^item> \<open>Paper\<close>: \<open>execution/simulated.py\<close>.  \<open>Sizing\<close>, \<open>Runtime\<close>, \<open>Runtime_Props\<close>, \<open>Recovery\<close>:
    \<open>execution/runtime.py\<close>, a method being a function of the loop's object and the database.
  \<^item> \<open>Orderbook\<close>, \<open>Causal\<close>: \<open>marketdata/orderbook.py\<close> and \<open>marketdata/causal.py\<close>.
  \<^item> \<open>Splits\<close>, \<open>Registry\<close>, \<open>Forecasts\<close>: \<open>experiments/splits.py\<close>, \<open>experiments/registry.py\<close>,
    \<open>forecasting/repository.py\<close>.
  \<^item> \<open>Datasets\<close>, \<open>Dataset_Props\<close>: \<open>datasets/registry.py\<close>.  \<open>Control\<close>, \<open>Experiments\<close>, \<open>Experiment_Props\<close>:
    \<open>control/service.py\<close>.
  \<^item> \<open>Leases\<close>, \<open>Commands\<close>, \<open>Operations\<close>, \<open>Trading_Worker\<close>: \<open>platform/leases.py\<close>, \<open>platform/commands.py\<close>,
    \<open>platform/operations.py\<close> with \<open>platform/health.py\<close>, and \<open>platform/worker.py\<close>.
  \<^item> \<open>Fixtures\<close>: the small world of the worked examples.

  \<^bold>\<open>What is shown.\<close>
  \<^item> Money and orders: over every interleaving of transactions, reservations equal the holds of the orders,
    fills explain filled quantities, the ledger balances, an order is sent at most once.
  \<^item> The loop and the venues: calls and events refine sequences of transactions, a halted loop sends
    nothing, expected failures are answered, a checkpoint reads back, an answered step is never resent, planned orders obey the
    venue's rules and planned sales are covered.
  \<^item> Market data and contracts: an accepted delta is the dictionary update it describes, a book recovers with one
    snapshot and one delta, the paper venue never sells depth twice, contracts read back to the last digit.
  \<^item> Releases: activation is gated, deployments are earned on eligible evidence, the watchdog only stops and a
    healthy report is earned.
  \<^item> Research: no look-ahead in splits, bars and replays, holdout windows are disjoint and population frozen once
    granted, one job for one experiment, dataset gaps are exact and their verification is one pass over the times.
  \<^item> Platform: leases fence off former holders, claims are exclusive, commands finish once, the claim loop and
    the worker's cycle return, a cycle settles what it claims, the health report is exact.

  \<^bold>\<open>Conventions and bounds.\<close>  Decimals are rational numbers and Python integers are \<open>int\<close>; where the code
  rounds to 80 digits (\<open>prec80\<close>) the model rounds too, looking through at most 200 leading zeros, more than
  the 38 digit columns allow.  Venue reconciliation reads at most 1000 pages, the bound of the code.
  Pages of events are at most 200 rows, the code's limit.  Loops whose end depends on other sessions
  (\<open>acquire_from\<close>, \<open>claim_from\<close>, \<open>beat_from\<close>) are partial functions in the option type, with
  theorems that they return (\<open>acquire_returns\<close>, \<open>claim_next_returns\<close>, \<open>record_heartbeat_returns\<close>); no fuel is
  involved there.

  \<^bold>\<open>Parameters.\<close>  The hash and the HMAC, the venue behind an adapter, the strategy, clocks and random
  UUIDs, the Parquet reader and the JSON decoder, command handlers, and what other sessions commit between two
  statements of a call.

  \<^bold>\<open>Not modelled.\<close>  SQL dialects, column widths, foreign keys and migrations; HTTP and process
  entry points; pydantic's coercions; the floating point parts (scores, bootstrap, statistics,
  indicators, strategies, back tests); the earlier execution and risk layers, the agent, dashboard, alert,
  prediction market and legacy packages, and third-party adapters.  They are input and output, numerical code
  whose result has no exact statement here, or applications that do not share the stack's state.
\<close>

end
